(* ===== verification/Prelude.thy ===== *)
theory Prelude
  imports Main "HOL-Library.Multiset"
begin

text \<open>
  The prelude of the development: the effect monad in which the handlers and repositories of
  the services are written (explicit state passing, errors as the left summand), the frame
  conditions that are stable under sequencing, and the list lemmas the components share.

  A Go function that returns a value and an error is modelled as an action
  of type \<open>('s, 'e, 'a) action\<close>: a function from the state to the error or the value,
  together with the state it leaves. \<open>bindA m k\<close> is the
  idiom \<^verbatim>\<open>x, err := m(); if err != nil { return err }; k(x)\<close>.
\<close>

named_theorems action_simps \<open>equations that unfold actions\<close>
named_theorems table_simps \<open>equations on the rows of tables\<close>
named_theorems frame_rules \<open>frame conditions of the primitive actions\<close>

type_synonym ('s, 'e, 'a) action = "'s \<Rightarrow> ('e + 'a) \<times> 's"

definition returnA :: "'a \<Rightarrow> ('s, 'e, 'a) action" where
  "returnA x = (\<lambda>s. (Inr x, s))"

definition throwA :: "'e \<Rightarrow> ('s, 'e, 'a) action" where
  "throwA e = (\<lambda>s. (Inl e, s))"

definition bindA :: "('s, 'e, 'a) action \<Rightarrow> ('a \<Rightarrow> ('s, 'e, 'b) action) \<Rightarrow> ('s, 'e, 'b) action" where
  "bindA m k = (\<lambda>s. case m s of (Inl e, s') \<Rightarrow> (Inl e, s') | (Inr x, s') \<Rightarrow> k x s')"

text \<open>A pure computation that may fail, run inside an action.\<close>

definition liftA :: "'e + 'a \<Rightarrow> ('s, 'e, 'a) action" where
  "liftA r = (\<lambda>s. (r, s))"

text \<open>The error of an action rewritten before it is returned (the idiom that wraps errors).\<close>

definition mapErrA :: "('e \<Rightarrow> 'e) \<Rightarrow> ('s, 'e, 'a) action \<Rightarrow> ('s, 'e, 'a) action" where
  "mapErrA f m = (\<lambda>s. case m s of (Inl e, s') \<Rightarrow> (Inl (f e), s') | (Inr x, s') \<Rightarrow> (Inr x, s'))"

text \<open>The error of an action as a value, for the branches that inspect it.\<close>

definition tryA :: "('s, 'e, 'a) action \<Rightarrow> ('s, 'e, 'e + 'a) action" where
  "tryA m = (\<lambda>s. case m s of (r, s') \<Rightarrow> (Inr r, s'))"

definition readA :: "('s \<Rightarrow> 'a) \<Rightarrow> ('s, 'e, 'a) action" where
  "readA f = (\<lambda>s. (Inr (f s), s))"

primrec forA :: "('a \<Rightarrow> ('s, 'e, unit) action) \<Rightarrow> 'a list \<Rightarrow> ('s, 'e, unit) action" where
  "forA f [] = returnA ()"
| "forA f (x # xs) = bindA (f x) (\<lambda>_. forA f xs)"

lemma returnA_iff [simp]: "returnA x s = (r, s') \<longleftrightarrow> r = Inr x \<and> s' = s"
  by (auto simp: returnA_def)

lemma throwA_iff [simp]: "throwA e s = (r, s') \<longleftrightarrow> r = Inl e \<and> s' = s"
  by (auto simp: throwA_def)

lemma liftA_iff [simp]: "liftA q s = (r, s') \<longleftrightarrow> r = q \<and> s' = s"
  by (auto simp: liftA_def)

lemma readA_iff [simp]: "readA f s = (r, s') \<longleftrightarrow> r = Inr (f s) \<and> s' = s"
  by (auto simp: readA_def)

lemma bindA_Inr_iff:
  "bindA m k s = (Inr y, s') \<longleftrightarrow> (\<exists>x s1. m s = (Inr x, s1) \<and> k x s1 = (Inr y, s'))"
  by (auto simp: bindA_def split: prod.splits sum.splits)

lemma bindA_Inl_iff:
  "bindA m k s = (Inl e, s') \<longleftrightarrow>
     m s = (Inl e, s') \<or> (\<exists>x s1. m s = (Inr x, s1) \<and> k x s1 = (Inl e, s'))"
  by (auto simp: bindA_def split: prod.splits sum.splits)

lemma mapErrA_Inr_iff [simp]: "mapErrA f m s = (Inr x, s') \<longleftrightarrow> m s = (Inr x, s')"
  by (auto simp: mapErrA_def split: prod.splits sum.splits)

lemma mapErrA_Inl_iff: "mapErrA f m s = (Inl e, s') \<longleftrightarrow> (\<exists>e'. m s = (Inl e', s') \<and> e = f e')"
  by (auto simp: mapErrA_def split: prod.splits sum.splits)

lemma tryA_iff: "tryA m s = (r, s') \<longleftrightarrow> (\<exists>q. m s = (q, s') \<and> r = Inr q)"
  by (auto simp: tryA_def split: prod.splits)

lemma bindA_run:
  "m s = (Inr x, s1) \<Longrightarrow> bindA m k s = k x s1"
  "m s = (Inl e, s1) \<Longrightarrow> bindA m k s = (Inl e, s1)"
  by (simp_all add: bindA_def)

lemma bindA_pure [simp]:
  "bindA (returnA x) k = k x"
  "bindA (throwA e) k = throwA e"
  "bindA (liftA (Inr x)) k = k x"
  "bindA (liftA (Inl e)) k = throwA e"
  by (simp_all add: bindA_def returnA_def throwA_def liftA_def fun_eq_iff)

text \<open>To read a successful run from left to right; used with \<open>liftA_iff\<close> removed.\<close>

lemma liftA_Inr: "liftA q s = (Inr x, s') \<longleftrightarrow> q = Inr x \<and> s' = s"
  by auto

lemmas run_action_Inr = bindA_Inr_iff liftA_Inr

lemmas action_Inr = bindA_Inr_iff mapErrA_Inr_iff tryA_iff

subsection \<open>Pure computations that may fail\<close>

text \<open>
  \<open>failIf b e\<close> is \<^verbatim>\<open>if b { return e }\<close>; \<open>errOpt r\<close> is \<^verbatim>\<open>if err := r; err != nil { return err }\<close>
  for a function that returns only an error.
\<close>

definition bindE :: "'e + 'a \<Rightarrow> ('a \<Rightarrow> 'e + 'b) \<Rightarrow> 'e + 'b" where
  "bindE r k = (case r of Inl e \<Rightarrow> Inl e | Inr x \<Rightarrow> k x)"

definition failIf :: "bool \<Rightarrow> 'e \<Rightarrow> 'e + unit" where
  "failIf b e = (if b then Inl e else Inr ())"

definition errOpt :: "'e option \<Rightarrow> 'e + unit" where
  "errOpt r = (case r of Some e \<Rightarrow> Inl e | None \<Rightarrow> Inr ())"

lemma bindE_simps [simp]: "bindE (Inl e) k = Inl e" "bindE (Inr x) k = k x"
  by (simp_all add: bindE_def)

lemma bindE_Inr_iff: "bindE r k = Inr y \<longleftrightarrow> (\<exists>x. r = Inr x \<and> k x = Inr y)"
  by (cases r) simp_all

lemma bindE_Inl_iff: "bindE r k = Inl e \<longleftrightarrow> r = Inl e \<or> (\<exists>x. r = Inr x \<and> k x = Inl e)"
  by (cases r) simp_all

lemma failIf_Inr_iff [simp]: "failIf b e = Inr u \<longleftrightarrow> \<not> b"
  by (simp add: failIf_def)

lemma failIf_Inl_iff [simp]: "failIf b e = Inl e' \<longleftrightarrow> b \<and> e' = e"
  by (auto simp: failIf_def)

lemma failIf_simps [simp]: "failIf True e = Inl e" "failIf False e = Inr ()"
  by (simp_all add: failIf_def)

lemma errOpt_Inr_iff [simp]: "errOpt r = Inr u \<longleftrightarrow> r = None"
  by (simp add: errOpt_def split: option.splits)

lemma errOpt_Inl_iff [simp]: "errOpt r = Inl e \<longleftrightarrow> r = Some e"
  by (simp add: errOpt_def split: option.splits)

lemma errOpt_simps [simp]: "errOpt None = Inr ()" "errOpt (Some e) = Inl e"
  by (simp_all add: errOpt_def)

subsection \<open>Frame conditions\<close>

text \<open>
  A frame is a preorder on states (\<open>the database is unchanged\<close>, \<open>the call log only grows\<close>).
  An action keeps it when every run, failing or not, is inside it; sequencing, loops,
  branches and error handling keep what their parts keep.
\<close>

locale frame =
  fixes R :: "'s \<Rightarrow> 's \<Rightarrow> bool"
  assumes R_refl: "R s s"
    and R_trans: "R s t \<Longrightarrow> R t u \<Longrightarrow> R s u"
begin

definition keeps :: "('s, 'e, 'a) action \<Rightarrow> bool" where
  "keeps m \<longleftrightarrow> (\<forall>s r s'. m s = (r, s') \<longrightarrow> R s s')"

lemma keepsD: "keeps m \<Longrightarrow> m s = (r, s') \<Longrightarrow> R s s'"
  by (simp add: keeps_def)

lemma keepsI: "(\<And>s r s'. m s = (r, s') \<Longrightarrow> R s s') \<Longrightarrow> keeps m"
  by (simp add: keeps_def)

lemma keeps_pure: "keeps (returnA x)" "keeps (throwA e)" "keeps (liftA q)" "keeps (readA f)"
  by (auto simp: keeps_def R_refl)

lemma keeps_bindA: "keeps m \<Longrightarrow> (\<And>x. keeps (k x)) \<Longrightarrow> keeps (bindA m k)"
proof (rule keepsI)
  fix s r s'
  assume m: "keeps m" and k: "\<And>x. keeps (k x)" and run: "bindA m k s = (r, s')"
  show "R s s'"
  proof (cases "m s")
    case (Pair q s1)
    from m Pair have 1: "R s s1" by (rule keepsD)
    show ?thesis
    proof (cases q)
      case (Inl e)
      with run Pair 1 show ?thesis by (simp add: bindA_def)
    next
      case (Inr x)
      with run Pair have "k x s1 = (r, s')" by (simp add: bindA_def)
      with k have "R s1 s'" by (rule keepsD)
      with 1 show ?thesis by (rule R_trans)
    qed
  qed
qed

lemma keeps_mapErrA: "keeps m \<Longrightarrow> keeps (mapErrA f m)"
  by (force simp: keeps_def mapErrA_def split: prod.splits sum.splits)

lemma keeps_tryA: "keeps m \<Longrightarrow> keeps (tryA m)"
  by (auto simp: keeps_def tryA_iff)

lemma keeps_if: "(b \<Longrightarrow> keeps m) \<Longrightarrow> (\<not> b \<Longrightarrow> keeps n) \<Longrightarrow> keeps (if b then m else n)"
  by simp

lemma keeps_option: "(v = None \<Longrightarrow> keeps m) \<Longrightarrow> (\<And>x. v = Some x \<Longrightarrow> keeps (k x)) \<Longrightarrow>
    keeps (case v of None \<Rightarrow> m | Some x \<Rightarrow> k x)"
  by (cases v) simp_all

lemma keeps_sum: "(\<And>e. v = Inl e \<Longrightarrow> keeps (h e)) \<Longrightarrow> (\<And>x. v = Inr x \<Longrightarrow> keeps (k x)) \<Longrightarrow>
    keeps (case v of Inl e \<Rightarrow> h e | Inr x \<Rightarrow> k x)"
  by (cases v) simp_all

lemma keeps_forA: "(\<And>x. keeps (f x)) \<Longrightarrow> keeps (forA f xs)"
  by (induction xs) (simp_all add: keeps_pure keeps_bindA)

lemmas keeps_rules =
  keeps_pure keeps_bindA keeps_mapErrA keeps_tryA keeps_if keeps_option keeps_sum keeps_forA

text \<open>The same for the failing runs only, as a transaction guarantees it.\<close>

definition keeps_on_error :: "('s, 'e, 'a) action \<Rightarrow> bool" where
  "keeps_on_error m \<longleftrightarrow> (\<forall>s e s'. m s = (Inl e, s') \<longrightarrow> R s s')"

lemma keeps_on_errorD: "keeps_on_error m \<Longrightarrow> m s = (Inl e, s') \<Longrightarrow> R s s'"
  by (simp add: keeps_on_error_def)

lemma keeps_on_errorI: "(\<And>s e s'. m s = (Inl e, s') \<Longrightarrow> R s s') \<Longrightarrow> keeps_on_error m"
  by (simp add: keeps_on_error_def)

lemma keeps_on_error_pure: "keeps_on_error (returnA x)" "keeps_on_error (throwA e)" "keeps_on_error (liftA q)"
  by (auto simp: keeps_on_error_def R_refl)

lemma keeps_on_error_bindA: "keeps m \<Longrightarrow> (\<And>x. keeps_on_error (k x)) \<Longrightarrow> keeps_on_error (bindA m k)"
  by (rule keeps_on_errorI) (auto simp: bindA_Inl_iff dest: keepsD keeps_on_errorD intro: R_trans)

end

subsection \<open>Lists\<close>

text \<open>\<^verbatim>\<open>LIMIT n\<close> after a stable \<^verbatim>\<open>ORDER BY key ASC\<close>.\<close>

definition order_by_limit :: "('r \<Rightarrow> int) \<Rightarrow> int \<Rightarrow> 'r list \<Rightarrow> 'r list" where
  "order_by_limit key n rows = take (nat n) (sort_key key rows)"

lemma set_order_by_limit: "set (order_by_limit key n rows) \<subseteq> set rows"
  by (auto simp: order_by_limit_def dest: in_set_takeD)

lemma length_order_by_limit: "0 \<le> n \<Longrightarrow> int (length (order_by_limit key n rows)) \<le> n"
  by (simp add: order_by_limit_def)

lemma mset_order_by_limit: "mset (order_by_limit key n rows) \<subseteq># mset rows"
proof -
  have "mset (take (nat n) (sort_key key rows)) \<subseteq># mset (sort_key key rows)"
    by (metis append_take_drop_id mset_append mset_subset_eq_add_left)
  then show ?thesis by (simp add: order_by_limit_def)
qed

lemma distinct_order_by_limit: "distinct rows \<Longrightarrow> distinct (order_by_limit key n rows)"
  by (simp add: order_by_limit_def)

lemma not_isl_Inr: "\<not> isl r \<Longrightarrow> \<exists>x. r = Inr x"
  by (cases r) simp_all

lemma find_Some_filter: "find P xs = Some x \<Longrightarrow> x \<in> set xs \<and> P x"
  by (induction xs) (auto split: if_splits)

lemma find_map_same:
  assumes "\<And>x. P (f x) = P x"
  shows "find P (map f xs) = map_option f (find P xs)"
  by (induction xs) (auto simp: assms)

lemma distinct_map_find:
  "distinct (map key xs) \<Longrightarrow> x \<in> set xs \<Longrightarrow> find (\<lambda>y. key y = key x) xs = Some x"
  by (induction xs) (auto simp: image_iff)

lemma distinct_map_unique:
  "distinct (map key xs) \<Longrightarrow> x \<in> set xs \<Longrightarrow> y \<in> set xs \<Longrightarrow> key x = key y \<Longrightarrow> x = y"
  by (metis distinct_map inj_on_def)

lemma sum_list_map_upd:
  fixes g :: "'a \<Rightarrow> int"
  shows "distinct (map key xs) \<Longrightarrow> x \<in> set xs \<Longrightarrow>
     sum_list (map (\<lambda>y. if key y = key x then h y else g y) xs) = sum_list (map g xs) - g x + h x"
proof (induction xs)
  case (Cons a xs)
  show ?case
  proof (cases "a = x")
    case True
    with Cons.prems have "map (\<lambda>y. if key y = key x then h y else g y) xs = map g xs"
      by (auto simp: image_iff)
    with True show ?thesis by (simp del: map_eq_conv)
  next
    case False
    with Cons.prems have "x \<in> set xs" and "key a \<noteq> key x" by (auto simp: image_iff)
    with Cons show ?thesis by simp
  qed
qed simp

end
