(* ===== verification/GoStrings.thy ===== *)
theory GoStrings
  imports Prelude
begin

text \<open>
  The parts of Go's \<^verbatim>\<open>strings\<close>, \<^verbatim>\<open>path\<close> and \<^verbatim>\<open>time\<close> packages the services use. A Go
  string is a byte sequence, here a \<^typ>\<open>string\<close> whose characters are the bytes.
  \<^verbatim>\<open>TrimSpace\<close> removes every white-space code point of Unicode, in its UTF-8 encoding;
  \<^verbatim>\<open>ToUpper\<close>, \<^verbatim>\<open>ToLower\<close> and \<^verbatim>\<open>EqualFold\<close> are modelled on the ASCII letters (the letters of the
  hash algorithms, hex digits and MIME types) and leave every other byte as it is.
\<close>

subsection \<open>Trimming\<close>

text \<open>The UTF-8 encodings of the code points for which \<^verbatim>\<open>unicode.IsSpace\<close> holds.\<close>

definition space_seqs :: "string list" where
  "space_seqs =
     [[CHR 0x20], [CHR 0x09], [CHR 0x0A], [CHR 0x0B], [CHR 0x0C], [CHR 0x0D],
      [CHR 0xC2, CHR 0x85], [CHR 0xC2, CHR 0xA0], [CHR 0xE1, CHR 0x9A, CHR 0x80],
      [CHR 0xE2, CHR 0x80, CHR 0x80], [CHR 0xE2, CHR 0x80, CHR 0x81], [CHR 0xE2, CHR 0x80, CHR 0x82],
      [CHR 0xE2, CHR 0x80, CHR 0x83], [CHR 0xE2, CHR 0x80, CHR 0x84], [CHR 0xE2, CHR 0x80, CHR 0x85],
      [CHR 0xE2, CHR 0x80, CHR 0x86], [CHR 0xE2, CHR 0x80, CHR 0x87], [CHR 0xE2, CHR 0x80, CHR 0x88],
      [CHR 0xE2, CHR 0x80, CHR 0x89], [CHR 0xE2, CHR 0x80, CHR 0x8A], [CHR 0xE2, CHR 0x80, CHR 0xA8],
      [CHR 0xE2, CHR 0x80, CHR 0xA9], [CHR 0xE2, CHR 0x80, CHR 0xAF], [CHR 0xE2, CHR 0x81, CHR 0x9F],
      [CHR 0xE3, CHR 0x80, CHR 0x80]]"

fun is_prefix :: "string \<Rightarrow> string \<Rightarrow> bool" where
  "is_prefix [] s = True"
| "is_prefix (p # ps) [] = False"
| "is_prefix (p # ps) (c # cs) = (p = c \<and> is_prefix ps cs)"

text \<open>The length of the first sequence of the list that the string starts with, or 0.\<close>

definition match_len :: "string list \<Rightarrow> string \<Rightarrow> nat" where
  "match_len seqs s = (case find (\<lambda>p. is_prefix p s) seqs of None \<Rightarrow> 0 | Some p \<Rightarrow> length p)"

function strip_left :: "string list \<Rightarrow> string \<Rightarrow> string" where
  "strip_left seqs s =
     (if s = [] \<or> match_len seqs s = 0 then s else strip_left seqs (drop (match_len seqs s) s))"
  by pat_completeness auto
termination
  by (relation "measure (\<lambda>(seqs, s). length s)") auto

declare strip_left.simps [simp del]

definition strip_right :: "string list \<Rightarrow> string \<Rightarrow> string" where
  "strip_right seqs s = rev (strip_left (map rev seqs) (rev s))"

definition TrimSpace :: "string \<Rightarrow> string" where
  "TrimSpace s = strip_right space_seqs (strip_left space_seqs s)"

lemma is_prefix_iff: "is_prefix p s \<longleftrightarrow> (\<exists>t. s = p @ t)"
  by (induction p s rule: is_prefix.induct) auto

lemma match_len_0: "\<forall>p \<in> set seqs. p \<noteq> [] \<Longrightarrow> match_len seqs s = 0 \<longleftrightarrow> (\<forall>p \<in> set seqs. \<not> is_prefix p s)"
  by (force simp: match_len_def find_None_iff split: option.splits dest: find_Some_filter)

lemma strip_left_done: "match_len seqs (strip_left seqs s) = 0 \<or> strip_left seqs s = []"
proof (induction seqs s rule: strip_left.induct)
  case (1 seqs s)
  show ?case
  proof (cases "s = [] \<or> match_len seqs s = 0")
    case True
    then show ?thesis by (auto simp: strip_left.simps [of seqs s])
  next
    case False
    with 1 show ?thesis by (simp add: strip_left.simps [of seqs s])
  qed
qed

lemma strip_left_stop: "match_len seqs s = 0 \<Longrightarrow> strip_left seqs s = s"
  by (simp add: strip_left.simps)

lemma strip_left_Nil [simp]: "strip_left seqs [] = []"
  by (simp add: strip_left.simps)

lemma strip_left_suffix: "\<exists>t. s = t @ strip_left seqs s"
proof (induction seqs s rule: strip_left.induct)
  case (1 seqs s)
  show ?case
  proof (cases "s = [] \<or> match_len seqs s = 0")
    case True
    then show ?thesis by (auto simp: strip_left.simps [of seqs s])
  next
    case False
    with 1 obtain t where "drop (match_len seqs s) s = t @ strip_left seqs (drop (match_len seqs s) s)"
      by blast
    then have "s = (take (match_len seqs s) s @ t) @ strip_left seqs (drop (match_len seqs s) s)"
      by (metis append_assoc append_take_drop_id)
    with False show ?thesis by (metis strip_left.simps)
  qed
qed

lemma strip_left_idem [simp]: "strip_left seqs (strip_left seqs s) = strip_left seqs s"
  using strip_left_done [of seqs s] by (auto simp: strip_left_stop)

lemma strip_right_idem [simp]: "strip_right seqs (strip_right seqs s) = strip_right seqs s"
  by (simp add: strip_right_def)

lemma strip_right_prefix: "\<exists>t. s = strip_right seqs s @ t"
proof -
  obtain t where "rev s = t @ strip_left (map rev seqs) (rev s)"
    using strip_left_suffix by blast
  then have "rev (rev s) = rev (t @ strip_left (map rev seqs) (rev s))" by simp
  then show ?thesis by (auto simp: strip_right_def)
qed

lemma space_seqs_nonempty: "\<forall>p \<in> set space_seqs. p \<noteq> []"
  by (simp add: space_seqs_def)

lemma TrimSpace_idem [simp]: "TrimSpace (TrimSpace s) = TrimSpace s"
proof -
  let ?l = "strip_left space_seqs s"
  let ?r = "strip_right space_seqs ?l"
  obtain t where t: "?l = ?r @ t" using strip_right_prefix by blast
  have "strip_left space_seqs ?r = ?r"
  proof (cases "?l = []")
    case True
    with t show ?thesis by simp
  next
    case False
    then have "match_len space_seqs ?l = 0" using strip_left_done by blast
    then have "\<forall>p \<in> set space_seqs. \<not> is_prefix p ?l"
      using match_len_0 [OF space_seqs_nonempty] by blast
    then have "\<forall>p \<in> set space_seqs. \<not> is_prefix p ?r"
      using t by (metis append_assoc is_prefix_iff)
    then have "match_len space_seqs ?r = 0"
      using match_len_0 [OF space_seqs_nonempty] by blast
    then show ?thesis by (rule strip_left_stop)
  qed
  then show ?thesis by (simp add: TrimSpace_def)
qed

lemma TrimSpace_Nil [simp]: "TrimSpace [] = []"
  by (simp add: TrimSpace_def strip_right_def)

text \<open>
  A string whose first and last bytes are printable ASCII characters is trimmed already; this
  evaluates \<^verbatim>\<open>TrimSpace\<close> on the literals of concrete runs.
\<close>

definition graphic :: "char \<Rightarrow> bool" where
  "graphic c \<longleftrightarrow> (32::nat) < of_char c \<and> of_char c < (127::nat)"

lemma graphic_space_seqs:
  "p \<in> set space_seqs \<Longrightarrow> \<not> graphic (hd p) \<and> \<not> graphic (last p)"
  by (auto simp: space_seqs_def graphic_def)

lemma TrimSpace_graphic:
  assumes "s \<noteq> []" and "graphic (hd s)" and "graphic (last s)"
  shows "TrimSpace s = s"
proof -
  have "\<not> is_prefix p s" if "p \<in> set space_seqs" for p
    using graphic_space_seqs [OF that] space_seqs_nonempty that assms
    by (metis hd_append2 is_prefix_iff)
  then have l: "match_len space_seqs s = 0"
    using match_len_0 [OF space_seqs_nonempty] by blast
  have ne: "\<forall>p \<in> set (map rev space_seqs). p \<noteq> []" using space_seqs_nonempty by auto
  have "\<not> is_prefix p (rev s)" if mem: "p \<in> set (map rev space_seqs)" for p
  proof
    assume "is_prefix p (rev s)"
    then obtain t where t: "rev s = p @ t" using is_prefix_iff by blast
    obtain q where q: "q \<in> set space_seqs" "p = rev q" using mem by auto
    have "last s = hd (rev s)" using assms(1) by (simp add: hd_rev)
    also have "\<dots> = last q" using t q ne mem by (simp add: hd_rev)
    finally show False using graphic_space_seqs [OF q(1)] assms(3) by simp
  qed
  then have r: "match_len (map rev space_seqs) (rev s) = 0"
    using match_len_0 [OF ne] by blast
  show ?thesis by (simp add: TrimSpace_def strip_right_def strip_left_stop l r)
qed

subsection \<open>Letter case\<close>

definition lower_char :: "char \<Rightarrow> char" where
  "lower_char c = (if (65::nat) \<le> of_char c \<and> of_char c \<le> (90::nat) then char_of (of_char c + 32 :: nat) else c)"

definition upper_char :: "char \<Rightarrow> char" where
  "upper_char c = (if (97::nat) \<le> of_char c \<and> of_char c \<le> (122::nat) then char_of (of_char c - 32 :: nat) else c)"

definition ToLower :: "string \<Rightarrow> string" where
  "ToLower = map lower_char"

definition ToUpper :: "string \<Rightarrow> string" where
  "ToUpper = map upper_char"

definition EqualFold :: "string \<Rightarrow> string \<Rightarrow> bool" where
  "EqualFold s t = (ToLower s = ToLower t)"

lemma lower_char_idem [simp]: "lower_char (lower_char c) = lower_char c"
  by (simp add: lower_char_def take_bit_eq_mod)

lemma upper_char_idem [simp]: "upper_char (upper_char c) = upper_char c"
  by (auto simp: upper_char_def take_bit_eq_mod)

text \<open>Changing the case of letters neither makes nor removes white space.\<close>

lemma is_prefix_map:
  "(\<And>b c. b \<in> set p \<Longrightarrow> f c = b \<longleftrightarrow> c = b) \<Longrightarrow> is_prefix p (map f s) = is_prefix p s"
proof (induction p s rule: is_prefix.induct)
  case (3 p ps c cs)
  have "p = f c \<longleftrightarrow> p = c" using "3.prems" [of p c] by auto
  moreover have "is_prefix ps (map f cs) = is_prefix ps cs" by (rule "3.IH") (simp add: "3.prems")
  ultimately show ?case by simp
qed simp_all

lemma match_len_map:
  assumes "\<And>p b c. p \<in> set seqs \<Longrightarrow> b \<in> set p \<Longrightarrow> f c = b \<longleftrightarrow> c = b"
  shows "match_len seqs (map f s) = match_len seqs s"
proof -
  have "find (\<lambda>p. is_prefix p (map f s)) seqs = find (\<lambda>p. is_prefix p s) seqs"
    by (rule find_cong) (auto intro!: is_prefix_map dest: assms)
  then show ?thesis by (simp add: match_len_def)
qed

lemma strip_left_map:
  assumes "\<And>p b c. p \<in> set seqs \<Longrightarrow> b \<in> set p \<Longrightarrow> f c = b \<longleftrightarrow> c = b"
  shows "strip_left seqs (map f s) = map f (strip_left seqs s)"
  using assms
proof (induction seqs s rule: strip_left.induct)
  case (1 seqs s)
  have len: "match_len seqs (map f s) = match_len seqs s" by (rule match_len_map) (rule 1)
  show ?case
  proof (cases "s = [] \<or> match_len seqs s = 0")
    case True
    with len show ?thesis by (auto simp: strip_left.simps [of seqs "map f s"] strip_left.simps [of seqs s])
  next
    case False
    with 1 have "strip_left seqs (map f (drop (match_len seqs s) s)) = map f (strip_left seqs (drop (match_len seqs s) s))"
      by blast
    with False len show ?thesis
      by (simp add: strip_left.simps [of seqs "map f s"] strip_left.simps [of seqs s] drop_map)
  qed
qed

lemma TrimSpace_map:
  assumes "\<And>p b c. p \<in> set space_seqs \<Longrightarrow> b \<in> set p \<Longrightarrow> f c = b \<longleftrightarrow> c = b"
  shows "TrimSpace (map f s) = map f (TrimSpace s)"
proof -
  have "strip_left (map rev space_seqs) (map f t) = map f (strip_left (map rev space_seqs) t)" for t
  proof (rule strip_left_map)
    fix p b c assume "p \<in> set (map rev space_seqs)" "b \<in> set p"
    then obtain q where "q \<in> set space_seqs" "b \<in> set q" by auto
    then show "f c = b \<longleftrightarrow> c = b" by (rule assms)
  qed
  then show ?thesis
    by (simp add: TrimSpace_def strip_right_def strip_left_map assms rev_map)
qed

lemma space_byte_not_letter:
  "p \<in> set space_seqs \<Longrightarrow> b \<in> set p \<Longrightarrow>
     of_char b < (65::nat) \<or> (122::nat) < of_char b"
  by (auto simp: space_seqs_def)

lemma TrimSpace_ToLower: "TrimSpace (ToLower s) = ToLower (TrimSpace s)"
  unfolding ToLower_def
proof (rule TrimSpace_map)
  fix p b c assume "p \<in> set space_seqs" "b \<in> set p"
  from space_byte_not_letter [OF this] show "lower_char c = b \<longleftrightarrow> c = b"
    by (auto simp: lower_char_def take_bit_eq_mod split: if_splits)
qed

lemma TrimSpace_ToUpper: "TrimSpace (ToUpper s) = ToUpper (TrimSpace s)"
  unfolding ToUpper_def
proof (rule TrimSpace_map)
  fix p b c assume "p \<in> set space_seqs" "b \<in> set p"
  from space_byte_not_letter [OF this] show "upper_char c = b \<longleftrightarrow> c = b"
    by (auto simp: upper_char_def take_bit_eq_mod split: if_splits)
qed

lemma ToLower_idem [simp]: "ToLower (ToLower s) = ToLower s"
  by (simp add: ToLower_def)

lemma ToUpper_idem [simp]: "ToUpper (ToUpper s) = ToUpper s"
  by (simp add: ToUpper_def)

subsection \<open>Cut sets, joining and slash-separated paths\<close>

text \<open>\<^verbatim>\<open>strings.Trim(s, cutset)\<close> for an ASCII cut set.\<close>

definition Trim :: "string \<Rightarrow> string \<Rightarrow> string" where
  "Trim s cutset = (let seqs = map (\<lambda>c. [c]) cutset in strip_right seqs (strip_left seqs s))"

text \<open>\<^verbatim>\<open>strings.Join(elems, sep)\<close>.\<close>

fun Join :: "string list \<Rightarrow> string \<Rightarrow> string" where
  "Join [] sep = []"
| "Join [x] sep = x"
| "Join (x # y # ys) sep = x @ sep @ Join (y # ys) sep"

fun split_slash :: "string \<Rightarrow> string list" where
  "split_slash [] = [[]]"
| "split_slash (c # cs) =
     (if c = CHR ''/'' then [] # split_slash cs
      else case split_slash cs of [] \<Rightarrow> [[c]] | x # xs \<Rightarrow> (c # x) # xs)"

text \<open>
  \<^verbatim>\<open>path.Clean\<close>: empty and \<open>''.''\<close> elements vanish, \<open>''..''\<close> removes the element before it, or
  stays at the front of a path that is not rooted. The stack holds the elements in reverse.
\<close>

definition clean_step :: "bool \<Rightarrow> string list \<Rightarrow> string \<Rightarrow> string list" where
  "clean_step rooted stack e =
     (if e = [] \<or> e = ''.'' then stack
      else if e = ''..'' then
        (case stack of [] \<Rightarrow> if rooted then [] else [''..'']
         | x # xs \<Rightarrow> if x = ''..'' then ''..'' # stack else xs)
      else e # stack)"

definition path_Clean :: "string \<Rightarrow> string" where
  "path_Clean p =
     (if p = [] then ''.''
      else let rooted = (hd p = CHR ''/'');
               body = Join (rev (foldl (clean_step rooted) [] (split_slash p))) ''/''
           in if rooted then CHR ''/'' # body else if body = [] then ''.'' else body)"

text \<open>\<^verbatim>\<open>path.Join\<close>: leading empty elements are skipped, the rest is joined with slashes and cleaned.\<close>

definition path_Join :: "string list \<Rightarrow> string" where
  "path_Join elems =
     (let es = dropWhile (\<lambda>e. e = []) elems in
      if es = [] then [] else path_Clean (Join es ''/''))"

text \<open>A path element that cleaning keeps as it is.\<close>

definition plain_element :: "string \<Rightarrow> bool" where
  "plain_element e \<longleftrightarrow> e \<noteq> [] \<and> e \<noteq> ''.'' \<and> e \<noteq> ''..'' \<and> CHR ''/'' \<notin> set e"

lemma split_slash_plain: "CHR ''/'' \<notin> set e \<Longrightarrow> split_slash e = [e]"
  by (induction e) auto

lemma split_slash_cons: "CHR ''/'' \<notin> set e \<Longrightarrow> split_slash (e @ CHR ''/'' # r) = e # split_slash r"
  by (induction e) auto

lemma split_slash_Join:
  "es \<noteq> [] \<Longrightarrow> \<forall>e \<in> set es. CHR ''/'' \<notin> set e \<Longrightarrow> split_slash (Join es ''/'') = es"
  by (induction es "''/''" rule: Join.induct) (simp_all add: split_slash_plain split_slash_cons)

lemma foldl_clean_plain:
  "\<forall>e \<in> set es. plain_element e \<Longrightarrow> foldl (clean_step rooted) stack es = rev es @ stack"
  by (induction es arbitrary: stack) (auto simp: clean_step_def plain_element_def)

lemma path_Join_plain:
  assumes "es \<noteq> []" and "\<forall>e \<in> set es. plain_element e"
  shows "path_Join es = Join es ''/''"
proof -
  obtain x xs where es: "es = x # xs" using assms(1) by (cases es) auto
  then have x: "plain_element x" using assms(2) by simp
  then have hd: "hd (Join es ''/'') = hd x" and ne: "Join es ''/'' \<noteq> []"
    using es by (cases xs; simp add: plain_element_def)+
  from x have "hd x \<noteq> CHR ''/''" by (cases x) (auto simp: plain_element_def)
  moreover have "\<forall>e \<in> set es. CHR ''/'' \<notin> set e" using assms(2) by (auto simp: plain_element_def)
  ultimately have "path_Clean (Join es ''/'') = Join es ''/''"
    using assms ne hd by (simp add: path_Clean_def split_slash_Join foldl_clean_plain)
  moreover have "dropWhile (\<lambda>e. e = []) es = es" using es x by (simp add: plain_element_def)
  ultimately show ?thesis using assms(1) by (simp add: path_Join_def)
qed

text \<open>\<^verbatim>\<open>strings.Contains(s, substr)\<close>, and \<^verbatim>\<open>%q\<close> of a string of plain letters.\<close>

fun Contains :: "string \<Rightarrow> string \<Rightarrow> bool" where
  "Contains [] substr = is_prefix substr []"
| "Contains (c # cs) substr = (is_prefix substr (c # cs) \<or> Contains cs substr)"

definition quoted :: "string \<Rightarrow> string" where
  "quoted s = [CHR 0x22] @ s @ [CHR 0x22]"

lemma is_prefix_append: "is_prefix p (p @ s)"
  by (simp add: is_prefix_iff)

lemma Contains_iff: "Contains s substr \<longleftrightarrow> (\<exists>a b. s = a @ substr @ b)"
proof (induction s)
  case (Cons c cs)
  have "(\<exists>a b. c # cs = a @ substr @ b) \<longleftrightarrow> (\<exists>b. c # cs = substr @ b) \<or> (\<exists>a b. cs = a @ substr @ b)"
    by (metis append_Cons append_Nil list.inject neq_Nil_conv)
  with Cons show ?case by (simp add: is_prefix_iff)
qed (auto simp: is_prefix_iff)

subsection \<open>Trimming only removes\<close>

lemma set_strip_left: "set (strip_left seqs s) \<subseteq> set s"
  using strip_left_suffix [of s seqs] by (metis Un_upper2 set_append)

lemma set_strip_right: "set (strip_right seqs s) \<subseteq> set s"
  using strip_right_prefix [of s seqs] by (metis Un_upper1 set_append)

lemma set_TrimSpace: "set (TrimSpace s) \<subseteq> set s"
  using set_strip_left set_strip_right unfolding TrimSpace_def by fast

lemma set_Trim: "set (Trim s cutset) \<subseteq> set s"
  using set_strip_left set_strip_right unfolding Trim_def Let_def by fast

end
