(* ===== verification/XErrors.thy ===== *)
theory XErrors
  imports GoStrings
begin

text \<open>
  Errors as values. \<open>go_error\<close> is the interface value \<^verbatim>\<open>error\<close> with the concrete types the
  repository puts into it: \<^verbatim>\<open>*xerrors.Error\<close> (a code, a message, details and an optional
  cause), package-level sentinels made by \<^verbatim>\<open>errors.New\<close>, the errors of \<^verbatim>\<open>fmt.Errorf\<close> with
  and without the wrapping verb, and \<^verbatim>\<open>errors.Join\<close>. The package
  \<^verbatim>\<open>src/pkg/xerrors/errors.go\<close> is modelled whole: constructors, the rendered message, the
  code of a chain and the HTTP status.
\<close>

type_synonym Code = string

definition CodeInvalidArgument :: Code where "CodeInvalidArgument = ''INVALID_ARGUMENT''"
definition CodePayloadTooLarge :: Code where "CodePayloadTooLarge = ''PAYLOAD_TOO_LARGE''"
definition CodeUnauthorized :: Code where "CodeUnauthorized = ''UNAUTHORIZED''"
definition CodeForbidden :: Code where "CodeForbidden = ''FORBIDDEN''"
definition CodeNotFound :: Code where "CodeNotFound = ''NOT_FOUND''"
definition CodeConflict :: Code where "CodeConflict = ''CONFLICT''"
definition CodeRateLimited :: Code where "CodeRateLimited = ''RATE_LIMITED''"
definition CodeInternalError :: Code where "CodeInternalError = ''INTERNAL_ERROR''"
definition CodeServiceUnavailable :: Code where "CodeServiceUnavailable = ''SERVICE_UNAVAILABLE''"

lemmas platform_code_defs =
  CodeInvalidArgument_def CodePayloadTooLarge_def CodeUnauthorized_def CodeForbidden_def
  CodeNotFound_def CodeConflict_def CodeRateLimited_def CodeInternalError_def
  CodeServiceUnavailable_def

definition httpStatusByCode :: "(Code \<times> nat) list" where
  "httpStatusByCode =
     [(CodeInvalidArgument, 400), (CodePayloadTooLarge, 413), (CodeUnauthorized, 401),
      (CodeForbidden, 403), (CodeNotFound, 404), (CodeConflict, 409), (CodeRateLimited, 429),
      (CodeInternalError, 500), (CodeServiceUnavailable, 503),
      (''FILE_NOT_FOUND'', 404), (''FILE_ACCESS_DENIED'', 403), (''ACCESS_TICKET_INVALID'', 404),
      (''ACCESS_TICKET_EXPIRED'', 404), (''DOWNLOAD_NOT_ALLOWED'', 403), (''TENANT_SCOPE_DENIED'', 403),
      (''ADMIN_PERMISSION_DENIED'', 403), (''TENANT_NOT_FOUND'', 404), (''TENANT_STATUS_INVALID'', 409),
      (''TENANT_POLICY_INVALID'', 400), (''AUDIT_QUERY_INVALID'', 400),
      (''UPLOAD_SESSION_NOT_FOUND'', 404), (''UPLOAD_SESSION_STATE_CONFLICT'', 409),
      (''UPLOAD_COMPLETE_IN_PROGRESS'', 409), (''UPLOAD_MODE_INVALID'', 400),
      (''UPLOAD_HASH_REQUIRED'', 400), (''UPLOAD_HASH_INVALID'', 400),
      (''UPLOAD_HASH_UNSUPPORTED'', 400), (''UPLOAD_HASH_MISMATCH'', 409),
      (''UPLOAD_PARTS_MISSING'', 409), (''UPLOAD_MULTIPART_NOT_FOUND'', 409),
      (''UPLOAD_MULTIPART_CONFLICT'', 409), (''TENANT_QUOTA_EXCEEDED'', 409),
      (''MIME_TYPE_NOT_ALLOWED'', 400), (''UPLOAD_COMPLETION_OWNERSHIP_INVALID'', 400)]"

text \<open>The values of \<^verbatim>\<open>Details\<close>, a \<^verbatim>\<open>map[string]any\<close> the code fills with strings, ints and string lists.\<close>

datatype dval = DStr string | DInt int | DStrs "string list"

type_synonym Details = "(string \<times> dval) list"

datatype go_error =
    XError (xe_Code: Code) (xe_Message: string) (xe_Details: Details) (xe_Err: "go_error option")
  | Sentinel string
  | Errorf string
  | ErrorfW string go_error
  | Joined "go_error list"

text \<open>An operation that returns a value and an error.\<close>

type_synonym 'a result = "go_error + 'a"

definition cloneDetails :: "Details \<Rightarrow> Details" where
  "cloneDetails details = (if length details = 0 then [] else map (\<lambda>(key, value). (key, value)) details)"

definition New :: "Code \<Rightarrow> string \<Rightarrow> Details \<Rightarrow> go_error" where
  "New code message details = XError code message (cloneDetails details) None"

definition Wrap :: "Code \<Rightarrow> string \<Rightarrow> go_error \<Rightarrow> Details \<Rightarrow> go_error" where
  "Wrap code message err details = XError code message (cloneDetails details) (Some err)"

text \<open>The separator of \<^verbatim>\<open>errors.Join\<close> is a newline.\<close>

fun Error :: "go_error \<Rightarrow> string" where
  "Error (XError code message details None) = code @ '': '' @ message"
| "Error (XError code message details (Some err)) = code @ '': '' @ message @ '': '' @ Error err"
| "Error (Sentinel s) = s"
| "Error (Errorf s) = s"
| "Error (ErrorfW s err) = s"
| "Error (Joined []) = []"
| "Error (Joined [e]) = Error e"
| "Error (Joined (e # e' # es)) = Error e @ [CHR 0x0A] @ Error (Joined (e' # es))"

text \<open>
  \<^verbatim>\<open>CodeOf\<close> walks the chain of single \<^verbatim>\<open>Unwrap() error\<close> methods; a joined error has
  \<^verbatim>\<open>Unwrap() []error\<close> only, so the walk stops there.
\<close>

fun CodeOf :: "go_error \<Rightarrow> Code" where
  "CodeOf (XError code message details err) = code"
| "CodeOf (ErrorfW s err) = CodeOf err"
| "CodeOf (Sentinel s) = []"
| "CodeOf (Errorf s) = []"
| "CodeOf (Joined es) = []"

definition StatusFromCode :: "Code \<Rightarrow> nat" where
  "StatusFromCode code = (case map_of httpStatusByCode code of
     Some status \<Rightarrow> status
   | None \<Rightarrow> the (map_of httpStatusByCode CodeInternalError))"

definition StatusOf :: "go_error option \<Rightarrow> nat" where
  "StatusOf err = (case err of
     None \<Rightarrow> 200
   | Some e \<Rightarrow> (let code = CodeOf e in
       if code = [] then StatusFromCode CodeInternalError else StatusFromCode code))"

definition HTTPStatus :: "go_error \<Rightarrow> nat" where
  "HTTPStatus e = StatusFromCode (xe_Code e)"

text \<open>\<^verbatim>\<open>errors.Is\<close> against a sentinel.\<close>

fun errors_Is :: "go_error \<Rightarrow> string \<Rightarrow> bool" where
  "errors_Is (XError code message details err) target =
     (case err of None \<Rightarrow> False | Some e \<Rightarrow> errors_Is e target)"
| "errors_Is (ErrorfW s err) target = errors_Is err target"
| "errors_Is (Sentinel s) target = (s = target)"
| "errors_Is (Errorf s) target = False"
| "errors_Is (Joined es) target = (\<exists>e \<in> set es. errors_Is e target)"

lemma cloneDetails_id [simp]: "cloneDetails d = d"
  by (simp add: cloneDetails_def)

lemma CodeOf_New [simp]: "CodeOf (New code message details) = code"
  by (simp add: New_def)

lemma CodeOf_Wrap [simp]: "CodeOf (Wrap code message err details) = code"
  by (simp add: Wrap_def)

lemma New_inject [simp]:
  "New c m d = New c' m' d' \<longleftrightarrow> c = c' \<and> m = m' \<and> d = d'"
  by (simp add: New_def)

text \<open>
  The table has an entry for every code it is asked about, every status is a client or
  server error, and an unknown code is an internal error.
\<close>

lemma StatusFromCode_range: "400 \<le> StatusFromCode code \<and> StatusFromCode code \<le> 503"
proof (cases "map_of httpStatusByCode code")
  case None
  then show ?thesis by (simp add: StatusFromCode_def) (simp add: httpStatusByCode_def platform_code_defs)
next
  case (Some n)
  then have "(code, n) \<in> set httpStatusByCode" by (rule map_of_SomeD)
  with Some show ?thesis by (auto simp: StatusFromCode_def httpStatusByCode_def)
qed

end
