(* ===== verification/StorageTypes.thy ===== *)
theory StorageTypes
  imports XErrors
begin

text \<open>
  Time and the shared storage types: \<^verbatim>\<open>src/pkg/storage/types.go\<close> and
  \<^verbatim>\<open>src/pkg/storage/errors.go\<close>. An instant is the number of nanoseconds since the zero
  time of Go's \<^verbatim>\<open>time.Time\<close>; the location it carries is not an instant's identity, so
  \<^verbatim>\<open>UTC()\<close> is the identity here and is not written. A duration is a number of nanoseconds.
\<close>

type_synonym time = int
type_synonym duration = int

definition IsZero :: "time \<Rightarrow> bool" where
  "IsZero t = (t = 0)"

definition second :: duration where "second = 1000000000"
definition minute :: duration where "minute = 60 * second"
definition hour :: duration where "hour = 60 * minute"

lemmas duration_defs = second_def minute_def hour_def



datatype Provider = ProviderS3 | ProviderMinIO | ProviderOther string

datatype AccessLevel = AccessLevelPublic | AccessLevelPrivate | AccessLevelOther string

fun provider_string :: "Provider \<Rightarrow> string" where
  "provider_string ProviderS3 = ''S3''"
| "provider_string ProviderMinIO = ''MINIO''"
| "provider_string (ProviderOther s) = s"

fun access_level_string :: "AccessLevel \<Rightarrow> string" where
  "access_level_string AccessLevelPublic = ''PUBLIC''"
| "access_level_string AccessLevelPrivate = ''PRIVATE''"
| "access_level_string (AccessLevelOther s) = s"

definition ErrObjectNotFound :: string where "ErrObjectNotFound = ''storage: object not found''"
definition ErrMultipartNotFound :: string where "ErrMultipartNotFound = ''storage: multipart upload not found''"
definition ErrMultipartConflict :: string where "ErrMultipartConflict = ''storage: multipart conflict''"
definition ErrInvalidBucketConfig :: string where "ErrInvalidBucketConfig = ''storage: invalid bucket config''"

record BucketRef =
  br_Provider :: Provider
  br_BucketName :: string
  br_PublicBase :: string

record ObjectRef =
  or_Provider :: Provider
  or_BucketName :: string
  or_ObjectKey :: string

definition ObjectRef_Validate :: "ObjectRef \<Rightarrow> go_error option" where
  "ObjectRef_Validate r =
     (if provider_string (or_Provider r) = []
      then Some (ErrorfW (ErrInvalidBucketConfig @ '': provider is required'') (Sentinel ErrInvalidBucketConfig))
      else if or_BucketName r = []
      then Some (ErrorfW (ErrInvalidBucketConfig @ '': bucket name is required'') (Sentinel ErrInvalidBucketConfig))
      else if or_ObjectKey r = []
      then Some (ErrorfW (ErrInvalidBucketConfig @ '': object key is required'') (Sentinel ErrInvalidBucketConfig))
      else None)"

record UploadedPart =
  pt_PartNumber :: int
  pt_ETag :: string
  pt_SizeBytes :: int
  pt_Checksum :: string

record ObjectMetadata =
  om_SizeBytes :: int
  om_ContentType :: string
  om_ETag :: string
  om_Checksum :: string
  om_VersionID :: string

lemma ObjectRef_Validate_None:
  "ObjectRef_Validate r = None \<longleftrightarrow>
     provider_string (or_Provider r) \<noteq> [] \<and> or_BucketName r \<noteq> [] \<and> or_ObjectKey r \<noteq> []"
  by (simp add: ObjectRef_Validate_def)

end
