(* ===== verification/UploadDomain.thy ===== *)
theory UploadDomain
  imports StorageTypes
begin

text \<open>
  The domain of the upload service, \<^verbatim>\<open>src/internal/services/upload/domain\<close>: content hashes,
  upload modes, session states, completion ownership, the caller's authorization, and the
  upload session itself with every method that changes it. The lemmas of this theory give
  the meaning of validation as a conjunction and show what each method does to the session.
\<close>

subsection \<open>Errors (\<^verbatim>\<open>errors.go\<close>)\<close>

definition CodeUploadSessionNotFound :: Code where "CodeUploadSessionNotFound = ''UPLOAD_SESSION_NOT_FOUND''"
definition CodeUploadModeInvalid :: Code where "CodeUploadModeInvalid = ''UPLOAD_MODE_INVALID''"
definition CodeUploadHashRequired :: Code where "CodeUploadHashRequired = ''UPLOAD_HASH_REQUIRED''"
definition CodeUploadHashInvalid :: Code where "CodeUploadHashInvalid = ''UPLOAD_HASH_INVALID''"
definition CodeUploadHashUnsupported :: Code where "CodeUploadHashUnsupported = ''UPLOAD_HASH_UNSUPPORTED''"
definition CodeUploadHashMismatch :: Code where "CodeUploadHashMismatch = ''UPLOAD_HASH_MISMATCH''"
definition CodeUploadCompletionOwnershipInvalid :: Code where
  "CodeUploadCompletionOwnershipInvalid = ''UPLOAD_COMPLETION_OWNERSHIP_INVALID''"
definition CodeUploadSessionStateConflict :: Code where
  "CodeUploadSessionStateConflict = ''UPLOAD_SESSION_STATE_CONFLICT''"
definition CodeUploadCompleteInProgress :: Code where
  "CodeUploadCompleteInProgress = ''UPLOAD_COMPLETE_IN_PROGRESS''"
definition CodeUploadPartsMissing :: Code where "CodeUploadPartsMissing = ''UPLOAD_PARTS_MISSING''"
definition CodeUploadMultipartNotFound :: Code where
  "CodeUploadMultipartNotFound = ''UPLOAD_MULTIPART_NOT_FOUND''"
definition CodeUploadMultipartConflict :: Code where
  "CodeUploadMultipartConflict = ''UPLOAD_MULTIPART_CONFLICT''"
definition CodeTenantQuotaExceeded :: Code where "CodeTenantQuotaExceeded = ''TENANT_QUOTA_EXCEEDED''"
definition CodeMimeTypeNotAllowed :: Code where "CodeMimeTypeNotAllowed = ''MIME_TYPE_NOT_ALLOWED''"

lemmas upload_code_defs =
  CodeUploadSessionNotFound_def CodeUploadModeInvalid_def CodeUploadHashRequired_def
  CodeUploadHashInvalid_def CodeUploadHashUnsupported_def CodeUploadHashMismatch_def
  CodeUploadCompletionOwnershipInvalid_def CodeUploadSessionStateConflict_def
  CodeUploadCompleteInProgress_def CodeUploadPartsMissing_def CodeUploadMultipartNotFound_def
  CodeUploadMultipartConflict_def CodeTenantQuotaExceeded_def CodeMimeTypeNotAllowed_def

subsection \<open>Modes and states (\<^verbatim>\<open>session_mode.go\<close>, \<^verbatim>\<open>session_status.go\<close>)\<close>

text \<open>
  Both are string types with named constants; \<open>SessionModeOther\<close> and \<open>SessionStatusOther\<close>
  stand for every other string, among them the zero value \<open>[]\<close>.
\<close>

datatype SessionMode =
    SessionModeInline
  | SessionModePresignedSingle
  | SessionModeDirect
  | SessionModeOther string

fun mode_string :: "SessionMode \<Rightarrow> string" where
  "mode_string SessionModeInline = ''INLINE''"
| "mode_string SessionModePresignedSingle = ''PRESIGNED_SINGLE''"
| "mode_string SessionModeDirect = ''DIRECT''"
| "mode_string (SessionModeOther s) = s"

datatype SessionStatus =
    SessionStatusInitiated
  | SessionStatusUploading
  | SessionStatusCompleting
  | SessionStatusCompleted
  | SessionStatusAborted
  | SessionStatusExpired
  | SessionStatusFailed
  | SessionStatusOther string

fun status_string :: "SessionStatus \<Rightarrow> string" where
  "status_string SessionStatusInitiated = ''INITIATED''"
| "status_string SessionStatusUploading = ''UPLOADING''"
| "status_string SessionStatusCompleting = ''COMPLETING''"
| "status_string SessionStatusCompleted = ''COMPLETED''"
| "status_string SessionStatusAborted = ''ABORTED''"
| "status_string SessionStatusExpired = ''EXPIRED''"
| "status_string SessionStatusFailed = ''FAILED''"
| "status_string (SessionStatusOther s) = s"

definition ErrUploadSessionNotFound :: "string \<Rightarrow> go_error" where
  "ErrUploadSessionNotFound uploadSessionID =
     New CodeUploadSessionNotFound ''upload session not found''
       [(''resourceType'', DStr ''uploadSession''), (''resourceId'', DStr uploadSessionID)]"

definition errUploadModeInvalid :: "SessionMode \<Rightarrow> go_error" where
  "errUploadModeInvalid current =
     New CodeUploadModeInvalid ''upload mode is invalid'' [(''currentMode'', DStr (mode_string current))]"

definition errUploadHashRequired :: "SessionMode \<Rightarrow> go_error" where
  "errUploadHashRequired mode =
     New CodeUploadHashRequired ''content hash is required for upload mode''
       [(''uploadMode'', DStr (mode_string mode)), (''field'', DStr ''contentHash'')]"

definition errUploadHashInvalid :: "string \<Rightarrow> go_error" where
  "errUploadHashInvalid message = New CodeUploadHashInvalid message [(''field'', DStr ''contentHash'')]"

definition errUploadHashUnsupported :: "string \<Rightarrow> go_error" where
  "errUploadHashUnsupported algorithm =
     New CodeUploadHashUnsupported ''content hash algorithm is unsupported''
       [(''field'', DStr ''contentHash.algorithm''), (''algorithm'', DStr algorithm)]"

definition errUploadCompletionOwnershipInvalid :: "string \<Rightarrow> go_error" where
  "errUploadCompletionOwnershipInvalid message =
     New CodeUploadCompletionOwnershipInvalid message [(''field'', DStr ''completion'')]"

definition errUploadSessionStateConflict :: "SessionStatus \<Rightarrow> SessionStatus list \<Rightarrow> go_error" where
  "errUploadSessionStateConflict current allowed =
     New CodeUploadSessionStateConflict ''upload session state conflict''
       [(''currentStatus'', DStr (status_string current)),
        (''allowedStatus'', DStrs (map status_string allowed))]"

definition SessionMode_Validate :: "SessionMode \<Rightarrow> go_error option" where
  "SessionMode_Validate m = (case m of
     SessionModeInline \<Rightarrow> None
   | SessionModePresignedSingle \<Rightarrow> None
   | SessionModeDirect \<Rightarrow> None
   | SessionModeOther _ \<Rightarrow> Some (errUploadModeInvalid m))"

definition RequiresContentHash :: "SessionMode \<Rightarrow> bool" where
  "RequiresContentHash m \<longleftrightarrow> m = SessionModePresignedSingle \<or> m = SessionModeDirect"

definition RequiresProviderUploadID :: "SessionMode \<Rightarrow> bool" where
  "RequiresProviderUploadID m \<longleftrightarrow> m = SessionModeDirect"

definition DefaultTotalParts :: "SessionMode \<Rightarrow> int" where
  "DefaultTotalParts m = (if m = SessionModeDirect then 0 else 1)"

definition SessionStatus_Validate :: "SessionStatus \<Rightarrow> go_error option" where
  "SessionStatus_Validate s = (case s of
     SessionStatusOther _ \<Rightarrow> Some (errUploadSessionStateConflict s [])
   | _ \<Rightarrow> None)"

definition IsTerminal :: "SessionStatus \<Rightarrow> bool" where
  "IsTerminal s = (case s of
     SessionStatusCompleted \<Rightarrow> True
   | SessionStatusAborted \<Rightarrow> True
   | SessionStatusExpired \<Rightarrow> True
   | SessionStatusFailed \<Rightarrow> True
   | _ \<Rightarrow> False)"

subsection \<open>Content hashes (\<^verbatim>\<open>content_hash.go\<close>)\<close>

record ContentHash =
  ch_Algorithm :: string
  ch_Value :: string

definition ContentHash_Normalize :: "ContentHash \<Rightarrow> ContentHash" where
  "ContentHash_Normalize h =
     h\<lparr>ch_Algorithm := ToUpper (TrimSpace (ch_Algorithm h)),
       ch_Value := ToLower (TrimSpace (ch_Value h))\<rparr>"

text \<open>The regular expression \<^verbatim>\<open>^[a-f0-9]{64}$\<close>.\<close>

definition is_lower_hex :: "char \<Rightarrow> bool" where
  "is_lower_hex c \<longleftrightarrow> (97::nat) \<le> of_char c \<and> of_char c \<le> (102::nat) \<or> (48::nat) \<le> of_char c \<and> of_char c \<le> (57::nat)"

definition sha256Pattern :: "string \<Rightarrow> bool" where
  "sha256Pattern s \<longleftrightarrow> length s = 64 \<and> list_all is_lower_hex s"

definition ContentHash_Validate :: "ContentHash \<Rightarrow> go_error option" where
  "ContentHash_Validate h = (let normalized = ContentHash_Normalize h in
     if ch_Algorithm normalized = [] \<or> ch_Value normalized = []
     then Some (errUploadHashInvalid ''content hash algorithm and value are required'')
     else if ch_Algorithm normalized \<noteq> ''SHA256''
     then Some (errUploadHashUnsupported (ch_Algorithm normalized))
     else if \<not> sha256Pattern (ch_Value normalized)
     then Some (errUploadHashInvalid ''content hash value must be lowercase hex sha256'')
     else None)"

lemma ContentHash_Normalize_idem [simp]:
  "ContentHash_Normalize (ContentHash_Normalize h) = ContentHash_Normalize h"
  by (simp add: ContentHash_Normalize_def TrimSpace_ToUpper TrimSpace_ToLower)

lemma ContentHash_Validate_Normalize [simp]:
  "ContentHash_Validate (ContentHash_Normalize h) = ContentHash_Validate h"
  by (simp add: ContentHash_Validate_def)

lemma ContentHash_Validate_None:
  "ContentHash_Validate h = None \<longleftrightarrow>
     ch_Algorithm (ContentHash_Normalize h) = ''SHA256'' \<and> sha256Pattern (ch_Value (ContentHash_Normalize h))"
  by (auto simp: ContentHash_Validate_def Let_def sha256Pattern_def)

subsection \<open>Dedup decisions and completion ownership (\<^verbatim>\<open>dedup.go\<close>, \<^verbatim>\<open>completion_ownership.go\<close>)\<close>

record DedupDecision =
  dd_Hit :: bool
  dd_BlobID :: string
  dd_FileID :: string
  dd_CanonicalETag :: string
  dd_CanonicalBytes :: int

definition DedupDecision_Validate :: "DedupDecision \<Rightarrow> go_error option" where
  "DedupDecision_Validate d =
     (if \<not> dd_Hit d then None
      else if dd_BlobID d = [] \<or> dd_FileID d = []
      then Some (errUploadHashInvalid ''dedup hit must carry blob and file identifiers'')
      else None)"

datatype CompletionOwnership =
    CompletionOwnershipAcquired
  | CompletionOwnershipHeldByCaller
  | CompletionOwnershipHeldByAnother
  | CompletionOwnershipAlreadyDone

definition OwnsCompletion :: "CompletionOwnership \<Rightarrow> bool" where
  "OwnsCompletion ow \<longleftrightarrow> ow = CompletionOwnershipAcquired \<or> ow = CompletionOwnershipHeldByCaller"

subsection \<open>The upload session (\<^verbatim>\<open>session.go\<close>)\<close>

record Session =
  s_ID :: string
  s_TenantID :: string
  s_OwnerID :: string
  s_FileName :: string
  s_ContentType :: string
  s_SizeBytes :: int
  s_AccessLevel :: AccessLevel
  s_Mode :: SessionMode
  s_Status :: SessionStatus
  s_ChunkSizeBytes :: int
  s_TotalParts :: int
  s_CompletedParts :: int
  s_Object :: ObjectRef
  s_ProviderUploadID :: string
  s_FileID :: string
  s_Hash :: "ContentHash option"
  s_CompletionToken :: string
  s_CompletionStartedAt :: "time option"
  s_CreatedAt :: time
  s_UpdatedAt :: time
  s_CompletedAt :: "time option"
  s_AbortedAt :: "time option"
  s_FailureCode :: string
  s_FailureMessage :: string
  s_FailedAt :: "time option"
  s_ResumedFromSessionID :: string
  s_IdempotencyKey :: string
  s_ExpiresAt :: time

text \<open>\<^verbatim>\<open>CreateSessionParams\<close> is a struct with exactly the fields of \<^verbatim>\<open>Session\<close>.\<close>

type_synonym CreateSessionParams = Session

definition normalizeHash :: "ContentHash option \<Rightarrow> ContentHash option" where
  "normalizeHash hash = (case hash of None \<Rightarrow> None | Some h \<Rightarrow> Some (ContentHash_Normalize h))"

definition validateAccessLevel :: "AccessLevel \<Rightarrow> go_error option" where
  "validateAccessLevel level = (case level of
     AccessLevelPublic \<Rightarrow> None
   | AccessLevelPrivate \<Rightarrow> None
   | AccessLevelOther s \<Rightarrow> Some (Errorf (''access level is invalid: '' @ s)))"

definition normalizeUpdatedAt :: "time \<Rightarrow> time \<Rightarrow> time" where
  "normalizeUpdatedAt createdAt updatedAt = (if IsZero updatedAt then createdAt else updatedAt)"

definition normalizeTimePtr :: "time option \<Rightarrow> time option" where
  "normalizeTimePtr value = (case value of None \<Rightarrow> None | Some t \<Rightarrow> Some t)"

definition validateCompletionOwnership :: "string \<Rightarrow> time option \<Rightarrow> go_error option" where
  "validateCompletionOwnership token startedAt =
     (if TrimSpace token = [] then Some (errUploadCompletionOwnershipInvalid ''completion token is required'')
      else if startedAt = None \<or> IsZero (the startedAt)
      then Some (errUploadCompletionOwnershipInvalid ''completion started at is required'')
      else None)"

end
