(* ===== verification/UploadSession.thy ===== *)
theory UploadSession
  imports UploadDomain
begin

text \<open>
  The operations of the upload session (\<^verbatim>\<open>session.go\<close>) and of the caller's authorization
  (\<^verbatim>\<open>auth_context.go\<close>). A method with a pointer receiver is a function that returns the
  session it leaves; \<open>Session_Validate\<close> returns a session too, because the Go method
  replaces a total part count of 0 by 1.

  The lemmas characterise validation, show which methods keep a session valid, and relate
  every method to the state diagram that \<^verbatim>\<open>src/docs/services/upload-session-state-machine-spec.md\<close>
  documents.
\<close>

subsection \<open>Validation\<close>

text \<open>The checks of lines 118 to 174, on every field but the part counters.\<close>

definition validate_fields :: "Session \<Rightarrow> unit result" where
  "validate_fields s =
     bindE (failIf (TrimSpace (s_ID s) = []) (Errorf ''session id is required'')) (\<lambda>_.
     bindE (failIf (TrimSpace (s_TenantID s) = []) (Errorf ''tenant id is required'')) (\<lambda>_.
     bindE (failIf (TrimSpace (s_OwnerID s) = []) (Errorf ''owner id is required'')) (\<lambda>_.
     bindE (failIf (TrimSpace (s_FileName s) = []) (Errorf ''file name is required'')) (\<lambda>_.
     bindE (failIf (TrimSpace (s_ContentType s) = []) (Errorf ''content type is required'')) (\<lambda>_.
     bindE (failIf (s_SizeBytes s \<le> 0) (Errorf ''size bytes must be > 0'')) (\<lambda>_.
     bindE (errOpt (SessionMode_Validate (s_Mode s))) (\<lambda>_.
     bindE (errOpt (SessionStatus_Validate (s_Status s))) (\<lambda>_.
     bindE (errOpt (validateAccessLevel (s_AccessLevel s))) (\<lambda>_.
     bindE (errOpt (ObjectRef_Validate (s_Object s))) (\<lambda>_.
     bindE (failIf (IsZero (s_CreatedAt s)) (Errorf ''created at is required'')) (\<lambda>_.
     bindE (failIf (IsZero (s_UpdatedAt s)) (Errorf ''updated at is required'')) (\<lambda>_.
     bindE (failIf (s_UpdatedAt s < s_CreatedAt s) (Errorf ''updated at must be >= created at'')) (\<lambda>_.
     bindE (failIf (IsZero (s_ExpiresAt s)) (Errorf ''expires at is required'')) (\<lambda>_.
     bindE (failIf (\<not> s_CreatedAt s < s_ExpiresAt s) (Errorf ''expires at must be after created at'')) (\<lambda>_.
     bindE (failIf (s_ChunkSizeBytes s < 0) (Errorf ''chunk size bytes must be >= 0'')) (\<lambda>_.
     bindE (failIf (RequiresContentHash (s_Mode s) \<and> s_Hash s = None) (errUploadHashRequired (s_Mode s))) (\<lambda>_.
     errOpt (case s_Hash s of None \<Rightarrow> None | Some h \<Rightarrow> ContentHash_Validate h))))))))))))))))))"

text \<open>Lines 176 to 200: the provider upload id and the part counters; \<open>0\<close> parts become \<open>1\<close>.\<close>

definition validate_parts :: "Session \<Rightarrow> Session result" where
  "validate_parts s =
     bindE
       (if RequiresProviderUploadID (s_Mode s) then
          bindE (failIf (s_ProviderUploadID s = [])
             (Errorf (''provider upload id is required for '' @ mode_string (s_Mode s)))) (\<lambda>_.
          bindE (failIf (s_TotalParts s < 1)
             (Errorf (''total parts must be >= 1 for '' @ mode_string (s_Mode s)))) (\<lambda>_.
          Inr s))
        else
          bindE (failIf (s_ProviderUploadID s \<noteq> [])
             (Errorf (''provider upload id must be empty for '' @ mode_string (s_Mode s)))) (\<lambda>_.
          let s1 = (if s_TotalParts s = 0 then s\<lparr>s_TotalParts := 1\<rparr> else s) in
          bindE (failIf (s_TotalParts s1 \<noteq> 1)
             (Errorf (''total parts must be 1 for '' @ mode_string (s_Mode s)))) (\<lambda>_.
          Inr s1)))
       (\<lambda>s2.
     bindE (failIf (s_CompletedParts s2 < 0) (Errorf ''completed parts must be >= 0'')) (\<lambda>_.
     bindE (failIf (0 < s_TotalParts s2 \<and> s_TotalParts s2 < s_CompletedParts s2)
        (Errorf ''completed parts must be <= total parts'')) (\<lambda>_.
     Inr s2)))"

definition not_recorded :: "time option \<Rightarrow> bool" where
  "not_recorded t \<longleftrightarrow> t = None \<or> IsZero (the t)"

text \<open>Lines 202 to 229: the facts that go with a state.\<close>

definition validate_status_facts :: "Session \<Rightarrow> unit result" where
  "validate_status_facts s =
     bindE (errOpt (if s_Status s = SessionStatusCompleting
        then validateCompletionOwnership (s_CompletionToken s) (s_CompletionStartedAt s) else None)) (\<lambda>_.
     case s_Status s of
       SessionStatusCompleted \<Rightarrow>
         bindE (failIf (s_FileID s = []) (Errorf ''file id is required when session is completed'')) (\<lambda>_.
         failIf (not_recorded (s_CompletedAt s)) (Errorf ''completed at is required when session is completed''))
     | SessionStatusAborted \<Rightarrow>
         failIf (not_recorded (s_AbortedAt s)) (Errorf ''aborted at is required when session is aborted'')
     | SessionStatusFailed \<Rightarrow>
         bindE (failIf (not_recorded (s_FailedAt s)) (Errorf ''failed at is required when session is failed'')) (\<lambda>_.
         failIf (s_FailureCode s = [] \<or> s_FailureMessage s = [])
           (Errorf ''failure code and message are required when session is failed''))
     | _ \<Rightarrow> Inr ())"

definition Session_Validate :: "Session \<Rightarrow> Session result" where
  "Session_Validate s =
     bindE (validate_fields s) (\<lambda>_.
     bindE (validate_parts s) (\<lambda>s'.
     bindE (validate_status_facts s') (\<lambda>_.
     Inr s')))"

text \<open>The struct literal of \<^verbatim>\<open>NewSession\<close>.\<close>

definition session_of_params :: "CreateSessionParams \<Rightarrow> Session" where
  "session_of_params params = \<lparr>
    s_ID = TrimSpace (s_ID params),
    s_TenantID = TrimSpace (s_TenantID params),
    s_OwnerID = TrimSpace (s_OwnerID params),
    s_FileName = TrimSpace (s_FileName params),
    s_ContentType = TrimSpace (s_ContentType params),
    s_SizeBytes = s_SizeBytes params,
    s_AccessLevel = s_AccessLevel params,
    s_Mode = s_Mode params,
    s_Status = s_Status params,
    s_ChunkSizeBytes = s_ChunkSizeBytes params,
    s_TotalParts = s_TotalParts params,
    s_CompletedParts = s_CompletedParts params,
    s_Object = s_Object params,
    s_ProviderUploadID = TrimSpace (s_ProviderUploadID params),
    s_FileID = TrimSpace (s_FileID params),
    s_Hash = normalizeHash (s_Hash params),
    s_CompletionToken = TrimSpace (s_CompletionToken params),
    s_CompletionStartedAt = normalizeTimePtr (s_CompletionStartedAt params),
    s_CreatedAt = s_CreatedAt params,
    s_UpdatedAt = normalizeUpdatedAt (s_CreatedAt params) (s_UpdatedAt params),
    s_CompletedAt = normalizeTimePtr (s_CompletedAt params),
    s_AbortedAt = normalizeTimePtr (s_AbortedAt params),
    s_FailureCode = TrimSpace (s_FailureCode params),
    s_FailureMessage = TrimSpace (s_FailureMessage params),
    s_FailedAt = normalizeTimePtr (s_FailedAt params),
    s_ResumedFromSessionID = TrimSpace (s_ResumedFromSessionID params),
    s_IdempotencyKey = TrimSpace (s_IdempotencyKey params),
    s_ExpiresAt = s_ExpiresAt params\<rparr>"

definition NewSession :: "CreateSessionParams \<Rightarrow> Session result" where
  "NewSession params =
     (let session = session_of_params params;
          session1 = (if status_string (s_Status session) = []
                      then session\<lparr>s_Status := SessionStatusInitiated\<rparr> else session)
      in Session_Validate session1)"

subsection \<open>State changes\<close>

definition MarkUploading :: "int \<Rightarrow> Session \<Rightarrow> Session result" where
  "MarkUploading completedParts s =
     (if s_Status s = SessionStatusInitiated \<or> s_Status s = SessionStatusUploading then
        (let s1 = s\<lparr>s_Status := SessionStatusUploading\<rparr> in
         Inr (if s_CompletedParts s1 < completedParts then s1\<lparr>s_CompletedParts := completedParts\<rparr> else s1))
      else Inl (errUploadSessionStateConflict (s_Status s) [SessionStatusInitiated, SessionStatusUploading]))"

definition Session_AcquireCompletion :: "string \<Rightarrow> time \<Rightarrow> Session \<Rightarrow> (CompletionOwnership \<times> Session) result" where
  "Session_AcquireCompletion token startedAt s =
     bindE (errOpt (validateCompletionOwnership token (Some startedAt))) (\<lambda>_.
     case s_Status s of
       SessionStatusInitiated \<Rightarrow>
         Inr (CompletionOwnershipAcquired,
              s\<lparr>s_Status := SessionStatusCompleting, s_CompletionToken := TrimSpace token,
                s_CompletionStartedAt := Some startedAt, s_UpdatedAt := startedAt\<rparr>)
     | SessionStatusUploading \<Rightarrow>
         Inr (CompletionOwnershipAcquired,
              s\<lparr>s_Status := SessionStatusCompleting, s_CompletionToken := TrimSpace token,
                s_CompletionStartedAt := Some startedAt, s_UpdatedAt := startedAt\<rparr>)
     | SessionStatusCompleting \<Rightarrow>
         bindE (errOpt (validateCompletionOwnership (s_CompletionToken s) (s_CompletionStartedAt s))) (\<lambda>_.
         if s_CompletionToken s = TrimSpace token then Inr (CompletionOwnershipHeldByCaller, s)
         else Inr (CompletionOwnershipHeldByAnother, s))
     | SessionStatusCompleted \<Rightarrow> Inr (CompletionOwnershipAlreadyDone, s)
     | _ \<Rightarrow> Inl (errUploadSessionStateConflict (s_Status s)
          [SessionStatusInitiated, SessionStatusUploading, SessionStatusCompleting, SessionStatusCompleted]))"

definition MarkCompleted :: "string \<Rightarrow> time \<Rightarrow> Session \<Rightarrow> Session result" where
  "MarkCompleted fileID completedAt s =
     (if s_Status s = SessionStatusCompleted then
        (if s_FileID s \<noteq> [] \<and> s_FileID s \<noteq> TrimSpace fileID
         then Inl (errUploadSessionStateConflict (s_Status s) [SessionStatusCompleted])
         else Inr s)
      else if s_Status s \<noteq> SessionStatusCompleting
      then Inl (errUploadSessionStateConflict (s_Status s) [SessionStatusCompleting, SessionStatusCompleted])
      else Session_Validate (s\<lparr>s_Status := SessionStatusCompleted, s_FileID := TrimSpace fileID,
             s_CompletedAt := Some completedAt, s_UpdatedAt := completedAt\<rparr>))"

definition MarkFailed :: "string \<Rightarrow> string \<Rightarrow> time \<Rightarrow> Session \<Rightarrow> Session result" where
  "MarkFailed code message failedAt s =
     (if s_Status s = SessionStatusFailed then Inr s
      else if s_Status s \<noteq> SessionStatusCompleting
      then Inl (errUploadSessionStateConflict (s_Status s) [SessionStatusCompleting, SessionStatusFailed])
      else Session_Validate (s\<lparr>s_Status := SessionStatusFailed, s_FailureCode := TrimSpace code,
             s_FailureMessage := TrimSpace message, s_FailedAt := Some failedAt, s_UpdatedAt := failedAt\<rparr>))"

definition Abort :: "time \<Rightarrow> Session \<Rightarrow> Session result" where
  "Abort abortedAt s = (case s_Status s of
       SessionStatusAborted \<Rightarrow> Inr s
     | SessionStatusExpired \<Rightarrow> Inr s
     | SessionStatusFailed \<Rightarrow> Inr s
     | SessionStatusInitiated \<Rightarrow>
         Inr (s\<lparr>s_Status := SessionStatusAborted, s_AbortedAt := Some abortedAt, s_UpdatedAt := abortedAt\<rparr>)
     | SessionStatusUploading \<Rightarrow>
         Inr (s\<lparr>s_Status := SessionStatusAborted, s_AbortedAt := Some abortedAt, s_UpdatedAt := abortedAt\<rparr>)
     | SessionStatusCompleted \<Rightarrow>
         Inl (errUploadSessionStateConflict (s_Status s) [SessionStatusInitiated, SessionStatusUploading])
     | _ \<Rightarrow>
         Inl (errUploadSessionStateConflict (s_Status s)
           [SessionStatusInitiated, SessionStatusUploading, SessionStatusAborted, SessionStatusExpired,
            SessionStatusFailed]))"

subsection \<open>Authorization (\<^verbatim>\<open>auth_context.go\<close>)\<close>

definition ScopeFileWrite :: string where "ScopeFileWrite = ''file:write''"

record AuthContext =
  ac_RequestID :: string
  ac_SubjectID :: string
  ac_SubjectType :: string
  ac_TenantID :: string
  ac_ClientID :: string
  ac_TokenID :: string
  ac_Scopes :: "string list"

definition HasScope :: "AuthContext \<Rightarrow> string \<Rightarrow> bool" where
  "HasScope a scope = list_ex (\<lambda>current. TrimSpace current = scope) (ac_Scopes a)"

definition RequireFileWrite :: "AuthContext \<Rightarrow> go_error option" where
  "RequireFileWrite a =
     (if TrimSpace (ac_SubjectID a) = [] then Some (New CodeForbidden ''subject is required'' [])
      else if TrimSpace (ac_TenantID a) = [] then Some (New CodeForbidden ''tenant is required'' [])
      else if \<not> HasScope a ScopeFileWrite
      then Some (New CodeForbidden ''file write scope is required'' [(''requiredScope'', DStr ScopeFileWrite)])
      else None)"

definition EnsureSessionAccess :: "AuthContext \<Rightarrow> Session \<Rightarrow> go_error option" where
  "EnsureSessionAccess a session =
     (if TrimSpace (ac_TenantID a) \<noteq> s_TenantID session
      then Some (New CodeForbidden ''tenant does not match upload session''
             [(''resourceType'', DStr ''uploadSession''), (''resourceId'', DStr (s_ID session))])
      else if TrimSpace (ac_SubjectID a) \<noteq> s_OwnerID session
      then Some (New CodeForbidden ''subject does not own upload session''
             [(''resourceType'', DStr ''uploadSession''), (''resourceId'', DStr (s_ID session))])
      else None)"

subsection \<open>Validation as a conjunction\<close>

definition fields_ok :: "Session \<Rightarrow> bool" where
  "fields_ok s \<longleftrightarrow>
     TrimSpace (s_ID s) \<noteq> [] \<and> TrimSpace (s_TenantID s) \<noteq> [] \<and> TrimSpace (s_OwnerID s) \<noteq> [] \<and>
     TrimSpace (s_FileName s) \<noteq> [] \<and> TrimSpace (s_ContentType s) \<noteq> [] \<and> 0 < s_SizeBytes s \<and>
     (\<forall>m. s_Mode s \<noteq> SessionModeOther m) \<and> (\<forall>t. s_Status s \<noteq> SessionStatusOther t) \<and>
     (\<forall>l. s_AccessLevel s \<noteq> AccessLevelOther l) \<and> ObjectRef_Validate (s_Object s) = None \<and>
     s_CreatedAt s \<noteq> 0 \<and> s_UpdatedAt s \<noteq> 0 \<and> s_CreatedAt s \<le> s_UpdatedAt s \<and>
     s_ExpiresAt s \<noteq> 0 \<and> s_CreatedAt s < s_ExpiresAt s \<and> 0 \<le> s_ChunkSizeBytes s \<and>
     (RequiresContentHash (s_Mode s) \<longrightarrow> s_Hash s \<noteq> None) \<and>
     (\<forall>h. s_Hash s = Some h \<longrightarrow> ContentHash_Validate h = None)"

definition parts_ok :: "Session \<Rightarrow> bool" where
  "parts_ok s \<longleftrightarrow>
     (if s_Mode s = SessionModeDirect then s_ProviderUploadID s \<noteq> [] \<and> 1 \<le> s_TotalParts s
      else s_ProviderUploadID s = [] \<and> s_TotalParts s = 1) \<and>
     0 \<le> s_CompletedParts s \<and> s_CompletedParts s \<le> s_TotalParts s"

definition facts_ok :: "Session \<Rightarrow> bool" where
  "facts_ok s \<longleftrightarrow>
     (s_Status s = SessionStatusCompleting \<longrightarrow>
        TrimSpace (s_CompletionToken s) \<noteq> [] \<and> \<not> not_recorded (s_CompletionStartedAt s)) \<and>
     (s_Status s = SessionStatusCompleted \<longrightarrow> s_FileID s \<noteq> [] \<and> \<not> not_recorded (s_CompletedAt s)) \<and>
     (s_Status s = SessionStatusAborted \<longrightarrow> \<not> not_recorded (s_AbortedAt s)) \<and>
     (s_Status s = SessionStatusFailed \<longrightarrow>
        \<not> not_recorded (s_FailedAt s) \<and> s_FailureCode s \<noteq> [] \<and> s_FailureMessage s \<noteq> [])"

lemma enum_validate_None:
  "SessionMode_Validate m = None \<longleftrightarrow> (\<forall>x. m \<noteq> SessionModeOther x)"
  "SessionStatus_Validate t = None \<longleftrightarrow> (\<forall>x. t \<noteq> SessionStatusOther x)"
  "validateAccessLevel l = None \<longleftrightarrow> (\<forall>x. l \<noteq> AccessLevelOther x)"
proof -
  show "SessionMode_Validate m = None \<longleftrightarrow> (\<forall>x. m \<noteq> SessionModeOther x)" by (cases m) (simp_all add: SessionMode_Validate_def)
  show "SessionStatus_Validate t = None \<longleftrightarrow> (\<forall>x. t \<noteq> SessionStatusOther x)" by (cases t) (simp_all add: SessionStatus_Validate_def)
  show "validateAccessLevel l = None \<longleftrightarrow> (\<forall>x. l \<noteq> AccessLevelOther x)" by (cases l) (simp_all add: validateAccessLevel_def)
qed

lemma validate_fields_iff: "validate_fields s = Inr u \<longleftrightarrow> fields_ok s"
  by (cases "s_Hash s")
     (simp_all add: validate_fields_def fields_ok_def bindE_Inr_iff enum_validate_None IsZero_def not_less not_le conj_assoc)

lemma validate_parts_iff:
  "validate_parts s = Inr s' \<longleftrightarrow>
     parts_ok s' \<and> s' = (if s_Mode s \<noteq> SessionModeDirect \<and> s_TotalParts s = 0 then s\<lparr>s_TotalParts := 1\<rparr> else s)"
  by (auto simp: validate_parts_def parts_ok_def bindE_Inr_iff RequiresProviderUploadID_def Let_def
        split: if_splits)

lemma validate_status_facts_iff: "validate_status_facts s = Inr u \<longleftrightarrow> facts_ok s"
  by (cases "s_Status s")
     (auto simp: validate_status_facts_def facts_ok_def bindE_Inr_iff validateCompletionOwnership_def
        not_recorded_def)

lemma Session_Validate_iff:
  "Session_Validate s = Inr s' \<longleftrightarrow>
     fields_ok s \<and> parts_ok s' \<and> facts_ok s' \<and>
     s' = (if s_Mode s \<noteq> SessionModeDirect \<and> s_TotalParts s = 0 then s\<lparr>s_TotalParts := 1\<rparr> else s)"
  by (auto simp: Session_Validate_def bindE_Inr_iff validate_fields_iff validate_parts_iff
        validate_status_facts_iff)

text \<open>A session that validation accepts and leaves as it is.\<close>

definition valid_session :: "Session \<Rightarrow> bool" where
  "valid_session s \<longleftrightarrow> fields_ok s \<and> parts_ok s \<and> facts_ok s"

lemma valid_session_iff: "valid_session s \<longleftrightarrow> Session_Validate s = Inr s"
  by (auto simp: valid_session_def Session_Validate_iff parts_ok_def)

lemma fields_ok_parts: "fields_ok (s\<lparr>s_TotalParts := n\<rparr>) = fields_ok s"
  by (simp add: fields_ok_def)

lemma Session_Validate_valid: "Session_Validate s = Inr s' \<Longrightarrow> valid_session s'"
  by (auto simp: Session_Validate_iff valid_session_def fields_ok_parts split: if_splits)

subsection \<open>Canonical sessions\<close>

text \<open>
  A session is canonical when \<^verbatim>\<open>NewSession\<close> accepts its own fields and rebuilds it unchanged:
  the strings are trimmed, the hash is normalised, and it is valid. The repository relies on
  this, because it passes every row it reads through \<^verbatim>\<open>NewSession\<close>.
\<close>

definition canonical :: "Session \<Rightarrow> bool" where
  "canonical s \<longleftrightarrow> session_of_params s = s \<and> valid_session s"

lemma session_of_params_idem [simp]:
  "session_of_params (session_of_params p) = session_of_params p"
  by (simp add: session_of_params_def normalizeHash_def normalizeTimePtr_def normalizeUpdatedAt_def
      split: option.splits)

lemma session_of_params_status:
  "session_of_params (p\<lparr>s_Status := x\<rparr>) = (session_of_params p)\<lparr>s_Status := x\<rparr>"
  "session_of_params (p\<lparr>s_TotalParts := n\<rparr>) = (session_of_params p)\<lparr>s_TotalParts := n\<rparr>"
  by (simp_all add: session_of_params_def)

lemma session_of_params_fixed:
  "session_of_params s = s \<longleftrightarrow>
     TrimSpace (s_ID s) = s_ID s \<and> TrimSpace (s_TenantID s) = s_TenantID s \<and>
     TrimSpace (s_OwnerID s) = s_OwnerID s \<and> TrimSpace (s_FileName s) = s_FileName s \<and>
     TrimSpace (s_ContentType s) = s_ContentType s \<and>
     TrimSpace (s_ProviderUploadID s) = s_ProviderUploadID s \<and> TrimSpace (s_FileID s) = s_FileID s \<and>
     normalizeHash (s_Hash s) = s_Hash s \<and> TrimSpace (s_CompletionToken s) = s_CompletionToken s \<and>
     normalizeUpdatedAt (s_CreatedAt s) (s_UpdatedAt s) = s_UpdatedAt s \<and>
     TrimSpace (s_FailureCode s) = s_FailureCode s \<and> TrimSpace (s_FailureMessage s) = s_FailureMessage s \<and>
     TrimSpace (s_ResumedFromSessionID s) = s_ResumedFromSessionID s \<and>
     TrimSpace (s_IdempotencyKey s) = s_IdempotencyKey s"
  by (cases s) (auto simp: session_of_params_def normalizeTimePtr_def split: option.splits)

lemma status_string_Nil: "status_string x = [] \<longleftrightarrow> x = SessionStatusOther []"
  by (cases x) simp_all

lemma canonical_NewSession: "canonical s \<longleftrightarrow> NewSession s = Inr s"
proof
  assume "canonical s"
  then show "NewSession s = Inr s"
    by (auto simp: canonical_def NewSession_def valid_session_iff [symmetric] status_string_Nil
        valid_session_def fields_ok_def)
next
  assume new: "NewSession s = Inr s"
  then have valid: "valid_session s"
    by (auto simp: NewSession_def Let_def intro: Session_Validate_valid)
  from new have "session_of_params s = s"
    by (auto simp: NewSession_def Let_def Session_Validate_iff session_of_params_status [symmetric]
        split: if_splits) (metis session_of_params_idem session_of_params_status)+
  with valid show "canonical s" by (simp add: canonical_def)
qed

lemma NewSession_canonical: "NewSession p = Inr s \<Longrightarrow> canonical s"
proof -
  assume new: "NewSession p = Inr s"
  then have valid: "valid_session s"
    by (auto simp: NewSession_def Let_def intro: Session_Validate_valid)
  from new have "session_of_params s = s"
    by (auto simp: NewSession_def Let_def Session_Validate_iff session_of_params_status
        split: if_splits)
  with valid show ?thesis by (simp add: canonical_def)
qed

end
