(* ===== verification/Samples.thy ===== *)
theory Samples
  imports UploadSession
begin

text \<open>
  Concrete inputs of the domain on which the properties are instantiated: an inline session of
  the tenant \<^verbatim>\<open>t1\<close>, the same session in each of its later states, and its owner's credentials.
\<close>

definition sampleObject :: ObjectRef where
  "sampleObject = \<lparr>or_Provider = ProviderMinIO, or_BucketName = ''b'', or_ObjectKey = ''t1/uploads/s1/a.txt''\<rparr>"

definition sampleSession :: Session where
  "sampleSession = \<lparr>
     s_ID = ''s1'', s_TenantID = ''t1'', s_OwnerID = ''u1'', s_FileName = ''a.txt'', s_ContentType = ''text/plain'',
     s_SizeBytes = 5, s_AccessLevel = AccessLevelPrivate, s_Mode = SessionModeInline,
     s_Status = SessionStatusInitiated, s_ChunkSizeBytes = 0, s_TotalParts = 1, s_CompletedParts = 0,
     s_Object = sampleObject, s_ProviderUploadID = [], s_FileID = [], s_Hash = None,
     s_CompletionToken = [], s_CompletionStartedAt = None, s_CreatedAt = 10, s_UpdatedAt = 10,
     s_CompletedAt = None, s_AbortedAt = None, s_FailureCode = [], s_FailureMessage = [], s_FailedAt = None,
     s_ResumedFromSessionID = [], s_IdempotencyKey = [], s_ExpiresAt = 100\<rparr>"

definition sampleCompleting :: Session where
  "sampleCompleting = sampleSession\<lparr>s_Status := SessionStatusCompleting, s_CompletionToken := ''tok'',
     s_CompletionStartedAt := Some 20, s_UpdatedAt := 20\<rparr>"

definition sampleCompleted :: Session where
  "sampleCompleted = sampleCompleting\<lparr>s_Status := SessionStatusCompleted, s_FileID := ''f1'',
     s_CompletedParts := 1, s_CompletedAt := Some 30, s_UpdatedAt := 30\<rparr>"

definition sampleDirect :: Session where
  "sampleDirect = sampleSession\<lparr>s_Mode := SessionModeDirect, s_ProviderUploadID := ''m1'', s_TotalParts := 2,
     s_Hash := Some \<lparr>ch_Algorithm = ''SHA256'', ch_Value = replicate 64 (CHR ''a'')\<rparr>\<rparr>"

definition sampleAuth :: AuthContext where
  "sampleAuth = \<lparr>ac_RequestID = ''r1'', ac_SubjectID = ''u1'', ac_SubjectType = ''USER'', ac_TenantID = ''t1'',
     ac_ClientID = [], ac_TokenID = [], ac_Scopes = [ScopeFileWrite]\<rparr>"

lemma sample_sessions_canonical:
  "canonical sampleSession" "canonical sampleCompleting" "canonical sampleCompleted" "canonical sampleDirect"
  by (simp_all only: canonical_NewSession) code_simp+

end
