(* ===== verification/UploadStateMachine.thy ===== *)
theory UploadStateMachine
  imports Samples
begin

text \<open>
  The upload session as a state machine: one rule of \<open>session_step\<close> per method that changes a
  session, the state diagram of \<^verbatim>\<open>src/docs/services/upload-session-state-machine-spec.md\<close>
  (section 14.1) as an abstract specification, and the theorems that the methods refine it,
  that terminal states are final, that the methods keep sessions canonical, and that
  completion has one owner.
\<close>

subsection \<open>What each method does\<close>

lemma MarkUploading_Inr:
  "MarkUploading n s = Inr s' \<longleftrightarrow>
     (s_Status s = SessionStatusInitiated \<or> s_Status s = SessionStatusUploading) \<and>
     s' = s\<lparr>s_Status := SessionStatusUploading, s_CompletedParts := max n (s_CompletedParts s)\<rparr>"
  by (auto simp: MarkUploading_def Let_def max_def)

lemma validateCompletionOwnership_None:
  "validateCompletionOwnership token startedAt = None \<longleftrightarrow> TrimSpace token \<noteq> [] \<and> \<not> not_recorded startedAt"
  by (simp add: validateCompletionOwnership_def not_recorded_def)

lemma Session_AcquireCompletion_Inr:
  "Session_AcquireCompletion token t s = Inr (ow, s') \<longleftrightarrow>
     TrimSpace token \<noteq> [] \<and> t \<noteq> 0 \<and>
     (case s_Status s of
        SessionStatusInitiated \<Rightarrow> ow = CompletionOwnershipAcquired \<and>
          s' = s\<lparr>s_Status := SessionStatusCompleting, s_CompletionToken := TrimSpace token,
                 s_CompletionStartedAt := Some t, s_UpdatedAt := t\<rparr>
      | SessionStatusUploading \<Rightarrow> ow = CompletionOwnershipAcquired \<and>
          s' = s\<lparr>s_Status := SessionStatusCompleting, s_CompletionToken := TrimSpace token,
                 s_CompletionStartedAt := Some t, s_UpdatedAt := t\<rparr>
      | SessionStatusCompleting \<Rightarrow> s' = s \<and>
          TrimSpace (s_CompletionToken s) \<noteq> [] \<and> \<not> not_recorded (s_CompletionStartedAt s) \<and>
          ow = (if s_CompletionToken s = TrimSpace token then CompletionOwnershipHeldByCaller
                else CompletionOwnershipHeldByAnother)
      | SessionStatusCompleted \<Rightarrow> s' = s \<and> ow = CompletionOwnershipAlreadyDone
      | _ \<Rightarrow> False)"
  by (cases "s_Status s")
     (auto simp: Session_AcquireCompletion_def bindE_Inr_iff validateCompletionOwnership_None
        not_recorded_def IsZero_def)

lemma Session_Validate_result:
  assumes "Session_Validate u = Inr s'"
  shows "valid_session s' \<and> s_Status s' = s_Status u \<and> s_FileID s' = s_FileID u \<and> s_ID s' = s_ID u \<and>
         s_TenantID s' = s_TenantID u \<and> s_CompletedAt s' = s_CompletedAt u \<and> s_UpdatedAt s' = s_UpdatedAt u \<and>
         s_FailureCode s' = s_FailureCode u \<and> s_FailureMessage s' = s_FailureMessage u \<and>
         (session_of_params u = u \<longrightarrow> session_of_params s' = s')"
proof -
  have s': "s' = (if s_Mode u \<noteq> SessionModeDirect \<and> s_TotalParts u = 0 then u\<lparr>s_TotalParts := 1\<rparr> else u)"
    using assms by (simp add: Session_Validate_iff)
  show ?thesis using Session_Validate_valid [OF assms] by (simp add: s' session_of_params_status)
qed

lemma MarkCompleted_Inr:
  assumes "MarkCompleted fileID t s = Inr s'"
  shows "s_Status s = SessionStatusCompleted \<and> s' = s \<and> (s_FileID s = [] \<or> s_FileID s = TrimSpace fileID) \<or>
         s_Status s = SessionStatusCompleting \<and> valid_session s' \<and> s_Status s' = SessionStatusCompleted \<and>
         s_FileID s' = TrimSpace fileID \<and> s_ID s' = s_ID s \<and> s_TenantID s' = s_TenantID s \<and>
         s_CompletedAt s' = Some t \<and> s_UpdatedAt s' = t"
  using assms
  by (auto simp: MarkCompleted_def dest!: Session_Validate_result split: if_splits)

lemma MarkFailed_Inr:
  assumes "MarkFailed code msg t s = Inr s'"
  shows "s_Status s = SessionStatusFailed \<and> s' = s \<or>
         s_Status s = SessionStatusCompleting \<and> valid_session s' \<and> s_Status s' = SessionStatusFailed \<and>
         s_FailureCode s' = TrimSpace code \<and> s_FailureMessage s' = TrimSpace msg \<and>
         s_FileID s' = s_FileID s \<and> s_ID s' = s_ID s \<and> s_TenantID s' = s_TenantID s"
  using assms
  by (auto simp: MarkFailed_def dest!: Session_Validate_result split: if_splits)

lemma Abort_Inr:
  "Abort t s = Inr s' \<longleftrightarrow>
     s_Status s \<in> {SessionStatusAborted, SessionStatusExpired, SessionStatusFailed} \<and> s' = s \<or>
     s_Status s \<in> {SessionStatusInitiated, SessionStatusUploading} \<and>
       s' = s\<lparr>s_Status := SessionStatusAborted, s_AbortedAt := Some t, s_UpdatedAt := t\<rparr>"
  by (cases "s_Status s") (auto simp: Abort_def)

subsection \<open>The documented diagram and the step relation\<close>

definition documented_transitions :: "(SessionStatus \<times> SessionStatus) list" where
  "documented_transitions =
     [(SessionStatusInitiated, SessionStatusUploading), (SessionStatusInitiated, SessionStatusCompleting),
      (SessionStatusInitiated, SessionStatusAborted), (SessionStatusInitiated, SessionStatusExpired),
      (SessionStatusUploading, SessionStatusCompleting), (SessionStatusUploading, SessionStatusAborted),
      (SessionStatusUploading, SessionStatusExpired), (SessionStatusCompleting, SessionStatusCompleted),
      (SessionStatusCompleting, SessionStatusFailed), (SessionStatusCompleting, SessionStatusExpired)]"

inductive session_step :: "Session \<Rightarrow> Session \<Rightarrow> bool" where
  mark_uploading: "MarkUploading n s = Inr s' \<Longrightarrow> session_step s s'"
| acquire_completion: "Session_AcquireCompletion token t s = Inr (ow, s') \<Longrightarrow> session_step s s'"
| mark_completed: "MarkCompleted fileID t s = Inr s' \<Longrightarrow> session_step s s'"
| mark_failed: "MarkFailed code msg t s = Inr s' \<Longrightarrow> session_step s s'"
| abort: "Abort t s = Inr s' \<Longrightarrow> session_step s s'"

inductive session_run :: "Session \<Rightarrow> Session \<Rightarrow> bool" where
  run_refl: "session_run s s"
| run_step: "session_run s t \<Longrightarrow> session_step t u \<Longrightarrow> session_run s u"

lemma session_step_terminal: "session_step s s' \<Longrightarrow> IsTerminal (s_Status s) \<Longrightarrow> s' = s"
proof (induction rule: session_step.induct)
  case (acquire_completion token t s ow s')
  then show ?case
    by (auto simp: Session_AcquireCompletion_Inr IsTerminal_def split: SessionStatus.splits)
next
  case (mark_completed fileID t s s')
  then show ?case using MarkCompleted_Inr [of fileID t s s'] by (auto simp: IsTerminal_def)
next
  case (mark_failed code msg t s s')
  then show ?case using MarkFailed_Inr [of code msg t s s'] by (auto simp: IsTerminal_def)
qed (auto simp: MarkUploading_Inr Abort_Inr IsTerminal_def)

lemma session_step_identity: "session_step s s' \<Longrightarrow> s_ID s' = s_ID s \<and> s_TenantID s' = s_TenantID s"
proof (induction rule: session_step.induct)
  case (acquire_completion token t s ow s')
  then show ?case by (auto simp: Session_AcquireCompletion_Inr split: SessionStatus.splits)
next
  case (mark_completed fileID t s s')
  then show ?case using MarkCompleted_Inr [of fileID t s s'] by auto
next
  case (mark_failed code msg t s s')
  then show ?case using MarkFailed_Inr [of code msg t s s'] by auto
qed (auto simp: MarkUploading_Inr Abort_Inr)

text \<open>
  Claim C4: every method call that succeeds either leaves the session's state alone or moves it
  along an edge of the documented state diagram (refinement of the diagram by the methods).
\<close>

theorem session_step_refines_documented_diagram:
  assumes "session_step s s'"
  shows "s_Status s' = s_Status s \<or> (s_Status s, s_Status s') \<in> set documented_transitions"
  using assms
proof (induction rule: session_step.induct)
  case (acquire_completion token t s ow s')
  then show ?case
    by (auto simp: Session_AcquireCompletion_Inr documented_transitions_def split: SessionStatus.splits)
next
  case (mark_completed fileID t s s')
  then show ?case using MarkCompleted_Inr [of fileID t s s'] by (auto simp: documented_transitions_def)
next
  case (mark_failed code msg t s s')
  then show ?case using MarkFailed_Inr [of code msg t s s'] by (auto simp: documented_transitions_def)
qed (auto simp: MarkUploading_Inr Abort_Inr documented_transitions_def)

theorem session_step_refines_documented_diagram_witness:
  "(SessionStatusCompleting, SessionStatusCompleted) \<in> set documented_transitions"
proof -
  have "MarkCompleted ''f1'' 30 (sampleCompleting\<lparr>s_CompletedParts := 1\<rparr>) = Inr sampleCompleted" by code_simp
  then have "session_step (sampleCompleting\<lparr>s_CompletedParts := 1\<rparr>) sampleCompleted" by (rule mark_completed)
  from session_step_refines_documented_diagram [OF this] show ?thesis
    by (simp add: sampleCompleted_def sampleCompleting_def)
qed

text \<open>
  Claim C15: the terminal states are final. Whatever methods are called afterwards, a session that
  is completed, aborted, expired or failed never changes again; in particular a completed
  session keeps its file id.
\<close>

theorem terminal_session_never_changes:
  assumes "session_run s s'" and "IsTerminal (s_Status s)"
  shows "s' = s"
  using assms
proof (induction rule: session_run.induct)
  case (run_step s t u)
  then have "t = s" by simp
  with run_step show ?case by (simp add: session_step_terminal)
qed simp

theorem terminal_session_never_changes_witness:
  "\<exists>s'. session_run sampleCompleted s' \<and> s' = sampleCompleted \<and> s_FileID s' = ''f1''"
proof -
  have "Session_AcquireCompletion ''x'' 40 sampleCompleted = Inr (CompletionOwnershipAlreadyDone, sampleCompleted)"
    by code_simp
  then have "session_run sampleCompleted sampleCompleted"
    by (blast intro: session_run.run_refl session_run.run_step acquire_completion)
  moreover from terminal_session_never_changes [OF this] have "sampleCompleted = sampleCompleted"
    by (simp add: sampleCompleted_def IsTerminal_def)
  ultimately show ?thesis by (auto simp: sampleCompleted_def)
qed

subsection \<open>Canonical sessions stay canonical\<close>

text \<open>Which updates of a canonical session leave it canonical: the facts a state needs are checked apart.\<close>

lemma canonical_update:
  assumes "canonical s" and "\<And>x. st \<noteq> SessionStatusOther x" and "s_CreatedAt s \<le> t" and "t \<noteq> 0"
    and "0 \<le> n" and "n \<le> s_TotalParts s" and "TrimSpace tok = tok"
    and "facts_ok (s\<lparr>s_Status := st, s_CompletedParts := n, s_CompletionToken := tok,
           s_CompletionStartedAt := sa, s_AbortedAt := aa, s_UpdatedAt := t\<rparr>)"
  shows "canonical (s\<lparr>s_Status := st, s_CompletedParts := n, s_CompletionToken := tok,
           s_CompletionStartedAt := sa, s_AbortedAt := aa, s_UpdatedAt := t\<rparr>)"
proof -
  have v: "fields_ok s" "parts_ok s" "session_of_params s = s"
    using assms(1) by (simp_all add: canonical_def valid_session_def)
  let ?u = "s\<lparr>s_Status := st, s_CompletedParts := n, s_CompletionToken := tok,
           s_CompletionStartedAt := sa, s_AbortedAt := aa, s_UpdatedAt := t\<rparr>"
  have "fields_ok ?u" using v(1) assms(2-4) by (simp add: fields_ok_def)
  moreover have "parts_ok ?u" using v(2) assms(5,6) by (simp add: parts_ok_def)
  moreover have "session_of_params ?u = ?u"
    using v(3) assms(4,7) by (simp add: session_of_params_fixed normalizeUpdatedAt_def IsZero_def)
  ultimately show ?thesis using assms(8) by (simp add: canonical_def valid_session_def)
qed

lemma canonical_times: "canonical s \<Longrightarrow> s_CreatedAt s \<le> s_UpdatedAt s \<and> s_UpdatedAt s \<noteq> 0"
  by (simp add: canonical_def valid_session_def fields_ok_def)

lemma canonical_token: "canonical s \<Longrightarrow> TrimSpace (s_CompletionToken s) = s_CompletionToken s"
  by (simp add: canonical_def session_of_params_fixed)

lemma canonical_parts: "canonical s \<Longrightarrow> 0 \<le> s_CompletedParts s \<and> s_CompletedParts s \<le> s_TotalParts s"
  by (simp add: canonical_def valid_session_def parts_ok_def)

lemma MarkUploading_canonical:
  assumes "canonical s" and "MarkUploading n s = Inr s'" and "n \<le> s_TotalParts s"
  shows "canonical s'"
proof -
  have s': "s' = s\<lparr>s_Status := SessionStatusUploading, s_CompletedParts := max n (s_CompletedParts s)\<rparr>"
    using assms(2) by (simp add: MarkUploading_Inr)
  show ?thesis
    using canonical_update [OF assms(1), where st = SessionStatusUploading and t = "s_UpdatedAt s"
        and n = "max n (s_CompletedParts s)" and tok = "s_CompletionToken s"
        and sa = "s_CompletionStartedAt s" and aa = "s_AbortedAt s"]
      canonical_times [OF assms(1)] canonical_token [OF assms(1)] canonical_parts [OF assms(1)] assms(3)
    by (simp add: s' facts_ok_def le_max_iff_disj)
qed

lemma AcquireCompletion_canonical:
  assumes "canonical s" and "Session_AcquireCompletion token t s = Inr (ow, s')" and "s_CreatedAt s \<le> t"
  shows "canonical s'"
proof (cases "s' = s")
  case True
  with assms show ?thesis by simp
next
  case False
  with assms(2) have s': "TrimSpace token \<noteq> []" "t \<noteq> 0"
    "s' = s\<lparr>s_Status := SessionStatusCompleting, s_CompletionToken := TrimSpace token,
            s_CompletionStartedAt := Some t, s_UpdatedAt := t\<rparr>"
    by (auto simp: Session_AcquireCompletion_Inr split: SessionStatus.splits)
  show ?thesis
    using canonical_update [OF assms(1), where st = SessionStatusCompleting and t = t
        and n = "s_CompletedParts s" and tok = "TrimSpace token" and sa = "Some t" and aa = "s_AbortedAt s"]
      s'(1,2) canonical_parts [OF assms(1)] assms(3)
    by (simp add: s'(3) facts_ok_def not_recorded_def IsZero_def)
qed

lemma MarkCompleted_canonical:
  assumes "canonical s" and "MarkCompleted fileID t s = Inr s'"
  shows "canonical s'"
proof (cases "s_Status s = SessionStatusCompleted")
  case True
  with assms show ?thesis by (auto simp: MarkCompleted_def split: if_splits)
next
  case False
  let ?u = "s\<lparr>s_Status := SessionStatusCompleted, s_FileID := TrimSpace fileID,
             s_CompletedAt := Some t, s_UpdatedAt := t\<rparr>"
  from False assms(2) have u: "Session_Validate ?u = Inr s'"
    by (simp add: MarkCompleted_def split: if_splits)
  then have "t \<noteq> 0" by (simp add: Session_Validate_iff fields_ok_def)
  with assms(1) have "session_of_params ?u = ?u"
    by (simp add: canonical_def session_of_params_fixed normalizeUpdatedAt_def IsZero_def)
  with Session_Validate_result [OF u] show ?thesis by (simp add: canonical_def)
qed

lemma MarkFailed_canonical:
  assumes "canonical s" and "MarkFailed code msg t s = Inr s'"
  shows "canonical s'"
proof (cases "s_Status s = SessionStatusFailed")
  case True
  with assms show ?thesis by (simp add: MarkFailed_def)
next
  case False
  let ?u = "s\<lparr>s_Status := SessionStatusFailed, s_FailureCode := TrimSpace code,
             s_FailureMessage := TrimSpace msg, s_FailedAt := Some t, s_UpdatedAt := t\<rparr>"
  from False assms(2) have u: "Session_Validate ?u = Inr s'"
    by (simp add: MarkFailed_def split: if_splits)
  then have "t \<noteq> 0" by (simp add: Session_Validate_iff fields_ok_def)
  with assms(1) have "session_of_params ?u = ?u"
    by (simp add: canonical_def session_of_params_fixed normalizeUpdatedAt_def IsZero_def)
  with Session_Validate_result [OF u] show ?thesis by (simp add: canonical_def)
qed

lemma Abort_canonical:
  assumes "canonical s" and "Abort t s = Inr s'" and "s_CreatedAt s \<le> t" and "t \<noteq> 0"
  shows "canonical s'"
proof (cases "s' = s")
  case True
  with assms show ?thesis by simp
next
  case False
  with assms(2) have s': "s' = s\<lparr>s_Status := SessionStatusAborted, s_AbortedAt := Some t, s_UpdatedAt := t\<rparr>"
    by (auto simp: Abort_Inr)
  show ?thesis
    using canonical_update [OF assms(1), where st = SessionStatusAborted and t = t
        and n = "s_CompletedParts s" and tok = "s_CompletionToken s" and sa = "s_CompletionStartedAt s"
        and aa = "Some t"]
      canonical_token [OF assms(1)] canonical_parts [OF assms(1)] assms(3,4)
    by (simp add: s' facts_ok_def not_recorded_def IsZero_def)
qed

text \<open>
  Claim C16: the domain methods keep a session canonical (trimmed, normalised and valid), so that a
  row written from it is read back by \<^verbatim>\<open>NewSession\<close> unchanged. The hypotheses are what the
  handlers establish: the clock does not run behind the creation time, and a part count
  reported by the provider does not exceed the session's total.
\<close>

theorem methods_keep_session_canonical:
  assumes "canonical s" and "s_CreatedAt s \<le> t" and "t \<noteq> 0" and "n \<le> s_TotalParts s"
    and "s' \<in> {u. MarkUploading n s = Inr u} \<union>
               {u. \<exists>ow. Session_AcquireCompletion token t s = Inr (ow, u)} \<union>
               {u. MarkCompleted fileID t s = Inr u} \<union>
               {u. MarkFailed code msg t s = Inr u} \<union> {u. Abort t s = Inr u}"
  shows "canonical s'"
  using assms(5)
proof (elim UnE CollectE exE)
  show "MarkUploading n s = Inr s' \<Longrightarrow> canonical s'" using assms by (blast intro: MarkUploading_canonical)
  show "Session_AcquireCompletion token t s = Inr (ow, s') \<Longrightarrow> canonical s'" for ow
    using assms by (blast intro: AcquireCompletion_canonical)
  show "MarkCompleted fileID t s = Inr s' \<Longrightarrow> canonical s'" using assms by (blast intro: MarkCompleted_canonical)
  show "MarkFailed code msg t s = Inr s' \<Longrightarrow> canonical s'" using assms by (blast intro: MarkFailed_canonical)
  show "Abort t s = Inr s' \<Longrightarrow> canonical s'" using assms by (blast intro: Abort_canonical)
qed

theorem methods_keep_session_canonical_witness:
  "\<exists>s'. MarkFailed ''UPLOAD_HASH_MISMATCH'' ''no match'' 30 sampleCompleting = Inr s' \<and> canonical s'"
proof -
  have "\<not> isl (MarkFailed ''UPLOAD_HASH_MISMATCH'' ''no match'' 30 sampleCompleting)" by code_simp
  then obtain s' where s': "MarkFailed ''UPLOAD_HASH_MISMATCH'' ''no match'' 30 sampleCompleting = Inr s'"
    using not_isl_Inr by blast
  have facts: "s_CreatedAt sampleCompleting \<le> 30" "1 \<le> s_TotalParts sampleCompleting" by code_simp+
  from methods_keep_session_canonical [OF sample_sessions_canonical(2) facts(1) _ facts(2), of s'] s'
  have "canonical s'" by auto
  with s' show ?thesis by blast
qed

subsection \<open>Completion has one owner\<close>

text \<open>
  A queue of completion requests served one after the other, as the row lock of the repository
  serialises them: each gets an ownership answer, or an error that leaves the session alone.
\<close>

fun serve_completions :: "(string \<times> time) list \<Rightarrow> Session \<Rightarrow> (string \<times> CompletionOwnership) list" where
  "serve_completions [] s = []"
| "serve_completions ((token, t) # reqs) s =
     (case Session_AcquireCompletion token t s of
        Inl e \<Rightarrow> serve_completions reqs s
      | Inr (ow, s') \<Rightarrow> (token, ow) # serve_completions reqs s')"

lemma serve_completions_held:
  assumes "s_Status s = SessionStatusCompleting"
    and "(token, ow) \<in> set (serve_completions reqs s)" and "OwnsCompletion ow"
  shows "TrimSpace token = s_CompletionToken s"
  using assms
proof (induction reqs)
  case (Cons req reqs)
  obtain tk t where req: "req = (tk, t)" by (cases req)
  show ?case
  proof (cases "Session_AcquireCompletion tk t s")
    case (Inl e)
    with Cons req show ?thesis by simp
  next
    case (Inr r)
    obtain o' s' where r: "r = (o', s')" by (cases r)
    with Inr Cons.prems(1) have "s' = s"
      and "o' = (if s_CompletionToken s = TrimSpace tk then CompletionOwnershipHeldByCaller
                 else CompletionOwnershipHeldByAnother)"
      by (auto simp: Session_AcquireCompletion_Inr)
    with Cons req Inr r show ?thesis by (auto simp: OwnsCompletion_def split: if_splits)
  qed
qed simp

lemma serve_completions_done:
  assumes "s_Status s = SessionStatusCompleted" and "(token, ow) \<in> set (serve_completions reqs s)"
  shows "\<not> OwnsCompletion ow"
  using assms
proof (induction reqs)
  case (Cons req reqs)
  then show ?case
    by (cases req) (auto simp: OwnsCompletion_def Session_AcquireCompletion_Inr split: sum.splits prod.splits)
qed simp

text \<open>
  Claim C14: completion is a critical section. In any sequence of completion requests against one
  session, all requests that are told they own the completion carry the same token.
\<close>

theorem completion_owner_unique:
  assumes "(token1, ow1) \<in> set (serve_completions reqs s)" and "OwnsCompletion ow1"
    and "(token2, ow2) \<in> set (serve_completions reqs s)" and "OwnsCompletion ow2"
  shows "TrimSpace token1 = TrimSpace token2"
  using assms
proof (induction reqs)
  case (Cons req reqs)
  obtain tk t where req: "req = (tk, t)" by (cases req)
  show ?case
  proof (cases "Session_AcquireCompletion tk t s")
    case (Inl e)
    with Cons req show ?thesis by simp
  next
    case (Inr r)
    obtain o' s' where r: "r = (o', s')" by (cases r)
    show ?thesis
    proof (cases "s_Status s = SessionStatusCompleting \<or> s_Status s = SessionStatusCompleted")
      case True
      then show ?thesis
        using Cons.prems serve_completions_held serve_completions_done by metis
    next
      case False
      with Inr r have "s_Status s' = SessionStatusCompleting" "s_CompletionToken s' = TrimSpace tk"
        by (auto simp: Session_AcquireCompletion_Inr split: SessionStatus.splits)
      then have "TrimSpace token = TrimSpace tk" if "(token, ow) \<in> set (serve_completions (req # reqs) s)"
        "OwnsCompletion ow" for token ow
        using that req Inr r serve_completions_held [of s'] by auto
      with Cons.prems show ?thesis by metis
    qed
  qed
qed simp

theorem completion_owner_unique_witness:
  "serve_completions [(''tok'', 20), (''other'', 21), ('' tok'', 22)] sampleSession =
     [(''tok'', CompletionOwnershipAcquired), (''other'', CompletionOwnershipHeldByAnother),
      ('' tok'', CompletionOwnershipHeldByCaller)] \<and> TrimSpace ''tok'' = TrimSpace '' tok''"
proof -
  have run: "serve_completions [(''tok'', 20), (''other'', 21), ('' tok'', 22)] sampleSession =
     [(''tok'', CompletionOwnershipAcquired), (''other'', CompletionOwnershipHeldByAnother),
      ('' tok'', CompletionOwnershipHeldByCaller)]"
    by code_simp
  from completion_owner_unique [of "''tok''" CompletionOwnershipAcquired
      "[(''tok'', 20), (''other'', 21), ('' tok'', 22)]" sampleSession "'' tok''" CompletionOwnershipHeldByCaller] run
  show ?thesis by (simp add: OwnsCompletion_def)
qed

end
