(* ===== verification/Database.thy ===== *)
theory Database
  imports UploadStateMachine
begin

text \<open>
  The shared PostgreSQL database and the runtime the services run in. Every table is the list of
  its rows; the columns are those of \<^verbatim>\<open>src/migrations\<close> that the Go code reads or writes, with
  nullable columns as options, and the CHECK, UNIQUE, primary-key and foreign-key constraints
  of the migrations are evaluated by the statements that write. A column whose CHECK lists the
  strings of an enumeration has the enumeration's datatype. Maximal column widths and the
  rounding of instants to microseconds are not modelled.

  The state of a run is the database, the calls issued so far to the object storage, and a
  counter of the nondeterministic events. The environment \<open>env\<close> is what the handlers are
  given from outside this repository: clock, id generator, failures of the database
  connection, and the object storage behind the ports of
  \<^verbatim>\<open>src/internal/services/upload/ports/storage_ports.go\<close>; every answer may depend on the
  counter, so two calls may be answered differently.
\<close>

subsection \<open>Rows\<close>

record session_row =
  us_upload_session_id :: string
  us_tenant_id :: string
  us_owner_id :: string
  us_upload_mode :: SessionMode
  us_target_access_level :: AccessLevel
  us_original_filename :: string
  us_content_type :: "string option"
  us_expected_size :: int
  us_file_hash :: "string option"
  us_hash_algorithm :: "string option"
  us_storage_provider :: Provider
  us_bucket_name :: string
  us_object_key :: string
  us_provider_upload_id :: "string option"
  us_chunk_size_bytes :: int
  us_total_parts :: int
  us_completed_parts :: int
  us_file_id :: "string option"
  us_completion_token :: "string option"
  us_completion_started_at :: "time option"
  us_status :: SessionStatus
  us_failure_code :: "string option"
  us_failure_message :: "string option"
  us_resumed_from_session_id :: "string option"
  us_idempotency_key :: "string option"
  us_created_at :: time
  us_updated_at :: time
  us_completed_at :: "time option"
  us_aborted_at :: "time option"
  us_failed_at :: "time option"
  us_expires_at :: time

record part_row =
  sp_upload_session_id :: string
  sp_part_number :: int
  sp_etag :: string
  sp_part_size :: int
  sp_checksum :: "string option"
  sp_uploaded_at :: time

record blob_row =
  bo_blob_object_id :: string
  bo_tenant_id :: string
  bo_storage_provider :: Provider
  bo_bucket_name :: string
  bo_object_key :: string
  bo_etag :: "string option"
  bo_checksum :: "string option"
  bo_hash_value :: "string option"
  bo_hash_algorithm :: "string option"
  bo_file_size :: int
  bo_content_type :: "string option"
  bo_reference_count :: int
  bo_created_at :: time
  bo_updated_at :: time
  bo_deleted_at :: "time option"

datatype FileStatus = FileStatusActive | FileStatusDeleted | FileStatusOther string

record file_row =
  fa_file_id :: string
  fa_tenant_id :: string
  fa_owner_id :: string
  fa_blob_object_id :: string
  fa_original_filename :: string
  fa_content_type :: "string option"
  fa_file_size :: int
  fa_access_level :: AccessLevel
  fa_status :: FileStatus
  fa_storage_provider :: Provider
  fa_bucket_name :: string
  fa_object_key :: string
  fa_file_hash :: "string option"
  fa_created_at :: time
  fa_updated_at :: time
  fa_deleted_at :: "time option"

record usage_row =
  tu_tenant_id :: string
  tu_used_storage_bytes :: int
  tu_used_file_count :: int
  tu_last_upload_at :: "time option"
  tu_version :: int
  tu_updated_at :: time

record policy_row =
  tp_tenant_id :: string
  tp_max_storage_bytes :: int
  tp_max_file_count :: int
  tp_max_single_file_size :: int
  tp_allowed_mime_types :: "string list"
  tp_allowed_extensions :: "string list"
  tp_default_access_level :: string
  tp_auto_create_enabled :: bool
  tp_created_at :: time
  tp_updated_at :: time

text \<open>
  A tenant. The arrays of a policy are nullable; no reader distinguishes \<^verbatim>\<open>NULL\<close> from the empty
  array, so both are the empty list.
\<close>

record tenant_row =
  te_tenant_id :: string
  te_tenant_name :: string
  te_status :: string
  te_contact_email :: "string option"
  te_description :: "string option"
  te_created_at :: time
  te_updated_at :: time
  te_deleted_at :: "time option"

text \<open>An event's payload is a JSON object; \<open>pval\<close> are the values the producers put into it.\<close>

datatype pval = PStr string | PInt int | PTime time | PBool bool | PStrs "string list"

datatype OutboxStatus = OutboxPending | OutboxPublished | OutboxFailed

record outbox_row =
  oe_event_id :: string
  oe_service_name :: string
  oe_aggregate_type :: string
  oe_aggregate_id :: string
  oe_event_type :: string
  oe_payload :: "(string \<times> pval) list"
  oe_status :: OutboxStatus
  oe_retry_count :: int
  oe_next_attempt_at :: "time option"
  oe_published_at :: "time option"
  oe_created_at :: time
  oe_updated_at :: time

record claim_row =
  dc_tenant_id :: string
  dc_hash_algorithm :: string
  dc_hash_value :: string
  dc_bucket_name :: string
  dc_owner_token :: string
  dc_expires_at :: time
  dc_created_at :: time
  dc_updated_at :: time

record audit_row =
  al_audit_log_id :: string
  al_admin_subject :: string
  al_action :: string
  al_target_type :: string
  al_target_id :: "string option"
  al_tenant_id :: "string option"
  al_request_id :: "string option"
  al_details :: "(string \<times> pval) list"
  al_created_at :: time

record database =
  tenants :: "tenant_row list"
  upload_sessions :: "session_row list"
  upload_session_parts :: "part_row list"
  blob_objects :: "blob_row list"
  file_assets :: "file_row list"
  tenant_usage :: "usage_row list"
  tenant_policies :: "policy_row list"
  outbox_events :: "outbox_row list"
  upload_dedup_claims :: "claim_row list"
  admin_audit_logs :: "audit_row list"

subsection \<open>Constraints of the migrations\<close>

definition tenant_row_check :: "tenant_row \<Rightarrow> bool" where
  "tenant_row_check r \<longleftrightarrow> te_status r \<in> {''ACTIVE'', ''SUSPENDED'', ''DELETED''}"

definition policy_row_check :: "policy_row \<Rightarrow> bool" where
  "policy_row_check r \<longleftrightarrow> 0 < tp_max_storage_bytes r \<and> 0 \<le> tp_max_file_count r \<and> 0 < tp_max_single_file_size r \<and>
     tp_default_access_level r \<in> {''PUBLIC'', ''PRIVATE''}"

definition session_row_check :: "session_row \<Rightarrow> bool" where
  "session_row_check r \<longleftrightarrow>
     us_upload_mode r \<in> {SessionModeInline, SessionModeDirect, SessionModePresignedSingle} \<and>
     us_target_access_level r \<in> {AccessLevelPublic, AccessLevelPrivate} \<and>
     0 < us_expected_size r \<and>
     (us_hash_algorithm r = None \<or> us_hash_algorithm r \<in> {Some ''MD5'', Some ''SHA256''}) \<and>
     0 \<le> us_chunk_size_bytes r \<and> 1 \<le> us_total_parts r \<and>
     0 \<le> us_completed_parts r \<and> us_completed_parts r \<le> us_total_parts r \<and>
     us_status r \<in> {SessionStatusInitiated, SessionStatusUploading, SessionStatusCompleting,
       SessionStatusCompleted, SessionStatusAborted, SessionStatusExpired, SessionStatusFailed}"

definition part_row_check :: "part_row \<Rightarrow> bool" where
  "part_row_check r \<longleftrightarrow> 0 < sp_part_number r \<and> 0 < sp_part_size r"

definition blob_row_check :: "blob_row \<Rightarrow> bool" where
  "blob_row_check r \<longleftrightarrow>
     bo_storage_provider r \<in> {ProviderMinIO, ProviderS3} \<and>
     (bo_hash_algorithm r = None \<or> bo_hash_algorithm r \<in> {Some ''MD5'', Some ''SHA256''}) \<and>
     (bo_hash_value r = None \<longleftrightarrow> bo_hash_algorithm r = None) \<and>
     0 \<le> bo_file_size r \<and> 0 \<le> bo_reference_count r"

text \<open>
  \<^verbatim>\<open>uq_blob_objects_object_locator\<close> and \<^verbatim>\<open>uq_blob_objects_hash\<close>: two rows clash when they agree
  on the locator, or on a hash that is not NULL (NULLs are distinct to a UNIQUE constraint).
\<close>

definition blob_rows_clash :: "blob_row \<Rightarrow> blob_row \<Rightarrow> bool" where
  "blob_rows_clash a b \<longleftrightarrow>
     bo_tenant_id a = bo_tenant_id b \<and> bo_storage_provider a = bo_storage_provider b \<and>
       bo_bucket_name a = bo_bucket_name b \<and> bo_object_key a = bo_object_key b \<or>
     bo_tenant_id a = bo_tenant_id b \<and> bo_hash_algorithm a = bo_hash_algorithm b \<and>
       bo_hash_algorithm a \<noteq> None \<and> bo_hash_value a = bo_hash_value b \<and> bo_hash_value a \<noteq> None \<and>
       bo_bucket_name a = bo_bucket_name b"

definition file_row_check :: "file_row \<Rightarrow> bool" where
  "file_row_check r \<longleftrightarrow>
     0 \<le> fa_file_size r \<and> fa_access_level r \<in> {AccessLevelPublic, AccessLevelPrivate} \<and>
     fa_status r \<in> {FileStatusActive, FileStatusDeleted}"

definition usage_row_check :: "usage_row \<Rightarrow> bool" where
  "usage_row_check r \<longleftrightarrow>
     0 \<le> tu_used_storage_bytes r \<and> 0 \<le> tu_used_file_count r \<and> 0 \<le> tu_version r"

definition constraint_violation :: "string \<Rightarrow> go_error" where
  "constraint_violation name = Errorf (''constraint violation: '' @ name)"

definition ErrNoRows :: string where "ErrNoRows = ''sql: no rows in result set''"

subsection \<open>Statements on one table\<close>

definition lookup_row :: "('r \<Rightarrow> 'k) \<Rightarrow> 'k \<Rightarrow> 'r list \<Rightarrow> 'r option" where
  "lookup_row key k rows = find (\<lambda>r. key r = k) rows"

definition update_where :: "('r \<Rightarrow> bool) \<Rightarrow> ('r \<Rightarrow> 'r) \<Rightarrow> 'r list \<Rightarrow> 'r list" where
  "update_where p f rows = map (\<lambda>r. if p r then f r else r) rows"

text \<open>An \<^verbatim>\<open>UPDATE\<close> that leaves the primary key of every row alone, the law the tables rely on.\<close>

locale row_update =
  fixes key :: "'r \<Rightarrow> 'k" and f :: "'r \<Rightarrow> 'r"
  assumes key_f: "key (f r) = key r"
begin

lemma keys_update: "map key (update_where p f rows) = map key rows"
  by (simp add: update_where_def key_f)

lemma lookup_update:
  "lookup_row key k (update_where p f rows) =
     map_option (\<lambda>r. if p r then f r else r) (lookup_row key k rows)"
  by (induction rows) (simp_all add: lookup_row_def update_where_def key_f)

lemma lookup_update_key:
  "lookup_row key k (update_where (\<lambda>r. key r = k') f rows) =
     (if k = k' then map_option f (lookup_row key k rows) else lookup_row key k rows)"
  by (induction rows) (auto simp: lookup_row_def update_where_def key_f)

end

lemma lookup_row_Some: "lookup_row key k rows = Some r \<Longrightarrow> r \<in> set rows \<and> key r = k"
  unfolding lookup_row_def by (rule find_Some_filter)

lemma lookup_row_None: "lookup_row key k rows = None \<longleftrightarrow> k \<notin> key ` set rows"
  by (auto simp: lookup_row_def find_None_iff image_iff)

lemma lookup_row_append:
  "lookup_row key k (rows @ [r]) =
     (case lookup_row key k rows of Some x \<Rightarrow> Some x | None \<Rightarrow> if key r = k then Some r else None)"
  by (induction rows) (auto simp: lookup_row_def)

lemma lookup_row_unique: "distinct (map key rows) \<Longrightarrow> r \<in> set rows \<Longrightarrow> lookup_row key (key r) rows = Some r"
  unfolding lookup_row_def by (rule distinct_map_find)

lemma update_where_false [simp]: "(\<And>r. r \<in> set rows \<Longrightarrow> \<not> p r) \<Longrightarrow> update_where p f rows = rows"
  by (simp add: update_where_def map_idI)

text \<open>Updating the row of a key changes the number of rows with a property by that row alone.\<close>

lemma count_filter_sum: "int (length (filter P xs)) = sum_list (map (\<lambda>x. if P x then 1 else 0) xs)"
  by (induction xs) auto

lemma count_update_where:
  assumes "distinct (map key xs)" and "lookup_row key k xs = Some x"
  shows "int (length (filter P (update_where (\<lambda>r. key r = k) g xs))) =
    int (length (filter P xs)) - (if P x then 1 else 0) + (if P (g x) then 1 else 0)"
proof -
  from lookup_row_Some [OF assms(2)] have x: "x \<in> set xs" "key x = k" by auto
  have "map (\<lambda>r. if P r then 1 else 0 :: int) (update_where (\<lambda>r. key r = k) g xs) =
    map (\<lambda>r. if key r = key x then (if P (g r) then 1 else 0) else (if P r then 1 else 0)) xs"
    by (simp add: update_where_def x(2))
  with sum_list_map_upd [OF assms(1) x(1), of "\<lambda>r. if P (g r) then 1 else 0" "\<lambda>r. if P r then 1 else 0"]
  show ?thesis by (simp only: count_filter_sum)
qed

text \<open>A sequence of updates by key is one pass over the rows.\<close>

lemma fold_update_where:
  assumes "distinct (map k evs)" and "\<And>e r. key (g e r) = key r"
  shows "fold (\<lambda>e. update_where (\<lambda>r. key r = k e) (g e)) evs rows =
    map (\<lambda>r. case find (\<lambda>e. k e = key r) evs of None \<Rightarrow> r | Some e \<Rightarrow> g e r) rows"
  using assms(1)
proof (induction evs arbitrary: rows)
  case (Cons e evs)
  have "find (\<lambda>e'. k e' = k e) evs = None"
    using Cons.prems by (auto simp: find_None_iff image_iff)
  with Cons show ?case by (auto simp: update_where_def assms(2) split: option.splits)
qed simp

lemma fold_update_keys:
  assumes "distinct ks" and "\<And>r. key (g r) = key r"
  shows "fold (\<lambda>k. update_where (\<lambda>r. key r = k) g) ks rows = map (\<lambda>r. if key r \<in> set ks then g r else r) rows"
proof -
  have "find (\<lambda>k. k = i) ks = (if i \<in> set ks then Some i else None)" for i by (induction ks) auto
  then have "(case find (\<lambda>k. k = key r) ks of None \<Rightarrow> r | Some _ \<Rightarrow> g r) = (if key r \<in> set ks then g r else r)" for r
    by simp
  with fold_update_where [of "\<lambda>k. k" ks key "\<lambda>_. g" rows] assms show ?thesis by simp
qed

subsection \<open>The running system\<close>

datatype storage_call =
    CallCreateMultipartUpload ObjectRef string
  | CallPutObject ObjectRef string int
  | CallCompleteMultipartUpload ObjectRef string "UploadedPart list"
  | CallAbortMultipartUpload ObjectRef string
  | CallDeleteObject ObjectRef

record world =
  w_db :: database
  w_calls :: "storage_call list"
  w_tick :: nat

record env =
  e_now :: "nat \<Rightarrow> time"
  e_new_id :: "nat \<Rightarrow> string result"
  e_db_fault :: "nat \<Rightarrow> go_error option"
  e_Resolve :: "AccessLevel \<Rightarrow> BucketRef result"
  e_CreateMultipartUpload :: "nat \<Rightarrow> ObjectRef \<Rightarrow> string \<Rightarrow> string result"
  e_ListUploadedParts :: "nat \<Rightarrow> ObjectRef \<Rightarrow> string \<Rightarrow> UploadedPart list result"
  e_CompleteMultipartUpload :: "nat \<Rightarrow> ObjectRef \<Rightarrow> string \<Rightarrow> UploadedPart list \<Rightarrow> go_error option"
  e_AbortMultipartUpload :: "nat \<Rightarrow> ObjectRef \<Rightarrow> string \<Rightarrow> go_error option"
  e_HeadObject :: "nat \<Rightarrow> ObjectRef \<Rightarrow> ObjectMetadata result"
  e_ComputeSHA256 :: "(nat \<Rightarrow> ObjectRef \<Rightarrow> string result) option"
  e_PutObject :: "nat \<Rightarrow> ObjectRef \<Rightarrow> string \<Rightarrow> int \<Rightarrow> go_error option"
  e_DeleteObject :: "nat \<Rightarrow> ObjectRef \<Rightarrow> go_error option"
  e_PresignPutObject :: "nat \<Rightarrow> ObjectRef \<Rightarrow> string \<Rightarrow> duration \<Rightarrow> (string \<times> (string \<times> string) list) result"
  e_PresignUploadPart :: "nat \<Rightarrow> ObjectRef \<Rightarrow> string \<Rightarrow> int \<Rightarrow> duration \<Rightarrow> (string \<times> (string \<times> string) list) result"

type_synonym 'a M = "(world, go_error, 'a) action"

text \<open>One answer of the environment, at the current event.\<close>

definition askA :: "(nat \<Rightarrow> 'a result) \<Rightarrow> 'a M" where
  "askA f = (\<lambda>w. (f (w_tick w), w\<lparr>w_tick := Suc (w_tick w)\<rparr>))"

text \<open>A call to the object storage that may change it: it is logged whatever it answers.\<close>

definition callA :: "storage_call \<Rightarrow> (nat \<Rightarrow> 'a result) \<Rightarrow> 'a M" where
  "callA c f = (\<lambda>w. (f (w_tick w), w\<lparr>w_tick := Suc (w_tick w), w_calls := w_calls w @ [c]\<rparr>))"

definition Now :: "env \<Rightarrow> time M" where
  "Now env = askA (\<lambda>n. Inr (e_now env n))"

definition NewID :: "env \<Rightarrow> string M" where
  "NewID env = askA (e_new_id env)"

text \<open>One SQL statement: the connection may fail; otherwise it fails or changes the database.\<close>

definition runSQL :: "env \<Rightarrow> (database \<Rightarrow> go_error + 'a \<times> database) \<Rightarrow> 'a M" where
  "runSQL env stmt = (\<lambda>w.
     let w1 = w\<lparr>w_tick := Suc (w_tick w)\<rparr> in
     case e_db_fault env (w_tick w) of
       Some e \<Rightarrow> (Inl e, w1)
     | None \<Rightarrow> (case stmt (w_db w) of
         Inl e \<Rightarrow> (Inl e, w1)
       | Inr (x, db') \<Rightarrow> (Inr x, w1\<lparr>w_db := db'\<rparr>)))"

text \<open>\<^verbatim>\<open>wrapDBError\<close> of the repositories.\<close>

definition wrapDBError :: "string \<Rightarrow> go_error \<Rightarrow> go_error" where
  "wrapDBError message err = Wrap CodeServiceUnavailable message err []"

text \<open>
  \<^verbatim>\<open>TxManager.WithinTransaction\<close>: inside a transaction the body just runs; otherwise it runs
  between \<^verbatim>\<open>BEGIN\<close> and \<^verbatim>\<open>COMMIT\<close>, and an error of the body or of the commit restores the
  database. The log of storage calls is not transactional.
\<close>

datatype ctx = NoTx | InTx

definition WithinTransaction :: "env \<Rightarrow> ctx \<Rightarrow> (ctx \<Rightarrow> 'a M) \<Rightarrow> 'a M" where
  "WithinTransaction env c body = (case c of
     InTx \<Rightarrow> body InTx
   | NoTx \<Rightarrow>
      bindA (mapErrA (wrapDBError ''begin transaction'') (runSQL env (\<lambda>db. Inr ((), db)))) (\<lambda>_.
      (\<lambda>w. case body InTx w of
        (Inl e, w') \<Rightarrow> (Inl e, w'\<lparr>w_db := w_db w\<rparr>)
      | (Inr x, w') \<Rightarrow>
          (case runSQL env (\<lambda>db. Inr ((), db)) w' of
             (Inl e, w2) \<Rightarrow> (Inl (wrapDBError ''commit transaction'' e), w2\<lparr>w_db := w_db w\<rparr>)
           | (Inr _, w2) \<Rightarrow> (Inr x, w2)))))"

lemma askA_iff: "askA f w = (r, w') \<longleftrightarrow> r = f (w_tick w) \<and> w' = w\<lparr>w_tick := Suc (w_tick w)\<rparr>"
  by (auto simp: askA_def)

lemma callA_iff:
  "callA c f w = (r, w') \<longleftrightarrow> r = f (w_tick w) \<and> w' = w\<lparr>w_tick := Suc (w_tick w), w_calls := w_calls w @ [c]\<rparr>"
  by (auto simp: callA_def)

lemma runSQL_Inr:
  "runSQL env stmt w = (Inr x, w') \<longleftrightarrow>
     e_db_fault env (w_tick w) = None \<and>
     (\<exists>db'. stmt (w_db w) = Inr (x, db') \<and> w' = w\<lparr>w_tick := Suc (w_tick w), w_db := db'\<rparr>)"
  by (auto simp: runSQL_def Let_def split: option.splits sum.splits)

lemma runSQL_Inl:
  "runSQL env stmt w = (Inl e, w') \<longleftrightarrow>
     w' = w\<lparr>w_tick := Suc (w_tick w)\<rparr> \<and>
     (e_db_fault env (w_tick w) = Some e \<or> e_db_fault env (w_tick w) = None \<and> stmt (w_db w) = Inl e)"
  by (auto simp: runSQL_def Let_def split: option.splits sum.splits)

text \<open>A failed transaction leaves no trace in the database.\<close>

lemma WithinTransaction_Inl_db:
  assumes "WithinTransaction env NoTx body w = (Inl e, w')"
  shows "w_db w' = w_db w"
  using assms
  by (auto simp: WithinTransaction_def bindA_Inl_iff mapErrA_Inl_iff runSQL_Inl runSQL_Inr
      split: prod.splits sum.splits)

lemma WithinTransaction_Inr:
  assumes "WithinTransaction env NoTx body w = (Inr x, w')"
  shows "\<exists>w1 w2. w1 = w\<lparr>w_tick := Suc (w_tick w)\<rparr> \<and> body InTx w1 = (Inr x, w2) \<and>
           w' = w2\<lparr>w_tick := Suc (w_tick w2)\<rparr>"
  using assms
  by (auto simp: WithinTransaction_def bindA_Inr_iff runSQL_Inl runSQL_Inr
      split: prod.splits sum.splits)

subsection \<open>Frames of the running system\<close>

interpretation db_frame: frame "\<lambda>w w'. w_db w' = w_db w"
  by unfold_locales simp_all

interpretation calls_frame: frame "\<lambda>w w'. w_calls w' = w_calls w"
  by unfold_locales simp_all

lemma askA_db [frame_rules]: "db_frame.keeps (askA f)"
  by (rule db_frame.keepsI) (simp add: askA_iff)

lemma callA_db [frame_rules]: "db_frame.keeps (callA c f)"
  by (rule db_frame.keepsI) (simp add: callA_iff)

lemma Now_db [frame_rules]: "db_frame.keeps (Now env)"
  by (simp add: Now_def askA_db)

lemma NewID_db [frame_rules]: "db_frame.keeps (NewID env)"
  by (simp add: NewID_def askA_db)

lemma askA_calls [frame_rules]: "calls_frame.keeps (askA f)"
  by (rule calls_frame.keepsI) (simp add: askA_iff)

lemma Now_calls [frame_rules]: "calls_frame.keeps (Now env)"
  by (simp add: Now_def askA_calls)

lemma NewID_calls [frame_rules]: "calls_frame.keeps (NewID env)"
  by (simp add: NewID_def askA_calls)

lemma runSQL_calls [frame_rules]: "calls_frame.keeps (runSQL env stmt)"
proof (rule calls_frame.keepsI)
  fix w r w' assume "runSQL env stmt w = (r, w')"
  then show "w_calls w' = w_calls w" by (cases r) (auto simp: runSQL_Inl runSQL_Inr)
qed

text \<open>A statement that only reads.\<close>

lemma runSQL_read_db:
  assumes "\<And>db x db'. stmt db = Inr (x, db') \<Longrightarrow> db' = db"
  shows "db_frame.keeps (runSQL env stmt)"
proof (rule db_frame.keepsI)
  fix w r w' assume "runSQL env stmt w = (r, w')"
  then show "w_db w' = w_db w" by (cases r) (auto simp: runSQL_Inl runSQL_Inr dest: assms)
qed

lemma WithinTransaction_calls:
  assumes "calls_frame.keeps (body InTx)"
  shows "calls_frame.keeps (WithinTransaction env c body)"
proof (rule calls_frame.keepsI)
  fix w r w'
  assume run: "WithinTransaction env c body w = (r, w')"
  show "w_calls w' = w_calls w"
  proof (cases c)
    case NoTx
    with run calls_frame.keepsD [OF assms] show ?thesis
      by (auto simp: WithinTransaction_def bindA_def mapErrA_def runSQL_def Let_def
          split: prod.splits sum.splits option.splits)
  next
    case InTx
    with run assms show ?thesis by (auto simp: WithinTransaction_def dest: calls_frame.keepsD)
  qed
qed

end
