(* ===== verification/UploadRepository.thy ===== *)
theory UploadRepository
  imports Database
begin

text \<open>
  The repositories of the upload service,
  \<^verbatim>\<open>src/internal/services/upload/infra/postgres/repositories.go\<close>, on the tables of \<open>Database\<close>:
  every method is the action that runs its SQL statements, with the statement's constraints,
  and maps the errors the way the method does. The port records
  (\<^verbatim>\<open>src/internal/services/upload/ports\<close>) come first.
\<close>

subsection \<open>Port records\<close>

record BlobRecord =
  br_BlobID :: string
  br_TenantID :: string
  br_StorageProvider :: Provider
  br_Bucket :: string
  br_ObjectKey :: string
  br_SizeBytes :: int
  br_ContentType :: string
  br_ETag :: string
  br_Checksum :: string
  br_Hash :: ContentHash

record FileAssetRecord =
  fr_FileID :: string
  fr_TenantID :: string
  fr_OwnerID :: string
  fr_BlobID :: string
  fr_FileName :: string
  fr_ContentType :: string
  fr_SizeBytes :: int
  fr_AccessLevel :: AccessLevel
  fr_StorageProvider :: Provider
  fr_BucketName :: string
  fr_ObjectKey :: string
  fr_Hash :: "ContentHash option"

record OutboxMessage =
  ob_EventType :: string
  ob_AggregateID :: string
  ob_Payload :: "(string \<times> pval) list"

record SessionPartRecord =
  sr_UploadSessionID :: string
  sr_PartNumber :: int
  sr_ETag :: string
  sr_PartSize :: int
  sr_Checksum :: string
  sr_UploadedAt :: time

record ReusableSessionQuery =
  rq_TenantID :: string
  rq_OwnerID :: string
  rq_Mode :: SessionMode
  rq_AccessLevel :: AccessLevel
  rq_SizeBytes :: int
  rq_Hash :: "ContentHash option"

record CompletionAcquireRequest =
  ca_TenantID :: string
  ca_UploadSessionID :: string
  ca_CompletionToken :: string
  ca_StartedAt :: time

record DedupLookupKey =
  dk_TenantID :: string
  dk_BucketName :: string
  dk_Hash :: ContentHash

record DedupClaim =
  dm_TenantID :: string
  dm_BucketName :: string
  dm_UploadSessionID :: string
  dm_Hash :: ContentHash
  dm_OwnerToken :: string
  dm_ExpiresAt :: time

record TenantUploadPolicy =
  pl_AllowInlineUpload :: bool
  pl_AllowMultipart :: bool
  pl_MaxInlineSize :: int
  pl_MaxFileSize :: int
  pl_AllowedMimeTypes :: "string list"

subsection \<open>NULL and the zero values\<close>

definition nullString :: "string \<Rightarrow> string option" where
  "nullString value = (if value = [] then None else Some value)"

definition nullTime :: "time option \<Rightarrow> time option" where
  "nullTime value = (case value of None \<Rightarrow> None | Some t \<Rightarrow> if IsZero t then None else Some t)"

definition timePtr :: "time option \<Rightarrow> time option" where
  "timePtr value = (case value of None \<Rightarrow> None | Some t \<Rightarrow> Some t)"

text \<open>The field \<^verbatim>\<open>String\<close> of a \<^verbatim>\<open>sql.NullString\<close>: empty when the column is NULL.\<close>

definition null_String :: "string option \<Rightarrow> string" where
  "null_String value = (case value of None \<Rightarrow> [] | Some s \<Rightarrow> s)"

definition hashValue :: "ContentHash option \<Rightarrow> string option" where
  "hashValue hash = (case hash of None \<Rightarrow> None | Some h \<Rightarrow> Some (ch_Value h))"

definition hashAlgorithm :: "ContentHash option \<Rightarrow> string option" where
  "hashAlgorithm hash = (case hash of None \<Rightarrow> None | Some h \<Rightarrow> Some (ch_Algorithm h))"

definition hashValueValue :: "ContentHash \<Rightarrow> string option" where
  "hashValueValue hash = (if ch_Algorithm hash = [] \<or> ch_Value hash = [] then None else Some (ch_Value hash))"

definition hashAlgorithmValue :: "ContentHash \<Rightarrow> string option" where
  "hashAlgorithmValue hash = (if ch_Algorithm hash = [] \<or> ch_Value hash = [] then None else Some (ch_Algorithm hash))"

subsection \<open>Sessions: encoding and decoding of rows\<close>

text \<open>The arguments of the \<^verbatim>\<open>INSERT\<close> and \<^verbatim>\<open>UPDATE\<close> statements.\<close>

definition session_row_of :: "Session \<Rightarrow> session_row" where
  "session_row_of session = \<lparr>
     us_upload_session_id = s_ID session,
     us_tenant_id = s_TenantID session,
     us_owner_id = s_OwnerID session,
     us_upload_mode = s_Mode session,
     us_target_access_level = s_AccessLevel session,
     us_original_filename = s_FileName session,
     us_content_type = nullString (s_ContentType session),
     us_expected_size = s_SizeBytes session,
     us_file_hash = hashValue (s_Hash session),
     us_hash_algorithm = hashAlgorithm (s_Hash session),
     us_storage_provider = or_Provider (s_Object session),
     us_bucket_name = or_BucketName (s_Object session),
     us_object_key = or_ObjectKey (s_Object session),
     us_provider_upload_id = nullString (s_ProviderUploadID session),
     us_chunk_size_bytes = s_ChunkSizeBytes session,
     us_total_parts = s_TotalParts session,
     us_completed_parts = s_CompletedParts session,
     us_file_id = nullString (s_FileID session),
     us_completion_token = nullString (s_CompletionToken session),
     us_completion_started_at = nullTime (s_CompletionStartedAt session),
     us_status = s_Status session,
     us_failure_code = nullString (s_FailureCode session),
     us_failure_message = nullString (s_FailureMessage session),
     us_resumed_from_session_id = nullString (s_ResumedFromSessionID session),
     us_idempotency_key = nullString (s_IdempotencyKey session),
     us_created_at = s_CreatedAt session,
     us_updated_at = s_UpdatedAt session,
     us_completed_at = nullTime (s_CompletedAt session),
     us_aborted_at = nullTime (s_AbortedAt session),
     us_failed_at = nullTime (s_FailedAt session),
     us_expires_at = s_ExpiresAt session\<rparr>"

text \<open>The parameters that \<^verbatim>\<open>querySession\<close> builds from the scanned columns.\<close>

definition params_of_row :: "session_row \<Rightarrow> CreateSessionParams" where
  "params_of_row r = \<lparr>
     s_ID = us_upload_session_id r,
     s_TenantID = us_tenant_id r,
     s_OwnerID = us_owner_id r,
     s_FileName = us_original_filename r,
     s_ContentType = null_String (us_content_type r),
     s_SizeBytes = us_expected_size r,
     s_AccessLevel = us_target_access_level r,
     s_Mode = us_upload_mode r,
     s_Status = us_status r,
     s_ChunkSizeBytes = us_chunk_size_bytes r,
     s_TotalParts = us_total_parts r,
     s_CompletedParts = us_completed_parts r,
     s_Object = \<lparr>or_Provider = us_storage_provider r, or_BucketName = us_bucket_name r,
                 or_ObjectKey = us_object_key r\<rparr>,
     s_ProviderUploadID = null_String (us_provider_upload_id r),
     s_FileID = null_String (us_file_id r),
     s_Hash = (case (us_file_hash r, us_hash_algorithm r) of
                 (Some v, Some a) \<Rightarrow> Some \<lparr>ch_Algorithm = a, ch_Value = v\<rparr>
               | _ \<Rightarrow> None),
     s_CompletionToken = null_String (us_completion_token r),
     s_CompletionStartedAt = timePtr (us_completion_started_at r),
     s_CreatedAt = us_created_at r,
     s_UpdatedAt = us_updated_at r,
     s_CompletedAt = timePtr (us_completed_at r),
     s_AbortedAt = timePtr (us_aborted_at r),
     s_FailureCode = null_String (us_failure_code r),
     s_FailureMessage = null_String (us_failure_message r),
     s_FailedAt = timePtr (us_failed_at r),
     s_ResumedFromSessionID = null_String (us_resumed_from_session_id r),
     s_IdempotencyKey = null_String (us_idempotency_key r),
     s_ExpiresAt = us_expires_at r\<rparr>"

definition querySession :: "env \<Rightarrow> (session_row list \<Rightarrow> session_row option) \<Rightarrow> Session M" where
  "querySession env sel =
     bindA (runSQL env (\<lambda>db. case sel (upload_sessions db) of
              None \<Rightarrow> Inl (Sentinel ErrNoRows)
            | Some r \<Rightarrow> Inr (r, db))) (\<lambda>r.
     liftA (NewSession (params_of_row r)))"

subsection \<open>\<^verbatim>\<open>SessionRepository\<close>\<close>

definition insert_session :: "Session \<Rightarrow> database \<Rightarrow> go_error + unit \<times> database" where
  "insert_session session db =
     (let r = session_row_of session in
      if \<not> session_row_check r then Inl (constraint_violation ''ck_upload_sessions'')
      else if lookup_row us_upload_session_id (s_ID session) (upload_sessions db) \<noteq> None
      then Inl (constraint_violation ''upload_sessions_pkey'')
      else Inr ((), db\<lparr>upload_sessions := upload_sessions db @ [r]\<rparr>))"

definition SessionRepository_Create :: "env \<Rightarrow> Session \<Rightarrow> unit M" where
  "SessionRepository_Create env session =
     mapErrA (wrapDBError ''create upload session'') (runSQL env (insert_session session))"

text \<open>The \<^verbatim>\<open>SET\<close> list of \<^verbatim>\<open>Save\<close>: every column but the key, the tenant and the creation time.\<close>

definition save_row :: "Session \<Rightarrow> session_row \<Rightarrow> session_row" where
  "save_row session r = (session_row_of session)\<lparr>
     us_upload_session_id := us_upload_session_id r,
     us_tenant_id := us_tenant_id r,
     us_created_at := us_created_at r\<rparr>"

definition session_at :: "string \<Rightarrow> string \<Rightarrow> session_row \<Rightarrow> bool" where
  "session_at tenantID uploadSessionID r \<longleftrightarrow>
     us_tenant_id r = tenantID \<and> us_upload_session_id r = uploadSessionID"

definition update_session :: "Session \<Rightarrow> database \<Rightarrow> go_error + int \<times> database" where
  "update_session session db =
     (let p = session_at (s_TenantID session) (s_ID session);
          affected = filter p (upload_sessions db)
      in if list_ex (\<lambda>r. \<not> session_row_check (save_row session r)) affected
         then Inl (constraint_violation ''ck_upload_sessions'')
         else Inr (int (length affected),
                   db\<lparr>upload_sessions := update_where p (save_row session) (upload_sessions db)\<rparr>))"

definition SessionRepository_Save :: "env \<Rightarrow> Session \<Rightarrow> unit M" where
  "SessionRepository_Save env session =
     bindA (mapErrA (wrapDBError ''save upload session'') (runSQL env (update_session session))) (\<lambda>rowsAffected.
     if rowsAffected = 0 then throwA (ErrUploadSessionNotFound (s_ID session)) else returnA ())"

definition notFoundOr :: "go_error \<Rightarrow> string \<Rightarrow> go_error \<Rightarrow> go_error" where
  "notFoundOr notFound message err =
     (if errors_Is err ErrNoRows then notFound else wrapDBError message err)"

definition GetByID :: "env \<Rightarrow> string \<Rightarrow> string \<Rightarrow> Session M" where
  "GetByID env tenantID uploadSessionID =
     mapErrA (notFoundOr (ErrUploadSessionNotFound uploadSessionID) ''get upload session'')
       (querySession env (find (session_at tenantID uploadSessionID)))"

definition reusable_row :: "ReusableSessionQuery \<Rightarrow> session_row \<Rightarrow> bool" where
  "reusable_row query r \<longleftrightarrow>
     us_tenant_id r = rq_TenantID query \<and> us_owner_id r = rq_OwnerID query \<and>
     us_upload_mode r = rq_Mode query \<and> us_target_access_level r = rq_AccessLevel query \<and>
     us_expected_size r = rq_SizeBytes query \<and>
     us_status r \<in> {SessionStatusInitiated, SessionStatusUploading} \<and>
     (case rq_Hash query of
        None \<Rightarrow> us_file_hash r = None \<and> us_hash_algorithm r = None
      | Some h \<Rightarrow> us_file_hash r = Some (ch_Value h) \<and> us_hash_algorithm r = Some (ch_Algorithm h))"

text \<open>\<^verbatim>\<open>ORDER BY created_at DESC LIMIT 1\<close>.\<close>

definition newest_first :: "('r \<Rightarrow> time) \<Rightarrow> 'r list \<Rightarrow> 'r option" where
  "newest_first created rows =
     (case order_by_limit (\<lambda>r. - created r) 1 rows of [] \<Rightarrow> None | r # _ \<Rightarrow> Some r)"

definition FindReusable :: "env \<Rightarrow> ReusableSessionQuery \<Rightarrow> Session option M" where
  "FindReusable env query =
     bindA (tryA (querySession env (\<lambda>rows. newest_first us_created_at (filter (reusable_row query) rows)))) (\<lambda>r.
     case r of
       Inl err \<Rightarrow> if errors_Is err ErrNoRows then returnA None
                  else throwA (wrapDBError ''find reusable upload session'' err)
     | Inr session \<Rightarrow> returnA (Some session))"

text \<open>The statement body of \<^verbatim>\<open>acquireCompletion\<close>, run inside a transaction with the row locked.\<close>

definition acquireCompletion :: "env \<Rightarrow> CompletionAcquireRequest \<Rightarrow> (Session \<times> CompletionOwnership) M" where
  "acquireCompletion env request =
     bindA (mapErrA (notFoundOr (ErrUploadSessionNotFound (ca_UploadSessionID request)) ''acquire completion'')
       (querySession env (find (session_at (ca_TenantID request) (ca_UploadSessionID request))))) (\<lambda>session.
     bindA (liftA (Session_AcquireCompletion (ca_CompletionToken request) (ca_StartedAt request) session)) (\<lambda>(ow, session').
     bindA (if ow = CompletionOwnershipAcquired then SessionRepository_Save env session' else returnA ()) (\<lambda>_.
     returnA (session', ow))))"

definition SessionRepository_AcquireCompletion ::
    "env \<Rightarrow> ctx \<Rightarrow> CompletionAcquireRequest \<Rightarrow> (Session \<times> CompletionOwnership) M" where
  "SessionRepository_AcquireCompletion env c request = (case c of
     InTx \<Rightarrow> acquireCompletion env request
   | NoTx \<Rightarrow>
      bindA (mapErrA (wrapDBError ''begin acquire completion transaction'')
         (runSQL env (\<lambda>db. Inr ((), db)))) (\<lambda>_.
      (\<lambda>w. case acquireCompletion env request w of
        (Inl e, w') \<Rightarrow> (Inl e, w'\<lparr>w_db := w_db w\<rparr>)
      | (Inr x, w') \<Rightarrow>
          (case runSQL env (\<lambda>db. Inr ((), db)) w' of
             (Inl e, w2) \<Rightarrow> (Inl (wrapDBError ''commit acquire completion transaction'' e), w2\<lparr>w_db := w_db w\<rparr>)
           | (Inr _, w2) \<Rightarrow> (Inr x, w2)))))"

definition ConfirmCompletionOwner :: "env \<Rightarrow> string \<Rightarrow> string \<Rightarrow> string \<Rightarrow> Session M" where
  "ConfirmCompletionOwner env tenantID uploadSessionID completionToken =
     mapErrA (notFoundOr (ErrUploadSessionNotFound uploadSessionID) ''confirm completion owner'')
       (querySession env (find (\<lambda>r. session_at tenantID uploadSessionID r \<and>
          us_completion_token r = Some completionToken)))"

subsection \<open>\<^verbatim>\<open>SessionPartRepository\<close>\<close>

definition ListBySessionID :: "env \<Rightarrow> string \<Rightarrow> string \<Rightarrow> SessionPartRecord list M" where
  "ListBySessionID env tenantID uploadSessionID =
     mapErrA (wrapDBError ''list upload session parts'') (runSQL env (\<lambda>db.
       let joined = (if list_ex (session_at tenantID uploadSessionID) (upload_sessions db)
                     then filter (\<lambda>p. sp_upload_session_id p = uploadSessionID) (upload_session_parts db) else [])
       in Inr (map (\<lambda>p. \<lparr>sr_UploadSessionID = sp_upload_session_id p, sr_PartNumber = sp_part_number p,
                         sr_ETag = sp_etag p, sr_PartSize = sp_part_size p,
                         sr_Checksum = null_String (sp_checksum p), sr_UploadedAt = sp_uploaded_at p\<rparr>)
                 (sort_key sp_part_number joined), db)))"

definition upsert_part :: "SessionPartRecord \<Rightarrow> database \<Rightarrow> go_error + unit \<times> database" where
  "upsert_part record db =
     (let r = \<lparr>sp_upload_session_id = sr_UploadSessionID record, sp_part_number = sr_PartNumber record,
               sp_etag = sr_ETag record, sp_part_size = sr_PartSize record,
               sp_checksum = nullString (sr_Checksum record), sp_uploaded_at = sr_UploadedAt record\<rparr>;
          same = (\<lambda>p. sp_upload_session_id p = sp_upload_session_id r \<and> sp_part_number p = sp_part_number r)
      in if \<not> part_row_check r then Inl (constraint_violation ''ck_upload_session_parts'')
         else if lookup_row us_upload_session_id (sp_upload_session_id r) (upload_sessions db) = None
         then Inl (constraint_violation ''fk_upload_session_parts_session'')
         else if list_ex same (upload_session_parts db)
         then Inr ((), db\<lparr>upload_session_parts := update_where same (\<lambda>_. r) (upload_session_parts db)\<rparr>)
         else Inr ((), db\<lparr>upload_session_parts := upload_session_parts db @ [r]\<rparr>))"

definition SessionPartRepository_Upsert :: "env \<Rightarrow> SessionPartRecord \<Rightarrow> unit M" where
  "SessionPartRepository_Upsert env record =
     mapErrA (wrapDBError ''upsert upload session part'') (runSQL env (upsert_part record))"

definition SessionPartRepository_Replace :: "env \<Rightarrow> string \<Rightarrow> string \<Rightarrow> SessionPartRecord list \<Rightarrow> unit M" where
  "SessionPartRepository_Replace env tenantID uploadSessionID parts =
     bindA (mapErrA (wrapDBError ''delete upload session parts'') (runSQL env (\<lambda>db.
       Inr ((), db\<lparr>upload_session_parts :=
         (if list_ex (session_at tenantID uploadSessionID) (upload_sessions db)
          then filter (\<lambda>p. sp_upload_session_id p \<noteq> uploadSessionID) (upload_session_parts db)
          else upload_session_parts db)\<rparr>)))) (\<lambda>_.
     forA (SessionPartRepository_Upsert env) parts)"

subsection \<open>\<^verbatim>\<open>BlobRepository\<close> and \<^verbatim>\<open>FileRepository\<close>\<close>

definition blob_row_of :: "time \<Rightarrow> BlobRecord \<Rightarrow> blob_row" where
  "blob_row_of now record = \<lparr>
     bo_blob_object_id = br_BlobID record,
     bo_tenant_id = br_TenantID record,
     bo_storage_provider = br_StorageProvider record,
     bo_bucket_name = br_Bucket record,
     bo_object_key = br_ObjectKey record,
     bo_etag = nullString (br_ETag record),
     bo_checksum = nullString (br_Checksum record),
     bo_hash_value = hashValueValue (br_Hash record),
     bo_hash_algorithm = hashAlgorithmValue (br_Hash record),
     bo_file_size = br_SizeBytes record,
     bo_content_type = nullString (br_ContentType record),
     bo_reference_count = 0,
     bo_created_at = now,
     bo_updated_at = now,
     bo_deleted_at = None\<rparr>"

text \<open>The \<^verbatim>\<open>DO UPDATE SET\<close> list: id, tenant, reference count, creation and deletion time stay.\<close>

definition conflict_row :: "blob_row \<Rightarrow> blob_row \<Rightarrow> blob_row" where
  "conflict_row excluded r = excluded\<lparr>
     bo_blob_object_id := bo_blob_object_id r,
     bo_tenant_id := bo_tenant_id r,
     bo_reference_count := bo_reference_count r,
     bo_created_at := bo_created_at r,
     bo_deleted_at := bo_deleted_at r\<rparr>"

definition blob_conflict :: "blob_row \<Rightarrow> blob_row list \<Rightarrow> bool" where
  "blob_conflict r rows =
     list_ex (\<lambda>x. bo_blob_object_id x \<noteq> bo_blob_object_id r \<and> blob_rows_clash r x) rows"

definition upsert_blob :: "time \<Rightarrow> BlobRecord \<Rightarrow> database \<Rightarrow> go_error + unit \<times> database" where
  "upsert_blob now record db =
     (let excluded = blob_row_of now record;
          existing = lookup_row bo_blob_object_id (br_BlobID record) (blob_objects db);
          written = (case existing of None \<Rightarrow> excluded | Some r \<Rightarrow> conflict_row excluded r)
      in if \<not> blob_row_check excluded \<or> \<not> blob_row_check written then Inl (constraint_violation ''ck_blob_objects'')
         else if blob_conflict written (blob_objects db) then Inl (constraint_violation ''uq_blob_objects'')
         else Inr ((), db\<lparr>blob_objects := (case existing of
             None \<Rightarrow> blob_objects db @ [excluded]
           | Some _ \<Rightarrow> update_where (\<lambda>r. bo_blob_object_id r = br_BlobID record) (conflict_row excluded) (blob_objects db))\<rparr>))"

definition BlobRepository_Upsert :: "env \<Rightarrow> BlobRecord \<Rightarrow> unit M" where
  "BlobRepository_Upsert env record =
     bindA (Now env) (\<lambda>now.
     mapErrA (wrapDBError ''upsert blob object'') (runSQL env (upsert_blob now record)))"

definition adjust_row :: "int \<Rightarrow> time \<Rightarrow> blob_row \<Rightarrow> blob_row" where
  "adjust_row delta now r = r\<lparr>bo_reference_count := bo_reference_count r + delta, bo_updated_at := now\<rparr>"

definition adjust_refs :: "string \<Rightarrow> int \<Rightarrow> time \<Rightarrow> database \<Rightarrow> go_error + unit \<times> database" where
  "adjust_refs blobID delta now db =
     (let p = (\<lambda>r. bo_blob_object_id r = blobID)
      in if list_ex (\<lambda>r. p r \<and> \<not> blob_row_check (adjust_row delta now r)) (blob_objects db)
         then Inl (constraint_violation ''ck_blob_objects_reference_count_non_negative'')
         else Inr ((), db\<lparr>blob_objects := update_where p (adjust_row delta now) (blob_objects db)\<rparr>))"

definition AdjustReferenceCount :: "env \<Rightarrow> string \<Rightarrow> int \<Rightarrow> unit M" where
  "AdjustReferenceCount env blobID delta =
     bindA (Now env) (\<lambda>now.
     mapErrA (wrapDBError ''adjust blob reference count'') (runSQL env (adjust_refs blobID delta now)))"

definition file_row_of :: "time \<Rightarrow> FileAssetRecord \<Rightarrow> file_row" where
  "file_row_of now record = \<lparr>
     fa_file_id = fr_FileID record,
     fa_tenant_id = fr_TenantID record,
     fa_owner_id = fr_OwnerID record,
     fa_blob_object_id = fr_BlobID record,
     fa_original_filename = fr_FileName record,
     fa_content_type = nullString (fr_ContentType record),
     fa_file_size = fr_SizeBytes record,
     fa_access_level = fr_AccessLevel record,
     fa_status = FileStatusActive,
     fa_storage_provider = fr_StorageProvider record,
     fa_bucket_name = fr_BucketName record,
     fa_object_key = fr_ObjectKey record,
     fa_file_hash = hashValue (fr_Hash record),
     fa_created_at = now,
     fa_updated_at = now,
     fa_deleted_at = None\<rparr>"

definition insert_file :: "time \<Rightarrow> FileAssetRecord \<Rightarrow> database \<Rightarrow> go_error + unit \<times> database" where
  "insert_file now record db =
     (let r = file_row_of now record
      in if \<not> file_row_check r then Inl (constraint_violation ''ck_file_assets'')
         else if lookup_row fa_file_id (fr_FileID record) (file_assets db) \<noteq> None
         then Inl (constraint_violation ''file_assets_pkey'')
         else if lookup_row bo_blob_object_id (fr_BlobID record) (blob_objects db) = None
         then Inl (constraint_violation ''fk_file_assets_blob_object'')
         else Inr ((), db\<lparr>file_assets := file_assets db @ [r]\<rparr>))"

definition CreateFileAsset :: "env \<Rightarrow> FileAssetRecord \<Rightarrow> unit M" where
  "CreateFileAsset env record =
     bindA (Now env) (\<lambda>now.
     mapErrA (wrapDBError ''create file asset'') (runSQL env (insert_file now record)))"

subsection \<open>\<^verbatim>\<open>DedupRepository\<close>\<close>

definition dedup_match :: "DedupLookupKey \<Rightarrow> blob_row \<Rightarrow> file_row \<Rightarrow> bool" where
  "dedup_match key b f \<longleftrightarrow>
     fa_blob_object_id f = bo_blob_object_id b \<and> bo_tenant_id b = dk_TenantID key \<and>
     bo_bucket_name b = dk_BucketName key \<and> bo_hash_algorithm b = Some (ch_Algorithm (dk_Hash key)) \<and>
     bo_hash_value b = Some (ch_Value (dk_Hash key)) \<and> bo_deleted_at b = None \<and> fa_status f = FileStatusActive"

definition lookup_dedup :: "DedupLookupKey \<Rightarrow> database \<Rightarrow> (blob_row \<times> file_row) option" where
  "lookup_dedup key db =
     newest_first (\<lambda>(b, f). fa_created_at f)
       (filter (\<lambda>(b, f). dedup_match key b f) (List.product (blob_objects db) (file_assets db)))"

definition LookupByHash :: "env \<Rightarrow> DedupLookupKey \<Rightarrow> DedupDecision option M" where
  "LookupByHash env key =
     bindA (mapErrA (wrapDBError ''lookup dedup hash'') (runSQL env (\<lambda>db. Inr (lookup_dedup key db, db)))) (\<lambda>row.
     returnA (case row of
       None \<Rightarrow> None
     | Some (b, f) \<Rightarrow> Some \<lparr>dd_Hit = True, dd_BlobID = bo_blob_object_id b, dd_FileID = fa_file_id f,
         dd_CanonicalETag = null_String (bo_etag b), dd_CanonicalBytes = bo_file_size b\<rparr>))"

definition claim_hash :: "time \<Rightarrow> time \<Rightarrow> DedupClaim \<Rightarrow> database \<Rightarrow> go_error + unit \<times> database" where
  "claim_hash created updated claim db =
     (let r = \<lparr>dc_tenant_id = dm_TenantID claim, dc_hash_algorithm = ch_Algorithm (dm_Hash claim),
               dc_hash_value = ch_Value (dm_Hash claim), dc_bucket_name = dm_BucketName claim,
               dc_owner_token = dm_OwnerToken claim, dc_expires_at = dm_ExpiresAt claim,
               dc_created_at = created, dc_updated_at = updated\<rparr>;
          same = (\<lambda>x. dc_tenant_id x = dc_tenant_id r \<and> dc_hash_algorithm x = dc_hash_algorithm r \<and>
                     dc_hash_value x = dc_hash_value r \<and> dc_bucket_name x = dc_bucket_name r)
      in if dc_hash_algorithm r \<notin> {''MD5'', ''SHA256''} then Inl (constraint_violation ''ck_upload_dedup_claims_hash_algorithm'')
         else if list_ex same (upload_dedup_claims db)
         then Inr ((), db\<lparr>upload_dedup_claims := update_where same (\<lambda>x. x\<lparr>dc_owner_token := dc_owner_token r,
                dc_expires_at := dc_expires_at r, dc_updated_at := dc_updated_at r\<rparr>) (upload_dedup_claims db)\<rparr>)
         else Inr ((), db\<lparr>upload_dedup_claims := upload_dedup_claims db @ [r]\<rparr>))"

definition ClaimHash :: "env \<Rightarrow> DedupClaim \<Rightarrow> unit M" where
  "ClaimHash env claim =
     bindA (Now env) (\<lambda>created.
     bindA (Now env) (\<lambda>updated.
     mapErrA (wrapDBError ''claim dedup hash'') (runSQL env (claim_hash created updated claim))))"

subsection \<open>\<^verbatim>\<open>TenantPolicyReader\<close>, \<^verbatim>\<open>TenantUsageRepository\<close> and \<^verbatim>\<open>OutboxPublisher\<close>\<close>

definition ReadUploadPolicy :: "env \<Rightarrow> string \<Rightarrow> TenantUploadPolicy M" where
  "ReadUploadPolicy env tenantID =
     bindA (mapErrA (notFoundOr
         (New CodeForbidden ''tenant policy is not configured'' [(''tenantId'', DStr tenantID)])
         ''read tenant upload policy'')
       (runSQL env (\<lambda>db. case lookup_row tp_tenant_id tenantID (tenant_policies db) of
          None \<Rightarrow> Inl (Sentinel ErrNoRows)
        | Some r \<Rightarrow> Inr (r, db)))) (\<lambda>r.
     returnA \<lparr>pl_AllowInlineUpload = True, pl_AllowMultipart = True,
       pl_MaxInlineSize = tp_max_single_file_size r, pl_MaxFileSize = tp_max_single_file_size r,
       pl_AllowedMimeTypes = tp_allowed_mime_types r\<rparr>)"

definition usage_delta_row :: "int \<Rightarrow> time \<Rightarrow> usage_row \<Rightarrow> usage_row" where
  "usage_delta_row deltaBytes now r = r\<lparr>
     tu_used_storage_bytes := tu_used_storage_bytes r + deltaBytes,
     tu_last_upload_at := (if 0 < deltaBytes then Some now else tu_last_upload_at r),
     tu_version := tu_version r + 1,
     tu_updated_at := now\<rparr>"

definition apply_delta :: "string \<Rightarrow> int \<Rightarrow> time \<Rightarrow> database \<Rightarrow> go_error + unit \<times> database" where
  "apply_delta tenantID deltaBytes now db =
     (let p = (\<lambda>r. tu_tenant_id r = tenantID)
      in if list_ex (\<lambda>r. p r \<and> \<not> usage_row_check (usage_delta_row deltaBytes now r)) (tenant_usage db)
         then Inl (constraint_violation ''ck_tenant_usage'')
         else Inr ((), db\<lparr>tenant_usage := update_where p (usage_delta_row deltaBytes now) (tenant_usage db)\<rparr>))"

definition ApplyDelta :: "env \<Rightarrow> string \<Rightarrow> int \<Rightarrow> unit M" where
  "ApplyDelta env tenantID deltaBytes =
     bindA (Now env) (\<lambda>now.
     mapErrA (wrapDBError ''apply tenant usage delta'') (runSQL env (apply_delta tenantID deltaBytes now)))"

definition insert_event :: "outbox_row \<Rightarrow> database \<Rightarrow> go_error + unit \<times> database" where
  "insert_event r db =
     (if lookup_row oe_event_id (oe_event_id r) (outbox_events db) \<noteq> None
      then Inl (constraint_violation ''outbox_events_pkey'')
      else Inr ((), db\<lparr>outbox_events := outbox_events db @ [r]\<rparr>))"

definition Enqueue :: "env \<Rightarrow> OutboxMessage \<Rightarrow> unit M" where
  "Enqueue env message =
     bindA (mapErrA (\<lambda>err. Wrap CodeInternalError ''generate outbox event id'' err []) (NewID env)) (\<lambda>eventID.
     bindA (Now env) (\<lambda>now.
     mapErrA (wrapDBError ''enqueue outbox event'') (runSQL env (insert_event \<lparr>
       oe_event_id = eventID, oe_service_name = ''upload-service'', oe_aggregate_type = ''upload_session'',
       oe_aggregate_id = ob_AggregateID message, oe_event_type = ob_EventType message,
       oe_payload = ob_Payload message, oe_status = OutboxPending, oe_retry_count = 0,
       oe_next_attempt_at = None, oe_published_at = None, oe_created_at = now, oe_updated_at = now\<rparr>))))"

end
