(* ===== verification/UploadCommands.thy ===== *)
theory UploadCommands
  imports UploadRepository
begin

text \<open>
  The pure parts of the commands of the upload service: the views, the policy check and the
  planning of object keys of \<^verbatim>\<open>create_upload_session.go\<close>, the checks of
  \<^verbatim>\<open>presign_multipart_parts.go\<close>, and the hash and part-list functions of
  \<^verbatim>\<open>complete_upload_session.go\<close>.
\<close>

subsection \<open>Views (\<^verbatim>\<open>app/view\<close>)\<close>

record UploadSessionView =
  v_UploadSessionID :: string
  v_TenantID :: string
  v_UploadMode :: SessionMode
  v_Status :: SessionStatus
  v_FileName :: string
  v_ContentType :: string
  v_SizeBytes :: int
  v_AccessLevel :: AccessLevel
  v_TotalParts :: int
  v_UploadedParts :: int
  v_PutURL :: string
  v_PutHeaders :: "(string \<times> string) list"
  v_FileID :: string
  v_CreatedAt :: time
  v_UpdatedAt :: time
  v_CompletedAt :: "time option"

record UploadedPartView =
  uv_PartNumber :: int
  uv_ETag :: string
  uv_SizeBytes :: int

record PresignedPart =
  pp_PartNumber :: int
  pp_URL :: string
  pp_Headers :: "(string \<times> string) list"
  pp_ExpiresAt :: time

record CompletedUploadSession =
  cv_FileID :: string
  cv_UploadSession :: UploadSessionView

definition cloneHeaders :: "(string \<times> string) list \<Rightarrow> (string \<times> string) list" where
  "cloneHeaders headers = (if length headers = 0 then [] else map (\<lambda>(key, value). (key, value)) headers)"

definition FromSession :: "Session \<Rightarrow> string \<Rightarrow> (string \<times> string) list \<Rightarrow> UploadSessionView" where
  "FromSession session putURL putHeaders = \<lparr>
     v_UploadSessionID = s_ID session,
     v_TenantID = s_TenantID session,
     v_UploadMode = s_Mode session,
     v_Status = s_Status session,
     v_FileName = s_FileName session,
     v_ContentType = s_ContentType session,
     v_SizeBytes = s_SizeBytes session,
     v_AccessLevel = s_AccessLevel session,
     v_TotalParts = s_TotalParts session,
     v_UploadedParts = s_CompletedParts session,
     v_PutURL = putURL,
     v_PutHeaders = cloneHeaders putHeaders,
     v_FileID = s_FileID session,
     v_CreatedAt = s_CreatedAt session,
     v_UpdatedAt = s_UpdatedAt session,
     v_CompletedAt = s_CompletedAt session\<rparr>"

subsection \<open>Creating a session: policy and object key\<close>

definition normalizeAccessLevel :: "AccessLevel \<Rightarrow> AccessLevel" where
  "normalizeAccessLevel accessLevel =
     (if access_level_string accessLevel = [] then AccessLevelPrivate else accessLevel)"

definition normalizeTotalParts :: "SessionMode \<Rightarrow> int \<Rightarrow> int" where
  "normalizeTotalParts mode totalParts = (if 0 < totalParts then totalParts else DefaultTotalParts mode)"

definition newUploadModeRejected :: "SessionMode \<Rightarrow> string \<Rightarrow> go_error" where
  "newUploadModeRejected mode reason =
     New CodeUploadModeInvalid ''upload mode is not allowed by current policy''
       [(''uploadMode'', DStr (mode_string mode)), (''reason'', DStr reason)]"

definition newTenantQuotaExceeded :: "int \<Rightarrow> go_error" where
  "newTenantQuotaExceeded limit = New CodeTenantQuotaExceeded ''tenant quota exceeded'' [(''limit'', DInt limit)]"

definition newMimeTypeNotAllowed :: "string \<Rightarrow> go_error" where
  "newMimeTypeNotAllowed contentType =
     New CodeMimeTypeNotAllowed ''mime type is not allowed'' [(''contentType'', DStr contentType)]"

definition containsFold :: "string list \<Rightarrow> string \<Rightarrow> bool" where
  "containsFold values target = list_ex (\<lambda>value. EqualFold (TrimSpace value) (TrimSpace target)) values"

definition validateUploadPolicy :: "TenantUploadPolicy \<Rightarrow> SessionMode \<Rightarrow> string \<Rightarrow> int \<Rightarrow> go_error option" where
  "validateUploadPolicy policy mode contentType sizeBytes =
     (if 0 < pl_MaxFileSize policy \<and> pl_MaxFileSize policy < sizeBytes
      then Some (newTenantQuotaExceeded (pl_MaxFileSize policy))
      else if 0 < length (pl_AllowedMimeTypes policy) \<and> \<not> containsFold (pl_AllowedMimeTypes policy) contentType
      then Some (newMimeTypeNotAllowed contentType)
      else case mode of
        SessionModeInline \<Rightarrow>
          (if \<not> pl_AllowInlineUpload policy then Some (newUploadModeRejected mode ''inline_upload_disabled'')
           else if 0 < pl_MaxInlineSize policy \<and> pl_MaxInlineSize policy < sizeBytes
           then Some (newUploadModeRejected mode ''max_inline_size_exceeded'')
           else None)
      | SessionModeDirect \<Rightarrow>
          (if \<not> pl_AllowMultipart policy then Some (newUploadModeRejected mode ''multipart_upload_disabled'')
           else None)
      | _ \<Rightarrow> None)"

text \<open>The replacer maps slash, backslash and space to underscore.\<close>

definition replace_unsafe :: "char \<Rightarrow> char" where
  "replace_unsafe c = (if c \<in> {CHR ''/'', CHR 0x5C, CHR '' ''} then CHR ''_'' else c)"

definition sanitizeFileName :: "string \<Rightarrow> string" where
  "sanitizeFileName fileName =
     (let replaced = TrimSpace (map replace_unsafe fileName);
          trimmed = Trim replaced ''._''
      in if trimmed = [] then ''file'' else trimmed)"

definition planObjectKey :: "string \<Rightarrow> string \<Rightarrow> string \<Rightarrow> string" where
  "planObjectKey tenantID sessionID fileName =
     path_Join [TrimSpace tenantID, ''uploads'', TrimSpace sessionID, sanitizeFileName fileName]"

subsection \<open>Presigning parts\<close>

definition normalizePresignTTL :: "duration \<Rightarrow> duration \<Rightarrow> duration \<Rightarrow> duration" where
  "normalizePresignTTL value defaultTTL maxTTL =
     (if value \<le> 0 then defaultTTL else if maxTTL < value then maxTTL else value)"

definition partNumberError :: "string \<Rightarrow> string \<Rightarrow> int \<Rightarrow> go_error" where
  "partNumberError message field partNumber =
     New CodeInvalidArgument message [(''field'', DStr field), (''partNumber'', DInt partNumber)]"

fun presign_loop :: "int list \<Rightarrow> int list \<Rightarrow> int list \<Rightarrow> int list result" where
  "presign_loop seen values [] = Inr values"
| "presign_loop seen values (part # parts) =
     (if part < 1 then Inl (partNumberError ''part number must be >= 1'' ''parts.partNumber'' part)
      else if part \<in> set seen then Inl (partNumberError ''part number must be unique'' ''parts.partNumber'' part)
      else presign_loop (part # seen) (values @ [part]) parts)"

definition validatePresignPartNumbers :: "int list \<Rightarrow> int list result" where
  "validatePresignPartNumbers parts =
     (if length parts = 0
      then Inl (New CodeInvalidArgument ''at least one part is required'' [(''field'', DStr ''parts'')])
      else bindE (presign_loop [] [] parts) (\<lambda>values. Inr (sort values)))"

definition newUploadModeMismatch :: "SessionMode \<Rightarrow> SessionMode \<Rightarrow> go_error" where
  "newUploadModeMismatch current required =
     New CodeUploadModeInvalid ''upload mode does not support current operation''
       [(''currentMode'', DStr (mode_string current)), (''requiredMode'', DStr (mode_string required))]"

definition newUploadStateConflict :: "SessionStatus \<Rightarrow> SessionStatus list \<Rightarrow> go_error" where
  "newUploadStateConflict current allowed =
     New CodeUploadSessionStateConflict ''upload session state conflict''
       [(''currentStatus'', DStr (status_string current)),
        (''allowedStatus'', DStrs (map status_string allowed))]"

subsection \<open>Completing: hashes\<close>

definition hashMismatch :: "string \<Rightarrow> go_error" where
  "hashMismatch message = New CodeUploadHashMismatch message [(''field'', DStr ''contentHash'')]"

definition resolveExpectedContentHash ::
    "ContentHash option \<Rightarrow> ContentHash option \<Rightarrow> ContentHash option result" where
  "resolveExpectedContentHash sessionHash commandHash =
     (let normalizedCommand = normalizeHash commandHash;
          normalizedSession = normalizeHash sessionHash
      in bindE (errOpt (case normalizedCommand of None \<Rightarrow> None | Some h \<Rightarrow> ContentHash_Validate h)) (\<lambda>_.
         case (normalizedSession, normalizedCommand) of
           (Some s, Some c) \<Rightarrow>
             (if ch_Algorithm s \<noteq> ch_Algorithm c \<or> ch_Value s \<noteq> ch_Value c
              then Inl (hashMismatch ''declared hash does not match upload session'')
              else Inr (Some c))
         | (_, Some c) \<Rightarrow> Inr (Some c)
         | (s, None) \<Rightarrow> Inr s))"

definition resolveCanonicalHash :: "ContentHash option \<Rightarrow> string \<Rightarrow> ContentHash option result" where
  "resolveCanonicalHash expected checksum =
     (let verifiedChecksum = ToLower (TrimSpace checksum) in
      case expected of
        Some e \<Rightarrow>
          (if verifiedChecksum = [] then Inl (hashMismatch ''verified content hash is missing'')
           else if verifiedChecksum \<noteq> ch_Value e
           then Inl (hashMismatch ''declared hash does not match verified hash'')
           else Inr (Some (ContentHash_Normalize e)))
      | None \<Rightarrow>
          (if verifiedChecksum = [] then Inr None
           else let derived = \<lparr>ch_Algorithm = ''SHA256'', ch_Value = verifiedChecksum\<rparr> in
                if ContentHash_Validate derived \<noteq> None then Inr None else Inr (Some derived)))"

subsection \<open>Completing: part lists\<close>

definition clean_part :: "UploadedPart \<Rightarrow> UploadedPart" where
  "clean_part part = \<lparr>pt_PartNumber = pt_PartNumber part, pt_ETag = TrimSpace (pt_ETag part),
     pt_SizeBytes = pt_SizeBytes part, pt_Checksum = TrimSpace (pt_Checksum part)\<rparr>"

fun parts_loop :: "int list \<Rightarrow> UploadedPart list \<Rightarrow> UploadedPart list \<Rightarrow> UploadedPart list result" where
  "parts_loop seen normalized [] = Inr normalized"
| "parts_loop seen normalized (part # parts) =
     (if pt_PartNumber part < 1
      then Inl (partNumberError ''part number must be >= 1'' ''uploadedParts.partNumber'' (pt_PartNumber part))
      else if pt_PartNumber part \<in> set seen
      then Inl (partNumberError ''duplicate part number'' ''uploadedParts.partNumber'' (pt_PartNumber part))
      else parts_loop (pt_PartNumber part # seen) (normalized @ [clean_part part]) parts)"

text \<open>
  The two nested loops of the in-place insertion sort: \<open>sift j\<close> is the inner loop, started at
  index \<open>j\<close>, that swaps neighbours while they are out of order.
\<close>

fun sift :: "nat \<Rightarrow> UploadedPart list \<Rightarrow> UploadedPart list" where
  "sift 0 ps = ps"
| "sift (Suc j) ps =
     (if pt_PartNumber (ps ! Suc j) < pt_PartNumber (ps ! j)
      then sift j (ps[j := ps ! Suc j, Suc j := ps ! j]) else ps)"

definition insertion_sort :: "UploadedPart list \<Rightarrow> UploadedPart list" where
  "insertion_sort ps = foldl (\<lambda>qs i. sift i qs) ps [1..<length ps]"

definition normalizeUploadedParts :: "UploadedPart list \<Rightarrow> UploadedPart list result" where
  "normalizeUploadedParts parts =
     (if length parts = 0 then Inr [] else
      bindE (parts_loop [] [] parts) (\<lambda>normalized. Inr (insertion_sort normalized)))"

definition toSessionPartRecords :: "string \<Rightarrow> UploadedPart list \<Rightarrow> time \<Rightarrow> SessionPartRecord list" where
  "toSessionPartRecords uploadSessionID parts uploadedAt =
     map (\<lambda>part. \<lparr>sr_UploadSessionID = uploadSessionID, sr_PartNumber = pt_PartNumber part,
        sr_ETag = TrimSpace (pt_ETag part), sr_PartSize = pt_SizeBytes part,
        sr_Checksum = TrimSpace (pt_Checksum part), sr_UploadedAt = uploadedAt\<rparr>) parts"

definition effectiveSizeBytes :: "ObjectMetadata \<Rightarrow> int \<Rightarrow> int" where
  "effectiveSizeBytes metadata fallback =
     (if 0 < om_SizeBytes metadata then om_SizeBytes metadata else fallback)"

definition effectiveContentType :: "ObjectMetadata \<Rightarrow> string \<Rightarrow> string" where
  "effectiveContentType metadata fallback =
     (if TrimSpace (om_ContentType metadata) \<noteq> [] then TrimSpace (om_ContentType metadata)
      else TrimSpace fallback)"

definition cloneHash :: "ContentHash option \<Rightarrow> ContentHash option" where
  "cloneHash hash = (case hash of None \<Rightarrow> None | Some h \<Rightarrow> Some (ContentHash_Normalize h))"

definition payloadHashAlgorithm :: "ContentHash option \<Rightarrow> string" where
  "payloadHashAlgorithm hash = (case hash of None \<Rightarrow> [] | Some h \<Rightarrow> ch_Algorithm h)"

definition hashString :: "ContentHash option \<Rightarrow> string" where
  "hashString hash = (case hash of None \<Rightarrow> [] | Some h \<Rightarrow> ch_Value h)"

subsection \<open>Completing: errors\<close>

definition wrapMultipartOperationError :: "Session \<Rightarrow> string \<Rightarrow> go_error \<Rightarrow> go_error" where
  "wrapMultipartOperationError session operation err =
     (let details = (\<lambda>kind. [(''resourceType'', DStr ''uploadSession''), (''resourceId'', DStr (s_ID session)),
            (''uploadSessionId'', DStr (s_ID session)),
            (''providerUploadId'', DStr (TrimSpace (s_ProviderUploadID session))),
            (''operation'', DStr (TrimSpace operation)), (''providerErrorType'', DStr kind)])
      in if errors_Is err ErrMultipartNotFound
         then Wrap CodeUploadMultipartNotFound ''multipart upload state is missing in storage provider'' err
                (details ''multipartNotFound'')
         else if errors_Is err ErrMultipartConflict
         then Wrap CodeUploadMultipartConflict ''multipart upload state conflicts with storage provider'' err
                (details ''multipartConflict'')
         else Wrap CodeServiceUnavailable operation err (details ''providerUnavailable''))"

definition isTerminalCompleteFailure :: "go_error \<Rightarrow> bool" where
  "isTerminalCompleteFailure err \<longleftrightarrow>
     CodeOf err \<in> {CodeUploadHashMismatch, CodeUploadHashUnsupported, CodeUploadHashInvalid,
       CodeUploadMultipartNotFound, CodeUploadMultipartConflict}"

end
