(* ===== verification/UploadCommandLaws.thy ===== *)
theory UploadCommandLaws
  imports UploadCommands
begin

text \<open>
  Correctness of the pure parts of the upload commands: the part lists that are sent to the
  provider are checked and sorted, a presigned part list likewise, the hash recorded for an
  object is the one that was declared and verified, and an object key cannot leave the
  directory of its session.
\<close>

subsection \<open>Part lists\<close>

lemma parts_loop_Inr:
  "parts_loop seen acc ps = Inr qs \<longleftrightarrow>
     (\<forall>p \<in> set ps. 1 \<le> pt_PartNumber p) \<and> distinct (map pt_PartNumber ps) \<and>
     set (map pt_PartNumber ps) \<inter> set seen = {} \<and> qs = acc @ map clean_part ps"
  by (induction ps arbitrary: seen acc) (auto simp: not_less)

lemma clean_part_number [simp]: "pt_PartNumber (clean_part p) = pt_PartNumber p"
  by (simp add: clean_part_def)

text \<open>
  The inner loop inserts the element at index \<open>j\<close> into the sorted prefix before it: stated for
  a list split at that index.
\<close>

lemma sift_insort:
  assumes "sorted (map pt_PartNumber xs)"
  shows "sift (length xs) (xs @ x # ys) = insort_key pt_PartNumber x xs @ ys \<or>
     (\<exists>y \<in> set xs. pt_PartNumber y = pt_PartNumber x)"
  using assms
proof (induction xs arbitrary: ys rule: rev_induct)
  case (snoc y xs)
  let ?n = pt_PartNumber
  show ?case
  proof (cases "?n x < ?n y")
    case True
    from snoc.prems have srt: "sorted (map ?n xs)" and le: "\<forall>z \<in> set xs. ?n z \<le> ?n y"
      by (auto simp: sorted_append)
    have step: "sift (length (xs @ [y])) ((xs @ [y]) @ x # ys) = sift (length xs) (xs @ x # y # ys)"
      using True by (simp add: nth_append list_update_append)
    have "insort_key ?n x (xs @ [y]) = insort_key ?n x xs @ [y]"
      using True by (induction xs) auto
    with step snoc.IH [OF srt, of "y # ys"] show ?thesis by auto
  next
    case False
    show ?thesis
    proof (cases "?n x = ?n y")
      case neq: False
      with False snoc.prems have lt: "\<forall>z \<in> set (xs @ [y]). ?n z < ?n x"
        by (auto simp: sorted_append)
      then have "insort_key ?n x (xs @ [y]) = (xs @ [y]) @ [x]"
        by (induction xs) auto
      moreover have "sift (length (xs @ [y])) ((xs @ [y]) @ x # ys) = (xs @ [y]) @ x # ys"
        using False by (simp add: nth_append)
      ultimately show ?thesis by simp
    qed auto
  qed
qed simp

lemma insertion_sort_prefix:
  assumes "distinct (map pt_PartNumber ps)" and "1 \<le> n" and "n \<le> length ps"
  shows "foldl (\<lambda>qs i. sift i qs) ps [1..<n] = sort_key pt_PartNumber (take n ps) @ drop n ps"
  using assms(2,3)
proof (induction n rule: dec_induct)
  case base
  then show ?case by (cases ps) auto
next
  case (step n)
  let ?xs = "sort_key pt_PartNumber (take n ps)"
  from step have split: "drop n ps = ps ! n # drop (Suc n) ps" by (simp add: Cons_nth_drop_Suc)
  have "foldl (\<lambda>qs i. sift i qs) ps [1..<Suc n] = sift n (?xs @ ps ! n # drop (Suc n) ps)"
    using step split by simp
  also have "\<dots> = insort_key pt_PartNumber (ps ! n) ?xs @ drop (Suc n) ps"
  proof -
    have "pt_PartNumber y \<noteq> pt_PartNumber (ps ! n)" if "y \<in> set (take n ps)" for y
    proof -
      from that step obtain i where "i < n" "y = ps ! i" by (auto simp: in_set_conv_nth)
      with assms(1) step show ?thesis by (simp add: distinct_conv_nth)
    qed
    moreover have "length ?xs = n" using step by simp
    ultimately show ?thesis using sift_insort [of ?xs "ps ! n" "drop (Suc n) ps"] by auto
  qed
  also have "insort_key pt_PartNumber (ps ! n) ?xs = sort_key pt_PartNumber (take (Suc n) ps)"
  proof -
    let ?n = pt_PartNumber
    let ?ys = "insort_key ?n (ps ! n) ?xs" and ?zs = "sort_key ?n (take (Suc n) ps)"
    have tk: "take (Suc n) ps = take n ps @ [ps ! n]" using step by (simp add: take_Suc_conv_app_nth)
    have "distinct (map ?n (take (Suc n) ps))"
      using assms(1) by (metis distinct_take take_map)
    moreover have ms: "mset ?ys = mset (take (Suc n) ps)" "mset ?zs = mset (take (Suc n) ps)"
      by (simp_all add: tk)
    ultimately have "distinct (map ?n ?zs)" and "distinct (map ?n ?ys)"
      by (metis mset_eq_imp_distinct_iff mset_map)+
    moreover have "set ?ys = set ?zs" using ms by (metis mset_eq_setD)
    moreover have "sorted (map ?n ?ys)" "sorted (map ?n ?zs)" by (simp_all add: sorted_insort_key)
    ultimately show ?thesis
      by (intro map_sorted_distinct_set_unique [of ?n]) (auto simp: distinct_map)
  qed
  finally show ?case .
qed

lemma insertion_sort_correct:
  "distinct (map pt_PartNumber ps) \<Longrightarrow> insertion_sort ps = sort_key pt_PartNumber ps"
  using insertion_sort_prefix [of ps "length ps"] by (cases ps) (simp_all add: insertion_sort_def)

text \<open>
  A part list is accepted exactly when every part number is at least 1 and no number
  occurs twice, and what is passed on is the same parts, trimmed and in ascending order: the
  hand-written insertion sort computes the library's stable sort.
\<close>

theorem normalizeUploadedParts_correct:
  "normalizeUploadedParts parts = Inr out \<longleftrightarrow>
     (\<forall>p. p \<in> set parts \<longrightarrow> 1 \<le> pt_PartNumber p) \<and> distinct (map pt_PartNumber parts) \<and>
     out = sort_key pt_PartNumber (map clean_part parts)"
proof (cases "parts = []")
  case True
  then show ?thesis by (auto simp: normalizeUploadedParts_def)
next
  case False
  have "insertion_sort (map clean_part parts) = sort_key pt_PartNumber (map clean_part parts)"
    if "distinct (map pt_PartNumber parts)"
    using that by (intro insertion_sort_correct) (simp add: comp_def)
  with False show ?thesis
    by (auto simp: normalizeUploadedParts_def bindE_Inr_iff parts_loop_Inr)
qed

theorem normalizeUploadedParts_correct_witness:
  "\<exists>out. normalizeUploadedParts
     [\<lparr>pt_PartNumber = 2, pt_ETag = '' y'', pt_SizeBytes = 4, pt_Checksum = []\<rparr>,
      \<lparr>pt_PartNumber = 1, pt_ETag = ''x'', pt_SizeBytes = 6, pt_Checksum = []\<rparr>] = Inr out \<and>
     map pt_PartNumber out = [1, 2] \<and> map pt_ETag out = [''x'', ''y'']"
  by (intro exI conjI, rule normalizeUploadedParts_correct [THEN iffD2]) (auto, code_simp+)

subsection \<open>Presigned part numbers\<close>

lemma presign_loop_Inr:
  "presign_loop seen acc ps = Inr qs \<longleftrightarrow>
     (\<forall>p \<in> set ps. 1 \<le> p) \<and> distinct ps \<and> set ps \<inter> set seen = {} \<and> qs = acc @ ps"
  by (induction ps arbitrary: seen acc) (auto simp: not_less)

text \<open>
  Part numbers to presign are accepted exactly when there is at least one, all are at
  least 1 and none is repeated; the answer is strictly ascending and has the same numbers.
\<close>

theorem validatePresignPartNumbers_correct:
  "validatePresignPartNumbers parts = Inr out \<longleftrightarrow>
     parts \<noteq> [] \<and> (\<forall>p. p \<in> set parts \<longrightarrow> 1 \<le> p) \<and> distinct parts \<and>
     sorted_wrt (<) out \<and> set out = set parts"
proof -
  have "out = sort parts \<longleftrightarrow> sorted_wrt (<) out \<and> set out = set parts" if "distinct parts"
    using that by (metis distinct_sort set_sort sorted_sort sorted_sort_id strict_sorted_iff
        sorted_distinct_set_unique)
  then show ?thesis
    by (auto simp: validatePresignPartNumbers_def bindE_Inr_iff presign_loop_Inr)
qed

theorem validatePresignPartNumbers_correct_witness:
  "validatePresignPartNumbers [3, 1, 2] = Inr [1, 2, 3]"
  by (rule validatePresignPartNumbers_correct [THEN iffD2]) auto

text \<open>
  Whatever duration a client asks for, the presigned URLs live for a positive time within the
  configured maximum, provided the configured default does.
\<close>

lemma normalizePresignTTL_bounds:
  assumes "0 < defaultTTL" and "defaultTTL \<le> maxTTL"
  shows "0 < normalizePresignTTL value defaultTTL maxTTL \<and> normalizePresignTTL value defaultTTL maxTTL \<le> maxTTL"
  using assms by (simp add: normalizePresignTTL_def)

subsection \<open>Content hashes\<close>

lemma resolveExpected_Inr:
  assumes "resolveExpectedContentHash sessionHash commandHash = Inr expected"
  shows "expected = (case normalizeHash commandHash of None \<Rightarrow> normalizeHash sessionHash | Some c \<Rightarrow> Some c)"
    and "commandHash = Some d \<Longrightarrow> ContentHash_Validate d = None"
    and "sessionHash = Some a \<Longrightarrow> commandHash = Some d \<Longrightarrow> ContentHash_Normalize a = ContentHash_Normalize d"
  using assms
  by (auto simp: resolveExpectedContentHash_def normalizeHash_def bindE_Inr_iff
      split: option.splits if_splits)

lemma resolveCanonical_Some:
  assumes "resolveCanonicalHash (Some e) checksum = Inr recorded"
  shows "recorded = Some (ContentHash_Normalize e)" and "ch_Value e = ToLower (TrimSpace checksum)"
  using assms by (auto simp: resolveCanonicalHash_def Let_def split: if_splits)

lemma resolveCanonical_None:
  assumes "resolveCanonicalHash None checksum = Inr (Some h)"
  shows "h = \<lparr>ch_Algorithm = ''SHA256'', ch_Value = ToLower (TrimSpace checksum)\<rparr>"
    and "ContentHash_Validate h = None"
  using assms by (auto simp: resolveCanonicalHash_def Let_def split: if_splits)

text \<open>
  Claim C29: the hash recorded for a completed object is a valid SHA-256 that equals the checksum
  the storage reports, and when the client declared a hash, at creation or at completion, it is
  that hash: a completion whose declared and verified hashes disagree never gets this far.
\<close>

theorem recorded_hash_is_declared_and_verified:
  assumes "\<forall>d. sessionHash = Some d \<longrightarrow> ContentHash_Validate d = None"
    and "resolveExpectedContentHash sessionHash commandHash = Inr expected"
    and "resolveCanonicalHash expected checksum = Inr recorded"
  shows "(\<forall>h. recorded = Some h \<longrightarrow>
            ContentHash_Validate h = None \<and> ch_Value (ContentHash_Normalize h) = ToLower (TrimSpace checksum)) \<and>
         (\<forall>d. sessionHash = Some d \<or> commandHash = Some d \<longrightarrow> recorded = Some (ContentHash_Normalize d))"
proof (cases expected)
  case None
  then have "sessionHash = None" and "commandHash = None"
    using resolveExpected_Inr(1) [OF assms(2)] by (auto simp: normalizeHash_def split: option.splits)
  moreover have "ContentHash_Validate h = None \<and> ch_Value (ContentHash_Normalize h) = ToLower (TrimSpace checksum)"
    if "recorded = Some h" for h
    using resolveCanonical_None [of checksum h] assms(3) None that
    by (simp add: ContentHash_Normalize_def TrimSpace_ToLower)
  ultimately show ?thesis by auto
next
  case (Some e)
  note recorded = resolveCanonical_Some [of e checksum recorded, OF assms(3) [unfolded Some]]
  have e: "ContentHash_Normalize d = e" if "sessionHash = Some d \<or> commandHash = Some d" for d
    using that resolveExpected_Inr [OF assms(2)] Some
    by (auto simp: normalizeHash_def split: option.splits)
  moreover obtain d where d: "sessionHash = Some d \<or> commandHash = Some d"
    using resolveExpected_Inr(1) [OF assms(2)] Some by (auto simp: normalizeHash_def split: option.splits)
  moreover have "ContentHash_Validate d = None"
    using d assms(1) resolveExpected_Inr(2) [OF assms(2)] by auto
  ultimately have "ContentHash_Validate e = None" "ContentHash_Normalize e = e" by fastforce+
  with recorded e show ?thesis by auto
qed

theorem recorded_hash_is_declared_and_verified_witness:
  "resolveExpectedContentHash (Some \<lparr>ch_Algorithm = ''sha256'', ch_Value = replicate 64 (CHR ''A'')\<rparr>) None =
     Inr (Some \<lparr>ch_Algorithm = ''SHA256'', ch_Value = replicate 64 (CHR ''a'')\<rparr>) \<and>
   (\<exists>recorded. resolveCanonicalHash (Some \<lparr>ch_Algorithm = ''SHA256'', ch_Value = replicate 64 (CHR ''a'')\<rparr>)
        (replicate 64 (CHR ''A'')) = Inr recorded \<and>
      recorded = Some (ContentHash_Normalize \<lparr>ch_Algorithm = ''sha256'', ch_Value = replicate 64 (CHR ''A'')\<rparr>))"
proof -
  let ?d = "\<lparr>ch_Algorithm = ''sha256'', ch_Value = replicate 64 (CHR ''A'')\<rparr>"
  let ?e = "\<lparr>ch_Algorithm = ''SHA256'', ch_Value = replicate 64 (CHR ''a'')\<rparr>"
  have n: "ContentHash_Normalize ?d = ?e" "ContentHash_Normalize ?e = ?e" "ToLower (TrimSpace (replicate 64 (CHR ''A''))) = ch_Value ?e"
    by (simp_all add: ContentHash_Normalize_def TrimSpace_graphic graphic_def ToLower_def ToUpper_def lower_char_def upper_char_def char_of_def bit_0)
  have 1: "resolveExpectedContentHash (Some ?d) None = Inr (Some ?e)" by (simp add: resolveExpectedContentHash_def normalizeHash_def n)
  have 2: "resolveCanonicalHash (Some ?e) (replicate 64 (CHR ''A'')) = Inr (Some ?e)" by (simp add: resolveCanonicalHash_def n)
  have 3: "ContentHash_Validate ?d = None" by (simp add: ContentHash_Validate_def n sha256Pattern_def is_lower_hex_def list_all_iff)
  from recorded_hash_is_declared_and_verified [OF _ 1 2] 3
  have "Some ?e = Some (ContentHash_Normalize ?d)" by simp
  with 1 2 show ?thesis by metis
qed

subsection \<open>Object keys\<close>

lemma hd_Trim:
  assumes "Trim s cutset \<noteq> []"
  shows "hd (Trim s cutset) \<notin> set cutset"
proof
  let ?seqs = "map (\<lambda>c. [c]) cutset"
  assume mem: "hd (Trim s cutset) \<in> set cutset"
  obtain t where t: "strip_left ?seqs s = Trim s cutset @ t"
    using strip_right_prefix [of "strip_left ?seqs s" ?seqs] by (auto simp: Trim_def Let_def)
  with assms have ne: "strip_left ?seqs s \<noteq> []" and hd: "hd (strip_left ?seqs s) = hd (Trim s cutset)" by auto
  from ne have "match_len ?seqs (strip_left ?seqs s) = 0" using strip_left_done by blast
  then have "\<forall>p \<in> set ?seqs. \<not> is_prefix p (strip_left ?seqs s)"
    using match_len_0 [of ?seqs] by auto
  moreover have "is_prefix [hd (Trim s cutset)] (strip_left ?seqs s)"
    using ne hd by (cases "strip_left ?seqs s") auto
  ultimately show False using mem by auto
qed

lemma sanitizeFileName_plain: "plain_element (sanitizeFileName fileName)"
proof (cases "Trim (TrimSpace (map replace_unsafe fileName)) ''._'' = []")
  case True
  then show ?thesis by (simp add: sanitizeFileName_def plain_element_def)
next
  case False
  let ?t = "Trim (TrimSpace (map replace_unsafe fileName)) ''._''"
  have "CHR ''/'' \<notin> set (map replace_unsafe fileName)" by (auto simp: replace_unsafe_def)
  then have "CHR ''/'' \<notin> set ?t" using set_Trim set_TrimSpace by blast
  moreover have "?t \<noteq> ''.''" "?t \<noteq> ''..''" using hd_Trim [OF False] by auto
  ultimately show ?thesis using False by (simp add: sanitizeFileName_def plain_element_def)
qed

lemma planObjectKey_plain:
  assumes "plain_element (TrimSpace tenantID)" and "plain_element (TrimSpace sessionID)"
  shows "planObjectKey tenantID sessionID fileName =
     Join [TrimSpace tenantID, ''uploads'', TrimSpace sessionID, sanitizeFileName fileName] ''/''"
  unfolding planObjectKey_def using assms sanitizeFileName_plain
  by (intro path_Join_plain) (auto simp: plain_element_def)

text \<open>
  Claim C30: an object key stays inside the directory of its tenant and session whatever file name
  the client sends (no traversal with dots, slashes or backslashes): as long as the tenant id
  and the session id are single path elements, two keys are equal only for the same tenant and
  the same session.
\<close>

theorem planObjectKey_separates_sessions:
  assumes "plain_element (TrimSpace t1)" and "plain_element (TrimSpace i1)"
    and "plain_element (TrimSpace t2)" and "plain_element (TrimSpace i2)"
  shows "split_slash (planObjectKey t1 i1 f1) = [TrimSpace t1, ''uploads'', TrimSpace i1, sanitizeFileName f1] \<and>
    (planObjectKey t1 i1 f1 = planObjectKey t2 i2 f2 \<longrightarrow>
       TrimSpace t1 = TrimSpace t2 \<and> TrimSpace i1 = TrimSpace i2)"
proof -
  have split: "split_slash (planObjectKey t i f) = [TrimSpace t, ''uploads'', TrimSpace i, sanitizeFileName f]"
    if "plain_element (TrimSpace t)" and "plain_element (TrimSpace i)" for t i f
    unfolding planObjectKey_plain [OF that] using that sanitizeFileName_plain [of f]
    by (intro split_slash_Join) (auto simp: plain_element_def)
  from split [OF assms(1,2), of f1] split [OF assms(3,4), of f2] show ?thesis by auto
qed

theorem planObjectKey_separates_sessions_witness:
  "split_slash (planObjectKey ''t1'' ''s1'' ''../../x y'') = [''t1'', ''uploads'', ''s1'', ''x_y''] \<and>
   planObjectKey ''t1'' ''s1'' ''../../x y'' \<noteq> planObjectKey ''t1'' ''s2'' ''x y''"
proof -
  have plain: "plain_element (TrimSpace ''t1'')" "plain_element (TrimSpace ''s1'')" "plain_element (TrimSpace ''s2'')"
    and eval: "TrimSpace ''s1'' = ''s1''" "TrimSpace ''s2'' = ''s2''" "TrimSpace ''t1'' = ''t1''"
      "sanitizeFileName ''../../x y'' = ''x_y''"
    by code_simp+
  from planObjectKey_separates_sessions [OF plain(1,2) plain(1,3), of "''../../x y''" "''x y''"] eval
  show ?thesis by auto
qed

end
