(* ===== verification/JobRepository.thy ===== *)
theory JobRepository
  imports UploadRepository "HOL-Library.List_Lexorder" "HOL-Library.Char_ord"
begin

text \<open>
  The maintenance statements of the job service, \<^verbatim>\<open>src/internal/services/job/infra/postgres/repositories.go\<close>:
  expiring sessions, repairing stuck completions, cleaning up multipart uploads and blobs that
  nothing refers to, recomputing the tenants' usage, and claiming and settling outbox events.

  The predicate \<open>locked\<close> of the operations with \<^verbatim>\<open>FOR UPDATE SKIP LOCKED\<close> says which ids other
  transactions hold at that moment. \<^verbatim>\<open>NOW()\<close> is the time of the enclosing transaction, drawn from
  the clock when it begins. Text columns are compared byte by byte.
\<close>

definition outboxClaimLease :: duration where "outboxClaimLease = 5 * minute"

definition normalizeLimit :: "int \<Rightarrow> int" where
  "normalizeLimit limit = (if limit \<le> 0 then 100 else limit)"

text \<open>A transaction whose errors are returned as they are.\<close>

definition runTx :: "env \<Rightarrow> 'a M \<Rightarrow> 'a M" where
  "runTx env body =
     bindA (runSQL env (\<lambda>db. Inr ((), db))) (\<lambda>_.
     (\<lambda>w. case body w of
        (Inl e, w') \<Rightarrow> (Inl e, w'\<lparr>w_db := w_db w\<rparr>)
      | (Inr x, w') \<Rightarrow>
          (case runSQL env (\<lambda>db. Inr ((), db)) w' of
             (Inl e, w2) \<Rightarrow> (Inl e, w2\<lparr>w_db := w_db w\<rparr>)
           | (Inr _, w2) \<Rightarrow> (Inr x, w2))))"

subsection \<open>Sessions\<close>

definition expire_eligible :: "time \<Rightarrow> session_row \<Rightarrow> bool" where
  "expire_eligible expiredBefore r \<longleftrightarrow>
     us_status r \<in> {SessionStatusInitiated, SessionStatusUploading, SessionStatusCompleting} \<and>
     us_expires_at r \<le> expiredBefore"

definition expire_row :: "time \<Rightarrow> session_row \<Rightarrow> session_row" where
  "expire_row now r = r\<lparr>us_status := SessionStatusExpired, us_updated_at := now,
     us_completion_token := None, us_completion_started_at := None\<rparr>"

text \<open>An \<^verbatim>\<open>UPDATE\<close> of the rows that a candidate query selected, with the number of rows it changed.\<close>

definition update_candidates ::
    "session_row list \<Rightarrow> (session_row \<Rightarrow> session_row) \<Rightarrow> database \<Rightarrow> go_error + int \<times> database" where
  "update_candidates candidates f db =
     (let ids = map us_upload_session_id candidates;
          p = (\<lambda>r. us_upload_session_id r \<in> set ids)
      in Inr (int (length (filter p (upload_sessions db))),
              db\<lparr>upload_sessions := update_where p f (upload_sessions db)\<rparr>))"

definition ExpirePendingSessions :: "env \<Rightarrow> (string \<Rightarrow> bool) \<Rightarrow> time \<Rightarrow> int \<Rightarrow> int M" where
  "ExpirePendingSessions env locked expiredBefore limit =
     bindA (Now env) (\<lambda>now.
     runSQL env (\<lambda>db. update_candidates
       (order_by_limit us_expires_at (normalizeLimit limit)
          (filter (\<lambda>r. expire_eligible expiredBefore r \<and> \<not> locked (us_upload_session_id r)) (upload_sessions db)))
       (expire_row now) db))"

definition repair_eligible :: "time \<Rightarrow> session_row \<Rightarrow> bool" where
  "repair_eligible staleBefore r \<longleftrightarrow> us_status r = SessionStatusCompleting \<and> us_updated_at r \<le> staleBefore"

definition repair_row :: "time \<Rightarrow> session_row \<Rightarrow> session_row" where
  "repair_row now r =
     (if null_String (us_file_id r) \<noteq> []
      then r\<lparr>us_status := SessionStatusCompleted,
             us_completed_at := (case us_completed_at r of None \<Rightarrow> Some now | Some t \<Rightarrow> Some t),
             us_failure_code := None, us_failure_message := None, us_updated_at := now\<rparr>
      else r\<lparr>us_status := SessionStatusFailed, us_failed_at := Some now,
             us_failure_code := Some ''JOB_REPAIR_STUCK_COMPLETING'',
             us_failure_message := Some ''repair stuck completing session failed'', us_updated_at := now\<rparr>)"

definition RepairStuckCompleting :: "env \<Rightarrow> (string \<Rightarrow> bool) \<Rightarrow> time \<Rightarrow> int \<Rightarrow> int M" where
  "RepairStuckCompleting env locked staleBefore limit =
     bindA (Now env) (\<lambda>now.
     runSQL env (\<lambda>db. update_candidates
       (order_by_limit us_updated_at (normalizeLimit limit)
          (filter (\<lambda>r. repair_eligible staleBefore r \<and> \<not> locked (us_upload_session_id r)) (upload_sessions db)))
       (repair_row now) db))"

subsection \<open>Objects\<close>

record cleanupRecord =
  cr_FileID :: string
  cr_BlobObjectID :: string
  cr_StorageProvider :: Provider
  cr_BucketName :: string
  cr_ObjectKey :: string
  cr_ReferenceCount :: int

definition cleanupRecord_ObjectRef :: "cleanupRecord \<Rightarrow> ObjectRef" where
  "cleanupRecord_ObjectRef r =
     \<lparr>or_Provider = cr_StorageProvider r, or_BucketName = cr_BucketName r, or_ObjectKey = cr_ObjectKey r\<rparr>"

definition scanCleanupRecord :: "string \<Rightarrow> blob_row \<Rightarrow> cleanupRecord" where
  "scanCleanupRecord fileID b = \<lparr>cr_FileID = fileID, cr_BlobObjectID = bo_blob_object_id b,
     cr_StorageProvider = bo_storage_provider b, cr_BucketName = bo_bucket_name b,
     cr_ObjectKey = bo_object_key b, cr_ReferenceCount = bo_reference_count b\<rparr>"

definition storageRequired :: "bool \<Rightarrow> unit M" where
  "storageRequired hasStorage = liftA (failIf (\<not> hasStorage) (Errorf ''object storage is required''))"

text \<open>A storage call whose \<^verbatim>\<open>object not found\<close> answer is as good as success.\<close>

definition tolerateNotFound :: "unit M \<Rightarrow> unit M" where
  "tolerateNotFound m = bindA (tryA m) (\<lambda>r. case r of
     Inl err \<Rightarrow> if Contains (Error err) ErrObjectNotFound then returnA () else throwA err
   | Inr _ \<Rightarrow> returnA ())"

definition finalize_candidate :: "time \<Rightarrow> file_row \<Rightarrow> blob_row \<Rightarrow> bool" where
  "finalize_candidate eligibleBefore f b \<longleftrightarrow>
     bo_blob_object_id b = fa_blob_object_id f \<and> fa_status f = FileStatusDeleted \<and>
     (case fa_deleted_at f of None \<Rightarrow> False | Some t \<Rightarrow> t \<le> eligibleBefore) \<and>
     bo_reference_count b = 0 \<and> bo_deleted_at b = None"

definition finalize_candidates :: "(string \<Rightarrow> bool) \<Rightarrow> time \<Rightarrow> int \<Rightarrow> database \<Rightarrow> cleanupRecord list" where
  "finalize_candidates locked eligibleBefore limit db =
     map (\<lambda>(f, b). scanCleanupRecord (fa_file_id f) b)
       (order_by_limit (\<lambda>(f, b). the (fa_deleted_at f)) (normalizeLimit limit)
          (filter (\<lambda>(f, b). finalize_candidate eligibleBefore f b \<and>
               \<not> locked (fa_file_id f) \<and> \<not> locked (bo_blob_object_id b))
             (List.product (file_assets db) (blob_objects db))))"

definition mark_blob_deleted :: "time \<Rightarrow> blob_row \<Rightarrow> blob_row" where
  "mark_blob_deleted now b = b\<lparr>bo_deleted_at := (case bo_deleted_at b of None \<Rightarrow> Some now | Some t \<Rightarrow> Some t),
     bo_updated_at := now\<rparr>"

definition delete_blob_rows :: "time \<Rightarrow> string \<Rightarrow> database \<Rightarrow> go_error + unit \<times> database" where
  "delete_blob_rows now blobID db =
     Inr ((), db\<lparr>blob_objects := update_where (\<lambda>b. bo_blob_object_id b = blobID \<and> bo_reference_count b = 0)
        (mark_blob_deleted now) (blob_objects db)\<rparr>)"

text \<open>One turn of the loop that \<^verbatim>\<open>FinalizeDeletedFiles\<close> and \<^verbatim>\<open>CleanupOrphanBlobs\<close> share.\<close>

definition cleanupObject :: "env \<Rightarrow> time \<Rightarrow> cleanupRecord \<Rightarrow> unit M" where
  "cleanupObject env now record =
     bindA (tolerateNotFound (callA (CallDeleteObject (cleanupRecord_ObjectRef record))
        (\<lambda>n. errOpt (e_DeleteObject env n (cleanupRecord_ObjectRef record))))) (\<lambda>_.
     runSQL env (delete_blob_rows now (cr_BlobObjectID record)))"

definition FinalizeDeletedFiles :: "env \<Rightarrow> (string \<Rightarrow> bool) \<Rightarrow> bool \<Rightarrow> time \<Rightarrow> int \<Rightarrow> int M" where
  "FinalizeDeletedFiles env locked hasStorage eligibleBefore limit =
     bindA (storageRequired hasStorage) (\<lambda>_.
     runTx env (
       bindA (runSQL env (\<lambda>db. Inr (finalize_candidates locked eligibleBefore limit db, db))) (\<lambda>records.
       bindA (Now env) (\<lambda>now.
       bindA (forA (cleanupObject env now) records) (\<lambda>_.
       returnA (int (length records)))))))"

definition orphan_blob :: "time \<Rightarrow> database \<Rightarrow> blob_row \<Rightarrow> bool" where
  "orphan_blob staleBefore db b \<longleftrightarrow>
     bo_reference_count b = 0 \<and> bo_deleted_at b = None \<and> bo_updated_at b \<le> staleBefore \<and>
     \<not> list_ex (\<lambda>f. fa_blob_object_id f = bo_blob_object_id b \<and> fa_status f = FileStatusActive) (file_assets db)"

definition orphan_candidates :: "(string \<Rightarrow> bool) \<Rightarrow> time \<Rightarrow> int \<Rightarrow> database \<Rightarrow> cleanupRecord list" where
  "orphan_candidates locked staleBefore limit db =
     map (scanCleanupRecord [])
       (order_by_limit bo_updated_at (normalizeLimit limit)
          (filter (\<lambda>b. orphan_blob staleBefore db b \<and> \<not> locked (bo_blob_object_id b)) (blob_objects db)))"

definition CleanupOrphanBlobs :: "env \<Rightarrow> (string \<Rightarrow> bool) \<Rightarrow> bool \<Rightarrow> time \<Rightarrow> int \<Rightarrow> int M" where
  "CleanupOrphanBlobs env locked hasStorage staleBefore limit =
     bindA (storageRequired hasStorage) (\<lambda>_.
     runTx env (
       bindA (runSQL env (\<lambda>db. Inr (orphan_candidates locked staleBefore limit db, db))) (\<lambda>records.
       bindA (Now env) (\<lambda>now.
       bindA (forA (cleanupObject env now) records) (\<lambda>_.
       returnA (int (length records)))))))"

subsection \<open>Multipart uploads\<close>

definition multipart_eligible :: "time \<Rightarrow> session_row \<Rightarrow> bool" where
  "multipart_eligible staleBefore r \<longleftrightarrow>
     us_provider_upload_id r \<noteq> None \<and> us_provider_upload_id r \<noteq> Some [] \<and> us_updated_at r \<le> staleBefore \<and>
     us_status r \<in> {SessionStatusAborted, SessionStatusExpired, SessionStatusFailed}"

definition clear_provider_upload :: "time \<Rightarrow> string \<Rightarrow> database \<Rightarrow> go_error + unit \<times> database" where
  "clear_provider_upload now uploadSessionID db =
     Inr ((), db\<lparr>upload_sessions := update_where (\<lambda>r. us_upload_session_id r = uploadSessionID)
        (\<lambda>r. r\<lparr>us_provider_upload_id := None, us_updated_at := now\<rparr>) (upload_sessions db)\<rparr>)"

definition session_object :: "session_row \<Rightarrow> ObjectRef" where
  "session_object r = \<lparr>or_Provider = us_storage_provider r, or_BucketName = us_bucket_name r,
     or_ObjectKey = us_object_key r\<rparr>"

definition cleanupMultipart :: "env \<Rightarrow> time \<Rightarrow> session_row \<Rightarrow> unit M" where
  "cleanupMultipart env now r =
     (let uploadID = null_String (us_provider_upload_id r) in
      bindA (tolerateNotFound (callA (CallAbortMultipartUpload (session_object r) uploadID)
         (\<lambda>n. errOpt (e_AbortMultipartUpload env n (session_object r) uploadID)))) (\<lambda>_.
      runSQL env (clear_provider_upload now (us_upload_session_id r))))"

definition CleanupMultipartUploads :: "env \<Rightarrow> (string \<Rightarrow> bool) \<Rightarrow> bool \<Rightarrow> time \<Rightarrow> int \<Rightarrow> int M" where
  "CleanupMultipartUploads env locked hasStorage staleBefore limit =
     bindA (storageRequired hasStorage) (\<lambda>_.
     bindA (Now env) (\<lambda>now.
     runTx env (
       bindA (runSQL env (\<lambda>db. Inr (order_by_limit us_updated_at (normalizeLimit limit)
          (filter (\<lambda>r. multipart_eligible staleBefore r \<and> \<not> locked (us_upload_session_id r)) (upload_sessions db)), db)))
         (\<lambda>records.
       bindA (forA (cleanupMultipart env now) records) (\<lambda>_.
       returnA (int (length records)))))))"

subsection \<open>Usage\<close>

definition active_files_of :: "string \<Rightarrow> database \<Rightarrow> file_row list" where
  "active_files_of tenantID db = filter (\<lambda>f. fa_tenant_id f = tenantID \<and> fa_status f = FileStatusActive) (file_assets db)"

definition max_created :: "file_row list \<Rightarrow> time option" where
  "max_created fs = (if fs = [] then None else Some (foldr max (map fa_created_at fs) (fa_created_at (hd fs))))"

definition reconcile_row :: "database \<Rightarrow> time \<Rightarrow> usage_row \<Rightarrow> usage_row" where
  "reconcile_row db now r =
     (let fs = active_files_of (tu_tenant_id r) db in
      r\<lparr>tu_used_storage_bytes := sum_list (map fa_file_size fs), tu_used_file_count := int (length fs),
        tu_last_upload_at := max_created fs, tu_version := tu_version r + 1, tu_updated_at := now\<rparr>)"

definition reconcile_tenant :: "time \<Rightarrow> string \<Rightarrow> database \<Rightarrow> go_error + unit \<times> database" where
  "reconcile_tenant now tenantID db =
     (if list_ex (\<lambda>r. tu_tenant_id r = tenantID \<and> \<not> usage_row_check (reconcile_row db now r)) (tenant_usage db)
      then Inl (constraint_violation ''ck_tenant_usage'')
      else Inr ((), db\<lparr>tenant_usage := update_where (\<lambda>r. tu_tenant_id r = tenantID) (reconcile_row db now) (tenant_usage db)\<rparr>))"

definition ReconcileTenantUsage :: "env \<Rightarrow> int \<Rightarrow> int M" where
  "ReconcileTenantUsage env limit =
     bindA (runSQL env (\<lambda>db. Inr (map tu_tenant_id
        (order_by_limit tu_updated_at (normalizeLimit limit) (tenant_usage db)), db))) (\<lambda>tenantIDs.
     bindA (Now env) (\<lambda>now.
     bindA (forA (\<lambda>tenantID. runSQL env (reconcile_tenant now tenantID)) tenantIDs) (\<lambda>_.
     returnA (int (length tenantIDs)))))"

subsection \<open>Outbox\<close>

record OutboxEvent =
  ev_EventID :: string
  ev_ServiceName :: string
  ev_AggregateType :: string
  ev_AggregateID :: string
  ev_EventType :: string
  ev_Payload :: "(string \<times> pval) list"
  ev_RetryCount :: int
  ev_NextAttemptAt :: "time option"

record ClaimOutboxEventsQuery =
  cq_EventTypes :: "string list"
  cq_DueBefore :: time
  cq_Limit :: int

definition claimable :: "ClaimOutboxEventsQuery \<Rightarrow> outbox_row \<Rightarrow> bool" where
  "claimable query r \<longleftrightarrow>
     oe_status r \<in> {OutboxPending, OutboxFailed} \<and>
     (case oe_next_attempt_at r of None \<Rightarrow> oe_created_at r | Some t \<Rightarrow> t) \<le> cq_DueBefore query \<and>
     (0 < length (cq_EventTypes query) \<longrightarrow> oe_event_type r \<in> set (map TrimSpace (cq_EventTypes query)))"

definition lease_row :: "time \<Rightarrow> time \<Rightarrow> outbox_row \<Rightarrow> outbox_row" where
  "lease_row claimUntil now r = r\<lparr>oe_next_attempt_at := Some claimUntil, oe_updated_at := now\<rparr>"

definition event_of_row :: "outbox_row \<Rightarrow> OutboxEvent" where
  "event_of_row r = \<lparr>ev_EventID = oe_event_id r, ev_ServiceName = oe_service_name r,
     ev_AggregateType = oe_aggregate_type r, ev_AggregateID = oe_aggregate_id r,
     ev_EventType = oe_event_type r, ev_Payload = oe_payload r, ev_RetryCount = oe_retry_count r,
     ev_NextAttemptAt = oe_next_attempt_at r\<rparr>"

definition claim_pending ::
    "(string \<Rightarrow> bool) \<Rightarrow> ClaimOutboxEventsQuery \<Rightarrow> time \<Rightarrow> database \<Rightarrow> go_error + OutboxEvent list \<times> database" where
  "claim_pending locked query now db =
     (let candidates = order_by_limit oe_created_at (normalizeLimit (cq_Limit query))
            (filter (\<lambda>r. claimable query r \<and> \<not> locked (oe_event_id r)) (outbox_events db));
          ids = map oe_event_id candidates;
          p = (\<lambda>r. oe_event_id r \<in> set ids);
          claimed = map (lease_row (cq_DueBefore query + outboxClaimLease) now) (filter p (outbox_events db))
      in Inr (map event_of_row (sort_key oe_event_id claimed),
              db\<lparr>outbox_events := update_where p (lease_row (cq_DueBefore query + outboxClaimLease) now) (outbox_events db)\<rparr>))"

definition ClaimPending :: "env \<Rightarrow> (string \<Rightarrow> bool) \<Rightarrow> ClaimOutboxEventsQuery \<Rightarrow> OutboxEvent list M" where
  "ClaimPending env locked query =
     bindA (Now env) (\<lambda>now. runSQL env (claim_pending locked query now))"

definition mark_published :: "string \<Rightarrow> time \<Rightarrow> database \<Rightarrow> go_error + unit \<times> database" where
  "mark_published eventID publishedAt db =
     Inr ((), db\<lparr>outbox_events := update_where (\<lambda>r. oe_event_id r = TrimSpace eventID)
        (\<lambda>r. r\<lparr>oe_status := OutboxPublished, oe_published_at := Some publishedAt, oe_updated_at := publishedAt\<rparr>)
        (outbox_events db)\<rparr>)"

definition MarkPublished :: "env \<Rightarrow> string \<Rightarrow> time \<Rightarrow> unit M" where
  "MarkPublished env eventID publishedAt = runSQL env (mark_published eventID publishedAt)"

definition mark_failed :: "string \<Rightarrow> time \<Rightarrow> database \<Rightarrow> go_error + unit \<times> database" where
  "mark_failed eventID nextAttemptAt db =
     Inr ((), db\<lparr>outbox_events := update_where (\<lambda>r. oe_event_id r = TrimSpace eventID)
        (\<lambda>r. r\<lparr>oe_status := OutboxFailed, oe_retry_count := oe_retry_count r + 1,
              oe_next_attempt_at := Some nextAttemptAt, oe_updated_at := nextAttemptAt\<rparr>)
        (outbox_events db)\<rparr>)"

definition OutboxReader_MarkFailed :: "env \<Rightarrow> string \<Rightarrow> time \<Rightarrow> string \<Rightarrow> unit M" where
  "OutboxReader_MarkFailed env eventID nextAttemptAt lastError = runSQL env (mark_failed eventID nextAttemptAt)"

end
