(* ===== verification/JobOutbox.thy ===== *)
theory JobOutbox
  imports JobRepository
begin

text \<open>
  The jobs of the job service (\<^verbatim>\<open>app/jobs\<close>), the outbox consumer (\<^verbatim>\<open>app/outbox/consumer.go\<close>) and the
  event handlers it is configured with (\<^verbatim>\<open>runtime/catalog.go\<close>). The observer of the consumer is
  not part of the state.
\<close>

subsection \<open>The maintenance jobs\<close>

record Result =
  rs_ItemsProcessed :: int
  rs_RetryCount :: int

definition normalizeBatchSize :: "int \<Rightarrow> int" where
  "normalizeBatchSize value = (if value \<le> 0 then 100 else value)"

text \<open>The configuration of a job: its batch size, and the age it waits for.\<close>

record JobConfig =
  jc_BatchSize :: int
  jc_After :: duration

definition newJob :: "duration \<Rightarrow> JobConfig \<Rightarrow> JobConfig" where
  "newJob defaultAfter cfg = cfg\<lparr>jc_BatchSize := normalizeBatchSize (jc_BatchSize cfg),
     jc_After := (if jc_After cfg \<le> 0 then defaultAfter else jc_After cfg)\<rparr>"

definition NewExpireUploadSessionsJob :: "JobConfig \<Rightarrow> JobConfig" where
  "NewExpireUploadSessionsJob = newJob (30 * minute)"

definition NewRepairStuckCompletingJob :: "JobConfig \<Rightarrow> JobConfig" where
  "NewRepairStuckCompletingJob = newJob (15 * minute)"

definition NewFinalizeFileDeleteJob :: "JobConfig \<Rightarrow> JobConfig" where
  "NewFinalizeFileDeleteJob = newJob (24 * hour)"

definition NewCleanupMultipartJob :: "JobConfig \<Rightarrow> JobConfig" where
  "NewCleanupMultipartJob = newJob (2 * hour)"

definition NewCleanupOrphanBlobsJob :: "JobConfig \<Rightarrow> JobConfig" where
  "NewCleanupOrphanBlobsJob = newJob (24 * hour)"

definition processed :: "int M \<Rightarrow> Result M" where
  "processed m = bindA m (\<lambda>n. returnA \<lparr>rs_ItemsProcessed = n, rs_RetryCount = 0\<rparr>)"

definition ExpireUploadSessionsJob :: "env \<Rightarrow> (string \<Rightarrow> bool) \<Rightarrow> JobConfig \<Rightarrow> Result M" where
  "ExpireUploadSessionsJob env locked j = bindA (Now env) (\<lambda>now.
     processed (ExpirePendingSessions env locked (now - jc_After j) (jc_BatchSize j)))"

definition RepairStuckCompletingJob :: "env \<Rightarrow> (string \<Rightarrow> bool) \<Rightarrow> JobConfig \<Rightarrow> Result M" where
  "RepairStuckCompletingJob env locked j = bindA (Now env) (\<lambda>now.
     processed (RepairStuckCompleting env locked (now - jc_After j) (jc_BatchSize j)))"

definition FinalizeFileDeleteJob :: "env \<Rightarrow> (string \<Rightarrow> bool) \<Rightarrow> bool \<Rightarrow> JobConfig \<Rightarrow> Result M" where
  "FinalizeFileDeleteJob env locked hasStorage j = bindA (Now env) (\<lambda>now.
     processed (FinalizeDeletedFiles env locked hasStorage (now - jc_After j) (jc_BatchSize j)))"

definition CleanupMultipartJob :: "env \<Rightarrow> (string \<Rightarrow> bool) \<Rightarrow> bool \<Rightarrow> JobConfig \<Rightarrow> Result M" where
  "CleanupMultipartJob env locked hasStorage j = bindA (Now env) (\<lambda>now.
     processed (CleanupMultipartUploads env locked hasStorage (now - jc_After j) (jc_BatchSize j)))"

definition CleanupOrphanBlobsJob :: "env \<Rightarrow> (string \<Rightarrow> bool) \<Rightarrow> bool \<Rightarrow> JobConfig \<Rightarrow> Result M" where
  "CleanupOrphanBlobsJob env locked hasStorage j = bindA (Now env) (\<lambda>now.
     processed (CleanupOrphanBlobs env locked hasStorage (now - jc_After j) (jc_BatchSize j)))"

definition ReconcileTenantUsageJob :: "env \<Rightarrow> int \<Rightarrow> Result M" where
  "ReconcileTenantUsageJob env batchSize = processed (ReconcileTenantUsage env (normalizeBatchSize batchSize))"

subsection \<open>Retry delays\<close>

text \<open>
  A \<^verbatim>\<open>time.Duration\<close> is an \<^verbatim>\<open>int64\<close>: doubling wraps around, and division truncates towards zero.
\<close>

definition wrap64 :: "int \<Rightarrow> int" where
  "wrap64 x = (x + 2 ^ 63) mod 2 ^ 64 - 2 ^ 63"

definition half64 :: "int \<Rightarrow> int" where
  "half64 x = (if 0 \<le> x then x div 2 else - ((- x) div 2))"

fun retry_loop :: "duration \<Rightarrow> nat \<Rightarrow> duration \<Rightarrow> duration + duration" where
  "retry_loop maxBackoff 0 delay = Inr delay"
| "retry_loop maxBackoff (Suc n) delay =
     (if half64 maxBackoff \<le> delay then Inl maxBackoff else retry_loop maxBackoff n (wrap64 (delay * 2)))"

record Consumer =
  co_handlers :: "(string \<times> (OutboxEvent \<Rightarrow> unit M)) list"
  co_batchSize :: int
  co_eventTypes :: "string list"
  co_retryBackoff :: duration
  co_maxRetryBackoff :: duration

definition retryDelay :: "Consumer \<Rightarrow> int \<Rightarrow> duration" where
  "retryDelay c retryCount = (case retry_loop (co_maxRetryBackoff c) (nat retryCount) (co_retryBackoff c) of
     Inl early \<Rightarrow> early
   | Inr delay \<Rightarrow> if co_maxRetryBackoff c < delay then co_maxRetryBackoff c else delay)"

subsection \<open>The consumer\<close>

fun event_type_loop :: "string list \<Rightarrow> string list \<Rightarrow> string list" where
  "event_type_loop seen [] = []"
| "event_type_loop seen (value # values) =
     (let normalized = TrimSpace value in
      if normalized = [] \<or> normalized \<in> set seen then event_type_loop seen values
      else normalized # event_type_loop (normalized # seen) values)"

definition normalizeEventTypes :: "string list \<Rightarrow> string list" where
  "normalizeEventTypes values = (if length values = 0 then [] else event_type_loop [] values)"

record ConsumerConfig =
  cg_BatchSize :: int
  cg_EventTypes :: "string list"
  cg_RetryBackoff :: duration
  cg_MaxRetryBackoff :: duration

definition NewConsumer :: "(string \<times> (OutboxEvent \<Rightarrow> unit M)) list \<Rightarrow> ConsumerConfig \<Rightarrow> Consumer" where
  "NewConsumer handlers cfg = \<lparr>
     co_handlers = filter (\<lambda>(t, h). t \<noteq> []) (map (\<lambda>(t, h). (TrimSpace t, h)) handlers),
     co_batchSize = (if cg_BatchSize cfg \<le> 0 then 100 else cg_BatchSize cfg),
     co_eventTypes = normalizeEventTypes (cg_EventTypes cfg),
     co_retryBackoff = (if cg_RetryBackoff cfg \<le> 0 then minute else cg_RetryBackoff cfg),
     co_maxRetryBackoff = (if cg_MaxRetryBackoff cfg \<le> 0 then hour else cg_MaxRetryBackoff cfg)\<rparr>"

record OutboxResult =
  ox_Claimed :: int
  ox_Published :: int
  ox_Failed :: int

text \<open>
  One event of a run: it is published, or marked failed with the next attempt after the retry
  delay; the loop stops at the first event whose outcome cannot be recorded. The answer of a
  run is the counts, and the error it stopped with.
\<close>

definition consumeEvent :: "env \<Rightarrow> Consumer \<Rightarrow> time \<Rightarrow> OutboxEvent \<Rightarrow> bool M" where
  "consumeEvent env c now event = (case map_of (co_handlers c) (ev_EventType event) of
     None \<Rightarrow>
       bindA (OutboxReader_MarkFailed env (ev_EventID event) (now + retryDelay c (ev_RetryCount event))
          ''no handler registered'') (\<lambda>_. returnA False)
   | Some handler \<Rightarrow>
       bindA (tryA (handler event)) (\<lambda>r. case r of
         Inl err \<Rightarrow>
           bindA (mapErrA (\<lambda>markErr. ErrorfW (''handle outbox event: '' @ Error err @ ''; mark failed: '' @ Error markErr) err)
             (OutboxReader_MarkFailed env (ev_EventID event) (now + retryDelay c (ev_RetryCount event)) (Error err))) (\<lambda>_.
           returnA False)
       | Inr _ \<Rightarrow>
           bindA (MarkPublished env (ev_EventID event) now) (\<lambda>_. returnA True)))"

primrec consumeAll ::
    "env \<Rightarrow> Consumer \<Rightarrow> time \<Rightarrow> OutboxEvent list \<Rightarrow> OutboxResult \<Rightarrow> (OutboxResult \<times> go_error option) M" where
  "consumeAll env c now [] result = returnA (result, None)"
| "consumeAll env c now (event # events) result =
     bindA (tryA (consumeEvent env c now event)) (\<lambda>r. case r of
       Inl err \<Rightarrow> returnA (result, Some err)
     | Inr published \<Rightarrow>
         consumeAll env c now events
           (if published then result\<lparr>ox_Published := ox_Published result + 1\<rparr>
            else result\<lparr>ox_Failed := ox_Failed result + 1\<rparr>))"

definition Consumer_RunOnce :: "env \<Rightarrow> (string \<Rightarrow> bool) \<Rightarrow> Consumer \<Rightarrow> (OutboxResult \<times> go_error option) M" where
  "Consumer_RunOnce env locked c =
     bindA (Now env) (\<lambda>dueBefore.
     bindA (tryA (ClaimPending env locked \<lparr>cq_EventTypes = co_eventTypes c, cq_DueBefore = dueBefore,
        cq_Limit = co_batchSize c\<rparr>)) (\<lambda>r. case r of
       Inl err \<Rightarrow> returnA (\<lparr>ox_Claimed = 0, ox_Published = 0, ox_Failed = 0\<rparr>, Some err)
     | Inr events \<Rightarrow>
         bindA (Now env) (\<lambda>now.
         consumeAll env c now events \<lparr>ox_Claimed = int (length events), ox_Published = 0, ox_Failed = 0\<rparr>)))"

definition ProcessOutboxEventsJob :: "env \<Rightarrow> (string \<Rightarrow> bool) \<Rightarrow> Consumer \<Rightarrow> (Result \<times> go_error option) M" where
  "ProcessOutboxEventsJob env locked c =
     bindA (Consumer_RunOnce env locked c) (\<lambda>(result, err).
     returnA (\<lparr>rs_ItemsProcessed = ox_Claimed result, rs_RetryCount = ox_Failed result\<rparr>, err))"

subsection \<open>The registered handlers\<close>

definition eventTypeUploadSessionFailed :: string where
  "eventTypeUploadSessionFailed = ''upload.session.failed.v1''"

definition eventTypeFileDeleteRequested :: string where
  "eventTypeFileDeleteRequested = ''file.asset.delete_requested.v1''"

text \<open>
  A JSON time decodes to a string, a JSON number to a float. The payload of a row is a JSON
  object, so the decoded map is never nil and the branch for a nil map is not reached.
\<close>

definition requirePayloadString :: "(string \<times> pval) list \<Rightarrow> string \<Rightarrow> string \<Rightarrow> go_error option" where
  "requirePayloadString payload key expected = (case map_of payload key of
     None \<Rightarrow> Some (Errorf (''outbox payload '' @ quoted key @ '' is required''))
   | Some (PStr value) \<Rightarrow>
       if value = [] then Some (Errorf (''outbox payload '' @ quoted key @ '' must be a non-empty string''))
       else if expected \<noteq> [] \<and> value \<noteq> expected
       then Some (Errorf (''outbox payload '' @ quoted key @ '' must be '' @ quoted expected))
       else None
   | Some (PTime value) \<Rightarrow>
       if expected \<noteq> [] then Some (Errorf (''outbox payload '' @ quoted key @ '' must be '' @ quoted expected)) else None
   | Some _ \<Rightarrow> Some (Errorf (''outbox payload '' @ quoted key @ '' must be a non-empty string'')))"

definition handleFileDeleteRequested :: "OutboxEvent \<Rightarrow> go_error option" where
  "handleFileDeleteRequested event =
     (case requirePayloadString (ev_Payload event) ''producer'' ''admin-service'' of
        Some err \<Rightarrow> Some err
      | None \<Rightarrow> (case requirePayloadString (ev_Payload event) ''fileId'' [] of
          Some err \<Rightarrow> Some err
        | None \<Rightarrow> requirePayloadString (ev_Payload event) ''blobObjectId'' []))"

definition handleUploadSessionFailed :: "OutboxEvent \<Rightarrow> go_error option" where
  "handleUploadSessionFailed event =
     (case requirePayloadString (ev_Payload event) ''producer'' ''upload-service'' of
        Some err \<Rightarrow> Some err
      | None \<Rightarrow> (case requirePayloadString (ev_Payload event) ''uploadSessionId'' [] of
          Some err \<Rightarrow> Some err
        | None \<Rightarrow> requirePayloadString (ev_Payload event) ''failureCode'' []))"

definition newOutboxHandlers :: "(string \<times> (OutboxEvent \<Rightarrow> unit M)) list" where
  "newOutboxHandlers =
     [(eventTypeFileDeleteRequested, \<lambda>event. liftA (errOpt (handleFileDeleteRequested event))),
      (eventTypeUploadSessionFailed, \<lambda>event. liftA (errOpt (handleUploadSessionFailed event)))]"

definition supportedOutboxEventTypes :: "(string \<times> (OutboxEvent \<Rightarrow> unit M)) list \<Rightarrow> string list" where
  "supportedOutboxEventTypes handlers = sort (map fst handlers)"

definition newOutboxConsumer :: "int \<Rightarrow> Consumer" where
  "newOutboxConsumer batchSize = NewConsumer newOutboxHandlers
     \<lparr>cg_BatchSize = batchSize, cg_EventTypes = supportedOutboxEventTypes newOutboxHandlers,
      cg_RetryBackoff = 0, cg_MaxRetryBackoff = 0\<rparr>"

end
