(* ===== verification/UploadStore.thy ===== *)
theory UploadStore
  imports UploadRepository
begin

text \<open>
  The contract of the session store. \<open>session_store\<close> states what the handlers rely on: a session
  that was created or saved is what the next read returns, other sessions are not touched. The
  interpretation shows that the statements of the PostgreSQL repository keep it, for the
  sessions whose optional times are real instants; the decoding of a row inverts its encoding.
\<close>

subsection \<open>Rows and sessions\<close>

definition recorded_times :: "Session \<Rightarrow> bool" where
  "recorded_times s \<longleftrightarrow>
     s_CompletionStartedAt s \<noteq> Some 0 \<and> s_CompletedAt s \<noteq> Some 0 \<and> s_AbortedAt s \<noteq> Some 0 \<and> s_FailedAt s \<noteq> Some 0"

definition storable :: "Session \<Rightarrow> bool" where
  "storable s \<longleftrightarrow> canonical s \<and> recorded_times s"

lemma null_String_nullString [simp]: "null_String (nullString v) = v"
  by (simp add: null_String_def nullString_def)

lemma timePtr_nullTime: "v \<noteq> Some 0 \<Longrightarrow> timePtr (nullTime v) = v"
  by (auto simp: timePtr_def nullTime_def IsZero_def split: option.splits)

lemma hash_columns:
  "(case hashValue h of None \<Rightarrow> None
    | Some v \<Rightarrow> (case hashAlgorithm h of None \<Rightarrow> None | Some a \<Rightarrow> Some \<lparr>ch_Algorithm = a, ch_Value = v\<rparr>)) = h"
  by (auto simp: hashValue_def hashAlgorithm_def split: option.splits)

lemma params_of_row_of: "recorded_times s \<Longrightarrow> params_of_row (session_row_of s) = s"
  by (cases s) (simp add: params_of_row_def session_row_of_def recorded_times_def timePtr_nullTime hash_columns)

lemma storable_round_trip: "storable s \<Longrightarrow> NewSession (params_of_row (session_row_of s)) = Inr s"
  by (simp add: storable_def params_of_row_of canonical_NewSession)

lemma canonical_hash: "canonical s \<Longrightarrow> s_Hash s = Some h \<Longrightarrow> ch_Algorithm h = ''SHA256''"
  by (auto simp: canonical_def session_of_params_fixed normalizeHash_def valid_session_def fields_ok_def
      ContentHash_Validate_None)

lemma canonical_row_check:
  assumes "canonical s"
  shows "session_row_check (session_row_of s)"
proof -
  from assms have f: "fields_ok s" and p: "parts_ok s" by (simp_all add: canonical_def valid_session_def)
  have "s_Mode s \<in> {SessionModeInline, SessionModeDirect, SessionModePresignedSingle}"
    using f by (cases "s_Mode s") (auto simp: fields_ok_def)
  moreover have "s_AccessLevel s \<in> {AccessLevelPublic, AccessLevelPrivate}"
    using f by (cases "s_AccessLevel s") (auto simp: fields_ok_def)
  moreover have "s_Status s \<in> {SessionStatusInitiated, SessionStatusUploading, SessionStatusCompleting,
       SessionStatusCompleted, SessionStatusAborted, SessionStatusExpired, SessionStatusFailed}"
    using f by (cases "s_Status s") (auto simp: fields_ok_def)
  moreover have "hashAlgorithm (s_Hash s) = None \<or> hashAlgorithm (s_Hash s) = Some ''SHA256''"
    using canonical_hash [OF assms] by (cases "s_Hash s") (auto simp: hashAlgorithm_def)
  moreover have "0 < s_SizeBytes s" "0 \<le> s_ChunkSizeBytes s" using f by (simp_all add: fields_ok_def)
  moreover have "1 \<le> s_TotalParts s" "0 \<le> s_CompletedParts s" "s_CompletedParts s \<le> s_TotalParts s"
    using p by (auto simp: parts_ok_def split: if_splits)
  ultimately show ?thesis by (auto simp: session_row_check_def session_row_of_def)
qed

lemma save_row_same:
  "session_at (s_TenantID s) (s_ID s) r \<Longrightarrow> us_created_at r = s_CreatedAt s \<Longrightarrow> save_row s r = session_row_of s"
  by (simp add: save_row_def session_row_of_def session_at_def)

lemma session_at_save [simp]: "session_at t i (save_row s r) = session_at t i r"
  by (simp add: session_at_def save_row_def)

interpretation save: row_update us_upload_session_id "save_row s" for s
  by unfold_locales (simp add: save_row_def)

interpretation adjust: row_update bo_blob_object_id "adjust_row delta now" for delta now
  by unfold_locales (simp add: adjust_row_def)

interpretation upsert: row_update bo_blob_object_id "conflict_row excluded" for excluded
  by unfold_locales (simp add: conflict_row_def)

interpretation delta: row_update tu_tenant_id "usage_delta_row bytes now" for bytes now
  by unfold_locales (simp add: usage_delta_row_def)

subsection \<open>The contract\<close>

locale session_store =
  fixes storable :: "Session \<Rightarrow> bool"
    and create :: "Session \<Rightarrow> 'd \<Rightarrow> go_error + unit \<times> 'd"
    and save :: "Session \<Rightarrow> 'd \<Rightarrow> go_error + int \<times> 'd"
    and load :: "string \<Rightarrow> string \<Rightarrow> 'd \<Rightarrow> Session option"
  assumes create_load: "storable s \<Longrightarrow> create s d = Inr (u, d') \<Longrightarrow> load (s_TenantID s) (s_ID s) d' = Some s"
    and create_other: "create s d = Inr (u, d') \<Longrightarrow> (t, i) \<noteq> (s_TenantID s, s_ID s) \<Longrightarrow> load t i d' = load t i d"
    and save_load: "storable s \<Longrightarrow> load (s_TenantID s) (s_ID s) d = Some old \<Longrightarrow>
       s_CreatedAt s = s_CreatedAt old \<Longrightarrow>
       \<exists>n d'. save s d = Inr (n, d') \<and> 0 < n \<and> load (s_TenantID s) (s_ID s) d' = Some s"
    and save_other: "save s d = Inr (n, d') \<Longrightarrow> (t, i) \<noteq> (s_TenantID s, s_ID s) \<Longrightarrow> load t i d' = load t i d"
begin

text \<open>A history of versions of one session, saved one after the other.\<close>

fun save_all :: "Session list \<Rightarrow> 'd \<Rightarrow> go_error + 'd" where
  "save_all [] d = Inr d"
| "save_all (s # ss) d = (case save s d of Inl e \<Rightarrow> Inl e | Inr (n, d') \<Rightarrow> save_all ss d')"

lemma last_save_wins:
  assumes "load t i d = Some s0"
    and "\<forall>s \<in> set ss. storable s \<and> s_TenantID s = t \<and> s_ID s = i \<and> s_CreatedAt s = s_CreatedAt s0"
  shows "\<exists>d'. save_all ss d = Inr d' \<and> load t i d' = Some (last (s0 # ss))"
  using assms
proof (induction ss arbitrary: d s0)
  case (Cons s ss)
  from Cons.prems(2) have s: "storable s" "s_TenantID s = t" "s_ID s = i" "s_CreatedAt s = s_CreatedAt s0"
    by simp_all
  from save_load [OF s(1) _ s(4), of d] Cons.prems(1) obtain n d1
    where d1: "save s d = Inr (n, d1)" "load t i d1 = Some s"
    unfolding s(2,3) by blast
  from Cons.prems(2) s(4) have "\<forall>s' \<in> set ss. storable s' \<and> s_TenantID s' = t \<and> s_ID s' = i \<and> s_CreatedAt s' = s_CreatedAt s"
    by simp
  from Cons.IH [OF d1(2) this] d1(1) show ?case by simp
qed simp

lemma create_then_saves:
  assumes "storable s0" and "create s0 d = Inr (u, d0)"
    and "\<forall>s \<in> set ss. storable s \<and> s_TenantID s = s_TenantID s0 \<and> s_ID s = s_ID s0 \<and> s_CreatedAt s = s_CreatedAt s0"
  shows "\<exists>d'. save_all ss d0 = Inr d' \<and> load (s_TenantID s0) (s_ID s0) d' = Some (last (s0 # ss))"
  using last_save_wins [OF create_load [OF assms(1,2)] assms(3)] .

end

text \<open>What a read of the repository finds: the decoded row, if there is one and it is accepted.\<close>

definition load_session :: "string \<Rightarrow> string \<Rightarrow> database \<Rightarrow> Session option" where
  "load_session t i db = (case find (session_at t i) (upload_sessions db) of
     None \<Rightarrow> None
   | Some r \<Rightarrow> (case NewSession (params_of_row r) of Inl e \<Rightarrow> None | Inr s \<Rightarrow> Some s))"

lemma load_session_Some:
  "load_session t i db = Some s \<longleftrightarrow>
     (\<exists>r. find (session_at t i) (upload_sessions db) = Some r \<and> NewSession (params_of_row r) = Inr s)"
  by (auto simp: load_session_def split: option.splits sum.splits)

lemma NewSession_created: "NewSession p = Inr s \<Longrightarrow> s_CreatedAt s = s_CreatedAt p"
  by (auto simp: NewSession_def Let_def Session_Validate_iff session_of_params_def split: if_splits)

lemma find_update_same:
  "find (session_at t i) (update_where (session_at t i) (save_row s) rows) =
     map_option (save_row s) (find (session_at t i) rows)"
  by (induction rows) (auto simp: update_where_def)

lemma session_at_inj: "session_at t i r \<Longrightarrow> session_at t' i' r \<Longrightarrow> (t, i) = (t', i')"
  by (simp add: session_at_def)

lemma find_update_other:
  assumes "(t, i) \<noteq> (t', i')"
  shows "find (session_at t i) (update_where (session_at t' i') (save_row s) rows) = find (session_at t i) rows"
proof (induction rows)
  case (Cons r rows)
  then show ?case using assms session_at_inj [of t i r t' i'] by (auto simp: update_where_def)
qed (simp add: update_where_def)

lemma find_append_other: "\<not> p r \<Longrightarrow> find p (rows @ [r]) = find p rows"
  by (induction rows) auto

lemma find_append_new: "(\<And>x. x \<in> set rows \<Longrightarrow> \<not> p x) \<Longrightarrow> p r \<Longrightarrow> find p (rows @ [r]) = Some r"
  by (induction rows) auto

interpretation sessions: session_store storable insert_session update_session load_session
proof
  fix s d u d'
  assume s: "storable s" and ins: "insert_session s d = Inr (u, d')"
  then have "x \<in> set (upload_sessions d) \<Longrightarrow> \<not> session_at (s_TenantID s) (s_ID s) x" for x
    by (auto simp: insert_session_def Let_def lookup_row_None session_at_def image_iff split: if_splits)
  moreover have "session_at (s_TenantID s) (s_ID s) (session_row_of s)"
    by (simp add: session_at_def session_row_of_def)
  ultimately have "find (session_at (s_TenantID s) (s_ID s)) (upload_sessions d') = Some (session_row_of s)"
    using ins by (auto simp: insert_session_def Let_def find_append_new split: if_splits)
  then show "load_session (s_TenantID s) (s_ID s) d' = Some s"
    by (simp add: load_session_Some storable_round_trip [OF s])
next
  fix s d u d' t i
  assume "insert_session s d = Inr (u, d')" and "(t, i) \<noteq> (s_TenantID s, s_ID s)"
  then show "load_session t i d' = load_session t i d"
    by (auto simp: insert_session_def Let_def load_session_def find_append_other session_at_def
        session_row_of_def split: if_splits)
next
  fix s :: Session and d old
  let ?p = "session_at (s_TenantID s) (s_ID s)"
  assume s: "storable s" and load: "load_session (s_TenantID s) (s_ID s) d = Some old"
    and created: "s_CreatedAt s = s_CreatedAt old"
  from load obtain r where r: "find ?p (upload_sessions d) = Some r" and new: "NewSession (params_of_row r) = Inr old"
    by (auto simp: load_session_Some)
  have row: "save_row s r = session_row_of s"
    using find_Some_filter [OF r] NewSession_created [OF new] created
    by (intro save_row_same) (simp_all add: params_of_row_def)
  have "session_row_check (save_row s x)" for x
    using canonical_row_check [of s] s
    by (simp add: storable_def session_row_check_def save_row_def session_row_of_def)
  then have "update_session s d = Inr (int (length (filter ?p (upload_sessions d))),
      d\<lparr>upload_sessions := update_where ?p (save_row s) (upload_sessions d)\<rparr>)"
    by (simp add: update_session_def list_ex_iff Let_def)
  moreover have "filter ?p (upload_sessions d) \<noteq> []"
    using find_Some_filter [OF r] by (auto simp: filter_empty_conv)
  moreover have "load_session (s_TenantID s) (s_ID s)
      (d\<lparr>upload_sessions := update_where ?p (save_row s) (upload_sessions d)\<rparr>) = Some s"
    using r row by (simp add: load_session_Some find_update_same storable_round_trip [OF s])
  ultimately show "\<exists>n d'. update_session s d = Inr (n, d') \<and> 0 < n \<and> load_session (s_TenantID s) (s_ID s) d' = Some s"
    by auto
next
  fix s d n d' t i
  assume "update_session s d = Inr (n, d')" and "(t, i) \<noteq> (s_TenantID s, s_ID s)"
  then show "load_session t i d' = load_session t i d"
    by (auto simp: update_session_def Let_def load_session_def find_update_other split: if_splits)
qed

end
