(* ===== verification/UploadHandlers.thy ===== *)
theory UploadHandlers
  imports UploadCommands
begin

text \<open>
  The command and query handlers of the upload service
  (\<^verbatim>\<open>src/internal/services/upload/app/commands\<close> and \<^verbatim>\<open>.../queries\<close>), each as one action: the
  checks in their order, every call that changes state, and every early return. A handler's
  dependencies are the repositories of \<open>UploadRepository\<close> and the environment; the ports that
  the Go code compares with nil are flags of a configuration record. Counters of the metrics
  are not part of the state.
\<close>

definition requireSessionID :: "string \<Rightarrow> unit M" where
  "requireSessionID uploadSessionID =
     liftA (failIf (TrimSpace uploadSessionID = [])
       (New CodeInvalidArgument ''upload session id is required'' [(''field'', DStr ''uploadSessionId'')]))"

subsection \<open>Create (\<^verbatim>\<open>create_upload_session.go\<close>)\<close>

record CreateUploadSessionCommand =
  cu_FileName :: string
  cu_ContentType :: string
  cu_SizeBytes :: int
  cu_ContentHash :: "ContentHash option"
  cu_AccessLevel :: AccessLevel
  cu_UploadMode :: SessionMode
  cu_TotalParts :: int
  cu_IdempotencyKey :: string
  cu_Auth :: AuthContext

record CreateUploadSessionConfig =
  cc_SessionTTL :: duration
  cc_PresignTTL :: duration
  cc_AllowedModes :: "SessionMode list"

text \<open>The defaults that the constructor fills in.\<close>

definition NewCreateUploadSessionHandler :: "CreateUploadSessionConfig \<Rightarrow> CreateUploadSessionConfig" where
  "NewCreateUploadSessionHandler cfg =
     (let cfg1 = (if cc_SessionTTL cfg \<le> 0 then cfg\<lparr>cc_SessionTTL := 30 * minute\<rparr> else cfg)
      in if cc_PresignTTL cfg1 \<le> 0 then cfg1\<lparr>cc_PresignTTL := 15 * minute\<rparr> else cfg1)"

definition isModeAllowed :: "CreateUploadSessionConfig \<Rightarrow> SessionMode \<Rightarrow> bool" where
  "isModeAllowed h mode \<longleftrightarrow> length (cc_AllowedModes h) = 0 \<or> mode \<in> set (cc_AllowedModes h)"

definition presignPut :: "env \<Rightarrow> ObjectRef \<Rightarrow> string \<Rightarrow> duration \<Rightarrow> (string \<times> (string \<times> string) list) M" where
  "presignPut env ref contentType ttl =
     mapErrA (\<lambda>err. Wrap CodeServiceUnavailable ''presign single upload'' err [])
       (askA (\<lambda>n. e_PresignPutObject env n ref contentType ttl))"

definition issuePutURL :: "env \<Rightarrow> CreateUploadSessionConfig \<Rightarrow> Session \<Rightarrow> (string \<times> (string \<times> string) list) M" where
  "issuePutURL env h session =
     (if s_Mode session \<noteq> SessionModePresignedSingle then returnA ([], [])
      else presignPut env (s_Object session) (s_ContentType session) (cc_PresignTTL h))"

text \<open>The provider-side preparation of a new session: a multipart upload, a presigned URL, or nothing.\<close>

definition prepareProvider ::
    "env \<Rightarrow> CreateUploadSessionConfig \<Rightarrow> SessionMode \<Rightarrow> ObjectRef \<Rightarrow> string \<Rightarrow>
     (string \<times> string \<times> (string \<times> string) list) M" where
  "prepareProvider env h mode objectRef contentType = (case mode of
     SessionModeDirect \<Rightarrow>
       bindA (mapErrA (\<lambda>err. Wrap CodeServiceUnavailable ''create multipart upload'' err [])
         (callA (CallCreateMultipartUpload objectRef contentType)
           (\<lambda>n. e_CreateMultipartUpload env n objectRef contentType))) (\<lambda>providerUploadID.
       returnA (providerUploadID, [], []))
   | SessionModePresignedSingle \<Rightarrow>
       bindA (presignPut env objectRef contentType (cc_PresignTTL h)) (\<lambda>(putURL, putHeaders).
       returnA ([], putURL, putHeaders))
   | _ \<Rightarrow> returnA ([], [], []))"

definition newSessionParams ::
    "CreateUploadSessionConfig \<Rightarrow> CreateUploadSessionCommand \<Rightarrow> string \<Rightarrow> ObjectRef \<Rightarrow> string \<Rightarrow> time \<Rightarrow>
     CreateSessionParams" where
  "newSessionParams h command sessionID objectRef providerUploadID now = \<lparr>
     s_ID = sessionID,
     s_TenantID = ac_TenantID (cu_Auth command),
     s_OwnerID = ac_SubjectID (cu_Auth command),
     s_FileName = TrimSpace (cu_FileName command),
     s_ContentType = TrimSpace (cu_ContentType command),
     s_SizeBytes = cu_SizeBytes command,
     s_AccessLevel = normalizeAccessLevel (cu_AccessLevel command),
     s_Mode = cu_UploadMode command,
     s_Status = SessionStatusOther [],
     s_ChunkSizeBytes = 0,
     s_TotalParts = normalizeTotalParts (cu_UploadMode command) (cu_TotalParts command),
     s_CompletedParts = 0,
     s_Object = objectRef,
     s_ProviderUploadID = providerUploadID,
     s_FileID = [],
     s_Hash = normalizeHash (cu_ContentHash command),
     s_CompletionToken = [],
     s_CompletionStartedAt = None,
     s_CreatedAt = now,
     s_UpdatedAt = now,
     s_CompletedAt = None,
     s_AbortedAt = None,
     s_FailureCode = [],
     s_FailureMessage = [],
     s_FailedAt = None,
     s_ResumedFromSessionID = [],
     s_IdempotencyKey = TrimSpace (cu_IdempotencyKey command),
     s_ExpiresAt = now + cc_SessionTTL h\<rparr>"

text \<open>The checks of the request before anything is read.\<close>

definition checkCreateRequest :: "CreateUploadSessionConfig \<Rightarrow> CreateUploadSessionCommand \<Rightarrow> unit result" where
  "checkCreateRequest h command =
     bindE (errOpt (RequireFileWrite (cu_Auth command))) (\<lambda>_.
     bindE (failIf (TrimSpace (cu_FileName command) = [])
       (New CodeInvalidArgument ''file name is required'' [(''field'', DStr ''fileName'')])) (\<lambda>_.
     bindE (failIf (TrimSpace (cu_ContentType command) = [])
       (New CodeInvalidArgument ''content type is required'' [(''field'', DStr ''contentType'')])) (\<lambda>_.
     bindE (failIf (cu_SizeBytes command \<le> 0)
       (New CodeInvalidArgument ''size bytes must be > 0'' [(''field'', DStr ''sizeBytes'')])) (\<lambda>_.
     bindE (errOpt (SessionMode_Validate (cu_UploadMode command))) (\<lambda>_.
     bindE (failIf (\<not> isModeAllowed h (cu_UploadMode command))
       (newUploadModeRejected (cu_UploadMode command) ''upload_mode_disabled'')) (\<lambda>_.
     errOpt (case normalizeHash (cu_ContentHash command) of
       None \<Rightarrow> None | Some hash \<Rightarrow> ContentHash_Validate hash)))))))"

definition CreateUploadSession ::
    "env \<Rightarrow> CreateUploadSessionConfig \<Rightarrow> CreateUploadSessionCommand \<Rightarrow> UploadSessionView M" where
  "CreateUploadSession env h command =
     bindA (liftA (checkCreateRequest h command)) (\<lambda>_.
     bindA (ReadUploadPolicy env (ac_TenantID (cu_Auth command))) (\<lambda>policy.
     bindA (liftA (errOpt (validateUploadPolicy policy (cu_UploadMode command)
        (TrimSpace (cu_ContentType command)) (cu_SizeBytes command)))) (\<lambda>_.
     bindA (FindReusable env \<lparr>
        rq_TenantID = ac_TenantID (cu_Auth command), rq_OwnerID = ac_SubjectID (cu_Auth command),
        rq_Mode = cu_UploadMode command, rq_AccessLevel = normalizeAccessLevel (cu_AccessLevel command),
        rq_SizeBytes = cu_SizeBytes command, rq_Hash = normalizeHash (cu_ContentHash command)\<rparr>) (\<lambda>reusable.
     case reusable of
       Some session \<Rightarrow>
         bindA (liftA (errOpt (EnsureSessionAccess (cu_Auth command) session))) (\<lambda>_.
         bindA (issuePutURL env h session) (\<lambda>(putURL, putHeaders).
         returnA (FromSession session putURL putHeaders)))
     | None \<Rightarrow>
         bindA (mapErrA (\<lambda>err. Wrap CodeInternalError ''generate upload session id'' err []) (NewID env)) (\<lambda>sessionID.
         bindA (mapErrA (\<lambda>err. Wrap CodeServiceUnavailable ''resolve upload bucket'' err [])
            (liftA (e_Resolve env (normalizeAccessLevel (cu_AccessLevel command))))) (\<lambda>bucket.
         let objectRef = \<lparr>or_Provider = br_Provider bucket, or_BucketName = br_BucketName bucket,
               or_ObjectKey = planObjectKey (ac_TenantID (cu_Auth command)) sessionID (TrimSpace (cu_FileName command))\<rparr>
         in bindA (prepareProvider env h (cu_UploadMode command) objectRef (TrimSpace (cu_ContentType command)))
              (\<lambda>(providerUploadID, putURL, putHeaders).
         bindA (Now env) (\<lambda>now.
         bindA (liftA (NewSession (newSessionParams h command sessionID objectRef providerUploadID now))) (\<lambda>session.
         bindA (SessionRepository_Create env session) (\<lambda>_.
         returnA (FromSession session putURL putHeaders)))))))))))"

subsection \<open>Inline content (\<^verbatim>\<open>upload_inline_content.go\<close>)\<close>

record UploadInlineContentCommand =
  ic_UploadSessionID :: string
  ic_ContentType :: string
  ic_HasBody :: bool
  ic_Auth :: AuthContext

definition UploadInlineContent :: "env \<Rightarrow> UploadInlineContentCommand \<Rightarrow> UploadSessionView M" where
  "UploadInlineContent env command =
     bindA (liftA (errOpt (RequireFileWrite (ic_Auth command)))) (\<lambda>_.
     bindA (requireSessionID (ic_UploadSessionID command)) (\<lambda>_.
     bindA (liftA (failIf (\<not> ic_HasBody command)
        (New CodeInvalidArgument ''request body is required'' [(''field'', DStr ''body'')]))) (\<lambda>_.
     bindA (GetByID env (ac_TenantID (ic_Auth command)) (ic_UploadSessionID command)) (\<lambda>session.
     bindA (liftA (errOpt (EnsureSessionAccess (ic_Auth command) session))) (\<lambda>_.
     bindA (liftA (failIf (s_Mode session \<noteq> SessionModeInline)
        (newUploadModeMismatch (s_Mode session) SessionModeInline))) (\<lambda>_.
     let contentType = TrimSpace (ic_ContentType command) in
     bindA (liftA (failIf (contentType \<noteq> [] \<and> \<not> EqualFold contentType (s_ContentType session))
        (New CodeInvalidArgument ''content type does not match upload session''
          [(''field'', DStr ''contentType''), (''declaredContentType'', DStr (s_ContentType session)),
           (''contentType'', DStr contentType)]))) (\<lambda>_.
     bindA (mapErrA (\<lambda>err. Wrap CodeServiceUnavailable ''upload inline content'' err [])
        (callA (CallPutObject (s_Object session) (s_ContentType session) (s_SizeBytes session))
          (\<lambda>n. errOpt (e_PutObject env n (s_Object session) (s_ContentType session) (s_SizeBytes session))))) (\<lambda>_.
     bindA (liftA (MarkUploading 1 session)) (\<lambda>session1.
     bindA (Now env) (\<lambda>now.
     let session2 = session1\<lparr>s_UpdatedAt := now\<rparr> in
     bindA (SessionRepository_Save env session2) (\<lambda>_.
     returnA (FromSession session2 [] []))))))))))))"

subsection \<open>Presign (\<^verbatim>\<open>presign_multipart_parts.go\<close>)\<close>

record PresignMultipartPartsCommand =
  pc_UploadSessionID :: string
  pc_ExpiresIn :: duration
  pc_Parts :: "int list"
  pc_Auth :: AuthContext

record PresignMultipartPartsConfig =
  pf_DefaultTTL :: duration
  pf_MaxTTL :: duration

definition NewPresignMultipartPartsHandler :: "PresignMultipartPartsConfig \<Rightarrow> PresignMultipartPartsConfig" where
  "NewPresignMultipartPartsHandler cfg =
     (let cfg1 = (if pf_DefaultTTL cfg \<le> 0 then cfg\<lparr>pf_DefaultTTL := 15 * minute\<rparr> else cfg)
      in if pf_MaxTTL cfg1 \<le> 0 then cfg1\<lparr>pf_MaxTTL := 24 * hour\<rparr> else cfg1)"

fun presignEach :: "env \<Rightarrow> Session \<Rightarrow> duration \<Rightarrow> time \<Rightarrow> int list \<Rightarrow> PresignedPart list M" where
  "presignEach env session ttl expiresAt [] = returnA []"
| "presignEach env session ttl expiresAt (partNumber # partNumbers) =
     bindA (mapErrA (\<lambda>err. Wrap CodeServiceUnavailable ''presign multipart part'' err
                          [(''partNumber'', DInt partNumber)])
       (askA (\<lambda>n. e_PresignUploadPart env n (s_Object session) (s_ProviderUploadID session) partNumber ttl)))
       (\<lambda>(url, headers).
     bindA (presignEach env session ttl expiresAt partNumbers) (\<lambda>rest.
     returnA (\<lparr>pp_PartNumber = partNumber, pp_URL = url, pp_Headers = cloneHeaders headers,
               pp_ExpiresAt = expiresAt\<rparr> # rest)))"

definition PresignMultipartParts ::
    "env \<Rightarrow> PresignMultipartPartsConfig \<Rightarrow> PresignMultipartPartsCommand \<Rightarrow> PresignedPart list M" where
  "PresignMultipartParts env h command =
     bindA (liftA (errOpt (RequireFileWrite (pc_Auth command)))) (\<lambda>_.
     bindA (requireSessionID (pc_UploadSessionID command)) (\<lambda>_.
     bindA (liftA (validatePresignPartNumbers (pc_Parts command))) (\<lambda>partNumbers.
     let ttl = normalizePresignTTL (pc_ExpiresIn command) (pf_DefaultTTL h) (pf_MaxTTL h) in
     bindA (GetByID env (ac_TenantID (pc_Auth command)) (pc_UploadSessionID command)) (\<lambda>session.
     bindA (liftA (errOpt (EnsureSessionAccess (pc_Auth command) session))) (\<lambda>_.
     bindA (liftA (failIf (s_Mode session \<noteq> SessionModeDirect)
        (newUploadModeMismatch (s_Mode session) SessionModeDirect))) (\<lambda>_.
     bindA (liftA (failIf (s_Status session \<noteq> SessionStatusInitiated \<and> s_Status session \<noteq> SessionStatusUploading)
        (newUploadStateConflict (s_Status session) [SessionStatusInitiated, SessionStatusUploading]))) (\<lambda>_.
     bindA (liftA (case find (\<lambda>partNumber. 0 < s_TotalParts session \<and> s_TotalParts session < partNumber) partNumbers of
        None \<Rightarrow> Inr ()
      | Some partNumber \<Rightarrow> Inl (New CodeInvalidArgument ''part number exceeds upload session total parts''
          [(''field'', DStr ''parts.partNumber''), (''partNumber'', DInt partNumber),
           (''totalParts'', DInt (s_TotalParts session))]))) (\<lambda>_.
     bindA (Now env) (\<lambda>now.
     presignEach env session ttl (now + ttl) partNumbers)))))))))"

subsection \<open>Abort (\<^verbatim>\<open>abort_upload_session.go\<close>)\<close>

record AbortUploadSessionCommand =
  ab_UploadSessionID :: string
  ab_Reason :: string
  ab_IdempotencyKey :: string
  ab_Auth :: AuthContext

text \<open>
  The handler reads the session, changes the copy in memory and saves it. The two halves are
  named apart, because no transaction joins them: another process may run in between.
\<close>

definition abort_read :: "env \<Rightarrow> AbortUploadSessionCommand \<Rightarrow> Session M" where
  "abort_read env command =
     bindA (liftA (errOpt (RequireFileWrite (ab_Auth command)))) (\<lambda>_.
     bindA (requireSessionID (ab_UploadSessionID command)) (\<lambda>_.
     bindA (GetByID env (ac_TenantID (ab_Auth command)) (ab_UploadSessionID command)) (\<lambda>session.
     bindA (liftA (errOpt (EnsureSessionAccess (ab_Auth command) session))) (\<lambda>_.
     bindA (Now env) (\<lambda>now.
     liftA (Abort now session))))))"

definition abort_write :: "env \<Rightarrow> bool \<Rightarrow> Session \<Rightarrow> UploadSessionView M" where
  "abort_write env hasMultipart session =
     bindA (SessionRepository_Save env session) (\<lambda>_.
     bindA (if s_Mode session = SessionModeDirect \<and> s_ProviderUploadID session \<noteq> [] \<and> hasMultipart
        then bindA (tryA (callA (CallAbortMultipartUpload (s_Object session) (s_ProviderUploadID session))
               (\<lambda>n. errOpt (e_AbortMultipartUpload env n (s_Object session) (s_ProviderUploadID session))))) (\<lambda>_.
             returnA ())
        else returnA ()) (\<lambda>_.
     returnA (FromSession session [] [])))"

definition AbortUploadSession :: "env \<Rightarrow> bool \<Rightarrow> AbortUploadSessionCommand \<Rightarrow> UploadSessionView M" where
  "AbortUploadSession env hasMultipart command =
     bindA (abort_read env command) (abort_write env hasMultipart)"

subsection \<open>Queries (\<^verbatim>\<open>get_upload_session.go\<close>, \<^verbatim>\<open>list_uploaded_parts.go\<close>)\<close>

record UploadSessionQuery =
  q_UploadSessionID :: string
  q_Auth :: AuthContext

definition GetUploadSession :: "env \<Rightarrow> UploadSessionQuery \<Rightarrow> UploadSessionView M" where
  "GetUploadSession env query =
     bindA (liftA (errOpt (RequireFileWrite (q_Auth query)))) (\<lambda>_.
     bindA (GetByID env (ac_TenantID (q_Auth query)) (q_UploadSessionID query)) (\<lambda>session.
     bindA (liftA (errOpt (EnsureSessionAccess (q_Auth query) session))) (\<lambda>_.
     returnA (FromSession session [] []))))"

definition mapPartRecords :: "SessionPartRecord list \<Rightarrow> UploadedPartView list" where
  "mapPartRecords records = map (\<lambda>record. \<lparr>uv_PartNumber = sr_PartNumber record, uv_ETag = sr_ETag record,
     uv_SizeBytes = sr_PartSize record\<rparr>) records"

definition mapUploadedParts :: "UploadedPart list \<Rightarrow> UploadedPartView list" where
  "mapUploadedParts records = map (\<lambda>record. \<lparr>uv_PartNumber = pt_PartNumber record, uv_ETag = pt_ETag record,
     uv_SizeBytes = pt_SizeBytes record\<rparr>) records"

definition ListUploadedParts :: "env \<Rightarrow> UploadSessionQuery \<Rightarrow> UploadedPartView list M" where
  "ListUploadedParts env query =
     bindA (liftA (errOpt (RequireFileWrite (q_Auth query)))) (\<lambda>_.
     bindA (GetByID env (ac_TenantID (q_Auth query)) (q_UploadSessionID query)) (\<lambda>session.
     bindA (liftA (errOpt (EnsureSessionAccess (q_Auth query) session))) (\<lambda>_.
     if s_Mode session \<noteq> SessionModeDirect then
       bindA (ListBySessionID env (s_TenantID session) (s_ID session)) (\<lambda>records.
       returnA (mapPartRecords records))
     else
       bindA (askA (\<lambda>n. e_ListUploadedParts env n (s_Object session) (s_ProviderUploadID session))) (\<lambda>providerParts.
       bindA (Now env) (\<lambda>now.
       bindA (SessionPartRepository_Replace env (s_TenantID session) (s_ID session)
         (map (\<lambda>part. \<lparr>sr_UploadSessionID = s_ID session, sr_PartNumber = pt_PartNumber part,
            sr_ETag = pt_ETag part, sr_PartSize = pt_SizeBytes part, sr_Checksum = pt_Checksum part,
            sr_UploadedAt = now\<rparr>) providerParts)) (\<lambda>_.
       bindA (if 0 < length providerParts then
          (case MarkUploading (int (length providerParts)) session of
             Inl e \<Rightarrow> returnA ()
           | Inr session1 \<Rightarrow> SessionRepository_Save env (session1\<lparr>s_UpdatedAt := now\<rparr>))
          else returnA ()) (\<lambda>_.
       returnA (mapUploadedParts providerParts))))))))"

end
