(* ===== verification/UploadComplete.thy ===== *)
theory UploadComplete
  imports UploadHandlers
begin

text \<open>
  The completion of an upload, \<^verbatim>\<open>complete_upload_session.go\<close>: the handler acquires the completion
  in one transaction, materialises the object at the provider outside any transaction, and
  commits the blob, the file, the usage, the session and the event in a second transaction;
  a terminal failure of the materialisation is recorded in a transaction of its own.
\<close>

subsection \<open>Commands, ports and payloads\<close>

record CompleteUploadSessionCommand =
  cm_UploadSessionID :: string
  cm_UploadedParts :: "UploadedPart list"
  cm_ContentHash :: "ContentHash option"
  cm_IdempotencyKey :: string
  cm_RequestID :: string
  cm_Auth :: AuthContext

text \<open>Which of the optional ports of the handler are not nil.\<close>

record CompleteUploadSessionHandler =
  cp_parts :: bool
  cp_blobs :: bool
  cp_files :: bool
  cp_dedup :: bool
  cp_usage :: bool
  cp_outbox :: bool

record materializedUpload =
  mu_metadata :: ObjectMetadata
  mu_providerParts :: "UploadedPart list"
  mu_canonicalHash :: "ContentHash option"
  mu_dedupDecision :: "DedupDecision option"

definition uploadSessionCompletedEventType :: string where
  "uploadSessionCompletedEventType = ''upload.session.completed.v1''"

definition uploadSessionFailedEventType :: string where
  "uploadSessionFailedEventType = ''upload.session.failed.v1''"

text \<open>A string field with \<^verbatim>\<open>omitempty\<close>.\<close>

definition omitempty :: "string \<Rightarrow> string \<Rightarrow> (string \<times> pval) list" where
  "omitempty key value = (if value = [] then [] else [(key, PStr value)])"

definition uploadSessionCompletedPayload ::
    "time \<Rightarrow> string \<Rightarrow> string \<Rightarrow> string \<Rightarrow> string \<Rightarrow> string \<Rightarrow> ContentHash option \<Rightarrow> int \<Rightarrow> (string \<times> pval) list" where
  "uploadSessionCompletedPayload occurredAt requestID tenantID sessionID fileID blobID hash sizeBytes =
     [(''occurredAt'', PTime occurredAt)] @ omitempty ''requestId'' (TrimSpace requestID) @
     [(''tenantId'', PStr tenantID), (''producer'', PStr ''upload-service''),
      (''uploadSessionId'', PStr sessionID), (''fileId'', PStr fileID), (''blobObjectId'', PStr blobID)] @
     omitempty ''hashAlgorithm'' (payloadHashAlgorithm hash) @ omitempty ''hashValue'' (hashString hash) @
     [(''sizeBytes'', PInt sizeBytes)]"

definition uploadSessionFailedPayload ::
    "time \<Rightarrow> string \<Rightarrow> string \<Rightarrow> string \<Rightarrow> string \<Rightarrow> string \<Rightarrow> (string \<times> pval) list" where
  "uploadSessionFailedPayload occurredAt requestID tenantID sessionID failureCode failureMessage =
     [(''occurredAt'', PTime occurredAt)] @ omitempty ''requestId'' (TrimSpace requestID) @
     [(''tenantId'', PStr tenantID), (''producer'', PStr ''upload-service''),
      (''uploadSessionId'', PStr sessionID), (''failureCode'', PStr failureCode),
      (''failureMessage'', PStr failureMessage)]"

subsection \<open>Materialising the object\<close>

definition partsMissing :: "int \<Rightarrow> int \<Rightarrow> go_error" where
  "partsMissing expectedParts actualParts =
     New CodeUploadPartsMissing ''uploaded parts are incomplete''
       [(''expectedParts'', DInt expectedParts), (''actualParts'', DInt actualParts)]"

text \<open>Lines 219 to 254: the multipart upload of a direct session is listed, checked and completed.\<close>

definition materialize_parts ::
    "env \<Rightarrow> CompleteUploadSessionHandler \<Rightarrow> Session \<Rightarrow> CompleteUploadSessionCommand \<Rightarrow> UploadedPart list M" where
  "materialize_parts env h session command =
     (if s_Mode session \<noteq> SessionModeDirect then returnA [] else
      bindA (liftA (normalizeUploadedParts (cm_UploadedParts command))) (\<lambda>clientParts.
      bindA (liftA (failIf (length clientParts = 0) (partsMissing (s_TotalParts session) 0))) (\<lambda>_.
      bindA (mapErrA (wrapMultipartOperationError session ''list uploaded parts'')
        (askA (\<lambda>n. e_ListUploadedParts env n (s_Object session) (s_ProviderUploadID session)))) (\<lambda>listed.
      bindA (mapErrA (\<lambda>err. Wrap CodeServiceUnavailable ''normalize uploaded parts'' err [])
        (liftA (normalizeUploadedParts listed))) (\<lambda>providerParts.
      bindA (liftA (failIf (0 < s_TotalParts session \<and> int (length providerParts) < s_TotalParts session)
        (partsMissing (s_TotalParts session) (int (length providerParts))))) (\<lambda>_.
      bindA (if cp_parts h then
          bindA (Now env) (\<lambda>now.
          SessionPartRepository_Replace env (s_TenantID session) (s_ID session)
            (toSessionPartRecords (s_ID session) providerParts now))
        else returnA ()) (\<lambda>_.
      bindA (mapErrA (wrapMultipartOperationError session ''complete multipart upload'')
        (callA (CallCompleteMultipartUpload (s_Object session) (s_ProviderUploadID session) providerParts)
          (\<lambda>n. errOpt (e_CompleteMultipartUpload env n (s_Object session) (s_ProviderUploadID session) providerParts)))) (\<lambda>_.
      returnA providerParts))))))))"

text \<open>Lines 256 to 268: the metadata of the object, with a computed checksum where none is stored.\<close>

definition materialize_metadata :: "env \<Rightarrow> Session \<Rightarrow> ContentHash option \<Rightarrow> ObjectMetadata M" where
  "materialize_metadata env session expectedHash =
     bindA (mapErrA (\<lambda>err. Wrap CodeServiceUnavailable ''head uploaded object'' err [])
       (askA (\<lambda>n. e_HeadObject env n (s_Object session)))) (\<lambda>metadata.
     if TrimSpace (om_Checksum metadata) = [] \<and> expectedHash \<noteq> None then
       (case e_ComputeSHA256 env of
          None \<Rightarrow> returnA metadata
        | Some compute \<Rightarrow>
            bindA (mapErrA (\<lambda>err. Wrap CodeServiceUnavailable ''compute uploaded object hash'' err [])
              (askA (\<lambda>n. compute n (s_Object session)))) (\<lambda>checksum.
            returnA (metadata\<lparr>om_Checksum := checksum\<rparr>)))
     else returnA metadata)"

text \<open>Lines 275 to 295: the dedup lookup.\<close>

definition materialize_dedup ::
    "env \<Rightarrow> CompleteUploadSessionHandler \<Rightarrow> Session \<Rightarrow> ContentHash option \<Rightarrow> DedupDecision option M" where
  "materialize_dedup env h session canonicalHash = (case canonicalHash of
     None \<Rightarrow> returnA None
   | Some hash \<Rightarrow>
       if \<not> cp_dedup h then returnA None else
       bindA (LookupByHash env \<lparr>dk_TenantID = s_TenantID session,
          dk_BucketName = or_BucketName (s_Object session), dk_Hash = hash\<rparr>) (\<lambda>dedupDecision.
       bindA (liftA (errOpt (case dedupDecision of None \<Rightarrow> None | Some d \<Rightarrow> DedupDecision_Validate d))) (\<lambda>_.
       returnA dedupDecision)))"

definition materialize ::
    "env \<Rightarrow> CompleteUploadSessionHandler \<Rightarrow> Session \<Rightarrow> CompleteUploadSessionCommand \<Rightarrow> materializedUpload M" where
  "materialize env h session command =
     bindA (liftA (resolveExpectedContentHash (s_Hash session) (cm_ContentHash command))) (\<lambda>expectedHash.
     bindA (materialize_parts env h session command) (\<lambda>providerParts.
     bindA (materialize_metadata env session expectedHash) (\<lambda>metadata.
     bindA (liftA (resolveCanonicalHash expectedHash (om_Checksum metadata))) (\<lambda>canonicalHash.
     bindA (materialize_dedup env h session canonicalHash) (\<lambda>dedupDecision.
     returnA \<lparr>mu_metadata = metadata, mu_providerParts = providerParts,
       mu_canonicalHash = canonicalHash, mu_dedupDecision = dedupDecision\<rparr>)))))"

subsection \<open>Committing\<close>

definition commitBlobID :: "env \<Rightarrow> materializedUpload \<Rightarrow> string M" where
  "commitBlobID env materialized = (case mu_dedupDecision materialized of
     Some d \<Rightarrow> if dd_Hit d then returnA (dd_BlobID d)
               else mapErrA (\<lambda>err. Wrap CodeInternalError ''generate blob id'' err []) (NewID env)
   | None \<Rightarrow> mapErrA (\<lambda>err. Wrap CodeInternalError ''generate blob id'' err []) (NewID env))"

definition commitBlobRecord :: "Session \<Rightarrow> materializedUpload \<Rightarrow> string \<Rightarrow> BlobRecord" where
  "commitBlobRecord owned materialized blobID = \<lparr>
     br_BlobID = blobID,
     br_TenantID = s_TenantID owned,
     br_StorageProvider = or_Provider (s_Object owned),
     br_Bucket = or_BucketName (s_Object owned),
     br_ObjectKey = or_ObjectKey (s_Object owned),
     br_SizeBytes = effectiveSizeBytes (mu_metadata materialized) (s_SizeBytes owned),
     br_ContentType = effectiveContentType (mu_metadata materialized) (s_ContentType owned),
     br_ETag = TrimSpace (om_ETag (mu_metadata materialized)),
     br_Checksum = TrimSpace (om_Checksum (mu_metadata materialized)),
     br_Hash = (case mu_canonicalHash materialized of None \<Rightarrow> \<lparr>ch_Algorithm = [], ch_Value = []\<rparr> | Some h \<Rightarrow> h)\<rparr>"

definition commitFileRecord :: "Session \<Rightarrow> materializedUpload \<Rightarrow> string \<Rightarrow> string \<Rightarrow> FileAssetRecord" where
  "commitFileRecord owned materialized blobID fileID = \<lparr>
     fr_FileID = fileID,
     fr_TenantID = s_TenantID owned,
     fr_OwnerID = s_OwnerID owned,
     fr_BlobID = blobID,
     fr_FileName = s_FileName owned,
     fr_ContentType = effectiveContentType (mu_metadata materialized) (s_ContentType owned),
     fr_SizeBytes = effectiveSizeBytes (mu_metadata materialized) (s_SizeBytes owned),
     fr_AccessLevel = s_AccessLevel owned,
     fr_StorageProvider = or_Provider (s_Object owned),
     fr_BucketName = or_BucketName (s_Object owned),
     fr_ObjectKey = or_ObjectKey (s_Object owned),
     fr_Hash = cloneHash (mu_canonicalHash materialized)\<rparr>"

definition commitBlob ::
    "env \<Rightarrow> CompleteUploadSessionHandler \<Rightarrow> Session \<Rightarrow> materializedUpload \<Rightarrow> string \<Rightarrow> unit M" where
  "commitBlob env h owned materialized blobID =
     (if \<not> cp_blobs h then returnA () else
      bindA (BlobRepository_Upsert env (commitBlobRecord owned materialized blobID)) (\<lambda>_.
      AdjustReferenceCount env blobID 1))"

definition commitFile ::
    "env \<Rightarrow> CompleteUploadSessionHandler \<Rightarrow> Session \<Rightarrow> materializedUpload \<Rightarrow> string \<Rightarrow> string \<Rightarrow> unit M" where
  "commitFile env h owned materialized blobID fileID =
     (if \<not> cp_files h then returnA () else
      CreateFileAsset env (commitFileRecord owned materialized blobID fileID))"

definition committedParts :: "materializedUpload \<Rightarrow> Session \<Rightarrow> Session" where
  "committedParts materialized owned =
     (let owned1 = (if 0 < length (mu_providerParts materialized)
                    then owned\<lparr>s_CompletedParts := int (length (mu_providerParts materialized))\<rparr>
                    else owned\<lparr>s_CompletedParts := s_TotalParts owned\<rparr>)
      in if s_CompletedParts owned1 \<le> 0 then owned1\<lparr>s_CompletedParts := 1\<rparr> else owned1)"

text \<open>Lines 330 to 443, the part of the transaction for a session that is not completed yet.\<close>

definition commitOwned ::
    "env \<Rightarrow> CompleteUploadSessionHandler \<Rightarrow> Session \<Rightarrow> materializedUpload \<Rightarrow> string \<Rightarrow> CompletedUploadSession M" where
  "commitOwned env h owned materialized requestID =
     bindA (commitBlobID env materialized) (\<lambda>blobID.
     bindA (mapErrA (\<lambda>err. Wrap CodeInternalError ''generate file id'' err []) (NewID env)) (\<lambda>fileID.
     let sizeBytes = effectiveSizeBytes (mu_metadata materialized) (s_SizeBytes owned) in
     bindA (commitBlob env h owned materialized blobID) (\<lambda>_.
     bindA (commitFile env h owned materialized blobID fileID) (\<lambda>_.
     bindA (if cp_usage h then ApplyDelta env (s_TenantID owned) sizeBytes else returnA ()) (\<lambda>_.
     bindA (Now env) (\<lambda>now.
     bindA (liftA (MarkCompleted fileID now (committedParts materialized owned))) (\<lambda>completed.
     bindA (SessionRepository_Save env completed) (\<lambda>_.
     bindA (if cp_outbox h then
         bindA (Now env) (\<lambda>occurredAt.
         Enqueue env \<lparr>ob_EventType = uploadSessionCompletedEventType, ob_AggregateID = s_ID completed,
           ob_Payload = uploadSessionCompletedPayload occurredAt requestID (s_TenantID completed) (s_ID completed)
             fileID blobID (mu_canonicalHash materialized) sizeBytes\<rparr>)
       else returnA ()) (\<lambda>_.
     returnA \<lparr>cv_FileID = fileID, cv_UploadSession = FromSession completed [] []\<rparr>)))))))))"

definition commitBody ::
    "env \<Rightarrow> CompleteUploadSessionHandler \<Rightarrow> string \<Rightarrow> string \<Rightarrow> string \<Rightarrow> materializedUpload \<Rightarrow> string \<Rightarrow> CompletedUploadSession M" where
  "commitBody env h tenantID sessionID completionToken materialized requestID =
     bindA (ConfirmCompletionOwner env tenantID sessionID completionToken) (\<lambda>owned.
     if s_Status owned = SessionStatusCompleted
     then returnA \<lparr>cv_FileID = s_FileID owned, cv_UploadSession = FromSession owned [] []\<rparr>
     else commitOwned env h owned materialized requestID)"

definition commit ::
    "env \<Rightarrow> CompleteUploadSessionHandler \<Rightarrow> Session \<Rightarrow> string \<Rightarrow> materializedUpload \<Rightarrow> string \<Rightarrow> CompletedUploadSession M" where
  "commit env h session completionToken materialized requestID =
     WithinTransaction env NoTx (\<lambda>_.
       commitBody env h (s_TenantID session) (s_ID session) completionToken materialized requestID)"

subsection \<open>Recording a terminal failure\<close>

definition failOwned ::
    "env \<Rightarrow> CompleteUploadSessionHandler \<Rightarrow> Session \<Rightarrow> string \<Rightarrow> go_error \<Rightarrow> unit M" where
  "failOwned env h owned requestID cause =
     (let code = (if CodeOf cause = [] then CodeInternalError else CodeOf cause) in
      bindA (Now env) (\<lambda>now.
      bindA (liftA (MarkFailed code (Error cause) now owned)) (\<lambda>failed.
      bindA (SessionRepository_Save env failed) (\<lambda>_.
      if \<not> cp_outbox h then returnA () else
      bindA (Now env) (\<lambda>occurredAt.
      Enqueue env \<lparr>ob_EventType = uploadSessionFailedEventType, ob_AggregateID = s_ID failed,
        ob_Payload = uploadSessionFailedPayload occurredAt requestID (s_TenantID failed) (s_ID failed)
          code (Error cause)\<rparr>)))))"

definition finalizeFailure ::
    "env \<Rightarrow> CompleteUploadSessionHandler \<Rightarrow> Session \<Rightarrow> string \<Rightarrow> string \<Rightarrow> go_error \<Rightarrow> unit M" where
  "finalizeFailure env h session completionToken requestID cause =
     (if \<not> isTerminalCompleteFailure cause then returnA () else
      WithinTransaction env NoTx (\<lambda>_.
        bindA (ConfirmCompletionOwner env (s_TenantID session) (s_ID session) completionToken) (\<lambda>owned.
        if s_Status owned = SessionStatusCompleted \<or> s_Status owned = SessionStatusFailed then returnA ()
        else if s_Status owned \<noteq> SessionStatusCompleting then returnA ()
        else failOwned env h owned requestID cause)))"

subsection \<open>The handler\<close>

definition completionToken :: "env \<Rightarrow> string \<Rightarrow> string M" where
  "completionToken env idempotencyKey =
     (if idempotencyKey \<noteq> [] then returnA idempotencyKey
      else mapErrA (\<lambda>err. Wrap CodeInternalError ''generate completion token'' err []) (NewID env))"

text \<open>Lines 192 to 200: a session that the repository did not already move to completing.\<close>

definition ensureCompleting :: "env \<Rightarrow> string \<Rightarrow> Session \<Rightarrow> Session M" where
  "ensureCompleting env token owned =
     (if s_Status owned = SessionStatusCompleting then returnA owned else
      bindA (Now env) (\<lambda>now.
      let startedAt = (if \<not> IsZero (s_UpdatedAt owned) then s_UpdatedAt owned else now) in
      case Session_AcquireCompletion token startedAt owned of
        Inl err \<Rightarrow> throwA err
      | Inr (ow, owned') \<Rightarrow> returnA owned'))"

text \<open>Lines 202 to 210: materialise, then commit or record the failure.\<close>

definition materializeAndCommit ::
    "env \<Rightarrow> CompleteUploadSessionHandler \<Rightarrow> Session \<Rightarrow> string \<Rightarrow> CompleteUploadSessionCommand \<Rightarrow> CompletedUploadSession M" where
  "materializeAndCommit env h owned token command =
     bindA (tryA (materialize env h owned command)) (\<lambda>r.
     case r of
       Inl err \<Rightarrow>
         bindA (tryA (finalizeFailure env h owned token (cm_RequestID command) err)) (\<lambda>r'.
         case r' of
           Inl finalizeErr \<Rightarrow> throwA (Joined [err, finalizeErr])
         | Inr _ \<Rightarrow> throwA err)
     | Inr materialized \<Rightarrow> commit env h owned token materialized (cm_RequestID command))"

definition CompleteUploadSession ::
    "env \<Rightarrow> CompleteUploadSessionHandler \<Rightarrow> CompleteUploadSessionCommand \<Rightarrow> CompletedUploadSession M" where
  "CompleteUploadSession env h command =
     bindA (liftA (errOpt (RequireFileWrite (cm_Auth command)))) (\<lambda>_.
     bindA (requireSessionID (cm_UploadSessionID command)) (\<lambda>_.
     bindA (GetByID env (ac_TenantID (cm_Auth command)) (cm_UploadSessionID command)) (\<lambda>session.
     bindA (liftA (errOpt (EnsureSessionAccess (cm_Auth command) session))) (\<lambda>_.
     bindA (completionToken env (TrimSpace (cm_IdempotencyKey command))) (\<lambda>token.
     bindA (Now env) (\<lambda>startedAt.
     bindA (SessionRepository_AcquireCompletion env NoTx \<lparr>
        ca_TenantID = ac_TenantID (cm_Auth command), ca_UploadSessionID = cm_UploadSessionID command,
        ca_CompletionToken = token, ca_StartedAt = startedAt\<rparr>) (\<lambda>(owned, ownership).
     case ownership of
       CompletionOwnershipAlreadyDone \<Rightarrow>
         returnA \<lparr>cv_FileID = s_FileID owned, cv_UploadSession = FromSession owned [] []\<rparr>
     | CompletionOwnershipHeldByAnother \<Rightarrow>
         throwA (New CodeUploadCompleteInProgress ''upload completion is already in progress''
           [(''resourceType'', DStr ''uploadSession''), (''resourceId'', DStr (s_ID owned))])
     | _ \<Rightarrow>
         bindA (ensureCompleting env token owned) (\<lambda>owned'.
         materializeAndCommit env h owned' token command))))))))"

end
