(* ===== verification/SampleWorld.thy ===== *)
theory SampleWorld
  imports UploadRepository
begin

text \<open>
  A concrete database, environment and state on which the properties of the handlers are
  instantiated: one tenant with a policy and a usage row, a storage that accepts every call.
\<close>

definition samplePart :: "int \<Rightarrow> UploadedPart" where
  "samplePart n = \<lparr>pt_PartNumber = n, pt_ETag = ''e'', pt_SizeBytes = 3, pt_Checksum = []\<rparr>"

definition sampleEnv :: env where
  "sampleEnv = \<lparr>
     e_now = (\<lambda>n. 40 + int n),
     e_new_id = (\<lambda>n. Inr (''id'' @ replicate n (CHR ''x''))),
     e_db_fault = (\<lambda>n. None),
     e_Resolve = (\<lambda>level. Inr \<lparr>br_Provider = ProviderMinIO, br_BucketName = ''b'', br_PublicBase = []\<rparr>),
     e_CreateMultipartUpload = (\<lambda>n ref contentType. Inr ''m1''),
     e_ListUploadedParts = (\<lambda>n ref uploadID. Inr [samplePart 1, samplePart 2]),
     e_CompleteMultipartUpload = (\<lambda>n ref uploadID parts. None),
     e_AbortMultipartUpload = (\<lambda>n ref uploadID. None),
     e_HeadObject = (\<lambda>n ref. Inr \<lparr>om_SizeBytes = 5, om_ContentType = ''text/plain'', om_ETag = ''e'',
        om_Checksum = [], om_VersionID = []\<rparr>),
     e_ComputeSHA256 = None,
     e_PutObject = (\<lambda>n ref contentType size. None),
     e_DeleteObject = (\<lambda>n ref. None),
     e_PresignPutObject = (\<lambda>n ref contentType ttl. Inr (''https://put'', [])),
     e_PresignUploadPart = (\<lambda>n ref uploadID part ttl. Inr (''https://part'', []))\<rparr>"

definition sampleDB :: database where
  "sampleDB = \<lparr>
     tenants = [\<lparr>te_tenant_id = ''t1'', te_tenant_name = ''T'', te_status = ''ACTIVE'', te_contact_email = None,
        te_description = None, te_created_at = 1, te_updated_at = 1, te_deleted_at = None\<rparr>],
     upload_sessions = [], upload_session_parts = [], blob_objects = [], file_assets = [],
     tenant_usage = [\<lparr>tu_tenant_id = ''t1'', tu_used_storage_bytes = 7, tu_used_file_count = 0,
        tu_last_upload_at = None, tu_version = 0, tu_updated_at = 1\<rparr>],
     tenant_policies = [\<lparr>tp_tenant_id = ''t1'', tp_max_storage_bytes = 1000, tp_max_file_count = 10,
        tp_max_single_file_size = 100, tp_allowed_mime_types = [], tp_allowed_extensions = [],
        tp_default_access_level = ''PRIVATE'', tp_auto_create_enabled = False, tp_created_at = 1, tp_updated_at = 1\<rparr>],
     outbox_events = [], upload_dedup_claims = [], admin_audit_logs = []\<rparr>"

definition sampleWorld :: "Session list \<Rightarrow> world" where
  "sampleWorld ss = \<lparr>w_db = sampleDB\<lparr>upload_sessions := map session_row_of ss\<rparr>, w_calls = [], w_tick = 0\<rparr>"

text \<open>A blob that one file uses, the file, and a state that holds them.\<close>

definition sampleBlob :: blob_row where
  "sampleBlob = \<lparr>bo_blob_object_id = ''b1'', bo_tenant_id = ''t1'', bo_storage_provider = ProviderMinIO,
     bo_bucket_name = ''b'', bo_object_key = ''t1/uploads/s1/a.txt'', bo_etag = None, bo_checksum = None,
     bo_hash_value = None, bo_hash_algorithm = None, bo_file_size = 5, bo_content_type = None,
     bo_reference_count = 1, bo_created_at = 30, bo_updated_at = 30, bo_deleted_at = None\<rparr>"

definition sampleFile :: file_row where
  "sampleFile = \<lparr>fa_file_id = ''f1'', fa_tenant_id = ''t1'', fa_owner_id = ''u1'', fa_blob_object_id = ''b1'',
     fa_original_filename = ''a.txt'', fa_content_type = Some ''text/plain'', fa_file_size = 5,
     fa_access_level = AccessLevelPrivate, fa_status = FileStatusActive, fa_storage_provider = ProviderMinIO,
     fa_bucket_name = ''b'', fa_object_key = ''t1/uploads/s1/a.txt'', fa_file_hash = None,
     fa_created_at = 30, fa_updated_at = 30, fa_deleted_at = None\<rparr>"

definition sampleFileWorld :: world where
  "sampleFileWorld = \<lparr>w_db = sampleDB\<lparr>blob_objects := [sampleBlob], file_assets := [sampleFile]\<rparr>,
     w_calls = [], w_tick = 0\<rparr>"

text \<open>The same after the file has been deleted.\<close>

definition sampleDeletedWorld :: world where
  "sampleDeletedWorld = \<lparr>w_db = sampleDB\<lparr>blob_objects := [sampleBlob\<lparr>bo_reference_count := 0\<rparr>],
     file_assets := [sampleFile\<lparr>fa_status := FileStatusDeleted, fa_deleted_at := Some 35\<rparr>]\<rparr>,
     w_calls = [], w_tick = 0\<rparr>"

end
