(* ===== verification/UploadHandlerLaws.thy ===== *)
theory UploadHandlerLaws
  imports UploadStore UploadComplete SampleWorld
begin

text \<open>
  What the handlers of the upload service guarantee around the session they work on: reads and
  writes of the repository as equations on the database, the authorisation rule that guards
  every handler, and which parts of the state each handler leaves alone.
\<close>

subsection \<open>Repository calls as equations\<close>

definition tick :: "world \<Rightarrow> world" where
  "tick w = w\<lparr>w_tick := Suc (w_tick w)\<rparr>"

lemma tick_fields [simp]: "w_db (tick w) = w_db w" "w_calls (tick w) = w_calls w" "w_tick (tick w) = Suc (w_tick w)"
  by (simp_all add: tick_def)

lemma Now_run: "Now env w = (Inr (e_now env (w_tick w)), tick w)"
  by (simp add: Now_def askA_def tick_def)

lemma NewID_run: "NewID env w = (e_new_id env (w_tick w), tick w)"
  by (simp add: NewID_def askA_def tick_def)

text \<open>\<^verbatim>\<open>BEGIN\<close> and \<^verbatim>\<open>COMMIT\<close> on a working connection.\<close>

lemma runSQL_noop: "e_db_fault env (w_tick w) = None \<Longrightarrow> runSQL env (\<lambda>db. Inr ((), db)) w = (Inr (), tick w)"
  by (simp add: runSQL_def tick_def)

lemma querySession_Inr:
  "querySession env sel w = (Inr s, w') \<longleftrightarrow>
     e_db_fault env (w_tick w) = None \<and> w' = tick w \<and>
     (\<exists>r. sel (upload_sessions (w_db w)) = Some r \<and> NewSession (params_of_row r) = Inr s)"
  by (auto simp: querySession_def bindA_Inr_iff runSQL_Inr tick_def split: option.splits)

lemma GetByID_Inr:
  "GetByID env t i w = (Inr s, w') \<longleftrightarrow>
     e_db_fault env (w_tick w) = None \<and> w' = tick w \<and> load_session t i (w_db w) = Some s"
  by (auto simp: GetByID_def querySession_Inr load_session_Some)

lemma GetByID_total: "\<exists>r. GetByID env t i w = (r, tick w)"
  by (auto simp: GetByID_def querySession_def bindA_def mapErrA_def runSQL_def liftA_def tick_def Let_def
      split: option.splits sum.splits prod.splits)

lemma Create_Inr:
  "SessionRepository_Create env s w = (Inr u, w') \<longleftrightarrow>
     e_db_fault env (w_tick w) = None \<and>
     (\<exists>db'. insert_session s (w_db w) = Inr (u, db') \<and> w' = (tick w)\<lparr>w_db := db'\<rparr>)"
  by (auto simp: SessionRepository_Create_def runSQL_Inr tick_def)

lemma Save_Inr:
  "SessionRepository_Save env s w = (Inr u, w') \<longleftrightarrow>
     e_db_fault env (w_tick w) = None \<and>
     (\<exists>n db'. update_session s (w_db w) = Inr (n, db') \<and> n \<noteq> 0 \<and> w' = (tick w)\<lparr>w_db := db'\<rparr>)"
  by (auto simp: SessionRepository_Save_def bindA_Inr_iff runSQL_Inr tick_def split: if_splits)

lemma saves_run:
  assumes "\<forall>n. e_db_fault env n = None"
    and "load_session (s_TenantID s0) (s_ID s0) (w_db w1) = Some s0"
    and "\<forall>s \<in> set ss. storable s \<and> s_TenantID s = s_TenantID s0 \<and> s_ID s = s_ID s0 \<and> s_CreatedAt s = s_CreatedAt s0"
  shows "\<exists>w2. forA (SessionRepository_Save env) ss w1 = (Inr (), w2) \<and>
      load_session (s_TenantID s0) (s_ID s0) (w_db w2) = Some (last (s0 # ss)) \<and>
      (\<forall>t i. (t, i) \<noteq> (s_TenantID s0, s_ID s0) \<longrightarrow> load_session t i (w_db w2) = load_session t i (w_db w1))"
  using assms(2,3)
proof (induction ss arbitrary: s0 w1)
  case (Cons s ss)
  from Cons.prems(2) have s: "storable s" "s_TenantID s = s_TenantID s0" "s_ID s = s_ID s0"
    "s_CreatedAt s = s_CreatedAt s0" by simp_all
  from sessions.save_load [OF s(1) _ s(4), of "w_db w1"] Cons.prems(1) s(2,3) obtain n db'
    where upd: "update_session s (w_db w1) = Inr (n, db')" "0 < n" "load_session (s_TenantID s) (s_ID s) db' = Some s"
    by auto
  let ?w = "(tick w1)\<lparr>w_db := db'\<rparr>"
  from Cons.prems(2) s have "\<forall>s' \<in> set ss. storable s' \<and> s_TenantID s' = s_TenantID s \<and> s_ID s' = s_ID s \<and>
    s_CreatedAt s' = s_CreatedAt s" by simp
  with Cons.IH [of s ?w] upd(3) obtain w2 where w2: "forA (SessionRepository_Save env) ss ?w = (Inr (), w2)"
    "load_session (s_TenantID s) (s_ID s) (w_db w2) = Some (last (s # ss))"
    "\<forall>t i. (t, i) \<noteq> (s_TenantID s, s_ID s) \<longrightarrow> load_session t i (w_db w2) = load_session t i db'"
    by auto
  have "SessionRepository_Save env s w1 = (Inr (), ?w)" using upd assms(1) by (auto simp: Save_Inr)
  with w2 sessions.save_other [OF upd(1)] s(2,3) show ?case by (auto simp: bindA_Inr_iff)
qed auto


lemma sample_storable: "storable sampleSession" "storable sampleCompleting" "storable sampleCompleted" "storable sampleDirect"
  by (simp_all add: storable_def sample_sessions_canonical recorded_times_def)
     (simp_all add: sampleSession_def sampleCompleting_def sampleCompleted_def sampleDirect_def)

lemma sampleEnv_no_fault [simp]: "e_db_fault sampleEnv n = None"
  by (simp add: sampleEnv_def)


subsection \<open>Authorisation\<close>

text \<open>
  A caller is not authorised for a session when the credentials lack the scope, or when there is
  no session of that id in the caller's tenant that the caller owns.
\<close>

definition unauthorised :: "AuthContext \<Rightarrow> string \<Rightarrow> database \<Rightarrow> bool" where
  "unauthorised a i db \<longleftrightarrow> RequireFileWrite a \<noteq> None \<or>
     (\<forall>s. load_session (ac_TenantID a) i db = Some s \<longrightarrow> EnsureSessionAccess a s \<noteq> None)"

text \<open>A run that fails and has no effect on the database or on the storage.\<close>

definition refused :: "world \<Rightarrow> ('a result \<times> world) \<Rightarrow> bool" where
  "refused w out \<longleftrightarrow> isl (fst out) \<and> w_db (snd out) = w_db w \<and> w_calls (snd out) = w_calls w"

lemma refused_pure: "(\<And>x. q = Inr x \<Longrightarrow> refused w (k x w)) \<Longrightarrow> refused w (bindA (liftA q) k w)"
  by (cases q) (simp_all add: bindA_def liftA_def refused_def)

lemma refused_access:
  assumes "RequireFileWrite a = None" and "unauthorised a i (w_db w)"
  shows "refused w (bindA (GetByID env (ac_TenantID a) i) (\<lambda>s. bindA (liftA (errOpt (EnsureSessionAccess a s))) (k s)) w)"
proof -
  obtain r where r: "GetByID env (ac_TenantID a) i w = (r, tick w)" using GetByID_total by blast
  show ?thesis
  proof (cases r)
    case (Inl e)
    with r show ?thesis by (simp add: bindA_def refused_def)
  next
    case (Inr s)
    with r have "load_session (ac_TenantID a) i (w_db w) = Some s" by (simp add: GetByID_Inr)
    with assms obtain e where "EnsureSessionAccess a s = Some e" by (auto simp: unauthorised_def)
    with r Inr show ?thesis by (simp add: bindA_def liftA_def refused_def)
  qed
qed

lemmas refused_rules = refused_pure refused_access

lemma CompleteUploadSession_refused:
  "unauthorised (cm_Auth c) (cm_UploadSessionID c) (w_db w) \<Longrightarrow> refused w (CompleteUploadSession env h c w)"
  unfolding CompleteUploadSession_def requireSessionID_def by (intro refused_rules) auto

text \<open>
  Claim C18: no handler lets an unauthorised caller change anything. For every command and query
  that names a session, a caller without the write scope, of another tenant or who does not own
  the session gets an error, and neither the database nor the object storage has been touched.
\<close>

theorem unauthorised_caller_changes_nothing:
  "(unauthorised (ic_Auth inline) (ic_UploadSessionID inline) (w_db w) \<longrightarrow> refused w (UploadInlineContent env inline w)) \<and>
   (unauthorised (pc_Auth presign) (pc_UploadSessionID presign) (w_db w) \<longrightarrow> refused w (PresignMultipartParts env cfg presign w)) \<and>
   (unauthorised (ab_Auth abort) (ab_UploadSessionID abort) (w_db w) \<longrightarrow> refused w (AbortUploadSession env hasMultipart abort w)) \<and>
   (unauthorised (q_Auth query) (q_UploadSessionID query) (w_db w) \<longrightarrow>
      refused w (GetUploadSession env query w) \<and> refused w (ListUploadedParts env query w)) \<and>
   (unauthorised (cm_Auth complete) (cm_UploadSessionID complete) (w_db w) \<longrightarrow> refused w (CompleteUploadSession env h complete w))"
proof (intro conjI impI)
  show "unauthorised (ic_Auth inline) (ic_UploadSessionID inline) (w_db w) \<Longrightarrow> refused w (UploadInlineContent env inline w)"
    unfolding UploadInlineContent_def requireSessionID_def by (intro refused_rules) auto
  show "unauthorised (pc_Auth presign) (pc_UploadSessionID presign) (w_db w) \<Longrightarrow> refused w (PresignMultipartParts env cfg presign w)"
    unfolding PresignMultipartParts_def requireSessionID_def Let_def by (intro refused_rules) auto
  show "unauthorised (q_Auth query) (q_UploadSessionID query) (w_db w) \<Longrightarrow> refused w (GetUploadSession env query w)"
    unfolding GetUploadSession_def by (intro refused_rules) auto
  show "unauthorised (q_Auth query) (q_UploadSessionID query) (w_db w) \<Longrightarrow> refused w (ListUploadedParts env query w)"
    unfolding ListUploadedParts_def by (intro refused_rules) auto
  show "unauthorised (cm_Auth complete) (cm_UploadSessionID complete) (w_db w) \<Longrightarrow> refused w (CompleteUploadSession env h complete w)"
    by (rule CompleteUploadSession_refused)
  show "refused w (AbortUploadSession env hasMultipart abort w)"
    if "unauthorised (ab_Auth abort) (ab_UploadSessionID abort) (w_db w)"
  proof -
    from that have "refused w (abort_read env abort w)"
      unfolding abort_read_def requireSessionID_def by (intro refused_rules) auto
    then show ?thesis
      by (auto simp: AbortUploadSession_def refused_def bindA_def split: prod.splits sum.splits)
  qed
qed

definition sampleStranger :: AuthContext where
  "sampleStranger = sampleAuth\<lparr>ac_SubjectID := ''u2''\<rparr>"

definition sampleComplete :: "AuthContext \<Rightarrow> CompleteUploadSessionCommand" where
  "sampleComplete a = \<lparr>cm_UploadSessionID = ''s1'', cm_UploadedParts = [], cm_ContentHash = None,
     cm_IdempotencyKey = ''tok'', cm_RequestID = ''r1'', cm_Auth = a\<rparr>"

definition samplePorts :: CompleteUploadSessionHandler where
  "samplePorts = \<lparr>cp_parts = True, cp_blobs = True, cp_files = True, cp_dedup = True, cp_usage = True, cp_outbox = True\<rparr>"

lemma session_row_ids: "session_at t i (session_row_of s) \<longleftrightarrow> t = s_TenantID s \<and> i = s_ID s"
  by (auto simp: session_at_def session_row_of_def)

lemma sample_load:
  "storable s \<Longrightarrow> s_TenantID s = ''t1'' \<Longrightarrow> s_ID s = ''s1'' \<Longrightarrow>
     load_session ''t1'' ''s1'' (w_db (sampleWorld [s])) = Some s"
  by (simp add: load_session_Some storable_round_trip sampleWorld_def session_row_ids)

lemma sample_ids [simp]:
  "s_TenantID sampleCompleted = ''t1''" "s_ID sampleCompleted = ''s1''"
  "s_TenantID sampleCompleting = ''t1''" "s_ID sampleCompleting = ''s1''"
  "ac_TenantID sampleAuth = ''t1''" "ac_TenantID sampleStranger = ''t1''"
  by (simp_all add: sampleCompleted_def sampleCompleting_def sampleSession_def sampleAuth_def sampleStranger_def)

lemma sample_unauthorised: "unauthorised sampleStranger ''s1'' (w_db (sampleWorld [sampleCompleted]))"
proof -
  have "EnsureSessionAccess sampleStranger sampleCompleted \<noteq> None" by code_simp
  then show ?thesis by (simp add: unauthorised_def sample_load sample_storable)
qed

theorem unauthorised_caller_changes_nothing_witness:
  "unauthorised sampleStranger ''s1'' (w_db (sampleWorld [sampleCompleted])) \<and>
   refused (sampleWorld [sampleCompleted])
     (CompleteUploadSession sampleEnv samplePorts (sampleComplete sampleStranger) (sampleWorld [sampleCompleted]))"
  using unauthorised_caller_changes_nothing [where complete = "sampleComplete sampleStranger" and w = "sampleWorld [sampleCompleted]"
      and env = sampleEnv and h = samplePorts] sample_unauthorised
  by (simp add: sampleComplete_def)

end
