(* ===== verification/CompletionLaws.thy ===== *)
theory CompletionLaws
  imports UploadHandlerLaws
begin

text \<open>
  Correctness of the completion of an upload: the transaction that commits it is described as
  the sequence of statements it runs, a completion that fails creates nothing, a completion
  that succeeds creates exactly one file with its references, usage and event, and repeated
  or concurrent requests have no effect of their own.
\<close>

subsection \<open>What does not touch files, blobs and usage\<close>

definition content_of :: "world \<Rightarrow> file_row list \<times> blob_row list \<times> usage_row list" where
  "content_of w = (file_assets (w_db w), blob_objects (w_db w), tenant_usage (w_db w))"

interpretation content: frame "\<lambda>w w'. content_of w' = content_of w"
  by unfold_locales simp_all

lemma content_db: "db_frame.keeps m \<Longrightarrow> content.keeps m"
  by (rule content.keepsI) (auto simp: content_of_def dest: db_frame.keepsD)

lemma content_runSQL:
  assumes "\<And>db x db'. stmt db = Inr (x, db') \<Longrightarrow>
    file_assets db' = file_assets db \<and> blob_objects db' = blob_objects db \<and> tenant_usage db' = tenant_usage db"
  shows "content.keeps (runSQL env stmt)"
proof (rule content.keepsI)
  fix w r w' assume "runSQL env stmt w = (r, w')"
  then show "content_of w' = content_of w"
    by (cases r) (auto simp: runSQL_Inl runSQL_Inr content_of_def dest: assms)
qed

lemmas content_rules =
  content.keeps_rules content_db [OF askA_db] content_db [OF callA_db] content_db [OF Now_db] content_db [OF NewID_db]

lemma querySession_db [frame_rules]: "db_frame.keeps (querySession env sel)"
  unfolding querySession_def
  by (intro db_frame.keeps_rules runSQL_read_db) (auto split: option.splits)

lemma GetByID_db [frame_rules]: "db_frame.keeps (GetByID env t i)"
  unfolding GetByID_def by (intro db_frame.keeps_rules querySession_db)

lemma ConfirmCompletionOwner_db [frame_rules]: "db_frame.keeps (ConfirmCompletionOwner env t i token)"
  unfolding ConfirmCompletionOwner_def by (intro db_frame.keeps_rules querySession_db)

lemma LookupByHash_db [frame_rules]: "db_frame.keeps (LookupByHash env key)"
  unfolding LookupByHash_def by (intro db_frame.keeps_rules runSQL_read_db) auto

lemma Save_content: "content.keeps (SessionRepository_Save env s)"
  unfolding SessionRepository_Save_def
  by (intro content_rules content_runSQL) (auto simp: update_session_def Let_def split: if_splits)

lemma Enqueue_content: "content.keeps (Enqueue env message)"
  unfolding Enqueue_def
  by (intro content_rules content_runSQL) (auto simp: insert_event_def split: if_splits)

lemma Replace_content: "content.keeps (SessionPartRepository_Replace env t i parts)"
  unfolding SessionPartRepository_Replace_def SessionPartRepository_Upsert_def
  by (intro content_rules content_runSQL) (auto simp: upsert_part_def Let_def split: if_splits)

lemma acquireCompletion_content: "content.keeps (acquireCompletion env request)"
  unfolding acquireCompletion_def
  by (intro content_rules content_db [OF querySession_db]) (auto intro!: content_rules Save_content)

lemma content_transaction:
  assumes "content.keeps (body InTx)"
  shows "content.keeps (WithinTransaction env NoTx body)"
proof (rule content.keepsI)
  fix w r w' assume run: "WithinTransaction env NoTx body w = (r, w')"
  show "content_of w' = content_of w"
  proof (cases r)
    case (Inl e)
    with run show ?thesis using WithinTransaction_Inl_db by (fastforce simp: content_of_def)
  next
    case (Inr x)
    with run WithinTransaction_Inr [of env body w x w'] obtain w2 where
      "body InTx (w\<lparr>w_tick := Suc (w_tick w)\<rparr>) = (Inr x, w2)" "w' = w2\<lparr>w_tick := Suc (w_tick w2)\<rparr>" by auto
    with content.keepsD [OF assms] show ?thesis by (fastforce simp: content_of_def)
  qed
qed

lemma AcquireCompletion_transaction:
  "SessionRepository_AcquireCompletion env NoTx request w = (r, w') \<Longrightarrow>
     (\<exists>e. r = Inl e \<and> w_db w' = w_db w) \<or>
     (\<exists>x w2. r = Inr x \<and> e_db_fault env (w_tick w) = None \<and>
        acquireCompletion env request (tick w) = (Inr x, w2) \<and> e_db_fault env (w_tick w2) = None \<and> w' = tick w2)"
  by (auto simp: SessionRepository_AcquireCompletion_def bindA_def mapErrA_def runSQL_def Let_def tick_def
      split: prod.splits sum.splits option.splits)

lemma AcquireCompletion_content: "content.keeps (SessionRepository_AcquireCompletion env NoTx request)"
proof (rule content.keepsI)
  fix w r w' assume "SessionRepository_AcquireCompletion env NoTx request w = (r, w')"
  from AcquireCompletion_transaction [OF this] show "content_of w' = content_of w"
    using content.keepsD [OF acquireCompletion_content] by (fastforce simp: content_of_def)
qed

lemma materialize_content: "content.keeps (materialize env h session command)"
  unfolding materialize_def materialize_parts_def materialize_metadata_def materialize_dedup_def
  by (intro content_rules Replace_content content_db [OF LookupByHash_db])

lemma finalizeFailure_content: "content.keeps (finalizeFailure env h session token requestID cause)"
  unfolding finalizeFailure_def failOwned_def Let_def
  by (intro content_rules content_transaction content_db [OF ConfirmCompletionOwner_db] Save_content Enqueue_content)

lemma commit_on_error: "content.keeps_on_error (commit env h session token m requestID)"
  by (rule content.keeps_on_errorI) (auto simp: commit_def content_of_def dest: WithinTransaction_Inl_db)

lemma materializeAndCommit_on_error:
  "content.keeps_on_error (materializeAndCommit env h owned token command)"
proof -
  have "content.keeps_on_error (case r of
       Inl err \<Rightarrow> bindA (tryA (finalizeFailure env h owned token (cm_RequestID command) err)) (\<lambda>r'.
         case r' of Inl finalizeErr \<Rightarrow> throwA (Joined [err, finalizeErr]) | Inr _ \<Rightarrow> throwA err)
     | Inr m \<Rightarrow> commit env h owned token m (cm_RequestID command))" for r
    by (cases r)
       (auto intro!: content.keeps_on_error_bindA content_rules finalizeFailure_content commit_on_error
          simp: content.keeps_on_error_pure split: sum.splits)
  then show ?thesis
    unfolding materializeAndCommit_def
    by (intro content.keeps_on_error_bindA content.keeps_tryA materialize_content)
qed

lemma requireSessionID_content: "content.keeps (requireSessionID i)"
  unfolding requireSessionID_def by (intro content_rules)

lemma completionToken_content: "content.keeps (completionToken env key)"
  unfolding completionToken_def by (intro content_rules)

lemma ensureCompleting_content: "content.keeps (ensureCompleting env token owned)"
  unfolding ensureCompleting_def Let_def
  by (intro content_rules) (auto intro!: content_rules split: prod.splits)

text \<open>
  Claim C3: a completion that fails creates nothing. Whatever the reason (authorisation, a lost
  race, a storage error, a hash mismatch, a constraint, a broken connection, a failed commit),
  when the handler returns an error, the files, the blobs with their reference counts and the
  tenants' usage are exactly what they were.
\<close>

theorem failed_completion_creates_nothing:
  assumes "CompleteUploadSession env h command w = (Inl e, w')"
  shows "file_assets (w_db w') = file_assets (w_db w) \<and> blob_objects (w_db w') = blob_objects (w_db w) \<and>
         tenant_usage (w_db w') = tenant_usage (w_db w)"
proof -
  have "content.keeps_on_error (CompleteUploadSession env h command)"
    unfolding CompleteUploadSession_def
    by (intro content.keeps_on_error_bindA content_rules requireSessionID_content content_db [OF GetByID_db]
        completionToken_content AcquireCompletion_content)
       (auto split: prod.splits CompletionOwnership.splits
          intro!: content.keeps_on_error_pure content.keeps_on_error_bindA ensureCompleting_content
            materializeAndCommit_on_error)
  from content.keeps_on_errorD [OF this assms] show ?thesis by (simp add: content_of_def)
qed

theorem failed_completion_creates_nothing_witness:
  "\<exists>e w'. CompleteUploadSession sampleEnv samplePorts (sampleComplete sampleStranger) (sampleWorld [sampleCompleted]) = (Inl e, w') \<and>
     file_assets (w_db w') = []"
proof -
  let ?run = "CompleteUploadSession sampleEnv samplePorts (sampleComplete sampleStranger) (sampleWorld [sampleCompleted])"
  have "refused (sampleWorld [sampleCompleted]) ?run"
    by (rule CompleteUploadSession_refused) (simp add: sampleComplete_def sample_unauthorised)
  then obtain e where run: "?run = (Inl e, snd ?run)" unfolding refused_def by (metis isl_def prod.collapse)
  moreover have "file_assets (w_db (sampleWorld [sampleCompleted])) = []" by (simp add: sampleWorld_def sampleDB_def)
  ultimately show ?thesis using failed_completion_creates_nothing [OF run] by auto
qed

subsection \<open>The committing transaction\<close>

definition all_ports :: "CompleteUploadSessionHandler \<Rightarrow> bool" where
  "all_ports h \<longleftrightarrow> cp_parts h \<and> cp_blobs h \<and> cp_files h \<and> cp_dedup h \<and> cp_usage h \<and> cp_outbox h"

lemma bindA_InrE:
  assumes "bindA m k w = (Inr y, w')"
  obtains x w1 where "m w = (Inr x, w1)" and "k x w1 = (Inr y, w')"
  using assms by (auto simp: bindA_Inr_iff)

lemma Now_Inr: "Now env w = (Inr t, w') \<longleftrightarrow> t = e_now env (w_tick w) \<and> w' = tick w"
  by (auto simp: Now_run)

lemma Upsert_db: "BlobRepository_Upsert env r w = (Inr u, w') \<Longrightarrow> \<exists>t. upsert_blob t r (w_db w) = Inr ((), w_db w')"
  by (auto simp: BlobRepository_Upsert_def bindA_Inr_iff Now_Inr runSQL_Inr)

lemma Adjust_db: "AdjustReferenceCount env b n w = (Inr u, w') \<Longrightarrow> \<exists>t. adjust_refs b n t (w_db w) = Inr ((), w_db w')"
  by (auto simp: AdjustReferenceCount_def bindA_Inr_iff Now_Inr runSQL_Inr)

lemma CreateFile_db: "CreateFileAsset env r w = (Inr u, w') \<Longrightarrow> \<exists>t. insert_file t r (w_db w) = Inr ((), w_db w')"
  by (auto simp: CreateFileAsset_def bindA_Inr_iff Now_Inr runSQL_Inr)

lemma ApplyDelta_db: "ApplyDelta env t n w = (Inr u, w') \<Longrightarrow> \<exists>now. apply_delta t n now (w_db w) = Inr ((), w_db w')"
  by (auto simp: ApplyDelta_def bindA_Inr_iff Now_Inr runSQL_Inr)

lemma Save_db: "SessionRepository_Save env s w = (Inr u, w') \<Longrightarrow>
    \<exists>n. n \<noteq> 0 \<and> update_session s (w_db w) = Inr (n, w_db w')"
  by (auto simp: Save_Inr)

lemma Enqueue_db: "Enqueue env message w = (Inr u, w') \<Longrightarrow>
    \<exists>ev. insert_event ev (w_db w) = Inr ((), w_db w') \<and> oe_event_type ev = ob_EventType message \<and>
      oe_aggregate_id ev = ob_AggregateID message \<and> oe_payload ev = ob_Payload message \<and> oe_status ev = OutboxPending"
  by (auto simp: Enqueue_def bindA_Inr_iff Now_Inr runSQL_Inr NewID_run)

lemma commitBlobID_Inr:
  "commitBlobID env m w = (Inr b, w') \<Longrightarrow>
     w_db w' = w_db w \<and> (\<forall>d. mu_dedupDecision m = Some d \<and> dd_Hit d \<longrightarrow> b = dd_BlobID d)"
  by (auto simp: commitBlobID_def NewID_run split: option.splits if_splits)

text \<open>
  A successful commit of a session that was not completed before is the following sequence of
  statements on the database.
\<close>

definition commit_chain ::
    "Session \<Rightarrow> materializedUpload \<Rightarrow> string \<Rightarrow> string \<Rightarrow> Session \<Rightarrow> outbox_row \<Rightarrow> database \<Rightarrow> database \<Rightarrow> bool" where
  "commit_chain owned m blobID fileID completed ev db db' \<longleftrightarrow>
     (\<exists>t1 t2 t3 t4 t5 n db1 db2 db3 db4 db5.
        upsert_blob t1 (commitBlobRecord owned m blobID) db = Inr ((), db1) \<and>
        adjust_refs blobID 1 t2 db1 = Inr ((), db2) \<and>
        insert_file t3 (commitFileRecord owned m blobID fileID) db2 = Inr ((), db3) \<and>
        apply_delta (s_TenantID owned) (effectiveSizeBytes (mu_metadata m) (s_SizeBytes owned)) t4 db3 = Inr ((), db4) \<and>
        MarkCompleted fileID t5 (committedParts m owned) = Inr completed \<and>
        n \<noteq> 0 \<and> update_session completed db4 = Inr (n, db5) \<and>
        insert_event ev db5 = Inr ((), db'))"

lemma commitOwned_chain:
  assumes "all_ports h" and run: "commitOwned env h owned m requestID w = (Inr res, w')"
  shows "\<exists>blobID completed ev. commit_chain owned m blobID (cv_FileID res) completed ev (w_db w) (w_db w') \<and>
     (\<forall>d. mu_dedupDecision m = Some d \<and> dd_Hit d \<longrightarrow> blobID = dd_BlobID d) \<and>
     cv_UploadSession res = FromSession completed [] [] \<and>
     oe_event_type ev = uploadSessionCompletedEventType \<and> oe_aggregate_id ev = s_ID completed \<and>
     oe_status ev = OutboxPending"
proof -
  from assms(1) have ports: "cp_blobs h" "cp_files h" "cp_usage h" "cp_outbox h" by (simp_all add: all_ports_def)
  from run obtain b f w1 w2 w3 w4 w5 w6 completed w8 where
    1: "commitBlobID env m w = (Inr b, w1)" and 2: "NewID env w1 = (Inr f, w2)"
    and 3: "BlobRepository_Upsert env (commitBlobRecord owned m b) w2 = (Inr (), w3)"
    and 4: "AdjustReferenceCount env b 1 w3 = (Inr (), w4)"
    and 5: "CreateFileAsset env (commitFileRecord owned m b f) w4 = (Inr (), w5)"
    and 6: "ApplyDelta env (s_TenantID owned) (effectiveSizeBytes (mu_metadata m) (s_SizeBytes owned)) w5 = (Inr (), w6)"
    and 7: "Inr completed = MarkCompleted f (e_now env (w_tick w6)) (committedParts m owned)"
    and 8: "SessionRepository_Save env completed (tick w6) = (Inr (), w8)"
    and 9: "Enqueue env \<lparr>ob_EventType = uploadSessionCompletedEventType, ob_AggregateID = s_ID completed,
           ob_Payload = uploadSessionCompletedPayload (e_now env (w_tick w8)) requestID (s_TenantID completed) (s_ID completed)
             f b (mu_canonicalHash m) (effectiveSizeBytes (mu_metadata m) (s_SizeBytes owned))\<rparr> (tick w8) = (Inr (), w')"
    and res: "res = \<lparr>cv_FileID = f, cv_UploadSession = FromSession completed [] []\<rparr>"
    using ports
    by (auto simp: commitOwned_def commitBlob_def commitFile_def Let_def Now_run elim!: bindA_InrE)
  obtain ev where ev: "insert_event ev (w_db w8) = Inr ((), w_db w')" "oe_event_type ev = uploadSessionCompletedEventType"
    "oe_aggregate_id ev = s_ID completed" "oe_status ev = OutboxPending"
    using Enqueue_db [OF 9] by auto
  have "commit_chain owned m b f completed ev (w_db w) (w_db w')"
    unfolding commit_chain_def
    using commitBlobID_Inr [OF 1] 2 Upsert_db [OF 3] Adjust_db [OF 4] CreateFile_db [OF 5] ApplyDelta_db [OF 6]
      7 [symmetric] Save_db [OF 8] ev(1)
    by (fastforce simp: NewID_run)
  with ev res commitBlobID_Inr [OF 1] show ?thesis by auto
qed

text \<open>The quantities a commit changes: the references of a blob and the bytes a tenant uses.\<close>

definition refs :: "string \<Rightarrow> database \<Rightarrow> int" where
  "refs b db = (case lookup_row bo_blob_object_id b (blob_objects db) of None \<Rightarrow> 0 | Some r \<Rightarrow> bo_reference_count r)"

definition used_bytes :: "string \<Rightarrow> database \<Rightarrow> int" where
  "used_bytes t db = (case lookup_row tu_tenant_id t (tenant_usage db) of None \<Rightarrow> 0 | Some r \<Rightarrow> tu_used_storage_bytes r)"

definition has_usage :: "string \<Rightarrow> database \<Rightarrow> bool" where
  "has_usage t db \<longleftrightarrow> lookup_row tu_tenant_id t (tenant_usage db) \<noteq> None"

lemma upsert_blob_refs:
  assumes "upsert_blob t r db = Inr (u, db')"
  shows "refs b db' = refs b db"
    and "lookup_row bo_blob_object_id (br_BlobID r) (blob_objects db') \<noteq> None"
    and "file_assets db' = file_assets db" "tenant_usage db' = tenant_usage db"
      "upload_sessions db' = upload_sessions db" "outbox_events db' = outbox_events db"
  using assms
  by (auto simp: upsert_blob_def Let_def refs_def lookup_row_append upsert.lookup_update_key blob_row_of_def
      conflict_row_def split: if_splits option.splits)

lemma adjust_refs_refs:
  assumes "adjust_refs b n t db = Inr (u, db')" and "lookup_row bo_blob_object_id b (blob_objects db) \<noteq> None"
  shows "refs b' db' = refs b' db + (if b' = b then n else 0)"
    and "file_assets db' = file_assets db" "tenant_usage db' = tenant_usage db"
      "upload_sessions db' = upload_sessions db" "outbox_events db' = outbox_events db"
  using assms
  by (auto simp: adjust_refs_def Let_def refs_def adjust.lookup_update_key adjust_row_def split: if_splits option.splits)

lemma insert_file_rows:
  assumes "insert_file t r db = Inr (u, db')"
  shows "file_assets db' = file_assets db @ [file_row_of t r]" "blob_objects db' = blob_objects db"
    "tenant_usage db' = tenant_usage db" "upload_sessions db' = upload_sessions db" "outbox_events db' = outbox_events db"
  using assms by (auto simp: insert_file_def Let_def split: if_splits)

lemma apply_delta_rows:
  assumes "apply_delta t n now db = Inr (u, db')"
  shows "used_bytes t' db' = used_bytes t' db + (if t' = t \<and> has_usage t db then n else 0)"
    and "file_assets db' = file_assets db" "blob_objects db' = blob_objects db"
      "upload_sessions db' = upload_sessions db" "outbox_events db' = outbox_events db"
  using assms
  by (auto simp: apply_delta_def Let_def used_bytes_def has_usage_def delta.lookup_update_key usage_delta_row_def
      split: if_splits option.splits)

lemma update_session_rows:
  assumes "update_session s db = Inr (n, db')"
  shows "upload_sessions db' = update_where (session_at (s_TenantID s) (s_ID s)) (save_row s) (upload_sessions db)"
    "file_assets db' = file_assets db" "blob_objects db' = blob_objects db" "tenant_usage db' = tenant_usage db"
    "outbox_events db' = outbox_events db"
  using assms by (auto simp: update_session_def Let_def split: if_splits)

lemma insert_event_rows:
  assumes "insert_event ev db = Inr (u, db')"
  shows "outbox_events db' = outbox_events db @ [ev]" "file_assets db' = file_assets db"
    "blob_objects db' = blob_objects db" "tenant_usage db' = tenant_usage db" "upload_sessions db' = upload_sessions db"
  using assms by (auto simp: insert_event_def split: if_splits)

lemma refs_cong: "blob_objects db' = blob_objects db \<Longrightarrow> refs b db' = refs b db"
  by (simp add: refs_def)

lemma used_cong: "tenant_usage db' = tenant_usage db \<Longrightarrow> used_bytes t db' = used_bytes t db \<and> has_usage t db' = has_usage t db"
  by (simp add: used_bytes_def has_usage_def)

lemma commit_chain_effects:
  assumes "commit_chain owned m blobID fileID completed ev db db'"
  shows "\<exists>t. file_assets db' = file_assets db @ [file_row_of t (commitFileRecord owned m blobID fileID)]"
    and "refs b db' = refs b db + (if b = blobID then 1 else 0)"
    and "used_bytes t db' = used_bytes t db +
      (if t = s_TenantID owned \<and> has_usage t db then effectiveSizeBytes (mu_metadata m) (s_SizeBytes owned) else 0)"
    and "upload_sessions db' = update_where (session_at (s_TenantID completed) (s_ID completed)) (save_row completed) (upload_sessions db)"
    and "outbox_events db' = outbox_events db @ [ev]"
    and "\<exists>t. MarkCompleted fileID t (committedParts m owned) = Inr completed"
proof -
  from assms obtain t1 t2 t3 t4 t5 n db1 db2 db3 db4 db5 where
    1: "upsert_blob t1 (commitBlobRecord owned m blobID) db = Inr ((), db1)"
    and 2: "adjust_refs blobID 1 t2 db1 = Inr ((), db2)"
    and 3: "insert_file t3 (commitFileRecord owned m blobID fileID) db2 = Inr ((), db3)"
    and 4: "apply_delta (s_TenantID owned) (effectiveSizeBytes (mu_metadata m) (s_SizeBytes owned)) t4 db3 = Inr ((), db4)"
    and 5: "MarkCompleted fileID t5 (committedParts m owned) = Inr completed"
    and 6: "update_session completed db4 = Inr (n, db5)" and 7: "insert_event ev db5 = Inr ((), db')"
    unfolding commit_chain_def by blast
  have "br_BlobID (commitBlobRecord owned m blobID) = blobID" by (simp add: commitBlobRecord_def)
  note u = upsert_blob_refs [OF 1, unfolded this]
  note a = adjust_refs_refs [OF 2 u(2)] and f = insert_file_rows [OF 3] and d = apply_delta_rows [OF 4]
    and s = update_session_rows [OF 6] and e = insert_event_rows [OF 7]
  have "file_assets db' = file_assets db @ [file_row_of t3 (commitFileRecord owned m blobID fileID)]"
    by (simp add: u a f d s e)
  then show "\<exists>t. file_assets db' = file_assets db @ [file_row_of t (commitFileRecord owned m blobID fileID)]" by blast
  have "blob_objects db' = blob_objects db2" by (simp add: f d s e)
  then show "refs b db' = refs b db + (if b = blobID then 1 else 0)"
    using a(1) [of b] u(1) [of b] refs_cong [of db' db2 b] by simp
  have "tenant_usage db' = tenant_usage db4" "tenant_usage db3 = tenant_usage db" by (simp_all add: u a f s e)
  then show "used_bytes t db' = used_bytes t db +
      (if t = s_TenantID owned \<and> has_usage t db then effectiveSizeBytes (mu_metadata m) (s_SizeBytes owned) else 0)"
    using d(1) [of t] used_cong [of db' db4] used_cong [of db3 db] by auto
  show "upload_sessions db' = update_where (session_at (s_TenantID completed) (s_ID completed)) (save_row completed) (upload_sessions db)"
    by (simp add: u a f d s e)
  show "outbox_events db' = outbox_events db @ [ev]" by (simp add: u a f d s e)
  show "\<exists>t. MarkCompleted fileID t (committedParts m owned) = Inr completed" using 5 by blast
qed

lemma ConfirmCompletionOwner_Inr:
  "ConfirmCompletionOwner env t i token w = (Inr s, w') \<longleftrightarrow>
     e_db_fault env (w_tick w) = None \<and> w' = tick w \<and>
     (\<exists>r. find (\<lambda>r. session_at t i r \<and> us_completion_token r = Some token) (upload_sessions (w_db w)) = Some r \<and>
        NewSession (params_of_row r) = Inr s)"
  by (auto simp: ConfirmCompletionOwner_def querySession_Inr)

lemma NewSession_ids:
  "NewSession p = Inr s \<Longrightarrow> s_ID s = TrimSpace (s_ID p) \<and> s_TenantID s = TrimSpace (s_TenantID p) \<and>
     s_OwnerID s = TrimSpace (s_OwnerID p) \<and> s_CompletionToken s = TrimSpace (s_CompletionToken p)"
  by (auto simp: NewSession_def Let_def Session_Validate_iff session_of_params_def split: if_splits)

lemma canonical_ids: "canonical s \<Longrightarrow> TrimSpace (s_ID s) = s_ID s \<and> TrimSpace (s_TenantID s) = s_TenantID s"
  by (simp add: canonical_def session_of_params_fixed)

definition owner_row :: "Session \<Rightarrow> string \<Rightarrow> database \<Rightarrow> Session \<Rightarrow> bool" where
  "owner_row session token db owned \<longleftrightarrow>
     (\<exists>r. r \<in> set (upload_sessions db) \<and> session_at (s_TenantID session) (s_ID session) r \<and>
        us_completion_token r = Some token \<and> NewSession (params_of_row r) = Inr owned)"

lemma owner_row_facts:
  assumes "owner_row session token db owned" and "canonical session"
  shows "canonical owned" "s_TenantID owned = s_TenantID session" "s_ID owned = s_ID session"
proof -
  from assms(1) obtain r where "session_at (s_TenantID session) (s_ID session) r" "NewSession (params_of_row r) = Inr owned"
    by (auto simp: owner_row_def)
  with canonical_ids [OF assms(2)] show "canonical owned" "s_TenantID owned = s_TenantID session" "s_ID owned = s_ID session"
    by (auto simp: session_at_def params_of_row_def dest: NewSession_canonical NewSession_ids)
qed

lemma committedParts_same [simp]:
  "s_Status (committedParts m s) = s_Status s" "s_ID (committedParts m s) = s_ID s"
  "s_TenantID (committedParts m s) = s_TenantID s"
  by (simp_all add: committedParts_def Let_def)

lemma commit_cases:
  assumes "all_ports h" and run: "commit env h session token m requestID w = (Inr res, w')"
  obtains owned where "owner_row session token (w_db w) owned"
    and "s_Status owned = SessionStatusCompleted" "w_db w' = w_db w" "cv_FileID res = s_FileID owned"
  | owned blobID completed ev where "owner_row session token (w_db w) owned"
    and "s_Status owned = SessionStatusCompleting"
    and "commit_chain owned m blobID (cv_FileID res) completed ev (w_db w) (w_db w')"
    and "s_Status completed = SessionStatusCompleted" "s_FileID completed = TrimSpace (cv_FileID res)"
    and "s_ID completed = s_ID owned" "s_TenantID completed = s_TenantID owned"
    and "oe_event_type ev = uploadSessionCompletedEventType" "oe_aggregate_id ev = s_ID owned" "oe_status ev = OutboxPending"
    and "\<And>d. mu_dedupDecision m = Some d \<Longrightarrow> dd_Hit d \<Longrightarrow> blobID = dd_BlobID d"
proof -
  from WithinTransaction_Inr [OF run [unfolded commit_def]] obtain w2 where
    body: "commitBody env h (s_TenantID session) (s_ID session) token m requestID (tick w) = (Inr res, w2)"
    and w': "w_db w' = w_db w2" by (auto simp: tick_def)
  from body obtain owned w1 where conf: "ConfirmCompletionOwner env (s_TenantID session) (s_ID session) token (tick w) = (Inr owned, w1)"
    and rest: "(if s_Status owned = SessionStatusCompleted
      then returnA \<lparr>cv_FileID = s_FileID owned, cv_UploadSession = FromSession owned [] []\<rparr>
      else commitOwned env h owned m requestID) w1 = (Inr res, w2)"
    unfolding commitBody_def by (elim bindA_InrE)
  from conf have row: "owner_row session token (w_db w) owned" and w1: "w_db w1 = w_db w"
    by (auto simp: ConfirmCompletionOwner_Inr owner_row_def dest: find_Some_filter)
  show ?thesis
  proof (cases "s_Status owned = SessionStatusCompleted")
    case True
    with rest w1 w' row that(1) [of owned] show ?thesis by simp
  next
    case False
    with rest have "commitOwned env h owned m requestID w1 = (Inr res, w2)" by simp
    from commitOwned_chain [OF assms(1) this] w1 w' obtain b completed ev where
      chain: "commit_chain owned m b (cv_FileID res) completed ev (w_db w) (w_db w')"
      and ev: "oe_event_type ev = uploadSessionCompletedEventType" "oe_aggregate_id ev = s_ID completed" "oe_status ev = OutboxPending"
      and hit: "\<forall>d. mu_dedupDecision m = Some d \<and> dd_Hit d \<longrightarrow> b = dd_BlobID d" by auto
    from commit_chain_effects(6) [OF chain] obtain t where
      "MarkCompleted (cv_FileID res) t (committedParts m owned) = Inr completed" by blast
    from MarkCompleted_Inr [OF this] False have "s_Status owned = SessionStatusCompleting"
      "s_Status completed = SessionStatusCompleted" "s_FileID completed = TrimSpace (cv_FileID res)"
      "s_ID completed = s_ID owned" "s_TenantID completed = s_TenantID owned" by auto
    with that(2) [OF row _ chain] ev hit show ?thesis by auto
  qed
qed

text \<open>
  Claim C2: a completion that commits creates exactly one file. Either the session had been
  completed before and the answer repeats its file id without touching the database; or the
  commit appends one ACTIVE file of the session's tenant under the returned id, adds one
  reference to the file's blob and none to any other, charges the tenant exactly the file's
  size and nobody else, marks the session completed with that file id and appends exactly one
  completion event for it.
\<close>

theorem commit_creates_exactly_one_file:
  assumes "all_ports h" and "canonical session" and "commit env h session token m requestID w = (Inr res, w')"
  shows "w_db w' = w_db w \<or>
    (\<exists>f ev. file_assets (w_db w') = file_assets (w_db w) @ [f] \<and>
       fa_file_id f = cv_FileID res \<and> fa_status f = FileStatusActive \<and> fa_tenant_id f = s_TenantID session \<and>
       (\<forall>b. refs b (w_db w') = refs b (w_db w) + (if b = fa_blob_object_id f then 1 else 0)) \<and>
       (\<forall>t. used_bytes t (w_db w') = used_bytes t (w_db w) +
          (if t = s_TenantID session \<and> has_usage t (w_db w) then fa_file_size f else 0)) \<and>
       (\<forall>r. r \<in> set (upload_sessions (w_db w')) \<and> session_at (s_TenantID session) (s_ID session) r \<longrightarrow>
          us_status r = SessionStatusCompleted \<and> us_file_id r = nullString (TrimSpace (cv_FileID res))) \<and>
       outbox_events (w_db w') = outbox_events (w_db w) @ [ev] \<and>
       oe_event_type ev = uploadSessionCompletedEventType \<and> oe_aggregate_id ev = s_ID session)"
proof (rule commit_cases [OF assms(1,3)])
  fix owned blobID completed ev
  assume row: "owner_row session token (w_db w) owned"
    and chain: "commit_chain owned m blobID (cv_FileID res) completed ev (w_db w) (w_db w')"
    and fin: "s_Status completed = SessionStatusCompleted" "s_FileID completed = TrimSpace (cv_FileID res)"
    and ids: "s_ID completed = s_ID owned" "s_TenantID completed = s_TenantID owned"
    and ev: "oe_event_type ev = uploadSessionCompletedEventType" "oe_aggregate_id ev = s_ID owned"
  note owned = owner_row_facts [OF row assms(2)] and eff = commit_chain_effects [OF chain]
  from eff(1) obtain t where files: "file_assets (w_db w') =
    file_assets (w_db w) @ [file_row_of t (commitFileRecord owned m blobID (cv_FileID res))]" by blast
  have "us_status r = SessionStatusCompleted \<and> us_file_id r = nullString (TrimSpace (cv_FileID res))"
    if "r \<in> set (upload_sessions (w_db w'))" "session_at (s_TenantID session) (s_ID session) r" for r
    using that eff(4) owned ids fin by (auto simp: update_where_def save_row_def session_row_of_def)
  then show ?thesis
    using files eff(2,3,5) owned ev
    by (intro disjI2 exI [of _ "file_row_of t (commitFileRecord owned m blobID (cv_FileID res))"] exI [of _ ev])
       (auto simp: file_row_of_def commitFileRecord_def)
qed blast

definition sampleUpload :: materializedUpload where
  "sampleUpload = \<lparr>mu_metadata = \<lparr>om_SizeBytes = 5, om_ContentType = ''text/plain'', om_ETag = ''e'', om_Checksum = [], om_VersionID = []\<rparr>,
     mu_providerParts = [], mu_canonicalHash = None, mu_dedupDecision = None\<rparr>"

lemma sample_commit:
  "\<exists>res w'. commit sampleEnv samplePorts sampleCompleting ''tok'' sampleUpload ''r1'' (sampleWorld [sampleCompleting]) = (Inr res, w') \<and>
     length (file_assets (w_db w')) = 1"
proof -
  let ?w = "sampleWorld [sampleCompleting]"
  let ?run = "commitOwned sampleEnv samplePorts sampleCompleting sampleUpload ''r1'' ((sampleWorld [sampleCompleting])\<lparr>w_tick := 2\<rparr>)"
  have "\<not> isl (fst ?run) \<and> length (file_assets (w_db (snd ?run))) = 1" by code_simp
  then obtain res where own: "commitOwned sampleEnv samplePorts sampleCompleting sampleUpload ''r1'' (tick (tick ?w)) = (Inr res, snd ?run)"
    and len: "length (file_assets (w_db (snd ?run))) = 1"
    using not_isl_Inr [of "fst ?run"] by (auto simp: tick_def sampleWorld_def numeral_2_eq_2) (metis prod.collapse)
  have conf: "ConfirmCompletionOwner sampleEnv ''t1'' ''s1'' ''tok'' (tick ?w) = (Inr sampleCompleting, tick (tick ?w))"
    using storable_round_trip [OF sample_storable(2)]
    by (simp add: ConfirmCompletionOwner_Inr sampleWorld_def session_row_ids)
       (simp add: session_row_of_def sampleCompleting_def nullString_def)
  have "s_Status sampleCompleting \<noteq> SessionStatusCompleted" by (simp add: sampleCompleting_def)
  then have "commitBody sampleEnv samplePorts ''t1'' ''s1'' ''tok'' sampleUpload ''r1'' (tick ?w) = (Inr res, snd ?run)"
    using conf own by (simp add: commitBody_def bindA_run)
  then have "commit sampleEnv samplePorts sampleCompleting ''tok'' sampleUpload ''r1'' ?w = (Inr res, tick (snd ?run))"
    by (simp add: commit_def WithinTransaction_def bindA_def mapErrA_def runSQL_noop)
  with len show ?thesis by auto
qed

theorem commit_creates_exactly_one_file_witness:
  "\<exists>res w' f. commit sampleEnv samplePorts sampleCompleting ''tok'' sampleUpload ''r1'' (sampleWorld [sampleCompleting]) = (Inr res, w') \<and>
     file_assets (w_db w') = [f] \<and> fa_file_id f = cv_FileID res"
proof -
  obtain res w' where run: "commit sampleEnv samplePorts sampleCompleting ''tok'' sampleUpload ''r1'' (sampleWorld [sampleCompleting]) = (Inr res, w')"
    and len: "length (file_assets (w_db w')) = 1" using sample_commit by blast
  have empty: "file_assets (w_db (sampleWorld [sampleCompleting])) = []" by (simp add: sampleWorld_def sampleDB_def)
  have "all_ports samplePorts" by (simp add: all_ports_def samplePorts_def)
  from commit_creates_exactly_one_file [OF this sample_sessions_canonical(2) run] len empty
  obtain f where "file_assets (w_db w') = [f]" "fa_file_id f = cv_FileID res" by (metis append_Nil list.size(3) zero_neq_one)
  with run show ?thesis by auto
qed

subsection \<open>Exact reference counts\<close>

text \<open>The number of ACTIVE files of a blob, and the invariant that every blob counts exactly them.\<close>

definition active_refs :: "string \<Rightarrow> database \<Rightarrow> int" where
  "active_refs b db =
     int (length (filter (\<lambda>f. fa_blob_object_id f = b \<and> fa_status f = FileStatusActive) (file_assets db)))"

definition references_exact :: "database \<Rightarrow> bool" where
  "references_exact db \<longleftrightarrow> distinct (map bo_blob_object_id (blob_objects db)) \<and> (\<forall>b. refs b db = active_refs b db)"

lemma refs_row:
  "distinct (map bo_blob_object_id (blob_objects db)) \<Longrightarrow> b \<in> set (blob_objects db) \<Longrightarrow>
     refs (bo_blob_object_id b) db = bo_reference_count b"
  by (simp add: refs_def lookup_row_unique)

lemma unreferenced_has_no_active_file:
  assumes "references_exact db" and "b \<in> set (blob_objects db)" and "bo_reference_count b = 0"
    and "f \<in> set (file_assets db)" and "fa_blob_object_id f = bo_blob_object_id b"
  shows "fa_status f \<noteq> FileStatusActive"
proof
  assume "fa_status f = FileStatusActive"
  with assms(4,5) have "0 < active_refs (bo_blob_object_id b) db" by (auto simp: active_refs_def filter_empty_conv)
  with assms refs_row [of db b] show False by (simp add: references_exact_def)
qed

lemma upsert_blob_keys:
  "upsert_blob t r db = Inr (u, db') \<Longrightarrow> distinct (map bo_blob_object_id (blob_objects db)) \<Longrightarrow>
     distinct (map bo_blob_object_id (blob_objects db'))"
  by (auto simp: upsert_blob_def Let_def upsert.keys_update lookup_row_None blob_row_of_def
      split: if_splits option.splits)

lemma adjust_refs_keys:
  "adjust_refs b n t db = Inr (u, db') \<Longrightarrow>
     map bo_blob_object_id (blob_objects db') = map bo_blob_object_id (blob_objects db)"
  by (auto simp: adjust_refs_def Let_def adjust.keys_update split: if_splits)

lemma commit_chain_keys:
  assumes "commit_chain owned m blobID fileID completed ev db db'" and "distinct (map bo_blob_object_id (blob_objects db))"
  shows "distinct (map bo_blob_object_id (blob_objects db'))"
proof -
  from assms(1) obtain t1 t2 t3 t4 n db1 db2 db3 db4 db5 where
    "upsert_blob t1 (commitBlobRecord owned m blobID) db = Inr ((), db1)" "adjust_refs blobID 1 t2 db1 = Inr ((), db2)"
    "insert_file t3 (commitFileRecord owned m blobID fileID) db2 = Inr ((), db3)"
    "apply_delta (s_TenantID owned) (effectiveSizeBytes (mu_metadata m) (s_SizeBytes owned)) t4 db3 = Inr ((), db4)"
    "update_session completed db4 = Inr (n, db5)" "insert_event ev db5 = Inr ((), db')"
    unfolding commit_chain_def by blast
  then show ?thesis
    using upsert_blob_keys [OF _ assms(2)]
    by (simp add: adjust_refs_keys insert_file_rows apply_delta_rows update_session_rows insert_event_rows)
qed

lemma commit_references_exact:
  assumes "all_ports h" and "commit env h session token m requestID w = (r, w')" and "references_exact (w_db w)"
  shows "references_exact (w_db w')"
proof (cases r)
  case (Inl e)
  with assms show ?thesis by (auto simp: commit_def dest: WithinTransaction_Inl_db)
next
  case (Inr res)
  show ?thesis
  proof (rule commit_cases [OF assms(1) assms(2) [unfolded Inr]])
    fix owned blobID completed ev
    assume chain: "commit_chain owned m blobID (cv_FileID res) completed ev (w_db w) (w_db w')"
    obtain t where "file_assets (w_db w') = file_assets (w_db w) @ [file_row_of t (commitFileRecord owned m blobID (cv_FileID res))]"
      using commit_chain_effects(1) [OF chain] by blast
    then have "active_refs b (w_db w') = active_refs b (w_db w) + (if b = blobID then 1 else 0)" for b
      by (simp add: active_refs_def file_row_of_def commitFileRecord_def)
    with commit_chain_effects(2) [OF chain] commit_chain_keys [OF chain] assms(3) show ?thesis
      by (simp add: references_exact_def)
  qed (use assms(3) in simp)
qed

lemma content_references: "content_of w' = content_of w \<Longrightarrow> references_exact (w_db w') = references_exact (w_db w)"
  by (simp add: content_of_def references_exact_def refs_def active_refs_def)

subsection \<open>Repeated and concurrent requests\<close>

text \<open>A run in which the connection, the clock and the id generator work.\<close>

definition runtime_ok :: "env \<Rightarrow> bool" where
  "runtime_ok env \<longleftrightarrow> (\<forall>n. e_db_fault env n = None) \<and> (\<forall>n. 0 < e_now env n) \<and>
     (\<forall>n. \<exists>x. e_new_id env n = Inr x \<and> TrimSpace x \<noteq> [])"

lemma querySession_run:
  assumes "e_db_fault env (w_tick w) = None" and "load_session t i (w_db w) = Some s"
  shows "querySession env (find (session_at t i)) w = (Inr s, tick w)"
  using assms by (simp add: querySession_Inr load_session_Some)

lemma AcquireCompletion_run:
  assumes "runtime_ok env" and "load_session (ca_TenantID request) (ca_UploadSessionID request) (w_db w) = Some s"
    and "Session_AcquireCompletion (ca_CompletionToken request) (ca_StartedAt request) s = Inr (ow, s')"
    and "ow \<noteq> CompletionOwnershipAcquired"
  shows "SessionRepository_AcquireCompletion env NoTx request w = (Inr (s', ow), tick (tick (tick w)))"
proof -
  from assms(1) have fault: "e_db_fault env n = None" for n by (simp add: runtime_ok_def)
  note beginTx = runSQL_noop [OF fault]
  have "querySession env (find (session_at (ca_TenantID request) (ca_UploadSessionID request))) (tick w) = (Inr s, tick (tick w))"
    using assms(2) fault by (intro querySession_run) simp_all
  then have "acquireCompletion env request (tick w) = (Inr (s', ow), tick (tick w))"
    using assms(3,4) by (simp add: acquireCompletion_def bindA_def mapErrA_def liftA_def returnA_def)
  then show ?thesis
    by (simp add: SessionRepository_AcquireCompletion_def bindA_def mapErrA_def beginTx)
qed

lemma CompleteUploadSession_run:
  assumes "runtime_ok env" and "RequireFileWrite (cm_Auth command) = None" and "TrimSpace (cm_UploadSessionID command) \<noteq> []"
    and "load_session (ac_TenantID (cm_Auth command)) (cm_UploadSessionID command) (w_db w) = Some s"
    and "EnsureSessionAccess (cm_Auth command) s = None" and "TrimSpace (cm_IdempotencyKey command) \<noteq> []"
    and "\<And>t. 0 < t \<Longrightarrow> Session_AcquireCompletion (TrimSpace (cm_IdempotencyKey command)) t s = Inr (ow, s)"
    and "\<not> OwnsCompletion ow"
  shows "\<exists>w'. CompleteUploadSession env h command w = ((case ow of
       CompletionOwnershipAlreadyDone \<Rightarrow> Inr \<lparr>cv_FileID = s_FileID s, cv_UploadSession = FromSession s [] []\<rparr>
     | _ \<Rightarrow> Inl (New CodeUploadCompleteInProgress ''upload completion is already in progress''
           [(''resourceType'', DStr ''uploadSession''), (''resourceId'', DStr (s_ID s))])), w') \<and>
     w_db w' = w_db w \<and> w_calls w' = w_calls w"
proof -
  let ?token = "TrimSpace (cm_IdempotencyKey command)"
  let ?w1 = "tick w"
  let ?req = "\<lparr>ca_TenantID = ac_TenantID (cm_Auth command), ca_UploadSessionID = cm_UploadSessionID command,
        ca_CompletionToken = ?token, ca_StartedAt = e_now env (Suc (w_tick w))\<rparr>"
  have get: "GetByID env (ac_TenantID (cm_Auth command)) (cm_UploadSessionID command) w = (Inr s, ?w1)"
    using assms(1,4) by (simp add: GetByID_Inr runtime_ok_def)
  have acq: "SessionRepository_AcquireCompletion env NoTx ?req (tick ?w1) = (Inr (s, ow), tick (tick (tick (tick ?w1))))"
    using assms by (intro AcquireCompletion_run) (auto simp: runtime_ok_def OwnsCompletion_def)
  show ?thesis
    using assms(2,3,5,6,8)
    by (cases ow) (simp_all add: CompleteUploadSession_def requireSessionID_def completionToken_def get acq
        Now_run OwnsCompletion_def bindA_def liftA_def returnA_def throwA_def)
qed


lemma sample_runtime_ok: "runtime_ok sampleEnv"
proof -
  have "graphic (last (''id'' @ replicate n (CHR ''x'')))" for n by (cases n) (simp_all add: graphic_def)
  then have id: "TrimSpace (''id'' @ replicate n (CHR ''x'')) = ''id'' @ replicate n (CHR ''x'')" for n
    by (intro TrimSpace_graphic) (simp_all add: graphic_def)
  show ?thesis by (auto simp: runtime_ok_def) (simp_all add: sampleEnv_def id [simplified])
qed


end
