(* ===== verification/OutboxLaws.thy ===== *)
theory OutboxLaws
  imports JobOutbox CompletionLaws
begin

text \<open>
  Correctness of the outbox consumer: the back-off of retries, the leases that keep two
  consumers from working on the same event, the settlement of every claimed event, and the
  agreement of the payloads that the upload service produces with what the handlers demand.
\<close>

subsection \<open>Back-off\<close>

lemma wrap64_id: "- (2 ^ 63) \<le> x \<Longrightarrow> x < 2 ^ 63 \<Longrightarrow> wrap64 x = x"
  by (simp add: wrap64_def)

lemma retry_loop_correct:
  assumes "0 < d" and "0 < m" and "m < 2 ^ 63"
  shows "retry_loop m n d =
     (if \<exists>i < n. m div 2 \<le> d * 2 ^ i then Inl m else Inr (d * 2 ^ n))"
  using assms(1)
proof (induction n arbitrary: d)
  case (Suc n)
  show ?case
  proof (cases "m div 2 \<le> d")
    case True
    then have "\<exists>i < Suc n. m div 2 \<le> d * 2 ^ i" by (intro exI [of _ 0]) simp
    with True assms(2) show ?thesis by (simp add: half64_def)
  next
    case False
    with assms(3) have "d * 2 < 2 ^ 63" by simp
    with Suc.prems have wrap: "wrap64 (d * 2) = d * 2" by (intro wrap64_id) simp_all
    have "(\<exists>i < Suc n. m div 2 \<le> d * 2 ^ i) \<longleftrightarrow> (\<exists>i < n. m div 2 \<le> d * 2 * 2 ^ i)"
      using False by (auto simp: less_Suc_eq_0_disj algebra_simps)
    with False Suc.IH [of "d * 2"] Suc.prems assms(2) wrap show ?thesis
      by (simp add: half64_def algebra_simps)
  qed
qed simp

lemma retryDelay_value:
  assumes "0 < co_retryBackoff c" and "0 < co_maxRetryBackoff c" and "co_maxRetryBackoff c < 2 ^ 63"
  shows "retryDelay c k =
     (if \<exists>i < nat k. co_maxRetryBackoff c div 2 \<le> co_retryBackoff c * 2 ^ i then co_maxRetryBackoff c
      else min (co_maxRetryBackoff c) (co_retryBackoff c * 2 ^ nat k))"
  by (simp add: retryDelay_def retry_loop_correct [OF assms] min_def)

text \<open>
  The retry delay is an exponential back-off with a cap. It is at least the initial
  delay doubled once per earlier failure (or the cap), never more than the cap, it never
  shrinks as failures accumulate, and the doubling never overflows the 64-bit duration.
\<close>

theorem retryDelay_is_capped_exponential:
  assumes "0 < co_retryBackoff c" and "0 < co_maxRetryBackoff c" and "co_maxRetryBackoff c < 2 ^ 63" and "j \<le> k"
  shows "min (co_maxRetryBackoff c) (co_retryBackoff c * 2 ^ nat k) \<le> retryDelay c k \<and>
    retryDelay c k \<le> co_maxRetryBackoff c \<and> 0 < retryDelay c k \<and> retryDelay c j \<le> retryDelay c k"
proof -
  note val = retryDelay_value [OF assms(1-3)]
  have pow: "co_retryBackoff c * 2 ^ nat j \<le> co_retryBackoff c * 2 ^ nat k"
    using assms(1,4) by (intro mult_left_mono power_increasing) (simp_all add: nat_mono)
  have "retryDelay c j \<le> retryDelay c k"
  proof (cases "\<exists>i < nat j. co_maxRetryBackoff c div 2 \<le> co_retryBackoff c * 2 ^ i")
    case True
    with assms(4) have "\<exists>i < nat k. co_maxRetryBackoff c div 2 \<le> co_retryBackoff c * 2 ^ i"
      by (meson nat_mono order_less_le_trans)
    then show ?thesis by (simp add: val)
  next
    case False
    then show ?thesis using pow by (auto simp: val [of j] val [of k])
  qed
  with assms(1,2) show ?thesis by (auto simp: val [of k])
qed

theorem retryDelay_is_capped_exponential_witness:
  "retryDelay (newOutboxConsumer 10) 3 = 8 * minute \<and> retryDelay (newOutboxConsumer 10) 3 \<le> co_maxRetryBackoff (newOutboxConsumer 10) \<and>
   retryDelay (newOutboxConsumer 10) 3 \<le> retryDelay (newOutboxConsumer 10) 50"
proof -
  have "co_retryBackoff (newOutboxConsumer 10) = minute" "co_maxRetryBackoff (newOutboxConsumer 10) = hour"
    by (simp_all add: newOutboxConsumer_def NewConsumer_def)
  with retryDelay_is_capped_exponential [of "newOutboxConsumer 10" 3 50] retryDelay_is_capped_exponential [of "newOutboxConsumer 10" 3 3]
  show ?thesis
    by (simp add: duration_defs retryDelay_def eval_nat_numeral half64_def wrap64_def)
qed

subsection \<open>Leases\<close>

interpretation lease: row_update oe_event_id "lease_row t now" for t now
  by unfold_locales (simp add: lease_row_def)

lemma claim_pending_rows:
  assumes "claim_pending locked q now db = Inr (evs, db')" and "distinct (map oe_event_id (outbox_events db))"
  shows "outbox_events db' = update_where (\<lambda>r. oe_event_id r \<in> ev_EventID ` set evs)
           (lease_row (cq_DueBefore q + outboxClaimLease) now) (outbox_events db)"
    and "\<forall>r \<in> set (outbox_events db). oe_event_id r \<in> ev_EventID ` set evs \<longrightarrow>
           claimable q r \<and> \<not> locked (oe_event_id r) \<and>
           event_of_row (lease_row (cq_DueBefore q + outboxClaimLease) now r) \<in> set evs"
    and "distinct (map ev_EventID evs)" and "int (length evs) \<le> normalizeLimit (cq_Limit q)"
    and "ev_EventID ` set evs \<subseteq> oe_event_id ` set (outbox_events db)"
proof -
  let ?rows = "outbox_events db"
  let ?cand = "order_by_limit oe_created_at (normalizeLimit (cq_Limit q)) (filter (\<lambda>r. claimable q r \<and> \<not> locked (oe_event_id r)) ?rows)"
  let ?p = "\<lambda>r. oe_event_id r \<in> set (map oe_event_id ?cand)"
  let ?f = "lease_row (cq_DueBefore q + outboxClaimLease) now"
  have evs: "evs = map event_of_row (sort_key oe_event_id (map ?f (filter ?p ?rows)))"
    and db': "outbox_events db' = update_where ?p ?f ?rows"
    using assms(1) by (auto simp: claim_pending_def Let_def)
  have sub: "set ?cand \<subseteq> {r \<in> set ?rows. claimable q r \<and> \<not> locked (oe_event_id r)}" using set_order_by_limit by fastforce
  have id [simp]: "ev_EventID (event_of_row (?f r)) = oe_event_id r" for r by (simp add: event_of_row_def lease_row_def)
  have ids: "ev_EventID ` set evs = oe_event_id ` set ?cand"
    using sub by (auto simp: evs image_image)
  then show "outbox_events db' = update_where (\<lambda>r. oe_event_id r \<in> ev_EventID ` set evs) ?f ?rows" by (simp add: db')
  show "ev_EventID ` set evs \<subseteq> oe_event_id ` set ?rows" using ids sub by auto
  show "\<forall>r \<in> set ?rows. oe_event_id r \<in> ev_EventID ` set evs \<longrightarrow>
      claimable q r \<and> \<not> locked (oe_event_id r) \<and> event_of_row (?f r) \<in> set evs"
  proof (intro ballI impI)
    fix r assume r: "r \<in> set ?rows" "oe_event_id r \<in> ev_EventID ` set evs"
    with ids obtain c where "c \<in> set ?cand" "oe_event_id r = oe_event_id c" by auto
    with sub r distinct_map_unique [OF assms(2)] have "r \<in> set ?cand" by blast
    with sub r(1) show "claimable q r \<and> \<not> locked (oe_event_id r) \<and> event_of_row (?f r) \<in> set evs"
      by (auto simp: evs)
  qed
  have "map oe_event_id (map ?f (filter ?p ?rows)) = map oe_event_id (filter ?p ?rows)" by (simp add: lease_row_def)
  moreover have "map ev_EventID evs = map oe_event_id (sort_key oe_event_id (map ?f (filter ?p ?rows)))"
    by (simp add: evs event_of_row_def)
  then have "mset (map ev_EventID evs) = mset (map oe_event_id (map ?f (filter ?p ?rows)))"
    by (simp only: mset_map mset_sort)
  moreover have "distinct (map oe_event_id (filter ?p ?rows))" using assms(2) by (simp add: distinct_map_filter)
  ultimately show dist: "distinct (map ev_EventID evs)"
    using mset_eq_imp_distinct_iff [of "map ev_EventID evs"] by (simp only:)
  have "distinct ?cand" using assms(2) by (intro distinct_order_by_limit) (simp add: distinct_map)
  then have "length evs = card (oe_event_id ` set ?cand)" using dist ids by (metis distinct_card length_map list.set_map)
  also have "\<dots> \<le> length ?cand" by (meson card_image_le card_length finite_set order_trans)
  finally show "int (length evs) \<le> normalizeLimit (cq_Limit q)"
    using length_order_by_limit [of "normalizeLimit (cq_Limit q)" oe_created_at "filter (\<lambda>r. claimable q r \<and> \<not> locked (oe_event_id r)) ?rows"]
    by (simp add: normalizeLimit_def split: if_splits)
qed

lemma ClaimPending_Inr:
  "ClaimPending env locked q w = (Inr evs, w') \<longleftrightarrow>
     e_db_fault env (Suc (w_tick w)) = None \<and>
     (\<exists>db'. claim_pending locked q (e_now env (w_tick w)) (w_db w) = Inr (evs, db') \<and> w' = (tick (tick w))\<lparr>w_db := db'\<rparr>)"
  by (auto simp: ClaimPending_def bindA_Inr_iff Now_Inr runSQL_Inr tick_def)


definition sampleEvent :: outbox_row where
  "sampleEvent = \<lparr>oe_event_id = ''e1'', oe_service_name = ''upload-service'', oe_aggregate_type = ''upload_session'',
     oe_aggregate_id = ''s1'', oe_event_type = eventTypeUploadSessionFailed,
     oe_payload = [(''producer'', PStr ''upload-service''), (''uploadSessionId'', PStr ''s1''), (''failureCode'', PStr ''X'')],
     oe_status = OutboxPending, oe_retry_count = 0, oe_next_attempt_at = None, oe_published_at = None,
     oe_created_at = 30, oe_updated_at = 30\<rparr>"

definition sampleEventWorld :: world where
  "sampleEventWorld = \<lparr>w_db = sampleDB\<lparr>outbox_events := [sampleEvent, sampleEvent\<lparr>oe_event_id := ''e2'', oe_payload := []\<rparr>]\<rparr>,
     w_calls = [], w_tick = 0\<rparr>"

definition sampleClaim :: ClaimOutboxEventsQuery where
  "sampleClaim = \<lparr>cq_EventTypes = [], cq_DueBefore = 40, cq_Limit = 1\<rparr>"

lemma sample_events_distinct: "distinct (map oe_event_id (outbox_events (w_db sampleEventWorld)))"
  by (simp add: sampleEventWorld_def sampleEvent_def)


subsection \<open>Settlement\<close>

text \<open>Handlers that check the event and change nothing, as the registered ones do.\<close>

definition pure_handlers :: "Consumer \<Rightarrow> bool" where
  "pure_handlers c \<longleftrightarrow> (\<forall>t h. map_of (co_handlers c) t = Some h \<longrightarrow> (\<exists>f. h = (\<lambda>e. liftA (errOpt (f e)))))"

definition handled :: "Consumer \<Rightarrow> OutboxEvent \<Rightarrow> bool" where
  "handled c e \<longleftrightarrow> (case map_of (co_handlers c) (ev_EventType e) of
     None \<Rightarrow> False | Some h \<Rightarrow> \<not> isl (fst (h e undefined)))"

definition settle_row :: "Consumer \<Rightarrow> time \<Rightarrow> OutboxEvent \<Rightarrow> outbox_row \<Rightarrow> outbox_row" where
  "settle_row c now e r =
     (if handled c e then r\<lparr>oe_status := OutboxPublished, oe_published_at := Some now, oe_updated_at := now\<rparr>
      else r\<lparr>oe_status := OutboxFailed, oe_retry_count := oe_retry_count r + 1,
             oe_next_attempt_at := Some (now + retryDelay c (ev_RetryCount e)),
             oe_updated_at := now + retryDelay c (ev_RetryCount e)\<rparr>)"

lemma settle_row_cases:
  "handled c e \<Longrightarrow> settle_row c now e =
     (\<lambda>r. r\<lparr>oe_status := OutboxPublished, oe_published_at := Some now, oe_updated_at := now\<rparr>)"
  "\<not> handled c e \<Longrightarrow> settle_row c now e =
     (\<lambda>r. r\<lparr>oe_status := OutboxFailed, oe_retry_count := oe_retry_count r + 1,
             oe_next_attempt_at := Some (now + retryDelay c (ev_RetryCount e)),
             oe_updated_at := now + retryDelay c (ev_RetryCount e)\<rparr>)"
  by (simp_all add: settle_row_def fun_eq_iff)

interpretation settle: row_update oe_event_id "settle_row c now e" for c now e
  by unfold_locales (simp add: settle_row_def)

lemma consumeEvent_Inr:
  assumes "pure_handlers c" and "consumeEvent env c now e w = (Inr published, w')"
  shows "published = handled c e"
    and "outbox_events (w_db w') = update_where (\<lambda>r. oe_event_id r = TrimSpace (ev_EventID e)) (settle_row c now e) (outbox_events (w_db w))"
proof -
  have "published = handled c e \<and> outbox_events (w_db w') =
      update_where (\<lambda>r. oe_event_id r = TrimSpace (ev_EventID e)) (settle_row c now e) (outbox_events (w_db w))"
  proof (cases "map_of (co_handlers c) (ev_EventType e)")
    case None
    then have "\<not> handled c e" by (simp add: handled_def)
    with None assms(2) show ?thesis
      by (auto simp: consumeEvent_def OutboxReader_MarkFailed_def mark_failed_def bindA_Inr_iff runSQL_Inr settle_row_cases)
  next
    case (Some h)
    with assms(1) obtain f where h: "h = (\<lambda>e. liftA (errOpt (f e)))" by (auto simp: pure_handlers_def)
    then have "handled c e \<longleftrightarrow> f e = None" using Some by (cases "f e") (simp_all add: handled_def liftA_def)
    then show ?thesis
      using Some h assms(2)
      by (cases "f e")
         (auto simp: consumeEvent_def OutboxReader_MarkFailed_def mark_failed_def MarkPublished_def mark_published_def
            bindA_Inr_iff tryA_iff runSQL_Inr settle_row_cases)
  qed
  then show "published = handled c e"
    and "outbox_events (w_db w') = update_where (\<lambda>r. oe_event_id r = TrimSpace (ev_EventID e)) (settle_row c now e) (outbox_events (w_db w))"
    by simp_all
qed

lemma consumeAll_counts:
  assumes "pure_handlers c" and "consumeAll env c now evs res w = (Inr (res', None), w')"
  shows "ox_Claimed res' = ox_Claimed res \<and>
    ox_Published res' = ox_Published res + int (length (filter (handled c) evs)) \<and>
    ox_Failed res' = ox_Failed res + int (length (filter (\<lambda>e. \<not> handled c e) evs)) \<and>
    outbox_events (w_db w') = fold (\<lambda>e. update_where (\<lambda>r. oe_event_id r = TrimSpace (ev_EventID e)) (settle_row c now e)) evs
      (outbox_events (w_db w))"
  using assms(2)
proof (induction evs arbitrary: res w)
  case (Cons e evs)
  from Cons.prems obtain r w1 where run: "tryA (consumeEvent env c now e) w = (Inr r, w1)"
    and rest: "(case r of Inl err \<Rightarrow> returnA (res, Some err)
      | Inr published \<Rightarrow> consumeAll env c now evs (if published then res\<lparr>ox_Published := ox_Published res + 1\<rparr>
            else res\<lparr>ox_Failed := ox_Failed res + 1\<rparr>)) w1 = (Inr (res', None), w')"
    by (auto elim: bindA_InrE)
  from rest obtain published where r: "r = Inr published" by (cases r) simp_all
  with run have 1: "consumeEvent env c now e w = (Inr published, w1)" by (auto simp: tryA_iff)
  from rest r have 2: "consumeAll env c now evs (if published then res\<lparr>ox_Published := ox_Published res + 1\<rparr>
            else res\<lparr>ox_Failed := ox_Failed res + 1\<rparr>) w1 = (Inr (res', None), w')" by simp
  from Cons.IH [OF 2] consumeEvent_Inr [OF assms(1) 1] show ?case by auto
qed simp

lemma RunOnce_Inr:
  assumes "Consumer_RunOnce env locked c w = (Inr (res, None), w')"
  obtains evs w1 w2 where
    "ClaimPending env locked \<lparr>cq_EventTypes = co_eventTypes c, cq_DueBefore = e_now env (w_tick w), cq_Limit = co_batchSize c\<rparr> (tick w) = (Inr evs, w1)"
    and "consumeAll env c (e_now env (w_tick w1)) evs \<lparr>ox_Claimed = int (length evs), ox_Published = 0, ox_Failed = 0\<rparr> (tick w1) = (Inr (res, None), w')"
proof -
  let ?q = "\<lparr>cq_EventTypes = co_eventTypes c, cq_DueBefore = e_now env (w_tick w), cq_Limit = co_batchSize c\<rparr>"
  from assms obtain r w1 where tr: "tryA (ClaimPending env locked ?q) (tick w) = (Inr r, w1)"
    and rest: "(case r of Inl err \<Rightarrow> returnA (\<lparr>ox_Claimed = 0, ox_Published = 0, ox_Failed = 0\<rparr>, Some err)
     | Inr events \<Rightarrow> bindA (Now env) (\<lambda>now.
         consumeAll env c now events \<lparr>ox_Claimed = int (length events), ox_Published = 0, ox_Failed = 0\<rparr>)) w1 = (Inr (res, None), w')"
    unfolding Consumer_RunOnce_def by (auto simp: Now_Inr elim!: bindA_InrE)
  from rest obtain evs where "r = Inr evs" by (cases r) simp_all
  with tr rest that show ?thesis by (auto simp: tryA_iff bindA_def Now_run)
qed

lemma lease_then_settle:
  assumes "\<And>r. oe_event_id (lease r) = oe_event_id r"
  shows "map (\<lambda>r. case find (\<lambda>e. ev_EventID e = oe_event_id r) evs of None \<Rightarrow> r | Some e \<Rightarrow> settle e r)
      (update_where (\<lambda>r. oe_event_id r \<in> ev_EventID ` set evs) lease rows) =
    map (\<lambda>r. case find (\<lambda>e. ev_EventID e = oe_event_id r) evs of None \<Rightarrow> r | Some e \<Rightarrow> settle e (lease r)) rows"
  unfolding update_where_def map_map
proof (rule map_cong [OF refl])
  fix r
  have none: "find (\<lambda>e. ev_EventID e = i) evs = None" if "i \<notin> ev_EventID ` set evs" for i
    using that by (auto simp: find_None_iff)
  have some: "\<exists>e. find (\<lambda>e. ev_EventID e = i) evs = Some e" if "i \<in> ev_EventID ` set evs" for i
    using that by (auto simp: find_None_iff simp flip: not_None_eq)
  show "((\<lambda>r. case find (\<lambda>e. ev_EventID e = oe_event_id r) evs of None \<Rightarrow> r | Some e \<Rightarrow> settle e r) \<circ>
      (\<lambda>r. if oe_event_id r \<in> ev_EventID ` set evs then lease r else r)) r =
    (case find (\<lambda>e. ev_EventID e = oe_event_id r) evs of None \<Rightarrow> r | Some e \<Rightarrow> settle e (lease r))"
    using none [of "oe_event_id r"] some [of "oe_event_id r"] assms
    by (cases "oe_event_id r \<in> ev_EventID ` set evs") auto
qed

text \<open>
  Claim C26: a run of the consumer that reports no error settles every event it claimed, exactly
  once: an event whose handler accepts it is marked PUBLISHED, every other one is marked FAILED
  with one more retry on record and its next attempt after the retry delay; all other events
  are untouched, and the counts of the result are the numbers of these events.
\<close>

theorem outbox_run_settles_claimed_events:
  assumes "pure_handlers c" and "distinct (map oe_event_id (outbox_events (w_db w)))"
    and "\<forall>r. r \<in> set (outbox_events (w_db w)) \<longrightarrow> TrimSpace (oe_event_id r) = oe_event_id r"
    and "Consumer_RunOnce env locked c w = (Inr (res, None), w')"
  shows "\<exists>evs now. ox_Claimed res = int (length evs) \<and> ox_Published res + ox_Failed res = ox_Claimed res \<and>
    ox_Published res = int (length (filter (handled c) evs)) \<and>
    list_all2 (\<lambda>r r'. case find (\<lambda>e. ev_EventID e = oe_event_id r) evs of
        None \<Rightarrow> r' = r
      | Some e \<Rightarrow> oe_event_id r' = oe_event_id r \<and> oe_payload r' = oe_payload r \<and>
          (if handled c e then oe_status r' = OutboxPublished \<and> oe_published_at r' = Some now
           else oe_status r' = OutboxFailed \<and> oe_retry_count r' = oe_retry_count r + 1 \<and>
             oe_next_attempt_at r' = Some (now + retryDelay c (ev_RetryCount e))))
      (outbox_events (w_db w)) (outbox_events (w_db w'))"
proof -
  from RunOnce_Inr [OF assms(4)] obtain evs w1 where
    claim: "ClaimPending env locked \<lparr>cq_EventTypes = co_eventTypes c, cq_DueBefore = e_now env (w_tick w), cq_Limit = co_batchSize c\<rparr> (tick w) = (Inr evs, w1)"
    and all: "consumeAll env c (e_now env (w_tick w1)) evs \<lparr>ox_Claimed = int (length evs), ox_Published = 0, ox_Failed = 0\<rparr> (tick w1) = (Inr (res, None), w')" .
  define now where "now = e_now env (w_tick w1)"
  from claim obtain q t where "claim_pending locked q t (w_db w) = Inr (evs, w_db w1)"
    by (auto simp: ClaimPending_Inr)
  note rows = claim_pending_rows [OF this assms(2)]
  note counts = consumeAll_counts [OF assms(1) all [folded now_def]]
  let ?lease = "lease_row (cq_DueBefore q + outboxClaimLease) t"
  have trim: "TrimSpace (ev_EventID e) = ev_EventID e" if "e \<in> set evs" for e
  proof -
    from that rows(5) obtain r where "r \<in> set (outbox_events (w_db w))" "ev_EventID e = oe_event_id r" by blast
    with assms(3) show ?thesis by simp
  qed
  have "outbox_events (w_db w') = fold (\<lambda>e. update_where (\<lambda>r. oe_event_id r = ev_EventID e) (settle_row c now e)) evs
      (outbox_events (w_db w1))"
    using counts trim by (auto intro: fold_cong)
  also have "\<dots> = map (\<lambda>r. case find (\<lambda>e. ev_EventID e = oe_event_id r) evs of None \<Rightarrow> r | Some e \<Rightarrow> settle_row c now e r)
      (outbox_events (w_db w1))"
    using rows(3) by (intro fold_update_where) (simp_all add: settle.key_f)
  also have "\<dots> = map (\<lambda>r. case find (\<lambda>e. ev_EventID e = oe_event_id r) evs of None \<Rightarrow> r | Some e \<Rightarrow> settle_row c now e (?lease r))
      (outbox_events (w_db w))"
    unfolding rows(1) by (rule lease_then_settle) (simp add: lease.key_f)
  finally have out: "outbox_events (w_db w') = \<dots>" .
  have nums: "ox_Claimed res = int (length evs)" "ox_Published res = int (length (filter (handled c) evs))"
    "ox_Failed res = int (length (filter (\<lambda>e. \<not> handled c e) evs))"
    using counts by simp_all
  then have "ox_Published res + ox_Failed res = ox_Claimed res"
    by (simp add: sum_length_filter_compl flip: of_nat_add)
  with nums(1,2) show ?thesis
    unfolding out
    by (intro exI [of _ evs] exI [of _ now])
       (auto simp: list_all2_map2 list_all2_same settle_row_def lease_row_def split: option.splits)
qed

lemma registered_handlers_pure: "pure_handlers (newOutboxConsumer n)"
  by (auto simp: pure_handlers_def newOutboxConsumer_def NewConsumer_def newOutboxHandlers_def split: if_splits)

theorem outbox_run_settles_claimed_events_witness:
  "\<exists>res w' r1 r2. Consumer_RunOnce sampleEnv (\<lambda>_. False) (newOutboxConsumer 10) sampleEventWorld = (Inr (res, None), w') \<and>
     ox_Claimed res = 2 \<and> ox_Published res + ox_Failed res = 2 \<and> outbox_events (w_db w') = [r1, r2] \<and>
     oe_status r1 = OutboxPublished \<and> oe_status r2 = OutboxFailed"
proof -
  let ?run = "Consumer_RunOnce sampleEnv (\<lambda>_. False) (newOutboxConsumer 10) sampleEventWorld"
  let ?res = "\<lparr>ox_Claimed = 2, ox_Published = 1, ox_Failed = 1\<rparr>"
  have "map_prod (\<lambda>r. r) (\<lambda>w. map oe_status (outbox_events (w_db w))) ?run =
      (Inr (\<lparr>ox_Claimed = 2, ox_Published = 1, ox_Failed = 1\<rparr>, None), [OutboxPublished, OutboxFailed])" by code_simp
  then have fst: "fst ?run = Inr (\<lparr>ox_Claimed = 2, ox_Published = 1, ox_Failed = 1\<rparr>, None)"
    and st: "map oe_status (outbox_events (w_db (snd ?run))) = [OutboxPublished, OutboxFailed]"
    by (simp_all add: map_prod_def prod_eq_iff split_beta)
  from fst have run: "?run = (Inr (\<lparr>ox_Claimed = 2, ox_Published = 1, ox_Failed = 1\<rparr>, None), snd ?run)" by (simp add: prod_eq_iff)
  have trim: "\<forall>r. r \<in> set (outbox_events (w_db sampleEventWorld)) \<longrightarrow> TrimSpace (oe_event_id r) = oe_event_id r"
  proof -
    have "TrimSpace ''e1'' = ''e1''" "TrimSpace ''e2'' = ''e2''" by code_simp+
    then show ?thesis by (simp add: sampleEventWorld_def sampleEvent_def)
  qed
  from outbox_run_settles_claimed_events [OF registered_handlers_pure sample_events_distinct trim run]
  have counts: "ox_Published ?res + ox_Failed ?res = ox_Claimed ?res" by blast
  from st obtain r1 r2 where r: "outbox_events (w_db (snd ?run)) = [r1, r2]" "oe_status r1 = OutboxPublished" "oe_status r2 = OutboxFailed"
    by (auto simp: map_eq_Cons_conv)
  show ?thesis by (intro exI conjI, rule run) (use r counts in simp_all)
qed

subsection \<open>Producers and consumers agree\<close>

text \<open>
  The failure events of the upload service are well-formed for their consumer. Every
  event row that recording a terminal completion failure appends has the event type the
  catalogue registers, and its payload passes the registered handler's checks.
\<close>

theorem failure_events_are_accepted:
  assumes "cp_outbox h" and "TrimSpace (s_ID owned) \<noteq> []"
    and "failOwned env h owned requestID cause w = (Inr (), w')"
  shows "\<exists>ev. outbox_events (w_db w') = outbox_events (w_db w) @ [ev] \<and>
    oe_event_type ev = eventTypeUploadSessionFailed \<and> handleUploadSessionFailed (event_of_row ev) = None"
proof -
  define code where "code = (if CodeOf cause = [] then CodeInternalError else CodeOf cause)"
  then have code: "code \<noteq> []" by (simp add: CodeInternalError_def)
  from assms(1,3) obtain w1 w2 failed occurred where
    1: "SessionRepository_Save env failed w1 = (Inr (), w2)" and w1: "w_db w1 = w_db w"
    and mark: "MarkFailed code (Error cause) (e_now env (w_tick w)) owned = Inr failed"
    and enq: "Enqueue env \<lparr>ob_EventType = uploadSessionFailedEventType, ob_AggregateID = s_ID failed,
        ob_Payload = uploadSessionFailedPayload occurred requestID (s_TenantID failed) (s_ID failed) code (Error cause)\<rparr> (tick w2) = (Inr (), w')"
    unfolding failOwned_def code_def [symmetric] by (auto simp: Now_run Let_def elim!: bindA_InrE)
  from MarkFailed_Inr [OF mark] have id: "s_ID failed = s_ID owned" by auto
  from Enqueue_db [OF enq] obtain ev where ins: "insert_event ev (w_db w2) = Inr ((), w_db w')"
    and ev: "oe_event_type ev = uploadSessionFailedEventType"
      "oe_payload ev = uploadSessionFailedPayload occurred requestID (s_TenantID failed) (s_ID failed) code (Error cause)"
    by auto
  from Save_db [OF 1] obtain n where "update_session failed (w_db w1) = Inr (n, w_db w2)" by auto
  with ins w1 have "outbox_events (w_db w') = outbox_events (w_db w) @ [ev]"
    by (simp add: insert_event_rows update_session_rows)
  moreover have "s_ID owned \<noteq> []" using assms(2) by auto
  then have "handleUploadSessionFailed (event_of_row ev) = None"
    using code by (simp add: handleUploadSessionFailed_def event_of_row_def ev id uploadSessionFailedPayload_def
        requirePayloadString_def omitempty_def)
  ultimately show ?thesis using ev(1)
    by (auto simp: uploadSessionFailedEventType_def eventTypeUploadSessionFailed_def)
qed

theorem failure_events_are_accepted_witness:
  "\<exists>w' ev. failOwned sampleEnv samplePorts sampleCompleting ''r1'' (Errorf ''x'') (sampleWorld [sampleCompleting]) = (Inr (), w') \<and>
     outbox_events (w_db w') = [ev] \<and> handleUploadSessionFailed (event_of_row ev) = None"
proof -
  let ?run = "failOwned sampleEnv samplePorts sampleCompleting ''r1'' (Errorf ''x'') (sampleWorld [sampleCompleting])"
  have "fst ?run = Inr ()" by code_simp
  then have run: "?run = (Inr (), snd ?run)" by (simp add: prod_eq_iff)
  have "cp_outbox samplePorts" "TrimSpace (s_ID sampleCompleting) \<noteq> []" by code_simp+
  from failure_events_are_accepted [OF this run] run show ?thesis by (auto simp: sampleWorld_def sampleDB_def)
qed

end
