(* ===== verification/AdminFiles.thy ===== *)
theory AdminFiles
  imports UploadRepository
begin

text \<open>
  The authorisation rules of the admin service (\<^verbatim>\<open>domain/admin_context.go\<close>, \<^verbatim>\<open>domain/authorization.go\<close>,
  \<^verbatim>\<open>app/guard.go\<close>) and its deletion of files (\<^verbatim>\<open>app/commands/delete_file.go\<close> with the repositories
  it uses): the command marks the file deleted, gives back the reference and the usage, writes
  the audit record and publishes the deletion event in one transaction.
\<close>

subsection \<open>Administrators\<close>

definition CodeAdminPermissionDenied :: Code where "CodeAdminPermissionDenied = ''ADMIN_PERMISSION_DENIED''"
definition CodeTenantScopeDenied :: Code where "CodeTenantScopeDenied = ''TENANT_SCOPE_DENIED''"
definition CodeFileNotFound :: Code where "CodeFileNotFound = ''FILE_NOT_FOUND''"

definition GlobalTenantScope :: string where "GlobalTenantScope = ''*''"

definition RoleReadonly :: string where "RoleReadonly = ''admin.readonly''"
definition RoleGovernance :: string where "RoleGovernance = ''admin.governance''"
definition RoleSuper :: string where "RoleSuper = ''admin.super''"

lemmas role_defs = RoleReadonly_def RoleGovernance_def RoleSuper_def

definition roleRank :: "string \<Rightarrow> nat option" where
  "roleRank role =
     (if role = RoleReadonly then Some 1
      else if role = RoleGovernance then Some 2
      else if role = RoleSuper then Some 3
      else None)"

record AdminContextInput =
  ai_RequestID :: string
  ai_AdminID :: string
  ai_Roles :: "string list"
  ai_TenantScopes :: "string list"
  ai_Permissions :: "string list"
  ai_TokenID :: string

text \<open>The struct \<^verbatim>\<open>AdminContext\<close> has the fields of \<^verbatim>\<open>AdminContextInput\<close>.\<close>

type_synonym AdminContext = AdminContextInput

fun roles_loop :: "string list \<Rightarrow> string list \<Rightarrow> string list result" where
  "roles_loop roles [] = Inr roles"
| "roles_loop roles (value # values) =
     (let role = TrimSpace value in
      if role = [] then roles_loop roles values
      else if roleRank role = None
      then Inl (New CodeInvalidArgument ''admin role is invalid'' [(''field'', DStr ''roles''), (''role'', DStr role)])
      else if role \<in> set roles then roles_loop roles values
      else roles_loop (roles @ [role]) values)"

definition normalizeRoles :: "string list \<Rightarrow> string list result" where
  "normalizeRoles values =
     bindE (roles_loop [] values) (\<lambda>roles.
     if length roles = 0
     then Inl (New CodeInvalidArgument ''at least one admin role is required'' [(''field'', DStr ''roles'')])
     else Inr (sort_key (\<lambda>r. the (roleRank r)) roles))"

fun string_set_loop :: "string list \<Rightarrow> string list \<Rightarrow> string list" where
  "string_set_loop result [] = result"
| "string_set_loop result (value # values) =
     (let normalized = TrimSpace value in
      if normalized = [] then string_set_loop result values
      else if normalized = GlobalTenantScope then [GlobalTenantScope]
      else if normalized \<in> set result then string_set_loop result values
      else string_set_loop (result @ [normalized]) values)"

definition normalizeStringSet :: "string list \<Rightarrow> bool \<Rightarrow> string list" where
  "normalizeStringSet values defaultGlobal =
     (let result = string_set_loop [] values in
      if defaultGlobal \<and> length result = 0 then [GlobalTenantScope] else result)"

definition NewAdminContext :: "AdminContextInput \<Rightarrow> AdminContext result" where
  "NewAdminContext input =
     bindE (failIf (TrimSpace (ai_AdminID input) = [])
       (New CodeInvalidArgument ''admin id is required'' [(''field'', DStr ''sub'')])) (\<lambda>_.
     bindE (normalizeRoles (ai_Roles input)) (\<lambda>roles.
     Inr \<lparr>ai_RequestID = TrimSpace (ai_RequestID input), ai_AdminID = TrimSpace (ai_AdminID input),
          ai_Roles = roles, ai_TenantScopes = normalizeStringSet (ai_TenantScopes input) True,
          ai_Permissions = normalizeStringSet (ai_Permissions input) False,
          ai_TokenID = TrimSpace (ai_TokenID input)\<rparr>))"

definition IsGlobalScope :: "AdminContext \<Rightarrow> bool" where
  "IsGlobalScope c \<longleftrightarrow> GlobalTenantScope \<in> set (ai_TenantScopes c)"

definition CanAccessTenant :: "AdminContext \<Rightarrow> string \<Rightarrow> bool" where
  "CanAccessTenant c tenantID \<longleftrightarrow> (if IsGlobalScope c then True else TrimSpace tenantID \<in> set (ai_TenantScopes c))"

definition HasMinimumRole :: "AdminContext \<Rightarrow> string \<Rightarrow> bool" where
  "HasMinimumRole c required = (case roleRank required of
     None \<Rightarrow> False
   | Some requiredRank \<Rightarrow> list_ex (\<lambda>role. case roleRank role of None \<Rightarrow> False | Some rank \<Rightarrow> requiredRank \<le> rank) (ai_Roles c))"

datatype Operation = OperationListTenants | OperationCreateTenant | OperationGetTenant | OperationPatchTenant
  | OperationGetTenantPolicy | OperationPatchTenantPolicy | OperationGetTenantUsage | OperationListFiles
  | OperationGetFile | OperationDeleteFile | OperationListAuditLogs | OperationOther string

fun operation_string :: "Operation \<Rightarrow> string" where
  "operation_string OperationListTenants = ''listTenants''"
| "operation_string OperationCreateTenant = ''createTenant''"
| "operation_string OperationGetTenant = ''getTenant''"
| "operation_string OperationPatchTenant = ''patchTenant''"
| "operation_string OperationGetTenantPolicy = ''getTenantPolicy''"
| "operation_string OperationPatchTenantPolicy = ''patchTenantPolicy''"
| "operation_string OperationGetTenantUsage = ''getTenantUsage''"
| "operation_string OperationListFiles = ''listFiles''"
| "operation_string OperationGetFile = ''getFile''"
| "operation_string OperationDeleteFile = ''deleteFile''"
| "operation_string OperationListAuditLogs = ''listAuditLogs''"
| "operation_string (OperationOther s) = s"

record OperationRule =
  rule_MinimumRole :: string
  rule_Destructive :: bool

definition RuleFor :: "Operation \<Rightarrow> OperationRule option" where
  "RuleFor operation = (case operation of
     OperationListTenants \<Rightarrow> Some \<lparr>rule_MinimumRole = RoleReadonly, rule_Destructive = False\<rparr>
   | OperationCreateTenant \<Rightarrow> Some \<lparr>rule_MinimumRole = RoleSuper, rule_Destructive = False\<rparr>
   | OperationGetTenant \<Rightarrow> Some \<lparr>rule_MinimumRole = RoleReadonly, rule_Destructive = False\<rparr>
   | OperationPatchTenant \<Rightarrow> Some \<lparr>rule_MinimumRole = RoleGovernance, rule_Destructive = False\<rparr>
   | OperationGetTenantPolicy \<Rightarrow> Some \<lparr>rule_MinimumRole = RoleReadonly, rule_Destructive = False\<rparr>
   | OperationPatchTenantPolicy \<Rightarrow> Some \<lparr>rule_MinimumRole = RoleGovernance, rule_Destructive = False\<rparr>
   | OperationGetTenantUsage \<Rightarrow> Some \<lparr>rule_MinimumRole = RoleReadonly, rule_Destructive = False\<rparr>
   | OperationListFiles \<Rightarrow> Some \<lparr>rule_MinimumRole = RoleReadonly, rule_Destructive = False\<rparr>
   | OperationGetFile \<Rightarrow> Some \<lparr>rule_MinimumRole = RoleReadonly, rule_Destructive = False\<rparr>
   | OperationDeleteFile \<Rightarrow> Some \<lparr>rule_MinimumRole = RoleGovernance, rule_Destructive = True\<rparr>
   | OperationListAuditLogs \<Rightarrow> Some \<lparr>rule_MinimumRole = RoleReadonly, rule_Destructive = False\<rparr>
   | OperationOther _ \<Rightarrow> None)"

definition ErrAdminPermissionDenied :: "Operation \<Rightarrow> string \<Rightarrow> go_error" where
  "ErrAdminPermissionDenied operation minimumRole =
     New CodeAdminPermissionDenied ''admin permission denied''
       [(''operation'', DStr (operation_string operation)), (''requiredRole'', DStr minimumRole)]"

definition ErrTenantScopeDenied :: "string \<Rightarrow> go_error" where
  "ErrTenantScopeDenied tenantID = New CodeTenantScopeDenied ''tenant scope denied'' [(''tenantId'', DStr tenantID)]"

definition ErrFileNotFound :: "string \<Rightarrow> go_error" where
  "ErrFileNotFound fileID = New CodeFileNotFound ''file not found'' [(''fileId'', DStr fileID)]"

definition AuthorizeOperation :: "AdminContext \<Rightarrow> Operation \<Rightarrow> unit result" where
  "AuthorizeOperation c operation = (case RuleFor operation of
     None \<Rightarrow> Inl (New CodeInternalError ''admin operation is not registered''
       [(''operation'', DStr (operation_string operation))])
   | Some rule \<Rightarrow>
       if HasMinimumRole c (rule_MinimumRole rule) then Inr ()
       else Inl (ErrAdminPermissionDenied operation (rule_MinimumRole rule)))"

definition EnsureTenantScope :: "AdminContext \<Rightarrow> string \<Rightarrow> unit result" where
  "EnsureTenantScope c tenantID =
     (if TrimSpace tenantID = []
      then Inl (New CodeInvalidArgument ''tenant id is required'' [(''field'', DStr ''tenantId'')])
      else if CanAccessTenant c (TrimSpace tenantID) then Inr ()
      else Inl (ErrTenantScopeDenied (TrimSpace tenantID)))"

definition RequireDestructiveReason :: "string \<Rightarrow> unit result" where
  "RequireDestructiveReason reason =
     (if TrimSpace reason \<noteq> [] then Inr ()
      else Inl (New CodeInvalidArgument ''reason is required for destructive operation'' [(''field'', DStr ''reason'')]))"

definition EnsureDeleteFile :: "AdminContext \<Rightarrow> string \<Rightarrow> string \<Rightarrow> unit result" where
  "EnsureDeleteFile c tenantID reason =
     bindE (AuthorizeOperation c OperationDeleteFile) (\<lambda>_.
     bindE (EnsureTenantScope c tenantID) (\<lambda>_.
     RequireDestructiveReason reason))"

subsection \<open>Repositories\<close>

text \<open>
  \<^verbatim>\<open>wrapDBError\<close> of the admin service: PostgreSQL reports a unique or primary-key violation with
  the code 23505, which becomes a conflict. Those constraints are the ones named \<^verbatim>\<open>..._pkey\<close> and
  \<^verbatim>\<open>uq_...\<close>.
\<close>

definition unique_violation :: "go_error \<Rightarrow> bool" where
  "unique_violation err = (case err of
     Errorf s \<Rightarrow> is_prefix ''constraint violation: uq_'' s \<or>
       is_prefix ''constraint violation: '' s \<and> is_prefix (rev ''_pkey'') (rev s)
   | _ \<Rightarrow> False)"

definition admin_wrapDBError :: "string \<Rightarrow> go_error \<Rightarrow> go_error" where
  "admin_wrapDBError message err =
     (if unique_violation err then Wrap CodeConflict message err [] else Wrap CodeServiceUnavailable message err [])"

definition admin_nullString :: "string \<Rightarrow> string option" where
  "admin_nullString value = (if TrimSpace value = [] then None else Some (TrimSpace value))"

record AdminFileView =
  av_FileID :: string
  av_TenantID :: string
  av_OwnerID :: string
  av_BlobID :: string
  av_FileName :: string
  av_ContentType :: string
  av_SizeBytes :: int
  av_AccessLevel :: AccessLevel
  av_Status :: FileStatus
  av_DeletedAt :: "time option"
  av_CreatedAt :: time
  av_UpdatedAt :: time

definition scanAdminFile :: "file_row \<Rightarrow> AdminFileView" where
  "scanAdminFile r = \<lparr>
     av_FileID = fa_file_id r, av_TenantID = fa_tenant_id r, av_OwnerID = fa_owner_id r,
     av_BlobID = fa_blob_object_id r, av_FileName = fa_original_filename r,
     av_ContentType = null_String (fa_content_type r), av_SizeBytes = fa_file_size r,
     av_AccessLevel = fa_access_level r, av_Status = fa_status r, av_DeletedAt = fa_deleted_at r,
     av_CreatedAt = fa_created_at r, av_UpdatedAt = fa_updated_at r\<rparr>"

definition query_file :: "string \<Rightarrow> database \<Rightarrow> go_error + AdminFileView option \<times> database" where
  "query_file fileID db = Inr (map_option scanAdminFile (lookup_row fa_file_id fileID (file_assets db)), db)"

definition AdminFile_GetByID :: "env \<Rightarrow> string \<Rightarrow> AdminFileView option M" where
  "AdminFile_GetByID env fileID = mapErrA (admin_wrapDBError ''get admin file'') (runSQL env (query_file fileID))"

record DeleteFileRecord =
  dr_File :: AdminFileView
  dr_PhysicalDeleteScheduled :: bool
  dr_AlreadyDeleted :: bool

definition delete_file_row :: "time \<Rightarrow> file_row \<Rightarrow> file_row" where
  "delete_file_row deletedAt r =
     r\<lparr>fa_status := FileStatusDeleted, fa_deleted_at := Some deletedAt, fa_updated_at := deletedAt\<rparr>"

definition mark_file_deleted :: "string \<Rightarrow> time \<Rightarrow> database \<Rightarrow> go_error + AdminFileView \<times> database" where
  "mark_file_deleted fileID deletedAt db =
     (let p = (\<lambda>r. fa_file_id r = fileID) in
      if list_ex (\<lambda>r. p r \<and> \<not> file_row_check (delete_file_row deletedAt r)) (file_assets db)
      then Inl (constraint_violation ''ck_file_assets'')
      else (case lookup_row fa_file_id fileID (file_assets db) of
          None \<Rightarrow> Inl (Sentinel ErrNoRows)
        | Some r \<Rightarrow> Inr (scanAdminFile (delete_file_row deletedAt r),
            db\<lparr>file_assets := update_where p (delete_file_row deletedAt) (file_assets db)\<rparr>)))"

definition release_ref_row :: "time \<Rightarrow> blob_row \<Rightarrow> blob_row" where
  "release_ref_row deletedAt r =
     r\<lparr>bo_reference_count := max (bo_reference_count r - 1) 0, bo_updated_at := deletedAt\<rparr>"

definition release_ref :: "string \<Rightarrow> time \<Rightarrow> database \<Rightarrow> go_error + unit \<times> database" where
  "release_ref blobID deletedAt db =
     (let p = (\<lambda>r. bo_blob_object_id r = blobID) in
      if list_ex (\<lambda>r. p r \<and> \<not> blob_row_check (release_ref_row deletedAt r)) (blob_objects db)
      then Inl (constraint_violation ''ck_blob_objects'')
      else Inr ((), db\<lparr>blob_objects := update_where p (release_ref_row deletedAt) (blob_objects db)\<rparr>))"

definition release_usage_row :: "int \<Rightarrow> time \<Rightarrow> usage_row \<Rightarrow> usage_row" where
  "release_usage_row sizeBytes deletedAt r = r\<lparr>
     tu_used_storage_bytes := max (tu_used_storage_bytes r - sizeBytes) 0,
     tu_used_file_count := max (tu_used_file_count r - 1) 0,
     tu_version := tu_version r + 1,
     tu_updated_at := deletedAt\<rparr>"

definition release_usage :: "string \<Rightarrow> int \<Rightarrow> time \<Rightarrow> database \<Rightarrow> go_error + unit \<times> database" where
  "release_usage tenantID sizeBytes deletedAt db =
     (let p = (\<lambda>r. tu_tenant_id r = tenantID) in
      if list_ex (\<lambda>r. p r \<and> \<not> usage_row_check (release_usage_row sizeBytes deletedAt r)) (tenant_usage db)
      then Inl (constraint_violation ''ck_tenant_usage'')
      else Inr ((), db\<lparr>tenant_usage := update_where p (release_usage_row sizeBytes deletedAt) (tenant_usage db)\<rparr>))"

definition MarkDeleted :: "env \<Rightarrow> string \<Rightarrow> time \<Rightarrow> DeleteFileRecord option M" where
  "MarkDeleted env fileID deletedAt =
     bindA (mapErrA (admin_wrapDBError ''lock admin file'') (runSQL env (query_file fileID))) (\<lambda>current.
     case current of
       None \<Rightarrow> returnA None
     | Some file \<Rightarrow>
         if av_Status file = FileStatusDeleted
         then returnA (Some \<lparr>dr_File = file, dr_PhysicalDeleteScheduled = True, dr_AlreadyDeleted = True\<rparr>)
         else
           bindA (mapErrA (admin_wrapDBError ''mark admin file deleted'')
             (runSQL env (mark_file_deleted fileID deletedAt))) (\<lambda>deleted.
           bindA (mapErrA (admin_wrapDBError ''decrement blob reference count'')
             (runSQL env (release_ref (av_BlobID deleted) deletedAt))) (\<lambda>_.
           bindA (mapErrA (admin_wrapDBError ''apply tenant usage delete delta'')
             (runSQL env (release_usage (av_TenantID deleted) (av_SizeBytes deleted) deletedAt))) (\<lambda>_.
           returnA (Some \<lparr>dr_File = deleted, dr_PhysicalDeleteScheduled = True, dr_AlreadyDeleted = False\<rparr>)))))"

record AuditLogRecord =
  ar_AuditID :: string
  ar_AdminSubject :: string
  ar_TenantID :: string
  ar_Action :: string
  ar_TargetType :: string
  ar_TargetID :: string
  ar_RequestID :: string
  ar_Details :: "(string \<times> pval) list"
  ar_CreatedAt :: time

definition insert_audit :: "AuditLogRecord \<Rightarrow> database \<Rightarrow> go_error + unit \<times> database" where
  "insert_audit record db =
     (if lookup_row al_audit_log_id (ar_AuditID record) (admin_audit_logs db) \<noteq> None
      then Inl (constraint_violation ''admin_audit_logs_pkey'')
      else Inr ((), db\<lparr>admin_audit_logs := admin_audit_logs db @ [\<lparr>
        al_audit_log_id = ar_AuditID record, al_admin_subject = ar_AdminSubject record,
        al_action = ar_Action record, al_target_type = ar_TargetType record,
        al_target_id = admin_nullString (ar_TargetID record), al_tenant_id = admin_nullString (ar_TenantID record),
        al_request_id = admin_nullString (ar_RequestID record), al_details = ar_Details record,
        al_created_at = ar_CreatedAt record\<rparr>]\<rparr>))"

definition AuditLog_Append :: "env \<Rightarrow> AuditLogRecord \<Rightarrow> unit M" where
  "AuditLog_Append env record =
     mapErrA (admin_wrapDBError ''append admin audit log'') (runSQL env (insert_audit record))"

record AdminOutboxEvent =
  ae_EventType :: string
  ae_AggregateType :: string
  ae_AggregateID :: string
  ae_OccurredAt :: time
  ae_RequestID :: string
  ae_TenantID :: string
  ae_Payload :: "(string \<times> pval) list"

definition Publish :: "env \<Rightarrow> AdminOutboxEvent \<Rightarrow> unit M" where
  "Publish env event =
     bindA (mapErrA (\<lambda>err. Wrap CodeInternalError ''generate outbox event id'' err []) (NewID env)) (\<lambda>eventID.
     bindA (if ae_OccurredAt event = 0 then Now env else returnA (ae_OccurredAt event)) (\<lambda>now.
     mapErrA (admin_wrapDBError ''publish outbox event'') (runSQL env (insert_event \<lparr>
       oe_event_id = eventID, oe_service_name = ''admin-service'', oe_aggregate_type = ae_AggregateType event,
       oe_aggregate_id = ae_AggregateID event, oe_event_type = ae_EventType event,
       oe_payload = ae_Payload event, oe_status = OutboxPending, oe_retry_count = 0,
       oe_next_attempt_at = Some now, oe_published_at = None, oe_created_at = now, oe_updated_at = now\<rparr>))))"

definition admin_WithinTransaction :: "env \<Rightarrow> 'a M \<Rightarrow> 'a M" where
  "admin_WithinTransaction env body =
     bindA (mapErrA (admin_wrapDBError ''begin transaction'') (runSQL env (\<lambda>db. Inr ((), db)))) (\<lambda>_.
     (\<lambda>w. case body w of
       (Inl e, w') \<Rightarrow> (Inl e, w'\<lparr>w_db := w_db w\<rparr>)
     | (Inr x, w') \<Rightarrow>
         (case runSQL env (\<lambda>db. Inr ((), db)) w' of
            (Inl e, w2) \<Rightarrow> (Inl (admin_wrapDBError ''commit transaction'' e), w2\<lparr>w_db := w_db w\<rparr>)
          | (Inr _, w2) \<Rightarrow> (Inr x, w2))))"

subsection \<open>Deleting a file\<close>

definition requiredField :: "string \<Rightarrow> string \<Rightarrow> string result" where
  "requiredField value field =
     (if TrimSpace value \<noteq> [] then Inr (TrimSpace value)
      else Inl (New CodeInvalidArgument ''field is required'' [(''field'', DStr field)]))"

definition optionalField :: "string \<Rightarrow> string" where
  "optionalField value = TrimSpace value"

definition newAuditRecord ::
    "env \<Rightarrow> AdminContext \<Rightarrow> string \<Rightarrow> string \<Rightarrow> string \<Rightarrow> string \<Rightarrow> (string \<times> pval) list \<Rightarrow> AuditLogRecord M" where
  "newAuditRecord env auth tenantID action targetType targetID details =
     bindA (mapErrA (\<lambda>err. Wrap CodeInternalError ''generate audit log id'' err []) (NewID env)) (\<lambda>auditID.
     bindA (Now env) (\<lambda>createdAt.
     returnA \<lparr>ar_AuditID = auditID, ar_AdminSubject = ai_AdminID auth, ar_TenantID = TrimSpace tenantID,
       ar_Action = action, ar_TargetType = TrimSpace targetType, ar_TargetID = TrimSpace targetID,
       ar_RequestID = ai_RequestID auth, ar_Details = details, ar_CreatedAt = createdAt\<rparr>))"

definition fileDeleteRequestedEventType :: string where
  "fileDeleteRequestedEventType = ''file.asset.delete_requested.v1''"

record DeleteFileCommand =
  dc_FileID :: string
  dc_Reason :: string
  dc_IdempotencyKey :: string
  dc_Auth :: AdminContext

definition fileDeletePayload :: "time \<Rightarrow> DeleteFileCommand \<Rightarrow> AdminFileView \<Rightarrow> (string \<times> pval) list" where
  "fileDeletePayload now command file =
     [(''occurredAt'', PTime now), (''requestId'', PStr (ai_RequestID (dc_Auth command))),
      (''tenantId'', PStr (av_TenantID file)), (''producer'', PStr ''admin-service''),
      (''fileId'', PStr (av_FileID file)), (''blobObjectId'', PStr (av_BlobID file)),
      (''deletedBy'', PStr (ai_AdminID (dc_Auth command))), (''reason'', PStr (dc_Reason command))]"

text \<open>The body of the transaction, and the handler.\<close>

definition deleteFileBody :: "env \<Rightarrow> DeleteFileCommand \<Rightarrow> string \<Rightarrow> DeleteFileRecord M" where
  "deleteFileBody env command fileID =
     bindA (Now env) (\<lambda>now.
     bindA (MarkDeleted env fileID now) (\<lambda>marked.
     case marked of
       None \<Rightarrow> throwA (ErrFileNotFound fileID)
     | Some deleted \<Rightarrow>
         if dr_AlreadyDeleted deleted then returnA deleted
         else
           bindA (newAuditRecord env (dc_Auth command) (av_TenantID (dr_File deleted)) ''file.delete'' ''file''
              (av_FileID (dr_File deleted))
              [(''reason'', PStr (dc_Reason command)),
               (''idempotencyKey'', PStr (optionalField (dc_IdempotencyKey command))),
               (''blobId'', PStr (av_BlobID (dr_File deleted)))]) (\<lambda>record.
           bindA (AuditLog_Append env record) (\<lambda>_.
           bindA (Publish env \<lparr>ae_EventType = fileDeleteRequestedEventType, ae_AggregateType = ''file_asset'',
              ae_AggregateID = av_FileID (dr_File deleted), ae_OccurredAt = now,
              ae_RequestID = ai_RequestID (dc_Auth command), ae_TenantID = av_TenantID (dr_File deleted),
              ae_Payload = fileDeletePayload now command (dr_File deleted)\<rparr>) (\<lambda>_.
           returnA deleted)))))"

record DeleteFileResult =
  df_FileID :: string
  df_Status :: FileStatus
  df_DeletedAt :: "time option"
  df_PhysicalDeleteScheduled :: bool

definition FromDeleteFileRecord :: "DeleteFileRecord \<Rightarrow> DeleteFileResult" where
  "FromDeleteFileRecord value = \<lparr>df_FileID = av_FileID (dr_File value), df_Status = av_Status (dr_File value),
     df_DeletedAt = av_DeletedAt (dr_File value), df_PhysicalDeleteScheduled = dr_PhysicalDeleteScheduled value\<rparr>"

definition DeleteFile :: "env \<Rightarrow> DeleteFileCommand \<Rightarrow> DeleteFileResult M" where
  "DeleteFile env command =
     bindA (liftA (requiredField (dc_FileID command) ''fileId'')) (\<lambda>fileID.
     bindA (AdminFile_GetByID env fileID) (\<lambda>found.
     case found of
       None \<Rightarrow> throwA (ErrFileNotFound fileID)
     | Some current \<Rightarrow>
         bindA (liftA (EnsureDeleteFile (dc_Auth command) (av_TenantID current) (dc_Reason command))) (\<lambda>_.
         bindA (admin_WithinTransaction env (deleteFileBody env command fileID)) (\<lambda>deleted.
         returnA (FromDeleteFileRecord deleted)))))"

end
