(* ===== verification/AdminTenants.thy ===== *)
theory AdminTenants
  imports AdminFiles
begin

text \<open>
  Tenants and their policies in the admin service: the domain (\<^verbatim>\<open>domain/tenant.go\<close>,
  \<^verbatim>\<open>domain/tenant_policy.go\<close>), the rules of \<^verbatim>\<open>app/guard.go\<close>, the three repositories and the
  commands that create a tenant and patch it or its policy.
\<close>

subsection \<open>Tenants\<close>

definition CodeTenantNotFound :: Code where "CodeTenantNotFound = ''TENANT_NOT_FOUND''"
definition CodeTenantStatusInvalid :: Code where "CodeTenantStatusInvalid = ''TENANT_STATUS_INVALID''"
definition CodeTenantPolicyInvalid :: Code where "CodeTenantPolicyInvalid = ''TENANT_POLICY_INVALID''"
definition CodeAuditQueryInvalid :: Code where "CodeAuditQueryInvalid = ''AUDIT_QUERY_INVALID''"

definition ErrTenantNotFound :: "string \<Rightarrow> go_error" where
  "ErrTenantNotFound tenantID = New CodeTenantNotFound ''tenant not found'' [(''tenantId'', DStr tenantID)]"

definition ErrTenantPolicyInvalid :: "string \<Rightarrow> string \<Rightarrow> go_error" where
  "ErrTenantPolicyInvalid field reason = New CodeTenantPolicyInvalid ''tenant policy invalid''
     [(''field'', DStr field), (''reason'', DStr reason)]"

definition ErrAuditQueryInvalid :: "string \<Rightarrow> string \<Rightarrow> go_error" where
  "ErrAuditQueryInvalid field reason = New CodeAuditQueryInvalid ''audit query invalid''
     [(''field'', DStr field), (''reason'', DStr reason)]"

definition TenantStatusActive :: string where "TenantStatusActive = ''ACTIVE''"
definition TenantStatusSuspended :: string where "TenantStatusSuspended = ''SUSPENDED''"
definition TenantStatusDeleted :: string where "TenantStatusDeleted = ''DELETED''"

lemmas tenant_status_defs = TenantStatusActive_def TenantStatusSuspended_def TenantStatusDeleted_def

record Tenant =
  tn_TenantID :: string
  tn_TenantName :: string
  tn_Status :: string
  tn_ContactEmail :: string
  tn_Description :: string
  tn_CreatedAt :: time
  tn_UpdatedAt :: time

record TenantPatch =
  px_TenantName :: "string option"
  px_Status :: "string option"
  px_ContactEmail :: "string option"
  px_Description :: "string option"
  px_Reason :: string

definition IsDestructive :: "string \<Rightarrow> bool" where
  "IsDestructive s \<longleftrightarrow> s = TenantStatusSuspended \<or> s = TenantStatusDeleted"

definition TenantStatus_Validate :: "string \<Rightarrow> unit result" where
  "TenantStatus_Validate s =
     (if s \<in> {TenantStatusActive, TenantStatusSuspended, TenantStatusDeleted} then Inr ()
      else Inl (New CodeTenantStatusInvalid ''tenant status invalid'' [(''status'', DStr s)]))"

definition HasDestructiveChange :: "TenantPatch \<Rightarrow> bool" where
  "HasDestructiveChange p = (case px_Status p of None \<Rightarrow> False | Some s \<Rightarrow> IsDestructive s)"

definition normalizeStringPtr :: "string option \<Rightarrow> string option" where
  "normalizeStringPtr value = map_option TrimSpace value"

definition TenantPatch_Normalize :: "TenantPatch \<Rightarrow> TenantPatch" where
  "TenantPatch_Normalize p = \<lparr>
     px_TenantName = normalizeStringPtr (px_TenantName p), px_Status = px_Status p,
     px_ContactEmail = normalizeStringPtr (px_ContactEmail p), px_Description = normalizeStringPtr (px_Description p),
     px_Reason = TrimSpace (px_Reason p)\<rparr>"

definition TenantPatch_IsEmpty :: "TenantPatch \<Rightarrow> bool" where
  "TenantPatch_IsEmpty p \<longleftrightarrow>
     px_TenantName p = None \<and> px_Status p = None \<and> px_ContactEmail p = None \<and> px_Description p = None"

subsection \<open>Policies\<close>

text \<open>
  A nil slice (None) differs from an empty one in a patch. The struct \<^verbatim>\<open>TenantPolicyPatch\<close> has the
  fields of \<^verbatim>\<open>TenantPolicy\<close>, here the field \<open>pp_Policy\<close>, and a reason.
\<close>

record admin_TenantPolicy =
  ap_MaxStorageBytes :: "int option"
  ap_MaxFileCount :: "int option"
  ap_MaxSingleFileSize :: "int option"
  ap_AllowedMimeTypes :: "string list option"
  ap_AllowedExtensions :: "string list option"
  ap_DefaultAccessLevel :: "string option"
  ap_AutoCreateEnabled :: "bool option"

record TenantPolicyPatch =
  pp_Policy :: admin_TenantPolicy
  pp_Reason :: string

fun string_slice_loop :: "bool \<Rightarrow> string list \<Rightarrow> string list \<Rightarrow> string list" where
  "string_slice_loop lower result [] = result"
| "string_slice_loop lower result (value # values) =
     (let normalized = (if lower then ToLower (TrimSpace value) else TrimSpace value) in
      if normalized = [] then string_slice_loop lower result values
      else if normalized \<in> set result then string_slice_loop lower result values
      else string_slice_loop lower (result @ [normalized]) values)"

definition normalizeStringSlice :: "string list option \<Rightarrow> bool \<Rightarrow> string list option" where
  "normalizeStringSlice values lower = map_option (string_slice_loop lower []) values"

definition normalizeAccessLevelPtr :: "string option \<Rightarrow> string option" where
  "normalizeAccessLevelPtr value = map_option (\<lambda>v. ToUpper (TrimSpace v)) value"

definition TenantPolicy_Normalize :: "admin_TenantPolicy \<Rightarrow> admin_TenantPolicy" where
  "TenantPolicy_Normalize p = p\<lparr>
     ap_AllowedMimeTypes := normalizeStringSlice (ap_AllowedMimeTypes p) False,
     ap_AllowedExtensions := normalizeStringSlice (ap_AllowedExtensions p) True,
     ap_DefaultAccessLevel := normalizeAccessLevelPtr (ap_DefaultAccessLevel p)\<rparr>"

definition validatePositiveInt64Ptr :: "string \<Rightarrow> int option \<Rightarrow> unit result" where
  "validatePositiveInt64Ptr field value =
     (case value of None \<Rightarrow> Inr () | Some v \<Rightarrow>
        if 0 < v then Inr () else Inl (ErrTenantPolicyInvalid field ''must be greater than zero''))"

definition validateAccessLevelPtr :: "string option \<Rightarrow> unit result" where
  "validateAccessLevelPtr value =
     (case value of None \<Rightarrow> Inr () | Some v \<Rightarrow>
        if v \<in> {''PRIVATE'', ''PUBLIC''} then Inr ()
        else Inl (ErrTenantPolicyInvalid ''defaultAccessLevel'' ''must be PUBLIC or PRIVATE''))"

definition TenantPolicy_Validate :: "admin_TenantPolicy \<Rightarrow> unit result" where
  "TenantPolicy_Validate p =
     bindE (validatePositiveInt64Ptr ''maxStorageBytes'' (ap_MaxStorageBytes p)) (\<lambda>_.
     bindE (validatePositiveInt64Ptr ''maxFileCount'' (ap_MaxFileCount p)) (\<lambda>_.
     bindE (validatePositiveInt64Ptr ''maxSingleFileSize'' (ap_MaxSingleFileSize p)) (\<lambda>_.
     validateAccessLevelPtr (ap_DefaultAccessLevel p))))"

definition TenantPolicyPatch_Normalize :: "TenantPolicyPatch \<Rightarrow> TenantPolicyPatch" where
  "TenantPolicyPatch_Normalize p = \<lparr>pp_Policy = TenantPolicy_Normalize (pp_Policy p), pp_Reason = TrimSpace (pp_Reason p)\<rparr>"

definition TenantPolicyPatch_IsEmpty :: "TenantPolicyPatch \<Rightarrow> bool" where
  "TenantPolicyPatch_IsEmpty p \<longleftrightarrow>
     ap_MaxStorageBytes (pp_Policy p) = None \<and> ap_MaxFileCount (pp_Policy p) = None \<and>
     ap_MaxSingleFileSize (pp_Policy p) = None \<and> ap_AllowedMimeTypes (pp_Policy p) = None \<and>
     ap_AllowedExtensions (pp_Policy p) = None \<and> ap_DefaultAccessLevel (pp_Policy p) = None \<and>
     ap_AutoCreateEnabled (pp_Policy p) = None"

definition overlay :: "'a option \<Rightarrow> 'a option \<Rightarrow> 'a option" where
  "overlay patch current = (if patch \<noteq> None then patch else current)"

definition ApplyTo :: "TenantPolicyPatch \<Rightarrow> admin_TenantPolicy \<Rightarrow> admin_TenantPolicy" where
  "ApplyTo p current = \<lparr>
     ap_MaxStorageBytes = overlay (ap_MaxStorageBytes (pp_Policy p)) (ap_MaxStorageBytes current),
     ap_MaxFileCount = overlay (ap_MaxFileCount (pp_Policy p)) (ap_MaxFileCount current),
     ap_MaxSingleFileSize = overlay (ap_MaxSingleFileSize (pp_Policy p)) (ap_MaxSingleFileSize current),
     ap_AllowedMimeTypes = overlay (ap_AllowedMimeTypes (pp_Policy p)) (ap_AllowedMimeTypes current),
     ap_AllowedExtensions = overlay (ap_AllowedExtensions (pp_Policy p)) (ap_AllowedExtensions current),
     ap_DefaultAccessLevel = overlay (ap_DefaultAccessLevel (pp_Policy p)) (ap_DefaultAccessLevel current),
     ap_AutoCreateEnabled = overlay (ap_AutoCreateEnabled (pp_Policy p)) (ap_AutoCreateEnabled current)\<rparr>"

definition no_policy :: admin_TenantPolicy where
  "no_policy = \<lparr>ap_MaxStorageBytes = None, ap_MaxFileCount = None, ap_MaxSingleFileSize = None, ap_AllowedMimeTypes = None,
     ap_AllowedExtensions = None, ap_DefaultAccessLevel = None, ap_AutoCreateEnabled = None\<rparr>"

definition TenantPolicyPatch_Validate :: "TenantPolicyPatch \<Rightarrow> unit result" where
  "TenantPolicyPatch_Validate p = TenantPolicy_Validate (ApplyTo p no_policy)"

definition int64LimitTightens :: "int option \<Rightarrow> int option \<Rightarrow> bool" where
  "int64LimitTightens current nxt = (case (current, nxt) of
     (None, None) \<Rightarrow> False
   | (None, Some _) \<Rightarrow> True
   | (Some _, None) \<Rightarrow> False
   | (Some c, Some n) \<Rightarrow> n < c)"

text \<open>A slice is read with \<^verbatim>\<open>len\<close> and \<^verbatim>\<open>range\<close>, for which nil is empty.\<close>

definition slice :: "string list option \<Rightarrow> string list" where
  "slice v = (case v of None \<Rightarrow> [] | Some xs \<Rightarrow> xs)"

definition stringSetTightens :: "string list option \<Rightarrow> string list option \<Rightarrow> bool" where
  "stringSetTightens current nxt =
     (if slice nxt = [] then False
      else if slice current = [] then True
      else if list_ex (\<lambda>value. value \<notin> set (slice current)) (slice nxt) then False
      else length (slice nxt) < length (slice current))"

definition boolTightens :: "bool option \<Rightarrow> bool option \<Rightarrow> bool" where
  "boolTightens current nxt \<longleftrightarrow> current = Some True \<and> nxt = Some False"

definition TightensComparedTo :: "admin_TenantPolicy \<Rightarrow> admin_TenantPolicy \<Rightarrow> bool" where
  "TightensComparedTo p current \<longleftrightarrow>
     int64LimitTightens (ap_MaxStorageBytes current) (ap_MaxStorageBytes p) \<or>
     int64LimitTightens (ap_MaxFileCount current) (ap_MaxFileCount p) \<or>
     int64LimitTightens (ap_MaxSingleFileSize current) (ap_MaxSingleFileSize p) \<or>
     stringSetTightens (ap_AllowedMimeTypes current) (ap_AllowedMimeTypes p) \<or>
     stringSetTightens (ap_AllowedExtensions current) (ap_AllowedExtensions p) \<or>
     boolTightens (ap_AutoCreateEnabled current) (ap_AutoCreateEnabled p)"

subsection \<open>Rules\<close>

definition EnsureCreateTenant :: "AdminContext \<Rightarrow> string \<Rightarrow> unit result" where
  "EnsureCreateTenant c tenantID =
     bindE (AuthorizeOperation c OperationCreateTenant) (\<lambda>_. EnsureTenantScope c tenantID)"

definition EnsureTenantPatch :: "AdminContext \<Rightarrow> string \<Rightarrow> TenantPatch \<Rightarrow> unit result" where
  "EnsureTenantPatch c tenantID patch =
     bindE (AuthorizeOperation c OperationPatchTenant) (\<lambda>_.
     bindE (EnsureTenantScope c tenantID) (\<lambda>_.
     let patch' = TenantPatch_Normalize patch in
     if HasDestructiveChange patch' then RequireDestructiveReason (px_Reason patch') else Inr ()))"

definition EnsureTenantPolicyPatch :: "AdminContext \<Rightarrow> string \<Rightarrow> admin_TenantPolicy \<Rightarrow> TenantPolicyPatch \<Rightarrow> unit result" where
  "EnsureTenantPolicyPatch c tenantID current patch =
     bindE (AuthorizeOperation c OperationPatchTenantPolicy) (\<lambda>_.
     bindE (EnsureTenantScope c tenantID) (\<lambda>_.
     if TightensComparedTo (ApplyTo patch current) current then RequireDestructiveReason (pp_Reason patch) else Inr ()))"

subsection \<open>Repositories\<close>

definition scanTenant :: "tenant_row \<Rightarrow> Tenant" where
  "scanTenant r = \<lparr>
     tn_TenantID = te_tenant_id r, tn_TenantName = te_tenant_name r, tn_Status = te_status r,
     tn_ContactEmail = null_String (te_contact_email r), tn_Description = null_String (te_description r),
     tn_CreatedAt = te_created_at r, tn_UpdatedAt = te_updated_at r\<rparr>"

definition statusDeletedAt :: "string \<Rightarrow> time \<Rightarrow> time option" where
  "statusDeletedAt status updatedAt = (if status \<noteq> TenantStatusDeleted then None else Some updatedAt)"

definition admin_nullTime :: "time option \<Rightarrow> time option" where
  "admin_nullTime value = (case value of None \<Rightarrow> None | Some t \<Rightarrow> if IsZero t then None else Some t)"

definition insert_tenant :: "Tenant \<Rightarrow> database \<Rightarrow> go_error + unit \<times> database" where
  "insert_tenant tenant db =
     (let r = \<lparr>te_tenant_id = tn_TenantID tenant, te_tenant_name = tn_TenantName tenant, te_status = tn_Status tenant,
          te_contact_email = admin_nullString (tn_ContactEmail tenant),
          te_description = admin_nullString (tn_Description tenant),
          te_created_at = tn_CreatedAt tenant, te_updated_at = tn_UpdatedAt tenant,
          te_deleted_at = admin_nullTime (statusDeletedAt (tn_Status tenant) (tn_UpdatedAt tenant))\<rparr> in
      if \<not> tenant_row_check r then Inl (constraint_violation ''ck_tenants_status'')
      else if lookup_row te_tenant_id (tn_TenantID tenant) (tenants db) \<noteq> None
      then Inl (constraint_violation ''tenants_pkey'')
      else Inr ((), db\<lparr>tenants := tenants db @ [r]\<rparr>))"

definition TenantRepository_Create :: "env \<Rightarrow> Tenant \<Rightarrow> unit M" where
  "TenantRepository_Create env tenant =
     mapErrA (admin_wrapDBError ''create tenant'') (runSQL env (insert_tenant tenant))"

definition TenantRepository_GetByID :: "env \<Rightarrow> string \<Rightarrow> Tenant option M" where
  "TenantRepository_GetByID env tenantID =
     mapErrA (admin_wrapDBError ''get tenant'')
       (runSQL env (\<lambda>db. Inr (map_option scanTenant (lookup_row te_tenant_id tenantID (tenants db)), db)))"

definition patch_tenant_row :: "TenantPatch \<Rightarrow> time \<Rightarrow> tenant_row \<Rightarrow> tenant_row" where
  "patch_tenant_row patch now r = r\<lparr>
     te_tenant_name := (case px_TenantName patch of Some v \<Rightarrow> v | None \<Rightarrow> te_tenant_name r),
     te_status := (case px_Status patch of Some v \<Rightarrow> v | None \<Rightarrow> te_status r),
     te_contact_email := (case px_ContactEmail patch of Some v \<Rightarrow> Some v | None \<Rightarrow> te_contact_email r),
     te_description := (case px_Description patch of Some v \<Rightarrow> Some v | None \<Rightarrow> te_description r),
     te_deleted_at := (case px_Status patch of
         Some v \<Rightarrow> if v = ''DELETED'' then Some now else None
       | None \<Rightarrow> te_deleted_at r),
     te_updated_at := now\<rparr>"

definition update_tenant :: "string \<Rightarrow> TenantPatch \<Rightarrow> time \<Rightarrow> database \<Rightarrow> go_error + Tenant option \<times> database" where
  "update_tenant tenantID patch now db =
     (let p = (\<lambda>r. te_tenant_id r = tenantID) in
      if list_ex (\<lambda>r. p r \<and> \<not> tenant_row_check (patch_tenant_row patch now r)) (tenants db)
      then Inl (constraint_violation ''ck_tenants_status'')
      else Inr (map_option (\<lambda>r. scanTenant (patch_tenant_row patch now r)) (lookup_row te_tenant_id tenantID (tenants db)),
        db\<lparr>tenants := update_where p (patch_tenant_row patch now) (tenants db)\<rparr>))"

definition TenantRepository_Patch :: "env \<Rightarrow> string \<Rightarrow> TenantPatch \<Rightarrow> Tenant option M" where
  "TenantRepository_Patch env tenantID patch =
     bindA (Now env) (\<lambda>now.
     mapErrA (admin_wrapDBError ''patch tenant'') (runSQL env (update_tenant tenantID patch now)))"

definition defaultMaxStorageBytes :: int where "defaultMaxStorageBytes = 10 * 1024 * 1024 * 1024"
definition defaultMaxFileCount :: int where "defaultMaxFileCount = 100000"
definition defaultMaxSingleFileSize :: int where "defaultMaxSingleFileSize = 100 * 1024 * 1024"
definition defaultAllowedMimeTypes :: "string list" where
  "defaultAllowedMimeTypes = [''image/png'', ''image/jpeg'', ''application/pdf'']"
definition defaultAllowedExtensions :: "string list" where
  "defaultAllowedExtensions = [''png'', ''jpg'', ''jpeg'', ''pdf'']"

definition default_policy_row :: "string \<Rightarrow> time \<Rightarrow> policy_row" where
  "default_policy_row tenantID now = \<lparr>
     tp_tenant_id = tenantID, tp_max_storage_bytes = defaultMaxStorageBytes, tp_max_file_count = defaultMaxFileCount,
     tp_max_single_file_size = defaultMaxSingleFileSize, tp_allowed_mime_types = defaultAllowedMimeTypes,
     tp_allowed_extensions = defaultAllowedExtensions, tp_default_access_level = ''PRIVATE'',
     tp_auto_create_enabled = False, tp_created_at = now, tp_updated_at = now\<rparr>"

definition insert_policy :: "policy_row \<Rightarrow> database \<Rightarrow> go_error + unit \<times> database" where
  "insert_policy r db =
     (if \<not> policy_row_check r then Inl (constraint_violation ''ck_tenant_policies'')
      else if lookup_row tp_tenant_id (tp_tenant_id r) (tenant_policies db) \<noteq> None
      then Inl (constraint_violation ''tenant_policies_pkey'')
      else if lookup_row te_tenant_id (tp_tenant_id r) (tenants db) = None
      then Inl (constraint_violation ''fk_tenant_policies_tenant'')
      else Inr ((), db\<lparr>tenant_policies := tenant_policies db @ [r]\<rparr>))"

definition CreateDefault :: "env \<Rightarrow> string \<Rightarrow> unit M" where
  "CreateDefault env tenantID =
     bindA (Now env) (\<lambda>now.
     mapErrA (admin_wrapDBError ''create default tenant policy'') (runSQL env (insert_policy (default_policy_row tenantID now))))"

record TenantPolicyView =
  pv_TenantID :: string
  pv_Policy :: admin_TenantPolicy
  pv_CreatedAt :: time
  pv_UpdatedAt :: time

definition cloneStrings :: "string list \<Rightarrow> string list option" where
  "cloneStrings values = (if values = [] then None else Some values)"

definition scanTenantPolicy :: "policy_row \<Rightarrow> TenantPolicyView" where
  "scanTenantPolicy r = \<lparr>
     pv_TenantID = tp_tenant_id r,
     pv_Policy = TenantPolicy_Normalize \<lparr>
       ap_MaxStorageBytes = Some (tp_max_storage_bytes r), ap_MaxFileCount = Some (tp_max_file_count r),
       ap_MaxSingleFileSize = Some (tp_max_single_file_size r),
       ap_AllowedMimeTypes = cloneStrings (tp_allowed_mime_types r),
       ap_AllowedExtensions = cloneStrings (tp_allowed_extensions r),
       ap_DefaultAccessLevel = Some (tp_default_access_level r), ap_AutoCreateEnabled = Some (tp_auto_create_enabled r)\<rparr>,
     pv_CreatedAt = tp_created_at r, pv_UpdatedAt = tp_updated_at r\<rparr>"

definition query_policy :: "string \<Rightarrow> database \<Rightarrow> go_error + TenantPolicyView option \<times> database" where
  "query_policy tenantID db = Inr (map_option scanTenantPolicy (lookup_row tp_tenant_id tenantID (tenant_policies db)), db)"

definition PolicyRepository_GetByTenantID :: "env \<Rightarrow> string \<Rightarrow> TenantPolicyView option M" where
  "PolicyRepository_GetByTenantID env tenantID =
     mapErrA (admin_wrapDBError ''get tenant policy'') (runSQL env (query_policy tenantID))"

definition patch_policy_row :: "TenantPolicyPatch \<Rightarrow> time \<Rightarrow> policy_row \<Rightarrow> policy_row" where
  "patch_policy_row patch now r =
     (let p = pp_Policy patch in r\<lparr>
      tp_max_storage_bytes := (case ap_MaxStorageBytes p of Some v \<Rightarrow> v | None \<Rightarrow> tp_max_storage_bytes r),
      tp_max_file_count := (case ap_MaxFileCount p of Some v \<Rightarrow> v | None \<Rightarrow> tp_max_file_count r),
      tp_max_single_file_size := (case ap_MaxSingleFileSize p of Some v \<Rightarrow> v | None \<Rightarrow> tp_max_single_file_size r),
      tp_allowed_mime_types := (case ap_AllowedMimeTypes p of Some v \<Rightarrow> v | None \<Rightarrow> tp_allowed_mime_types r),
      tp_allowed_extensions := (case ap_AllowedExtensions p of Some v \<Rightarrow> v | None \<Rightarrow> tp_allowed_extensions r),
      tp_default_access_level := (case ap_DefaultAccessLevel p of Some v \<Rightarrow> v | None \<Rightarrow> tp_default_access_level r),
      tp_auto_create_enabled := (case ap_AutoCreateEnabled p of Some v \<Rightarrow> v | None \<Rightarrow> tp_auto_create_enabled r),
      tp_updated_at := now\<rparr>)"

definition update_policy :: "string \<Rightarrow> TenantPolicyPatch \<Rightarrow> time \<Rightarrow> database \<Rightarrow> go_error + TenantPolicyView option \<times> database" where
  "update_policy tenantID patch now db =
     (let p = (\<lambda>r. tp_tenant_id r = tenantID) in
      if list_ex (\<lambda>r. p r \<and> \<not> policy_row_check (patch_policy_row patch now r)) (tenant_policies db)
      then Inl (constraint_violation ''ck_tenant_policies'')
      else Inr (map_option (\<lambda>r. scanTenantPolicy (patch_policy_row patch now r)) (lookup_row tp_tenant_id tenantID (tenant_policies db)),
        db\<lparr>tenant_policies := update_where p (patch_policy_row patch now) (tenant_policies db)\<rparr>))"

definition PolicyRepository_Patch :: "env \<Rightarrow> string \<Rightarrow> TenantPolicyPatch \<Rightarrow> TenantPolicyView option M" where
  "PolicyRepository_Patch env tenantID patch =
     bindA (Now env) (\<lambda>now.
     mapErrA (admin_wrapDBError ''patch tenant policy'') (runSQL env (update_policy tenantID patch now)))"

definition insert_usage :: "string \<Rightarrow> time \<Rightarrow> database \<Rightarrow> go_error + unit \<times> database" where
  "insert_usage tenantID now db =
     (if lookup_row tu_tenant_id tenantID (tenant_usage db) \<noteq> None
      then Inl (constraint_violation ''tenant_usage_pkey'')
      else if lookup_row te_tenant_id tenantID (tenants db) = None
      then Inl (constraint_violation ''fk_tenant_usage_tenant'')
      else Inr ((), db\<lparr>tenant_usage := tenant_usage db @ [\<lparr>tu_tenant_id = tenantID, tu_used_storage_bytes = 0,
        tu_used_file_count = 0, tu_last_upload_at = None, tu_version = 0, tu_updated_at = now\<rparr>]\<rparr>))"

definition Usage_Initialize :: "env \<Rightarrow> string \<Rightarrow> unit M" where
  "Usage_Initialize env tenantID =
     bindA (Now env) (\<lambda>now.
     mapErrA (admin_wrapDBError ''initialize tenant usage'') (runSQL env (insert_usage tenantID now)))"

record TenantUsageView =
  uv_TenantID :: string
  uv_StorageBytes :: int
  uv_FileCount :: int
  uv_LastUploadAt :: "time option"
  uv_UpdatedAt :: time

definition scanTenantUsage :: "usage_row \<Rightarrow> TenantUsageView" where
  "scanTenantUsage r = \<lparr>uv_TenantID = tu_tenant_id r, uv_StorageBytes = tu_used_storage_bytes r,
     uv_FileCount = tu_used_file_count r, uv_LastUploadAt = tu_last_upload_at r, uv_UpdatedAt = tu_updated_at r\<rparr>"

definition Usage_GetByTenantID :: "env \<Rightarrow> string \<Rightarrow> TenantUsageView option M" where
  "Usage_GetByTenantID env tenantID =
     mapErrA (admin_wrapDBError ''get tenant usage'')
       (runSQL env (\<lambda>db. Inr (map_option scanTenantUsage (lookup_row tu_tenant_id tenantID (tenant_usage db)), db)))"

subsection \<open>Commands\<close>

definition validateOptionalEmail :: "string \<Rightarrow> unit result" where
  "validateOptionalEmail email =
     (if TrimSpace email = [] \<or> Contains (TrimSpace email) ''@'' then Inr ()
      else Inl (New CodeInvalidArgument ''contact email is invalid'' [(''field'', DStr ''contactEmail'')]))"

text \<open>The struct \<^verbatim>\<open>view.Tenant\<close> has the fields of \<^verbatim>\<open>domain.Tenant\<close>.\<close>

definition FromTenant :: "Tenant \<Rightarrow> Tenant" where
  "FromTenant value = value"

record CreateTenantCommand =
  xc_TenantID :: string
  xc_TenantName :: string
  xc_ContactEmail :: string
  xc_Description :: string
  xc_IdempotencyKey :: string
  xc_Auth :: AdminContext

definition createTenantBody :: "env \<Rightarrow> CreateTenantCommand \<Rightarrow> Tenant \<Rightarrow> unit M" where
  "createTenantBody env command tenant =
     bindA (TenantRepository_Create env tenant) (\<lambda>_.
     bindA (CreateDefault env (tn_TenantID tenant)) (\<lambda>_.
     bindA (Usage_Initialize env (tn_TenantID tenant)) (\<lambda>_.
     bindA (newAuditRecord env (xc_Auth command) (tn_TenantID tenant) ''tenant.create'' ''tenant'' (tn_TenantID tenant)
       [(''tenantName'', PStr (tn_TenantName tenant)), (''status'', PStr (tn_Status tenant)),
        (''idempotencyKey'', PStr (optionalField (xc_IdempotencyKey command)))]) (\<lambda>record.
     AuditLog_Append env record))))"

definition CreateTenant :: "env \<Rightarrow> CreateTenantCommand \<Rightarrow> Tenant M" where
  "CreateTenant env command =
     bindA (liftA (requiredField (xc_TenantID command) ''tenantId'')) (\<lambda>tenantID.
     bindA (liftA (requiredField (xc_TenantName command) ''tenantName'')) (\<lambda>tenantName.
     bindA (liftA (validateOptionalEmail (xc_ContactEmail command))) (\<lambda>_.
     bindA (liftA (EnsureCreateTenant (xc_Auth command) tenantID)) (\<lambda>_.
     bindA (Now env) (\<lambda>now.
     let tenant = \<lparr>tn_TenantID = tenantID, tn_TenantName = tenantName, tn_Status = TenantStatusActive,
           tn_ContactEmail = optionalField (xc_ContactEmail command), tn_Description = optionalField (xc_Description command),
           tn_CreatedAt = now, tn_UpdatedAt = now\<rparr> in
     bindA (admin_WithinTransaction env (createTenantBody env command tenant)) (\<lambda>_.
     returnA (FromTenant tenant)))))))"

record PatchTenantCommand =
  xp_TenantID :: string
  xp_Patch :: TenantPatch
  xp_IdempotencyKey :: string
  xp_Auth :: AdminContext

definition opt_detail :: "string \<Rightarrow> ('a \<Rightarrow> pval) \<Rightarrow> 'a option \<Rightarrow> (string \<times> pval) list" where
  "opt_detail key f v = (case v of None \<Rightarrow> [] | Some x \<Rightarrow> [(key, f x)])"

definition tenantPatchDetails :: "TenantPatch \<Rightarrow> string \<Rightarrow> (string \<times> pval) list" where
  "tenantPatchDetails patch idempotencyKey =
     [(''idempotencyKey'', PStr (optionalField idempotencyKey))] @
     opt_detail ''tenantName'' PStr (px_TenantName patch) @
     opt_detail ''status'' PStr (px_Status patch) @
     opt_detail ''contactEmail'' PStr (px_ContactEmail patch) @
     opt_detail ''description'' PStr (px_Description patch) @
     (if px_Reason patch \<noteq> [] then [(''reason'', PStr (px_Reason patch))] else [])"

definition patchTenantBody :: "env \<Rightarrow> PatchTenantCommand \<Rightarrow> string \<Rightarrow> TenantPatch \<Rightarrow> Tenant M" where
  "patchTenantBody env command tenantID patch =
     bindA (TenantRepository_Patch env tenantID patch) (\<lambda>updated.
     case updated of
       None \<Rightarrow> throwA (ErrTenantNotFound tenantID)
     | Some tenant \<Rightarrow>
         bindA (newAuditRecord env (xp_Auth command) tenantID ''tenant.patch'' ''tenant'' tenantID
           (tenantPatchDetails patch (xp_IdempotencyKey command))) (\<lambda>record.
         bindA (AuditLog_Append env record) (\<lambda>_.
         returnA tenant)))"

definition PatchTenant :: "env \<Rightarrow> PatchTenantCommand \<Rightarrow> Tenant M" where
  "PatchTenant env command =
     bindA (liftA (requiredField (xp_TenantID command) ''tenantId'')) (\<lambda>tenantID.
     let patch = TenantPatch_Normalize (xp_Patch command) in
     bindA (liftA (failIf (TenantPatch_IsEmpty patch)
       (New CodeInvalidArgument ''tenant patch is empty'' [(''field'', DStr ''body'')]))) (\<lambda>_.
     bindA (liftA (case px_Status patch of None \<Rightarrow> Inr () | Some s \<Rightarrow> TenantStatus_Validate s)) (\<lambda>_.
     bindA (liftA (case px_ContactEmail patch of None \<Rightarrow> Inr () | Some e \<Rightarrow> validateOptionalEmail e)) (\<lambda>_.
     bindA (liftA (EnsureTenantPatch (xp_Auth command) tenantID patch)) (\<lambda>_.
     bindA (admin_WithinTransaction env (patchTenantBody env command tenantID patch)) (\<lambda>updated.
     returnA (FromTenant updated)))))))"

record PatchTenantPolicyCommand =
  xq_TenantID :: string
  xq_Patch :: TenantPolicyPatch
  xq_IdempotencyKey :: string
  xq_Auth :: AdminContext

definition tenantPolicyPatchDetails :: "TenantPolicyPatch \<Rightarrow> string \<Rightarrow> (string \<times> pval) list" where
  "tenantPolicyPatchDetails patch idempotencyKey =
     (let p = pp_Policy patch in
      [(''idempotencyKey'', PStr (optionalField idempotencyKey))] @
      opt_detail ''maxStorageBytes'' PInt (ap_MaxStorageBytes p) @
      opt_detail ''maxFileCount'' PInt (ap_MaxFileCount p) @
      opt_detail ''maxSingleFileSize'' PInt (ap_MaxSingleFileSize p) @
      opt_detail ''allowedMimeTypes'' PStrs (ap_AllowedMimeTypes p) @
      opt_detail ''allowedExtensions'' PStrs (ap_AllowedExtensions p) @
      opt_detail ''defaultAccessLevel'' PStr (ap_DefaultAccessLevel p) @
      opt_detail ''autoCreateEnabled'' PBool (ap_AutoCreateEnabled p) @
      (if pp_Reason patch \<noteq> [] then [(''reason'', PStr (pp_Reason patch))] else []))"

definition patchPolicyBody :: "env \<Rightarrow> PatchTenantPolicyCommand \<Rightarrow> string \<Rightarrow> TenantPolicyPatch \<Rightarrow> TenantPolicyView M" where
  "patchPolicyBody env command tenantID patch =
     bindA (PolicyRepository_GetByTenantID env tenantID) (\<lambda>found.
     case found of
       None \<Rightarrow> throwA (ErrTenantNotFound tenantID)
     | Some current \<Rightarrow>
         bindA (liftA (EnsureTenantPolicyPatch (xq_Auth command) tenantID (TenantPolicy_Normalize (pv_Policy current)) patch)) (\<lambda>_.
         bindA (PolicyRepository_Patch env tenantID patch) (\<lambda>updated.
         case updated of
           None \<Rightarrow> throwA (ErrTenantNotFound tenantID)
         | Some view \<Rightarrow>
             bindA (newAuditRecord env (xq_Auth command) tenantID ''tenant_policy.patch'' ''tenantPolicy'' tenantID
               (tenantPolicyPatchDetails patch (xq_IdempotencyKey command))) (\<lambda>record.
             bindA (AuditLog_Append env record) (\<lambda>_.
             returnA view)))))"

definition FromTenantPolicy :: "TenantPolicyView \<Rightarrow> TenantPolicyView" where
  "FromTenantPolicy value = value\<lparr>pv_Policy := TenantPolicy_Normalize (pv_Policy value)\<rparr>"

definition PatchTenantPolicy :: "env \<Rightarrow> PatchTenantPolicyCommand \<Rightarrow> TenantPolicyView M" where
  "PatchTenantPolicy env command =
     bindA (liftA (requiredField (xq_TenantID command) ''tenantId'')) (\<lambda>tenantID.
     let patch = TenantPolicyPatch_Normalize (xq_Patch command) in
     bindA (liftA (failIf (TenantPolicyPatch_IsEmpty patch)
       (New CodeInvalidArgument ''tenant policy patch is empty'' [(''field'', DStr ''body'')]))) (\<lambda>_.
     bindA (liftA (TenantPolicyPatch_Validate patch)) (\<lambda>_.
     bindA (admin_WithinTransaction env (patchPolicyBody env command tenantID patch)) (\<lambda>updated.
     returnA (FromTenantPolicy updated)))))"

end
