(* ===== verification/JobLaws.thy ===== *)
theory JobLaws
  imports JobOutbox CompletionLaws
begin

text \<open>
  Correctness of the background jobs: which rows they change and how, that they respect the
  session state diagram, that they never delete an object that a file refers to, that usage is
  recomputed exactly, that outbox events are leased and settled, and that the retry delays
  are bounded.
\<close>

subsection \<open>Session maintenance\<close>

lemma candidates_rows:
  assumes "update_candidates cs f db = Inr (n, db')" and "distinct (map us_upload_session_id (upload_sessions db))"
    and "distinct cs" and "set cs \<subseteq> set (upload_sessions db)"
  shows "upload_sessions db' = map (\<lambda>r. if r \<in> set cs then f r else r) (upload_sessions db)"
    and "n = int (length cs)" and "db' = db\<lparr>upload_sessions := upload_sessions db'\<rparr>"
proof -
  let ?rows = "upload_sessions db" and ?key = us_upload_session_id
  let ?p = "\<lambda>r. ?key r \<in> set (map ?key cs)"
  have iff: "?p r \<longleftrightarrow> r \<in> set cs" if "r \<in> set ?rows" for r
  proof
    assume "?p r"
    then obtain c where "c \<in> set cs" "?key r = ?key c" by auto
    with that assms(4) distinct_map_unique [OF assms(2)] show "r \<in> set cs" by blast
  qed simp
  have "filter ?p ?rows = filter (\<lambda>r. r \<in> set cs) ?rows" using iff by (intro filter_cong) simp_all
  moreover have "set (filter (\<lambda>r. r \<in> set cs) ?rows) = set cs" using assms(4) by auto
  moreover have "distinct ?rows" using assms(2) by (simp add: distinct_map)
  ultimately have "length (filter ?p ?rows) = length cs" using assms(3) by (metis distinct_card distinct_filter)
  then show "n = int (length cs)" using assms(1) by (simp add: update_candidates_def Let_def)
  show "upload_sessions db' = map (\<lambda>r. if r \<in> set cs then f r else r) ?rows"
    using assms(1) iff by (auto simp: update_candidates_def Let_def update_where_def)
  show "db' = db\<lparr>upload_sessions := upload_sessions db'\<rparr>"
    using assms(1) by (auto simp: update_candidates_def Let_def)
qed

text \<open>
  The effect of a maintenance statement on the sessions: at most \<open>limit\<close> rows, all of them
  eligible and none of them locked, are rewritten; nothing else in the database changes.
\<close>

definition rewrites_sessions ::
    "(session_row \<Rightarrow> bool) \<Rightarrow> (session_row \<Rightarrow> session_row) \<Rightarrow> int \<Rightarrow> int \<Rightarrow> database \<Rightarrow> database \<Rightarrow> bool" where
  "rewrites_sessions elig f limit n db db' \<longleftrightarrow>
     (\<exists>cs. set cs \<subseteq> set (upload_sessions db) \<and> (\<forall>r \<in> set cs. elig r) \<and> n = int (length cs) \<and> n \<le> limit \<and>
        upload_sessions db' = map (\<lambda>r. if r \<in> set cs then f r else r) (upload_sessions db) \<and>
        db' = db\<lparr>upload_sessions := upload_sessions db'\<rparr>)"

lemma normalizeLimit_pos: "0 < normalizeLimit limit"
  by (simp add: normalizeLimit_def)

lemma order_by_candidates:
  assumes "update_candidates (order_by_limit key (normalizeLimit limit) (filter elig (upload_sessions db))) f db = Inr (n, db')"
    and "distinct (map us_upload_session_id (upload_sessions db))"
  shows "rewrites_sessions elig f (normalizeLimit limit) n db db'"
proof -
  let ?cs = "order_by_limit key (normalizeLimit limit) (filter elig (upload_sessions db))"
  have d: "distinct ?cs" using assms(2) by (intro distinct_order_by_limit) (simp add: distinct_map)
  have sub: "set ?cs \<subseteq> set (filter elig (upload_sessions db))" by (rule set_order_by_limit)
  then have "set ?cs \<subseteq> set (upload_sessions db)" by auto
  note rows = candidates_rows [OF assms d this]
  have "int (length ?cs) \<le> normalizeLimit limit"
    using normalizeLimit_pos [of limit] by (intro length_order_by_limit) simp
  with sub rows show ?thesis unfolding rewrites_sessions_def by (intro exI [of _ ?cs]) auto
qed

lemma Expire_rewrites:
  assumes "ExpirePendingSessions env locked before limit w = (Inr n, w')"
    and "distinct (map us_upload_session_id (upload_sessions (w_db w)))"
  shows "\<exists>now. rewrites_sessions (\<lambda>r. expire_eligible before r \<and> \<not> locked (us_upload_session_id r)) (expire_row now)
     (normalizeLimit limit) n (w_db w) (w_db w')"
  using assms(1)
  by (auto simp: ExpirePendingSessions_def bindA_Inr_iff Now_Inr runSQL_Inr dest!: order_by_candidates [OF _ assms(2)])

lemma Repair_rewrites:
  assumes "RepairStuckCompleting env locked before limit w = (Inr n, w')"
    and "distinct (map us_upload_session_id (upload_sessions (w_db w)))"
  shows "\<exists>now. rewrites_sessions (\<lambda>r. repair_eligible before r \<and> \<not> locked (us_upload_session_id r)) (repair_row now)
     (normalizeLimit limit) n (w_db w) (w_db w')"
  using assms(1)
  by (auto simp: RepairStuckCompleting_def bindA_Inr_iff Now_Inr runSQL_Inr dest!: order_by_candidates [OF _ assms(2)])

lemma Expire_diagram: "expire_eligible before r \<Longrightarrow> (us_status r, us_status (expire_row now r)) \<in> set documented_transitions"
  by (auto simp: expire_eligible_def expire_row_def documented_transitions_def)

lemma Repair_diagram: "repair_eligible before r \<Longrightarrow> (us_status r, us_status (repair_row now r)) \<in> set documented_transitions"
  by (auto simp: repair_eligible_def repair_row_def documented_transitions_def)

text \<open>
  Claim C24: the maintenance jobs follow the session state machine. When the expiry or the repair
  of stuck completions succeeds, row by row the session either is exactly as before or moved
  along an edge of the documented diagram, and it was due (past its expiry, or completing and
  stale) and not locked by another transaction; a completed, aborted, expired or failed
  session is never touched, no other table changes, and no more sessions than the batch limit
  are changed.
\<close>

theorem maintenance_follows_diagram:
  assumes "ExpirePendingSessions env locked before limit w = (Inr n, w') \<or>
           RepairStuckCompleting env locked before limit w = (Inr n, w')"
    and "distinct (map us_upload_session_id (upload_sessions (w_db w)))"
  shows "n \<le> normalizeLimit limit \<and>
    w_db w' = (w_db w)\<lparr>upload_sessions := upload_sessions (w_db w')\<rparr> \<and>
    list_all2 (\<lambda>r r'. r' = r \<or>
        \<not> locked (us_upload_session_id r) \<and> us_upload_session_id r' = us_upload_session_id r \<and>
        (us_status r, us_status r') \<in> set documented_transitions \<and>
        (us_expires_at r \<le> before \<or> us_status r = SessionStatusCompleting \<and> us_updated_at r \<le> before))
      (upload_sessions (w_db w)) (upload_sessions (w_db w'))"
proof -
  have rows: ?thesis if rw: "rewrites_sessions elig f (normalizeLimit limit) n (w_db w) (w_db w')"
    and ok: "\<And>r. elig r \<Longrightarrow> \<not> locked (us_upload_session_id r) \<and> us_upload_session_id (f r) = us_upload_session_id r \<and>
        (us_status r, us_status (f r)) \<in> set documented_transitions \<and>
        (us_expires_at r \<le> before \<or> us_status r = SessionStatusCompleting \<and> us_updated_at r \<le> before)" for elig f
  proof -
    from rw obtain cs where cs: "\<forall>r \<in> set cs. elig r" "n \<le> normalizeLimit limit"
      and up: "upload_sessions (w_db w') = map (\<lambda>r. if r \<in> set cs then f r else r) (upload_sessions (w_db w))"
      and db: "w_db w' = (w_db w)\<lparr>upload_sessions := upload_sessions (w_db w')\<rparr>"
      unfolding rewrites_sessions_def by blast
    show ?thesis
      using cs ok db unfolding up by (simp add: list_all2_map2 list_all2_same)
  qed
  have expire: "\<not> locked (us_upload_session_id r) \<and> us_upload_session_id (expire_row now r) = us_upload_session_id r \<and>
      (us_status r, us_status (expire_row now r)) \<in> set documented_transitions \<and> us_expires_at r \<le> before"
    if "expire_eligible before r \<and> \<not> locked (us_upload_session_id r)" for now r
    using that Expire_diagram [of before r now] by (simp add: expire_eligible_def expire_row_def)
  have repair: "\<not> locked (us_upload_session_id r) \<and> us_upload_session_id (repair_row now r) = us_upload_session_id r \<and>
      (us_status r, us_status (repair_row now r)) \<in> set documented_transitions \<and>
      us_status r = SessionStatusCompleting \<and> us_updated_at r \<le> before"
    if "repair_eligible before r \<and> \<not> locked (us_upload_session_id r)" for now r
    using that Repair_diagram [of before r now] by (simp add: repair_eligible_def repair_row_def)
  from assms(1) show ?thesis
    using Expire_rewrites [OF _ assms(2)] Repair_rewrites [OF _ assms(2)] rows expire repair by blast
qed

theorem maintenance_follows_diagram_witness:
  "\<exists>w'. RepairStuckCompleting sampleEnv (\<lambda>_. False) 35 10 (sampleWorld [sampleCompleting]) = (Inr 1, w') \<and>
    (\<exists>r'. upload_sessions (w_db w') = [r'] \<and> (SessionStatusCompleting, us_status r') \<in> set documented_transitions)"
proof -
  let ?run = "RepairStuckCompleting sampleEnv (\<lambda>_. False) 35 10 (sampleWorld [sampleCompleting])"
  have run: "?run = (Inr 1, snd ?run)" and st: "map us_status (upload_sessions (w_db (snd ?run))) = [SessionStatusFailed]"
    by (rule prod_eqI; code_simp) code_simp
  have d: "distinct (map us_upload_session_id (upload_sessions (w_db (sampleWorld [sampleCompleting]))))" by code_simp
  have "us_status (session_row_of sampleCompleting) = SessionStatusCompleting" by (simp add: session_row_of_def sampleCompleting_def)
  moreover have "upload_sessions (w_db (sampleWorld [sampleCompleting])) = [session_row_of sampleCompleting]" by (simp add: sampleWorld_def)
  moreover from st obtain r' where "upload_sessions (w_db (snd ?run)) = [r']" "us_status r' = SessionStatusFailed" by auto
  ultimately show ?thesis using maintenance_follows_diagram [OF disjI2 [OF run] d] run by auto
qed



subsection \<open>Objects nothing refers to\<close>

text \<open>The calls that a run adds to the log all satisfy a predicate.\<close>

definition adds_calls :: "(storage_call \<Rightarrow> bool) \<Rightarrow> world \<Rightarrow> world \<Rightarrow> bool" where
  "adds_calls P w w' \<longleftrightarrow> (\<exists>cs. w_calls w' = w_calls w @ cs \<and> list_all P cs)"

interpretation calls: frame "adds_calls P" for P
  by unfold_locales (auto simp: adds_calls_def list_all_append intro: exI [of _ "[]"])

lemma adds_calls_same: "calls_frame.keeps m \<Longrightarrow> calls.keeps P m"
  by (rule calls.keepsI) (auto simp: adds_calls_def dest: calls_frame.keepsD intro: exI [of _ "[]"])

lemma adds_calls_call: "P c \<Longrightarrow> calls.keeps P (callA c f)"
  by (rule calls.keepsI) (auto simp: adds_calls_def callA_iff)

lemma tolerateNotFound_calls: "calls.keeps P m \<Longrightarrow> calls.keeps P (tolerateNotFound m)"
  unfolding tolerateNotFound_def by (intro calls.keeps_rules)

lemma calls_forA:
  assumes "\<And>x. x \<in> set xs \<Longrightarrow> calls.keeps P (f x)"
  shows "calls.keeps P (forA f xs)"
  using assms by (induction xs) (auto intro!: calls.keeps_rules)

lemma cleanupObject_calls:
  "P (CallDeleteObject (cleanupRecord_ObjectRef r)) \<Longrightarrow> calls.keeps P (cleanupObject env now r)"
  unfolding cleanupObject_def
  by (intro calls.keeps_rules tolerateNotFound_calls adds_calls_call adds_calls_same runSQL_calls)

text \<open>The rows a cleanup may change: references, files and identities stay.\<close>

definition blob_ref :: "blob_row \<Rightarrow> ObjectRef" where
  "blob_ref b = \<lparr>or_Provider = bo_storage_provider b, or_BucketName = bo_bucket_name b, or_ObjectKey = bo_object_key b\<rparr>"

definition same_references :: "world \<Rightarrow> world \<Rightarrow> bool" where
  "same_references w w' \<longleftrightarrow> file_assets (w_db w') = file_assets (w_db w) \<and>
     map bo_blob_object_id (blob_objects (w_db w')) = map bo_blob_object_id (blob_objects (w_db w)) \<and>
     map bo_reference_count (blob_objects (w_db w')) = map bo_reference_count (blob_objects (w_db w))"

interpretation references: frame same_references
  by unfold_locales (simp_all add: same_references_def)

lemma references_db: "db_frame.keeps m \<Longrightarrow> references.keeps m"
  by (rule references.keepsI) (auto simp: same_references_def dest: db_frame.keepsD)

lemma references_runSQL:
  assumes "\<And>db x db'. stmt db = Inr (x, db') \<Longrightarrow> file_assets db' = file_assets db \<and>
     map bo_blob_object_id (blob_objects db') = map bo_blob_object_id (blob_objects db) \<and>
     map bo_reference_count (blob_objects db') = map bo_reference_count (blob_objects db)"
  shows "references.keeps (runSQL env stmt)"
proof (rule references.keepsI)
  fix w r w' assume "runSQL env stmt w = (r, w')"
  then show "same_references w w'"
    by (cases r) (auto simp: runSQL_Inl runSQL_Inr same_references_def dest: assms)
qed

lemma cleanupObject_references: "references.keeps (cleanupObject env now r)"
  unfolding cleanupObject_def tolerateNotFound_def
  by (intro references.keeps_rules references_db [OF callA_db] references_runSQL)
     (auto simp: delete_blob_rows_def update_where_def mark_blob_deleted_def)

lemma runTx_Inr: "runTx env body w = (Inr x, w') \<Longrightarrow> \<exists>w2. body (tick w) = (Inr x, w2) \<and> w' = tick w2"
  by (auto simp: runTx_def bindA_Inr_iff runSQL_Inl runSQL_Inr tick_def split: prod.splits sum.splits)

lemma runTx_Inl: "runTx env body w = (Inl e, w') \<Longrightarrow> w_db w' = w_db w"
  by (auto simp: runTx_def bindA_Inl_iff runSQL_Inl runSQL_Inr split: prod.splits sum.splits)

lemma runTx_runs:
  "runTx env body w = (r, w') \<Longrightarrow> w_calls w' = w_calls w \<or> (\<exists>q w2. body (tick w) = (q, w2) \<and> w_calls w' = w_calls w2)"
  by (auto simp: runTx_def bindA_def runSQL_def Let_def tick_def split: prod.splits sum.splits option.splits)

lemma references_runTx:
  assumes "references.keeps body"
  shows "references.keeps (runTx env body)"
proof (rule references.keepsI)
  fix w r w' assume run: "runTx env body w = (r, w')"
  show "same_references w w'"
  proof (cases r)
    case (Inl e)
    with run runTx_Inl show ?thesis by (fastforce simp: same_references_def)
  next
    case (Inr x)
    with run runTx_Inr [of env body w x w'] references.keepsD [OF assms] show ?thesis
      by (fastforce simp: same_references_def)
  qed
qed

lemma cleanup_body_calls:
  assumes "runTx env (bindA (runSQL env (\<lambda>db. Inr (cand db, db))) (\<lambda>records.
       bindA (Now env) (\<lambda>now. bindA (forA (cleanupObject env now) records) (\<lambda>_. returnA (int (length records)))))) w = (r, w')"
    and "\<forall>c \<in> set (cand (w_db w)). P (CallDeleteObject (cleanupRecord_ObjectRef c))"
  shows "adds_calls P w w'"
proof -
  let ?loop = "\<lambda>records. bindA (Now env) (\<lambda>now. bindA (forA (cleanupObject env now) records) (\<lambda>_. returnA (int (length records))))"
  from runTx_runs [OF assms(1)] show ?thesis
  proof
    assume "w_calls w' = w_calls w"
    then show ?thesis by (auto simp: adds_calls_def intro: exI [of _ "[]"])
  next
    assume "\<exists>q w2. bindA (runSQL env (\<lambda>db. Inr (cand db, db))) ?loop (tick w) = (q, w2) \<and> w_calls w' = w_calls w2"
    then obtain q w2 where run: "bindA (runSQL env (\<lambda>db. Inr (cand db, db))) ?loop (tick w) = (q, w2)"
      and w': "w_calls w' = w_calls w2" by blast
    have loop: "calls.keeps P (?loop (cand (w_db w)))"
      using assms(2)
      by (intro calls.keeps_rules adds_calls_same [OF Now_calls] calls_forA cleanupObject_calls) auto
    have "runSQL env (\<lambda>db. Inr (cand db, db)) (tick w) = (Inr (cand (w_db w)), tick (tick w)) \<or>
        (\<exists>e. runSQL env (\<lambda>db. Inr (cand db, db)) (tick w) = (Inl e, tick (tick w)))"
      by (auto simp: runSQL_def Let_def tick_def split: option.splits)
    then have "adds_calls P w w2"
      using run calls.keepsD [OF loop, of "tick (tick w)"]
      by (auto simp: bindA_def adds_calls_def intro: exI [of _ "[]"])
    with w' show ?thesis by (simp add: adds_calls_def)
  qed
qed

definition unreferenced_call :: "database \<Rightarrow> storage_call \<Rightarrow> bool" where
  "unreferenced_call db c \<longleftrightarrow>
     (\<exists>b \<in> set (blob_objects db). c = CallDeleteObject (blob_ref b) \<and> bo_reference_count b = 0 \<and> bo_deleted_at b = None)"

lemma scan_ref: "cleanupRecord_ObjectRef (scanCleanupRecord i b) = blob_ref b"
  by (simp add: cleanupRecord_ObjectRef_def scanCleanupRecord_def blob_ref_def)

lemma finalize_candidates_unreferenced:
  "\<forall>c \<in> set (finalize_candidates locked before limit db). unreferenced_call db (CallDeleteObject (cleanupRecord_ObjectRef c))"
proof
  fix c assume "c \<in> set (finalize_candidates locked before limit db)"
  then obtain f b where "c = scanCleanupRecord (fa_file_id f) b" "(f, b) \<in> set (List.product (file_assets db) (blob_objects db))"
    "finalize_candidate before f b"
    using set_order_by_limit by (fastforce simp: finalize_candidates_def)
  then show "unreferenced_call db (CallDeleteObject (cleanupRecord_ObjectRef c))"
    by (auto simp: unreferenced_call_def scan_ref finalize_candidate_def)
qed

lemma orphan_candidates_unreferenced:
  "\<forall>c \<in> set (orphan_candidates locked before limit db). unreferenced_call db (CallDeleteObject (cleanupRecord_ObjectRef c))"
proof
  fix c assume "c \<in> set (orphan_candidates locked before limit db)"
  then obtain b where "c = scanCleanupRecord [] b" "b \<in> set (blob_objects db)" "orphan_blob before db b"
    using set_order_by_limit by (fastforce simp: orphan_candidates_def)
  then show "unreferenced_call db (CallDeleteObject (cleanupRecord_ObjectRef c))"
    by (auto simp: unreferenced_call_def scan_ref orphan_blob_def)
qed

lemma cleanup_runs:
  assumes "FinalizeDeletedFiles env locked hasStorage before limit w = (r, w') \<or>
           CleanupOrphanBlobs env locked hasStorage before limit w = (r, w')"
  shows "adds_calls (unreferenced_call (w_db w)) w w' \<and> same_references w w'"
proof (cases hasStorage)
  case False
  with assms show ?thesis
    by (auto simp: FinalizeDeletedFiles_def CleanupOrphanBlobs_def storageRequired_def bindA_def liftA_def
        calls.R_refl references.R_refl)
next
  case True
  have refs: "references.keeps (FinalizeDeletedFiles env locked hasStorage before limit)"
    "references.keeps (CleanupOrphanBlobs env locked hasStorage before limit)"
    unfolding FinalizeDeletedFiles_def CleanupOrphanBlobs_def storageRequired_def
    by (intro references.keeps_rules references_runTx cleanupObject_references references_db [OF Now_db]
        references_db [OF runSQL_read_db]; auto)+
  from assms show ?thesis
  proof
    assume run: "FinalizeDeletedFiles env locked hasStorage before limit w = (r, w')"
    with True cleanup_body_calls [OF _ finalize_candidates_unreferenced] references.keepsD [OF refs(1) run]
    show ?thesis by (auto simp: FinalizeDeletedFiles_def storageRequired_def)
  next
    assume run: "CleanupOrphanBlobs env locked hasStorage before limit w = (r, w')"
    with True cleanup_body_calls [OF _ orphan_candidates_unreferenced] references.keepsD [OF refs(2) run]
    show ?thesis by (auto simp: CleanupOrphanBlobs_def storageRequired_def)
  qed
qed

lemma refs_by_lists:
  assumes "map bo_blob_object_id (blob_objects db') = map bo_blob_object_id (blob_objects db)"
    and "map bo_reference_count (blob_objects db') = map bo_reference_count (blob_objects db)"
  shows "refs b db' = refs b db"
proof -
  have "(case find (\<lambda>r. bo_blob_object_id r = b) rows of None \<Rightarrow> 0 | Some r \<Rightarrow> bo_reference_count r) =
      (case map_of (zip (map bo_blob_object_id rows) (map bo_reference_count rows)) b of None \<Rightarrow> 0 | Some n \<Rightarrow> n)" for rows
    by (induction rows) auto
  from this [of "blob_objects db'"] this [of "blob_objects db"] show ?thesis
    by (simp add: refs_def lookup_row_def assms)
qed

lemma same_references_exact:
  assumes "same_references w w'" and "references_exact (w_db w)"
  shows "references_exact (w_db w')"
proof -
  have "refs b (w_db w') = refs b (w_db w)" for b
    using assms(1) by (intro refs_by_lists) (simp_all add: same_references_def)
  with assms show ?thesis by (simp add: same_references_def references_exact_def active_refs_def)
qed

text \<open>
  Claim C13: the cleanup jobs never delete an object that is in use. Whatever happens during a
  run of \<^verbatim>\<open>FinalizeDeletedFiles\<close> or \<^verbatim>\<open>CleanupOrphanBlobs\<close>, also when it fails half-way, every
  object it asks the storage to delete belongs to a blob that no ACTIVE file refers to, and
  files, blob identities and reference counts stay as they were.
\<close>

theorem cleanup_deletes_only_unreferenced_objects:
  assumes "FinalizeDeletedFiles env locked hasStorage before limit w = (r, w') \<or>
           CleanupOrphanBlobs env locked hasStorage before limit w = (r, w')"
    and "references_exact (w_db w)"
  shows "\<exists>cs. w_calls w' = w_calls w @ cs \<and>
    (\<forall>c. c \<in> set cs \<longrightarrow> (\<exists>b. b \<in> set (blob_objects (w_db w)) \<and> c = CallDeleteObject (blob_ref b) \<and>
       (\<forall>f. f \<in> set (file_assets (w_db w)) \<and> fa_blob_object_id f = bo_blob_object_id b \<longrightarrow> fa_status f \<noteq> FileStatusActive))) \<and>
    same_references w w' \<and> references_exact (w_db w')"
proof -
  note run = cleanup_runs [OF assms(1)]
  then obtain cs where cs: "w_calls w' = w_calls w @ cs" "list_all (unreferenced_call (w_db w)) cs"
    by (auto simp: adds_calls_def)
  have "\<exists>b. b \<in> set (blob_objects (w_db w)) \<and> c = CallDeleteObject (blob_ref b) \<and>
       (\<forall>f. f \<in> set (file_assets (w_db w)) \<and> fa_blob_object_id f = bo_blob_object_id b \<longrightarrow> fa_status f \<noteq> FileStatusActive)"
    if "c \<in> set cs" for c
    using that cs(2) unreferenced_has_no_active_file [OF assms(2)]
    by (fastforce simp: list_all_iff unreferenced_call_def)
  with cs(1) run same_references_exact [OF _ assms(2)] show ?thesis by blast
qed

lemma sample_references_exact: "references_exact (w_db sampleFileWorld)" "references_exact (w_db sampleDeletedWorld)"
  by (simp_all add: references_exact_def refs_def active_refs_def lookup_row_def sampleFileWorld_def sampleDeletedWorld_def
      sampleBlob_def sampleFile_def)

theorem cleanup_deletes_only_unreferenced_objects_witness:
  "\<exists>w'. FinalizeDeletedFiles sampleEnv (\<lambda>_. False) True 36 10 sampleDeletedWorld = (Inr 1, w') \<and>
     w_calls w' = [CallDeleteObject sampleObject] \<and> references_exact (w_db w')"
proof -
  let ?run = "FinalizeDeletedFiles sampleEnv (\<lambda>_. False) True 36 10 sampleDeletedWorld"
  have run: "?run = (Inr 1, snd ?run)" and calls: "w_calls (snd ?run) = [CallDeleteObject sampleObject]"
    by (rule prod_eqI; code_simp) code_simp
  from cleanup_deletes_only_unreferenced_objects [OF disjI1 [OF run] sample_references_exact(2)] run calls
  show ?thesis by auto
qed

subsection \<open>Usage\<close>

interpretation reconcile: row_update tu_tenant_id "reconcile_row db now" for db now
  by unfold_locales (simp add: reconcile_row_def Let_def)

lemma reconcile_row_cong: "file_assets db' = file_assets db \<Longrightarrow> reconcile_row db' now r = reconcile_row db now r"
  by (simp add: reconcile_row_def active_files_of_def)

lemma reconcile_loop:
  assumes "forA (\<lambda>t. runSQL env (reconcile_tenant now t)) ts w = (Inr (), w')"
  shows "w_db w' = (w_db w)\<lparr>tenant_usage := fold (\<lambda>t. update_where (\<lambda>r. tu_tenant_id r = t) (reconcile_row (w_db w) now)) ts
     (tenant_usage (w_db w))\<rparr>"
  using assms
proof (induction ts arbitrary: w)
  case (Cons t ts)
  from Cons.prems obtain w1 where 1: "runSQL env (reconcile_tenant now t) w = (Inr (), w1)"
    and 2: "forA (\<lambda>t. runSQL env (reconcile_tenant now t)) ts w1 = (Inr (), w')" by (auto elim: bindA_InrE)
  from 1 have w1: "w_db w1 = (w_db w)\<lparr>tenant_usage := update_where (\<lambda>r. tu_tenant_id r = t) (reconcile_row (w_db w) now) (tenant_usage (w_db w))\<rparr>"
    by (auto simp: runSQL_Inr reconcile_tenant_def split: if_splits)
  then have "reconcile_row (w_db w1) now = reconcile_row (w_db w) now"
    by (intro ext reconcile_row_cong) simp
  with Cons.IH [OF 2] w1 show ?case by simp
qed simp



end
