(* ===== verification/AdminLaws.thy ===== *)
theory AdminLaws
  imports AdminFiles JobLaws
begin

text \<open>
  Correctness of the admin service: who may do what, and that the deletion of a file is
  authorised, atomic, idempotent, gives back exactly what the upload of the file took, and
  announces itself with an event its consumer accepts.
\<close>

subsection \<open>Roles and scopes\<close>

lemma string_set_loop_global:
  "GlobalTenantScope \<in> TrimSpace ` set vs \<Longrightarrow> string_set_loop result vs = [GlobalTenantScope]"
proof (induction vs arbitrary: result)
  case (Cons v vs)
  show ?case
  proof (cases "TrimSpace v = GlobalTenantScope")
    case False
    with Cons.prems have "GlobalTenantScope \<in> TrimSpace ` set vs" by auto
    from Cons.IH [OF this] False show ?thesis by (simp add: Let_def)
  qed (simp add: Let_def GlobalTenantScope_def)
qed simp

lemma string_set_loop_plain:
  "GlobalTenantScope \<notin> TrimSpace ` set vs \<Longrightarrow>
     set (string_set_loop result vs) = set result \<union> (TrimSpace ` set vs - {[]})"
proof (induction vs arbitrary: result)
  case (Cons v vs)
  then have "GlobalTenantScope \<notin> TrimSpace ` set vs" "TrimSpace v \<noteq> GlobalTenantScope" by auto
  with Cons.IH [of result] Cons.IH [of "result @ [TrimSpace v]"] show ?case by (auto simp: Let_def)
qed simp

lemma normalizeStringSet_scope:
  "GlobalTenantScope \<in> set (normalizeStringSet vs True) \<longleftrightarrow>
     GlobalTenantScope \<in> TrimSpace ` set vs \<or> TrimSpace ` set vs \<subseteq> {[]}"
proof (cases "GlobalTenantScope \<in> TrimSpace ` set vs")
  case True
  then show ?thesis by (simp add: normalizeStringSet_def string_set_loop_global)
next
  case False
  from string_set_loop_plain [OF this, of "[]"]
  have loop: "set (string_set_loop [] vs) = TrimSpace ` set vs - {[]}" by simp
  then have "string_set_loop [] vs = [] \<longleftrightarrow> TrimSpace ` set vs \<subseteq> {[]}" by (metis Diff_eq_empty_iff set_empty)
  with loop False show ?thesis by (auto simp: normalizeStringSet_def Let_def)
qed

lemma normalizeStringSet_member:
  "GlobalTenantScope \<notin> set (normalizeStringSet vs True) \<Longrightarrow>
     set (normalizeStringSet vs True) = TrimSpace ` set vs - {[]}"
  using normalizeStringSet_scope [of vs] string_set_loop_plain [of vs "[]"]
  by (auto simp: normalizeStringSet_def Let_def split: if_splits)

lemma roles_loop_Inr:
  "roles_loop acc vs = Inr roles \<Longrightarrow> set roles = set acc \<union> (TrimSpace ` set vs - {[]})"
proof (induction vs arbitrary: acc)
  case (Cons v vs)
  then show ?case using Cons.IH [of acc] Cons.IH [of "acc @ [TrimSpace v]"] by (auto simp: Let_def split: if_splits)
qed simp

text \<open>
  The credentials decide what an administrator may do. From a token's claims the service
  builds a context exactly when it names a subject and at least one role and every role is
  known; then an operation with a rule is allowed exactly when one of the roles is at least
  the rule's minimum, and a tenant is in scope exactly when the token's scopes are empty,
  contain the wildcard, or name the tenant.
\<close>

theorem admin_authority_is_what_the_token_grants:
  assumes "NewAdminContext input = Inr c"
  shows "(AuthorizeOperation c operation = Inr () \<longleftrightarrow>
      (\<exists>rule r n m. RuleFor operation = Some rule \<and> r \<in> set (ai_Roles input) \<and> roleRank (TrimSpace r) = Some n \<and>
         roleRank (rule_MinimumRole rule) = Some m \<and> m \<le> n)) \<and>
    (TrimSpace tenantID \<noteq> [] \<longrightarrow> (EnsureTenantScope c tenantID = Inr () \<longleftrightarrow>
      TrimSpace ` set (ai_TenantScopes input) \<subseteq> {[]} \<or> GlobalTenantScope \<in> TrimSpace ` set (ai_TenantScopes input) \<or>
      TrimSpace tenantID \<in> TrimSpace ` set (ai_TenantScopes input)))"
proof -
  from assms obtain roles where roles: "roles_loop [] (ai_Roles input) = Inr roles"
    and c: "set (ai_Roles c) = set roles" "ai_TenantScopes c = normalizeStringSet (ai_TenantScopes input) True"
    by (auto simp: NewAdminContext_def normalizeRoles_def bindE_Inr_iff split: if_splits)
  have set: "set (ai_Roles c) = TrimSpace ` set (ai_Roles input) - {[]}" using roles_loop_Inr [OF roles] c(1) by simp
  have none: "roleRank [] = None" by (simp add: roleRank_def role_defs)
  have min: "HasMinimumRole c role \<longleftrightarrow> (\<exists>r n m. r \<in> set (ai_Roles input) \<and> roleRank (TrimSpace r) = Some n \<and>
      roleRank role = Some m \<and> m \<le> n)" for role
    using set none
    by (fastforce simp: HasMinimumRole_def list_ex_iff image_iff split: option.splits)
  have op: "AuthorizeOperation c operation = Inr () \<longleftrightarrow>
      (\<exists>rule. RuleFor operation = Some rule \<and> HasMinimumRole c (rule_MinimumRole rule))"
    by (auto simp: AuthorizeOperation_def split: option.splits)
  have "CanAccessTenant c (TrimSpace tenantID) \<longleftrightarrow>
      TrimSpace ` set (ai_TenantScopes input) \<subseteq> {[]} \<or> GlobalTenantScope \<in> TrimSpace ` set (ai_TenantScopes input) \<or>
      TrimSpace tenantID \<in> TrimSpace ` set (ai_TenantScopes input)" if "TrimSpace tenantID \<noteq> []"
    using that c(2) normalizeStringSet_scope [of "ai_TenantScopes input"] normalizeStringSet_member [of "ai_TenantScopes input"]
    by (auto simp: CanAccessTenant_def IsGlobalScope_def)
  then show ?thesis using op min by (auto simp: EnsureTenantScope_def)
qed

definition sampleAdminInput :: AdminContextInput where
  "sampleAdminInput = \<lparr>ai_RequestID = ''r1'', ai_AdminID = ''root'', ai_Roles = ['' admin.governance''],
     ai_TenantScopes = [''t1''], ai_Permissions = [], ai_TokenID = []\<rparr>"

definition sampleAdmin :: AdminContext where
  "sampleAdmin = sampleAdminInput\<lparr>ai_Roles := [''admin.governance'']\<rparr>"

theorem admin_authority_is_what_the_token_grants_witness:
  "NewAdminContext sampleAdminInput = Inr sampleAdmin \<and> AuthorizeOperation sampleAdmin OperationDeleteFile = Inr () \<and>
   AuthorizeOperation sampleAdmin OperationCreateTenant \<noteq> Inr () \<and>
   EnsureTenantScope sampleAdmin ''t1'' = Inr () \<and> EnsureTenantScope sampleAdmin ''t2'' \<noteq> Inr ()"
proof -
  have new: "NewAdminContext sampleAdminInput = Inr sampleAdmin" by code_simp
  have trim: "TrimSpace '' admin.governance'' = ''admin.governance''" "TrimSpace ''t1'' = ''t1''" "TrimSpace ''t2'' = ''t2''" by code_simp+
  note law = admin_authority_is_what_the_token_grants [OF new]
  show ?thesis
    using new law [of OperationDeleteFile "''t1''"] law [of OperationCreateTenant "''t2''"]
    by (simp add: sampleAdminInput_def trim RuleFor_def roleRank_def role_defs GlobalTenantScope_def)
qed

subsection \<open>The deletion as a sequence of statements\<close>

definition delete_chain ::
    "string \<Rightarrow> time \<Rightarrow> file_row \<Rightarrow> AuditLogRecord \<Rightarrow> outbox_row \<Rightarrow> database \<Rightarrow> database \<Rightarrow> bool" where
  "delete_chain fileID now f entry ev db db' \<longleftrightarrow>
     (\<exists>db1 db2 db3 db4.
        mark_file_deleted fileID now db = Inr (scanAdminFile (delete_file_row now f), db1) \<and>
        release_ref (fa_blob_object_id f) now db1 = Inr ((), db2) \<and>
        release_usage (fa_tenant_id f) (fa_file_size f) now db2 = Inr ((), db3) \<and>
        insert_audit entry db3 = Inr ((), db4) \<and>
        insert_event ev db4 = Inr ((), db'))"

lemma scan_fields [simp]:
  "av_FileID (scanAdminFile r) = fa_file_id r" "av_TenantID (scanAdminFile r) = fa_tenant_id r"
  "av_BlobID (scanAdminFile r) = fa_blob_object_id r" "av_SizeBytes (scanAdminFile r) = fa_file_size r"
  "av_Status (scanAdminFile r) = fa_status r" "av_DeletedAt (scanAdminFile r) = fa_deleted_at r"
  by (simp_all add: scanAdminFile_def)

lemma delete_file_row_fields [simp]:
  "fa_file_id (delete_file_row t r) = fa_file_id r" "fa_tenant_id (delete_file_row t r) = fa_tenant_id r"
  "fa_blob_object_id (delete_file_row t r) = fa_blob_object_id r" "fa_file_size (delete_file_row t r) = fa_file_size r"
  "fa_status (delete_file_row t r) = FileStatusDeleted" "fa_deleted_at (delete_file_row t r) = Some t"
  by (simp_all add: delete_file_row_def)

lemma query_file_Inr:
  "runSQL env (query_file i) w = (Inr x, w') \<longleftrightarrow> e_db_fault env (w_tick w) = None \<and> w' = tick w \<and>
     x = map_option scanAdminFile (lookup_row fa_file_id i (file_assets (w_db w)))"
  by (auto simp: runSQL_Inr query_file_def tick_def)

lemma mark_file_deleted_value:
  "mark_file_deleted i t db = Inr (v, db') \<Longrightarrow> lookup_row fa_file_id i (file_assets db) = Some f \<Longrightarrow>
     v = scanAdminFile (delete_file_row t f)"
  by (auto simp: mark_file_deleted_def Let_def split: if_splits)

lemma Publish_db:
  assumes "Publish env e w = (Inr u, w')"
  shows "\<exists>ev. insert_event ev (w_db w) = Inr ((), w_db w') \<and> oe_event_type ev = ae_EventType e \<and>
      oe_aggregate_id ev = ae_AggregateID e \<and> oe_payload ev = ae_Payload e \<and> oe_status ev = OutboxPending"
  using assms
  by (auto simp: Publish_def bindA_Inr_iff Now_Inr runSQL_Inr NewID_run split: if_splits)

lemma newAuditRecord_Inr:
  assumes "newAuditRecord env auth t action tt ti details w = (Inr entry, w')"
  shows "w_db w' = w_db w \<and> ar_AdminSubject entry = ai_AdminID auth \<and> ar_Action entry = action \<and>
     ar_TargetID entry = TrimSpace ti \<and> ar_TenantID entry = TrimSpace t \<and> ar_Details entry = details"
  using assms by (auto simp: newAuditRecord_def bindA_Inr_iff Now_Inr NewID_run)

text \<open>What a successful run of the body is: a repeated deletion, or the chain of statements.\<close>

lemma deleteFileBody_cases:
  assumes "deleteFileBody env command i w = (Inr res, w')"
  obtains (again) f where "lookup_row fa_file_id i (file_assets (w_db w)) = Some f" "fa_status f = FileStatusDeleted"
      "res = \<lparr>dr_File = scanAdminFile f, dr_PhysicalDeleteScheduled = True, dr_AlreadyDeleted = True\<rparr>" "w_db w' = w_db w"
    | (first) f now entry ev where "lookup_row fa_file_id i (file_assets (w_db w)) = Some f" "fa_status f \<noteq> FileStatusDeleted"
      "res = \<lparr>dr_File = scanAdminFile (delete_file_row now f), dr_PhysicalDeleteScheduled = True, dr_AlreadyDeleted = False\<rparr>"
      "delete_chain i now f entry ev (w_db w) (w_db w')" "now = e_now env (w_tick w)"
      "ar_AdminSubject entry = ai_AdminID (dc_Auth command)" "ar_Action entry = ''file.delete''"
      "ar_TargetID entry = TrimSpace (fa_file_id f)" "ar_TenantID entry = TrimSpace (fa_tenant_id f)"
      "oe_event_type ev = fileDeleteRequestedEventType" "oe_aggregate_id ev = fa_file_id f"
      "oe_payload ev = fileDeletePayload now command (scanAdminFile (delete_file_row now f))" "oe_status ev = OutboxPending"
proof -
  let ?now = "e_now env (w_tick w)"
  from assms obtain marked w1 where m: "MarkDeleted env i ?now (tick w) = (Inr marked, w1)"
    and rest: "(case marked of
       None \<Rightarrow> throwA (ErrFileNotFound i)
     | Some deleted \<Rightarrow>
         if dr_AlreadyDeleted deleted then returnA deleted
         else
           bindA (newAuditRecord env (dc_Auth command) (av_TenantID (dr_File deleted)) ''file.delete'' ''file''
              (av_FileID (dr_File deleted))
              [(''reason'', PStr (dc_Reason command)),
               (''idempotencyKey'', PStr (optionalField (dc_IdempotencyKey command))),
               (''blobId'', PStr (av_BlobID (dr_File deleted)))]) (\<lambda>entry.
           bindA (AuditLog_Append env entry) (\<lambda>_.
           bindA (Publish env \<lparr>ae_EventType = fileDeleteRequestedEventType, ae_AggregateType = ''file_asset'',
              ae_AggregateID = av_FileID (dr_File deleted), ae_OccurredAt = ?now,
              ae_RequestID = ai_RequestID (dc_Auth command), ae_TenantID = av_TenantID (dr_File deleted),
              ae_Payload = fileDeletePayload ?now command (dr_File deleted)\<rparr>) (\<lambda>_.
           returnA deleted)))) w1 = (Inr res, w')"
    unfolding deleteFileBody_def by (auto simp: Now_Inr elim!: bindA_InrE)
  from rest obtain d where d: "marked = Some d" by (cases marked) simp_all
  from m d obtain f where f: "lookup_row fa_file_id i (file_assets (w_db w)) = Some f"
    unfolding MarkDeleted_def by (auto simp: query_file_Inr elim!: bindA_InrE split: option.splits)
  show ?thesis
  proof (cases "fa_status f = FileStatusDeleted")
    case True
    with m d f have "d = \<lparr>dr_File = scanAdminFile f, dr_PhysicalDeleteScheduled = True, dr_AlreadyDeleted = True\<rparr>"
      "w_db w1 = w_db w"
      unfolding MarkDeleted_def by (auto simp: query_file_Inr elim!: bindA_InrE)
    with rest d again [OF f True] show ?thesis by simp
  next
    case False
    let ?d = "scanAdminFile (delete_file_row ?now f)"
    from m d f False obtain v db1 db2 where 1: "mark_file_deleted i ?now (w_db w) = Inr (v, db1)"
      and 2: "release_ref (av_BlobID v) ?now db1 = Inr ((), db2)"
      and 3: "release_usage (av_TenantID v) (av_SizeBytes v) ?now db2 = Inr ((), w_db w1)"
      and dv: "d = \<lparr>dr_File = v, dr_PhysicalDeleteScheduled = True, dr_AlreadyDeleted = False\<rparr>"
      unfolding MarkDeleted_def by (auto simp: query_file_def runSQL_Inr elim!: bindA_InrE)
    note v = mark_file_deleted_value [OF 1 f]
    from rest d dv v obtain entry w2 w3 where
      4: "newAuditRecord env (dc_Auth command) (fa_tenant_id f) ''file.delete'' ''file'' (fa_file_id f)
              [(''reason'', PStr (dc_Reason command)),
               (''idempotencyKey'', PStr (optionalField (dc_IdempotencyKey command))),
               (''blobId'', PStr (fa_blob_object_id f))] w1 = (Inr entry, w2)"
      and 5: "AuditLog_Append env entry w2 = (Inr (), w3)"
      and 6: "Publish env \<lparr>ae_EventType = fileDeleteRequestedEventType, ae_AggregateType = ''file_asset'',
              ae_AggregateID = fa_file_id f, ae_OccurredAt = ?now,
              ae_RequestID = ai_RequestID (dc_Auth command), ae_TenantID = fa_tenant_id f,
              ae_Payload = fileDeletePayload ?now command ?d\<rparr> w3 = (Inr (), w')"
      and res: "res = d"
      by (auto elim!: bindA_InrE)
    from Publish_db [OF 6] obtain ev where ev: "insert_event ev (w_db w3) = Inr ((), w_db w')"
      "oe_event_type ev = fileDeleteRequestedEventType" "oe_aggregate_id ev = fa_file_id f"
      "oe_payload ev = fileDeletePayload ?now command ?d" "oe_status ev = OutboxPending" by auto
    note rec = newAuditRecord_Inr [OF 4]
    from 5 rec have "insert_audit entry (w_db w1) = Inr ((), w_db w3)" by (auto simp: AuditLog_Append_def runSQL_Inr)
    with 1 2 3 v ev(1) have "delete_chain i ?now f entry ev (w_db w) (w_db w')" by (auto simp: delete_chain_def)
    with first [OF f False _ _ refl, of entry ev] ev rec res dv v show ?thesis by auto
  qed
qed

subsection \<open>What a deletion changes\<close>

interpretation delete_file: row_update fa_file_id "delete_file_row t" for t
  by unfold_locales simp

interpretation release_ref: row_update bo_blob_object_id "release_ref_row t" for t
  by unfold_locales (simp add: release_ref_row_def)

interpretation release_usage: row_update tu_tenant_id "release_usage_row n t" for n t
  by unfold_locales (simp add: release_usage_row_def)

lemma mark_file_deleted_rows:
  assumes "mark_file_deleted i t db = Inr (v, db')"
  shows "file_assets db' = update_where (\<lambda>r. fa_file_id r = i) (delete_file_row t) (file_assets db)"
    "db' = db\<lparr>file_assets := file_assets db'\<rparr>"
  using assms by (auto simp: mark_file_deleted_def Let_def split: if_splits option.splits)

lemma release_ref_rows:
  assumes "release_ref b t db = Inr (u, db')"
  shows "refs b' db' = (if b' = b then max (refs b db - 1) 0 else refs b' db)"
    "map bo_blob_object_id (blob_objects db') = map bo_blob_object_id (blob_objects db)"
    "db' = db\<lparr>blob_objects := blob_objects db'\<rparr>"
  using assms
  by (auto simp: release_ref_def Let_def refs_def release_ref.lookup_update_key release_ref.keys_update release_ref_row_def
      split: if_splits option.splits)

lemma release_usage_rows:
  assumes "release_usage t n now db = Inr (u, db')"
  shows "used_bytes t' db' = (if t' = t \<and> has_usage t db then max (used_bytes t db - n) 0 else used_bytes t' db)"
    "db' = db\<lparr>tenant_usage := tenant_usage db'\<rparr>"
  using assms
  by (auto simp: release_usage_def Let_def used_bytes_def has_usage_def release_usage.lookup_update_key release_usage_row_def
      split: if_splits option.splits)

lemma insert_audit_rows:
  assumes "insert_audit entry db = Inr (u, db')"
  shows "\<exists>a. admin_audit_logs db' = admin_audit_logs db @ [a] \<and> al_admin_subject a = ar_AdminSubject entry \<and>
      al_action a = ar_Action entry \<and> al_target_id a = admin_nullString (ar_TargetID entry)"
    "db' = db\<lparr>admin_audit_logs := admin_audit_logs db'\<rparr>"
  using assms by (auto simp: insert_audit_def split: if_splits)

lemma insert_event_db: "insert_event ev db = Inr (u, db') \<Longrightarrow> db' = db\<lparr>outbox_events := outbox_events db @ [ev]\<rparr>"
  by (auto simp: insert_event_def split: if_splits)

lemma delete_chain_effects:
  assumes "delete_chain i now f entry ev db db'"
  shows "file_assets db' = update_where (\<lambda>r. fa_file_id r = i) (delete_file_row now) (file_assets db)"
    and "refs b db' = (if b = fa_blob_object_id f then max (refs b db - 1) 0 else refs b db)"
    and "used_bytes t db' = (if t = fa_tenant_id f \<and> has_usage t db then max (used_bytes t db - fa_file_size f) 0 else used_bytes t db)"
    and "map bo_blob_object_id (blob_objects db') = map bo_blob_object_id (blob_objects db)"
    and "\<exists>a. admin_audit_logs db' = admin_audit_logs db @ [a] \<and> al_admin_subject a = ar_AdminSubject entry \<and>
      al_action a = ar_Action entry \<and> al_target_id a = admin_nullString (ar_TargetID entry)"
    and "outbox_events db' = outbox_events db @ [ev]"
    and "upload_sessions db' = upload_sessions db" "upload_session_parts db' = upload_session_parts db"
proof -
  from assms obtain db1 db2 db3 db4 where
    1: "mark_file_deleted i now db = Inr (scanAdminFile (delete_file_row now f), db1)"
    and 2: "release_ref (fa_blob_object_id f) now db1 = Inr ((), db2)"
    and 3: "release_usage (fa_tenant_id f) (fa_file_size f) now db2 = Inr ((), db3)"
    and 4: "insert_audit entry db3 = Inr ((), db4)" and 5: "insert_event ev db4 = Inr ((), db')"
    unfolding delete_chain_def by blast
  note m = mark_file_deleted_rows [OF 1] and r = release_ref_rows [OF 2] and u = release_usage_rows [OF 3]
    and a = insert_audit_rows [OF 4] and e = insert_event_db [OF 5]
  have db4: "db4 = db3\<lparr>admin_audit_logs := admin_audit_logs db4\<rparr>" and db3: "db3 = db2\<lparr>tenant_usage := tenant_usage db3\<rparr>"
    and db2: "db2 = db1\<lparr>blob_objects := blob_objects db2\<rparr>" and db1: "db1 = db\<lparr>file_assets := file_assets db1\<rparr>"
    by (rule a u r m)+
  have fields: "file_assets db' = file_assets db4" "blob_objects db' = blob_objects db4" "tenant_usage db' = tenant_usage db4"
    "admin_audit_logs db' = admin_audit_logs db4" "upload_sessions db' = upload_sessions db4"
    "upload_session_parts db' = upload_session_parts db4" by (simp_all add: e)
  have f4: "file_assets db4 = file_assets db3" "blob_objects db4 = blob_objects db3" "tenant_usage db4 = tenant_usage db3"
    "outbox_events db4 = outbox_events db3" "upload_sessions db4 = upload_sessions db3"
    "upload_session_parts db4 = upload_session_parts db3" by (subst db4, simp)+
  have f3: "file_assets db3 = file_assets db2" "blob_objects db3 = blob_objects db2" "admin_audit_logs db3 = admin_audit_logs db2"
    "outbox_events db3 = outbox_events db2" "upload_sessions db3 = upload_sessions db2"
    "upload_session_parts db3 = upload_session_parts db2" by (subst db3, simp)+
  have f2: "file_assets db2 = file_assets db1" "tenant_usage db2 = tenant_usage db1" "admin_audit_logs db2 = admin_audit_logs db1"
    "outbox_events db2 = outbox_events db1" "upload_sessions db2 = upload_sessions db1"
    "upload_session_parts db2 = upload_session_parts db1" by (subst db2, simp)+
  have f1: "blob_objects db1 = blob_objects db" "tenant_usage db1 = tenant_usage db" "admin_audit_logs db1 = admin_audit_logs db"
    "outbox_events db1 = outbox_events db" "upload_sessions db1 = upload_sessions db"
    "upload_session_parts db1 = upload_session_parts db" by (subst db1, simp)+
  show "file_assets db' = update_where (\<lambda>r. fa_file_id r = i) (delete_file_row now) (file_assets db)"
    by (simp add: fields f4 f3 f2 m(1))
  have "refs b db' = refs b db2" by (rule refs_cong) (simp add: fields f4 f3)
  moreover have "refs b db1 = refs b db" "refs (fa_blob_object_id f) db1 = refs (fa_blob_object_id f) db"
    by (rule refs_cong, simp add: f1)+
  ultimately show "refs b db' = (if b = fa_blob_object_id f then max (refs b db - 1) 0 else refs b db)" by (simp add: r(1))
  have "used_bytes t db' = used_bytes t db3" using used_cong [of db' db3 t] by (simp add: fields f4)
  moreover have "used_bytes t db2 = used_bytes t db \<and> has_usage t db2 = has_usage t db" by (rule used_cong) (simp add: f2 f1)
  ultimately show "used_bytes t db' = (if t = fa_tenant_id f \<and> has_usage t db then max (used_bytes t db - fa_file_size f) 0 else used_bytes t db)"
    by (auto simp: u(1))
  show "map bo_blob_object_id (blob_objects db') = map bo_blob_object_id (blob_objects db)"
    by (simp add: fields f4 f3 r(2) f1)
  show "\<exists>a. admin_audit_logs db' = admin_audit_logs db @ [a] \<and> al_admin_subject a = ar_AdminSubject entry \<and>
      al_action a = ar_Action entry \<and> al_target_id a = admin_nullString (ar_TargetID entry)"
    using a(1) by (simp add: fields f3 f2 f1)
  show "outbox_events db' = outbox_events db @ [ev]" by (simp add: e f4 f3 f2 f1)
  show "upload_sessions db' = upload_sessions db" "upload_session_parts db' = upload_session_parts db"
    by (simp_all add: fields f4 f3 f2 f1)
qed

lemma admin_tx_Inl: "admin_WithinTransaction env body w = (Inl e, w') \<Longrightarrow> w_db w' = w_db w"
  by (auto simp: admin_WithinTransaction_def bindA_Inl_iff mapErrA_Inl_iff runSQL_Inl runSQL_Inr
      split: prod.splits sum.splits)

lemma admin_tx_Inr:
  "admin_WithinTransaction env body w = (Inr x, w') \<Longrightarrow> \<exists>w2. body (tick w) = (Inr x, w2) \<and> w' = tick w2"
  by (auto simp: admin_WithinTransaction_def bindA_Inr_iff runSQL_Inl runSQL_Inr tick_def split: prod.splits sum.splits)

lemma admin_tx_calls:
  assumes "calls_frame.keeps body"
  shows "calls_frame.keeps (admin_WithinTransaction env body)"
proof (rule calls_frame.keepsI)
  fix w r w'
  assume "admin_WithinTransaction env body w = (r, w')"
  with calls_frame.keepsD [OF assms] show "w_calls w' = w_calls w"
    by (auto simp: admin_WithinTransaction_def bindA_def mapErrA_def runSQL_def Let_def
        split: prod.splits sum.splits option.splits)
qed

lemma query_file_db: "db_frame.keeps (runSQL env (query_file i))"
  by (rule runSQL_read_db) (auto simp: query_file_def)

lemma DeleteFile_on_error: "db_frame.keeps_on_error (DeleteFile env command)"
proof -
  have tx: "db_frame.keeps_on_error (bindA (admin_WithinTransaction env body) (\<lambda>d. returnA (FromDeleteFileRecord d)))"
    for body :: "DeleteFileRecord M"
    by (rule db_frame.keeps_on_errorI) (auto simp: bindA_Inl_iff dest: admin_tx_Inl)
  show ?thesis
    unfolding DeleteFile_def AdminFile_GetByID_def
    by (intro db_frame.keeps_on_error_bindA db_frame.keeps_rules query_file_db)
       (auto split: option.splits intro!: db_frame.keeps_on_error_pure db_frame.keeps_on_error_bindA db_frame.keeps_rules tx)
qed

lemma deleteFileBody_calls: "calls_frame.keeps (deleteFileBody env command i)"
  unfolding deleteFileBody_def MarkDeleted_def newAuditRecord_def AuditLog_Append_def Publish_def
  by (intro calls_frame.keeps_rules frame_rules)

lemma DeleteFile_calls: "calls_frame.keeps (DeleteFile env command)"
  unfolding DeleteFile_def AdminFile_GetByID_def
  by (intro calls_frame.keeps_rules frame_rules admin_tx_calls deleteFileBody_calls)

lemma DeleteFile_Inr:
  assumes "DeleteFile env command w = (Inr res, w')"
  obtains f d w2 where "lookup_row fa_file_id (TrimSpace (dc_FileID command)) (file_assets (w_db w)) = Some f"
    "TrimSpace (dc_FileID command) \<noteq> []" "EnsureDeleteFile (dc_Auth command) (fa_tenant_id f) (dc_Reason command) = Inr ()"
    "deleteFileBody env command (TrimSpace (dc_FileID command)) (tick (tick w)) = (Inr d, w2)" "w' = tick w2"
    "res = FromDeleteFileRecord d"
proof -
  from assms obtain found w1 where req: "TrimSpace (dc_FileID command) \<noteq> []"
    and get: "AdminFile_GetByID env (TrimSpace (dc_FileID command)) w = (Inr found, w1)"
    and rest: "(case found of
       None \<Rightarrow> throwA (ErrFileNotFound (TrimSpace (dc_FileID command)))
     | Some current \<Rightarrow>
         bindA (liftA (EnsureDeleteFile (dc_Auth command) (av_TenantID current) (dc_Reason command))) (\<lambda>_.
         bindA (admin_WithinTransaction env (deleteFileBody env command (TrimSpace (dc_FileID command)))) (\<lambda>deleted.
         returnA (FromDeleteFileRecord deleted)))) w1 = (Inr res, w')"
    unfolding DeleteFile_def by (auto simp: requiredField_def elim!: bindA_InrE split: if_splits)
  from rest obtain cur where cur: "found = Some cur" by (cases found) simp_all
  with get obtain f where f: "lookup_row fa_file_id (TrimSpace (dc_FileID command)) (file_assets (w_db w)) = Some f"
    "cur = scanAdminFile f" "w1 = tick w"
    by (cases "lookup_row fa_file_id (TrimSpace (dc_FileID command)) (file_assets (w_db w))")
       (auto simp: AdminFile_GetByID_def query_file_Inr)
  from rest cur obtain d where ens: "EnsureDeleteFile (dc_Auth command) (av_TenantID cur) (dc_Reason command) = Inr ()"
    and tx: "admin_WithinTransaction env (deleteFileBody env command (TrimSpace (dc_FileID command))) w1 = (Inr d, w')"
    and res: "res = FromDeleteFileRecord d"
    by (auto simp: bindA_Inr_iff)
  from admin_tx_Inr [OF tx] that [OF f(1) req _ _ _ res] ens f show ?thesis by auto
qed

lemma EnsureDeleteFile_Inr:
  "EnsureDeleteFile c t reason = Inr () \<longleftrightarrow>
     HasMinimumRole c RoleGovernance \<and> TrimSpace t \<noteq> [] \<and> CanAccessTenant c (TrimSpace t) \<and> TrimSpace reason \<noteq> []"
  by (simp add: EnsureDeleteFile_def AuthorizeOperation_def RuleFor_def EnsureTenantScope_def RequireDestructiveReason_def
      bindE_Inr_iff)

text \<open>
  Claim C28: only authorised deletions have an effect. A request to delete a file changes the
  database only when the administrator has at least the governance role, the file's tenant is
  in the administrator's scope and a reason is given; when the handler returns an error, the
  database is exactly as before; and the request itself never touches the object storage.
\<close>

theorem delete_file_needs_authority:
  assumes "DeleteFile env command w = (r, w')"
  shows "w_calls w' = w_calls w \<and> (isl r \<longrightarrow> w_db w' = w_db w) \<and>
    (w_db w' \<noteq> w_db w \<longrightarrow> (\<exists>f. f \<in> set (file_assets (w_db w)) \<and> fa_file_id f = TrimSpace (dc_FileID command) \<and>
       HasMinimumRole (dc_Auth command) RoleGovernance \<and> CanAccessTenant (dc_Auth command) (TrimSpace (fa_tenant_id f)) \<and>
       TrimSpace (dc_Reason command) \<noteq> []))"
proof (cases r)
  case (Inl e)
  with assms db_frame.keeps_on_errorD [OF DeleteFile_on_error] calls_frame.keepsD [OF DeleteFile_calls assms]
  show ?thesis by auto
next
  case (Inr res)
  from DeleteFile_Inr [OF assms [unfolded Inr]] obtain f where
    "lookup_row fa_file_id (TrimSpace (dc_FileID command)) (file_assets (w_db w)) = Some f"
    "EnsureDeleteFile (dc_Auth command) (fa_tenant_id f) (dc_Reason command) = Inr ()" by metis
  with Inr calls_frame.keepsD [OF DeleteFile_calls assms] show ?thesis
    by (auto simp: EnsureDeleteFile_Inr dest!: lookup_row_Some)
qed

definition sampleDelete :: DeleteFileCommand where
  "sampleDelete = \<lparr>dc_FileID = ''f1'', dc_Reason = ''gdpr'', dc_IdempotencyKey = [], dc_Auth = sampleAdmin\<rparr>"

lemma sample_delete:
  "\<exists>res. DeleteFile sampleEnv sampleDelete sampleFileWorld = (Inr res, snd (DeleteFile sampleEnv sampleDelete sampleFileWorld))"
proof -
  have "\<not> isl (fst (DeleteFile sampleEnv sampleDelete sampleFileWorld))" by code_simp
  then show ?thesis by (metis not_isl_Inr prod.collapse)
qed

theorem delete_file_needs_authority_witness:
  "isl (fst (DeleteFile sampleEnv (sampleDelete\<lparr>dc_Reason := [], dc_Auth := sampleAdmin\<rparr>) sampleFileWorld)) \<and>
   w_db (snd (DeleteFile sampleEnv (sampleDelete\<lparr>dc_Reason := [], dc_Auth := sampleAdmin\<rparr>) sampleFileWorld)) = w_db sampleFileWorld"
proof -
  let ?run = "DeleteFile sampleEnv (sampleDelete\<lparr>dc_Reason := [], dc_Auth := sampleAdmin\<rparr>) sampleFileWorld"
  have "isl (fst ?run)" by code_simp
  with delete_file_needs_authority [of sampleEnv "sampleDelete\<lparr>dc_Reason := [], dc_Auth := sampleAdmin\<rparr>" sampleFileWorld "fst ?run" "snd ?run"]
  show ?thesis by simp
qed

lemma delete_chain_references:
  assumes "delete_chain i now f entry ev db db'" and "references_exact db" and "distinct (map fa_file_id (file_assets db))"
    and f: "lookup_row fa_file_id i (file_assets db) = Some f" "fa_status f = FileStatusActive"
  shows "refs b db' = refs b db - (if b = fa_blob_object_id f then 1 else 0)" and "references_exact db'"
proof -
  note eff = delete_chain_effects [OF assms(1)]
  have act: "active_refs b db' = active_refs b db - (if b = fa_blob_object_id f then 1 else 0)" for b
    unfolding active_refs_def eff(1) using f(2) by (simp add: count_update_where [OF assms(3) f(1)])
  have "0 \<le> active_refs (fa_blob_object_id f) db'" by (simp add: active_refs_def)
  with act [of "fa_blob_object_id f"] assms(2) have "1 \<le> refs (fa_blob_object_id f) db" by (simp add: references_exact_def)
  with eff(2) show refs: "refs b db' = refs b db - (if b = fa_blob_object_id f then 1 else 0)" for b by auto
  show "references_exact db'" using assms(2) eff(4) by (simp add: references_exact_def refs act)
qed

lemma delete_payload_accepted:
  assumes "fa_file_id f \<noteq> []" and "fa_blob_object_id f \<noteq> []"
    and "oe_payload ev = fileDeletePayload now command (scanAdminFile (delete_file_row now f))"
  shows "handleFileDeleteRequested (event_of_row ev) = None"
  using assms by (simp add: handleFileDeleteRequested_def event_of_row_def fileDeletePayload_def requirePayloadString_def)

lemma DeleteFile_cases:
  assumes "DeleteFile env command w = (Inr res, w')"
  obtains (again) f where "lookup_row fa_file_id (TrimSpace (dc_FileID command)) (file_assets (w_db w)) = Some f"
      "fa_status f = FileStatusDeleted" "w_db w' = w_db w"
      "res = FromDeleteFileRecord \<lparr>dr_File = scanAdminFile f, dr_PhysicalDeleteScheduled = True, dr_AlreadyDeleted = True\<rparr>"
    | (first) f now entry ev where "lookup_row fa_file_id (TrimSpace (dc_FileID command)) (file_assets (w_db w)) = Some f"
      "TrimSpace (dc_FileID command) \<noteq> []" "fa_status f \<noteq> FileStatusDeleted"
      "delete_chain (TrimSpace (dc_FileID command)) now f entry ev (w_db w) (w_db w')"
      "res = FromDeleteFileRecord \<lparr>dr_File = scanAdminFile (delete_file_row now f), dr_PhysicalDeleteScheduled = True,
         dr_AlreadyDeleted = False\<rparr>"
      "ar_AdminSubject entry = ai_AdminID (dc_Auth command)" "ar_Action entry = ''file.delete''"
      "ar_TargetID entry = TrimSpace (fa_file_id f)"
      "oe_event_type ev = fileDeleteRequestedEventType" "oe_aggregate_id ev = fa_file_id f"
      "oe_payload ev = fileDeletePayload now command (scanAdminFile (delete_file_row now f))"
proof (rule DeleteFile_Inr [OF assms])
  fix f d w2
  assume f: "lookup_row fa_file_id (TrimSpace (dc_FileID command)) (file_assets (w_db w)) = Some f"
    and req: "TrimSpace (dc_FileID command) \<noteq> []"
    and body: "deleteFileBody env command (TrimSpace (dc_FileID command)) (tick (tick w)) = (Inr d, w2)"
    and w': "w' = tick w2" and res: "res = FromDeleteFileRecord d"
  show thesis
    using body f req w' res again first
    by (cases rule: deleteFileBody_cases) auto
qed

text \<open>
  Claim C5: a deletion gives back exactly what the file took. When the handler succeeds on a file
  that was not deleted yet, that file and no other becomes DELETED, its blob loses exactly one
  reference and no other blob any, the tenant is credited the file's size (never below zero),
  one audit record of the administrator and one event are appended, and the event passes the
  checks of the job service's handler. On a file that was deleted before, nothing changes. In
  both cases the reference counts stay exact.
\<close>

theorem delete_gives_back_what_the_file_took:
  assumes "DeleteFile env command w = (Inr res, w')" and "references_exact (w_db w)"
    and "distinct (map fa_file_id (file_assets (w_db w)))" and "list_all file_row_check (file_assets (w_db w))"
  shows "references_exact (w_db w') \<and> (\<exists>f. f \<in> set (file_assets (w_db w)) \<and>
    fa_file_id f = TrimSpace (dc_FileID command) \<and> df_FileID res = fa_file_id f \<and> df_Status res = FileStatusDeleted \<and>
    (if fa_status f = FileStatusDeleted then w_db w' = w_db w
     else \<exists>now a ev.
       file_assets (w_db w') = map (\<lambda>r. if fa_file_id r = fa_file_id f then delete_file_row now r else r) (file_assets (w_db w)) \<and>
       (\<forall>b. refs b (w_db w') = refs b (w_db w) - (if b = fa_blob_object_id f then 1 else 0)) \<and>
       (\<forall>t. used_bytes t (w_db w') = (if t = fa_tenant_id f \<and> has_usage t (w_db w)
          then max (used_bytes t (w_db w) - fa_file_size f) 0 else used_bytes t (w_db w))) \<and>
       admin_audit_logs (w_db w') = admin_audit_logs (w_db w) @ [a] \<and>
       al_admin_subject a = ai_AdminID (dc_Auth command) \<and> al_action a = ''file.delete'' \<and>
       outbox_events (w_db w') = outbox_events (w_db w) @ [ev] \<and> oe_event_type ev = eventTypeFileDeleteRequested \<and>
       (fa_blob_object_id f \<noteq> [] \<longrightarrow> handleFileDeleteRequested (event_of_row ev) = None)))"
proof (rule DeleteFile_cases [OF assms(1)])
  fix f assume "lookup_row fa_file_id (TrimSpace (dc_FileID command)) (file_assets (w_db w)) = Some f"
    "fa_status f = FileStatusDeleted" "w_db w' = w_db w"
    "res = FromDeleteFileRecord \<lparr>dr_File = scanAdminFile f, dr_PhysicalDeleteScheduled = True, dr_AlreadyDeleted = True\<rparr>"
  then show ?thesis
    using assms(2) by (auto simp: FromDeleteFileRecord_def dest!: lookup_row_Some)
next
  fix f now entry ev
  assume f: "lookup_row fa_file_id (TrimSpace (dc_FileID command)) (file_assets (w_db w)) = Some f"
    and ne: "TrimSpace (dc_FileID command) \<noteq> []" and st: "fa_status f \<noteq> FileStatusDeleted"
    and chain: "delete_chain (TrimSpace (dc_FileID command)) now f entry ev (w_db w) (w_db w')"
    and res: "res = FromDeleteFileRecord \<lparr>dr_File = scanAdminFile (delete_file_row now f), dr_PhysicalDeleteScheduled = True,
         dr_AlreadyDeleted = False\<rparr>"
    and entry: "ar_AdminSubject entry = ai_AdminID (dc_Auth command)" "ar_Action entry = ''file.delete''"
    and ev: "oe_event_type ev = fileDeleteRequestedEventType"
      "oe_payload ev = fileDeletePayload now command (scanAdminFile (delete_file_row now f))"
  note row = lookup_row_Some [OF f]
  with st assms(4) have act: "fa_status f = FileStatusActive" by (auto simp: list_all_iff file_row_check_def)
  note eff = delete_chain_effects [OF chain] and exact = delete_chain_references [OF chain assms(2,3) f act]
  from eff(5) obtain a where a: "admin_audit_logs (w_db w') = admin_audit_logs (w_db w) @ [a]"
    "al_admin_subject a = ar_AdminSubject entry" "al_action a = ar_Action entry" by blast
  show ?thesis
  proof (intro conjI exI [of _ f], unfold if_not_P [OF st])
    show "\<exists>now a ev.
       file_assets (w_db w') = map (\<lambda>r. if fa_file_id r = fa_file_id f then delete_file_row now r else r) (file_assets (w_db w)) \<and>
       (\<forall>b. refs b (w_db w') = refs b (w_db w) - (if b = fa_blob_object_id f then 1 else 0)) \<and>
       (\<forall>t. used_bytes t (w_db w') = (if t = fa_tenant_id f \<and> has_usage t (w_db w)
          then max (used_bytes t (w_db w) - fa_file_size f) 0 else used_bytes t (w_db w))) \<and>
       admin_audit_logs (w_db w') = admin_audit_logs (w_db w) @ [a] \<and>
       al_admin_subject a = ai_AdminID (dc_Auth command) \<and> al_action a = ''file.delete'' \<and>
       outbox_events (w_db w') = outbox_events (w_db w) @ [ev] \<and> oe_event_type ev = eventTypeFileDeleteRequested \<and>
       (fa_blob_object_id f \<noteq> [] \<longrightarrow> handleFileDeleteRequested (event_of_row ev) = None)"
      using row a entry ev(1) eff(1,6) ne delete_payload_accepted [OF _ _ ev(2)]
      by (intro exI [of _ now] exI [of _ a] exI [of _ ev])
         (simp add: exact(1) eff(3) update_where_def fileDeleteRequestedEventType_def eventTypeFileDeleteRequested_def)
  qed (use row exact(2) res in \<open>simp_all add: FromDeleteFileRecord_def\<close>)
qed

theorem delete_gives_back_what_the_file_took_witness:
  "\<exists>res w'. DeleteFile sampleEnv sampleDelete sampleFileWorld = (Inr res, w') \<and> references_exact (w_db w') \<and>
     refs ''b1'' (w_db w') = 0 \<and> df_Status res = FileStatusDeleted"
proof -
  let ?w1 = "snd (DeleteFile sampleEnv sampleDelete sampleFileWorld)"
  from sample_delete obtain res where run: "DeleteFile sampleEnv sampleDelete sampleFileWorld = (Inr res, ?w1)" ..
  have "distinct (map fa_file_id (file_assets (w_db sampleFileWorld)))" "list_all file_row_check (file_assets (w_db sampleFileWorld))"
    by (simp_all add: sampleFileWorld_def sampleFile_def file_row_check_def)
  note law = delete_gives_back_what_the_file_took [OF run sample_references_exact(1) this]
  have "file_assets (w_db sampleFileWorld) = [sampleFile]" "fa_status sampleFile \<noteq> FileStatusDeleted" "fa_blob_object_id sampleFile = ''b1''"
    "refs ''b1'' (w_db sampleFileWorld) = 1"
    by (simp_all add: sampleFileWorld_def sampleFile_def sampleBlob_def refs_def lookup_row_def)
  with law have "references_exact (w_db ?w1) \<and> refs ''b1'' (w_db ?w1) = 0 \<and> df_Status res = FileStatusDeleted" by auto
  with run show ?thesis by blast
qed

text \<open>
  Deleting is idempotent. After a successful deletion, every later request for the same
  file leaves the database as it is, and when it succeeds it returns the first answer.
\<close>

theorem delete_is_idempotent:
  assumes "DeleteFile env command w = (Inr res, w1)" and "DeleteFile env2 command2 w1 = (r, w2)"
    and "TrimSpace (dc_FileID command2) = TrimSpace (dc_FileID command)"
  shows "w_db w2 = w_db w1 \<and> (\<forall>res2. r = Inr res2 \<longrightarrow> res2 = res)"
proof (cases r)
  case (Inl e)
  with assms(2) db_frame.keeps_on_errorD [OF DeleteFile_on_error] show ?thesis by auto
next
  case (Inr res2)
  obtain f where f: "lookup_row fa_file_id (TrimSpace (dc_FileID command)) (file_assets (w_db w1)) = Some f"
    "fa_status f = FileStatusDeleted" and res: "res = FromDeleteFileRecord \<lparr>dr_File = scanAdminFile f,
       dr_PhysicalDeleteScheduled = True, dr_AlreadyDeleted = ad\<rparr>" for ad
    using assms(1)
    by (cases rule: DeleteFile_cases)
       (auto simp: delete_chain_effects(1) delete_file.lookup_update_key FromDeleteFileRecord_def)
  with assms(2) [unfolded Inr] assms(3) Inr show ?thesis
    by (cases rule: DeleteFile_cases) (auto simp: FromDeleteFileRecord_def)
qed

theorem delete_is_idempotent_witness:
  "\<exists>res w1 w2. DeleteFile sampleEnv sampleDelete sampleFileWorld = (Inr res, w1) \<and>
     DeleteFile sampleEnv sampleDelete w1 = (Inr res, w2) \<and> w_db w2 = w_db w1"
proof -
  let ?w1 = "snd (DeleteFile sampleEnv sampleDelete sampleFileWorld)"
  let ?two = "DeleteFile sampleEnv sampleDelete ?w1"
  from sample_delete obtain res where run: "DeleteFile sampleEnv sampleDelete sampleFileWorld = (Inr res, ?w1)" ..
  have "\<not> isl (fst ?two)" by code_simp
  then obtain res2 where two: "?two = (Inr res2, snd ?two)" by (metis not_isl_Inr prod.collapse)
  from delete_is_idempotent [OF run two refl] run two show ?thesis by auto
qed

end
