(* ===== verification/TenantLaws.thy ===== *)
theory TenantLaws
  imports AdminTenants AdminLaws
begin

text \<open>
  What the tenant commands of the admin service guarantee: a tenant is created whole or not at
  all, its status and the time of its deletion agree, destructive changes come with a reason in
  the audit log, and a policy becomes exactly what the rules were checked against.
\<close>

subsection \<open>Shared steps\<close>

lemma AuditLog_Append_Inr:
  "AuditLog_Append env entry w = (Inr u, w') \<Longrightarrow>
     \<exists>row. w_db w' = (w_db w)\<lparr>admin_audit_logs := admin_audit_logs (w_db w) @ [row]\<rparr> \<and> al_action row = ar_Action entry \<and>
        al_admin_subject row = ar_AdminSubject entry \<and> al_details row = ar_Details entry"
  by (auto simp: AuditLog_Append_def runSQL_Inr insert_audit_def split: if_splits)

lemma admin_role: "AuthorizeOperation c op = Inr u \<Longrightarrow> \<exists>rule. RuleFor op = Some rule \<and> HasMinimumRole c (rule_MinimumRole rule)"
  by (auto simp: AuthorizeOperation_def split: option.splits if_splits)

lemma EnsureTenantScope_Inr: "EnsureTenantScope c t = Inr u \<Longrightarrow> CanAccessTenant c (TrimSpace t)"
  by (auto simp: EnsureTenantScope_def split: if_splits)

lemma RequireDestructiveReason_Inr: "RequireDestructiveReason reason = Inr u \<longleftrightarrow> TrimSpace reason \<noteq> []"
  by (simp add: RequireDestructiveReason_def)

text \<open>A command that fails before its transaction or inside it leaves the database alone.\<close>

lemma admin_tx_error: "db_frame.keeps_on_error (bindA (admin_WithinTransaction env body) (\<lambda>x. returnA (f x)))"
  by (rule db_frame.keeps_on_errorI) (auto simp: bindA_Inl_iff dest: admin_tx_Inl)

lemmas command_frame = db_frame.keeps_on_error_bindA db_frame.keeps_rules admin_tx_error Now_db

subsection \<open>Creating a tenant\<close>

lemma createTenantBody_Inr:
  assumes "createTenantBody env command t w = (Inr u, w')"
  shows "\<exists>n1 n2 row audit. insert_tenant t (w_db w) = Inr ((), (w_db w)\<lparr>tenants := tenants (w_db w) @ [row]\<rparr>) \<and>
    te_tenant_id row = tn_TenantID t \<and> te_status row = tn_Status t \<and>
    te_deleted_at row = admin_nullTime (statusDeletedAt (tn_Status t) (tn_UpdatedAt t)) \<and>
    lookup_row te_tenant_id (tn_TenantID t) (tenants (w_db w)) = None \<and>
    lookup_row tp_tenant_id (tn_TenantID t) (tenant_policies (w_db w)) = None \<and>
    lookup_row tu_tenant_id (tn_TenantID t) (tenant_usage (w_db w)) = None \<and>
    al_action audit = ''tenant.create'' \<and> al_admin_subject audit = ai_AdminID (xc_Auth command) \<and>
    w_db w' = (w_db w)\<lparr>tenants := tenants (w_db w) @ [row],
      tenant_policies := tenant_policies (w_db w) @ [default_policy_row (tn_TenantID t) n1],
      tenant_usage := tenant_usage (w_db w) @ [\<lparr>tu_tenant_id = tn_TenantID t, tu_used_storage_bytes = 0, tu_used_file_count = 0,
        tu_last_upload_at = None, tu_version = 0, tu_updated_at = n2\<rparr>],
      admin_audit_logs := admin_audit_logs (w_db w) @ [audit]\<rparr>"
proof -
  from assms obtain w1 w2 w3 w4 entry where
      1: "TenantRepository_Create env t w = (Inr (), w1)" and 2: "CreateDefault env (tn_TenantID t) w1 = (Inr (), w2)"
      and 3: "Usage_Initialize env (tn_TenantID t) w2 = (Inr (), w3)"
      and 4: "newAuditRecord env (xc_Auth command) (tn_TenantID t) ''tenant.create'' ''tenant'' (tn_TenantID t)
       [(''tenantName'', PStr (tn_TenantName t)), (''status'', PStr (tn_Status t)),
        (''idempotencyKey'', PStr (optionalField (xc_IdempotencyKey command)))] w3 = (Inr entry, w4)"
      and 5: "AuditLog_Append env entry w4 = (Inr u, w')"
    by (auto simp: createTenantBody_def run_action_Inr simp del: liftA_iff)
  from 1 obtain row where row: "w_db w1 = (w_db w)\<lparr>tenants := tenants (w_db w) @ [row]\<rparr>"
      "insert_tenant t (w_db w) = Inr ((), w_db w1)" "te_tenant_id row = tn_TenantID t" "te_status row = tn_Status t"
      "te_deleted_at row = admin_nullTime (statusDeletedAt (tn_Status t) (tn_UpdatedAt t))"
      "lookup_row te_tenant_id (tn_TenantID t) (tenants (w_db w)) = None"
    by (auto simp: TenantRepository_Create_def runSQL_Inr insert_tenant_def Let_def split: if_splits)
  from 2 obtain n1 where pol: "w_db w2 = (w_db w1)\<lparr>tenant_policies := tenant_policies (w_db w1) @ [default_policy_row (tn_TenantID t) n1]\<rparr>"
      "lookup_row tp_tenant_id (tn_TenantID t) (tenant_policies (w_db w1)) = None"
    by (auto simp: CreateDefault_def bindA_Inr_iff Now_Inr runSQL_Inr insert_policy_def tick_def default_policy_row_def split: if_splits)
  from 3 obtain n2 where use: "w_db w3 = (w_db w2)\<lparr>tenant_usage := tenant_usage (w_db w2) @ [\<lparr>tu_tenant_id = tn_TenantID t,
        tu_used_storage_bytes = 0, tu_used_file_count = 0, tu_last_upload_at = None, tu_version = 0, tu_updated_at = n2\<rparr>]\<rparr>"
      "lookup_row tu_tenant_id (tn_TenantID t) (tenant_usage (w_db w2)) = None"
    by (auto simp: Usage_Initialize_def bindA_Inr_iff Now_Inr runSQL_Inr insert_usage_def tick_def split: if_splits)
  note rec = newAuditRecord_Inr [OF 4]
  from AuditLog_Append_Inr [OF 5] rec obtain audit where
      "w_db w' = (w_db w3)\<lparr>admin_audit_logs := admin_audit_logs (w_db w3) @ [audit]\<rparr>" "al_action audit = ''tenant.create''"
      "al_admin_subject audit = ai_AdminID (xc_Auth command)"
    by auto
  with row pol use show ?thesis by auto
qed


text \<open>
  A tenant is created whole or not at all. On success the caller is a super
  administrator in whose scope the tenant lies, the tenant is new, active and not deleted, and
  the database gains exactly its row, its default policy, its usage of zero and one audit record
  in the caller's name; on an error the database is as it was.
\<close>

theorem create_tenant_whole:
  assumes run: "CreateTenant env command w = (r, w')"
  shows "case r of Inl e \<Rightarrow> w_db w' = w_db w | Inr t \<Rightarrow>
    HasMinimumRole (xc_Auth command) RoleSuper \<and> CanAccessTenant (xc_Auth command) (tn_TenantID t) \<and>
    tn_TenantID t = TrimSpace (xc_TenantID command) \<and> tn_TenantID t \<noteq> [] \<and>
    lookup_row te_tenant_id (tn_TenantID t) (tenants (w_db w)) = None \<and>
    (\<exists>row n1 n2 audit. te_tenant_id row = tn_TenantID t \<and> te_status row = TenantStatusActive \<and> te_deleted_at row = None \<and>
       al_action audit = ''tenant.create'' \<and> al_admin_subject audit = ai_AdminID (xc_Auth command) \<and>
       w_db w' = (w_db w)\<lparr>tenants := tenants (w_db w) @ [row],
         tenant_policies := tenant_policies (w_db w) @ [default_policy_row (tn_TenantID t) n1],
         tenant_usage := tenant_usage (w_db w) @ [\<lparr>tu_tenant_id = tn_TenantID t, tu_used_storage_bytes = 0, tu_used_file_count = 0,
           tu_last_upload_at = None, tu_version = 0, tu_updated_at = n2\<rparr>],
         admin_audit_logs := admin_audit_logs (w_db w) @ [audit]\<rparr>)"
proof (cases r)
  case (Inl e)
  have "db_frame.keeps_on_error (CreateTenant env command)"
    unfolding CreateTenant_def Let_def by (intro command_frame)
  with run Inl show ?thesis by (auto dest: db_frame.keeps_on_errorD)
next
  case (Inr t)
  with run obtain tenantID u where
      *: "requiredField (xc_TenantID command) ''tenantId'' = Inr tenantID"
      "EnsureCreateTenant (xc_Auth command) tenantID = Inr ()"
      "admin_WithinTransaction env (createTenantBody env command t) (tick w) = (Inr u, w')"
      "tn_TenantID t = tenantID" "tn_Status t = TenantStatusActive"
    by (auto simp: CreateTenant_def run_action_Inr Now_Inr FromTenant_def Let_def simp del: liftA_iff)
  from admin_tx_Inr [OF *(3)] obtain w2 where body: "createTenantBody env command t (tick (tick w)) = (Inr u, w2)" "w' = tick w2" by blast
  have id: "tenantID = TrimSpace (xc_TenantID command)" "tenantID \<noteq> []" using *(1) by (auto simp: requiredField_def split: if_splits)
  have "HasMinimumRole (xc_Auth command) RoleSuper" "CanAccessTenant (xc_Auth command) tenantID"
    using *(2) id by (auto simp: EnsureCreateTenant_def bindE_Inr_iff RuleFor_def dest!: admin_role EnsureTenantScope_Inr)
  with createTenantBody_Inr [OF body(1)] body(2) * id Inr show ?thesis
    by (auto simp: tick_def statusDeletedAt_def admin_nullTime_def tenant_status_defs)
qed

subsection \<open>Patching a tenant\<close>

text \<open>A tenant has a time of deletion exactly when its status is DELETED.\<close>

definition tenants_consistent :: "database \<Rightarrow> bool" where
  "tenants_consistent db \<longleftrightarrow> (\<forall>r \<in> set (tenants db). (te_deleted_at r \<noteq> None) = (te_status r = TenantStatusDeleted))"

interpretation patch_tenant: row_update te_tenant_id "patch_tenant_row patch now"
  by unfold_locales (simp add: patch_tenant_row_def)

lemma patchTenantBody_Inr:
  assumes "patchTenantBody env command i patch w = (Inr t, w')"
  shows "\<exists>row now audit. lookup_row te_tenant_id i (tenants (w_db w)) = Some row \<and> t = scanTenant (patch_tenant_row patch now row) \<and>
    al_action audit = ''tenant.patch'' \<and> al_admin_subject audit = ai_AdminID (xp_Auth command) \<and>
    al_details audit = tenantPatchDetails patch (xp_IdempotencyKey command) \<and>
    w_db w' = (w_db w)\<lparr>tenants := update_where (\<lambda>r. te_tenant_id r = i) (patch_tenant_row patch now) (tenants (w_db w)),
      admin_audit_logs := admin_audit_logs (w_db w) @ [audit]\<rparr>"
proof -
  from assms obtain tn w1 w2 entry where 1: "TenantRepository_Patch env i patch w = (Inr (Some tn), w1)"
      and 2: "newAuditRecord env (xp_Auth command) i ''tenant.patch'' ''tenant'' i
           (tenantPatchDetails patch (xp_IdempotencyKey command)) w1 = (Inr entry, w2)"
      and 3: "AuditLog_Append env entry w2 = (Inr (), w')" and tn: "t = tn"
    by (auto simp: patchTenantBody_def run_action_Inr simp del: liftA_iff split: option.splits)
  from 1 obtain row now where "lookup_row te_tenant_id i (tenants (w_db w)) = Some row" "tn = scanTenant (patch_tenant_row patch now row)"
      "w_db w1 = (w_db w)\<lparr>tenants := update_where (\<lambda>r. te_tenant_id r = i) (patch_tenant_row patch now) (tenants (w_db w))\<rparr>"
    by (auto simp: TenantRepository_Patch_def bindA_Inr_iff Now_Inr runSQL_Inr update_tenant_def Let_def tick_def split: if_splits)
  with AuditLog_Append_Inr [OF 3] newAuditRecord_Inr [OF 2] tn show ?thesis by auto
qed

text \<open>
  Claim C36. A change to a tenant is governed: it succeeds only for a governance administrator in
  whose scope the tenant lies, a suspension or deletion only with a reason, which then is in the
  audit record written with it; only that tenant's row changes, and its status still agrees with
  its time of deletion. On an error nothing changes.
\<close>

theorem patch_tenant_governed:
  assumes run: "PatchTenant env command w = (r, w')" and ok: "tenants_consistent (w_db w)"
  shows "tenants_consistent (w_db w') \<and> (case r of Inl e \<Rightarrow> w_db w' = w_db w | Inr t \<Rightarrow>
    HasMinimumRole (xp_Auth command) RoleGovernance \<and> CanAccessTenant (xp_Auth command) (TrimSpace (xp_TenantID command)) \<and>
    (\<forall>s. px_Status (xp_Patch command) = Some s \<longrightarrow> tn_Status t = s) \<and>
    (\<exists>audit. admin_audit_logs (w_db w') = admin_audit_logs (w_db w) @ [audit] \<and>
       ((\<exists>s. px_Status (xp_Patch command) = Some s \<and> IsDestructive s) \<longrightarrow>
          TrimSpace (px_Reason (xp_Patch command)) \<noteq> [] \<and> (''reason'', PStr (TrimSpace (px_Reason (xp_Patch command)))) \<in> set (al_details audit))) \<and>
    (\<forall>j. j \<noteq> TrimSpace (xp_TenantID command) \<longrightarrow> lookup_row te_tenant_id j (tenants (w_db w')) = lookup_row te_tenant_id j (tenants (w_db w))))"
proof (cases r)
  case (Inl e)
  have "db_frame.keeps_on_error (PatchTenant env command)"
    unfolding PatchTenant_def Let_def by (intro command_frame)
  with run Inl ok show ?thesis by (auto dest: db_frame.keeps_on_errorD)
next
  case (Inr t)
  define patch where "patch = TenantPatch_Normalize (xp_Patch command)"
  from run Inr obtain i w1 where
      *: "requiredField (xp_TenantID command) ''tenantId'' = Inr i"
      "EnsureTenantPatch (xp_Auth command) i patch = Inr ()"
      "admin_WithinTransaction env (patchTenantBody env command i patch) w = (Inr t, w')"
    by (auto simp: PatchTenant_def run_action_Inr FromTenant_def Let_def patch_def simp del: liftA_iff)
  from admin_tx_Inr [OF *(3)] obtain w2 where body: "patchTenantBody env command i patch (tick w) = (Inr t, w2)" "w' = tick w2" by blast
  have i: "i = TrimSpace (xp_TenantID command)" using *(1) by (auto simp: requiredField_def split: if_splits)
  have trim: "TrimSpace i = i" by (simp add: i)
  have st: "px_Status patch = px_Status (xp_Patch command)" "px_Reason patch = TrimSpace (px_Reason (xp_Patch command))"
    by (simp_all add: patch_def TenantPatch_Normalize_def)
  have guard: "HasMinimumRole (xp_Auth command) RoleGovernance" "CanAccessTenant (xp_Auth command) i"
      "HasDestructiveChange patch \<Longrightarrow> px_Reason patch \<noteq> []"
    using *(2) trim by (auto simp: EnsureTenantPatch_def bindE_Inr_iff RuleFor_def Let_def HasDestructiveChange_def TenantPatch_Normalize_def
        RequireDestructiveReason_Inr st dest!: admin_role EnsureTenantScope_Inr split: if_splits)
  from patchTenantBody_Inr [OF body(1)] obtain row now audit where
      b: "t = scanTenant (patch_tenant_row patch now row)" "al_details audit = tenantPatchDetails patch (xp_IdempotencyKey command)"
      "w_db w' = (w_db w)\<lparr>tenants := update_where (\<lambda>r. te_tenant_id r = i) (patch_tenant_row patch now) (tenants (w_db w)),
        admin_audit_logs := admin_audit_logs (w_db w) @ [audit]\<rparr>"
    using body(2) by (auto simp: tick_def)
  have "(te_deleted_at (patch_tenant_row patch now r) \<noteq> None) = (te_status (patch_tenant_row patch now r) = TenantStatusDeleted)"
    if "r \<in> set (tenants (w_db w))" for r
    using ok that by (auto simp: tenants_consistent_def patch_tenant_row_def tenant_status_defs split: option.splits)
  then have "tenants_consistent (w_db w')"
    using ok by (auto simp: tenants_consistent_def b(3) update_where_def)
  moreover have "px_Status (xp_Patch command) = Some s \<Longrightarrow> tn_Status t = s" for s
    by (simp add: b(1) scanTenant_def patch_tenant_row_def st)
  moreover have "(''reason'', PStr (px_Reason patch)) \<in> set (al_details audit)" if "px_Reason patch \<noteq> []"
    using that by (simp add: b(2) tenantPatchDetails_def)
  moreover have "j \<noteq> i \<Longrightarrow> lookup_row te_tenant_id j (tenants (w_db w')) = lookup_row te_tenant_id j (tenants (w_db w))" for j
    by (simp add: b(3) patch_tenant.lookup_update_key)
  ultimately show ?thesis
    using guard Inr b(3) i by (auto simp: st [symmetric] HasDestructiveChange_def)
qed

subsection \<open>Patching a policy\<close>

text \<open>A normalized list stays as it is when it is normalized again.\<close>

definition slice_normal :: "bool \<Rightarrow> string list \<Rightarrow> bool" where
  "slice_normal lower xs \<longleftrightarrow> distinct xs \<and> (\<forall>x \<in> set xs. x \<noteq> [] \<and> TrimSpace x = x \<and> (lower \<longrightarrow> ToLower x = x))"

lemma slice_normal_snoc:
  "slice_normal lower (xs @ [x]) \<longleftrightarrow>
     slice_normal lower xs \<and> x \<notin> set xs \<and> x \<noteq> [] \<and> TrimSpace x = x \<and> (lower \<longrightarrow> ToLower x = x)"
  by (auto simp: slice_normal_def)

lemma string_slice_loop_normal: "slice_normal lower acc \<Longrightarrow> slice_normal lower (string_slice_loop lower acc xs)"
  by (induction xs arbitrary: acc) (simp_all add: slice_normal_snoc Let_def TrimSpace_ToLower)

lemma string_slice_loop_id: "slice_normal lower (acc @ xs) \<Longrightarrow> string_slice_loop lower acc xs = acc @ xs"
proof (induction xs arbitrary: acc)
  case (Cons x xs)
  then have "TrimSpace x = x" "lower \<longrightarrow> ToLower x = x" "x \<noteq> []" "x \<notin> set acc" by (simp_all add: slice_normal_def)
  then show ?case using Cons.IH [of "acc @ [x]"] Cons.prems by (cases lower) simp_all
qed simp

lemma normalizeStringSlice_idem [simp]: "normalizeStringSlice (normalizeStringSlice v lower) lower = normalizeStringSlice v lower"
proof (cases v)
  case (Some xs)
  have "slice_normal lower (string_slice_loop lower [] xs)" by (rule string_slice_loop_normal) (simp add: slice_normal_def)
  then show ?thesis using Some string_slice_loop_id [of lower "[]"] by (simp add: normalizeStringSlice_def)
qed (simp add: normalizeStringSlice_def)

lemma normalizeAccessLevelPtr_idem [simp]: "normalizeAccessLevelPtr (normalizeAccessLevelPtr v) = normalizeAccessLevelPtr v"
  by (cases v) (simp_all add: normalizeAccessLevelPtr_def TrimSpace_ToUpper)

lemma TenantPolicy_Normalize_idem [simp]: "TenantPolicy_Normalize (TenantPolicy_Normalize p) = TenantPolicy_Normalize p"
  by (simp add: TenantPolicy_Normalize_def)

text \<open>Two policies that mean the same: an absent list and an empty one both allow everything.\<close>

definition same_policy :: "admin_TenantPolicy \<Rightarrow> admin_TenantPolicy \<Rightarrow> bool" where
  "same_policy p q \<longleftrightarrow>
     ap_MaxStorageBytes p = ap_MaxStorageBytes q \<and> ap_MaxFileCount p = ap_MaxFileCount q \<and>
     ap_MaxSingleFileSize p = ap_MaxSingleFileSize q \<and>
     slice (ap_AllowedMimeTypes p) = slice (ap_AllowedMimeTypes q) \<and>
     slice (ap_AllowedExtensions p) = slice (ap_AllowedExtensions q) \<and>
     ap_DefaultAccessLevel p = ap_DefaultAccessLevel q \<and> ap_AutoCreateEnabled p = ap_AutoCreateEnabled q"

lemma same_policy_tightens: "same_policy p q \<Longrightarrow> TightensComparedTo p current = TightensComparedTo q current"
  by (simp add: same_policy_def TightensComparedTo_def stringSetTightens_def)

lemma slice_normalize_patch:
  assumes "normalizeStringSlice v lower = v"
  shows "slice (normalizeStringSlice (cloneStrings (case v of Some x \<Rightarrow> x | None \<Rightarrow> xs)) lower) =
    slice (overlay v (normalizeStringSlice (cloneStrings xs) lower))"
  using assms by (auto simp: normalizeStringSlice_def cloneStrings_def overlay_def slice_def split: option.splits)

text \<open>The row the UPDATE writes is, read back, the policy the guard was asked about.\<close>

lemma patched_policy_row:
  assumes "TenantPolicy_Normalize (pp_Policy patch) = pp_Policy patch"
  shows "same_policy (pv_Policy (scanTenantPolicy (patch_policy_row patch now row)))
    (ApplyTo patch (TenantPolicy_Normalize (pv_Policy (scanTenantPolicy row))))"
proof -
  have n: "normalizeStringSlice (ap_AllowedMimeTypes (pp_Policy patch)) False = ap_AllowedMimeTypes (pp_Policy patch)"
      "normalizeStringSlice (ap_AllowedExtensions (pp_Policy patch)) True = ap_AllowedExtensions (pp_Policy patch)"
      "normalizeAccessLevelPtr (ap_DefaultAccessLevel (pp_Policy patch)) = ap_DefaultAccessLevel (pp_Policy patch)"
    using arg_cong [OF assms, of ap_AllowedMimeTypes] arg_cong [OF assms, of ap_AllowedExtensions] arg_cong [OF assms, of ap_DefaultAccessLevel]
    by (simp_all add: TenantPolicy_Normalize_def)
  have lvl: "normalizeAccessLevelPtr (Some (case ap_DefaultAccessLevel (pp_Policy patch) of Some v \<Rightarrow> v | None \<Rightarrow> l)) =
      overlay (ap_DefaultAccessLevel (pp_Policy patch)) (normalizeAccessLevelPtr (Some l))" for l
    using n(3) by (auto simp: overlay_def normalizeAccessLevelPtr_def split: option.splits)
  show ?thesis
    by (auto simp: same_policy_def scanTenantPolicy_def patch_policy_row_def Let_def ApplyTo_def TenantPolicy_Normalize_def
        slice_normalize_patch [OF n(1)] slice_normalize_patch [OF n(2)] lvl overlay_def split: option.splits)
qed

interpretation patch_policy: row_update tp_tenant_id "patch_policy_row patch now"
  by unfold_locales (simp add: patch_policy_row_def Let_def)

lemma patchPolicyBody_Inr:
  assumes "patchPolicyBody env command i patch w = (Inr v, w')"
  shows "\<exists>row now audit. lookup_row tp_tenant_id i (tenant_policies (w_db w)) = Some row \<and>
    EnsureTenantPolicyPatch (xq_Auth command) i (TenantPolicy_Normalize (pv_Policy (scanTenantPolicy row))) patch = Inr () \<and>
    v = scanTenantPolicy (patch_policy_row patch now row) \<and>
    al_admin_subject audit = ai_AdminID (xq_Auth command) \<and>
    al_details audit = tenantPolicyPatchDetails patch (xq_IdempotencyKey command) \<and>
    w_db w' = (w_db w)\<lparr>tenant_policies := update_where (\<lambda>r. tp_tenant_id r = i) (patch_policy_row patch now) (tenant_policies (w_db w)),
      admin_audit_logs := admin_audit_logs (w_db w) @ [audit]\<rparr>"
proof -
  from assms obtain cur view w1 w2 w3 entry where 1: "PolicyRepository_GetByTenantID env i w = (Inr (Some cur), w1)"
      and 2: "EnsureTenantPolicyPatch (xq_Auth command) i (TenantPolicy_Normalize (pv_Policy cur)) patch = Inr ()"
      and 3: "PolicyRepository_Patch env i patch w1 = (Inr (Some view), w2)"
      and 4: "newAuditRecord env (xq_Auth command) i ''tenant_policy.patch'' ''tenantPolicy'' i
           (tenantPolicyPatchDetails patch (xq_IdempotencyKey command)) w2 = (Inr entry, w3)"
      and 5: "AuditLog_Append env entry w3 = (Inr (), w')" and v: "v = view"
    by (auto simp: patchPolicyBody_def run_action_Inr simp del: liftA_iff split: option.splits)
  from 1 obtain row where "lookup_row tp_tenant_id i (tenant_policies (w_db w)) = Some row" "cur = scanTenantPolicy row" "w_db w1 = w_db w"
    by (auto simp: PolicyRepository_GetByTenantID_def runSQL_Inr query_policy_def)
  moreover from 3 this obtain now where "view = scanTenantPolicy (patch_policy_row patch now row)"
      "w_db w2 = (w_db w1)\<lparr>tenant_policies := update_where (\<lambda>r. tp_tenant_id r = i) (patch_policy_row patch now) (tenant_policies (w_db w1))\<rparr>"
    by (auto simp: PolicyRepository_Patch_def bindA_Inr_iff Now_Inr runSQL_Inr update_policy_def Let_def tick_def split: if_splits)
  ultimately show ?thesis using AuditLog_Append_Inr [OF 5] newAuditRecord_Inr [OF 4] 2 v by auto
qed

text \<open>
  Claim C37. A policy is changed to exactly the policy the rules were checked against. When a
  patch succeeds, the administrator has the governance role and the tenant in scope; the policy
  read back is the previous one overlaid with the normalized patch; when it is tighter than the
  previous one, a reason was given and stands in the audit record; no other tenant's policy
  changes. On an error the database is as it was.
\<close>

theorem patch_policy_as_checked:
  assumes run: "PatchTenantPolicy env command w = (r, w')"
  defines "i \<equiv> TrimSpace (xq_TenantID command)"
  shows "case r of Inl e \<Rightarrow> w_db w' = w_db w | Inr v \<Rightarrow>
    HasMinimumRole (xq_Auth command) RoleGovernance \<and> CanAccessTenant (xq_Auth command) i \<and>
    (\<exists>row row' audit. lookup_row tp_tenant_id i (tenant_policies (w_db w)) = Some row \<and>
       lookup_row tp_tenant_id i (tenant_policies (w_db w')) = Some row' \<and> v = scanTenantPolicy row' \<and>
       same_policy (pv_Policy v) (ApplyTo (TenantPolicyPatch_Normalize (xq_Patch command)) (pv_Policy (scanTenantPolicy row))) \<and>
       admin_audit_logs (w_db w') = admin_audit_logs (w_db w) @ [audit] \<and>
       (TightensComparedTo (pv_Policy v) (pv_Policy (scanTenantPolicy row)) \<longrightarrow>
          TrimSpace (pp_Reason (xq_Patch command)) \<noteq> [] \<and>
          (''reason'', PStr (TrimSpace (pp_Reason (xq_Patch command)))) \<in> set (al_details audit))) \<and>
    (\<forall>j. j \<noteq> i \<longrightarrow> lookup_row tp_tenant_id j (tenant_policies (w_db w')) = lookup_row tp_tenant_id j (tenant_policies (w_db w)))"
proof (cases r)
  case (Inl e)
  have "db_frame.keeps_on_error (PatchTenantPolicy env command)"
    unfolding PatchTenantPolicy_def Let_def by (intro command_frame)
  with run Inl show ?thesis by (auto dest: db_frame.keeps_on_errorD)
next
  case (Inr v)
  define patch where "patch = TenantPolicyPatch_Normalize (xq_Patch command)"
  have norm: "TenantPolicy_Normalize (pp_Policy patch) = pp_Policy patch" "pp_Reason patch = TrimSpace (pp_Reason (xq_Patch command))"
    by (simp_all add: patch_def TenantPolicyPatch_Normalize_def)
  have scan: "TenantPolicy_Normalize (pv_Policy (scanTenantPolicy row)) = pv_Policy (scanTenantPolicy row)" for row
    by (simp add: scanTenantPolicy_def)
  from run Inr obtain u where *: "requiredField (xq_TenantID command) ''tenantId'' = Inr i"
      "admin_WithinTransaction env (patchPolicyBody env command i patch) w = (Inr u, w')" "v = FromTenantPolicy u"
    by (auto simp: PatchTenantPolicy_def run_action_Inr Let_def patch_def i_def requiredField_def simp del: liftA_iff split: if_splits)
  from admin_tx_Inr [OF *(2)] obtain w2 where body: "patchPolicyBody env command i patch (tick w) = (Inr u, w2)" "w' = tick w2" by blast
  from patchPolicyBody_Inr [OF body(1)] obtain row now audit where
      b: "lookup_row tp_tenant_id i (tenant_policies (w_db w)) = Some row"
      "EnsureTenantPolicyPatch (xq_Auth command) i (pv_Policy (scanTenantPolicy row)) patch = Inr ()"
      "u = scanTenantPolicy (patch_policy_row patch now row)" "al_details audit = tenantPolicyPatchDetails patch (xq_IdempotencyKey command)"
      "w_db w' = (w_db w)\<lparr>tenant_policies := update_where (\<lambda>r. tp_tenant_id r = i) (patch_policy_row patch now) (tenant_policies (w_db w)),
        admin_audit_logs := admin_audit_logs (w_db w) @ [audit]\<rparr>"
    using body(2) by (auto simp: tick_def scan)
  have v: "v = u" using *(3) b(3) by (simp add: FromTenantPolicy_def scan)
  have trim: "TrimSpace i = i" by (simp add: i_def)
  have same: "same_policy (pv_Policy v) (ApplyTo patch (pv_Policy (scanTenantPolicy row)))"
    using patched_policy_row [OF norm(1), of now row] by (simp add: v b(3) scan)
  have guard: "HasMinimumRole (xq_Auth command) RoleGovernance" "CanAccessTenant (xq_Auth command) i"
      "TightensComparedTo (pv_Policy v) (pv_Policy (scanTenantPolicy row)) \<Longrightarrow> pp_Reason patch \<noteq> []"
    using b(2) trim by (auto simp: EnsureTenantPolicyPatch_def bindE_Inr_iff RuleFor_def same_policy_tightens [OF same] norm(2)
        RequireDestructiveReason_Inr dest!: admin_role EnsureTenantScope_Inr split: if_splits)
  have reason: "(''reason'', PStr (pp_Reason patch)) \<in> set (al_details audit)" if "pp_Reason patch \<noteq> []"
    using that by (simp add: b(4) tenantPolicyPatchDetails_def Let_def)
  have after: "lookup_row tp_tenant_id j (tenant_policies (w_db w')) =
      (if j = i then Some (patch_policy_row patch now row) else lookup_row tp_tenant_id j (tenant_policies (w_db w)))" for j
    by (simp add: b(5) patch_policy.lookup_update_key b(1))
  show ?thesis
    using guard same reason after b(1,5) by (auto simp: Inr v b(3) patch_def [symmetric] norm(2))
qed

subsection \<open>What the rules leave open\<close>

text \<open>
  Replacing every allowed type by other ones is no tightening, so no reason is asked for, although
  every type that was allowed is refused afterwards; and a patch may blank a tenant's name, which
  the creation of a tenant refuses.
\<close>

lemma replaced_allow_list_needs_no_reason:
  assumes "xs \<noteq> []" "set xs \<inter> set ys = {}" "ys \<noteq> []"
  shows "\<not> stringSetTightens (Some xs) (Some ys)"
  using assms by (cases ys) (auto simp: stringSetTightens_def slice_def list_ex_iff)

lemma patch_accepts_blank_name:
  "TenantPatch_IsEmpty (TenantPatch_Normalize (p\<lparr>px_TenantName := Some ''  ''\<rparr>)) = False"
  "px_TenantName (TenantPatch_Normalize (p\<lparr>px_TenantName := Some ''  ''\<rparr>)) = Some []"
proof -
  have "TrimSpace ''  '' = []" by code_simp
  then show "TenantPatch_IsEmpty (TenantPatch_Normalize (p\<lparr>px_TenantName := Some ''  ''\<rparr>)) = False"
      "px_TenantName (TenantPatch_Normalize (p\<lparr>px_TenantName := Some ''  ''\<rparr>)) = Some []"
    by (simp_all add: TenantPatch_IsEmpty_def TenantPatch_Normalize_def normalizeStringPtr_def)
qed

subsection \<open>Concrete runs\<close>

definition sampleCreate :: CreateTenantCommand where
  "sampleCreate = \<lparr>xc_TenantID = '' t2 '', xc_TenantName = ''Two'', xc_ContactEmail = [], xc_Description = [],
     xc_IdempotencyKey = [], xc_Auth = sampleAdmin\<lparr>ai_Roles := [''admin.super''], ai_TenantScopes := [''*'']\<rparr>\<rparr>"

definition samplePatch :: PatchTenantCommand where
  "samplePatch = \<lparr>xp_TenantID = ''t1'', xp_Patch = \<lparr>px_TenantName = None, px_Status = Some ''DELETED'', px_ContactEmail = None,
     px_Description = None, px_Reason = ''closed''\<rparr>, xp_IdempotencyKey = [], xp_Auth = sampleAdmin\<rparr>"

definition samplePolicyPatch :: PatchTenantPolicyCommand where
  "samplePolicyPatch = \<lparr>xq_TenantID = ''t1'', xq_Patch = \<lparr>pp_Policy = no_policy\<lparr>ap_MaxFileCount := Some 5,
     ap_AllowedExtensions := Some ['' PNG'', ''png'']\<rparr>, pp_Reason = ''quota''\<rparr>, xq_IdempotencyKey = [], xq_Auth = sampleAdmin\<rparr>"

lemma sample_tenant_runs:
  "\<not> isl (fst (CreateTenant sampleEnv sampleCreate (sampleWorld [])))"
  "\<not> isl (fst (PatchTenant sampleEnv samplePatch (sampleWorld [])))"
  "\<not> isl (fst (PatchTenantPolicy sampleEnv samplePolicyPatch (sampleWorld [])))"
  by code_simp+

theorem create_tenant_whole_witness:
  "(\<exists>t w'. CreateTenant sampleEnv sampleCreate (sampleWorld []) = (Inr t, w') \<and> tn_TenantID t = ''t2'') \<and>
   HasMinimumRole (xc_Auth sampleCreate) RoleSuper"
proof -
  obtain t w' where run: "CreateTenant sampleEnv sampleCreate (sampleWorld []) = (Inr t, w')"
    using sample_tenant_runs(1) by (metis not_isl_Inr prod.collapse)
  have "TrimSpace '' t2 '' = ''t2''" by code_simp
  then show ?thesis using create_tenant_whole [OF run] run by (simp add: sampleCreate_def)
qed

theorem patch_tenant_governed_witness:
  "\<exists>t w'. PatchTenant sampleEnv samplePatch (sampleWorld []) = (Inr t, w') \<and> tenants_consistent (w_db (sampleWorld [])) \<and>
     tenants_consistent (w_db w') \<and> tn_Status t = TenantStatusDeleted"
proof -
  obtain t w' where run: "PatchTenant sampleEnv samplePatch (sampleWorld []) = (Inr t, w')"
    using sample_tenant_runs(2) by (metis not_isl_Inr prod.collapse)
  have ok: "tenants_consistent (w_db (sampleWorld []))"
    by (simp add: tenants_consistent_def sampleWorld_def sampleDB_def tenant_status_defs)
  show ?thesis using patch_tenant_governed [OF run ok] run ok by (simp add: samplePatch_def tenant_status_defs)
qed

theorem patch_policy_as_checked_witness:
  "\<exists>v w'. PatchTenantPolicy sampleEnv samplePolicyPatch (sampleWorld []) = (Inr v, w') \<and>
     ap_MaxFileCount (pv_Policy v) = Some 5 \<and> ap_MaxStorageBytes (pv_Policy v) = Some 1000"
proof -
  obtain v w' where run: "PatchTenantPolicy sampleEnv samplePolicyPatch (sampleWorld []) = (Inr v, w')"
    using sample_tenant_runs(3) by (metis not_isl_Inr prod.collapse)
  have "TrimSpace ''t1'' = ''t1''" by code_simp
  then show ?thesis using patch_policy_as_checked [OF run] run
    by (auto simp: samplePolicyPatch_def same_policy_def ApplyTo_def overlay_def TenantPolicyPatch_Normalize_def TenantPolicy_Normalize_def
        no_policy_def sampleWorld_def sampleDB_def lookup_row_def scanTenantPolicy_def)
qed

end
