(* ===== verification/SystemLaws.thy ===== *)
theory SystemLaws
  imports UploadCommandLaws OutboxLaws TenantLaws
begin

text \<open>
  The services together. They share one database, and their transactions interleave: the
  completion of an upload reads, asks the storage and commits in separate transactions, while
  administrators delete files and the jobs clean up. The step relation has one rule per
  transaction or handler that writes; its invariant is that files and blobs fit together.
\<close>

subsection \<open>Files and blobs fit together\<close>

definition files_sound :: "database \<Rightarrow> bool" where
  "files_sound db \<longleftrightarrow> references_exact db \<and> distinct (map fa_file_id (file_assets db)) \<and>
     list_all file_row_check (file_assets db)"

interpretation sound: frame "\<lambda>w w'. files_sound (w_db w) \<longrightarrow> files_sound (w_db w')"
  by unfold_locales simp_all

lemma references_sound: "references.keeps m \<Longrightarrow> sound.keeps m"
  by (rule sound.keepsI) (auto simp: files_sound_def same_references_exact same_references_def dest: references.keepsD)

lemma content_sound: "content.keeps m \<Longrightarrow> sound.keeps m"
proof (rule references_sound, rule references.keepsI)
  fix w r w' assume "content.keeps m" "m w = (r, w')"
  from content.keepsD [OF this] show "same_references w w'" by (simp add: content_of_def same_references_def)
qed

text \<open>The handlers of the upload service that keep files, blobs and usage.\<close>

lemma FindReusable_db: "db_frame.keeps (FindReusable env q)"
  unfolding FindReusable_def by (intro db_frame.keeps_rules querySession_db runSQL_read_db frame_rules; auto split: option.splits)

lemma ReadUploadPolicy_db: "db_frame.keeps (ReadUploadPolicy env t)"
  unfolding ReadUploadPolicy_def by (intro db_frame.keeps_rules runSQL_read_db frame_rules; auto split: option.splits)

lemma presignPut_db: "db_frame.keeps (presignPut env ref ct ttl)"
  unfolding presignPut_def by (intro db_frame.keeps_rules frame_rules)

lemma issuePutURL_db: "db_frame.keeps (issuePutURL env h s)"
  unfolding issuePutURL_def by (intro db_frame.keeps_rules presignPut_db)

lemma prepareProvider_db: "db_frame.keeps (prepareProvider env h mode ref ct)"
  unfolding prepareProvider_def
  by (cases mode) (auto intro!: db_frame.keeps_rules frame_rules presignPut_db split: prod.splits)

lemma Create_content: "content.keeps (SessionRepository_Create env s)"
  unfolding SessionRepository_Create_def
  by (intro content_rules content_runSQL) (auto simp: insert_session_def Let_def split: if_splits)

lemma CreateUploadSession_content: "content.keeps (CreateUploadSession env h command)"
  unfolding CreateUploadSession_def Let_def
  by (intro content_rules content_db [OF FindReusable_db] content_db [OF ReadUploadPolicy_db])
     (auto intro!: content_rules content_db [OF issuePutURL_db] content_db [OF prepareProvider_db] Create_content split: prod.splits)

lemma UploadInlineContent_content: "content.keeps (UploadInlineContent env command)"
  unfolding UploadInlineContent_def Let_def
  by (intro content_rules requireSessionID_content content_db [OF GetByID_db] Save_content)

lemma AbortUploadSession_content: "content.keeps (AbortUploadSession env hasMultipart command)"
  unfolding AbortUploadSession_def abort_read_def abort_write_def
  by (intro content_rules requireSessionID_content content_db [OF GetByID_db] Save_content)

text \<open>The jobs: sessions and outbox rows, usage rows, and the removal of unreferenced blobs.\<close>

lemma ExpirePendingSessions_references: "references.keeps (ExpirePendingSessions env locked before limit)"
  unfolding ExpirePendingSessions_def
  by (intro references.keeps_rules references_db [OF Now_db] references_runSQL) (auto simp: update_candidates_def Let_def)

lemma RepairStuckCompleting_references: "references.keeps (RepairStuckCompleting env locked before limit)"
  unfolding RepairStuckCompleting_def
  by (intro references.keeps_rules references_db [OF Now_db] references_runSQL) (auto simp: update_candidates_def Let_def)

lemma CleanupMultipartUploads_references: "references.keeps (CleanupMultipartUploads env locked hasStorage before limit)"
  unfolding CleanupMultipartUploads_def storageRequired_def cleanupMultipart_def tolerateNotFound_def Let_def
  by (intro references.keeps_rules references_runTx references_db [OF Now_db] references_db [OF callA_db] references_runSQL)
     (auto simp: clear_provider_upload_def split: if_splits)

lemma ReconcileTenantUsage_references: "references.keeps (ReconcileTenantUsage env limit)"
  unfolding ReconcileTenantUsage_def
  by (intro references.keeps_rules references_db [OF Now_db] references_runSQL) (auto simp: reconcile_tenant_def split: if_splits)

lemma consumeEvent_references:
  assumes "\<And>t h e. map_of (co_handlers c) t = Some h \<Longrightarrow> references.keeps (h e)"
  shows "references.keeps (consumeEvent env c now event)"
  unfolding consumeEvent_def OutboxReader_MarkFailed_def MarkPublished_def
  by (intro references.keeps_rules references_runSQL assms) (auto simp: mark_failed_def mark_published_def)

lemma outbox_references: "references.keeps (ProcessOutboxEventsJob env locked (newOutboxConsumer n))"
proof -
  have "references.keeps (h e)" if "map_of (co_handlers (newOutboxConsumer n)) t = Some h" for t h e
    using that by (auto simp: newOutboxConsumer_def NewConsumer_def newOutboxHandlers_def references.keeps_pure split: if_splits)
  then have "references.keeps (consumeAll env (newOutboxConsumer n) now events result)" for now events result
    by (induction events arbitrary: result) (auto intro!: references.keeps_rules consumeEvent_references split: sum.splits)
  then show ?thesis
    unfolding ProcessOutboxEventsJob_def Consumer_RunOnce_def ClaimPending_def
    by (intro references.keeps_rules references_db [OF Now_db] references_runSQL)
       (auto simp: claim_pending_def Let_def intro!: references.keeps_rules references_db [OF Now_db] split: sum.splits)
qed

subsection \<open>The transactions that change files and blobs\<close>

text \<open>A database with a file of a new identifier that keeps its checks.\<close>

lemma insert_file_keeps_rows:
  assumes "insert_file t r db = Inr (u, db')" and "distinct (map fa_file_id (file_assets db))"
    and "list_all file_row_check (file_assets db)"
  shows "distinct (map fa_file_id (file_assets db')) \<and> list_all file_row_check (file_assets db')"
proof -
  have "fa_file_id (file_row_of t r) = fr_FileID r" by (simp add: file_row_of_def)
  with assms show ?thesis by (auto simp: insert_file_def Let_def lookup_row_None image_iff split: if_splits option.splits)
qed

lemma commit_sound:
  assumes "all_ports h"
  shows "sound.keeps (commit env h session token m requestID)"
proof (rule sound.keepsI, rule impI)
  fix w r w'
  assume run: "commit env h session token m requestID w = (r, w')" and ok: "files_sound (w_db w)"
  have exact: "references_exact (w_db w')"
    using commit_references_exact [OF assms run] ok by (simp add: files_sound_def)
  show "files_sound (w_db w')"
  proof (cases r)
    case (Inl e)
    with run ok show ?thesis by (auto simp: commit_def dest: WithinTransaction_Inl_db)
  next
    case (Inr res)
    show ?thesis
    proof (rule commit_cases [OF assms run [unfolded Inr]])
      fix owned blobID completed ev
      assume chain: "commit_chain owned m blobID (cv_FileID res) completed ev (w_db w) (w_db w')"
      then obtain t1 t2 t3 t4 n db1 db2 db3 db4 db5 where
        c: "upsert_blob t1 (commitBlobRecord owned m blobID) (w_db w) = Inr ((), db1)" "adjust_refs blobID 1 t2 db1 = Inr ((), db2)"
        "insert_file t3 (commitFileRecord owned m blobID (cv_FileID res)) db2 = Inr ((), db3)"
        "apply_delta (s_TenantID owned) (effectiveSizeBytes (mu_metadata m) (s_SizeBytes owned)) t4 db3 = Inr ((), db4)"
        "update_session completed db4 = Inr (n, db5)" "insert_event ev db5 = Inr ((), w_db w')"
        unfolding commit_chain_def by blast
      have "file_assets db2 = file_assets (w_db w)" "file_assets (w_db w') = file_assets db3"
        using c by (auto simp: upsert_blob_def adjust_refs_def Let_def apply_delta_rows update_session_rows insert_event_rows split: if_splits)
      with insert_file_keeps_rows [OF c(3)] ok exact show ?thesis by (simp add: files_sound_def)
    qed (use ok in simp)
  qed
qed

lemma CompleteUploadSession_sound:
  assumes "all_ports h"
  shows "sound.keeps (CompleteUploadSession env h command)"
proof -
  note content = content_sound [OF requireSessionID_content] content_sound [OF content_db [OF GetByID_db]]
    content_sound [OF completionToken_content] content_sound [OF AcquireCompletion_content] content_sound [OF ensureCompleting_content]
    content_sound [OF materialize_content] content_sound [OF finalizeFailure_content] content_sound [OF content_db [OF Now_db]]
  have "sound.keeps (materializeAndCommit env h owned token command)" for owned token
    unfolding materializeAndCommit_def
    by (intro sound.keeps_rules content commit_sound [OF assms])
  then show ?thesis
    unfolding CompleteUploadSession_def
    by (intro sound.keeps_rules content) (auto intro!: sound.keeps_rules content split: prod.splits CompletionOwnership.splits)
qed

lemma DeleteFile_sound: "sound.keeps (DeleteFile env command)"
proof (rule sound.keepsI, rule impI)
  fix w r w'
  assume run: "DeleteFile env command w = (r, w')" and ok: "files_sound (w_db w)"
  show "files_sound (w_db w')"
  proof (cases r)
    case (Inl e)
    have "db_frame.keeps_on_error (DeleteFile env command)" by (rule DeleteFile_on_error)
    with run Inl ok show ?thesis by (auto dest: db_frame.keeps_on_errorD)
  next
    case (Inr res)
    show ?thesis
    proof (rule DeleteFile_cases [OF run [unfolded Inr]])
      fix f now entry ev
      assume f: "lookup_row fa_file_id (TrimSpace (dc_FileID command)) (file_assets (w_db w)) = Some f"
        and st: "fa_status f \<noteq> FileStatusDeleted"
        and chain: "delete_chain (TrimSpace (dc_FileID command)) now f entry ev (w_db w) (w_db w')"
      from lookup_row_Some [OF f] st ok have act: "fa_status f = FileStatusActive"
        by (auto simp: files_sound_def list_all_iff file_row_check_def)
      have "references_exact (w_db w')"
        using delete_chain_references(2) [OF chain _ _ f act] ok by (simp add: files_sound_def)
      moreover have "list_all file_row_check (update_where p (delete_file_row now) rows)" if "list_all file_row_check rows" for p rows
        using that by (auto simp: list_all_iff update_where_def delete_file_row_def file_row_check_def)
      ultimately show ?thesis
        using ok delete_chain_effects(1) [OF chain] by (simp add: files_sound_def delete_file.keys_update)
    qed (use ok in simp)
  qed
qed

text \<open>The tenant commands write other tables.\<close>

lemma references_admin_tx:
  assumes "references.keeps body"
  shows "references.keeps (admin_WithinTransaction env body)"
proof (rule references.keepsI)
  fix w r w' assume run: "admin_WithinTransaction env body w = (r, w')"
  show "same_references w w'"
  proof (cases r)
    case (Inl e)
    with run show ?thesis by (auto simp: same_references_def dest: admin_tx_Inl)
  next
    case (Inr x)
    with run admin_tx_Inr [of env body w x w'] references.keepsD [OF assms] show ?thesis
      by (fastforce simp: same_references_def)
  qed
qed

lemma newAuditRecord_references: "references.keeps (newAuditRecord env c t a ty i d)"
  unfolding newAuditRecord_def by (intro references.keeps_rules references_db [OF Now_db] references_db [OF NewID_db])

lemma AuditLog_Append_references: "references.keeps (AuditLog_Append env entry)"
  unfolding AuditLog_Append_def by (intro references.keeps_rules references_runSQL) (auto simp: insert_audit_def split: if_splits)

lemma CreateTenant_references: "references.keeps (CreateTenant env command)"
  unfolding CreateTenant_def Let_def createTenantBody_def TenantRepository_Create_def CreateDefault_def Usage_Initialize_def
  by (intro references.keeps_rules references_db [OF Now_db] references_admin_tx newAuditRecord_references
      AuditLog_Append_references references_runSQL)
     (auto simp: insert_tenant_def insert_policy_def insert_usage_def Let_def split: if_splits option.splits)

lemma PatchTenant_references: "references.keeps (PatchTenant env command)"
  unfolding PatchTenant_def Let_def patchTenantBody_def TenantRepository_Patch_def
  by (intro references.keeps_rules references_db [OF Now_db] references_admin_tx newAuditRecord_references
      AuditLog_Append_references references_runSQL)
     (auto simp: update_tenant_def Let_def split: if_splits)

lemma PatchTenantPolicy_references: "references.keeps (PatchTenantPolicy env command)"
  unfolding PatchTenantPolicy_def Let_def patchPolicyBody_def PolicyRepository_Patch_def PolicyRepository_GetByTenantID_def
  by (intro references.keeps_rules references_db [OF Now_db] references_admin_tx newAuditRecord_references
      AuditLog_Append_references references_runSQL)
     (auto simp: update_policy_def query_policy_def Let_def split: if_splits)

lemma cleanup_sound:
  "sound.keeps (FinalizeDeletedFiles env locked hasStorage before limit)"
  "sound.keeps (CleanupOrphanBlobs env locked hasStorage before limit)"
  by (rule references_sound, rule references.keepsI, use cleanup_runs in blast)+

lemmas sound_rules =
  CompleteUploadSession_sound commit_sound DeleteFile_sound cleanup_sound
  content_sound [OF CreateUploadSession_content] content_sound [OF UploadInlineContent_content] content_sound [OF AbortUploadSession_content]
  content_sound [OF AcquireCompletion_content] content_sound [OF materialize_content] content_sound [OF finalizeFailure_content]
  content_sound [OF Save_content]
  references_sound [OF ExpirePendingSessions_references] references_sound [OF RepairStuckCompleting_references]
  references_sound [OF CleanupMultipartUploads_references] references_sound [OF ReconcileTenantUsage_references]
  references_sound [OF outbox_references] references_sound [OF CreateTenant_references]
  references_sound [OF PatchTenant_references] references_sound [OF PatchTenantPolicy_references]

lemma active_file_has_blob:
  assumes "files_sound db" and "f \<in> set (file_assets db)" and "fa_status f = FileStatusActive"
  shows "\<exists>b \<in> set (blob_objects db). bo_blob_object_id b = fa_blob_object_id f \<and> 1 \<le> bo_reference_count b"
proof -
  have "0 < active_refs (fa_blob_object_id f) db" using assms(2,3) by (auto simp: active_refs_def filter_empty_conv)
  with assms(1) have "0 < refs (fa_blob_object_id f) db" by (simp add: files_sound_def references_exact_def)
  then show ?thesis by (auto simp: refs_def dest!: lookup_row_Some split: option.splits)
qed

end
