(* ===== verification/GoCodec.thy ===== *)
theory GoCodec
  imports GoStrings "HOL-Library.Word"
begin

text \<open>
  The encoders and hashes of Go's standard library that tokens and keys are built with:
  \<^verbatim>\<open>base64.RawURLEncoding\<close>, \<^verbatim>\<open>hex.EncodeToString\<close>, \<^verbatim>\<open>sha256.Sum256\<close> and \<^verbatim>\<open>hmac\<close> over it, on byte strings.
  The hashes are the executable algorithms of FIPS 180-4 and RFC 2104.
\<close>

unbundle bit_operations_syntax

subsection \<open>Bytes\<close>

abbreviation byte_val :: "char \<Rightarrow> nat" where "byte_val c \<equiv> of_char c"

abbreviation byte_of :: "nat \<Rightarrow> char" where "byte_of n \<equiv> char_of n"

lemma byte_val_less [simp]: "byte_val c < 256"
  using of_char_mod_256 [of c] by (metis mod_less_divisor zero_less_numeral)

subsection \<open>Base64\<close>

definition b64_alphabet :: string where
  "b64_alphabet = ''ABCDEFGHIJKLMNOPQRSTUVWXYZabcdefghijklmnopqrstuvwxyz0123456789-_''"

definition b64_char :: "nat \<Rightarrow> char" where
  "b64_char k = b64_alphabet ! k"

fun index_of :: "char \<Rightarrow> string \<Rightarrow> nat option" where
  "index_of c [] = None"
| "index_of c (x # xs) = (if c = x then Some 0 else map_option Suc (index_of c xs))"

definition b64_val :: "char \<Rightarrow> nat option" where
  "b64_val c = index_of c b64_alphabet"

fun b64_EncodeToString :: "string \<Rightarrow> string" where
  "b64_EncodeToString (a # b # c # rest) =
     (let n = byte_val a * 65536 + byte_val b * 256 + byte_val c in
      b64_char (n div 262144) # b64_char (n div 4096 mod 64) # b64_char (n div 64 mod 64) # b64_char (n mod 64) #
      b64_EncodeToString rest)"
| "b64_EncodeToString [a, b] =
     (let n = byte_val a * 1024 + byte_val b * 4 in
      [b64_char (n div 4096), b64_char (n div 64 mod 64), b64_char (n mod 64)])"
| "b64_EncodeToString [a] =
     (let n = byte_val a * 16 in [b64_char (n div 64), b64_char (n mod 64)])"
| "b64_EncodeToString [] = []"

text \<open>
  The decoder skips line breaks, rejects every other character outside the alphabet and a
  single left-over character, and ignores the left-over bits of the last one.
\<close>

fun b64_decode_vals :: "nat list \<Rightarrow> string option" where
  "b64_decode_vals (p # q # r # s # rest) =
     (let n = p * 262144 + q * 4096 + r * 64 + s in
      map_option (\<lambda>out. byte_of (n div 65536) # byte_of (n div 256 mod 256) # byte_of (n mod 256) # out)
        (b64_decode_vals rest))"
| "b64_decode_vals [p, q, r] =
     (let n = p * 4096 + q * 64 + r in Some [byte_of (n div 1024), byte_of (n div 4 mod 256)])"
| "b64_decode_vals [p, q] = (let n = p * 64 + q in Some [byte_of (n div 16)])"
| "b64_decode_vals [p] = None"
| "b64_decode_vals [] = Some []"

fun those_vals :: "string \<Rightarrow> nat list option" where
  "those_vals [] = Some []"
| "those_vals (c # cs) = (case b64_val c of None \<Rightarrow> None | Some v \<Rightarrow> map_option (Cons v) (those_vals cs))"

definition b64_DecodeString :: "string \<Rightarrow> string option" where
  "b64_DecodeString s =
     (case those_vals (filter (\<lambda>c. c \<noteq> CHR 0x0A \<and> c \<noteq> CHR 0x0D) s) of None \<Rightarrow> None | Some vs \<Rightarrow> b64_decode_vals vs)"

lemma b64_alphabet_distinct: "distinct b64_alphabet" "length b64_alphabet = 64"
  by (simp_all add: b64_alphabet_def)

lemma index_of_nth: "distinct xs \<Longrightarrow> k < length xs \<Longrightarrow> index_of (xs ! k) xs = Some k"
  by (induction xs arbitrary: k) (auto simp: nth_Cons split: nat.splits)

lemma b64_val_char: "k < 64 \<Longrightarrow> b64_val (b64_char k) = Some k"
  using b64_alphabet_distinct by (simp add: b64_val_def b64_char_def index_of_nth)

lemma b64_char_in: "k < 64 \<Longrightarrow> b64_char k \<in> set b64_alphabet"
  using b64_alphabet_distinct(2) by (simp add: b64_char_def)

lemma b64_alphabet_plain: "c \<in> set b64_alphabet \<Longrightarrow> graphic c \<and> c \<noteq> CHR ''.'' \<and> c \<noteq> CHR 0x0A \<and> c \<noteq> CHR 0x0D"
  by (auto simp: b64_alphabet_def graphic_def)

lemma b64_groups:
  "a < (256::nat) \<Longrightarrow> b < 256 \<Longrightarrow> c < 256 \<Longrightarrow> (a * 65536 + b * 256 + c) div 262144 < 64"
  "a < (256::nat) \<Longrightarrow> b < 256 \<Longrightarrow> (a * 1024 + b * 4) div 4096 < 64"
  "a < (256::nat) \<Longrightarrow> a * 16 div 64 < 64"
  by auto

lemma b64_EncodeToString_set: "set (b64_EncodeToString s) \<subseteq> set b64_alphabet"
proof (induction s rule: b64_EncodeToString.induct)
  case (1 a b c rest)
  then show ?case
    using b64_groups(1) [of "byte_val a" "byte_val b" "byte_val c"] by (simp add: Let_def b64_char_in)
next
  case (2 a b)
  then show ?case using b64_groups(2) [of "byte_val a" "byte_val b"] by (simp add: Let_def b64_char_in)
next
  case (3 a)
  then show ?case using b64_groups(3) [of "byte_val a"] by (simp add: Let_def b64_char_in)
qed simp

lemma b64_regroup3:
  fixes n :: nat
  shows "n div 262144 * 262144 + n div 4096 mod 64 * 4096 + n div 64 mod 64 * 64 + n mod 64 = n"
proof -
  have "n div 64 = n div 4096 * 64 + n div 64 mod 64" "n div 4096 = n div 262144 * 64 + n div 4096 mod 64"
    using div_mult_mod_eq [of "n div 64" 64] div_mult_mod_eq [of "n div 4096" 64] by (simp_all add: div_mult2_eq [symmetric])
  then show ?thesis using div_mult_mod_eq [of n 64] by linarith
qed

lemma byte_of_low: "byte_of (256 * n + byte_val b) = b"
  by (metis add.commute char_of_char char_of_mod_256 mod_mult_self2)

lemma b64_regroup2:
  fixes n :: nat
  shows "n div 4096 * 4096 + n div 64 mod 64 * 64 + n mod 64 = n"
proof -
  have "n div 64 = n div 4096 * 64 + n div 64 mod 64"
    using div_mult_mod_eq [of "n div 64" 64] by (simp add: div_mult2_eq [symmetric])
  then show ?thesis using div_mult_mod_eq [of n 64] by linarith
qed

lemma div_digit: "r < m \<Longrightarrow> (x * m + r) div m = (x::nat)"
  by simp

lemma mod_digit: "r < m \<Longrightarrow> (x * m + r) mod m = (r::nat)"
  by simp

lemma b64_bytes3:
  fixes a b c :: nat
  assumes "b < 256" and "c < 256"
  shows "(a * 65536 + b * 256 + c) div 65536 = a" "(a * 65536 + b * 256 + c) div 256 mod 256 = b"
    "(a * 65536 + b * 256 + c) mod 256 = c"
proof -
  show "(a * 65536 + b * 256 + c) div 65536 = a"
    using assms div_digit [of "b * 256 + c" 65536 a] by (simp add: add.assoc)
  have "(a * 65536 + b * 256 + c) div 256 = a * 256 + b"
    using assms div_digit [of c 256 "a * 256 + b"] by (simp add: algebra_simps)
  then show "(a * 65536 + b * 256 + c) div 256 mod 256 = b" using assms(1) by simp
  have "(a * 65536 + b * 256 + c) mod 256 = ((a * 256 + b) * 256 + c) mod 256" by (simp add: algebra_simps)
  also have "\<dots> = c" using assms(2) by (simp only: mod_mult_self3 mod_less)
  finally show "(a * 65536 + b * 256 + c) mod 256 = c" .
qed

lemma b64_vals_encode: "\<exists>vs. those_vals (b64_EncodeToString s) = Some vs \<and> b64_decode_vals vs = Some s"
proof (induction s rule: b64_EncodeToString.induct)
  case (1 a b c rest)
  let ?n = "byte_val a * 65536 + byte_val b * 256 + byte_val c"
  from 1 obtain vs where vs: "those_vals (b64_EncodeToString rest) = Some vs" "b64_decode_vals vs = Some rest" by blast
  have "byte_of (?n div 65536) = a" "byte_of (?n div 256 mod 256) = b" "byte_of (?n mod 256) = c"
    by (simp_all only: b64_bytes3 [OF byte_val_less byte_val_less] char_of_char)
  moreover have "?n div 262144 < 64" using b64_groups(1) by simp
  ultimately show ?case
    using vs by (simp add: Let_def b64_val_char b64_regroup3)
next
  case (2 a b)
  let ?n = "byte_val a * 1024 + byte_val b * 4"
  have "?n div 1024 = byte_val a" using byte_val_less [of b] by auto
  moreover have "?n div 4096 < 64" using b64_groups(2) by simp
  ultimately show ?case by (simp add: Let_def b64_val_char b64_regroup2 byte_of_low)
next
  case (3 a)
  have "byte_val a * 16 div 64 * 64 + byte_val a * 16 mod 64 = byte_val a * 16" by (rule div_mult_mod_eq)
  then show ?case using b64_groups(3) [of "byte_val a"] by (simp add: Let_def b64_val_char)
qed simp

lemma b64_round_trip: "b64_DecodeString (b64_EncodeToString s) = Some s"
proof -
  have "filter (\<lambda>c. c \<noteq> CHR 0x0A \<and> c \<noteq> CHR 0x0D) (b64_EncodeToString s) = b64_EncodeToString s"
    using b64_EncodeToString_set [of s] b64_alphabet_plain by (intro filter_True) blast
  with b64_vals_encode [of s] show ?thesis by (auto simp: b64_DecodeString_def)
qed

lemma b64_encode_inj: "b64_EncodeToString s = b64_EncodeToString t \<Longrightarrow> s = t"
  by (metis b64_round_trip option.inject)

lemma b64_encode_Nil [simp]: "b64_EncodeToString s = [] \<longleftrightarrow> s = []"
  by (cases s rule: b64_EncodeToString.cases) (auto simp: Let_def)

lemma b64_text_graphic: "c \<in> set (b64_EncodeToString s) \<Longrightarrow> graphic c \<and> c \<noteq> CHR ''.''"
  using b64_EncodeToString_set b64_alphabet_plain by blast

lemma TrimSpace_b64_text: "b64_EncodeToString s \<noteq> [] \<Longrightarrow> TrimSpace (b64_EncodeToString s) = b64_EncodeToString s"
  using b64_text_graphic [OF hd_in_set] b64_text_graphic [OF last_in_set] by (intro TrimSpace_graphic) auto

subsection \<open>SHA-256\<close>

type_synonym u32 = "32 word"

definition sha256_K :: "u32 list" where
  "sha256_K =
     [1116352408, 1899447441, 3049323471, 3921009573, 961987163, 1508970993, 2453635748, 2870763221,
      3624381080, 310598401, 607225278, 1426881987, 1925078388, 2162078206, 2614888103, 3248222580,
      3835390401, 4022224774, 264347078, 604807628, 770255983, 1249150122, 1555081692, 1996064986,
      2554220882, 2821834349, 2952996808, 3210313671, 3336571891, 3584528711, 113926993, 338241895,
      666307205, 773529912, 1294757372, 1396182291, 1695183700, 1986661051, 2177026350, 2456956037,
      2730485921, 2820302411, 3259730800, 3345764771, 3516065817, 3600352804, 4094571909, 275423344,
      430227734, 506948616, 659060556, 883997877, 958139571, 1322822218, 1537002063, 1747873779,
      1955562222, 2024104815, 2227730452, 2361852424, 2428436474, 2756734187, 3204031479, 3329325298]"

definition sha256_H0 :: "u32 list" where
  "sha256_H0 = [1779033703, 3144134277, 1013904242, 2773480762, 1359893119, 2600822924, 528734635, 1541459225]"

definition rotr :: "nat \<Rightarrow> u32 \<Rightarrow> u32" where
  "rotr n x = drop_bit n x OR push_bit (32 - n) x"

definition sha256_ch :: "u32 \<Rightarrow> u32 \<Rightarrow> u32 \<Rightarrow> u32" where
  "sha256_ch x y z = (x AND y) XOR (NOT x AND z)"

definition sha256_maj :: "u32 \<Rightarrow> u32 \<Rightarrow> u32 \<Rightarrow> u32" where
  "sha256_maj x y z = (x AND y) XOR (x AND z) XOR (y AND z)"

definition sha256_S0 :: "u32 \<Rightarrow> u32" where "sha256_S0 x = rotr 2 x XOR rotr 13 x XOR rotr 22 x"
definition sha256_S1 :: "u32 \<Rightarrow> u32" where "sha256_S1 x = rotr 6 x XOR rotr 11 x XOR rotr 25 x"
definition sha256_s0 :: "u32 \<Rightarrow> u32" where "sha256_s0 x = rotr 7 x XOR rotr 18 x XOR drop_bit 3 x"
definition sha256_s1 :: "u32 \<Rightarrow> u32" where "sha256_s1 x = rotr 17 x XOR rotr 19 x XOR drop_bit 10 x"

text \<open>The bytes of a 64-bit or 32-bit number, most significant first, and back.\<close>

fun be_bytes :: "nat \<Rightarrow> nat \<Rightarrow> string" where
  "be_bytes 0 n = []"
| "be_bytes (Suc k) n = be_bytes k (n div 256) @ [byte_of (n mod 256)]"

fun be_words :: "string \<Rightarrow> u32 list" where
  "be_words (a # b # c # d # rest) =
     (push_bit 24 (of_nat (byte_val a)) OR push_bit 16 (of_nat (byte_val b)) OR push_bit 8 (of_nat (byte_val c)) OR
      of_nat (byte_val d)) # be_words rest"
| "be_words _ = []"

definition word_bytes :: "u32 \<Rightarrow> string" where
  "word_bytes w = map (\<lambda>k. byte_of (unat (drop_bit k w AND 255))) [24, 16, 8, 0]"

definition sha256_pad :: "string \<Rightarrow> string" where
  "sha256_pad s =
     (let n = length s; zeros = (55 + 64 - n mod 64) mod 64
      in s @ [byte_of 128] @ replicate zeros (byte_of 0) @ be_bytes 8 (n * 8))"

text \<open>The message schedule: 48 more words, each from the last sixteen.\<close>

fun sha256_extend :: "nat \<Rightarrow> u32 list \<Rightarrow> u32 list" where
  "sha256_extend 0 w = w"
| "sha256_extend (Suc k) w =
     (let t = length w in
      sha256_extend k (w @ [sha256_s1 (w ! (t - 2)) + w ! (t - 7) + sha256_s0 (w ! (t - 15)) + w ! (t - 16)]))"

fun sha256_round :: "u32 \<times> u32 \<Rightarrow> u32 list \<Rightarrow> u32 list" where
  "sha256_round (k, w) [a, b, c, d, e, f, g, h] =
     (let t1 = h + sha256_S1 e + sha256_ch e f g + k + w;
          t2 = sha256_S0 a + sha256_maj a b c
      in [t1 + t2, a, b, c, d + t1, e, f, g])"
| "sha256_round _ hs = hs"

definition sha256_block :: "u32 list \<Rightarrow> u32 list \<Rightarrow> u32 list" where
  "sha256_block block hs = map2 (+) hs (fold sha256_round (zip sha256_K (sha256_extend 48 block)) hs)"

fun sha256_blocks :: "nat \<Rightarrow> u32 list \<Rightarrow> u32 list \<Rightarrow> u32 list" where
  "sha256_blocks 0 ws hs = hs"
| "sha256_blocks (Suc n) ws hs = sha256_blocks n (drop 16 ws) (sha256_block (take 16 ws) hs)"

definition Sum256 :: "string \<Rightarrow> string" where
  "Sum256 s =
     (let ws = be_words (sha256_pad s)
      in concat (map word_bytes (sha256_blocks (length ws div 16) ws sha256_H0)))"

definition hex_digit :: "nat \<Rightarrow> char" where
  "hex_digit k = ''0123456789abcdef'' ! k"

definition hex_EncodeToString :: "string \<Rightarrow> string" where
  "hex_EncodeToString s = concat (map (\<lambda>c. [hex_digit (byte_val c div 16), hex_digit (byte_val c mod 16)]) s)"

subsection \<open>HMAC\<close>

definition xor_pad :: "nat \<Rightarrow> string \<Rightarrow> string" where
  "xor_pad pad key = map (\<lambda>c. byte_of (byte_val c XOR pad)) key"

definition hmac_key :: "string \<Rightarrow> string" where
  "hmac_key key = (let k = (if 64 < length key then Sum256 key else key) in k @ replicate (64 - length k) (byte_of 0))"

definition hmac_sha256 :: "string \<Rightarrow> string \<Rightarrow> string" where
  "hmac_sha256 key msg =
     (let k = hmac_key key in Sum256 (xor_pad 92 k @ Sum256 (xor_pad 54 k @ msg)))"

lemma length_be_bytes [simp]: "length (be_bytes k n) = k"
  by (induction k arbitrary: n) simp_all

lemma length_sha256_round: "length hs = 8 \<Longrightarrow> length (sha256_round kw hs) = 8"
  by (cases "(kw, hs)" rule: sha256_round.cases) (auto simp: Let_def)

lemma length_sha256_rounds: "length hs = 8 \<Longrightarrow> length (fold sha256_round kws hs) = 8"
  by (induction kws arbitrary: hs) (simp_all add: length_sha256_round)

lemma length_sha256_blocks: "length hs = 8 \<Longrightarrow> length (sha256_blocks n ws hs) = 8"
  by (induction n arbitrary: ws hs) (simp_all add: sha256_block_def length_sha256_rounds)

lemma length_Sum256 [simp]: "length (Sum256 s) = 32"
proof -
  have "length (sha256_blocks n ws sha256_H0) = 8" for n ws
    by (rule length_sha256_blocks) (simp add: sha256_H0_def)
  then show ?thesis by (simp add: Sum256_def Let_def length_concat comp_def sum_list_triv word_bytes_def)
qed

lemma length_hmac [simp]: "length (hmac_sha256 key msg) = 32"
  by (simp add: hmac_sha256_def Let_def)

end
