(* ===== verification/GoJSON.thy ===== *)
theory GoJSON
  imports GoCodec
begin

text \<open>
  The part of Go's \<^verbatim>\<open>encoding/json\<close>, \<^verbatim>\<open>unicode/utf8\<close> and \<^verbatim>\<open>strconv\<close> that tickets, cursors, tokens and
  request bodies go through: the encoder with its HTML escaping, and the decoder with its
  grammar, its nesting limit, its treatment of escapes, surrogates and invalid UTF-8, and the
  case-insensitive assignment of members to struct fields. The messages of the errors of
  \<^verbatim>\<open>encoding/json\<close> are not modelled: a failing decoder answers None.
\<close>

subsection \<open>UTF-8\<close>

definition byte_in :: "nat \<Rightarrow> nat \<Rightarrow> char \<Rightarrow> bool" where
  "byte_in lo hi c \<longleftrightarrow> lo \<le> byte_val c \<and> byte_val c \<le> hi"

definition RuneError :: nat where "RuneError = 65533"

text \<open>\<^verbatim>\<open>utf8.DecodeRuneInString\<close>: the first rune and its width; an invalid encoding has width 1.\<close>

definition second_range :: "nat \<Rightarrow> nat \<times> nat" where
  "second_range b =
     (if b = 224 then (160, 191) else if b = 237 then (128, 159)
      else if b = 240 then (144, 191) else if b = 244 then (128, 143) else (128, 191))"

definition DecodeRune :: "string \<Rightarrow> nat \<times> nat" where
  "DecodeRune s = (case s of
     [] \<Rightarrow> (RuneError, 0)
   | c0 # s1 \<Rightarrow>
       (let b0 = byte_val c0; (lo, hi) = second_range b0 in
        if b0 < 128 then (b0, 1)
        else (case s1 of
            [] \<Rightarrow> (RuneError, 1)
          | c1 # s2 \<Rightarrow>
              if b0 < 194 \<or> 244 < b0 \<or> \<not> byte_in lo hi c1 then (RuneError, 1)
              else if b0 < 224 then ((b0 - 192) * 64 + (byte_val c1 - 128), 2)
              else (case s2 of
                  [] \<Rightarrow> (RuneError, 1)
                | c2 # s3 \<Rightarrow>
                    if \<not> byte_in 128 191 c2 then (RuneError, 1)
                    else if b0 < 240 then ((b0 - 224) * 4096 + (byte_val c1 - 128) * 64 + (byte_val c2 - 128), 3)
                    else (case s3 of
                        [] \<Rightarrow> (RuneError, 1)
                      | c3 # _ \<Rightarrow>
                          if \<not> byte_in 128 191 c3 then (RuneError, 1)
                          else ((b0 - 240) * 262144 + (byte_val c1 - 128) * 4096 + (byte_val c2 - 128) * 64 +
                                (byte_val c3 - 128), 4))))))"

definition EncodeRune :: "nat \<Rightarrow> string" where
  "EncodeRune r =
     (if r < 128 then [byte_of r]
      else if r < 2048 then [byte_of (192 + r div 64), byte_of (128 + r mod 64)]
      else if 55296 \<le> r \<and> r < 57344 \<or> 1114111 < r then [byte_of 239, byte_of 191, byte_of 189]
      else if r < 65536
      then [byte_of (224 + r div 4096), byte_of (128 + r div 64 mod 64), byte_of (128 + r mod 64)]
      else [byte_of (240 + r div 262144), byte_of (128 + r div 4096 mod 64), byte_of (128 + r div 64 mod 64),
            byte_of (128 + r mod 64)])"

lemma DecodeRune_width: "s \<noteq> [] \<Longrightarrow> 0 < snd (DecodeRune s)"
  by (auto simp: DecodeRune_def Let_def split: list.splits prod.splits)

function ValidString :: "string \<Rightarrow> bool" where
  "ValidString s \<longleftrightarrow>
     (if s = [] then True else if DecodeRune s = (RuneError, 1) then False else ValidString (drop (snd (DecodeRune s)) s))"
  by pat_completeness auto
termination
  by (relation "measure length") (auto simp: DecodeRune_width)

declare ValidString.simps [simp del]

subsection \<open>Encoding\<close>

definition hex4 :: "nat \<Rightarrow> string" where
  "hex4 r = [hex_digit (r div 4096 mod 16), hex_digit (r div 256 mod 16), hex_digit (r div 16 mod 16), hex_digit (r mod 16)]"

definition escape_byte :: "char \<Rightarrow> string" where
  "escape_byte c =
     (if c = CHR 0x5C \<or> c = CHR 0x22 then [CHR 0x5C, c]
      else if c = CHR 0x08 then [CHR 0x5C, CHR ''b'']
      else if c = CHR 0x0C then [CHR 0x5C, CHR ''f'']
      else if c = CHR 0x0A then [CHR 0x5C, CHR ''n'']
      else if c = CHR 0x0D then [CHR 0x5C, CHR ''r'']
      else if c = CHR 0x09 then [CHR 0x5C, CHR ''t'']
      else if byte_val c < 32 \<or> c = CHR ''<'' \<or> c = CHR ''>'' \<or> c = CHR ''&'' then [CHR 0x5C, CHR ''u''] @ hex4 (byte_val c)
      else [c])"

text \<open>One turn of the loop that writes a string: what is written, and the number of bytes read.\<close>

definition escape_step :: "string \<Rightarrow> string \<times> nat" where
  "escape_step s =
     (if byte_val (hd s) < 128 then (escape_byte (hd s), 1)
      else (let (r, w) = DecodeRune s in
        if r = RuneError \<and> w = 1 then ([CHR 0x5C, CHR ''u''] @ hex4 RuneError, 1)
        else if r = 8232 \<or> r = 8233 then ([CHR 0x5C, CHR ''u''] @ hex4 r, w)
        else (take w s, w)))"

lemma escape_step_width: "s \<noteq> [] \<Longrightarrow> 0 < snd (escape_step s)"
  using DecodeRune_width [of s] by (auto simp: escape_step_def split: prod.splits)

function json_escape :: "string \<Rightarrow> string" where
  "json_escape s = (if s = [] then [] else fst (escape_step s) @ json_escape (drop (snd (escape_step s)) s))"
  by pat_completeness auto
termination
  by (relation "measure length") (auto simp: escape_step_width)

declare json_escape.simps [simp del]

definition json_quote :: "string \<Rightarrow> string" where
  "json_quote s = [CHR 0x22] @ json_escape s @ [CHR 0x22]"

text \<open>A JSON value; a number is kept as the text of its token.\<close>

datatype json = JNull | JBool bool | JNum string | JStr string | JArr "json list" | JObj "(string \<times> json) list"

fun nat_digits :: "nat \<Rightarrow> string" where
  "nat_digits n = (if n < 10 then [hex_digit n] else nat_digits (n div 10) @ [hex_digit (n mod 10)])"

declare nat_digits.simps [simp del]

definition Itoa :: "int \<Rightarrow> string" where
  "Itoa i = (if i < 0 then CHR ''-'' # nat_digits (nat (- i)) else nat_digits (nat i))"

fun comma_sep :: "string list \<Rightarrow> string" where
  "comma_sep [] = []"
| "comma_sep [x] = x"
| "comma_sep (x # xs) = x @ CHR '','' # comma_sep xs"

fun json_render :: "json \<Rightarrow> string" where
  "json_render JNull = ''null''"
| "json_render (JBool b) = (if b then ''true'' else ''false'')"
| "json_render (JNum t) = t"
| "json_render (JStr s) = json_quote s"
| "json_render (JArr vs) = CHR ''['' # comma_sep (map json_render vs) @ '']''"
| "json_render (JObj ms) = CHR ''{'' # comma_sep (map (\<lambda>(k, v). json_quote k @ CHR '':'' # json_render v) ms) @ ''}''"

text \<open>The members of a struct: a string field, one with \<^verbatim>\<open>omitempty\<close>, an integer field.\<close>

definition json_str :: "string \<Rightarrow> string \<Rightarrow> (string \<times> json) list" where
  "json_str name value = [(name, JStr value)]"

definition json_str_omitempty :: "string \<Rightarrow> string \<Rightarrow> (string \<times> json) list" where
  "json_str_omitempty name value = (if value = [] then [] else [(name, JStr value)])"

definition json_int :: "string \<Rightarrow> int \<Rightarrow> (string \<times> json) list" where
  "json_int name value = [(name, JNum (Itoa value))]"

subsection \<open>Decoding\<close>

definition hex_val :: "char \<Rightarrow> nat option" where
  "hex_val c = (let b = byte_val c in
     if 48 \<le> b \<and> b \<le> 57 then Some (b - 48)
     else if 97 \<le> b \<and> b \<le> 102 then Some (b - 87)
     else if 65 \<le> b \<and> b \<le> 70 then Some (b - 55) else None)"

text \<open>The value of a \<^verbatim>\<open>\u\<close> escape at the start of the string.\<close>

definition getu4 :: "string \<Rightarrow> nat option" where
  "getu4 s = (case s of
     b # u # h3 # h2 # h1 # h0 # _ \<Rightarrow>
       if b = CHR 0x5C \<and> u = CHR ''u''
       then (case (hex_val h3, hex_val h2, hex_val h1, hex_val h0) of
           (Some v3, Some v2, Some v1, Some v0) \<Rightarrow> Some (v3 * 4096 + v2 * 256 + v1 * 16 + v0)
         | _ \<Rightarrow> None)
       else None
   | _ \<Rightarrow> None)"

definition is_surrogate :: "nat \<Rightarrow> bool" where
  "is_surrogate r \<longleftrightarrow> 55296 \<le> r \<and> r < 57344"

definition surrogate_pair :: "nat \<Rightarrow> nat option \<Rightarrow> nat option" where
  "surrogate_pair hi lo = (case lo of
     None \<Rightarrow> None
   | Some l \<Rightarrow> if 55296 \<le> hi \<and> hi < 56320 \<and> 56320 \<le> l \<and> l < 57344
       then Some ((hi - 55296) * 1024 + (l - 56320) + 65536) else None)"

text \<open>One turn of the loop that reads a string: the bytes it stands for, and its length.\<close>

definition unescape_step :: "string \<Rightarrow> (string \<times> nat) option" where
  "unescape_step s =
     (if hd s = CHR 0x5C then
        (case tl s of
           [] \<Rightarrow> None
         | c # _ \<Rightarrow>
             if c = CHR 0x22 \<or> c = CHR 0x5C \<or> c = CHR ''/'' then Some ([c], 2)
             else if c = CHR ''b'' then Some ([CHR 0x08], 2)
             else if c = CHR ''f'' then Some ([CHR 0x0C], 2)
             else if c = CHR ''n'' then Some ([CHR 0x0A], 2)
             else if c = CHR ''r'' then Some ([CHR 0x0D], 2)
             else if c = CHR ''t'' then Some ([CHR 0x09], 2)
             else (case getu4 s of
                 None \<Rightarrow> None
               | Some r \<Rightarrow>
                   if is_surrogate r
                   then (case surrogate_pair r (getu4 (drop 6 s)) of
                       Some dec \<Rightarrow> Some (EncodeRune dec, 12)
                     | None \<Rightarrow> Some (EncodeRune RuneError, 6))
                   else Some (EncodeRune r, 6)))
      else if byte_val (hd s) < 32 then None
      else if byte_val (hd s) < 128 then Some ([hd s], 1)
      else Some (EncodeRune (fst (DecodeRune s)), snd (DecodeRune s)))"

lemma unescape_step_width: "s \<noteq> [] \<Longrightarrow> unescape_step s = Some (out, w) \<Longrightarrow> 0 < w"
  using DecodeRune_width [of s] by (auto simp: unescape_step_def split: if_splits list.splits option.splits)

text \<open>The rest of a string token, after the opening quote: its value and what follows it.\<close>

function json_string :: "string \<Rightarrow> (string \<times> string) option" where
  "json_string s =
     (if s = [] then None
      else if hd s = CHR 0x22 then Some ([], tl s)
      else (case unescape_step s of
          None \<Rightarrow> None
        | Some (out, w) \<Rightarrow> map_option (\<lambda>(t, rest). (out @ t, rest)) (json_string (drop w s))))"
  by pat_completeness auto
termination
  by (relation "measure length") (use unescape_step_width in fastforce)+

declare json_string.simps [simp del]

definition is_digit :: "char \<Rightarrow> bool" where
  "is_digit c \<longleftrightarrow> byte_in 48 57 c"

definition digits1 :: "string \<Rightarrow> (string \<times> string) option" where
  "digits1 s = (let ds = takeWhile is_digit s in if ds = [] then None else Some (ds, dropWhile is_digit s))"

definition number_int :: "string \<Rightarrow> (string \<times> string) option" where
  "number_int s = (case s of
     [] \<Rightarrow> None
   | c # cs \<Rightarrow> if c = CHR ''0'' then Some ([c], cs) else digits1 s)"

definition number_frac :: "string \<Rightarrow> (string \<times> string) option" where
  "number_frac s = (case s of
     [] \<Rightarrow> Some ([], [])
   | c # cs \<Rightarrow> if c = CHR ''.'' then map_option (\<lambda>(ds, rest). (c # ds, rest)) (digits1 cs) else Some ([], s))"

definition number_exp :: "string \<Rightarrow> (string \<times> string) option" where
  "number_exp s = (case s of
     [] \<Rightarrow> Some ([], [])
   | c # cs \<Rightarrow>
       if c = CHR ''e'' \<or> c = CHR ''E''
       then (case cs of
           x # xs \<Rightarrow> if x = CHR ''+'' \<or> x = CHR ''-'' then map_option (\<lambda>(ds, rest). (c # x # ds, rest)) (digits1 xs)
              else map_option (\<lambda>(ds, rest). (c # ds, rest)) (digits1 cs)
         | [] \<Rightarrow> None)
       else Some ([], s))"

definition json_number :: "string \<Rightarrow> (string \<times> string) option" where
  "json_number s =
     (let (sign, s0) = (case s of c # cs \<Rightarrow> if c = CHR ''-'' then ([c], cs) else ([], s) | [] \<Rightarrow> ([], [])) in
      case number_int s0 of None \<Rightarrow> None | Some (a, s1) \<Rightarrow>
      (case number_frac s1 of None \<Rightarrow> None | Some (b, s2) \<Rightarrow>
      (case number_exp s2 of None \<Rightarrow> None | Some (c, s3) \<Rightarrow> Some (sign @ a @ b @ c, s3))))"

definition is_ws :: "char \<Rightarrow> bool" where
  "is_ws c \<longleftrightarrow> c = CHR 0x20 \<or> c = CHR 0x09 \<or> c = CHR 0x0A \<or> c = CHR 0x0D"

definition skip_ws :: "string \<Rightarrow> string" where
  "skip_ws s = dropWhile is_ws s"

text \<open>A character that has to come next, after white space.\<close>

definition expect :: "char \<Rightarrow> string \<Rightarrow> string option" where
  "expect c s = (case skip_ws s of [] \<Rightarrow> None | x # xs \<Rightarrow> if x = c then Some xs else None)"

text \<open>
  The parser. The first argument is the fuel, the second the nesting that is still allowed
  (\<^verbatim>\<open>maxNestingDepth\<close> is 10000). Two units of fuel per byte of the input are enough, as
  \<open>json_value_fuel\<close> shows.
\<close>

fun json_value :: "nat \<Rightarrow> int \<Rightarrow> string \<Rightarrow> (json \<times> string) option"
and json_elems :: "nat \<Rightarrow> int \<Rightarrow> string \<Rightarrow> (json list \<times> string) option"
and json_members :: "nat \<Rightarrow> int \<Rightarrow> string \<Rightarrow> ((string \<times> json) list \<times> string) option" where
  "json_value 0 d s = None"
| "json_value (Suc n) d s = (case skip_ws s of
     [] \<Rightarrow> None
   | c # cs \<Rightarrow>
       if c = CHR 0x22 then map_option (\<lambda>(t, r). (JStr t, r)) (json_string cs)
       else if c = CHR ''{'' then
         (if d \<le> 0 then None
          else (case expect (CHR ''}'') cs of
              Some r \<Rightarrow> Some (JObj [], r)
            | None \<Rightarrow> map_option (\<lambda>(ms, r). (JObj ms, r)) (json_members n (d - 1) cs)))
       else if c = CHR ''['' then
         (if d \<le> 0 then None
          else (case expect (CHR '']'') cs of
              Some r \<Rightarrow> Some (JArr [], r)
            | None \<Rightarrow> map_option (\<lambda>(vs, r). (JArr vs, r)) (json_elems n (d - 1) cs)))
       else if is_prefix ''true'' (c # cs) then Some (JBool True, drop 4 (c # cs))
       else if is_prefix ''false'' (c # cs) then Some (JBool False, drop 5 (c # cs))
       else if is_prefix ''null'' (c # cs) then Some (JNull, drop 4 (c # cs))
       else map_option (\<lambda>(t, r). (JNum t, r)) (json_number (c # cs)))"
| "json_elems 0 d s = None"
| "json_elems (Suc n) d s = (case json_value n d s of
     None \<Rightarrow> None
   | Some (v, s1) \<Rightarrow>
       (case expect (CHR '']'') s1 of
          Some r \<Rightarrow> Some ([v], r)
        | None \<Rightarrow> (case expect (CHR '','') s1 of
            None \<Rightarrow> None
          | Some s2 \<Rightarrow> map_option (\<lambda>(vs, r). (v # vs, r)) (json_elems n d s2))))"
| "json_members 0 d s = None"
| "json_members (Suc n) d s = (case expect (CHR 0x22) s of
     None \<Rightarrow> None
   | Some s1 \<Rightarrow> (case json_string s1 of
       None \<Rightarrow> None
     | Some (k, s2) \<Rightarrow> (case expect (CHR '':'') s2 of
         None \<Rightarrow> None
       | Some s3 \<Rightarrow> (case json_value n d s3 of
           None \<Rightarrow> None
         | Some (v, s4) \<Rightarrow>
             (case expect (CHR ''}'') s4 of
                Some r \<Rightarrow> Some ([(k, v)], r)
              | None \<Rightarrow> (case expect (CHR '','') s4 of
                  None \<Rightarrow> None
                | Some s5 \<Rightarrow> map_option (\<lambda>(ms, r). ((k, v) # ms, r)) (json_members n d s5)))))))"

definition json_parse :: "string \<Rightarrow> json option" where
  "json_parse s = (case json_value (Suc (2 * length s)) 10000 s of
     None \<Rightarrow> None
   | Some (v, rest) \<Rightarrow> if skip_ws rest = [] then Some v else None)"

subsection \<open>Struct fields\<close>

text \<open>
  \<^verbatim>\<open>foldName\<close>: names are compared without case, where the Kelvin sign and the long s fold to the
  ASCII letters.
\<close>

function json_fold :: "string \<Rightarrow> string" where
  "json_fold s =
     (if s = [] then []
      else if is_prefix [CHR 0xE2, CHR 0x84, CHR 0xAA] s then CHR ''K'' # json_fold (drop 3 s)
      else if is_prefix [CHR 0xC5, CHR 0xBF] s then CHR ''S'' # json_fold (drop 2 s)
      else upper_char (hd s) # json_fold (tl s))"
  by pat_completeness auto
termination
  by (relation "measure length") auto

declare json_fold.simps [simp del]

text \<open>A null leaves the field as it is, and the last member of a name decides.\<close>

definition members_of :: "string \<Rightarrow> (string \<times> json) list \<Rightarrow> json list" where
  "members_of name ms = filter (\<lambda>v. v \<noteq> JNull) (map snd (filter (\<lambda>(k, v). json_fold k = json_fold name) ms))"

definition str_field :: "string \<Rightarrow> (string \<times> json) list \<Rightarrow> string option" where
  "str_field name ms =
     (let vs = members_of name ms in
      if list_all (\<lambda>v. case v of JStr _ \<Rightarrow> True | _ \<Rightarrow> False) vs
      then Some (case vs of [] \<Rightarrow> [] | _ \<Rightarrow> (case last vs of JStr s \<Rightarrow> s | _ \<Rightarrow> []))
      else None)"

fun digits_val :: "nat \<Rightarrow> string \<Rightarrow> nat option" where
  "digits_val acc [] = Some acc"
| "digits_val acc (c # cs) = (if is_digit c then digits_val (acc * 10 + (byte_val c - 48)) cs else None)"

text \<open>\<^verbatim>\<open>strconv.ParseInt(s, 10, 64)\<close>.\<close>

definition ParseInt64 :: "string \<Rightarrow> int option" where
  "ParseInt64 s =
     (let (neg, ds) = (case s of c # cs \<Rightarrow> if c = CHR ''-'' then (True, cs) else if c = CHR ''+'' then (False, cs) else (False, s)
                       | [] \<Rightarrow> (False, []))
      in if ds = [] then None
         else (case digits_val 0 ds of
             None \<Rightarrow> None
           | Some n \<Rightarrow>
               (let i = (if neg then - int n else int n)
                in if - (2 ^ 63) \<le> i \<and> i < 2 ^ 63 then Some i else None)))"

definition int_field :: "string \<Rightarrow> (string \<times> json) list \<Rightarrow> int option" where
  "int_field name ms =
     (let vs = members_of name ms in
      if list_all (\<lambda>v. case v of JNum t \<Rightarrow> ParseInt64 t \<noteq> None | _ \<Rightarrow> False) vs
      then Some (case vs of [] \<Rightarrow> 0 | _ \<Rightarrow> (case last vs of JNum t \<Rightarrow> the (ParseInt64 t) | _ \<Rightarrow> 0))
      else None)"

text \<open>The members of the document, when it can be decoded into a struct at all; null decodes to no members.\<close>

definition json_document :: "string \<Rightarrow> (string \<times> json) list option" where
  "json_document s = (case json_parse s of
     Some (JObj ms) \<Rightarrow> Some ms
   | Some JNull \<Rightarrow> Some []
   | _ \<Rightarrow> None)"

end
