(* ===== verification/JSONLaws.thy ===== *)
theory JSONLaws
  imports GoJSON
begin

text \<open>
  The laws of the JSON codec: strings and documents are read back as they were written, the
  parser consumes input with every value and its fuel is enough, and integers survive the
  trip through their decimal form.
\<close>

subsection \<open>Runes\<close>

lemma encode2:
  assumes "194 \<le> b0" "b0 < 224" "128 \<le> b1" "b1 \<le> 191"
  shows "EncodeRune ((b0 - 192) * 64 + (b1 - 128)) = [byte_of b0, byte_of b1]"
proof -
  define x y where "x = b0 - 192" and "y = b1 - 128"
  with assms have b: "b0 = 192 + x" "b1 = 128 + y" "2 \<le> x" "x < 32" "y < 64" by simp_all
  then have "(x * 64 + y) div 64 = x" "(x * 64 + y) mod 64 = y" by simp_all
  with b show ?thesis by (simp add: EncodeRune_def)
qed

lemma encode3:
  assumes "224 \<le> b0" "b0 < 240" "128 \<le> b1" "b1 \<le> 191" "128 \<le> b2" "b2 \<le> 191"
    and "b0 = 224 \<longrightarrow> 160 \<le> b1" and "b0 = 237 \<longrightarrow> b1 \<le> 159"
  shows "EncodeRune ((b0 - 224) * 4096 + (b1 - 128) * 64 + (b2 - 128)) = [byte_of b0, byte_of b1, byte_of b2]"
proof -
  define x y z where "x = b0 - 224" and "y = b1 - 128" and "z = b2 - 128"
  with assms have b: "b0 = 224 + x" "b1 = 128 + y" "b2 = 128 + z" "x < 16" "y < 64" "z < 64"
    "x = 0 \<longrightarrow> 32 \<le> y" "x = 13 \<longrightarrow> y < 32" by auto
  let ?r = "x * 4096 + y * 64 + z"
  have 1: "?r div 4096 = x" "?r div 64 mod 64 = y" "?r mod 64 = z"
    using b(5,6) div_digit [of "y * 64 + z" 4096 x] div_digit [of z 64 "x * 64 + y"]
      mod_digit [of z 64 "x * 64 + y"] mod_digit [of y 64 x] by (simp_all add: algebra_simps)
  have "2048 \<le> ?r" using b by (cases "x = 0") auto
  moreover have "\<not> (55296 \<le> ?r \<and> ?r < 57344)"
  proof (cases "x = 13")
    case False
    then have "x \<le> 12 \<or> 14 \<le> x" by auto
    with b show ?thesis by auto
  qed (use b in auto)
  moreover have "?r < 65536" using b by auto
  ultimately show ?thesis using b(1-3) 1 by (auto simp: EncodeRune_def)
qed

lemma encode4:
  assumes "240 \<le> b0" "b0 \<le> 244" "128 \<le> b1" "b1 \<le> 191" "128 \<le> b2" "b2 \<le> 191" "128 \<le> b3" "b3 \<le> 191"
    and "b0 = 240 \<longrightarrow> 144 \<le> b1" and "b0 = 244 \<longrightarrow> b1 \<le> 143"
  shows "EncodeRune ((b0 - 240) * 262144 + (b1 - 128) * 4096 + (b2 - 128) * 64 + (b3 - 128)) =
    [byte_of b0, byte_of b1, byte_of b2, byte_of b3]"
proof -
  define x y z v where "x = b0 - 240" and "y = b1 - 128" and "z = b2 - 128" and "v = b3 - 128"
  with assms have b: "b0 = 240 + x" "b1 = 128 + y" "b2 = 128 + z" "b3 = 128 + v" "x \<le> 4" "y < 64" "z < 64" "v < 64"
    "x = 0 \<longrightarrow> 16 \<le> y" "x = 4 \<longrightarrow> y < 16" by auto
  let ?r = "x * 262144 + y * 4096 + z * 64 + v"
  have 1: "?r div 262144 = x" "?r div 4096 mod 64 = y" "?r div 64 mod 64 = z" "?r mod 64 = v"
    using b(6,7,8) div_digit [of "y * 4096 + z * 64 + v" 262144 x] div_digit [of "z * 64 + v" 4096 "x * 64 + y"]
      div_digit [of v 64 "x * 4096 + y * 64 + z"] mod_digit [of v 64 "x * 4096 + y * 64 + z"]
      mod_digit [of z 64 "x * 64 + y"] mod_digit [of y 64 x] by (simp_all add: algebra_simps)
  have "65536 \<le> ?r" using b by (cases "x = 0") auto
  moreover have "?r \<le> 1114111" using b by (cases "x = 4") auto
  ultimately show ?thesis using b(1-4) 1 by (auto simp: EncodeRune_def)
qed

text \<open>A valid multi-byte rune is determined by its bytes, and encodes to them.\<close>

lemma DecodeRune_multi:
  assumes "128 \<le> byte_val (hd s)" and "s \<noteq> []" and "DecodeRune s \<noteq> (RuneError, 1)"
  shows "DecodeRune (take (snd (DecodeRune s)) s @ t) = DecodeRune s \<and>
    EncodeRune (fst (DecodeRune s)) = take (snd (DecodeRune s)) s \<and> snd (DecodeRune s) \<le> length s"
proof -
  from assms(2) obtain c0 s1 where s: "s = c0 # s1" by (cases s) auto
  with assms(1,3) obtain c1 s2 where s1: "s1 = c1 # s2" by (cases s1) (auto simp: DecodeRune_def Let_def split: prod.splits)
  obtain lo hi where lh: "second_range (byte_val c0) = (lo, hi)" by fastforce
  with assms s s1 have r: "194 \<le> byte_val c0" "byte_val c0 \<le> 244" "byte_in lo hi c1"
    by (auto simp: DecodeRune_def Let_def split: if_splits)
  have lh': "128 \<le> lo" "hi \<le> 191" "byte_val c0 = 224 \<longrightarrow> lo = 160" "byte_val c0 = 237 \<longrightarrow> hi = 159"
    "byte_val c0 = 240 \<longrightarrow> lo = 144" "byte_val c0 = 244 \<longrightarrow> hi = 143"
    using lh by (auto simp: second_range_def split: if_splits)
  have c1: "128 \<le> byte_val c1" "byte_val c1 \<le> 191" using r(3) lh'(1,2) by (auto simp: byte_in_def)
  consider "byte_val c0 < 224" | "224 \<le> byte_val c0" "byte_val c0 < 240" | "240 \<le> byte_val c0" by linarith
  then show ?thesis
  proof cases
    case 1
    then show ?thesis
      using r lh s s1 encode2 [of "byte_val c0" "byte_val c1"] c1 by (simp add: DecodeRune_def Let_def)
  next
    case 2
    with assms(3) s s1 lh r obtain c2 s3 where s2: "s2 = c2 # s3" and c2: "byte_in 128 191 c2"
      by (cases s2) (auto simp: DecodeRune_def Let_def split: if_splits)
    with 2 r lh s s1 encode3 [of "byte_val c0" "byte_val c1" "byte_val c2"] c1 lh' show ?thesis
      by (auto simp: DecodeRune_def Let_def byte_in_def)
  next
    case 3
    with assms(3) s s1 lh r obtain c2 s3 where s2: "s2 = c2 # s3" and c2: "byte_in 128 191 c2"
      by (cases s2) (auto simp: DecodeRune_def Let_def split: if_splits)
    with 3 assms(3) s s1 lh r obtain c3 s4 where s3: "s3 = c3 # s4" and c3: "byte_in 128 191 c3"
      by (cases s3) (auto simp: DecodeRune_def Let_def split: if_splits)
    with 3 r lh s s1 s2 c2 encode4 [of "byte_val c0" "byte_val c1" "byte_val c2" "byte_val c3"] c1 lh' show ?thesis
      by (auto simp: DecodeRune_def Let_def byte_in_def)
  qed
qed

subsection \<open>Strings\<close>

lemma hex_val_digit: "k < 16 \<Longrightarrow> hex_val (hex_digit k) = Some k"
proof -
  have "list_all (\<lambda>k. hex_val (hex_digit k) = Some k) [0..<16]" by code_simp
  then show "k < 16 \<Longrightarrow> hex_val (hex_digit k) = Some k" by (simp add: list_all_iff)
qed

lemma getu4_hex4:
  assumes "r < 65536"
  shows "getu4 (CHR 0x5C # CHR ''u'' # hex4 r @ t) = Some r"
proof -
  have "r div 4096 mod 16 * 4096 + r div 256 mod 16 * 256 + r div 16 mod 16 * 16 + r mod 16 = r"
  proof -
    have "r div 4096 mod 16 = r div 4096" using assms by simp
    moreover have "r div 16 = r div 256 * 16 + r div 16 mod 16" "r div 256 = r div 4096 * 16 + r div 256 mod 16"
      using div_mult_mod_eq [of "r div 16" 16] div_mult_mod_eq [of "r div 256" 16] by (simp_all add: div_mult2_eq [symmetric])
    ultimately show ?thesis using div_mult_mod_eq [of r 16] by linarith
  qed
  with assms show ?thesis by (simp add: getu4_def hex4_def hex_val_digit)
qed

lemma escape_byte_back:
  assumes "byte_val c < 128"
  shows "escape_byte c \<noteq> [] \<and> hd (escape_byte c) \<noteq> CHR 0x22 \<and>
    unescape_step (escape_byte c @ t) = Some ([c], length (escape_byte c))"
proof -
  have u: "unescape_step (CHR 0x5C # CHR ''u'' # hex4 (byte_val c) @ t) = Some ([c], 6)"
    using assms getu4_hex4 [of "byte_val c" t] by (simp add: unescape_step_def is_surrogate_def EncodeRune_def)
  have l: "length (hex4 (byte_val c)) = 4" by (simp add: hex4_def)
  show ?thesis
  proof (cases "c \<in> {CHR 0x5C, CHR 0x22, CHR 0x08, CHR 0x0C, CHR 0x0A, CHR 0x0D, CHR 0x09}")
    case True
    then show ?thesis by (elim insertE emptyE) (simp_all add: escape_byte_def unescape_step_def)
  next
    case False
    show ?thesis
    proof (cases "byte_val c < 32 \<or> c = CHR ''<'' \<or> c = CHR ''>'' \<or> c = CHR ''&''")
      case True
      with False have "escape_byte c = [CHR 0x5C, CHR ''u''] @ hex4 (byte_val c)" by (simp add: escape_byte_def)
      with u l show ?thesis by simp
    next
      case plain: False
      with False have "escape_byte c = [c]" by (simp add: escape_byte_def)
      with plain False assms show ?thesis by (simp add: unescape_step_def)
    qed
  qed
qed

lemma DecodeRune_ascii: "s \<noteq> [] \<Longrightarrow> byte_val (hd s) < 128 \<Longrightarrow> DecodeRune s = (byte_val (hd s), 1)"
  by (cases s) (simp_all add: DecodeRune_def Let_def split: prod.splits)

lemma hd_bytes: "128 \<le> byte_val c \<Longrightarrow> c \<noteq> CHR 0x22 \<and> c \<noteq> CHR 0x5C"
  by auto

lemma escape_step_back:
  assumes "s \<noteq> []" and "DecodeRune s \<noteq> (RuneError, 1)"
  shows "fst (escape_step s) \<noteq> [] \<and> hd (fst (escape_step s)) \<noteq> CHR 0x22 \<and>
    unescape_step (fst (escape_step s) @ t) = Some (take (snd (escape_step s)) s, length (fst (escape_step s))) \<and>
    snd (escape_step s) = snd (DecodeRune s)"
proof (cases "byte_val (hd s) < 128")
  case True
  with escape_byte_back [OF True, of t] assms(1) show ?thesis
    by (cases s) (simp_all add: escape_step_def DecodeRune_ascii)
next
  case False
  obtain r w where d: "DecodeRune s = (r, w)" by fastforce
  have m: "DecodeRune (take w s @ t) = (r, w)" "EncodeRune r = take w s" "w \<le> length s"
    using DecodeRune_multi [of s t] False assms d by auto
  show ?thesis
  proof (cases "r = 8232 \<or> r = 8233")
    case True
    then have "r < 65536" "\<not> is_surrogate r" by (auto simp: is_surrogate_def)
    with True m False d assms(2) getu4_hex4 [of r t] show ?thesis
      by (auto simp: escape_step_def unescape_step_def hex4_def RuneError_def)
  next
    case False': False
    have "0 < w" using DecodeRune_width [OF assms(1)] d by simp
    then have hd: "take w s \<noteq> []" "hd (take w s @ t) = hd s" using assms(1) by (cases s; simp)+
    with hd_bytes [of "hd s"] False have "hd s \<noteq> CHR 0x22" "hd s \<noteq> CHR 0x5C" by auto
    with False False' m d assms hd show ?thesis
      by (auto simp: escape_step_def unescape_step_def)
  qed
qed

lemma json_string_step:
  "s \<noteq> [] \<Longrightarrow> hd s \<noteq> CHR 0x22 \<Longrightarrow> unescape_step s = Some (out, w) \<Longrightarrow>
     json_string s = map_option (\<lambda>(t, rest). (out @ t, rest)) (json_string (drop w s))"
  by (subst json_string.simps) simp

lemma json_string_escape: "ValidString s \<Longrightarrow> json_string (json_escape s @ CHR 0x22 # t) = Some (s, t)"
proof (induction s rule: json_escape.induct)
  case (1 s)
  show ?case
  proof (cases "s = []")
    case True
    then show ?thesis by (simp add: json_escape.simps [of "[]"] json_string.simps)
  next
    case False
    with 1(2) have dec: "DecodeRune s \<noteq> (RuneError, 1)" and val: "ValidString (drop (snd (DecodeRune s)) s)"
      by (simp_all add: ValidString.simps [of s] split: if_splits)
    let ?o = "fst (escape_step s)" and ?w = "snd (escape_step s)"
    let ?rest = "json_escape (drop ?w s) @ CHR 0x22 # t"
    note st = escape_step_back [OF False dec, of ?rest]
    then have o: "?o @ ?rest \<noteq> []" "hd (?o @ ?rest) \<noteq> CHR 0x22" "unescape_step (?o @ ?rest) = Some (take ?w s, length ?o)" by auto
    have "json_string ?rest = Some (drop ?w s, t)" using 1(1) [OF False] val st by simp
    with json_string_step [OF o] False show ?thesis by (subst json_escape.simps) simp
  qed
qed

lemma ValidString_ascii: "(\<And>c. c \<in> set s \<Longrightarrow> byte_val c < 128) \<Longrightarrow> ValidString s"
proof (induction s)
  case (Cons c s)
  have "byte_val c < 128" using Cons.prems by simp
  moreover from this have "DecodeRune (c # s) = (byte_val c, 1)" using DecodeRune_ascii [of "c # s"] by simp
  moreover have "ValidString s" using Cons by simp
  ultimately show ?case by (subst ValidString.simps) (simp add: RuneError_def)
qed (simp add: ValidString.simps)

subsection \<open>Numbers\<close>

lemma hex_digit_digit: "k < 10 \<Longrightarrow> is_digit (hex_digit k) \<and> byte_val (hex_digit k) - 48 = k \<and> (0 < k \<longrightarrow> hex_digit k \<noteq> CHR ''0'')"
proof -
  have "list_all (\<lambda>k. is_digit (hex_digit k) \<and> byte_val (hex_digit k) - 48 = k \<and> (0 < k \<longrightarrow> hex_digit k \<noteq> CHR ''0'')) [0..<10]"
    by code_simp
  then show "k < 10 \<Longrightarrow> ?thesis" by (simp add: list_all_iff)
qed

lemma nat_digits_ne: "nat_digits n \<noteq> []"
  by (subst nat_digits.simps) simp

lemma nat_digits_digits: "list_all is_digit (nat_digits n) \<and> nat_digits n \<noteq> [] \<and>
    (hd (nat_digits n) = CHR ''0'' \<longrightarrow> nat_digits n = [CHR ''0''])"
proof (induction n rule: nat_digits.induct)
  case (1 n)
  show ?case
  proof (cases "n < 10")
    case True
    then have "nat_digits n = [hex_digit n]" by (simp add: nat_digits.simps)
    with hex_digit_digit [OF True] show ?thesis by (auto simp: hex_digit_def)
  next
    case False
    then have n: "nat_digits n = nat_digits (n div 10) @ [hex_digit (n mod 10)]" by (simp add: nat_digits.simps)
    have "nat_digits (n div 10) \<noteq> [CHR ''0'']"
    proof (cases "n div 10 < 10")
      case True
      with False have "0 < n div 10" by simp
      with True hex_digit_digit [of "n div 10"] show ?thesis by (simp add: nat_digits.simps [of "n div 10"])
    next
      case False
      then show ?thesis by (subst nat_digits.simps) (simp add: nat_digits_ne)
    qed
    with n 1 [OF False] hex_digit_digit [of "n mod 10"] show ?thesis by auto
  qed
qed

lemma digits_val_append:
  "digits_val acc (xs @ ys) = (case digits_val acc xs of None \<Rightarrow> None | Some n \<Rightarrow> digits_val n ys)"
  by (induction xs arbitrary: acc) auto

lemma digits_val_nat_digits: "digits_val 0 (nat_digits n) = Some n"
proof (induction n rule: nat_digits.induct)
  case (1 n)
  then show ?case
    using hex_digit_digit [of n] hex_digit_digit [of "n mod 10"]
    by (cases "n < 10") (simp_all add: nat_digits.simps [of n] digits_val_append)
qed

lemma ParseInt64_Itoa:
  assumes "- (2 ^ 63) \<le> i" and "i < 2 ^ 63"
  shows "ParseInt64 (Itoa i) = Some i"
proof (cases "i < 0")
  case True
  with assms nat_digits_digits [of "nat (- i)"] show ?thesis
    by (simp add: ParseInt64_def Itoa_def digits_val_nat_digits)
next
  case False
  obtain c cs where d: "nat_digits (nat i) = c # cs" using nat_digits_digits [of "nat i"] by (cases "nat_digits (nat i)") auto
  with nat_digits_digits [of "nat i"] have "c \<noteq> CHR ''-''" "c \<noteq> CHR ''+''" by (auto simp: is_digit_def byte_in_def)
  with False assms d digits_val_nat_digits [of "nat i"] show ?thesis by (simp add: ParseInt64_def Itoa_def)
qed

text \<open>What may follow a number token.\<close>

definition number_end :: "string \<Rightarrow> bool" where
  "number_end r \<longleftrightarrow> (\<forall>c cs. r = c # cs \<longrightarrow> \<not> is_digit c \<and> c \<notin> {CHR ''.'', CHR ''e'', CHR ''E''})"

lemma number_end_rest: "number_end r \<Longrightarrow> number_frac r = Some ([], r) \<and> number_exp r = Some ([], r)"
  by (cases r) (auto simp: number_end_def number_frac_def number_exp_def)

lemma number_int_digits:
  assumes "number_end r"
  shows "number_int (nat_digits n @ r) = Some (nat_digits n, r)"
proof -
  note d = nat_digits_digits [of n]
  have tw: "takeWhile is_digit (nat_digits n @ r) = nat_digits n" "dropWhile is_digit (nat_digits n @ r) = r"
    using d assms by (cases r; simp add: list_all_iff number_end_def)+
  show ?thesis
  proof (cases "hd (nat_digits n) = CHR ''0''")
    case True
    with d show ?thesis by (simp add: number_int_def)
  next
    case False
    with d tw show ?thesis by (cases "nat_digits n") (auto simp: number_int_def digits1_def Let_def)
  qed
qed

lemma json_number_Itoa:
  assumes "number_end r"
  shows "json_number (Itoa i @ r) = Some (Itoa i, r)"
proof (cases "i < 0")
  case True
  with number_int_digits [OF assms] number_end_rest [OF assms] show ?thesis by (simp add: json_number_def Itoa_def)
next
  case False
  obtain c cs where d: "nat_digits (nat i) = c # cs" using nat_digits_digits [of "nat i"] by (cases "nat_digits (nat i)") auto
  with nat_digits_digits [of "nat i"] have "c \<noteq> CHR ''-''" by (auto simp: is_digit_def byte_in_def)
  with False d number_int_digits [OF assms, of "nat i"] number_end_rest [OF assms] show ?thesis
    by (simp add: json_number_def Itoa_def)
qed

lemma Itoa_hd: "Itoa i \<noteq> [] \<and> (is_digit (hd (Itoa i)) \<or> hd (Itoa i) = CHR ''-'')"
  using nat_digits_digits [of "nat i"] by (cases "nat_digits (nat i)") (auto simp: Itoa_def)

subsection \<open>The parser consumes its input\<close>

lemma skip_ws_length: "length (skip_ws s) \<le> length s"
  by (simp add: skip_ws_def length_dropWhile_le)

lemma expect_length: "expect c s = Some r \<Longrightarrow> length r < length s"
  using skip_ws_length [of s] by (auto simp: expect_def split: list.splits if_splits)

lemma json_string_length: "json_string s = Some (t, r) \<Longrightarrow> length r < length s"
proof (induction s arbitrary: t rule: json_string.induct)
  case (1 s)
  show ?case
  proof (cases "s \<noteq> [] \<and> hd s \<noteq> CHR 0x22")
    case True
    with 1(2) obtain out w where st: "unescape_step s = Some (out, w)" by (subst (asm) json_string.simps) (auto split: option.splits)
    with True 1(2) obtain t' where "json_string (drop w s) = Some (t', r)" by (auto simp: json_string_step)
    with 1(1) True st have "length r < length (drop w s)" by blast
    then show ?thesis by simp
  next
    case False
    with 1(2) show ?thesis by (subst (asm) json_string.simps) (auto split: if_splits)
  qed
qed

lemma digits1_length: "digits1 s = Some (ds, r) \<Longrightarrow> length r < length s"
proof -
  assume "digits1 s = Some (ds, r)"
  then have "takeWhile is_digit s \<noteq> []" "r = dropWhile is_digit s" by (auto simp: digits1_def Let_def split: if_splits)
  then show ?thesis by (metis append_Nil length_append length_greater_0_conv less_add_same_cancel2 takeWhile_dropWhile_id)
qed

lemma json_number_length: "json_number s = Some (t, r) \<Longrightarrow> length r < length s"
proof -
  assume num: "json_number s = Some (t, r)"
  obtain sign s0 where s0: "(case s of c # cs \<Rightarrow> if c = CHR ''-'' then ([c], cs) else ([], s) | [] \<Rightarrow> ([], [])) = (sign, s0)"
    "length s0 \<le> length s" by (cases s; cases "hd s = CHR ''-''") auto
  with num obtain a s1 b s2 c where n: "number_int s0 = Some (a, s1)" "number_frac s1 = Some (b, s2)" "number_exp s2 = Some (c, r)"
    by (auto simp: json_number_def Let_def split: option.splits)
  have "length s1 < length s0" using n(1) by (auto simp: number_int_def split: list.splits if_splits dest: digits1_length)
  moreover have "length s2 \<le> length s1"
    using n(2) by (auto simp: number_frac_def split: list.splits if_splits dest!: digits1_length)
  moreover have "length r \<le> length s2"
    using n(3) by (auto simp: number_exp_def split: list.splits if_splits dest!: digits1_length)
  ultimately show ?thesis using s0(2) by simp
qed

lemma json_value_length:
  "json_value n d s = Some (v, r) \<Longrightarrow> length r < length s"
  "json_elems n d s = Some (vs, r) \<Longrightarrow> length r < length s"
  "json_members n d s = Some (ms, r) \<Longrightarrow> length r < length s"
proof (induction n arbitrary: d s v vs ms r)
  case (Suc n)
  {
    case 1
    then obtain c cs where s: "skip_ws s = c # cs" by (cases "skip_ws s") simp_all
    have len: "length cs < length s" using skip_ws_length [of s] s by simp
    show ?case
    proof (cases "c \<in> {CHR 0x22, CHR ''{'', CHR ''[''}")
      case True
      then show ?thesis
      proof (elim insertE emptyE)
        assume "c = CHR 0x22"
        with 1 s len json_string_length show ?thesis by (fastforce split: option.splits)
      next
        assume "c = CHR ''{''"
        with 1 s len expect_length Suc.IH(3) show ?thesis by (fastforce split: option.splits if_splits)
      next
        assume "c = CHR ''[''"
        with 1 s len expect_length Suc.IH(2) show ?thesis by (fastforce split: option.splits if_splits)
      qed
    next
      case False
      with 1 s have "r = drop 4 (c # cs) \<or> r = drop 5 (c # cs) \<or> (\<exists>t. json_number (c # cs) = Some (t, r))"
        by (simp del: is_prefix.simps split: if_splits) blast
      then show ?thesis
      proof (elim disjE exE)
        fix t assume "json_number (c # cs) = Some (t, r)"
        from json_number_length [OF this] len show ?thesis by simp
      qed (use len in simp_all)
    qed
  next
    case 2
    then show ?case
      by (auto split: option.splits prod.splits dest!: expect_length Suc.IH(1) Suc.IH(2))
  next
    case 3
    then show ?case
      by (auto split: option.splits prod.splits dest!: expect_length json_string_length Suc.IH(1) Suc.IH(3))
  }
qed simp_all

text \<open>More fuel than twice the length of the input changes nothing.\<close>

lemma json_value_fuel:
  "2 * length s < n \<Longrightarrow> n \<le> m \<Longrightarrow> json_value n d s = json_value m d s"
  "2 * length s + 1 < n \<Longrightarrow> n \<le> m \<Longrightarrow> json_elems n d s = json_elems m d s"
  "2 * length s < n \<Longrightarrow> n \<le> m \<Longrightarrow> json_members n d s = json_members m d s"
proof (induction n arbitrary: m d s)
  case (Suc n)
  {
    case 1
    then obtain m' where m: "m = Suc m'" "n \<le> m'" by (cases m) auto
    have "json_elems n (d - 1) cs = json_elems m' (d - 1) cs" "json_members n (d - 1) cs = json_members m' (d - 1) cs"
      if "skip_ws s = c # cs" for c cs
      using that skip_ws_length [of s] 1 m(2) by (auto intro!: Suc.IH(2,3))
    then show ?case
      unfolding m(1) by (cases "skip_ws s") (simp_all del: is_prefix.simps cong: if_cong option.case_cong)
  next
    case 2
    then obtain m' where m: "m = Suc m'" "n \<le> m'" by (cases m) auto
    have v: "json_value n d s = json_value m' d s" using 2 m(2) by (intro Suc.IH(1)) simp_all
    have "json_elems n d s2 = json_elems m' d s2" if "json_value m' d s = Some (v, s1)" "expect c s1 = Some s2" for v s1 s2 c
      using json_value_length(1) [OF that(1)] expect_length [OF that(2)] 2 m(2) by (intro Suc.IH(2)) simp_all
    then show ?case unfolding m(1) by (simp add: v split: option.splits prod.splits)
  next
    case 3
    then obtain m' where m: "m = Suc m'" "n \<le> m'" by (cases m) auto
    have v: "json_value n d s3 = json_value m' d s3"
      if "expect c s = Some s1" "json_string s1 = Some (k, s2)" "expect c' s2 = Some s3" for c s1 k s2 c' s3
      using expect_length [OF that(1)] json_string_length [OF that(2)] expect_length [OF that(3)] 3 m(2)
      by (intro Suc.IH(1)) simp_all
    have "json_members n d s5 = json_members m' d s5"
      if "expect c s = Some s1" "json_string s1 = Some (k, s2)" "expect c' s2 = Some s3"
        "json_value m' d s3 = Some (v, s4)" "expect c'' s4 = Some s5" for c s1 k s2 c' s3 v s4 c'' s5
      using expect_length [OF that(1)] json_string_length [OF that(2)] expect_length [OF that(3)]
        json_value_length(1) [OF that(4)] expect_length [OF that(5)] 3 m(2)
      by (intro Suc.IH(3)) simp_all
    with v show ?case unfolding m(1) by (simp split: option.splits prod.splits)
  }
qed simp_all

subsection \<open>Documents\<close>

text \<open>The values the services encode: valid strings, integers, and objects and lists of them.\<close>

fun wf_json :: "json \<Rightarrow> bool" where
  "wf_json (JNum t) \<longleftrightarrow> (\<exists>i. t = Itoa i)"
| "wf_json (JStr s) \<longleftrightarrow> ValidString s"
| "wf_json (JArr vs) \<longleftrightarrow> (\<forall>v \<in> set vs. wf_json v)"
| "wf_json (JObj ms) \<longleftrightarrow> (\<forall>kv \<in> set ms. ValidString (fst kv) \<and> wf_json (snd kv))"
| "wf_json _ \<longleftrightarrow> True"

fun json_depth :: "json \<Rightarrow> nat" where
  "json_depth (JArr vs) = Suc (fold max (map json_depth vs) 0)"
| "json_depth (JObj ms) = Suc (fold max (map (\<lambda>kv. json_depth (snd kv)) ms) 0)"
| "json_depth _ = 0"

lemma fold_max_ge: "a \<le> fold max xs (a::nat)" "x \<in> set xs \<Longrightarrow> x \<le> fold max xs a"
proof -
  show ge: "a \<le> fold max xs a" for a :: nat and xs by (induction xs arbitrary: a) (auto intro: order_trans [OF max.cobounded2])
  show "x \<in> set xs \<Longrightarrow> x \<le> fold max xs a"
  proof (induction xs arbitrary: a)
    case (Cons y ys)
    then show ?case using ge [of "max y a"] by (cases "x = y") auto
  qed simp
qed

lemma plain_start: "c \<noteq> CHR 0x20 \<Longrightarrow> c \<noteq> CHR 0x09 \<Longrightarrow> c \<noteq> CHR 0x0A \<Longrightarrow> c \<noteq> CHR 0x0D \<Longrightarrow> skip_ws (c # cs) = c # cs"
  by (simp add: skip_ws_def is_ws_def)

lemma expect_here: "c \<noteq> CHR 0x20 \<Longrightarrow> c \<noteq> CHR 0x09 \<Longrightarrow> c \<noteq> CHR 0x0A \<Longrightarrow> c \<noteq> CHR 0x0D \<Longrightarrow>
    expect x (c # cs) = (if c = x then Some cs else None)"
  by (simp add: expect_def plain_start)

text \<open>The first byte of a document is no white space and closes nothing.\<close>

lemma render_hd:
  assumes "wf_json v"
  shows "\<exists>c cs. json_render v = c # cs \<and> c \<notin> {CHR 0x20, CHR 0x09, CHR 0x0A, CHR 0x0D, CHR ''}'', CHR '']''}"
proof (cases v)
  case (JNum t)
  with assms obtain i where "t = Itoa i" by auto
  with Itoa_hd [of i] JNum show ?thesis by (cases "Itoa i") (auto simp: is_digit_def byte_in_def)
qed (auto simp: json_quote_def)

lemma comma_sep_Cons: "xs \<noteq> [] \<Longrightarrow> comma_sep (x # xs) = x @ CHR '','' # comma_sep xs"
  by (cases xs) simp_all

lemma elems_render:
  assumes "vs \<noteq> []" and "\<forall>v \<in> set vs. wf_json v"
    and "\<And>v r n. v \<in> set vs \<Longrightarrow> number_end r \<Longrightarrow> 2 * length (json_render v @ r) < n \<Longrightarrow>
       json_value n d (json_render v @ r) = Some (v, r)"
    and "2 * length (comma_sep (map json_render vs) @ CHR '']'' # r) + 1 < n"
  shows "json_elems n d (comma_sep (map json_render vs) @ CHR '']'' # r) = Some (vs, r)"
  using assms
proof (induction vs arbitrary: n)
  case (Cons v vs)
  from Cons.prems(4) obtain n' where n: "n = Suc n'" by (cases n) auto
  show ?case
  proof (cases "vs = []")
    case True
    have "json_value n' d (json_render v @ CHR '']'' # r) = Some (v, CHR '']'' # r)"
      using Cons.prems(4) n True by (intro Cons.prems(3)) (auto simp: number_end_def is_digit_def byte_in_def)
    with True show ?thesis by (simp add: n expect_here)
  next
    case False
    let ?rest = "comma_sep (map json_render vs) @ CHR '']'' # r"
    have "json_value n' d (json_render v @ CHR '','' # ?rest) = Some (v, CHR '','' # ?rest)"
      using Cons.prems(4) n False by (intro Cons.prems(3)) (auto simp: number_end_def is_digit_def byte_in_def comma_sep_Cons)
    moreover have "json_elems n' d ?rest = Some (vs, r)"
      using Cons.prems n False by (intro Cons.IH) (auto simp: comma_sep_Cons)
    ultimately show ?thesis using False by (simp add: n expect_here comma_sep_Cons)
  qed
qed simp

lemma members_render:
  assumes "ms \<noteq> []" and "\<forall>kv \<in> set ms. ValidString (fst kv) \<and> wf_json (snd kv)"
    and "\<And>kv r n. kv \<in> set ms \<Longrightarrow> number_end r \<Longrightarrow> 2 * length (json_render (snd kv) @ r) < n \<Longrightarrow>
       json_value n d (json_render (snd kv) @ r) = Some (snd kv, r)"
    and "2 * length (comma_sep (map (\<lambda>(k, v). json_quote k @ CHR '':'' # json_render v) ms) @ CHR ''}'' # r) < n"
  shows "json_members n d (comma_sep (map (\<lambda>(k, v). json_quote k @ CHR '':'' # json_render v) ms) @ CHR ''}'' # r) = Some (ms, r)"
  using assms
proof (induction ms arbitrary: n)
  case (Cons kv ms)
  obtain k v where kv: "kv = (k, v)" by fastforce
  from Cons.prems(4) obtain n' where n: "n = Suc n'" by (cases n) auto
  have str: "json_string (json_escape k @ CHR 0x22 # t) = Some (k, t)" for t
    using Cons.prems(2) kv by (intro json_string_escape) simp
  have ends: "number_end (CHR ''}'' # r)" "number_end (CHR '','' # t)" for t
    by (simp_all add: number_end_def is_digit_def byte_in_def)
  show ?case
  proof (cases "ms = []")
    case True
    have "json_value n' d (json_render v @ CHR ''}'' # r) = Some (v, CHR ''}'' # r)"
      using Cons.prems(3) [of kv "CHR ''}'' # r" n'] Cons.prems(4) n True ends kv by (auto simp: json_quote_def)
    with True str show ?thesis by (simp add: n kv expect_here json_quote_def)
  next
    case False
    let ?rest = "comma_sep (map (\<lambda>(k, v). json_quote k @ CHR '':'' # json_render v) ms) @ CHR ''}'' # r"
    have "json_value n' d (json_render v @ CHR '','' # ?rest) = Some (v, CHR '','' # ?rest)"
      using Cons.prems(3) [of kv "CHR '','' # ?rest" n'] Cons.prems(4) n False ends kv by (auto simp: comma_sep_Cons json_quote_def)
    moreover have "json_members n' d ?rest = Some (ms, r)"
      using Cons.prems n False kv by (intro Cons.IH) (auto simp: comma_sep_Cons json_quote_def)
    ultimately show ?thesis using False str by (simp add: n kv expect_here comma_sep_Cons json_quote_def)
  qed
qed simp

lemma comma_sep_start:
  assumes "xs \<noteq> []" and "\<exists>c cs. hd xs = c # cs \<and> P c"
  shows "\<exists>c cs. comma_sep xs @ t = c # cs \<and> P c"
  using assms by (cases xs; cases "tl xs") (auto simp: comma_sep_Cons)

lemma json_value_render:
  "wf_json v \<Longrightarrow> number_end r \<Longrightarrow> 2 * length (json_render v @ r) < n \<Longrightarrow> int (json_depth v) \<le> d \<Longrightarrow>
     json_value n d (json_render v @ r) = Some (v, r)"
proof (induction v arbitrary: r n d)
  case (JNum t)
  then obtain i n' where t: "t = Itoa i" and n: "n = Suc n'" by (cases n) auto
  obtain c cs where c: "Itoa i @ r = c # cs" "is_digit c \<or> c = CHR ''-''" using Itoa_hd [of i] by (cases "Itoa i") auto
  then have "c \<notin> {CHR 0x20, CHR 0x09, CHR 0x0A, CHR 0x0D, CHR 0x22, CHR ''{'', CHR ''['', CHR ''t'', CHR ''f'', CHR ''n''}"
    by (auto simp: is_digit_def byte_in_def)
  with c json_number_Itoa [OF JNum.prems(2), of i] show ?case
    by (auto simp: n t plain_start split: option.splits)
next
  case (JStr s)
  then obtain n' where n: "n = Suc n'" by (cases n) auto
  with JStr json_string_escape [of s r] show ?case by (simp add: json_quote_def plain_start)
next
  case (JArr vs)
  then obtain n' where n: "n = Suc n'" by (cases n) auto
  show ?case
  proof (cases "vs = []")
    case True
    with JArr n show ?thesis by (simp add: plain_start expect_here)
  next
    case False
    let ?rest = "comma_sep (map json_render vs) @ CHR '']'' # r"
    have "hd (map json_render vs) = json_render (hd vs)" "wf_json (hd vs)" using False JArr.prems(1) by (auto simp: hd_map)
    with render_hd [of "hd vs"] False comma_sep_start [of "map json_render vs" "\<lambda>c. c \<notin> {CHR 0x20, CHR 0x09, CHR 0x0A, CHR 0x0D, CHR ''}'', CHR '']''}" "CHR '']'' # r"]
    obtain c cs where c: "?rest = c # cs" "c \<notin> {CHR 0x20, CHR 0x09, CHR 0x0A, CHR 0x0D, CHR ''}'', CHR '']''}" by auto
    then have closes: "expect (CHR '']'') ?rest = None" by (simp add: expect_here)
    have "json_elems n' (d - 1) ?rest = Some (vs, r)"
    proof (rule elems_render)
      fix v r n assume v: "v \<in> set vs" "number_end r" "2 * length (json_render v @ r) < n"
      have "json_depth v \<le> fold max (map json_depth vs) 0" using v(1) by (intro fold_max_ge) simp
      with v JArr.prems show "json_value n (d - 1) (json_render v @ r) = Some (v, r)" by (intro JArr.IH) auto
    qed (use False JArr.prems n in auto)
    with closes JArr.prems n show ?thesis by (simp add: plain_start)
  qed
next
  case (JObj ms)
  then obtain n' where n: "n = Suc n'" by (cases n) auto
  let ?f = "\<lambda>(k, v). json_quote k @ CHR '':'' # json_render v"
  show ?case
  proof (cases "ms = []")
    case True
    with JObj n show ?thesis by (simp add: plain_start expect_here)
  next
    case False
    let ?rest = "comma_sep (map ?f ms) @ CHR ''}'' # r"
    have "\<exists>c cs. hd (map ?f ms) = c # cs \<and> c = CHR 0x22" using False by (cases "hd ms") (simp add: hd_map json_quote_def)
    with False comma_sep_start [of "map ?f ms" "\<lambda>c. c = CHR 0x22" "CHR ''}'' # r"]
    obtain cs where c: "?rest = CHR 0x22 # cs" by auto
    then have closes: "expect (CHR ''}'') ?rest = None" by (simp add: expect_here)
    have "json_members n' (d - 1) ?rest = Some (ms, r)"
    proof (rule members_render)
      fix kv r n assume v: "kv \<in> set ms" "number_end r" "2 * length (json_render (snd kv) @ r) < n"
      have "json_depth (snd kv) \<le> fold max (map (\<lambda>kv. json_depth (snd kv)) ms) 0" using v(1) by (intro fold_max_ge) simp
      with v JObj.prems show "json_value n (d - 1) (json_render (snd kv) @ r) = Some (snd kv, r)"
        by (intro JObj.IH [of kv]) (auto simp: snds.simps)
    qed (use False JObj.prems n in auto)
    with closes JObj.prems n show ?thesis by (simp add: plain_start)
  qed
next
  case (JBool b)
  then obtain n' where n: "n = Suc n'" by (cases n) auto
  then show ?case by (simp add: plain_start)
next
  case JNull
  then obtain n' where n: "n = Suc n'" by (cases n) auto
  then show ?case by (simp add: plain_start)
qed

lemma json_round_trip:
  assumes "wf_json v" and "json_depth v \<le> 10000"
  shows "json_parse (json_render v) = Some v"
proof -
  have "json_value (Suc (2 * length (json_render v))) 10000 (json_render v @ []) = Some (v, [])"
    using assms by (intro json_value_render) (auto simp: number_end_def)
  then show ?thesis by (simp add: json_parse_def skip_ws_def)
qed

subsection \<open>Fields of structs\<close>

lemma json_fold_ascii: "list_all (\<lambda>c. byte_val c < 128) s \<Longrightarrow> json_fold s = map upper_char s"
proof (induction s rule: json_fold.induct)
  case (1 s)
  show ?case
  proof (cases s)
    case (Cons c cs)
    with 1(4) have "\<not> is_prefix [CHR 0xE2, CHR 0x84, CHR 0xAA] s" "\<not> is_prefix [CHR 0xC5, CHR 0xBF] s" by auto
    with 1(3,4) Cons show ?thesis by (subst json_fold.simps) auto
  qed (simp add: json_fold.simps)
qed

lemma json_fold_literal:
  "json_fold [] = []"
  "byte_val c < 128 \<Longrightarrow> list_all (\<lambda>c. byte_val c < 128) s \<Longrightarrow> json_fold (c # s) = upper_char c # map upper_char s"
  by (simp_all add: json_fold_ascii json_fold.simps [of "[]"])

text \<open>The members of a struct that is written field by field.\<close>

lemma members_simps:
  "members_of n [] = []"
  "members_of n (xs @ ys) = members_of n xs @ members_of n ys"
  "members_of n ((k, JStr v) # ms) = (if json_fold k = json_fold n then JStr v # members_of n ms else members_of n ms)"
  "members_of n (json_str k v) = (if json_fold k = json_fold n then [JStr v] else [])"
  "members_of n (json_str_omitempty k v) = (if json_fold k = json_fold n \<and> v \<noteq> [] then [JStr v] else [])"
  "members_of n (json_int k i) = (if json_fold k = json_fold n then [JNum (Itoa i)] else [])"
  by (simp_all add: members_of_def json_str_def json_str_omitempty_def json_int_def)

lemma str_field_one: "members_of n ms = [JStr v] \<Longrightarrow> str_field n ms = Some v"
  by (simp add: str_field_def)

lemma str_field_omitted: "members_of n ms = (if v = [] then [] else [JStr v]) \<Longrightarrow> str_field n ms = Some v"
  by (simp add: str_field_def split: if_splits)

lemma int_field_one:
  "members_of n ms = [JNum (Itoa i)] \<Longrightarrow> - (2 ^ 63) \<le> i \<Longrightarrow> i < 2 ^ 63 \<Longrightarrow> int_field n ms = Some i"
  by (simp add: int_field_def ParseInt64_Itoa)

lemmas field_simps_json = members_simps json_fold_literal upper_char_def

end
