(* ===== verification/GoTime.thy ===== *)
theory GoTime
  imports StorageTypes JSONLaws
begin

text \<open>
  The part of Go's \<^verbatim>\<open>time\<close> package that prints and reads instants: Unix seconds, and the
  RFC 3339 text that \<^verbatim>\<open>time.Time\<close> has in JSON, on the proleptic Gregorian calendar. Reading
  accepts what \<^verbatim>\<open>Time.UnmarshalJSON\<close> accepts: one-digit hours, a comma before the fraction, zone
  offsets up to 24:60, and fractions that are cut after the ninth digit.
\<close>

subsection \<open>Unix time\<close>

definition unix_epoch :: time where "unix_epoch = 62135596800 * second"

definition Unix :: "time \<Rightarrow> int" where
  "Unix t = (t - unix_epoch) div second"

definition time_Unix :: "int \<Rightarrow> time" where
  "time_Unix sec = unix_epoch + sec * second"

lemma time_Unix_Unix: "time_Unix (Unix t) \<le> t \<and> t < time_Unix (Unix t) + second"
proof -
  let ?x = "t - unix_epoch"
  have "?x div second * second + ?x mod second = ?x" by (rule div_mult_mod_eq)
  moreover have "0 \<le> ?x mod second" "?x mod second < second" by (simp_all add: second_def)
  ultimately show ?thesis unfolding time_Unix_def Unix_def by linarith
qed

lemma Unix_time_Unix [simp]: "Unix (time_Unix s) = s"
  by (simp add: Unix_def time_Unix_def second_def)

subsection \<open>The calendar\<close>

text \<open>
  Days are counted from the first of March of the year 0, so that leap days end a cycle of
  400 years (146097 days) made of centuries, four-year groups and years.
\<close>

definition civil_from_days :: "int \<Rightarrow> int \<times> int \<times> int" where
  "civil_from_days z =
     (let era = z div 146097; doe = z mod 146097;
          c = min (doe div 36524) 3; r = doe - c * 36524;
          q = r div 1461; r2 = r mod 1461;
          a = min (r2 div 365) 3; doy = r2 - a * 365;
          mp = (5 * doy + 2) div 153; d = doy - (153 * mp + 2) div 5 + 1;
          m = (if mp < 10 then mp + 3 else mp - 9);
          y = era * 400 + c * 100 + q * 4 + a
      in (if m \<le> 2 then y + 1 else y, m, d))"

definition days_from_civil :: "int \<Rightarrow> int \<Rightarrow> int \<Rightarrow> int" where
  "days_from_civil y m d =
     (let y' = (if m \<le> 2 then y - 1 else y); mp = (if 2 < m then m - 3 else m + 9)
      in y' * 365 + y' div 4 - y' div 100 + y' div 400 + (153 * mp + 2) div 5 + d - 1)"

lemma civil_year:
  fixes era c q a :: int
  assumes "0 \<le> c" "c \<le> 3" "0 \<le> q" "q \<le> 24" "0 \<le> a" "a \<le> 3"
  shows "let y = era * 400 + c * 100 + q * 4 + a in
    y * 365 + y div 4 - y div 100 + y div 400 = era * 146097 + c * 36524 + q * 1461 + a * 365"
proof -
  let ?y = "era * 400 + c * 100 + q * 4 + a"
  have "?y div 4 = era * 100 + c * 25 + q" using assms by linarith
  moreover have "?y div 100 = era * 4 + c" using assms by linarith
  moreover have "?y div 400 = era" using assms by linarith
  ultimately show ?thesis by (simp add: Let_def)
qed

lemma div_bounds: "0 < k \<Longrightarrow> x div k * k \<le> x \<and> x < x div k * k + (k::int)"
  using div_mult_mod_eq [of x k] pos_mod_bound [of k x] pos_mod_sign [of k x] by linarith

text \<open>The rest after the groups of size \<open>k\<close>, of which there are at most \<open>n + 1\<close>, the last with one more.\<close>

lemma min_group:
  fixes x k n :: int
  assumes "0 \<le> x" and "x \<le> (n + 1) * k" and "0 < k" and "0 \<le> n"
  shows "0 \<le> x - min (x div k) n * k \<and> x - min (x div k) n * k \<le> k"
proof (cases "x div k \<le> n")
  case True
  with div_bounds [OF assms(3), of x] show ?thesis by (simp add: min_def)
next
  case False
  then have "n * k \<le> x div k * k" using assms(3) by (intro mult_right_mono) simp_all
  with div_bounds [OF assms(3), of x] have "n * k \<le> x" by linarith
  with False assms(2) show ?thesis by (simp add: min_def algebra_simps)
qed

lemma civil_round_trip:
  "(case civil_from_days z of (y, m, d) \<Rightarrow> days_from_civil y m d) = z"
proof -
  define era doe where "era = z div 146097" and "doe = z mod 146097"
  define c r where "c = min (doe div 36524) 3" and "r = doe - c * 36524"
  define q r2 where "q = r div 1461" and "r2 = r mod 1461"
  define a doy where "a = min (r2 div 365) 3" and "doy = r2 - a * 365"
  define mp where "mp = (5 * doy + 2) div 153"
  have doe: "0 \<le> doe" "doe < 146097" "z = era * 146097 + doe" by (simp_all add: doe_def era_def)
  have c: "0 \<le> c" "c \<le> 3" using doe(1) by (simp_all add: c_def pos_imp_zdiv_nonneg_iff)
  have r: "0 \<le> r" "r \<le> 36524" unfolding r_def c_def using min_group [of doe 36524 3] doe(1,2) by simp_all
  have q: "0 \<le> q" "0 \<le> r2" "r2 < 1461" "r = q * 1461 + r2" using r by (simp_all add: q_def r2_def)
  with r have "q \<le> 24" by linarith
  have a: "0 \<le> a" "a \<le> 3" using q(2) by (simp_all add: a_def pos_imp_zdiv_nonneg_iff)
  have doy: "0 \<le> doy" "doy \<le> 365" unfolding doy_def a_def using min_group [of r2 365 3] q(2,3) by simp_all
  have mp: "0 \<le> mp" "mp \<le> 11" using doy by (auto simp: mp_def)
  note year = civil_year [OF c q(1) \<open>q \<le> 24\<close> a, unfolded Let_def, of era]
  have "civil_from_days z =
    (if (if mp < 10 then mp + 3 else mp - 9) \<le> 2 then era * 400 + c * 100 + q * 4 + a + 1 else era * 400 + c * 100 + q * 4 + a,
     if mp < 10 then mp + 3 else mp - 9, doy - (153 * mp + 2) div 5 + 1)"
    by (simp only: civil_from_days_def Let_def mp_def doy_def a_def r2_def q_def r_def c_def doe_def era_def)
  moreover have "z = era * 146097 + c * 36524 + q * 1461 + a * 365 + doy"
    using doe(3) q(4) by (simp add: r_def doy_def)
  ultimately show ?thesis
    using mp year by (cases "mp < 10") (simp_all add: days_from_civil_def Let_def)
qed

text \<open>The day of an instant: the zero time is the first of January of the year 1, day 306.\<close>

definition day_length :: duration where "day_length = 24 * hour"

definition Date :: "time \<Rightarrow> int \<times> int \<times> int" where
  "Date t = civil_from_days (t div day_length + 306)"

subsection \<open>RFC 3339\<close>

text \<open>A number with a fixed number of digits.\<close>

fun pad_digits :: "nat \<Rightarrow> nat \<Rightarrow> string" where
  "pad_digits 0 n = []"
| "pad_digits (Suc k) n = pad_digits k (n div 10) @ [hex_digit (n mod 10)]"

text \<open>The fraction of a second: up to nine digits, without trailing zeros.\<close>

definition strip_zeros :: "string \<Rightarrow> string" where
  "strip_zeros s = rev (dropWhile (\<lambda>c. c = CHR ''0'') (rev s))"

definition fraction_text :: "nat \<Rightarrow> string" where
  "fraction_text ns = (let ds = strip_zeros (pad_digits 9 ns) in if ds = [] then [] else CHR ''.'' # ds)"

definition rfc3339_text :: "time \<Rightarrow> string" where
  "rfc3339_text t =
     (case Date t of (y, m, d) \<Rightarrow>
      let ns = t mod day_length in
      pad_digits 4 (nat y) @ ''-'' @ pad_digits 2 (nat m) @ ''-'' @ pad_digits 2 (nat d) @ ''T'' @
      pad_digits 2 (nat (ns div hour)) @ '':'' @ pad_digits 2 (nat (ns div minute mod 60)) @ '':'' @
      pad_digits 2 (nat (ns div second mod 60)) @ fraction_text (nat (ns mod second)) @ ''Z'')"

text \<open>\<^verbatim>\<open>Time.MarshalJSON\<close>: a year of more than four digits is an error.\<close>

definition time_json :: "time \<Rightarrow> json option" where
  "time_json t = (let y = fst (Date t) in if 0 \<le> y \<and> y < 10000 then Some (JStr (rfc3339_text t)) else None)"

text \<open>A field of \<open>k\<close> digits at the start of the string.\<close>

definition take_digits :: "nat \<Rightarrow> string \<Rightarrow> (int \<times> string) option" where
  "take_digits k s =
     (if length s < k \<or> \<not> list_all is_digit (take k s) then None
      else map_option (\<lambda>n. (int n, drop k s)) (digits_val 0 (take k s)))"

definition take_char :: "char \<Rightarrow> string \<Rightarrow> string option" where
  "take_char c s = (case s of [] \<Rightarrow> None | x # xs \<Rightarrow> if x = c then Some xs else None)"

definition take_hour :: "string \<Rightarrow> (int \<times> string) option" where
  "take_hour s = (case take_digits 2 s of Some r \<Rightarrow> Some r | None \<Rightarrow> take_digits 1 s)"

definition daysIn :: "int \<Rightarrow> int \<Rightarrow> int" where
  "daysIn m y =
     (if m = 2 then (if y mod 4 = 0 \<and> (y mod 100 \<noteq> 0 \<or> y mod 400 = 0) then 29 else 28)
      else if m \<in> {4, 6, 9, 11} then 30 else 31)"

text \<open>The nanoseconds of a fraction: the first nine digits count.\<close>

definition take_fraction :: "string \<Rightarrow> int \<times> string" where
  "take_fraction s = (case s of
     c # d # _ \<Rightarrow>
       if (c = CHR ''.'' \<or> c = CHR '','') \<and> is_digit d
       then (let ds = takeWhile is_digit (tl s); ds9 = take 9 ds
             in (int (the (digits_val 0 (ds9 @ replicate (9 - length ds9) (CHR ''0'')))), dropWhile is_digit (tl s)))
       else (0, s)
   | _ \<Rightarrow> (0, s))"

text \<open>The offset of the zone in seconds.\<close>

definition take_zone :: "string \<Rightarrow> int option" where
  "take_zone s =
     (if s = ''Z'' then Some 0
      else (case s of
          [] \<Rightarrow> None
        | sign # rest \<Rightarrow>
            if sign \<noteq> CHR ''+'' \<and> sign \<noteq> CHR ''-'' then None
            else (case take_digits 2 rest of None \<Rightarrow> None | Some (h, r1) \<Rightarrow>
              (case take_char (CHR '':'') r1 of None \<Rightarrow> None | Some r2 \<Rightarrow>
              (case take_digits 2 r2 of None \<Rightarrow> None | Some (m, r3) \<Rightarrow>
                 if r3 \<noteq> [] \<or> 24 < h \<or> 60 < m then None
                 else Some ((if sign = CHR ''-'' then - 1 else 1) * (h * 3600 + m * 60)))))))"

definition parse_rfc3339 :: "string \<Rightarrow> time option" where
  "parse_rfc3339 s =
     (case take_digits 4 s of None \<Rightarrow> None | Some (y, s1) \<Rightarrow>
     (case take_char (CHR ''-'') s1 of None \<Rightarrow> None | Some s2 \<Rightarrow>
     (case take_digits 2 s2 of None \<Rightarrow> None | Some (m, s3) \<Rightarrow>
     (case take_char (CHR ''-'') s3 of None \<Rightarrow> None | Some s4 \<Rightarrow>
     (case take_digits 2 s4 of None \<Rightarrow> None | Some (d, s5) \<Rightarrow>
     (case take_char (CHR ''T'') s5 of None \<Rightarrow> None | Some s6 \<Rightarrow>
     (case take_hour s6 of None \<Rightarrow> None | Some (h, s7) \<Rightarrow>
     (case take_char (CHR '':'') s7 of None \<Rightarrow> None | Some s8 \<Rightarrow>
     (case take_digits 2 s8 of None \<Rightarrow> None | Some (mi, s9) \<Rightarrow>
     (case take_char (CHR '':'') s9 of None \<Rightarrow> None | Some s10 \<Rightarrow>
     (case take_digits 2 s10 of None \<Rightarrow> None | Some (sec, s11) \<Rightarrow>
     (let (ns, s12) = take_fraction s11 in
      case take_zone s12 of None \<Rightarrow> None | Some off \<Rightarrow>
        if m < 1 \<or> 12 < m \<or> d < 1 \<or> daysIn m y < d \<or> 24 \<le> h \<or> 60 \<le> mi \<or> 60 \<le> sec then None
        else Some ((days_from_civil y m d - 306) * day_length + h * hour + mi * minute + (sec - off) * second + ns)))))))))))))"

subsection \<open>Reading what was written\<close>

lemma length_pad_digits [simp]: "length (pad_digits k n) = k"
  by (induction k arbitrary: n) simp_all

lemma pad_digits_digit: "list_all is_digit (pad_digits k n)"
  by (induction k arbitrary: n) (simp_all add: hex_digit_digit)

lemma digits_val_pad: "n < 10 ^ k \<Longrightarrow> digits_val 0 (pad_digits k n) = Some n"
proof (induction k arbitrary: n)
  case (Suc k)
  then have "n div 10 < 10 ^ k" by simp
  with Suc.IH hex_digit_digit [of "n mod 10"] show ?case by (simp add: digits_val_append)
qed simp

lemma take_digits_pad:
  assumes "0 \<le> x" and "x < 10 ^ k"
  shows "take_digits k (pad_digits k (nat x) @ t) = Some (x, t)"
proof -
  have "nat x < 10 ^ k" using assms by (metis nat_less_iff of_nat_numeral of_nat_power)
  then show ?thesis using assms(1) by (simp add: take_digits_def pad_digits_digit digits_val_pad)
qed

lemma digits_val_zeros: "digits_val n (replicate k (CHR ''0'')) = Some (n * 10 ^ k)"
  by (induction k arbitrary: n) (simp_all add: is_digit_def byte_in_def algebra_simps)

lemma strip_zeros_split: "\<exists>k. s = strip_zeros s @ replicate k (CHR ''0'')"
proof -
  let ?z = "takeWhile (\<lambda>c. c = CHR ''0'') (rev s)"
  have "rev s = ?z @ dropWhile (\<lambda>c. c = CHR ''0'') (rev s)" by simp
  then have "s = strip_zeros s @ rev ?z" by (metis rev_append rev_rev_ident strip_zeros_def)
  moreover have "takeWhile (\<lambda>c. c = CHR ''0'') xs = replicate (length (takeWhile (\<lambda>c. c = CHR ''0'') xs)) (CHR ''0'')" for xs
    by (induction xs) simp_all
  ultimately show ?thesis by (metis rev_replicate)
qed

lemma take_fraction_text:
  assumes "0 \<le> x" and "x < second"
  shows "take_fraction (fraction_text (nat x) @ ''Z'') = (x, ''Z'')"
proof -
  define z where "z = strip_zeros (pad_digits 9 (nat x))"
  obtain k where k: "pad_digits 9 (nat x) = z @ replicate k (CHR ''0'')" unfolding z_def using strip_zeros_split by blast
  have "nat x < 10 ^ 9" using assms by (simp add: second_def)
  from digits_val_pad [OF this] have val: "digits_val 0 (z @ replicate k (CHR ''0'')) = Some (nat x)" by (simp only: k)
  have len: "length z + k = 9" using arg_cong [OF k, of length] by simp
  have dig: "list_all is_digit z" using pad_digits_digit [of 9 "nat x"] unfolding k by simp
  have frac: "fraction_text (nat x) = (if z = [] then [] else CHR ''.'' # z)" by (simp add: fraction_text_def z_def)
  show ?thesis
  proof (cases z)
    case Nil
    with val have "nat x = 0" by (simp add: digits_val_zeros)
    with Nil assms(1) show ?thesis unfolding frac take_fraction_def by simp
  next
    case (Cons c cs)
    have "\<not> is_digit (CHR ''Z'')" by (simp add: is_digit_def byte_in_def)
    with dig have split: "takeWhile is_digit (z @ ''Z'') = z" "dropWhile is_digit (z @ ''Z'') = ''Z''" by (simp_all add: list_all_iff)
    have nine: "take 9 z = z" "9 - length z = k" using len by simp_all
    have c: "is_digit c" using dig Cons by simp
    show ?thesis
      unfolding frac take_fraction_def
      using split nine val c assms(1) by (simp add: Cons Let_def)
  qed
qed

text \<open>The civil date is a date of the calendar.\<close>

lemma civil_bounds:
  assumes "civil_from_days z = (y, m, d)"
  shows "1 \<le> m \<and> m \<le> 12 \<and> 1 \<le> d \<and> d \<le> daysIn m y"
proof -
  define era doe where "era = z div 146097" and "doe = z mod 146097"
  define c r where "c = min (doe div 36524) 3" and "r = doe - c * 36524"
  define q r2 where "q = r div 1461" and "r2 = r mod 1461"
  define a doy where "a = min (r2 div 365) 3" and "doy = r2 - a * 365"
  define mp where "mp = (5 * doy + 2) div 153"
  define y0 where "y0 = era * 400 + c * 100 + q * 4 + a"
  have doe: "0 \<le> doe" "doe < 146097" by (simp_all add: doe_def)
  have c: "0 \<le> c" "c \<le> 3" using doe(1) by (simp_all add: c_def pos_imp_zdiv_nonneg_iff)
  have r: "0 \<le> r" "r \<le> 36524" unfolding r_def c_def using min_group [of doe 36524 3] doe by simp_all
  have q: "0 \<le> q" "0 \<le> r2" "r2 < 1461" "r = q * 1461 + r2" using r by (simp_all add: q_def r2_def)
  with r have q24: "q \<le> 24" by linarith
  have a: "0 \<le> a" "a \<le> 3" using q(2) by (simp_all add: a_def pos_imp_zdiv_nonneg_iff)
  have doy: "0 \<le> doy" "doy \<le> 365" unfolding doy_def a_def using min_group [of r2 365 3] q(2,3) by simp_all
  have res: "m = (if mp < 10 then mp + 3 else mp - 9)" "d = doy - (153 * mp + 2) div 5 + 1"
    "y = (if m \<le> 2 then y0 + 1 else y0)"
    using assms unfolding civil_from_days_def Let_def era_def doe_def c_def r_def q_def r2_def a_def doy_def mp_def y0_def
    by (auto simp only: prod.inject)
  have leap: "(y0 + 1) mod 4 = 0 \<and> ((y0 + 1) mod 100 \<noteq> 0 \<or> (y0 + 1) mod 400 = 0)" if "doy = 365"
  proof -
    have "a = 3"
    proof (rule ccontr)
      assume "a \<noteq> 3"
      then have "a = r2 div 365" by (simp add: a_def min_def split: if_splits)
      with div_bounds [of 365 r2] that show False by (simp add: doy_def)
    qed
    with that have "r2 = 1460" by (simp add: doy_def)
    show ?thesis
    proof (cases "q = 24")
      case True
      with \<open>r2 = 1460\<close> r q(4) have "r = 36524" by simp
      with doe c have "c = 3" using r_def by (simp add: c_def min_def split: if_splits)
      with True \<open>a = 3\<close> show ?thesis by (simp add: y0_def)
    next
      case False
      have "y0 + 1 = 4 * (q + 1) + (era * 4 + c) * 100" "y0 + 1 = (era * 100 + c * 25 + q + 1) * 4"
        using \<open>a = 3\<close> by (simp_all add: y0_def)
      moreover have "4 * (q + 1) mod 100 = 4 * (q + 1)" using False q(1) q24 by simp
      ultimately show ?thesis using q(1) by (metis mod_mult_self1 mod_mult_self2_is_0 mult_pos_pos not_less_iff_gr_or_eq
          zero_less_numeral zle_add1_eq_le add.commute le_imp_0_less)
    qed
  qed
  have mpb: "153 * mp \<le> 5 * doy + 2" "5 * doy + 2 < 153 * mp + 153" using div_bounds [of 153 "5 * doy + 2"] by (simp_all add: mp_def)
  with doy have "0 \<le> mp" "mp \<le> 11" by linarith+
  then have "mp = 0 \<or> mp = 1 \<or> mp = 2 \<or> mp = 3 \<or> mp = 4 \<or> mp = 5 \<or> mp = 6 \<or> mp = 7 \<or> mp = 8 \<or> mp = 9 \<or> mp = 10 \<or> mp = 11"
    by presburger
  with mpb doy have "1 \<le> m \<and> m \<le> 12 \<and> 1 \<le> d \<and> (m = 2 \<longrightarrow> d \<le> 29 \<and> (d = 29 \<longrightarrow> doy = 365)) \<and>
      (m \<in> {4, 6, 9, 11} \<longrightarrow> d \<le> 30) \<and> d \<le> 31"
    unfolding res(1,2) by (elim disjE) simp_all
  with leap res(3) show ?thesis by (auto simp: daysIn_def)
qed

lemma rfc3339_round_trip:
  assumes "0 \<le> fst (Date t)" and "fst (Date t) < 10000"
  shows "parse_rfc3339 (rfc3339_text t) = Some t"
proof -
  obtain y m d where date: "Date t = (y, m, d)" by (cases "Date t")
  define ns where "ns = t mod day_length"
  note b = civil_bounds [OF date [unfolded Date_def]]
  have y: "0 \<le> y" "y < 10 ^ 4" using assms date by simp_all
  have "daysIn m y \<le> 31" by (simp add: daysIn_def)
  with b have md: "0 \<le> m" "m < 10 ^ 2" "0 \<le> d" "d < 10 ^ 2" by auto
  have ns: "0 \<le> ns" "ns < day_length" by (simp_all add: ns_def day_length_def duration_defs)
  have h: "0 \<le> ns div hour" "ns div hour < 24" "0 \<le> ns div minute mod 60" "ns div minute mod 60 < 60"
    "0 \<le> ns div second mod 60" "ns div second mod 60 < 60" "0 \<le> ns mod second" "ns mod second < second"
    using ns by (auto simp: day_length_def duration_defs pos_imp_zdiv_nonneg_iff)
  have z: "take_zone ''Z'' = Some 0" by (simp add: take_zone_def)
  have c: "take_char x (x # s) = Some s" for x s by (simp add: take_char_def)
  have hour: "take_hour (pad_digits 2 (nat (ns div hour)) @ s) = Some (ns div hour, s)" for s
    using h(1,2) by (simp add: take_hour_def take_digits_pad)
  have "parse_rfc3339 (rfc3339_text t) = Some ((days_from_civil y m d - 306) * day_length + ns div hour * hour +
      ns div minute mod 60 * minute + (ns div second mod 60 - 0) * second + ns mod second)"
    unfolding parse_rfc3339_def rfc3339_text_def date prod.case Let_def ns_def [symmetric]
    using y md h b by (simp add: take_digits_pad hour take_fraction_text c z not_le)
  moreover have "days_from_civil y m d = t div day_length + 306"
    using civil_round_trip [of "t div day_length + 306"] date by (simp add: Date_def)
  moreover have "ns div hour * hour + ns div minute mod 60 * minute + ns div second mod 60 * second + ns mod second = ns"
  proof -
    have "ns div second = ns div minute * 60 + ns div second mod 60" "ns div minute = ns div hour * 60 + ns div minute mod 60"
      using div_mult_mod_eq [of "ns div second" 60] div_mult_mod_eq [of "ns div minute" 60]
      by (simp_all add: duration_defs zdiv_zmult2_eq [symmetric])
    then show ?thesis using div_mult_mod_eq [of ns second] unfolding duration_defs by linarith
  qed
  moreover have "t = t div day_length * day_length + ns" by (simp add: ns_def)
  ultimately show ?thesis by (simp add: algebra_simps)
qed

subsection \<open>Times in structs\<close>

text \<open>The field of type \<^verbatim>\<open>time.Time\<close> of a struct: the last member that is not null decides.\<close>

definition time_field :: "string \<Rightarrow> (string \<times> json) list \<Rightarrow> time option" where
  "time_field name ms =
     (let vs = members_of name ms in
      if list_all (\<lambda>v. case v of JStr s \<Rightarrow> parse_rfc3339 s \<noteq> None | _ \<Rightarrow> False) vs
      then Some (case vs of [] \<Rightarrow> 0 | _ \<Rightarrow> (case last vs of JStr s \<Rightarrow> the (parse_rfc3339 s) | _ \<Rightarrow> 0))
      else None)"

lemma time_field_one:
  "members_of n ms = [JStr (rfc3339_text t)] \<Longrightarrow> 0 \<le> fst (Date t) \<Longrightarrow> fst (Date t) < 10000 \<Longrightarrow> time_field n ms = Some t"
  by (simp add: time_field_def rfc3339_round_trip)

lemma digit_ascii: "is_digit c \<Longrightarrow> byte_val c < 128"
  by (auto simp: is_digit_def byte_in_def)

lemma pad_digits_ascii: "c \<in> set (pad_digits k n) \<Longrightarrow> byte_val c < 128"
  using pad_digits_digit [of k n] digit_ascii by (auto simp: list_all_iff)

lemma strip_zeros_set: "set (strip_zeros s) \<subseteq> set s"
  by (auto simp: strip_zeros_def dest: set_dropWhileD)

lemma rfc3339_valid: "ValidString (rfc3339_text t)"
proof (rule ValidString_ascii)
  fix c assume "c \<in> set (rfc3339_text t)"
  then have "c \<in> set ''-T:.Z'' \<or> (\<exists>k n. c \<in> set (pad_digits k n))"
    using strip_zeros_set by (fastforce simp: rfc3339_text_def fraction_text_def Let_def split: prod.splits if_splits)
  then show "byte_val c < 128" using pad_digits_ascii by auto
qed

end
