(* ===== verification/AdminQueries.thy ===== *)
theory AdminQueries
  imports AdminTenants GoTime "HOL-Library.Char_ord" "HOL-Library.List_Lexorder" "HOL-Library.Product_Lexorder"
begin

text \<open>
  The queries of the admin service (\<^verbatim>\<open>app/queries\<close>) and the listing statements of its
  repositories: filters, pages ordered by creation time and id with the newest first, and the
  cursors that lead from one page to the next.

  The order of ids in an index is the collation of the database. It is a parameter \<open>coll\<close>, the
  sort key of a string, whose keys are compared byte by byte.
\<close>

subsection \<open>Cursors\<close>

record cursorValue =
  cv_CreatedAt :: time
  cv_ID :: string

definition cursor_json :: "time \<Rightarrow> string \<Rightarrow> json option" where
  "cursor_json createdAt ident = map_option (\<lambda>t. JObj ([(''createdAt'', t)] @ json_str ''id'' ident)) (time_json createdAt)"

definition encodeCursor :: "time \<Rightarrow> string \<Rightarrow> string result" where
  "encodeCursor createdAt ident = (case cursor_json createdAt (TrimSpace ident) of
     None \<Rightarrow> Inl (Wrap CodeInternalError ''marshal cursor'' (Sentinel ''json'') [])
   | Some payload \<Rightarrow> Inr (b64_EncodeToString (json_render payload)))"

definition invalid_cursor :: go_error where
  "invalid_cursor = New CodeInvalidArgument ''query parameter is invalid'' [(''field'', DStr ''cursor''), (''reason'', DStr ''invalid_cursor'')]"

definition decodeCursor :: "string \<Rightarrow> cursorValue result" where
  "decodeCursor value = (case b64_DecodeString (TrimSpace value) of
     None \<Rightarrow> Inl invalid_cursor
   | Some raw \<Rightarrow>
       (case json_document raw of
          None \<Rightarrow> Inl invalid_cursor
        | Some ms \<Rightarrow>
            (case (time_field ''createdAt'' ms, str_field ''id'' ms) of
               (Some createdAt, Some ident) \<Rightarrow>
                 if IsZero createdAt \<or> TrimSpace ident = [] then Inl invalid_cursor
                 else Inr \<lparr>cv_CreatedAt = createdAt, cv_ID = TrimSpace ident\<rparr>
             | _ \<Rightarrow> Inl invalid_cursor)))"

subsection \<open>Pages\<close>

text \<open>
  \<^verbatim>\<open>SELECT ... WHERE p AND (created_at, id) < cursor ORDER BY created_at DESC, id DESC LIMIT n\<close>;
  the clause on the cursor is there only when a cursor was given.
\<close>

definition before_cursor :: "(string \<Rightarrow> string) \<Rightarrow> cursorValue option \<Rightarrow> time \<times> string \<Rightarrow> bool" where
  "before_cursor coll cursor k = (case cursor of None \<Rightarrow> True | Some c \<Rightarrow> (fst k, coll (snd k)) < (cv_CreatedAt c, coll (cv_ID c)))"

definition newest_first :: "(string \<Rightarrow> string) \<Rightarrow> ('r \<Rightarrow> time \<times> string) \<Rightarrow> 'r list \<Rightarrow> 'r list" where
  "newest_first coll key rows = rev (sort_key (\<lambda>r. (fst (key r), coll (snd (key r)))) rows)"

definition select_page :: "(string \<Rightarrow> string) \<Rightarrow> ('r \<Rightarrow> time \<times> string) \<Rightarrow> ('r \<Rightarrow> bool) \<Rightarrow> cursorValue option \<Rightarrow> int \<Rightarrow> 'r list \<Rightarrow> 'r list" where
  "select_page coll key p cursor n rows =
     take (nat n) (newest_first coll key (filter (\<lambda>r. p r \<and> before_cursor coll cursor (key r)) rows))"

definition listLimit :: "int \<Rightarrow> int" where
  "listLimit limit = (if limit \<le> 0 then 50 else limit)"

text \<open>The three functions \<^verbatim>\<open>trimTenantPage\<close>, \<^verbatim>\<open>trimAdminFilePage\<close> and \<^verbatim>\<open>trimAuditPage\<close>, for the key of their items.\<close>

definition trimPage :: "('a \<Rightarrow> time \<times> string) \<Rightarrow> 'a list \<Rightarrow> int \<Rightarrow> ('a list \<times> string) result" where
  "trimPage key items limit =
     (if int (length items) \<le> limit then Inr (items, [])
      else let nxt = items ! nat limit in
        bindE (encodeCursor (fst (key nxt)) (snd (key nxt))) (\<lambda>cursor. Inr (take (nat limit) items, cursor)))"

definition parseCursor :: "string \<Rightarrow> cursorValue option result" where
  "parseCursor cursor = (if cursor = [] then Inr None else bindE (decodeCursor cursor) (\<lambda>c. Inr (Some c)))"

record ports_ListTenantsQuery =
  lt_Cursor :: string
  lt_Limit :: int
  lt_Status :: "string option"
  lt_TenantScopes :: "string list"

definition tenant_filter :: "ports_ListTenantsQuery \<Rightarrow> tenant_row \<Rightarrow> bool" where
  "tenant_filter query r \<longleftrightarrow>
     (lt_TenantScopes query \<noteq> [] \<longrightarrow> te_tenant_id r \<in> set (lt_TenantScopes query)) \<and>
     (case lt_Status query of None \<Rightarrow> True | Some s \<Rightarrow> te_status r = s)"

definition trimTenantPage :: "Tenant list \<Rightarrow> int \<Rightarrow> (Tenant list \<times> string) result" where
  "trimTenantPage = trimPage (\<lambda>t. (tn_CreatedAt t, tn_TenantID t))"

definition TenantRepository_List :: "env \<Rightarrow> (string \<Rightarrow> string) \<Rightarrow> ports_ListTenantsQuery \<Rightarrow> (Tenant list \<times> string) M" where
  "TenantRepository_List env coll query =
     bindA (liftA (parseCursor (lt_Cursor query))) (\<lambda>cursor.
     let limit = listLimit (lt_Limit query) in
     bindA (mapErrA (admin_wrapDBError ''list tenants'') (runSQL env (\<lambda>db.
       Inr (map scanTenant (select_page coll (\<lambda>r. (te_created_at r, te_tenant_id r)) (tenant_filter query) cursor (limit + 1) (tenants db)), db))))
       (\<lambda>items. liftA (trimTenantPage items limit)))"

record ports_ListFilesQuery =
  lf_TenantID :: string
  lf_TenantScopes :: "string list"
  lf_Status :: string
  lf_Cursor :: string
  lf_Limit :: int

fun file_status_string :: "FileStatus \<Rightarrow> string" where
  "file_status_string FileStatusActive = ''ACTIVE''"
| "file_status_string FileStatusDeleted = ''DELETED''"
| "file_status_string (FileStatusOther s) = s"

definition file_filter :: "ports_ListFilesQuery \<Rightarrow> file_row \<Rightarrow> bool" where
  "file_filter query r \<longleftrightarrow>
     (if lf_TenantID query \<noteq> [] then fa_tenant_id r = lf_TenantID query
      else lf_TenantScopes query \<noteq> [] \<longrightarrow> fa_tenant_id r \<in> set (lf_TenantScopes query)) \<and>
     (lf_Status query \<noteq> [] \<longrightarrow> file_status_string (fa_status r) = lf_Status query)"

definition trimAdminFilePage :: "AdminFileView list \<Rightarrow> int \<Rightarrow> (AdminFileView list \<times> string) result" where
  "trimAdminFilePage = trimPage (\<lambda>f. (av_CreatedAt f, av_FileID f))"

definition AdminFile_List :: "env \<Rightarrow> (string \<Rightarrow> string) \<Rightarrow> ports_ListFilesQuery \<Rightarrow> (AdminFileView list \<times> string) M" where
  "AdminFile_List env coll query =
     bindA (liftA (parseCursor (lf_Cursor query))) (\<lambda>cursor.
     let limit = listLimit (lf_Limit query) in
     bindA (mapErrA (admin_wrapDBError ''list admin files'') (runSQL env (\<lambda>db.
       Inr (map scanAdminFile (select_page coll (\<lambda>r. (fa_created_at r, fa_file_id r)) (file_filter query) cursor (limit + 1) (file_assets db)), db))))
       (\<lambda>items. liftA (trimAdminFilePage items limit)))"

record ports_ListAuditLogsQuery =
  la_TenantID :: string
  la_TenantScopes :: "string list"
  la_ActorID :: string
  la_Action :: string
  la_Cursor :: string
  la_Limit :: int

text \<open>A row without a tenant is in no tenant's list; the details are the stored JSON object.\<close>

definition audit_filter :: "ports_ListAuditLogsQuery \<Rightarrow> audit_row \<Rightarrow> bool" where
  "audit_filter query r \<longleftrightarrow>
     (if la_TenantID query \<noteq> [] then al_tenant_id r = Some (la_TenantID query)
      else la_TenantScopes query \<noteq> [] \<longrightarrow> (\<exists>t \<in> set (la_TenantScopes query). al_tenant_id r = Some t)) \<and>
     (la_ActorID query \<noteq> [] \<longrightarrow> al_admin_subject r = la_ActorID query) \<and>
     (la_Action query \<noteq> [] \<longrightarrow> al_action r = la_Action query)"

definition scanAuditLog :: "audit_row \<Rightarrow> AuditLogRecord" where
  "scanAuditLog r = \<lparr>ar_AuditID = al_audit_log_id r, ar_AdminSubject = al_admin_subject r,
     ar_TenantID = null_String (al_tenant_id r), ar_Action = al_action r, ar_TargetType = al_target_type r,
     ar_TargetID = null_String (al_target_id r), ar_RequestID = null_String (al_request_id r),
     ar_Details = al_details r, ar_CreatedAt = al_created_at r\<rparr>"

definition trimAuditPage :: "AuditLogRecord list \<Rightarrow> int \<Rightarrow> (AuditLogRecord list \<times> string) result" where
  "trimAuditPage = trimPage (\<lambda>a. (ar_CreatedAt a, ar_AuditID a))"

definition AuditLog_List :: "env \<Rightarrow> (string \<Rightarrow> string) \<Rightarrow> ports_ListAuditLogsQuery \<Rightarrow> (AuditLogRecord list \<times> string) M" where
  "AuditLog_List env coll query =
     bindA (liftA (parseCursor (la_Cursor query))) (\<lambda>cursor.
     let limit = listLimit (la_Limit query) in
     bindA (mapErrA (admin_wrapDBError ''list admin audit logs'') (runSQL env (\<lambda>db.
       Inr (map scanAuditLog (select_page coll (\<lambda>r. (al_created_at r, al_audit_log_id r)) (audit_filter query) cursor (limit + 1) (admin_audit_logs db)), db))))
       (\<lambda>items. liftA (trimAuditPage items limit)))"

subsection \<open>Handlers\<close>

definition authorizeTenantOperation :: "AdminContext \<Rightarrow> Operation \<Rightarrow> string \<Rightarrow> unit result" where
  "authorizeTenantOperation c operation tenantID =
     bindE (AuthorizeOperation c operation) (\<lambda>_. EnsureTenantScope c tenantID)"

definition scopedTenants :: "AdminContext \<Rightarrow> string list" where
  "scopedTenants c = (if IsGlobalScope c then [] else ai_TenantScopes c)"

definition normalizeListConfig :: "int \<Rightarrow> int \<Rightarrow> int \<times> int" where
  "normalizeListConfig defaultLimit maxLimit =
     (let d = (if defaultLimit \<le> 0 then 50 else defaultLimit);
          m = (if maxLimit \<le> 0 then 200 else maxLimit)
      in (d, if m < d then d else m))"

definition admin_normalizeLimit :: "int \<Rightarrow> int \<Rightarrow> int \<Rightarrow> int" where
  "admin_normalizeLimit value defaultLimit maxLimit =
     (let v = (if value \<le> 0 then defaultLimit else value) in if maxLimit < v then maxLimit else v)"

definition normalizeOptionalQueryValue :: "string \<Rightarrow> string \<Rightarrow> string result" where
  "normalizeOptionalQueryValue value field =
     (if value \<noteq> [] \<and> TrimSpace value = []
      then Inl (New CodeInvalidArgument ''query parameter is invalid'' [(''field'', DStr field), (''reason'', DStr ''must_not_be_blank'')])
      else Inr (TrimSpace value))"

definition normalizeOptionalAuditQueryValue :: "string \<Rightarrow> string \<Rightarrow> string result" where
  "normalizeOptionalAuditQueryValue value field =
     (if value \<noteq> [] \<and> TrimSpace value = [] then Inl (ErrAuditQueryInvalid field ''must_not_be_blank'')
      else Inr (TrimSpace value))"

definition normalizeFileStatus :: "string \<Rightarrow> string result" where
  "normalizeFileStatus value =
     bindE (normalizeOptionalQueryValue value ''status'') (\<lambda>status.
     if status = [] \<or> status \<in> {''ACTIVE'', ''DELETED''} then Inr status
     else Inl (New CodeInvalidArgument ''query parameter is invalid'' [(''field'', DStr ''status''), (''reason'', DStr ''unsupported_value'')]))"

record admin_config =
  cf_coll :: "string \<Rightarrow> string"
  cf_ListDefaultLimit :: int
  cf_ListMaxLimit :: int

text \<open>The limit a list handler asks for, with the configuration its constructor normalised.\<close>

definition pageLimit :: "admin_config \<Rightarrow> int \<Rightarrow> int" where
  "pageLimit cfg value = (case normalizeListConfig (cf_ListDefaultLimit cfg) (cf_ListMaxLimit cfg) of
     (d, m) \<Rightarrow> admin_normalizeLimit value d m)"

record ListTenantsQuery =
  qt_Cursor :: string
  qt_Limit :: int
  qt_Status :: "string option"
  qt_Auth :: AdminContext

definition ListTenants :: "env \<Rightarrow> admin_config \<Rightarrow> ListTenantsQuery \<Rightarrow> (Tenant list \<times> string) M" where
  "ListTenants env cfg query =
     bindA (liftA (AuthorizeOperation (qt_Auth query) OperationListTenants)) (\<lambda>_.
     bindA (liftA (normalizeOptionalQueryValue (qt_Cursor query) ''cursor'')) (\<lambda>cursor.
     bindA (liftA (case qt_Status query of None \<Rightarrow> Inr () | Some s \<Rightarrow> TenantStatus_Validate s)) (\<lambda>_.
     bindA (TenantRepository_List env (cf_coll cfg) \<lparr>lt_Cursor = cursor, lt_Limit = pageLimit cfg (qt_Limit query),
       lt_Status = qt_Status query, lt_TenantScopes = scopedTenants (qt_Auth query)\<rparr>) (\<lambda>(items, nextCursor).
     returnA (map FromTenant items, nextCursor)))))"

record ListFilesQuery =
  qf_TenantID :: string
  qf_Status :: string
  qf_Cursor :: string
  qf_Limit :: int
  qf_Auth :: AdminContext

record AdminFile =
  af_FileID :: string
  af_TenantID :: string
  af_FileName :: string
  af_ContentType :: string
  af_SizeBytes :: int
  af_AccessLevel :: AccessLevel
  af_Status :: FileStatus
  af_DeletedAt :: "time option"
  af_CreatedAt :: time
  af_UpdatedAt :: time

definition FromAdminFile :: "AdminFileView \<Rightarrow> AdminFile" where
  "FromAdminFile v = \<lparr>af_FileID = av_FileID v, af_TenantID = av_TenantID v, af_FileName = av_FileName v,
     af_ContentType = av_ContentType v, af_SizeBytes = av_SizeBytes v, af_AccessLevel = av_AccessLevel v,
     af_Status = av_Status v, af_DeletedAt = av_DeletedAt v, af_CreatedAt = av_CreatedAt v, af_UpdatedAt = av_UpdatedAt v\<rparr>"

definition ListFiles :: "env \<Rightarrow> admin_config \<Rightarrow> ListFilesQuery \<Rightarrow> (AdminFile list \<times> string) M" where
  "ListFiles env cfg query =
     bindA (liftA (AuthorizeOperation (qf_Auth query) OperationListFiles)) (\<lambda>_.
     bindA (liftA (normalizeOptionalQueryValue (qf_TenantID query) ''tenantId'')) (\<lambda>tenantID.
     bindA (liftA (normalizeFileStatus (qf_Status query))) (\<lambda>status.
     bindA (liftA (normalizeOptionalQueryValue (qf_Cursor query) ''cursor'')) (\<lambda>cursor.
     bindA (liftA (if tenantID \<noteq> [] then EnsureTenantScope (qf_Auth query) tenantID else Inr ())) (\<lambda>_.
     bindA (AdminFile_List env (cf_coll cfg) \<lparr>lf_TenantID = tenantID, lf_TenantScopes = scopedTenants (qf_Auth query),
       lf_Status = status, lf_Cursor = cursor, lf_Limit = pageLimit cfg (qf_Limit query)\<rparr>) (\<lambda>(items, nextCursor).
     returnA (map FromAdminFile items, nextCursor)))))))"

record ListAuditLogsQuery =
  qa_TenantID :: string
  qa_ActorID :: string
  qa_Action :: string
  qa_Cursor :: string
  qa_Limit :: int
  qa_Auth :: AdminContext

record AuditLog =
  lg_AuditLogID :: string
  lg_TenantID :: string
  lg_ActorID :: string
  lg_Action :: string
  lg_TargetType :: string
  lg_TargetID :: string
  lg_Details :: "(string \<times> pval) list"
  lg_CreatedAt :: time

definition FromAuditLog :: "AuditLogRecord \<Rightarrow> AuditLog" where
  "FromAuditLog v = \<lparr>lg_AuditLogID = ar_AuditID v, lg_TenantID = ar_TenantID v, lg_ActorID = ar_AdminSubject v,
     lg_Action = ar_Action v, lg_TargetType = ar_TargetType v, lg_TargetID = ar_TargetID v, lg_Details = ar_Details v,
     lg_CreatedAt = ar_CreatedAt v\<rparr>"

definition ListAuditLogs :: "env \<Rightarrow> admin_config \<Rightarrow> ListAuditLogsQuery \<Rightarrow> (AuditLog list \<times> string) M" where
  "ListAuditLogs env cfg query =
     bindA (liftA (AuthorizeOperation (qa_Auth query) OperationListAuditLogs)) (\<lambda>_.
     bindA (liftA (normalizeOptionalAuditQueryValue (qa_TenantID query) ''tenantId'')) (\<lambda>tenantID.
     bindA (liftA (normalizeOptionalAuditQueryValue (qa_ActorID query) ''actorId'')) (\<lambda>actorID.
     bindA (liftA (normalizeOptionalAuditQueryValue (qa_Action query) ''action'')) (\<lambda>action.
     bindA (liftA (normalizeOptionalAuditQueryValue (qa_Cursor query) ''cursor'')) (\<lambda>cursor.
     bindA (liftA (if tenantID \<noteq> [] then EnsureTenantScope (qa_Auth query) tenantID else Inr ())) (\<lambda>_.
     bindA (AuditLog_List env (cf_coll cfg) \<lparr>la_TenantID = tenantID, la_TenantScopes = scopedTenants (qa_Auth query),
       la_ActorID = actorID, la_Action = action, la_Cursor = cursor, la_Limit = pageLimit cfg (qa_Limit query)\<rparr>) (\<lambda>(items, nextCursor).
     returnA (map FromAuditLog items, nextCursor))))))))"

definition requireTenantID :: "string \<Rightarrow> string result" where
  "requireTenantID value =
     (if TrimSpace value = [] then Inl (New CodeInvalidArgument ''tenant id is required'' [(''field'', DStr ''tenantId'')])
      else Inr (TrimSpace value))"

text \<open>The queries of one tenant differ in the operation, the repository and the view.\<close>

definition tenantQuery :: "Operation \<Rightarrow> (string \<Rightarrow> 'a option M) \<Rightarrow> ('a \<Rightarrow> 'b) \<Rightarrow> string \<Rightarrow> AdminContext \<Rightarrow> 'b M" where
  "tenantQuery operation get view tenantID0 auth =
     bindA (liftA (requireTenantID tenantID0)) (\<lambda>tenantID.
     bindA (liftA (authorizeTenantOperation auth operation tenantID)) (\<lambda>_.
     bindA (get tenantID) (\<lambda>found.
     case found of None \<Rightarrow> throwA (ErrTenantNotFound tenantID) | Some v \<Rightarrow> returnA (view v))))"

definition GetTenant :: "env \<Rightarrow> string \<Rightarrow> AdminContext \<Rightarrow> Tenant M" where
  "GetTenant env = tenantQuery OperationGetTenant (TenantRepository_GetByID env) FromTenant"

definition GetTenantPolicy :: "env \<Rightarrow> string \<Rightarrow> AdminContext \<Rightarrow> TenantPolicyView M" where
  "GetTenantPolicy env = tenantQuery OperationGetTenantPolicy (PolicyRepository_GetByTenantID env) FromTenantPolicy"

text \<open>The struct \<^verbatim>\<open>view.TenantUsage\<close> has the fields of the port's view.\<close>

definition FromTenantUsage :: "TenantUsageView \<Rightarrow> TenantUsageView" where
  "FromTenantUsage value = value"

definition GetTenantUsage :: "env \<Rightarrow> string \<Rightarrow> AdminContext \<Rightarrow> TenantUsageView M" where
  "GetTenantUsage env = tenantQuery OperationGetTenantUsage (Usage_GetByTenantID env) FromTenantUsage"

definition admin_GetFile :: "env \<Rightarrow> string \<Rightarrow> AdminContext \<Rightarrow> AdminFile M" where
  "admin_GetFile env fileID0 auth =
     (let fileID = TrimSpace fileID0 in
      bindA (liftA (failIf (fileID = []) (New CodeInvalidArgument ''file id is required'' [(''field'', DStr ''fileId'')]))) (\<lambda>_.
      bindA (liftA (AuthorizeOperation auth OperationGetFile)) (\<lambda>_.
      bindA (AdminFile_GetByID env fileID) (\<lambda>found.
      case found of
        None \<Rightarrow> throwA (ErrFileNotFound fileID)
      | Some file \<Rightarrow> bindA (liftA (EnsureTenantScope auth (av_TenantID file))) (\<lambda>_. returnA (FromAdminFile file))))))"

end
