(* ===== verification/PageLaws.thy ===== *)
theory PageLaws
  imports AdminQueries AdminLaws
begin

text \<open>
  The listings of the admin service: cursors are read back, a page holds at most the permitted
  number of rows, newest first, of tenants the administrator may see, and where the next page
  starts.
\<close>

subsection \<open>Cursors\<close>

text \<open>A cursor that can be written: its time has a four-digit year and is not zero, its id is text.\<close>

definition cursor_ok :: "time \<Rightarrow> string \<Rightarrow> bool" where
  "cursor_ok t i \<longleftrightarrow> 0 \<le> fst (Date t) \<and> fst (Date t) < 10000 \<and> t \<noteq> 0 \<and> TrimSpace i \<noteq> [] \<and> ValidString (TrimSpace i)"

lemma encode_decode_cursor:
  assumes "cursor_ok t i"
  shows "\<exists>c. encodeCursor t i = Inr c \<and> c \<noteq> [] \<and> TrimSpace c = c \<and> decodeCursor c = Inr \<lparr>cv_CreatedAt = t, cv_ID = TrimSpace i\<rparr>"
proof -
  define ms where "ms = [(''createdAt'', JStr (rfc3339_text t)), (''id'', JStr (TrimSpace i))]"
  define raw where "raw = json_render (JObj ms)"
  have json: "cursor_json t (TrimSpace i) = Some (JObj ms)"
    using assms by (simp add: cursor_json_def time_json_def cursor_ok_def json_str_def ms_def)
  have names: "ValidString ''createdAt''" "ValidString ''id''" by (auto intro!: ValidString_ascii)
  have wf: "wf_json (JObj ms)" "json_depth (JObj ms) = 1"
    using assms names rfc3339_valid by (simp_all add: ms_def cursor_ok_def)
  have doc: "json_document raw = Some ms"
    using json_round_trip [OF wf(1)] wf(2) by (simp add: json_document_def raw_def)
  have fields: "time_field ''createdAt'' ms = Some t" "str_field ''id'' ms = Some (TrimSpace i)"
    using assms by (simp_all add: ms_def time_field_one str_field_one field_simps_json cursor_ok_def)
  have ne: "b64_EncodeToString raw \<noteq> []" by (simp add: raw_def)
  then have "TrimSpace (b64_EncodeToString raw) = b64_EncodeToString raw" by (rule TrimSpace_b64_text)
  then have "decodeCursor (b64_EncodeToString raw) = Inr \<lparr>cv_CreatedAt = t, cv_ID = TrimSpace i\<rparr>"
    using assms fields by (simp add: decodeCursor_def b64_round_trip doc IsZero_def cursor_ok_def)
  with json ne show ?thesis by (auto simp: encodeCursor_def raw_def TrimSpace_b64_text)
qed

text \<open>
  The cursor of a page is read back as the position it was made from.
\<close>

theorem cursor_round_trip:
  assumes "0 \<le> fst (Date t)" and "fst (Date t) < 10000" and "t \<noteq> 0" and "TrimSpace i \<noteq> []" and "ValidString (TrimSpace i)"
  shows "\<exists>c. encodeCursor t i = Inr c \<and> decodeCursor c = Inr \<lparr>cv_CreatedAt = t, cv_ID = TrimSpace i\<rparr>"
  using encode_decode_cursor [of t i] assms by (auto simp: cursor_ok_def)

theorem cursor_round_trip_witness:
  "\<exists>c. encodeCursor unix_epoch '' t1 '' = Inr c \<and> decodeCursor c = Inr \<lparr>cv_CreatedAt = unix_epoch, cv_ID = ''t1''\<rparr>"
proof -
  have "fst (Date unix_epoch) = 1970" "unix_epoch \<noteq> 0" "TrimSpace '' t1 '' = ''t1''" by code_simp+
  moreover have "ValidString ''t1''" by (auto intro!: ValidString_ascii)
  ultimately show ?thesis using cursor_round_trip [of unix_epoch "'' t1 ''"] by simp
qed

subsection \<open>Pages\<close>

lemma newest_first_filter: "newest_first coll key (filter P rows) = filter P (newest_first coll key rows)"
  by (simp add: newest_first_def filter_sort [symmetric] rev_filter)

lemma set_newest_first [simp]: "set (newest_first coll key rows) = set rows"
  by (simp add: newest_first_def)

lemma newest_first_sorted:
  "sorted_wrt (\<lambda>a b. (fst (key b), coll (snd (key b))) \<le> (fst (key a), coll (snd (key a)))) (newest_first coll key rows)"
  using sorted_sort_key [of "\<lambda>r. (fst (key r), coll (snd (key r)))" rows]
  unfolding newest_first_def sorted_wrt_rev sorted_map .

lemma newest_first_strict:
  assumes "distinct (map (\<lambda>r. snd (key r)) rows)" and "inj coll"
  shows "sorted_wrt (\<lambda>a b. (fst (key b), coll (snd (key b))) < (fst (key a), coll (snd (key a)))) (newest_first coll key rows)"
proof -
  let ?k = "\<lambda>r. (fst (key r), coll (snd (key r)))"
  have "distinct (map (coll \<circ> (\<lambda>r. snd (key r))) rows)"
    using assms by (simp add: distinct_map comp_inj_on inj_on_subset [OF assms(2)])
  then have "inj_on ?k (set rows)" "distinct rows" by (auto simp: distinct_map inj_on_def)
  then have "distinct (map ?k (sort_key ?k rows))" by (simp add: distinct_map)
  then have "sorted_wrt (<) (map ?k (sort_key ?k rows))" by (simp add: strict_sorted_iff)
  then show ?thesis by (simp add: newest_first_def sorted_wrt_rev sorted_wrt_map)
qed

lemma filter_below:
  fixes k :: "'a \<Rightarrow> 'b :: linorder"
  assumes "sorted_wrt (\<lambda>a b. k b < k a) xs" and "m < length xs"
  shows "filter (\<lambda>r. k r < k (xs ! m)) xs = drop (Suc m) xs"
proof -
  have split: "xs = take m xs @ xs ! m # drop (Suc m) xs" using assms(2) by (simp add: id_take_nth_drop)
  from assms(1) have "sorted_wrt (\<lambda>a b. k b < k a) (take m xs @ xs ! m # drop (Suc m) xs)" using split by simp
  then have "\<forall>a \<in> set (take m xs). k (xs ! m) < k a" "\<forall>b \<in> set (drop (Suc m) xs). k b < k (xs ! m)"
    by (auto simp: sorted_wrt_append)
  then have "filter (\<lambda>r. k r < k (xs ! m)) (take m xs) = []" "filter (\<lambda>r. k r < k (xs ! m)) (drop (Suc m) xs) = drop (Suc m) xs"
    by (auto simp: filter_empty_conv less_not_sym)
  then show ?thesis by (subst split) simp
qed

text \<open>The rows a page is cut from, and the page that follows the row at position \<open>m\<close>.\<close>

lemma select_page_first: "select_page coll key p None n rows = take (nat n) (newest_first coll key (filter p rows))"
  by (simp add: select_page_def before_cursor_def)

lemma select_page_after:
  assumes "distinct (map (\<lambda>r. snd (key r)) rows)" and "inj coll"
    and all: "all = newest_first coll key (filter p rows)" and "m < length all"
  shows "select_page coll key p (Some \<lparr>cv_CreatedAt = fst (key (all ! m)), cv_ID = snd (key (all ! m))\<rparr>) n rows =
    take (nat n) (drop (Suc m) all)"
proof -
  let ?k = "\<lambda>r. (fst (key r), coll (snd (key r)))"
  have "distinct (map (\<lambda>r. snd (key r)) (filter p rows))" using assms(1) by (rule distinct_map_filter)
  from newest_first_strict [OF this assms(2)] have s: "sorted_wrt (\<lambda>a b. ?k b < ?k a) all" by (simp only: all)
  have "newest_first coll key (filter (\<lambda>r. p r \<and> ?k r < ?k (all ! m)) rows) =
      newest_first coll key (filter (\<lambda>r. ?k r < ?k (all ! m)) (filter p rows))"
    by (simp add: conj_commute)
  also have "\<dots> = filter (\<lambda>r. ?k r < ?k (all ! m)) all" by (simp only: newest_first_filter all)
  also have "\<dots> = drop (Suc m) all" by (rule filter_below [OF s assms(4)])
  finally show ?thesis by (simp add: select_page_def before_cursor_def)
qed

lemma trimPage_first:
  assumes "trimPage key xs n = Inr (items, c)"
  shows "items = take (nat n) xs"
  using assms by (auto simp: trimPage_def Let_def bindE_Inr_iff split: if_splits)

lemma trimPage_more:
  assumes "0 \<le> n" and "n < int (length xs)" and "cursor_ok (fst (key (xs ! nat n))) (snd (key (xs ! nat n)))"
  shows "\<exists>c. trimPage key xs n = Inr (take (nat n) xs, c) \<and> c \<noteq> [] \<and>
    decodeCursor c = Inr \<lparr>cv_CreatedAt = fst (key (xs ! nat n)), cv_ID = TrimSpace (snd (key (xs ! nat n)))\<rparr>"
proof -
  from encode_decode_cursor [OF assms(3)] obtain c where c: "encodeCursor (fst (key (xs ! nat n))) (snd (key (xs ! nat n))) = Inr c"
      "c \<noteq> []" "decodeCursor c = Inr \<lparr>cv_CreatedAt = fst (key (xs ! nat n)), cv_ID = TrimSpace (snd (key (xs ! nat n)))\<rparr>"
    by blast
  have "\<not> int (length xs) \<le> n" using assms(2) by simp
  then show ?thesis unfolding trimPage_def Let_def using c by simp
qed

lemma trimPage_runs:
  assumes "0 \<le> n" and "\<And>x. x \<in> set xs \<Longrightarrow> cursor_ok (fst (key x)) (snd (key x))"
  shows "\<exists>c. trimPage key xs n = Inr (take (nat n) xs, c)"
proof (cases "int (length xs) \<le> n")
  case True
  then show ?thesis by (simp add: trimPage_def)
next
  case False
  then have "nat n < length xs" using assms(1) by linarith
  then have "xs ! nat n \<in> set xs" by simp
  then show ?thesis using trimPage_more [OF assms(1), of xs key] assms(2) False by fastforce
qed

text \<open>The file listing of the repository: its page and its cursor.\<close>

abbreviation file_key :: "file_row \<Rightarrow> time \<times> string" where
  "file_key r \<equiv> (fa_created_at r, fa_file_id r)"

lemma AdminFile_List_Inr:
  assumes "AdminFile_List env coll query w = (Inr (items, c), w')"
  shows "\<exists>cursor. parseCursor (lf_Cursor query) = Inr cursor \<and> w' = tick w \<and>
    items = map scanAdminFile (take (nat (listLimit (lf_Limit query)))
      (newest_first coll file_key (filter (\<lambda>r. file_filter query r \<and> before_cursor coll cursor (file_key r)) (file_assets (w_db w)))))"
proof -
  let ?n = "listLimit (lf_Limit query)"
  have n: "0 < ?n" by (simp add: listLimit_def)
  from assms obtain cursor where c: "parseCursor (lf_Cursor query) = Inr cursor" "w' = tick w"
      "trimPage (\<lambda>f. (av_CreatedAt f, av_FileID f))
        (map scanAdminFile (select_page coll file_key (file_filter query) cursor (?n + 1) (file_assets (w_db w)))) ?n = Inr (items, c)"
    by (auto simp: AdminFile_List_def trimAdminFilePage_def Let_def run_action_Inr runSQL_Inr tick_def simp del: liftA_iff)
  have "take (nat ?n) (take (nat (?n + 1)) xs) = take (nat ?n) xs" for xs :: "file_row list" using n by (simp add: min_def)
  with trimPage_first [OF c(3)] c(1,2) show ?thesis by (auto simp: select_page_def take_map)
qed

lemma pageLimit_pos: "0 < pageLimit cfg n"
  by (simp add: pageLimit_def normalizeListConfig_def admin_normalizeLimit_def Let_def)

lemma NewAdminContext_scopes: "NewAdminContext input = Inr auth \<Longrightarrow> ai_TenantScopes auth \<noteq> []"
  by (auto simp: NewAdminContext_def bindE_Inr_iff normalizeStringSet_def Let_def split: if_splits)

text \<open>
  Claim C38. An administrator who lists files gets at most the configured number of them, newest
  first, each a row of the database, and only files of tenants the administrator's scopes name,
  unless the scope is global; the listing changes nothing.
\<close>

theorem list_files_page:
  assumes auth: "NewAdminContext input = Inr (qf_Auth query)"
    and run: "ListFiles env cfg query w = (Inr (items, c), w')"
  shows "HasMinimumRole (qf_Auth query) RoleReadonly \<and>
    (\<forall>f \<in> set items. IsGlobalScope (qf_Auth query) \<or> af_TenantID f \<in> set (ai_TenantScopes (qf_Auth query))) \<and>
    int (length items) \<le> pageLimit cfg (qf_Limit query) \<and>
    (\<exists>rows. set rows \<subseteq> set (file_assets (w_db w)) \<and> items = map (\<lambda>r. FromAdminFile (scanAdminFile r)) rows \<and>
       sorted_wrt (\<lambda>a b. (fa_created_at b, cf_coll cfg (fa_file_id b)) \<le> (fa_created_at a, cf_coll cfg (fa_file_id a))) rows) \<and>
    w_db w' = w_db w \<and> w_calls w' = w_calls w"
proof -
  let ?auth = "qf_Auth query" and ?n = "pageLimit cfg (qf_Limit query)"
  from run obtain tenantID status cur found where
      role: "AuthorizeOperation ?auth OperationListFiles = Inr ()"
      and tid: "normalizeOptionalQueryValue (qf_TenantID query) ''tenantId'' = Inr tenantID"
      and scope: "(if tenantID \<noteq> [] then EnsureTenantScope ?auth tenantID else Inr ()) = Inr ()"
      and lst: "AdminFile_List env (cf_coll cfg) \<lparr>lf_TenantID = tenantID, lf_TenantScopes = scopedTenants ?auth,
        lf_Status = status, lf_Cursor = cur, lf_Limit = ?n\<rparr> w = (Inr (found, c), w')"
      and items: "items = map FromAdminFile found"
    unfolding ListFiles_def by (auto simp: run_action_Inr simp del: liftA_iff split_paired_Ex split: prod.splits)
  define q where "q = \<lparr>lf_TenantID = tenantID, lf_TenantScopes = scopedTenants ?auth, lf_Status = status, lf_Cursor = cur, lf_Limit = ?n\<rparr>"
  have q: "lf_TenantID q = tenantID" "lf_TenantScopes q = scopedTenants ?auth" "lf_Limit q = ?n" by (simp_all add: q_def)
  note lst = lst [folded q_def]
  have trim: "TrimSpace tenantID = tenantID" using tid by (auto simp: normalizeOptionalQueryValue_def split: if_splits)
  from AdminFile_List_Inr [OF lst] obtain cursor where w': "w' = tick w" and found: "found = map scanAdminFile (take (nat ?n)
      (newest_first (cf_coll cfg) file_key (filter (\<lambda>r. file_filter q r \<and> before_cursor (cf_coll cfg) cursor (file_key r)) (file_assets (w_db w)))))"
    using pageLimit_pos [of cfg "qf_Limit query"] by (auto simp: listLimit_def q)
  define rows where "rows = take (nat ?n)
      (newest_first (cf_coll cfg) file_key (filter (\<lambda>r. file_filter q r \<and> before_cursor (cf_coll cfg) cursor (file_key r)) (file_assets (w_db w))))"
  have rows: "r \<in> set (file_assets (w_db w)) \<and> file_filter q r" if "r \<in> set rows" for r
    using in_set_takeD [OF that [unfolded rows_def]] by simp
  have sub: "set rows \<subseteq> set (file_assets (w_db w))" using rows by blast
  have tenant: "IsGlobalScope ?auth \<or> fa_tenant_id r \<in> set (ai_TenantScopes ?auth)" if "r \<in> set rows" for r
    using rows [OF that] scope trim NewAdminContext_scopes [OF auth]
    by (auto simp: file_filter_def q scopedTenants_def EnsureTenantScope_def CanAccessTenant_def split: if_splits)
  have its: "items = map (\<lambda>r. FromAdminFile (scanAdminFile r)) rows" by (simp add: items found rows_def)
  have "sorted_wrt (\<lambda>a b. (fa_created_at b, cf_coll cfg (fa_file_id b)) \<le> (fa_created_at a, cf_coll cfg (fa_file_id a))) rows"
    using newest_first_sorted [of file_key "cf_coll cfg"] unfolding rows_def fst_conv snd_conv by (intro sorted_wrt_take)
  moreover have "int (length items) \<le> ?n" using pageLimit_pos [of cfg "qf_Limit query"] by (simp add: its rows_def)
  moreover have "HasMinimumRole ?auth RoleReadonly"
    using role by (simp add: AuthorizeOperation_def RuleFor_def split: if_splits)
  moreover have "\<forall>f \<in> set items. IsGlobalScope ?auth \<or> af_TenantID f \<in> set (ai_TenantScopes ?auth)"
    using tenant by (auto simp: its FromAdminFile_def scanAdminFile_def)
  ultimately show ?thesis using sub its w' by (auto simp: tick_def)
qed


text \<open>
  Claim C39. What following the cursor of a listing gives: when more files match than a page
  holds, the first page has the newest of them, and the page its cursor leads to starts after
  the row behind the first page, so that row is in neither page. (The cursor is the position of
  the first row left out, and the next page takes only the rows strictly after it.)
\<close>

theorem next_page_skips_a_row:
  assumes ids: "distinct (map fa_file_id (file_assets (w_db w)))" and coll: "inj coll"
    and ok: "\<forall>r \<in> set (file_assets (w_db w)). cursor_ok (fa_created_at r) (fa_file_id r) \<and> TrimSpace (fa_file_id r) = fa_file_id r"
    and db: "\<And>n. e_db_fault env n = None" and same: "w_db w2 = w_db w"
    and query: "lf_Cursor query = []" "0 < lf_Limit query"
    and all: "all = newest_first coll file_key (filter (file_filter query) (file_assets (w_db w)))"
    and more: "lf_Limit query < int (length all)"
  shows "\<exists>c c2 w' w2'.
    AdminFile_List env coll query w = (Inr (map scanAdminFile (take (nat (lf_Limit query)) all), c), w') \<and>
    AdminFile_List env coll (query\<lparr>lf_Cursor := c\<rparr>) w2 =
      (Inr (map scanAdminFile (take (nat (lf_Limit query)) (drop (Suc (nat (lf_Limit query))) all)), c2), w2') \<and>
    all ! nat (lf_Limit query) \<in> set (file_assets (w_db w)) \<and>
    av_FileID (scanAdminFile (all ! nat (lf_Limit query))) \<notin> av_FileID ` set (map scanAdminFile (take (nat (lf_Limit query)) all)) \<and>
    av_FileID (scanAdminFile (all ! nat (lf_Limit query))) \<notin>
      av_FileID ` set (map scanAdminFile (take (nat (lf_Limit query)) (drop (Suc (nat (lf_Limit query))) all)))"
proof -
  let ?n = "lf_Limit query" and ?key = "\<lambda>f. (av_CreatedAt f, av_FileID f)"
  define m where "m = nat ?n"
  have m: "m < length all" "0 < m" "nat (?n + 1) = Suc m" "listLimit ?n = ?n" using more query(2) by (auto simp: m_def listLimit_def)
  have mem: "set all \<subseteq> set (file_assets (w_db w))" by (auto simp: all)
  have dist: "distinct (map fa_file_id all)"
    using ids unfolding all newest_first_def by (auto simp: distinct_map intro: inj_on_subset)
  let ?xs = "map scanAdminFile (take (Suc m) all)"
  have nth: "?xs ! m = scanAdminFile (all ! m)" "length ?xs = Suc m" using m by simp_all
  have key: "?key (scanAdminFile r) = file_key r" for r by (simp add: scanAdminFile_def)
  have okm: "cursor_ok (fa_created_at (all ! m)) (fa_file_id (all ! m))" "TrimSpace (fa_file_id (all ! m)) = fa_file_id (all ! m)"
    using ok mem m(1) nth_mem by blast+
  from trimPage_more [of ?n ?xs ?key] query(2) nth okm obtain c where
      trim: "trimPage ?key ?xs ?n = Inr (take m ?xs, c)" and c: "c \<noteq> []"
      "decodeCursor c = Inr \<lparr>cv_CreatedAt = fa_created_at (all ! m), cv_ID = fa_file_id (all ! m)\<rparr>"
    unfolding m_def [symmetric] by (auto simp: scanAdminFile_def m_def)
  have first: "AdminFile_List env coll query w = (Inr (map scanAdminFile (take m all), c), tick w)"
    using trim by (simp add: AdminFile_List_def parseCursor_def query m Let_def bindA_def mapErrA_def runSQL_def db select_page_first
        all [symmetric] trimAdminFilePage_def liftA_def tick_def take_map min_def)
  have filt: "file_filter (query\<lparr>lf_Cursor := c\<rparr>) = file_filter query" by (simp add: file_filter_def fun_eq_iff)
  have "select_page coll file_key (file_filter query)
      (Some \<lparr>cv_CreatedAt = fst (file_key (all ! m)), cv_ID = snd (file_key (all ! m))\<rparr>) (?n + 1) (file_assets (w_db w)) =
      take (Suc m) (drop (Suc m) all)"
    using select_page_after [of file_key "file_assets (w_db w)" coll all "file_filter query" m "?n + 1"] ids coll all m by simp
  moreover obtain c2 where "trimPage ?key (map scanAdminFile (take (Suc m) (drop (Suc m) all))) ?n =
      Inr (take m (map scanAdminFile (take (Suc m) (drop (Suc m) all))), c2)"
    using trimPage_runs [of ?n "map scanAdminFile (take (Suc m) (drop (Suc m) all))" ?key] query(2) ok mem
    unfolding m_def by (force simp: scanAdminFile_def dest!: in_set_takeD in_set_dropD)
  ultimately have nxt: "AdminFile_List env coll (query\<lparr>lf_Cursor := c\<rparr>) w2 =
      (Inr (map scanAdminFile (take m (drop (Suc m) all)), c2), tick w2)"
    using c by (simp add: AdminFile_List_def parseCursor_def m Let_def bindA_def mapErrA_def runSQL_def db same filt
        trimAdminFilePage_def liftA_def tick_def take_map min_def)
  have "fa_file_id (all ! m) \<notin> fa_file_id ` set (take m all)" "fa_file_id (all ! m) \<notin> fa_file_id ` set (drop (Suc m) all)"
    using dist id_take_nth_drop [OF m(1)] by (metis distinct_append distinct_map list.simps(9) map_append not_distinct_conv_prefix
        distinct.simps(2) list.set_map disjoint_insert(1) list.simps(15))+
  then show ?thesis
    using first nxt mem m(1) unfolding m_def [symmetric]
    by (force simp: scanAdminFile_def dest: in_set_takeD)
qed


text \<open>Three files, one a page.\<close>

definition pageFile :: "string \<Rightarrow> int \<Rightarrow> file_row" where
  "pageFile i n = sampleFile\<lparr>fa_file_id := i, fa_created_at := unix_epoch + n\<rparr>"

definition pageWorld :: world where
  "pageWorld = \<lparr>w_db = sampleDB\<lparr>file_assets := [pageFile ''f1'' 1, pageFile ''f2'' 2, pageFile ''f3'' 3]\<rparr>, w_calls = [], w_tick = 0\<rparr>"

definition pageQuery :: ports_ListFilesQuery where
  "pageQuery = \<lparr>lf_TenantID = ''t1'', lf_TenantScopes = [], lf_Status = [], lf_Cursor = [], lf_Limit = 1\<rparr>"

lemma page_rows:
  "newest_first (\<lambda>i. i) file_key (filter (file_filter pageQuery) (file_assets (w_db pageWorld))) =
     [pageFile ''f3'' 3, pageFile ''f2'' 2, pageFile ''f1'' 1]"
proof -
  have "filter (file_filter pageQuery) (file_assets (w_db pageWorld)) = [pageFile ''f1'' 1, pageFile ''f2'' 2, pageFile ''f3'' 3]"
    by (simp add: pageWorld_def pageQuery_def file_filter_def pageFile_def sampleFile_def)
  then show ?thesis by (simp add: newest_first_def pageFile_def)
qed

theorem next_page_skips_a_row_witness:
  "\<exists>c c2 w' w2'. AdminFile_List sampleEnv (\<lambda>i. i) pageQuery pageWorld = (Inr ([scanAdminFile (pageFile ''f3'' 3)], c), w') \<and>
     AdminFile_List sampleEnv (\<lambda>i. i) (pageQuery\<lparr>lf_Cursor := c\<rparr>) pageWorld = (Inr ([scanAdminFile (pageFile ''f1'' 1)], c2), w2')"
proof -
  have date: "fst (Date (unix_epoch + 1)) = 1970" "fst (Date (unix_epoch + 2)) = 1970" "fst (Date (unix_epoch + 3)) = 1970"
    "unix_epoch + 1 \<noteq> 0" "unix_epoch + 2 \<noteq> 0" "unix_epoch + 3 \<noteq> 0" by code_simp+
  have trim: "TrimSpace ''f1'' = ''f1''" "TrimSpace ''f2'' = ''f2''" "TrimSpace ''f3'' = ''f3''" by code_simp+
  have utf8: "ValidString ''f1''" "ValidString ''f2''" "ValidString ''f3''" by (auto intro!: ValidString_ascii)
  have files: "file_assets (w_db pageWorld) = [pageFile ''f1'' 1, pageFile ''f2'' 2, pageFile ''f3'' 3]" by (simp add: pageWorld_def)
  have limit: "lf_Limit pageQuery = 1" "lf_Cursor pageQuery = []" by (simp_all add: pageQuery_def)
  have inj: "inj (\<lambda>i :: string. i)" by (simp add: inj_def)
  have ids: "distinct (map fa_file_id (file_assets (w_db pageWorld)))" by (simp add: files pageFile_def)
  have ok: "\<forall>r \<in> set (file_assets (w_db pageWorld)). cursor_ok (fa_created_at r) (fa_file_id r) \<and> TrimSpace (fa_file_id r) = fa_file_id r"
    by (simp add: files pageFile_def cursor_ok_def date trim utf8)
  have db: "e_db_fault sampleEnv n = None" for n by (simp add: sampleEnv_def)
  have pos: "0 < lf_Limit pageQuery" "lf_Limit pageQuery < int (length [pageFile ''f3'' 3, pageFile ''f2'' 2, pageFile ''f1'' 1])"
    by (simp_all add: limit)
  from next_page_skips_a_row [OF ids inj ok db refl limit(2) pos(1) page_rows [symmetric] pos(2)]
  show ?thesis by (auto simp: limit)
qed

definition filesQuery :: ListFilesQuery where
  "filesQuery = \<lparr>qf_TenantID = [], qf_Status = [], qf_Cursor = [], qf_Limit = 0, qf_Auth = sampleAdmin\<rparr>"

definition pageConfig :: admin_config where
  "pageConfig = \<lparr>cf_coll = (\<lambda>i. i), cf_ListDefaultLimit = 0, cf_ListMaxLimit = 0\<rparr>"

theorem list_files_page_witness:
  "\<exists>items c w'. ListFiles sampleEnv pageConfig filesQuery sampleFileWorld = (Inr (items, c), w') \<and> items \<noteq> [] \<and>
     int (length items) \<le> pageLimit pageConfig 0"
proof -
  have new: "NewAdminContext sampleAdminInput = Inr (qf_Auth filesQuery)" by code_simp
  have "(case fst (ListFiles sampleEnv pageConfig filesQuery sampleFileWorld) of Inl _ \<Rightarrow> False | Inr (items, c) \<Rightarrow> items \<noteq> [])" by code_simp
  then obtain items c w' where run: "ListFiles sampleEnv pageConfig filesQuery sampleFileWorld = (Inr (items, c), w')" "items \<noteq> []"
    by (cases "ListFiles sampleEnv pageConfig filesQuery sampleFileWorld") (auto split: sum.splits prod.splits)
  have "qf_Limit filesQuery = 0" by (simp add: filesQuery_def)
  with list_files_page [OF new run(1)] run show ?thesis by auto
qed

end
