(* ===== verification/AccessDomain.thy ===== *)
theory AccessDomain
  imports UploadRepository
begin

text \<open>
  The domain of the access service (\<^verbatim>\<open>src/internal/services/access/domain\<close>): who may read a file,
  the tenant's download policy, and the claims of an access ticket; and the two repositories it
  reads from (\<^verbatim>\<open>infra/postgres/repositories.go\<close>). The struct \<^verbatim>\<open>AuthContext\<close> has the fields of the
  upload service's.
\<close>

subsection \<open>Errors\<close>

definition access_CodeFileNotFound :: Code where "access_CodeFileNotFound = ''FILE_NOT_FOUND''"
definition CodeFileAccessDenied :: Code where "CodeFileAccessDenied = ''FILE_ACCESS_DENIED''"
definition CodeAccessTicketInvalid :: Code where "CodeAccessTicketInvalid = ''ACCESS_TICKET_INVALID''"
definition CodeAccessTicketExpired :: Code where "CodeAccessTicketExpired = ''ACCESS_TICKET_EXPIRED''"
definition CodeDownloadNotAllowed :: Code where "CodeDownloadNotAllowed = ''DOWNLOAD_NOT_ALLOWED''"
definition access_CodeTenantScopeDenied :: Code where "access_CodeTenantScopeDenied = ''TENANT_SCOPE_DENIED''"

lemmas access_code_defs = access_CodeFileNotFound_def CodeFileAccessDenied_def CodeAccessTicketInvalid_def
  CodeAccessTicketExpired_def CodeDownloadNotAllowed_def access_CodeTenantScopeDenied_def

definition access_ErrFileNotFound :: "string \<Rightarrow> go_error" where
  "access_ErrFileNotFound fileID = New access_CodeFileNotFound ''file not found''
     [(''resourceType'', DStr ''file''), (''resourceId'', DStr fileID)]"

definition ErrFileAccessDenied :: "string \<Rightarrow> go_error" where
  "ErrFileAccessDenied fileID = New CodeFileAccessDenied ''file access denied''
     [(''resourceType'', DStr ''file''), (''resourceId'', DStr fileID)]"

definition ErrAccessTicketInvalid :: "string \<Rightarrow> go_error" where
  "ErrAccessTicketInvalid ticket = New CodeAccessTicketInvalid ''access ticket is invalid''
     [(''resourceType'', DStr ''accessTicket''), (''resourceId'', DStr ticket)]"

definition ErrAccessTicketExpired :: "string \<Rightarrow> go_error" where
  "ErrAccessTicketExpired ticket = New CodeAccessTicketExpired ''access ticket is expired''
     [(''resourceType'', DStr ''accessTicket''), (''resourceId'', DStr ticket)]"

definition ErrDownloadNotAllowed :: "string \<Rightarrow> go_error" where
  "ErrDownloadNotAllowed reason = New CodeDownloadNotAllowed ''file download is not allowed by current policy''
     [(''reason'', DStr reason)]"

definition access_ErrTenantScopeDenied :: "string \<Rightarrow> go_error" where
  "access_ErrTenantScopeDenied fileID = New access_CodeTenantScopeDenied ''tenant scope denied''
     [(''resourceType'', DStr ''file''), (''resourceId'', DStr fileID)]"

subsection \<open>Reading files\<close>

definition ScopeFileRead :: string where "ScopeFileRead = ''file:read''"

definition RequireFileRead :: "AuthContext \<Rightarrow> unit result" where
  "RequireFileRead a =
     (if ac_SubjectID a = [] then Inl (New CodeForbidden ''subject is required'' [])
      else if ac_TenantID a = [] then Inl (New CodeForbidden ''tenant is required'' [])
      else if ScopeFileRead \<notin> set (ac_Scopes a)
      then Inl (New CodeForbidden ''file read scope is required'' [(''requiredScope'', DStr ScopeFileRead)])
      else Inr ())"

record FileView =
  fv_FileID :: string
  fv_TenantID :: string
  fv_OwnerID :: string
  fv_FileName :: string
  fv_ContentType :: string
  fv_SizeBytes :: int
  fv_AccessLevel :: AccessLevel
  fv_Status :: FileStatus
  fv_StorageProvider :: Provider
  fv_BucketName :: string
  fv_ObjectKey :: string
  fv_CreatedAt :: time
  fv_UpdatedAt :: time

definition EnsureReadable :: "AuthContext \<Rightarrow> FileView \<Rightarrow> unit result" where
  "EnsureReadable auth f =
     (if fv_Status f \<noteq> FileStatusActive then Inl (ErrFileAccessDenied (fv_FileID f))
      else if ac_TenantID auth \<noteq> fv_TenantID f then Inl (access_ErrTenantScopeDenied (fv_FileID f))
      else Inr ())"

definition FileView_ObjectRef :: "FileView \<Rightarrow> ObjectRef" where
  "FileView_ObjectRef f = \<lparr>or_Provider = fv_StorageProvider f, or_BucketName = fv_BucketName f, or_ObjectKey = fv_ObjectKey f\<rparr>"

subsection \<open>Dispositions, policies and tickets\<close>

definition DownloadDispositionInline :: string where "DownloadDispositionInline = ''inline''"
definition DownloadDispositionAttachment :: string where "DownloadDispositionAttachment = ''attachment''"

lemmas disposition_defs = DownloadDispositionInline_def DownloadDispositionAttachment_def

definition NormalizeDisposition :: "string \<Rightarrow> string result" where
  "NormalizeDisposition disposition =
     (if TrimSpace disposition = [] then Inr DownloadDispositionAttachment
      else if TrimSpace disposition = DownloadDispositionInline then Inr DownloadDispositionInline
      else if TrimSpace disposition = DownloadDispositionAttachment then Inr DownloadDispositionAttachment
      else Inl (New CodeInvalidArgument ''invalid download disposition'' [(''field'', DStr ''responseDisposition'')]))"

record TenantPolicy =
  dp_TenantID :: string
  dp_DownloadDisabled :: bool
  dp_InlinePreviewDisabled :: bool
  dp_AttachmentDownloadDisabled :: bool

definition EnsureAllowed :: "string \<Rightarrow> TenantPolicy \<Rightarrow> unit result" where
  "EnsureAllowed disposition p =
     (if dp_DownloadDisabled p then Inl (ErrDownloadNotAllowed ''download_disabled'')
      else if disposition = DownloadDispositionInline \<and> dp_InlinePreviewDisabled p
      then Inl (ErrDownloadNotAllowed ''inline_preview_disabled'')
      else if disposition = DownloadDispositionAttachment \<and> dp_AttachmentDownloadDisabled p
      then Inl (ErrDownloadNotAllowed ''attachment_download_disabled'')
      else Inr ())"

record AccessTicketClaims =
  tc_FileID :: string
  tc_TenantID :: string
  tc_Subject :: string
  tc_SubjectType :: string
  tc_Disposition :: string
  tc_ResponseName :: string
  tc_ExpiresAt :: time

definition AccessTicketClaims_Validate :: "AccessTicketClaims \<Rightarrow> unit result" where
  "AccessTicketClaims_Validate c =
     (if tc_FileID c = [] then Inl (New CodeInvalidArgument ''file id is required'' [(''field'', DStr ''fileId'')])
      else if tc_TenantID c = [] then Inl (New CodeInvalidArgument ''tenant id is required'' [(''field'', DStr ''tenantId'')])
      else if tc_Subject c = [] then Inl (New CodeInvalidArgument ''subject is required'' [(''field'', DStr ''subject'')])
      else if IsZero (tc_ExpiresAt c) then Inl (New CodeInvalidArgument ''expires at is required'' [(''field'', DStr ''expiresAt'')])
      else Inr ())"

subsection \<open>Repositories\<close>

definition file_view_of :: "file_row \<Rightarrow> FileView" where
  "file_view_of r = \<lparr>
     fv_FileID = fa_file_id r, fv_TenantID = fa_tenant_id r, fv_OwnerID = fa_owner_id r,
     fv_FileName = fa_original_filename r, fv_ContentType = null_String (fa_content_type r),
     fv_SizeBytes = fa_file_size r, fv_AccessLevel = fa_access_level r, fv_Status = fa_status r,
     fv_StorageProvider = fa_storage_provider r, fv_BucketName = fa_bucket_name r, fv_ObjectKey = fa_object_key r,
     fv_CreatedAt = fa_created_at r, fv_UpdatedAt = fa_updated_at r\<rparr>"

definition FileRead_GetByID :: "env \<Rightarrow> string \<Rightarrow> FileView M" where
  "FileRead_GetByID env fileID =
     mapErrA (notFoundOr (access_ErrFileNotFound fileID) ''get file by id'')
       (runSQL env (\<lambda>db. case lookup_row fa_file_id fileID (file_assets db) of
          None \<Rightarrow> Inl (Sentinel ErrNoRows)
        | Some r \<Rightarrow> Inr (file_view_of r, db)))"

definition TenantPolicy_GetByTenantID :: "env \<Rightarrow> string \<Rightarrow> TenantPolicy M" where
  "TenantPolicy_GetByTenantID env tenantID =
     mapErrA (notFoundOr (New CodeForbidden ''tenant policy is not configured'' [(''tenantId'', DStr tenantID)])
         ''get tenant policy by tenant id'')
       (runSQL env (\<lambda>db. case lookup_row tp_tenant_id tenantID (tenant_policies db) of
          None \<Rightarrow> Inl (Sentinel ErrNoRows)
        | Some r \<Rightarrow> Inr (\<lparr>dp_TenantID = tp_tenant_id r, dp_DownloadDisabled = False, dp_InlinePreviewDisabled = False,
             dp_AttachmentDownloadDisabled = False\<rparr>, db)))"

end
