(* ===== verification/AccessTicket.thy ===== *)
theory AccessTicket
  imports AccessDomain GoTime
begin

text \<open>
  The tickets of the access service (\<^verbatim>\<open>infra/token/hmac_ticket_issuer.go\<close>): the claims as JSON in
  base64, with an HMAC-SHA256 signature over the encoded claims.
\<close>

subsection \<open>Issuing and verifying\<close>

definition ticketPrefix :: string where "ticketPrefix = ''at_''"

definition NewHMACTicketIssuer :: "string \<Rightarrow> string result" where
  "NewHMACTicketIssuer signingKey =
     (if TrimSpace signingKey = [] then Inl (Sentinel ''ticket signing key is required'') else Inr (TrimSpace signingKey))"

definition sign :: "string \<Rightarrow> string \<Rightarrow> string" where
  "sign key encodedPayload = b64_EncodeToString (hmac_sha256 key encodedPayload)"

text \<open>The struct \<^verbatim>\<open>signedClaims\<close> as a JSON object.\<close>

definition signedClaims :: "AccessTicketClaims \<Rightarrow> json" where
  "signedClaims c = JObj (
     json_str ''fileId'' (tc_FileID c) @
     json_str ''tenantId'' (tc_TenantID c) @
     json_str ''subject'' (tc_Subject c) @
     json_str_omitempty ''subjectType'' (tc_SubjectType c) @
     json_str_omitempty ''disposition'' (tc_Disposition c) @
     json_str_omitempty ''responseName'' (tc_ResponseName c) @
     json_int ''expiresAt'' (Unix (tc_ExpiresAt c)))"

definition Issue :: "string \<Rightarrow> AccessTicketClaims \<Rightarrow> string result" where
  "Issue key claims =
     bindE (AccessTicketClaims_Validate claims) (\<lambda>_.
     let encodedPayload = b64_EncodeToString (json_render (signedClaims claims)) in
     Inr (ticketPrefix @ encodedPayload @ ''.'' @ sign key encodedPayload))"

text \<open>\<^verbatim>\<open>strings.SplitN(body, ".", 2)\<close>: the parts around the first dot, when there is one.\<close>

definition split_dot :: "string \<Rightarrow> (string \<times> string) option" where
  "split_dot s = (if CHR ''.'' \<in> set s
     then Some (takeWhile (\<lambda>c. c \<noteq> CHR ''.'') s, tl (dropWhile (\<lambda>c. c \<noteq> CHR ''.'') s)) else None)"

definition decode_claims :: "(string \<times> json) list \<Rightarrow> AccessTicketClaims option" where
  "decode_claims ms =
     (case (str_field ''fileId'' ms, str_field ''tenantId'' ms, str_field ''subject'' ms, str_field ''subjectType'' ms,
            str_field ''disposition'' ms, str_field ''responseName'' ms, int_field ''expiresAt'' ms) of
        (Some f, Some t, Some s, Some st, Some d, Some n, Some e) \<Rightarrow>
          Some \<lparr>tc_FileID = f, tc_TenantID = t, tc_Subject = s, tc_SubjectType = st, tc_Disposition = d,
            tc_ResponseName = n, tc_ExpiresAt = time_Unix e\<rparr>
      | _ \<Rightarrow> None)"

definition Verify :: "string \<Rightarrow> string \<Rightarrow> AccessTicketClaims result" where
  "Verify key ticket0 =
     (let ticket = TrimSpace ticket0 in
      bindE (failIf (\<not> is_prefix ticketPrefix ticket) (Sentinel ''invalid ticket prefix'')) (\<lambda>_.
      case split_dot (drop (length ticketPrefix) ticket) of
        None \<Rightarrow> Inl (Sentinel ''invalid ticket format'')
      | Some (p0, p1) \<Rightarrow>
          bindE (failIf (TrimSpace p0 = [] \<or> TrimSpace p1 = []) (Sentinel ''invalid ticket format'')) (\<lambda>_.
          bindE (failIf (sign key p0 \<noteq> p1) (Sentinel ''invalid ticket signature'')) (\<lambda>_.
          case b64_DecodeString p0 of
            None \<Rightarrow> Inl (ErrorfW ''decode ticket payload'' (Sentinel ''illegal base64 data''))
          | Some raw \<Rightarrow>
              (case json_document raw of
                 None \<Rightarrow> Inl (ErrorfW ''unmarshal ticket payload'' (Sentinel ''json''))
               | Some ms \<Rightarrow>
                   (case decode_claims ms of
                      None \<Rightarrow> Inl (ErrorfW ''unmarshal ticket payload'' (Sentinel ''json''))
                    | Some claims \<Rightarrow> Inr claims))))))"

subsection \<open>A ticket is read back\<close>

lemma decode_claims_signed:
  assumes "- (2 ^ 63) \<le> Unix (tc_ExpiresAt c)" and "Unix (tc_ExpiresAt c) < 2 ^ 63"
  shows "signedClaims c = JObj ms \<Longrightarrow> decode_claims ms = Some (c\<lparr>tc_ExpiresAt := time_Unix (Unix (tc_ExpiresAt c))\<rparr>)"
proof -
  assume "signedClaims c = JObj ms"
  then have ms: "ms = json_str ''fileId'' (tc_FileID c) @ json_str ''tenantId'' (tc_TenantID c) @ json_str ''subject'' (tc_Subject c) @
      json_str_omitempty ''subjectType'' (tc_SubjectType c) @ json_str_omitempty ''disposition'' (tc_Disposition c) @
      json_str_omitempty ''responseName'' (tc_ResponseName c) @ json_int ''expiresAt'' (Unix (tc_ExpiresAt c))"
    by (simp add: signedClaims_def)
  have "str_field ''fileId'' ms = Some (tc_FileID c)" "str_field ''tenantId'' ms = Some (tc_TenantID c)"
      "str_field ''subject'' ms = Some (tc_Subject c)" "int_field ''expiresAt'' ms = Some (Unix (tc_ExpiresAt c))"
    using assms by (simp_all add: ms str_field_one int_field_one field_simps_json)
  moreover have "str_field ''subjectType'' ms = Some (tc_SubjectType c)" "str_field ''disposition'' ms = Some (tc_Disposition c)"
      "str_field ''responseName'' ms = Some (tc_ResponseName c)"
    by (rule str_field_omitted, simp add: ms field_simps_json)+
  ultimately show ?thesis by (simp add: decode_claims_def)
qed

lemma signedClaims_wf:
  assumes "ValidString (tc_FileID c)" "ValidString (tc_TenantID c)" "ValidString (tc_Subject c)" "ValidString (tc_SubjectType c)"
    "ValidString (tc_Disposition c)" "ValidString (tc_ResponseName c)"
  shows "wf_json (signedClaims c) \<and> json_depth (signedClaims c) = 1"
proof -
  have "ValidString s" if "s \<in> set [''fileId'', ''tenantId'', ''subject'', ''subjectType'', ''disposition'', ''responseName'', ''expiresAt'']" for s
    using that by (intro ValidString_ascii) auto
  then show ?thesis
    using assms by (auto simp: signedClaims_def json_str_def json_str_omitempty_def json_int_def)
qed

end
