(* ===== verification/AccessHandlers.thy ===== *)
theory AccessHandlers
  imports AccessTicket
begin

text \<open>
  The handlers of the access service (\<^verbatim>\<open>app/commands\<close>, \<^verbatim>\<open>app/queries\<close>) and the idempotency store of
  ticket requests (\<^verbatim>\<open>infra/idempotency/store.go\<close>) in its two implementations, in memory and on
  Redis. The object locator and the presigner of the storage are ports; the Redis client is a
  parameter whose answers may depend on its state and on the moment of the call.

  A time in a stored record is read from the text of its JSON string after the escapes of that
  string have been resolved.
\<close>

subsection \<open>State\<close>

record 'r access_world =
  aw_world :: world
  aw_store :: 'r

type_synonym ('r, 'a) AM = "('r access_world, go_error, 'a) action"

definition onWorld :: "'a M \<Rightarrow> ('r, 'a) AM" where
  "onWorld m = (\<lambda>s. case m (aw_world s) of (r, w') \<Rightarrow> (r, s\<lparr>aw_world := w'\<rparr>))"

definition onStore :: "('r \<Rightarrow> 'a \<times> 'r) \<Rightarrow> ('r, 'a) AM" where
  "onStore f = (\<lambda>s. case f (aw_store s) of (x, st) \<Rightarrow> (Inr x, s\<lparr>aw_store := st\<rparr>))"

record AccessTicketIssueRecord =
  ir_Fingerprint :: string
  ir_Ticket :: string
  ir_RedirectURL :: string
  ir_ExpiresAt :: time

text \<open>The interface \<^verbatim>\<open>AccessTicketIdempotencyStore\<close>.\<close>

record 'r idem_store =
  is_Get :: "string \<Rightarrow> ('r, AccessTicketIssueRecord option) AM"
  is_PutIfAbsent :: "string \<Rightarrow> AccessTicketIssueRecord \<Rightarrow> duration \<Rightarrow> ('r, bool) AM"

definition normalizeTTL :: "duration \<Rightarrow> duration" where
  "normalizeTTL ttl = (if ttl \<le> 0 then second else ttl)"

subsection \<open>The store in memory\<close>

record memoryRecord =
  mr_record :: AccessTicketIssueRecord
  mr_expiresAt :: time

type_synonym memory = "string \<rightharpoonup> memoryRecord"

definition cleanupExpiredLocked :: "time \<Rightarrow> memory \<Rightarrow> memory" where
  "cleanupExpiredLocked now records =
     (\<lambda>key. case records key of None \<Rightarrow> None | Some r \<Rightarrow> if now < mr_expiresAt r then Some r else None)"

definition MemoryStore_Get :: "env \<Rightarrow> string \<Rightarrow> (memory, AccessTicketIssueRecord option) AM" where
  "MemoryStore_Get env key =
     bindA (onWorld (Now env)) (\<lambda>now.
     onStore (\<lambda>records.
       let records' = cleanupExpiredLocked now records in (map_option mr_record (records' key), records')))"

definition MemoryStore_PutIfAbsent :: "env \<Rightarrow> string \<Rightarrow> AccessTicketIssueRecord \<Rightarrow> duration \<Rightarrow> (memory, bool) AM" where
  "MemoryStore_PutIfAbsent env key record ttl =
     bindA (onWorld (Now env)) (\<lambda>now.
     bindA (onStore (\<lambda>records.
       let records' = cleanupExpiredLocked now records in (records' key \<noteq> None, records'))) (\<lambda>exists.
     if exists then returnA False
     else
       bindA (onWorld (Now env)) (\<lambda>now2.
       onStore (\<lambda>records.
         (True, records(key \<mapsto> \<lparr>mr_record = record, mr_expiresAt = now2 + normalizeTTL ttl\<rparr>))))))"

definition NewMemoryStore :: "env \<Rightarrow> memory idem_store" where
  "NewMemoryStore env = \<lparr>is_Get = MemoryStore_Get env, is_PutIfAbsent = MemoryStore_PutIfAbsent env\<rparr>"

subsection \<open>The store on Redis\<close>

text \<open>The client's \<^verbatim>\<open>GET\<close> (None for \<^verbatim>\<open>redis.Nil\<close>) and \<^verbatim>\<open>SETNX\<close> with an expiry.\<close>

record 'r redis_client =
  rc_Get :: "string \<Rightarrow> nat \<Rightarrow> 'r \<Rightarrow> (go_error + string option) \<times> 'r"
  rc_SetNX :: "string \<Rightarrow> string \<Rightarrow> duration \<Rightarrow> nat \<Rightarrow> 'r \<Rightarrow> (go_error + bool) \<times> 'r"

definition redisCall :: "(nat \<Rightarrow> 'r \<Rightarrow> (go_error + 'a) \<times> 'r) \<Rightarrow> ('r, 'a) AM" where
  "redisCall f = (\<lambda>s. case f (w_tick (aw_world s)) (aw_store s) of (x, st) \<Rightarrow>
     (x, s\<lparr>aw_world := (aw_world s)\<lparr>w_tick := Suc (w_tick (aw_world s))\<rparr>, aw_store := st\<rparr>))"

definition redisKeyPrefix :: string where "redisKeyPrefix = ''access:ticket:idempotency:''"

definition redisKey :: "string \<Rightarrow> string" where
  "redisKey key = redisKeyPrefix @ key"

definition issue_record_json :: "AccessTicketIssueRecord \<Rightarrow> json option" where
  "issue_record_json r = map_option (\<lambda>t. JObj (json_str ''Fingerprint'' (ir_Fingerprint r) @ json_str ''Ticket'' (ir_Ticket r) @
     json_str ''RedirectURL'' (ir_RedirectURL r) @ [(''ExpiresAt'', t)])) (time_json (ir_ExpiresAt r))"

definition decode_issue_record :: "string \<Rightarrow> AccessTicketIssueRecord option" where
  "decode_issue_record value = (case json_document value of
     None \<Rightarrow> None
   | Some ms \<Rightarrow>
       (case (str_field ''Fingerprint'' ms, str_field ''Ticket'' ms, str_field ''RedirectURL'' ms, time_field ''ExpiresAt'' ms) of
          (Some f, Some t, Some u, Some e) \<Rightarrow>
            Some \<lparr>ir_Fingerprint = f, ir_Ticket = t, ir_RedirectURL = u, ir_ExpiresAt = e\<rparr>
        | _ \<Rightarrow> None))"

definition RedisStore_Get :: "'r redis_client \<Rightarrow> string \<Rightarrow> ('r, AccessTicketIssueRecord option) AM" where
  "RedisStore_Get client key =
     bindA (mapErrA (\<lambda>err. ErrorfW (''get access ticket idempotency record: '' @ Error err) err)
       (redisCall (rc_Get client (redisKey key)))) (\<lambda>value.
     case value of
       None \<Rightarrow> returnA None
     | Some payload \<Rightarrow>
         (case decode_issue_record payload of
            None \<Rightarrow> throwA (ErrorfW ''unmarshal access ticket idempotency record'' (Sentinel ''json''))
          | Some record \<Rightarrow> returnA (Some record)))"

definition RedisStore_PutIfAbsent :: "'r redis_client \<Rightarrow> string \<Rightarrow> AccessTicketIssueRecord \<Rightarrow> duration \<Rightarrow> ('r, bool) AM" where
  "RedisStore_PutIfAbsent client key record ttl =
     (case issue_record_json record of
        None \<Rightarrow> throwA (ErrorfW ''marshal access ticket idempotency record'' (Sentinel ''json''))
      | Some payload \<Rightarrow>
          mapErrA (\<lambda>err. ErrorfW (''put access ticket idempotency record: '' @ Error err) err)
            (redisCall (rc_SetNX client (redisKey key) (json_render payload) (normalizeTTL ttl))))"

definition NewRedisStore :: "'r redis_client \<Rightarrow> 'r idem_store" where
  "NewRedisStore client = \<lparr>is_Get = RedisStore_Get client, is_PutIfAbsent = RedisStore_PutIfAbsent client\<rparr>"

subsection \<open>Creating a ticket\<close>

record CreateAccessTicketCommand =
  ct_FileID :: string
  ct_IdempotencyKey :: string
  ct_ExpiresIn :: duration
  ct_Disposition :: string
  ct_ResponseName :: string
  ct_Auth :: AuthContext

record CreateAccessTicketResult =
  cr_Ticket :: string
  cr_RedirectURL :: string
  cr_ExpiresAt :: time

record 'r CreateAccessTicketHandler =
  ch_key :: string
  ch_store :: "'r idem_store option"
  ch_defaultTTL :: duration
  ch_redirectBasePath :: string

definition trim_right_slash :: "string \<Rightarrow> string" where
  "trim_right_slash s = rev (dropWhile (\<lambda>c. c = CHR ''/'') (rev s))"

definition buildRedirectURL :: "string \<Rightarrow> string \<Rightarrow> string" where
  "buildRedirectURL basePath ticket =
     (let base = trim_right_slash (TrimSpace basePath) in
      (if base = [] then ''/api/v1/access-tickets'' else base) @ ''/'' @ ticket @ ''/redirect'')"

definition resolveExistingIdempotentResult :: "AccessTicketIssueRecord \<Rightarrow> string \<Rightarrow> CreateAccessTicketResult result" where
  "resolveExistingIdempotentResult record fingerprint =
     (if ir_Fingerprint record \<noteq> fingerprint
      then Inl (New CodeConflict ''idempotency key is already used by another access ticket request''
        [(''field'', DStr ''Idempotency-Key'')])
      else Inr \<lparr>cr_Ticket = ir_Ticket record, cr_RedirectURL = ir_RedirectURL record, cr_ExpiresAt = ir_ExpiresAt record\<rparr>)"

definition buildIdempotencyStorageKey :: "AuthContext \<Rightarrow> string \<Rightarrow> string \<Rightarrow> string" where
  "buildIdempotencyStorageKey auth fileID idempotencyKey =
     hex_EncodeToString (Sum256 (Join [TrimSpace (ac_TenantID auth), TrimSpace (ac_SubjectType auth),
       TrimSpace (ac_SubjectID auth), TrimSpace fileID, TrimSpace idempotencyKey] [CHR 0x0A]))"

definition fingerprint_json :: "string \<Rightarrow> AuthContext \<Rightarrow> string \<Rightarrow> string \<Rightarrow> duration \<Rightarrow> json" where
  "fingerprint_json fileID auth disposition responseName ttl = JObj (
     json_str ''fileId'' fileID @
     json_str ''tenantId'' (ac_TenantID auth) @
     json_str ''subjectId'' (ac_SubjectID auth) @
     json_str_omitempty ''subjectType'' (ac_SubjectType auth) @
     json_str ''disposition'' disposition @
     json_str_omitempty ''responseName'' responseName @
     json_int ''ttlNanos'' ttl)"

text \<open>Marshalling strings and integers cannot fail, so the error branch of the caller is not reached.\<close>

definition buildIdempotencyFingerprint :: "string \<Rightarrow> AuthContext \<Rightarrow> string \<Rightarrow> string \<Rightarrow> duration \<Rightarrow> string" where
  "buildIdempotencyFingerprint fileID auth disposition responseName ttl =
     hex_EncodeToString (Sum256 (json_render (fingerprint_json fileID auth disposition responseName ttl)))"

definition issue_claims :: "CreateAccessTicketCommand \<Rightarrow> string \<Rightarrow> FileView \<Rightarrow> time \<Rightarrow> AccessTicketClaims" where
  "issue_claims command disposition file expiresAt = \<lparr>
     tc_FileID = fv_FileID file, tc_TenantID = fv_TenantID file, tc_Subject = ac_SubjectID (ct_Auth command),
     tc_SubjectType = ac_SubjectType (ct_Auth command), tc_Disposition = disposition,
     tc_ResponseName = ct_ResponseName command, tc_ExpiresAt = expiresAt\<rparr>"

text \<open>Lines 104 to 143: the checks on the file, and the ticket.\<close>

definition issueTicket ::
    "env \<Rightarrow> 'r CreateAccessTicketHandler \<Rightarrow> CreateAccessTicketCommand \<Rightarrow> string \<Rightarrow> duration \<Rightarrow> ('r, CreateAccessTicketResult) AM" where
  "issueTicket env h command disposition ttl =
     bindA (onWorld (FileRead_GetByID env (ct_FileID command))) (\<lambda>file.
     bindA (liftA (EnsureReadable (ct_Auth command) file)) (\<lambda>_.
     bindA (onWorld (TenantPolicy_GetByTenantID env (fv_TenantID file))) (\<lambda>policy.
     bindA (liftA (EnsureAllowed disposition policy)) (\<lambda>_.
     bindA (onWorld (Now env)) (\<lambda>now.
     let expiresAt = now + ttl; claims = issue_claims command disposition file expiresAt in
     bindA (liftA (AccessTicketClaims_Validate claims)) (\<lambda>_.
     bindA (mapErrA (\<lambda>err. Wrap CodeServiceUnavailable ''issue access ticket'' err []) (liftA (Issue (ch_key h) claims))) (\<lambda>ticket.
     returnA \<lparr>cr_Ticket = ticket, cr_RedirectURL = buildRedirectURL (ch_redirectBasePath h) ticket,
       cr_ExpiresAt = expiresAt\<rparr>)))))))"

text \<open>Lines 145 to 172: the first of two concurrent requests with the same key wins.\<close>

definition recordTicket ::
    "'r idem_store \<Rightarrow> string \<Rightarrow> string \<Rightarrow> duration \<Rightarrow> CreateAccessTicketResult \<Rightarrow> ('r, CreateAccessTicketResult) AM" where
  "recordTicket store storageKey fingerprint ttl result =
     bindA (mapErrA (\<lambda>err. Wrap CodeServiceUnavailable ''persist access ticket idempotency record'' err [])
       (is_PutIfAbsent store storageKey \<lparr>ir_Fingerprint = fingerprint, ir_Ticket = cr_Ticket result,
          ir_RedirectURL = cr_RedirectURL result, ir_ExpiresAt = cr_ExpiresAt result\<rparr> ttl)) (\<lambda>stored.
     if stored then returnA result
     else
       bindA (mapErrA (\<lambda>err. Wrap CodeServiceUnavailable ''reload access ticket idempotency record'' err [])
         (is_Get store storageKey)) (\<lambda>existing.
       case existing of
         None \<Rightarrow> throwA (New CodeServiceUnavailable ''access ticket idempotency record was not found after conflict'' [])
       | Some record \<Rightarrow> liftA (resolveExistingIdempotentResult record fingerprint)))"

definition CreateAccessTicket ::
    "env \<Rightarrow> 'r CreateAccessTicketHandler \<Rightarrow> CreateAccessTicketCommand \<Rightarrow> ('r, CreateAccessTicketResult) AM" where
  "CreateAccessTicket env h command =
     (let idempotencyKey = TrimSpace (ct_IdempotencyKey command);
          ttl = (if ct_ExpiresIn command = 0 then ch_defaultTTL h else ct_ExpiresIn command) in
      bindA (liftA (RequireFileRead (ct_Auth command))) (\<lambda>_.
      bindA (liftA (failIf (ct_ExpiresIn command < 0)
        (New CodeInvalidArgument ''expiresIn must be >= 0'' [(''field'', DStr ''expiresInSeconds'')]))) (\<lambda>_.
      bindA (liftA (failIf (128 < length idempotencyKey)
        (New CodeInvalidArgument ''idempotency key is too long'' [(''field'', DStr ''Idempotency-Key'')]))) (\<lambda>_.
      bindA (liftA (NormalizeDisposition (ct_Disposition command))) (\<lambda>disposition.
      if idempotencyKey = [] then issueTicket env h command disposition ttl
      else (case ch_store h of
          None \<Rightarrow> throwA (New CodeServiceUnavailable ''access ticket idempotency is not available''
            [(''field'', DStr ''Idempotency-Key'')])
        | Some store \<Rightarrow>
            (let storageKey = buildIdempotencyStorageKey (ct_Auth command) (ct_FileID command) idempotencyKey;
                 fingerprint = buildIdempotencyFingerprint (ct_FileID command) (ct_Auth command) disposition
                   (ct_ResponseName command) ttl in
             bindA (mapErrA (\<lambda>err. Wrap CodeServiceUnavailable ''load access ticket idempotency record'' err [])
               (is_Get store storageKey)) (\<lambda>existing.
             case existing of
               Some record \<Rightarrow> liftA (resolveExistingIdempotentResult record fingerprint)
             | None \<Rightarrow>
                 bindA (issueTicket env h command disposition ttl) (\<lambda>result.
                 recordTicket store storageKey fingerprint ttl result)))))))))"

subsection \<open>Queries\<close>

text \<open>The ports of the storage: the public URL of an object, and a presigned one.\<close>

record access_env =
  ae_env :: env
  ae_ResolveObjectURL :: "ObjectRef \<Rightarrow> string result"
  ae_PresignGetObject :: "nat \<Rightarrow> ObjectRef \<Rightarrow> duration \<Rightarrow> string result"

record access_config =
  af_key :: string
  af_privateTTL :: duration
  af_publicURLEnabled :: bool

record GetFileQuery =
  gq_FileID :: string
  gq_Auth :: AuthContext

record GetFileResult =
  gr_File :: FileView
  gr_DownloadURL :: string

definition publicURL :: "access_env \<Rightarrow> FileView \<Rightarrow> string M" where
  "publicURL aenv file = mapErrA (\<lambda>err. Wrap CodeServiceUnavailable ''resolve public object url'' err [])
     (liftA (ae_ResolveObjectURL aenv (FileView_ObjectRef file)))"

definition presignedURL :: "access_env \<Rightarrow> access_config \<Rightarrow> FileView \<Rightarrow> string M" where
  "presignedURL aenv cfg file = mapErrA (\<lambda>err. Wrap CodeServiceUnavailable ''presign private object'' err [])
     (askA (\<lambda>n. ae_PresignGetObject aenv n (FileView_ObjectRef file) (af_privateTTL cfg)))"

definition access_GetFile :: "access_env \<Rightarrow> access_config \<Rightarrow> GetFileQuery \<Rightarrow> GetFileResult M" where
  "access_GetFile aenv cfg query =
     bindA (liftA (RequireFileRead (gq_Auth query))) (\<lambda>_.
     bindA (FileRead_GetByID (ae_env aenv) (gq_FileID query)) (\<lambda>file.
     bindA (liftA (EnsureReadable (gq_Auth query) file)) (\<lambda>_.
     if af_publicURLEnabled cfg \<and> fv_AccessLevel file = AccessLevelPublic
     then bindA (publicURL aenv file) (\<lambda>url. returnA \<lparr>gr_File = file, gr_DownloadURL = url\<rparr>)
     else returnA \<lparr>gr_File = file, gr_DownloadURL = []\<rparr>)))"

record ResolveDownloadQuery =
  rd_FileID :: string
  rd_Disposition :: string
  rd_Auth :: AuthContext

record ResolveDownloadResult =
  rr_File :: FileView
  rr_URL :: string

definition downloadURL :: "access_env \<Rightarrow> access_config \<Rightarrow> FileView \<Rightarrow> string M" where
  "downloadURL aenv cfg file =
     (if af_publicURLEnabled cfg \<and> fv_AccessLevel file = AccessLevelPublic then publicURL aenv file
      else presignedURL aenv cfg file)"

definition ResolveDownload :: "access_env \<Rightarrow> access_config \<Rightarrow> ResolveDownloadQuery \<Rightarrow> ResolveDownloadResult M" where
  "ResolveDownload aenv cfg query =
     bindA (liftA (RequireFileRead (rd_Auth query))) (\<lambda>_.
     bindA (FileRead_GetByID (ae_env aenv) (rd_FileID query)) (\<lambda>file.
     bindA (liftA (EnsureReadable (rd_Auth query) file)) (\<lambda>_.
     bindA (liftA (NormalizeDisposition (rd_Disposition query))) (\<lambda>disposition.
     bindA (TenantPolicy_GetByTenantID (ae_env aenv) (fv_TenantID file)) (\<lambda>policy.
     bindA (liftA (EnsureAllowed disposition policy)) (\<lambda>_.
     bindA (downloadURL aenv cfg file) (\<lambda>url.
     returnA \<lparr>rr_File = file, rr_URL = url\<rparr>)))))))"

record RedirectByAccessTicketResult =
  ra_File :: FileView
  ra_URL :: string
  ra_Claim :: AccessTicketClaims

definition claim_auth :: "AccessTicketClaims \<Rightarrow> AuthContext" where
  "claim_auth claims = \<lparr>ac_RequestID = [], ac_SubjectID = tc_Subject claims, ac_SubjectType = tc_SubjectType claims,
     ac_TenantID = tc_TenantID claims, ac_ClientID = [], ac_TokenID = [], ac_Scopes = [ScopeFileRead]\<rparr>"

definition RedirectByAccessTicket :: "access_env \<Rightarrow> access_config \<Rightarrow> string \<Rightarrow> RedirectByAccessTicketResult M" where
  "RedirectByAccessTicket aenv cfg ticket =
     bindA (mapErrA (\<lambda>_. ErrAccessTicketInvalid ticket) (liftA (Verify (af_key cfg) ticket))) (\<lambda>claims.
     bindA (mapErrA (\<lambda>_. ErrAccessTicketInvalid ticket) (liftA (AccessTicketClaims_Validate claims))) (\<lambda>_.
     bindA (Now (ae_env aenv)) (\<lambda>now.
     bindA (liftA (failIf (\<not> now < tc_ExpiresAt claims) (ErrAccessTicketExpired ticket))) (\<lambda>_.
     bindA (FileRead_GetByID (ae_env aenv) (tc_FileID claims)) (\<lambda>file.
     bindA (liftA (EnsureReadable (claim_auth claims) file)) (\<lambda>_.
     bindA (mapErrA (\<lambda>_. ErrAccessTicketInvalid ticket) (liftA (NormalizeDisposition (tc_Disposition claims)))) (\<lambda>disposition.
     bindA (TenantPolicy_GetByTenantID (ae_env aenv) (tc_TenantID claims)) (\<lambda>policy.
     bindA (liftA (EnsureAllowed disposition policy)) (\<lambda>_.
     bindA (downloadURL aenv cfg file) (\<lambda>url.
     returnA \<lparr>ra_File = file, ra_URL = url, ra_Claim = claims\<rparr>))))))))))"

end
