(* ===== verification/AccessLaws.thy ===== *)
theory AccessLaws
  imports AccessHandlers AdminLaws
begin

text \<open>
  What an access ticket is worth: it is read back as it was issued, only its issuer can write
  it, and it opens an active file of the tenant it names until it expires.
\<close>

subsection \<open>Tickets\<close>

lemma split_dot_append: "CHR ''.'' \<notin> set p \<Longrightarrow> split_dot (p @ CHR ''.'' # q) = Some (p, q)"
  by (auto simp: split_dot_def takeWhile_append dropWhile_append)

lemma split_dot_Some: "split_dot s = Some (p, q) \<longleftrightarrow> s = p @ ''.'' @ q \<and> CHR ''.'' \<notin> set p"
proof
  assume "split_dot s = Some (p, q)"
  then have mem: "CHR ''.'' \<in> set s" and p: "p = takeWhile (\<lambda>c. c \<noteq> CHR ''.'') s"
    and q: "q = tl (dropWhile (\<lambda>c. c \<noteq> CHR ''.'') s)"
    by (auto simp: split_dot_def split: if_splits)
  from mem have ne: "dropWhile (\<lambda>c. c \<noteq> CHR ''.'') s \<noteq> []" by auto
  then have "dropWhile (\<lambda>c. c \<noteq> CHR ''.'') s = CHR ''.'' # q"
    using hd_dropWhile [OF ne] q by (metis list.collapse)
  then have "s = p @ ''.'' @ q" using takeWhile_dropWhile_id [of "\<lambda>c. c \<noteq> CHR ''.''" s] p by simp
  moreover have "CHR ''.'' \<notin> set p" using p set_takeWhileD by fastforce
  ultimately show "s = p @ ''.'' @ q \<and> CHR ''.'' \<notin> set p" by simp
qed (auto simp: split_dot_append)

lemma sign_ne: "sign key p \<noteq> []" "TrimSpace (sign key p) \<noteq> []"
proof -
  have "hmac_sha256 key p \<noteq> []" using length_hmac [of key p] by (metis list.size(3) zero_neq_numeral)
  then show "sign key p \<noteq> []" "TrimSpace (sign key p) \<noteq> []" by (simp_all add: sign_def TrimSpace_b64_text)
qed

text \<open>A ticket is accepted exactly when it is a payload and its signature, and the payload is read.\<close>

lemma Verify_iff:
  "Verify key ticket = Inr c \<longleftrightarrow> (\<exists>p raw ms. TrimSpace ticket = ticketPrefix @ p @ ''.'' @ sign key p \<and>
     CHR ''.'' \<notin> set p \<and> TrimSpace p \<noteq> [] \<and> b64_DecodeString p = Some raw \<and> json_document raw = Some ms \<and>
     decode_claims ms = Some c)" (is "?l \<longleftrightarrow> ?r")
proof
  assume ?l
  then obtain p0 p1 raw ms where *: "is_prefix ticketPrefix (TrimSpace ticket)"
    "split_dot (drop (length ticketPrefix) (TrimSpace ticket)) = Some (p0, p1)" "TrimSpace p0 \<noteq> []"
    "sign key p0 = p1" "b64_DecodeString p0 = Some raw" "json_document raw = Some ms" "decode_claims ms = Some c"
    by (auto simp: Verify_def Let_def bindE_Inr_iff split: option.splits prod.splits)
  then obtain t where "TrimSpace ticket = ticketPrefix @ t" "t = p0 @ ''.'' @ p1" "CHR ''.'' \<notin> set p0"
    by (auto simp: is_prefix_iff split_dot_Some)
  with * show ?r by blast
next
  assume ?r
  then obtain p raw ms where *: "TrimSpace ticket = ticketPrefix @ p @ CHR ''.'' # sign key p" "CHR ''.'' \<notin> set p"
    "TrimSpace p \<noteq> []" "b64_DecodeString p = Some raw" "json_document raw = Some ms" "decode_claims ms = Some c"
    by auto
  then show ?l
    unfolding Verify_def Let_def * (1) by (simp add: is_prefix_append split_dot_append sign_ne)
qed

lemma Verify_Issue:
  assumes "Issue key c = Inr ticket"
    and utf8: "\<forall>s \<in> {tc_FileID c, tc_TenantID c, tc_Subject c, tc_SubjectType c, tc_Disposition c, tc_ResponseName c}. ValidString s"
    and range: "- (2 ^ 63) \<le> Unix (tc_ExpiresAt c)" "Unix (tc_ExpiresAt c) < 2 ^ 63"
  shows "Verify key ticket = Inr (c\<lparr>tc_ExpiresAt := time_Unix (Unix (tc_ExpiresAt c))\<rparr>)"
proof -
  define raw where "raw = json_render (signedClaims c)"
  let ?p = "b64_EncodeToString raw"
  from assms(1) have t: "ticket = ticketPrefix @ ?p @ ''.'' @ sign key ?p"
    by (simp add: Issue_def raw_def bindE_Inr_iff Let_def)
  have wf: "wf_json (signedClaims c) \<and> json_depth (signedClaims c) = 1" using utf8 by (intro signedClaims_wf) auto
  obtain ms where ms: "signedClaims c = JObj ms" by (simp add: signedClaims_def)
  have doc: "json_document raw = Some ms"
    using json_round_trip [of "signedClaims c"] wf by (simp add: json_document_def raw_def ms)
  have "raw \<noteq> []" by (simp add: raw_def ms)
  then have "TrimSpace ?p \<noteq> []" by (simp add: TrimSpace_b64_text)
  moreover have "CHR ''.'' \<notin> set ?p" using b64_text_graphic by blast
  moreover have "TrimSpace ticket = ticket"
    using sign_ne(1) [of key ?p] b64_text_graphic [OF last_in_set, of "hmac_sha256 key ?p"] unfolding t
    by (intro TrimSpace_graphic) (auto simp: ticketPrefix_def graphic_def sign_def)
  ultimately show ?thesis
    using t doc decode_claims_signed [OF range ms] b64_round_trip [of raw] by (auto simp: Verify_iff)
qed

text \<open>
  Claim C31. A ticket is read back as the claims it was issued for; only the expiry loses its
  fraction of a second, so a ticket never lives longer than it was issued for and at most one
  second less.
\<close>

theorem ticket_round_trip:
  assumes "Issue key c = Inr ticket"
    and "\<forall>s \<in> {tc_FileID c, tc_TenantID c, tc_Subject c, tc_SubjectType c, tc_Disposition c, tc_ResponseName c}. ValidString s"
    and "- (2 ^ 63) \<le> Unix (tc_ExpiresAt c)" and "Unix (tc_ExpiresAt c) < 2 ^ 63"
  shows "\<exists>e. Verify key ticket = Inr (c\<lparr>tc_ExpiresAt := e\<rparr>) \<and> e \<le> tc_ExpiresAt c \<and> tc_ExpiresAt c < e + second"
  using Verify_Issue [OF assms] time_Unix_Unix [of "tc_ExpiresAt c"] by blast

definition sampleClaims :: AccessTicketClaims where
  "sampleClaims = \<lparr>tc_FileID = ''f1'', tc_TenantID = ''t1'', tc_Subject = ''u1'', tc_SubjectType = ''USER'',
     tc_Disposition = ''inline'', tc_ResponseName = [], tc_ExpiresAt = unix_epoch + 90 * second + 5\<rparr>"

lemma sampleClaims_ok:
  "\<forall>s \<in> {tc_FileID sampleClaims, tc_TenantID sampleClaims, tc_Subject sampleClaims, tc_SubjectType sampleClaims,
      tc_Disposition sampleClaims, tc_ResponseName sampleClaims}. ValidString s"
  "Unix (tc_ExpiresAt sampleClaims) = 90" "AccessTicketClaims_Validate sampleClaims = Inr ()"
proof -
  show "\<forall>s \<in> {tc_FileID sampleClaims, tc_TenantID sampleClaims, tc_Subject sampleClaims, tc_SubjectType sampleClaims,
      tc_Disposition sampleClaims, tc_ResponseName sampleClaims}. ValidString s"
    by (auto simp: sampleClaims_def intro!: ValidString_ascii)
  show "Unix (tc_ExpiresAt sampleClaims) = 90" "AccessTicketClaims_Validate sampleClaims = Inr ()" by code_simp+
qed

theorem ticket_round_trip_witness:
  "\<exists>ticket e. Issue ''k'' sampleClaims = Inr ticket \<and> Verify ''k'' ticket = Inr (sampleClaims\<lparr>tc_ExpiresAt := e\<rparr>)"
proof -
  obtain ticket where t: "Issue ''k'' sampleClaims = Inr ticket"
    using sampleClaims_ok(3) by (simp add: Issue_def Let_def)
  with ticket_round_trip [OF t sampleClaims_ok(1)] sampleClaims_ok(2) show ?thesis by auto
qed

text \<open>
  A ticket is accepted exactly when, white space around it removed, it is the prefix,
  a payload, a dot and the payload's signature under the service's key, and the payload holds
  claims; whatever is sent, the claims the service acts on are under a signature of its key.
\<close>

theorem ticket_integrity:
  "Verify key ticket = Inr c \<longleftrightarrow> (\<exists>p raw ms. TrimSpace ticket = ticketPrefix @ p @ ''.'' @ sign key p \<and>
     CHR ''.'' \<notin> set p \<and> TrimSpace p \<noteq> [] \<and> b64_DecodeString p = Some raw \<and> json_document raw = Some ms \<and>
     decode_claims ms = Some c)"
  by (rule Verify_iff)


subsection \<open>Redeeming a ticket\<close>

lemmas run_Inr = run_action_Inr Now_Inr

lemma FileRead_Inr:
  "FileRead_GetByID env i w = (Inr f, w') \<longleftrightarrow> e_db_fault env (w_tick w) = None \<and> w' = tick w \<and>
     (\<exists>row. lookup_row fa_file_id i (file_assets (w_db w)) = Some row \<and> f = file_view_of row)"
  by (auto simp: FileRead_GetByID_def runSQL_Inr tick_def split: option.splits)

lemma TenantPolicy_Inr:
  "TenantPolicy_GetByTenantID env t w = (Inr p, w') \<longleftrightarrow> e_db_fault env (w_tick w) = None \<and> w' = tick w \<and>
     (\<exists>row. lookup_row tp_tenant_id t (tenant_policies (w_db w)) = Some row \<and> p = \<lparr>dp_TenantID = tp_tenant_id row,
        dp_DownloadDisabled = False, dp_InlinePreviewDisabled = False, dp_AttachmentDownloadDisabled = False\<rparr>)"
  by (auto simp: TenantPolicy_GetByTenantID_def runSQL_Inr tick_def split: option.splits)

lemma EnsureReadable_Inr: "EnsureReadable auth f = Inr u \<longleftrightarrow> fv_Status f = FileStatusActive \<and> fv_TenantID f = ac_TenantID auth"
  by (auto simp: EnsureReadable_def)

lemma RequireFileRead_Inr:
  "RequireFileRead a = Inr u \<longleftrightarrow> ac_SubjectID a \<noteq> [] \<and> ac_TenantID a \<noteq> [] \<and> ScopeFileRead \<in> set (ac_Scopes a)"
  by (simp add: RequireFileRead_def)

lemma EnsureAllowed_open:
  "EnsureAllowed d \<lparr>dp_TenantID = t, dp_DownloadDisabled = False, dp_InlinePreviewDisabled = False,
     dp_AttachmentDownloadDisabled = False\<rparr> = Inr ()"
  by (simp add: EnsureAllowed_def)

lemma file_view_of_simps [simp]:
  "fv_FileID (file_view_of r) = fa_file_id r" "fv_TenantID (file_view_of r) = fa_tenant_id r"
  "fv_Status (file_view_of r) = fa_status r" "fv_AccessLevel (file_view_of r) = fa_access_level r"
  by (simp_all add: file_view_of_def)

text \<open>The URL of a download: the public one for public files when it is enabled, else a presigned one.\<close>

definition url_of_file :: "access_env \<Rightarrow> access_config \<Rightarrow> nat \<Rightarrow> FileView \<Rightarrow> string result" where
  "url_of_file aenv cfg n f =
     (if af_publicURLEnabled cfg \<and> fv_AccessLevel f = AccessLevelPublic then ae_ResolveObjectURL aenv (FileView_ObjectRef f)
      else ae_PresignGetObject aenv n (FileView_ObjectRef f) (af_privateTTL cfg))"

lemma downloadURL_Inr:
  assumes "downloadURL aenv cfg f w = (Inr url, w')"
  shows "url_of_file aenv cfg (w_tick w) f = Inr url \<and> w_db w' = w_db w \<and> w_calls w' = w_calls w"
  using assms by (auto simp: downloadURL_def url_of_file_def publicURL_def presignedURL_def askA_iff split: if_splits)

lemma downloadURL_run:
  assumes "url_of_file aenv cfg (w_tick w) f = Inr url"
  shows "\<exists>w'. downloadURL aenv cfg f w = (Inr url, w')"
  using assms by (auto simp: downloadURL_def url_of_file_def publicURL_def presignedURL_def askA_iff split: if_splits)

text \<open>
  Claim C32. Whoever presents a ticket is redirected only with claims that the service signed and
  that have not expired, to the file the claims name, which is active and belongs to the tenant
  of the claims; the URL is that file's, and neither the database nor the storage is changed.
\<close>

theorem redirect_opens_what_the_ticket_names:
  assumes "RedirectByAccessTicket aenv cfg ticket w = (Inr r, w')"
  shows "Verify (af_key cfg) ticket = Inr (ra_Claim r) \<and>
    e_now (ae_env aenv) (w_tick w) < tc_ExpiresAt (ra_Claim r) \<and>
    (\<exists>row. lookup_row fa_file_id (tc_FileID (ra_Claim r)) (file_assets (w_db w)) = Some row \<and>
       fa_status row = FileStatusActive \<and> fa_tenant_id row = tc_TenantID (ra_Claim r) \<and> ra_File r = file_view_of row) \<and>
    (\<exists>n. url_of_file aenv cfg n (ra_File r) = Inr (ra_URL r)) \<and> w_db w' = w_db w \<and> w_calls w' = w_calls w"
proof -
  let ?env = "ae_env aenv"
  from assms obtain c f d policy url w1 w2 w3 where
      *: "Verify (af_key cfg) ticket = Inr c" "e_now ?env (w_tick w) < tc_ExpiresAt c" "w1 = tick w"
      "FileRead_GetByID ?env (tc_FileID c) w1 = (Inr f, w2)" "EnsureReadable (claim_auth c) f = Inr ()"
      "TenantPolicy_GetByTenantID ?env (tc_TenantID c) w2 = (Inr policy, w3)" "EnsureAllowed d policy = Inr ()"
      "downloadURL aenv cfg f w3 = (Inr url, w')" "r = \<lparr>ra_File = f, ra_URL = url, ra_Claim = c\<rparr>"
    by (auto simp: RedirectByAccessTicket_def run_Inr simp del: liftA_iff)
  with downloadURL_Inr [OF *(8)] show ?thesis
    by (auto simp: FileRead_Inr TenantPolicy_Inr EnsureReadable_Inr claim_auth_def tick_def)
qed

text \<open>
  A ticket the issuer does not accept is answered with ACCESS\_TICKET\_INVALID before
  the clock or the database is consulted, and one that has expired, at its last instant already,
  with ACCESS\_TICKET\_EXPIRED before the database is.
\<close>

theorem redirect_refuses:
  "(\<forall>e. Verify (af_key cfg) ticket = Inl e \<longrightarrow>
      RedirectByAccessTicket aenv cfg ticket w = (Inl (ErrAccessTicketInvalid ticket), w)) \<and>
   (\<forall>c. Verify (af_key cfg) ticket = Inr c \<longrightarrow> AccessTicketClaims_Validate c = Inr () \<longrightarrow>
      tc_ExpiresAt c \<le> e_now (ae_env aenv) (w_tick w) \<longrightarrow>
      RedirectByAccessTicket aenv cfg ticket w = (Inl (ErrAccessTicketExpired ticket), tick w))"
  by (simp add: RedirectByAccessTicket_def mapErrA_def bindA_def Now_def askA_def tick_def liftA_def)

lemma NormalizeDisposition_idem: "NormalizeDisposition d = Inr d' \<Longrightarrow> NormalizeDisposition d' = Inr d'"
  by (auto simp: NormalizeDisposition_def TrimSpace_graphic graphic_def disposition_defs split: if_splits)

lemma NormalizeDisposition_valid: "NormalizeDisposition d = Inr d' \<Longrightarrow> ValidString d'"
proof -
  assume "NormalizeDisposition d = Inr d'"
  then have "d' \<in> {''inline'', ''attachment''}" by (auto simp: NormalizeDisposition_def disposition_defs split: if_splits)
  then show ?thesis by (auto intro!: ValidString_ascii)
qed

lemma redirect_succeeds:
  assumes v: "Verify (af_key cfg) ticket = Inr c" "AccessTicketClaims_Validate c = Inr ()"
    and d: "NormalizeDisposition (tc_Disposition c) = Inr d"
    and clock: "e_now (ae_env aenv) (w_tick w) < tc_ExpiresAt c"
    and db: "\<And>n. e_db_fault (ae_env aenv) n = None"
    and row: "lookup_row fa_file_id (tc_FileID c) (file_assets (w_db w)) = Some row"
      "fa_status row = FileStatusActive" "fa_tenant_id row = tc_TenantID c"
    and policy: "lookup_row tp_tenant_id (tc_TenantID c) (tenant_policies (w_db w)) = Some prow"
    and url: "\<And>n. url_of_file aenv cfg n (file_view_of row) = Inr url"
  shows "\<exists>w'. RedirectByAccessTicket aenv cfg ticket w = (Inr \<lparr>ra_File = file_view_of row, ra_URL = url, ra_Claim = c\<rparr>, w')"
proof -
  define w1 where "w1 = tick w"
  define w2 where "w2 = tick w1"
  define w3 where "w3 = tick w2"
  have db1: "w_db w1 = w_db w" "w_db w2 = w_db w" by (simp_all add: w1_def w2_def tick_def)
  have now: "Now (ae_env aenv) w = (Inr (e_now (ae_env aenv) (w_tick w)), w1)" by (simp add: Now_Inr w1_def)
  have found: "FileRead_GetByID (ae_env aenv) (tc_FileID c) w1 = (Inr (file_view_of row), w2)"
    using db row by (simp add: FileRead_Inr db1 w2_def)
  have pol: "\<exists>p. TenantPolicy_GetByTenantID (ae_env aenv) (tc_TenantID c) w2 = (Inr p, w3) \<and> EnsureAllowed d p = Inr ()"
    using db policy by (simp add: TenantPolicy_Inr db1 w3_def EnsureAllowed_open)
  have read: "EnsureReadable (claim_auth c) (file_view_of row) = Inr ()" using row by (simp add: EnsureReadable_Inr claim_auth_def)
  obtain w' where "downloadURL aenv cfg (file_view_of row) w3 = (Inr url, w')" using downloadURL_run url by blast
  with v d clock now found pol read show ?thesis
    unfolding RedirectByAccessTicket_def by (force simp: bindA_Inr_iff)
qed

subsection \<open>Reading files\<close>

text \<open>
  A caller that is answered by the queries of the access service holds the read scope
  and belongs to the file's tenant, and the file is active; the queries change nothing.
\<close>

theorem reads_only_active_files_of_the_tenant:
  assumes "access_GetFile aenv cfg q w = (Inr g, w') \<and> f = gr_File g \<and> auth = gq_Auth q \<and> i = gq_FileID q \<or>
    ResolveDownload aenv cfg d w = (Inr r, w') \<and> f = rr_File r \<and> auth = rd_Auth d \<and> i = rd_FileID d"
  shows "ac_SubjectID auth \<noteq> [] \<and> ScopeFileRead \<in> set (ac_Scopes auth) \<and> fv_Status f = FileStatusActive \<and>
    fv_TenantID f = ac_TenantID auth \<and>
    (\<exists>row. lookup_row fa_file_id i (file_assets (w_db w)) = Some row \<and> f = file_view_of row) \<and>
    w_db w' = w_db w \<and> w_calls w' = w_calls w"
  using assms
proof
  assume *: "access_GetFile aenv cfg q w = (Inr g, w') \<and> f = gr_File g \<and> auth = gq_Auth q \<and> i = gq_FileID q"
  then obtain w1 where "RequireFileRead auth = Inr ()" "FileRead_GetByID (ae_env aenv) i w = (Inr f, w1)"
      "EnsureReadable auth f = Inr ()" "w' = w1"
    by (auto simp: access_GetFile_def publicURL_def run_Inr simp del: liftA_iff split: if_splits)
  then show ?thesis by (auto simp: RequireFileRead_Inr FileRead_Inr EnsureReadable_Inr tick_def)
next
  assume *: "ResolveDownload aenv cfg d w = (Inr r, w') \<and> f = rr_File r \<and> auth = rd_Auth d \<and> i = rd_FileID d"
  then obtain w1 w2 p url where "RequireFileRead auth = Inr ()" "FileRead_GetByID (ae_env aenv) i w = (Inr f, w1)"
      "EnsureReadable auth f = Inr ()" "TenantPolicy_GetByTenantID (ae_env aenv) (fv_TenantID f) w1 = (Inr p, w2)"
      "downloadURL aenv cfg f w2 = (Inr url, w')"
    by (auto simp: ResolveDownload_def run_Inr simp del: liftA_iff)
  with downloadURL_Inr [OF this(5)] show ?thesis
    by (auto simp: RequireFileRead_Inr FileRead_Inr TenantPolicy_Inr EnsureReadable_Inr tick_def)
qed

text \<open>
  The reader of tenant policies selects only the tenant's id: every policy it returns allows
  every download, whatever the switches of the policy were meant to say.
\<close>

lemma policy_switches_never_loaded:
  "TenantPolicy_GetByTenantID env t w = (Inr p, w') \<Longrightarrow> EnsureAllowed d p = Inr ()"
  by (auto simp: TenantPolicy_Inr EnsureAllowed_open)

subsection \<open>Asking for a ticket\<close>

lemma onWorld_Inr: "onWorld m s = (Inr x, s') \<longleftrightarrow> (\<exists>w'. m (aw_world s) = (Inr x, w') \<and> s' = s\<lparr>aw_world := w'\<rparr>)"
  by (auto simp: onWorld_def split: prod.splits)

lemma issueTicket_Inr:
  assumes "issueTicket env h command d ttl s = (Inr res, s')"
  shows "\<exists>row now. lookup_row fa_file_id (ct_FileID command) (file_assets (w_db (aw_world s))) = Some row \<and>
    fa_status row = FileStatusActive \<and> fa_tenant_id row = ac_TenantID (ct_Auth command) \<and>
    cr_ExpiresAt res = now + ttl \<and> Issue (ch_key h) (issue_claims command d (file_view_of row) (now + ttl)) = Inr (cr_Ticket res) \<and>
    cr_RedirectURL res = buildRedirectURL (ch_redirectBasePath h) (cr_Ticket res) \<and>
    aw_store s' = aw_store s \<and> w_db (aw_world s') = w_db (aw_world s) \<and> w_calls (aw_world s') = w_calls (aw_world s)"
proof -
  from assms obtain f now w1 w2 policy where
      *: "FileRead_GetByID env (ct_FileID command) (aw_world s) = (Inr f, w1)" "EnsureReadable (ct_Auth command) f = Inr ()"
      "TenantPolicy_GetByTenantID env (fv_TenantID f) w1 = (Inr policy, w2)"
      "Issue (ch_key h) (issue_claims command d f (now + ttl)) = Inr (cr_Ticket res)" "cr_ExpiresAt res = now + ttl"
      "cr_RedirectURL res = buildRedirectURL (ch_redirectBasePath h) (cr_Ticket res)" "s' = s\<lparr>aw_world := tick w2\<rparr>"
    by (auto simp: issueTicket_def run_Inr onWorld_Inr Let_def simp del: liftA_iff)
  then show ?thesis by (auto simp: FileRead_Inr TenantPolicy_Inr EnsureReadable_Inr tick_def)
qed

lemma issueTicket_run:
  assumes db: "\<And>n. e_db_fault env n = None"
    and row: "lookup_row fa_file_id (ct_FileID command) (file_assets (w_db (aw_world s))) = Some row"
      "fa_status row = FileStatusActive" "fa_tenant_id row = ac_TenantID (ct_Auth command)"
    and policy: "lookup_row tp_tenant_id (ac_TenantID (ct_Auth command)) (tenant_policies (w_db (aw_world s))) = Some prow"
    and e: "e = e_now env (Suc (Suc (w_tick (aw_world s)))) + ttl"
    and i: "Issue (ch_key h) (issue_claims command d (file_view_of row) e) = Inr t"
  shows "issueTicket env h command d ttl s =
    (Inr \<lparr>cr_Ticket = t, cr_RedirectURL = buildRedirectURL (ch_redirectBasePath h) t, cr_ExpiresAt = e\<rparr>,
     s\<lparr>aw_world := tick (tick (tick (aw_world s)))\<rparr>)"
proof -
  let ?c = "issue_claims command d (file_view_of row) e"
  have v: "AccessTicketClaims_Validate ?c = Inr ()" using i by (auto simp: Issue_def bindE_Inr_iff)
  have "EnsureReadable (ct_Auth command) (file_view_of row) = Inr ()" using row by (simp add: EnsureReadable_Inr)
  then show ?thesis
    unfolding issueTicket_def using v i e
    by (auto simp: bindA_Inr_iff liftA_Inr onWorld_Inr FileRead_Inr TenantPolicy_Inr Now_Inr tick_def EnsureAllowed_open db row
        policy Let_def simp del: liftA_iff intro!: exI)
qed

lemma lookup_row_key: "lookup_row key k rows = Some row \<Longrightarrow> key row = k"
  by (auto simp: lookup_row_def dest: find_Some_filter)



definition sampleAccessEnv :: access_env where
  "sampleAccessEnv = \<lparr>ae_env = sampleEnv\<lparr>e_now := (\<lambda>n. unix_epoch + int n * second)\<rparr>,
     ae_ResolveObjectURL = (\<lambda>ref. Inr ''https://public''), ae_PresignGetObject = (\<lambda>n ref ttl. Inr ''https://private'')\<rparr>"

definition sampleAccessConfig :: access_config where
  "sampleAccessConfig = \<lparr>af_key = ''k'', af_privateTTL = minute, af_publicURLEnabled = True\<rparr>"

definition sampleCreate :: CreateAccessTicketCommand where
  "sampleCreate = \<lparr>ct_FileID = ''f1'', ct_IdempotencyKey = [], ct_ExpiresIn = 0, ct_Disposition = [], ct_ResponseName = [],
     ct_Auth = \<lparr>ac_RequestID = [], ac_SubjectID = ''u1'', ac_SubjectType = ''USER'', ac_TenantID = ''t1'', ac_ClientID = [],
       ac_TokenID = [], ac_Scopes = [''file:read'']\<rparr>\<rparr>"

definition sampleTicketHandler :: "memory CreateAccessTicketHandler" where
  "sampleTicketHandler = \<lparr>ch_key = ''k'', ch_store = Some (NewMemoryStore (ae_env sampleAccessEnv)), ch_defaultTTL = minute,
     ch_redirectBasePath = []\<rparr>"

abbreviation sampleAccessWorld :: "memory access_world" where
  "sampleAccessWorld \<equiv> \<lparr>aw_world = sampleFileWorld, aw_store = Map.empty\<rparr>"

lemmas sample_access_defs = sampleAccessEnv_def sampleAccessConfig_def sampleCreate_def sampleTicketHandler_def

text \<open>The run up to the ticket itself, whose signature need not be computed.\<close>

lemma sample_issue:
  "issueTicket (ae_env sampleAccessEnv) sampleTicketHandler (sampleCreate\<lparr>ct_IdempotencyKey := key\<rparr>) ''attachment'' minute
     \<lparr>aw_world = sampleFileWorld, aw_store = st\<rparr> =
     (Inr \<lparr>cr_Ticket = t, cr_RedirectURL = buildRedirectURL [] t, cr_ExpiresAt = unix_epoch + 62 * second\<rparr>,
      \<lparr>aw_world = sampleFileWorld\<lparr>w_tick := 3\<rparr>, aw_store = st\<rparr>)"
  if "t = projr (Issue ''k'' (issue_claims sampleCreate ''attachment'' (file_view_of sampleFile) (unix_epoch + 62 * second)))" for t
proof -
  let ?c = "issue_claims sampleCreate ''attachment'' (file_view_of sampleFile) (unix_epoch + 62 * second)"
  have "AccessTicketClaims_Validate ?c = Inr ()" by code_simp
  then have "Issue ''k'' ?c = Inr t" using that by (simp add: Issue_def Let_def)
  moreover have "issue_claims (sampleCreate\<lparr>ct_IdempotencyKey := key\<rparr>) = issue_claims sampleCreate"
    by (simp add: issue_claims_def fun_eq_iff)
  moreover have "e_now (ae_env sampleAccessEnv) 2 + minute = unix_epoch + 62 * second" by code_simp
  moreover have "lookup_row fa_file_id ''f1'' (file_assets (w_db sampleFileWorld)) = Some sampleFile"
    "lookup_row tp_tenant_id ''t1'' (tenant_policies (w_db sampleFileWorld)) = Some (hd (tenant_policies sampleDB))"
    by code_simp+
  ultimately show ?thesis
    by (subst issueTicket_run [where row = sampleFile and t = t and e = "unix_epoch + 62 * second"])
       (simp_all add: sample_access_defs sampleEnv_def sampleFile_def tick_def sampleFileWorld_def numeral_2_eq_2 numeral_3_eq_3)
qed


lemma sample_rows:
  "lookup_row fa_file_id ''f1'' (file_assets (w_db sampleFileWorld)) = Some sampleFile"
  "lookup_row tp_tenant_id ''t1'' (tenant_policies (w_db sampleFileWorld)) = Some (hd (tenant_policies sampleDB))"
  "fa_status sampleFile = FileStatusActive" "fa_tenant_id sampleFile = ''t1''"
  "url_of_file sampleAccessEnv sampleAccessConfig n (file_view_of sampleFile) = Inr ''https://private''"
  "e_db_fault (ae_env sampleAccessEnv) n = None" "e_now (ae_env sampleAccessEnv) (w_tick sampleFileWorld) = unix_epoch"
proof -
  show "lookup_row fa_file_id ''f1'' (file_assets (w_db sampleFileWorld)) = Some sampleFile"
    "lookup_row tp_tenant_id ''t1'' (tenant_policies (w_db sampleFileWorld)) = Some (hd (tenant_policies sampleDB))"
    "e_now (ae_env sampleAccessEnv) (w_tick sampleFileWorld) = unix_epoch"
    by code_simp+
qed (simp_all add: sampleFile_def sample_access_defs url_of_file_def sampleEnv_def)

theorem redirect_opens_what_the_ticket_names_witness:
  "\<exists>ticket r w'. RedirectByAccessTicket sampleAccessEnv sampleAccessConfig ticket sampleFileWorld = (Inr r, w') \<and>
     tc_FileID (ra_Claim r) = ''f1'' \<and> w_db w' = w_db sampleFileWorld"
proof -
  define e where "e = time_Unix (Unix (tc_ExpiresAt sampleClaims))"
  obtain ticket where "Issue ''k'' sampleClaims = Inr ticket" using sampleClaims_ok(3) by (simp add: Issue_def Let_def)
  from Verify_Issue [OF this sampleClaims_ok(1)] sampleClaims_ok(2)
  have v: "Verify (af_key sampleAccessConfig) ticket = Inr (sampleClaims\<lparr>tc_ExpiresAt := e\<rparr>)"
    by (simp add: sampleAccessConfig_def e_def)
  have e: "e = unix_epoch + 90 * second" by (simp add: e_def sampleClaims_ok(2) time_Unix_def)
  have "AccessTicketClaims_Validate (sampleClaims\<lparr>tc_ExpiresAt := e\<rparr>) = Inr ()" unfolding e by code_simp
  moreover have "NormalizeDisposition (tc_Disposition sampleClaims) = Inr ''inline''" by code_simp
  ultimately obtain w' where run:
    "RedirectByAccessTicket sampleAccessEnv sampleAccessConfig ticket sampleFileWorld =
       (Inr \<lparr>ra_File = file_view_of sampleFile, ra_URL = ''https://private'', ra_Claim = sampleClaims\<lparr>tc_ExpiresAt := e\<rparr>\<rparr>, w')"
    using redirect_succeeds [OF v, of "''inline''" sampleAccessEnv sampleFileWorld sampleFile "hd (tenant_policies sampleDB)" "''https://private''"] sample_rows
    by (auto simp: e sampleClaims_def duration_defs)
  have "w_db w' = w_db sampleFileWorld" using redirect_opens_what_the_ticket_names [OF run] by blast
  moreover have "tc_FileID (sampleClaims\<lparr>tc_ExpiresAt := e\<rparr>) = ''f1''" by (simp add: sampleClaims_def)
  ultimately show ?thesis using run by (metis RedirectByAccessTicketResult.select_convs(3))
qed

lemma sample_read:
  "access_GetFile sampleAccessEnv sampleAccessConfig \<lparr>gq_FileID = ''f1'', gq_Auth = ct_Auth sampleCreate\<rparr> sampleFileWorld =
     (Inr \<lparr>gr_File = file_view_of sampleFile, gr_DownloadURL = []\<rparr>, tick sampleFileWorld)"
proof -
  have "RequireFileRead (ct_Auth sampleCreate) = Inr ()" "EnsureReadable (ct_Auth sampleCreate) (file_view_of sampleFile) = Inr ()"
    by code_simp+
  moreover have "FileRead_GetByID (ae_env sampleAccessEnv) ''f1'' sampleFileWorld = (Inr (file_view_of sampleFile), tick sampleFileWorld)"
    using sample_rows by (simp add: FileRead_Inr)
  moreover have "fv_AccessLevel (file_view_of sampleFile) \<noteq> AccessLevelPublic" by (simp add: sampleFile_def)
  ultimately show ?thesis by (simp add: access_GetFile_def bindA_run)
qed

theorem reads_only_active_files_of_the_tenant_witness:
  "fst (access_GetFile sampleAccessEnv sampleAccessConfig \<lparr>gq_FileID = ''f1'', gq_Auth = ct_Auth sampleCreate\<rparr> sampleFileWorld) =
     Inr \<lparr>gr_File = file_view_of sampleFile, gr_DownloadURL = []\<rparr> \<and> fv_TenantID (file_view_of sampleFile) = ''t1''"
proof
  have "ac_TenantID (ct_Auth sampleCreate) = ''t1''" by (simp add: sampleCreate_def)
  then show "fv_TenantID (file_view_of sampleFile) = ''t1''"
    using reads_only_active_files_of_the_tenant [where q = "\<lparr>gq_FileID = ''f1'', gq_Auth = ct_Auth sampleCreate\<rparr>", OF disjI1,
        OF conjI, OF sample_read, OF conjI, OF refl, OF conjI, OF refl refl] by simp
qed (simp add: sample_read)

theorem redirect_refuses_witness:
  "RedirectByAccessTicket sampleAccessEnv sampleAccessConfig ''at_x'' sampleFileWorld =
     (Inl (ErrAccessTicketInvalid ''at_x''), sampleFileWorld)"
proof -
  have "split_dot ''x'' = None" by (simp add: split_dot_def)
  then have "Verify ''k'' ''at_x'' = Inl (Sentinel ''invalid ticket format'')"
    by (simp add: Verify_def Let_def TrimSpace_graphic graphic_def ticketPrefix_def)
  with redirect_refuses [of sampleAccessConfig "''at_x''"] show ?thesis by (simp add: sampleAccessConfig_def)
qed

lemma sample_create:
  "CreateAccessTicket (ae_env sampleAccessEnv) sampleTicketHandler sampleCreate sampleAccessWorld =
     issueTicket (ae_env sampleAccessEnv) sampleTicketHandler (sampleCreate\<lparr>ct_IdempotencyKey := []\<rparr>) ''attachment'' minute sampleAccessWorld"
proof -
  have "RequireFileRead (ct_Auth sampleCreate) = Inr ()" "NormalizeDisposition (ct_Disposition sampleCreate) = Inr ''attachment''"
    by code_simp+
  then show ?thesis by (simp add: CreateAccessTicket_def Let_def sampleTicketHandler_def sampleCreate_def)
qed


end
