(* ===== verification/IdempotencyLaws.thy ===== *)
theory IdempotencyLaws
  imports AccessLaws
begin

text \<open>
  Asking again for a ticket with the same idempotency key gives the same ticket. The contract of
  the store is a locale; the store in memory is an interpretation of it, and the store on Redis
  one for every client that keeps Redis's own contract.
\<close>

subsection \<open>The idempotency store\<close>

text \<open>The record of a result, and the key and the fingerprint a request has in the store.\<close>

definition ticket_record :: "string \<Rightarrow> CreateAccessTicketResult \<Rightarrow> AccessTicketIssueRecord" where
  "ticket_record fp res = \<lparr>ir_Fingerprint = fp, ir_Ticket = cr_Ticket res, ir_RedirectURL = cr_RedirectURL res,
     ir_ExpiresAt = cr_ExpiresAt res\<rparr>"

definition request_key :: "CreateAccessTicketCommand \<Rightarrow> string" where
  "request_key command = buildIdempotencyStorageKey (ct_Auth command) (ct_FileID command) (TrimSpace (ct_IdempotencyKey command))"

definition request_ttl :: "'r CreateAccessTicketHandler \<Rightarrow> CreateAccessTicketCommand \<Rightarrow> duration" where
  "request_ttl h command = (if ct_ExpiresIn command = 0 then ch_defaultTTL h else ct_ExpiresIn command)"

definition request_fingerprint :: "'r CreateAccessTicketHandler \<Rightarrow> CreateAccessTicketCommand \<Rightarrow> string" where
  "request_fingerprint h command = buildIdempotencyFingerprint (ct_FileID command) (ct_Auth command)
     (projr (NormalizeDisposition (ct_Disposition command))) (ct_ResponseName command)
     (request_ttl h command)"

text \<open>The checks a request passes before the store is asked.\<close>

definition wellformed_request :: "CreateAccessTicketCommand \<Rightarrow> bool" where
  "wellformed_request command \<longleftrightarrow> RequireFileRead (ct_Auth command) = Inr () \<and> 0 \<le> ct_ExpiresIn command \<and>
     TrimSpace (ct_IdempotencyKey command) \<noteq> [] \<and> length (TrimSpace (ct_IdempotencyKey command)) \<le> 128 \<and>
     \<not> isl (NormalizeDisposition (ct_Disposition command))"

lemma resolve_Inr: "resolveExistingIdempotentResult r fp = Inr res \<longleftrightarrow> r = ticket_record fp res"
  by (cases r; cases res) (auto simp: resolveExistingIdempotentResult_def ticket_record_def)

lemma create_wellformed:
  assumes "wellformed_request command" and "ch_store h = Some store"
  shows "CreateAccessTicket env h command =
    bindA (mapErrA (\<lambda>err. Wrap CodeServiceUnavailable ''load access ticket idempotency record'' err [])
      (is_Get store (request_key command))) (\<lambda>existing.
    case existing of
      Some r \<Rightarrow> liftA (resolveExistingIdempotentResult r (request_fingerprint h command))
    | None \<Rightarrow>
        bindA (issueTicket env h command (projr (NormalizeDisposition (ct_Disposition command)))
          (request_ttl h command)) (\<lambda>result.
        recordTicket store (request_key command) (request_fingerprint h command)
          (request_ttl h command) result))"
proof -
  from assms obtain d where d: "NormalizeDisposition (ct_Disposition command) = Inr d"
    by (auto simp: wellformed_request_def dest: not_isl_Inr)
  show ?thesis
    unfolding CreateAccessTicket_def Let_def request_key_def request_fingerprint_def request_ttl_def d sum.sel
    using assms by (simp add: wellformed_request_def failIf_def)
qed

lemma create_needs_wellformed:
  assumes "CreateAccessTicket env h command s = (Inr res, s')" and "TrimSpace (ct_IdempotencyKey command) \<noteq> []"
  shows "wellformed_request command"
  using assms by (auto simp: CreateAccessTicket_def Let_def run_Inr wellformed_request_def not_less simp del: liftA_iff)

text \<open>
  What the handler relies on. \<open>entry s k\<close> is the record under the key \<open>k\<close> with the moment it
  ends, \<open>clock s\<close> the time at which the next call looks, and \<open>up s\<close> that it is answered; a store
  may refuse records that it cannot write (\<open>storable\<close>).
\<close>

locale idempotency_store =
  fixes store :: "'r idem_store"
    and entry :: "'r access_world \<Rightarrow> string \<Rightarrow> (AccessTicketIssueRecord \<times> time) option"
    and clock :: "'r access_world \<Rightarrow> time"
    and up :: "'r access_world \<Rightarrow> bool"
    and storable :: "AccessTicketIssueRecord \<Rightarrow> bool"
  assumes get_Some: "is_Get store k s = (Inr (Some r), s') \<Longrightarrow> \<exists>e. entry s k = Some (r, e) \<and> clock s < e \<and> entry s' k = Some (r, e)"
    and get_live: "entry s k = Some (r, e) \<Longrightarrow> clock s < e \<Longrightarrow> up s \<Longrightarrow> \<exists>s'. is_Get store k s = (Inr (Some r), s')"
    and put_stored: "is_PutIfAbsent store k r ttl s = (Inr True, s') \<Longrightarrow> storable r \<Longrightarrow> \<exists>e. entry s' k = Some (r, e)"
    and put_live: "entry s k = Some (r, e) \<Longrightarrow> clock s < e \<Longrightarrow> up s \<Longrightarrow> storable r' \<Longrightarrow>
      \<exists>s'. is_PutIfAbsent store k r' ttl s = (Inr False, s') \<and> entry s' k = Some (r, e)"
begin

text \<open>A ticket that is returned under a key is on record.\<close>

lemma recorded:
  assumes run: "recordTicket store k fp ttl issued s = (Inr res, s')" and ok: "storable (ticket_record fp issued)"
  shows "\<exists>e. entry s' k = Some (ticket_record fp res, e)"
proof -
  from run obtain stored s1 where put: "is_PutIfAbsent store k (ticket_record fp issued) ttl s = (Inr stored, s1)"
    and rest: "stored \<and> issued = res \<and> s' = s1 \<or> \<not> stored \<and> (\<exists>r. is_Get store k s1 = (Inr (Some r), s') \<and>
      resolveExistingIdempotentResult r fp = Inr res)"
    by (auto simp: recordTicket_def ticket_record_def run_Inr simp del: liftA_iff split: if_splits option.splits)
  show ?thesis
  proof (cases stored)
    case True
    with put rest put_stored [OF _ ok] show ?thesis by auto
  next
    case False
    with rest have "is_Get store k s1 = (Inr (Some (ticket_record fp res)), s')" by (auto simp: resolve_Inr)
    from get_Some [OF this] show ?thesis by blast
  qed
qed

lemma create_recorded:
  assumes run: "CreateAccessTicket env h command s = (Inr res, s')"
    and key: "TrimSpace (ct_IdempotencyKey command) \<noteq> []" and st: "ch_store h = Some store"
    and ok: "\<And>s1 r s2 d. issueTicket env h command d (request_ttl h command) s1 = (Inr r, s2) \<Longrightarrow> storable (ticket_record (request_fingerprint h command) r)"
  shows "\<exists>e. entry s' (request_key command) = Some (ticket_record (request_fingerprint h command) res, e)"
proof -
  note run' = run [unfolded create_wellformed [OF create_needs_wellformed [OF run key] st]]
  then obtain existing s1 where get: "is_Get store (request_key command) s = (Inr existing, s1)"
    by (auto simp: run_Inr simp del: liftA_iff)
  show ?thesis
  proof (cases existing)
    case None
    with run' get obtain d issued s2 where "issueTicket env h command d (request_ttl h command) s1 = (Inr issued, s2)"
        "recordTicket store (request_key command) (request_fingerprint h command) (request_ttl h command) issued s2 = (Inr res, s')"
      by (auto simp: run_Inr simp del: liftA_iff)
    then show ?thesis using recorded ok by blast
  next
    case (Some r)
    with run' get have "resolveExistingIdempotentResult r (request_fingerprint h command) = Inr res" "s' = s1"
      by (auto simp: run_Inr simp del: liftA_iff)
    with get Some have "is_Get store (request_key command) s = (Inr (Some (ticket_record (request_fingerprint h command) res)), s')"
      by (auto simp: resolve_Inr)
    from get_Some [OF this] show ?thesis by blast
  qed
qed

text \<open>While the record lives, the same request is answered from it, and another one with its key is a conflict.\<close>

lemma create_answered:
  assumes "wellformed_request command" and "ch_store h = Some store"
    and "entry s (request_key command) = Some (r, e)" and "clock s < e" and "up s"
  shows "fst (CreateAccessTicket env h command s) = resolveExistingIdempotentResult r (request_fingerprint h command)"
proof -
  obtain s' where "is_Get store (request_key command) s = (Inr (Some r), s')" using get_live [OF assms(3-5)] by blast
  then show ?thesis by (simp add: create_wellformed [OF assms(1,2)] bindA_def mapErrA_def liftA_def)
qed

text \<open>Of two requests that both found no record, the one that is recorded second returns the first one's ticket.\<close>

lemma record_second:
  assumes live: "entry s k = Some (ticket_record fp winner, e)" "clock s < e" "up s"
    and later: "\<And>s'. is_PutIfAbsent store k (ticket_record fp own) ttl s = (Inr False, s') \<Longrightarrow> clock s' < e \<and> up s'"
    and ok: "storable (ticket_record fp own)"
  shows "fst (recordTicket store k fp ttl own s) = Inr winner"
proof -
  from put_live [OF live ok] obtain s1 where put: "is_PutIfAbsent store k (ticket_record fp own) ttl s = (Inr False, s1)"
    and e1: "entry s1 k = Some (ticket_record fp winner, e)" by blast
  from get_live [OF e1] later [OF put] obtain s2 where get: "is_Get store k s1 = (Inr (Some (ticket_record fp winner)), s2)"
    by blast
  have "resolveExistingIdempotentResult (ticket_record fp winner) fp = Inr winner" by (simp add: resolve_Inr)
  then show ?thesis
    using put get by (simp add: recordTicket_def bindA_def mapErrA_def liftA_def ticket_record_def)
qed

end


subsubsection \<open>In memory\<close>

abbreviation memory_entry :: "memory access_world \<Rightarrow> string \<Rightarrow> (AccessTicketIssueRecord \<times> time) option" where
  "memory_entry s k \<equiv> map_option (\<lambda>r. (mr_record r, mr_expiresAt r)) (aw_store s k)"

abbreviation memory_clock :: "env \<Rightarrow> memory access_world \<Rightarrow> time" where
  "memory_clock env s \<equiv> e_now env (w_tick (aw_world s))"

lemmas memory_run = NewMemoryStore_def MemoryStore_Get_def MemoryStore_PutIfAbsent_def bindA_def onWorld_def onStore_def Now_def
  askA_def Let_def cleanupExpiredLocked_def returnA_def

interpretation memory_store: idempotency_store "NewMemoryStore env" memory_entry "memory_clock env" "\<lambda>_. True" "\<lambda>_. True"
proof unfold_locales
  fix k s r s' ttl e and r' :: AccessTicketIssueRecord
  show "is_Get (NewMemoryStore env) k s = (Inr (Some r), s') \<Longrightarrow>
      \<exists>e. memory_entry s k = Some (r, e) \<and> memory_clock env s < e \<and> memory_entry s' k = Some (r, e)"
    by (auto simp: memory_run split: option.splits if_splits)
  show "memory_entry s k = Some (r, e) \<Longrightarrow> memory_clock env s < e \<Longrightarrow> True \<Longrightarrow>
      \<exists>s'. is_Get (NewMemoryStore env) k s = (Inr (Some r), s')"
    by (auto simp: memory_run)
  show "is_PutIfAbsent (NewMemoryStore env) k r ttl s = (Inr True, s') \<Longrightarrow> True \<Longrightarrow> \<exists>e. memory_entry s' k = Some (r, e)"
    by (auto simp: memory_run split: option.splits if_splits)
  show "memory_entry s k = Some (r, e) \<Longrightarrow> memory_clock env s < e \<Longrightarrow> True \<Longrightarrow> True \<Longrightarrow>
      \<exists>s'. is_PutIfAbsent (NewMemoryStore env) k r' ttl s = (Inr False, s') \<and> memory_entry s' k = Some (r, e)"
    by (auto simp: memory_run)
qed


subsubsection \<open>On Redis\<close>

text \<open>
  What the store relies on of Redis: a key has a value until a moment of the server's clock;
  \<^verbatim>\<open>GET\<close> returns the value that lives, \<^verbatim>\<open>SETNX\<close> sets a value with its expiry exactly when none
  lives; a call that reaches the server is answered.
\<close>

locale redis_kv =
  fixes client :: "'r redis_client"
    and value_of :: "'r \<Rightarrow> string \<Rightarrow> (string \<times> time) option"
    and server :: "nat \<Rightarrow> time"
    and reachable :: "nat \<Rightarrow> bool"
  assumes rc_get: "rc_Get client k n st = (Inr v, st') \<Longrightarrow>
      v = (case value_of st k of Some (x, e) \<Rightarrow> if server n < e then Some x else None | None \<Rightarrow> None) \<and>
      (v \<noteq> None \<longrightarrow> value_of st' k = value_of st k)"
    and rc_setnx: "rc_SetNX client k x ttl n st = (Inr b, st') \<Longrightarrow>
      (if \<exists>y e. value_of st k = Some (y, e) \<and> server n < e then \<not> b \<and> value_of st' k = value_of st k
       else b \<and> value_of st' k = Some (x, server n + ttl))"
    and rc_answers: "reachable n \<Longrightarrow> (\<exists>v st'. rc_Get client k n st = (Inr v, st')) \<and>
      (\<exists>b st'. rc_SetNX client k x ttl n st = (Inr b, st'))"

definition redis_entry :: "('r \<Rightarrow> string \<Rightarrow> (string \<times> time) option) \<Rightarrow> 'r access_world \<Rightarrow> string \<Rightarrow>
    (AccessTicketIssueRecord \<times> time) option" where
  "redis_entry value_of s k = (case value_of (aw_store s) (redisKey k) of None \<Rightarrow> None
     | Some (x, e) \<Rightarrow> map_option (\<lambda>r. (r, e)) (decode_issue_record x))"

definition redis_storable :: "AccessTicketIssueRecord \<Rightarrow> bool" where
  "redis_storable r \<longleftrightarrow> ValidString (ir_Fingerprint r) \<and> ValidString (ir_Ticket r) \<and> ValidString (ir_RedirectURL r) \<and>
     0 \<le> fst (Date (ir_ExpiresAt r)) \<and> fst (Date (ir_ExpiresAt r)) < 10000"

text \<open>A record that can be written is read back as it was, to the nanosecond of its expiry.\<close>

lemma decode_issue_record_json:
  assumes "redis_storable r"
  shows "\<exists>payload. issue_record_json r = Some payload \<and> decode_issue_record (json_render payload) = Some r"
proof -
  let ?t = "rfc3339_text (ir_ExpiresAt r)"
  define ms where "ms = [(''Fingerprint'', JStr (ir_Fingerprint r)), (''Ticket'', JStr (ir_Ticket r)),
    (''RedirectURL'', JStr (ir_RedirectURL r)), (''ExpiresAt'', JStr ?t)]"
  have names: "ValidString s" if "s \<in> set [''Fingerprint'', ''Ticket'', ''RedirectURL'', ''ExpiresAt'']" for s
    using that by (intro ValidString_ascii) auto
  have json: "issue_record_json r = Some (JObj ms)"
    using assms by (simp add: issue_record_json_def redis_storable_def time_json_def json_str_def ms_def)
  have "wf_json (JObj ms)" "json_depth (JObj ms) = 1"
    using assms names rfc3339_valid by (simp_all add: ms_def redis_storable_def)
  then have doc: "json_document (json_render (JObj ms)) = Some ms"
    using json_round_trip [of "JObj ms"] by (simp add: json_document_def)
  have "decode_issue_record (json_render (JObj ms)) = Some r"
    unfolding decode_issue_record_def doc
    using assms by (cases r) (simp add: ms_def str_field_one time_field_one field_simps_json redis_storable_def)
  with json show ?thesis by blast
qed


lemma redisCall_Inr: "redisCall f s = (Inr x, s') \<longleftrightarrow> (\<exists>st. f (w_tick (aw_world s)) (aw_store s) = (Inr x, st) \<and>
    s' = s\<lparr>aw_world := tick (aw_world s), aw_store := st\<rparr>)"
  by (auto simp: redisCall_def tick_def split: prod.splits)

lemma RedisStore_Get_Inr:
  "is_Get (NewRedisStore client) k s = (Inr v, s') \<longleftrightarrow> (\<exists>x st. rc_Get client (redisKey k) (w_tick (aw_world s)) (aw_store s) = (Inr x, st) \<and>
     s' = s\<lparr>aw_world := tick (aw_world s), aw_store := st\<rparr> \<and>
     (case x of None \<Rightarrow> v = None | Some payload \<Rightarrow> decode_issue_record payload \<noteq> None \<and> v = decode_issue_record payload))"
proof (cases "rc_Get client (redisKey k) (w_tick (aw_world s)) (aw_store s)")
  case (Pair x st)
  then show ?thesis
    by (cases x) (auto simp: NewRedisStore_def RedisStore_Get_def bindA_def mapErrA_def redisCall_def tick_def split: option.splits)
qed

lemma RedisStore_Put_Inr:
  "is_PutIfAbsent (NewRedisStore client) k r ttl s = (Inr b, s') \<longleftrightarrow> (\<exists>payload st. issue_record_json r = Some payload \<and>
     rc_SetNX client (redisKey k) (json_render payload) (normalizeTTL ttl) (w_tick (aw_world s)) (aw_store s) = (Inr b, st) \<and>
     s' = s\<lparr>aw_world := tick (aw_world s), aw_store := st\<rparr>)"
  by (auto simp: NewRedisStore_def RedisStore_PutIfAbsent_def redisCall_Inr split: option.splits)

sublocale redis_kv \<subseteq> idempotency_store "NewRedisStore client" "redis_entry value_of" "\<lambda>s. server (w_tick (aw_world s))"
  "\<lambda>s. reachable (w_tick (aw_world s))" redis_storable
proof unfold_locales
  fix k r ttl e and s s' :: "'r access_world" and r' :: AccessTicketIssueRecord
  let ?n = "w_tick (aw_world s)"
  show "\<exists>e. redis_entry value_of s k = Some (r, e) \<and> server ?n < e \<and> redis_entry value_of s' k = Some (r, e)"
    if run: "is_Get (NewRedisStore client) k s = (Inr (Some r), s')"
  proof -
    from run obtain x st where "rc_Get client (redisKey k) ?n (aw_store s) = (Inr (Some x), st)" "decode_issue_record x = Some r"
        "s' = s\<lparr>aw_world := tick (aw_world s), aw_store := st\<rparr>"
      by (auto simp: RedisStore_Get_Inr split: option.splits)
    with rc_get [OF this(1)] show ?thesis by (auto simp: redis_entry_def split: option.splits if_splits)
  qed
  show "\<exists>s'. is_Get (NewRedisStore client) k s = (Inr (Some r), s')"
    if "redis_entry value_of s k = Some (r, e)" "server ?n < e" "reachable ?n"
  proof -
    from that(3) obtain v st where get: "rc_Get client (redisKey k) ?n (aw_store s) = (Inr v, st)" using rc_answers by blast
    with rc_get [OF get] that show ?thesis by (auto simp: redis_entry_def RedisStore_Get_Inr split: option.splits)
  qed
  show "\<exists>e. redis_entry value_of s' k = Some (r, e)"
    if put: "is_PutIfAbsent (NewRedisStore client) k r ttl s = (Inr True, s')" and ok: "redis_storable r"
  proof -
    from put obtain payload st where json: "issue_record_json r = Some payload"
        and set: "rc_SetNX client (redisKey k) (json_render payload) (normalizeTTL ttl) ?n (aw_store s) = (Inr True, st)"
        and s': "aw_store s' = st"
      by (auto simp: RedisStore_Put_Inr)
    have "value_of st (redisKey k) = Some (json_render payload, server ?n + normalizeTTL ttl)"
      using rc_setnx [OF set] by (simp split: if_splits)
    with decode_issue_record_json [OF ok] json s' show ?thesis by (auto simp: redis_entry_def)
  qed
  show "\<exists>s'. is_PutIfAbsent (NewRedisStore client) k r' ttl s = (Inr False, s') \<and> redis_entry value_of s' k = Some (r, e)"
    if live: "redis_entry value_of s k = Some (r, e)" "server ?n < e" "reachable ?n" and ok: "redis_storable r'"
  proof -
    obtain payload where json: "issue_record_json r' = Some payload" using decode_issue_record_json [OF ok] by blast
    from live(3) obtain b st where set:
        "rc_SetNX client (redisKey k) (json_render payload) (normalizeTTL ttl) ?n (aw_store s) = (Inr b, st)"
      using rc_answers by blast
    have "\<not> b \<and> value_of st (redisKey k) = value_of (aw_store s) (redisKey k)"
      using rc_setnx [OF set] live(1,2) by (auto simp: redis_entry_def split: option.splits if_splits)
    with json set live(1) show ?thesis by (auto simp: RedisStore_Put_Inr redis_entry_def)
  qed
qed

context redis_kv
begin

lemma redis_laws: "idempotency_store (NewRedisStore client) (redis_entry value_of) (\<lambda>s. server (w_tick (aw_world s)))
    (\<lambda>s. reachable (w_tick (aw_world s))) redis_storable"
  by unfold_locales

end

text \<open>A server with one clock and a map of values, as an instance of these laws.\<close>

definition kv_client :: "(nat \<Rightarrow> time) \<Rightarrow> (string \<rightharpoonup> string \<times> time) redis_client" where
  "kv_client server = \<lparr>
     rc_Get = (\<lambda>k n st. (Inr (case st k of Some (x, e) \<Rightarrow> if server n < e then Some x else None | None \<Rightarrow> None), st)),
     rc_SetNX = (\<lambda>k x ttl n st. if (case st k of Some (y, e) \<Rightarrow> server n < e | None \<Rightarrow> False) then (Inr False, st)
        else (Inr True, st(k \<mapsto> (x, server n + ttl))))\<rparr>"

interpretation kv: redis_kv "kv_client server" "\<lambda>st. st" server "\<lambda>_. True"
  by unfold_locales (auto simp: kv_client_def split: option.splits if_splits)


subsubsection \<open>Repeated requests\<close>

text \<open>
  Claim C34. With the store in memory, a request for a ticket that carries an idempotency key and
  succeeds leaves a record under its key; as long as the record is there and has not ended, the
  same request returns the same ticket, and a request that differs from it but shares the key
  is refused with CONFLICT, whatever has become of the file.
\<close>

theorem repeated_request_same_ticket:
  assumes "CreateAccessTicket env h command s = (Inr res, s')" and "TrimSpace (ct_IdempotencyKey command) \<noteq> []"
    and "ch_store h = Some (NewMemoryStore env)"
  shows "\<exists>r. aw_store s' (request_key command) = Some r \<and> (\<forall>s2 command2. aw_store s2 (request_key command) = Some r \<longrightarrow>
    e_now env (w_tick (aw_world s2)) < mr_expiresAt r \<longrightarrow> wellformed_request command2 \<longrightarrow>
    request_key command2 = request_key command \<longrightarrow>
    fst (CreateAccessTicket env h command2 s2) =
      (if request_fingerprint h command2 = request_fingerprint h command then Inr res
       else Inl (New CodeConflict ''idempotency key is already used by another access ticket request''
         [(''field'', DStr ''Idempotency-Key'')])))"
proof -
  from memory_store.create_recorded [OF assms] obtain r where r: "aw_store s' (request_key command) = Some r"
      "mr_record r = ticket_record (request_fingerprint h command) res"
    by auto
  have "fst (CreateAccessTicket env h command2 s2) = resolveExistingIdempotentResult (mr_record r) (request_fingerprint h command2)"
    if "aw_store s2 (request_key command) = Some r" "memory_clock env s2 < mr_expiresAt r" "wellformed_request command2"
      "request_key command2 = request_key command" for s2 command2
    by (rule memory_store.create_answered) (use that assms(3) in simp_all)
  then show ?thesis
    using r by (auto simp: resolveExistingIdempotentResult_def ticket_record_def)
qed

lemma hex_digit_ascii: "k < 16 \<Longrightarrow> byte_val (hex_digit k) < 128"
proof -
  assume "k < 16"
  then have "hex_digit k \<in> set ''0123456789abcdef''" unfolding hex_digit_def by (intro nth_mem) simp
  then show ?thesis by auto
qed

lemma hex_ascii: "c \<in> set (hex_EncodeToString x) \<Longrightarrow> byte_val c < 128"
  by (auto simp: hex_EncodeToString_def less_mult_imp_div_less intro!: hex_digit_ascii)

lemma Issue_ascii:
  assumes "Issue key c = Inr t" and "x \<in> set t"
  shows "byte_val x < 128"
proof -
  have "x \<in> set ''at_.'' \<or> (\<exists>p. x \<in> set (b64_EncodeToString p))"
    using assms by (auto simp: Issue_def bindE_Inr_iff Let_def ticketPrefix_def sign_def)
  then show ?thesis
  proof
    assume "\<exists>p. x \<in> set (b64_EncodeToString p)"
    then have "graphic x" using b64_text_graphic by blast
    then show ?thesis by (simp add: graphic_def)
  qed auto
qed

lemma set_trim_right_slash: "set (trim_right_slash s) \<subseteq> set s"
  by (auto simp: trim_right_slash_def dest: set_dropWhileD)

lemma issued_storable:
  assumes run: "issueTicket env h command d ttl s = (Inr r, s')"
    and base: "\<forall>c \<in> set (ch_redirectBasePath h). byte_val c < 128"
    and years: "\<And>n. fst (Date (e_now env n + ttl)) \<in> {0..9999}"
  shows "redis_storable (ticket_record (buildIdempotencyFingerprint f a d' n ttl') r)"
proof -
  from run obtain now claims where i: "Issue (ch_key h) claims = Inr (cr_Ticket r)" "cr_ExpiresAt r = now + ttl" "now \<in> range (e_now env)"
      "cr_RedirectURL r = buildRedirectURL (ch_redirectBasePath h) (cr_Ticket r)"
    by (auto simp: issueTicket_def run_Inr onWorld_Inr Let_def simp del: liftA_iff)
  have t: "byte_val x < 128" if "x \<in> set (cr_Ticket r)" for x using Issue_ascii [OF i(1) that] .
  have "byte_val x < 128" if "x \<in> set (cr_RedirectURL r)" for x
  proof -
    have "x \<in> set ''/api/v1/access-tickets/redirect'' \<or> x \<in> set (ch_redirectBasePath h) \<or> x \<in> set (cr_Ticket r)"
      using that set_TrimSpace set_trim_right_slash unfolding i(4) buildRedirectURL_def Let_def by (fastforce split: if_splits)
    then show ?thesis using base t by auto
  qed
  moreover obtain n where "now = e_now env n" using i(3) by blast
  with years [of n] have "0 \<le> fst (Date (cr_ExpiresAt r))" "fst (Date (cr_ExpiresAt r)) < 10000" by (simp_all add: i(2))
  ultimately show ?thesis using t hex_ascii
    by (auto simp: redis_storable_def ticket_record_def buildIdempotencyFingerprint_def intro!: ValidString_ascii)
qed


text \<open>
  Two requests with the same key may both find no record and both issue a ticket: with
  the store in memory, the one that is recorded second returns the ticket of the first, not its own.
\<close>

theorem concurrent_request_first_ticket:
  assumes "aw_store s key = Some \<lparr>mr_record = ticket_record fp winner, mr_expiresAt = e\<rparr>"
    and "e_now env (w_tick (aw_world s)) < e" and "e_now env (Suc (w_tick (aw_world s))) < e"
  shows "fst (recordTicket (NewMemoryStore env) key fp ttl own s) = Inr winner"
proof (rule memory_store.record_second)
  fix s' assume "is_PutIfAbsent (NewMemoryStore env) key (ticket_record fp own) ttl s = (Inr False, s')"
  then show "memory_clock env s' < e \<and> True"
    using assms(3) by (auto simp: memory_run split: option.splits if_splits)
qed (use assms in simp_all)


lemma create_fresh:
  assumes "wellformed_request command" and "ch_store h = Some store"
    and "is_Get store (request_key command) s = (Inr None, s1)"
    and "issueTicket env h command (projr (NormalizeDisposition (ct_Disposition command))) (request_ttl h command) s1 = (Inr issued, s2)"
    and "is_PutIfAbsent store (request_key command) (ticket_record (request_fingerprint h command) issued) (request_ttl h command) s2 =
      (Inr True, s3)"
  shows "CreateAccessTicket env h command s = (Inr issued, s3)"
  using assms(3-5) by (simp add: create_wellformed [OF assms(1,2)] bindA_def mapErrA_def recordTicket_def returnA_def ticket_record_def)

definition sampleKeyed :: CreateAccessTicketCommand where
  "sampleKeyed = sampleCreate\<lparr>ct_IdempotencyKey := ''k1''\<rparr>"

lemma sampleKeyed_simps:
  "wellformed_request sampleKeyed" "TrimSpace (ct_IdempotencyKey sampleKeyed) \<noteq> []"
  "NormalizeDisposition (ct_Disposition sampleKeyed) = Inr ''attachment''" "ct_ExpiresIn sampleKeyed = 0"
  by code_simp+

text \<open>The ticket is issued in any state that differs from the sample only in the clock.\<close>

lemma sample_issue_later:
  assumes "aw_world s = sampleFileWorld\<lparr>w_tick := n\<rparr>" and "ch_key h = ''k''" and db: "\<And>n. e_db_fault env n = None"
    and e: "e = e_now env (Suc (Suc n)) + minute" "0 < e"
  shows "\<exists>issued. issueTicket env h sampleKeyed ''attachment'' minute s =
     (Inr issued, s\<lparr>aw_world := sampleFileWorld\<lparr>w_tick := Suc (Suc (Suc n))\<rparr>\<rparr>) \<and> cr_ExpiresAt issued = e \<and>
     cr_RedirectURL issued = buildRedirectURL (ch_redirectBasePath h) (cr_Ticket issued)"
proof -
  let ?c = "issue_claims sampleKeyed ''attachment'' (file_view_of sampleFile) e"
  have "AccessTicketClaims_Validate ?c = Inr ()"
    using e(2) by (simp add: AccessTicketClaims_Validate_def issue_claims_def sampleKeyed_def sampleCreate_def sampleFile_def IsZero_def)
  then obtain t where "Issue ''k'' ?c = Inr t" by (simp add: Issue_def Let_def)
  then show ?thesis
    using assms sample_rows
    by (subst issueTicket_run [where row = sampleFile and t = t and e = e])
       (simp_all add: sampleKeyed_def sampleCreate_def tick_def)
qed

lemma sample_keyed_run:
  "\<exists>res s'. CreateAccessTicket (ae_env sampleAccessEnv) sampleTicketHandler sampleKeyed sampleAccessWorld = (Inr res, s') \<and>
     w_tick (aw_world s') = 6 \<and> map_option mr_expiresAt (aw_store s' (request_key sampleKeyed)) = Some (unix_epoch + 65 * second)"
proof -
  let ?env = "ae_env sampleAccessEnv" and ?store = "NewMemoryStore (ae_env sampleAccessEnv)"
  define s1 :: "memory access_world" where "s1 = \<lparr>aw_world = sampleFileWorld\<lparr>w_tick := 1\<rparr>, aw_store = Map.empty\<rparr>"
  have "is_Get ?store (request_key sampleKeyed) sampleAccessWorld = (Inr None, s1)"
    by (simp add: memory_run s1_def sampleFileWorld_def fun_eq_iff)
  moreover obtain issued s2 where "issueTicket ?env sampleTicketHandler sampleKeyed ''attachment'' minute s1 = (Inr issued, s2)"
      "aw_store s2 = Map.empty" "w_tick (aw_world s2) = 4"
    using sample_issue_later [of s1 1 sampleTicketHandler ?env] sample_rows(6)
    by (auto simp: s1_def sampleTicketHandler_def numeral_eq_Suc sampleAccessEnv_def unix_epoch_def duration_defs)
  moreover from this(2,3) obtain s3 where "is_PutIfAbsent ?store (request_key sampleKeyed)
      (ticket_record (request_fingerprint sampleTicketHandler sampleKeyed) issued) minute s2 = (Inr True, s3)"
      "w_tick (aw_world s3) = 6" "map_option mr_expiresAt (aw_store s3 (request_key sampleKeyed)) = Some (unix_epoch + 65 * second)"
    by (auto simp: memory_run normalizeTTL_def duration_defs sampleAccessEnv_def)
  ultimately have "CreateAccessTicket ?env sampleTicketHandler sampleKeyed sampleAccessWorld = (Inr issued, s3) \<and>
      w_tick (aw_world s3) = 6 \<and> map_option mr_expiresAt (aw_store s3 (request_key sampleKeyed)) = Some (unix_epoch + 65 * second)"
    using create_fresh [of sampleKeyed sampleTicketHandler ?store sampleAccessWorld s1 ?env issued s2 s3]
    by (simp add: sampleKeyed_simps request_ttl_def) (simp add: sampleTicketHandler_def)
  then show ?thesis by blast
qed

theorem repeated_request_same_ticket_witness:
  "\<exists>res s'. CreateAccessTicket (ae_env sampleAccessEnv) sampleTicketHandler sampleKeyed sampleAccessWorld = (Inr res, s') \<and>
     fst (CreateAccessTicket (ae_env sampleAccessEnv) sampleTicketHandler sampleKeyed s') = Inr res"
proof -
  obtain res s' r where run: "CreateAccessTicket (ae_env sampleAccessEnv) sampleTicketHandler sampleKeyed sampleAccessWorld = (Inr res, s')"
      and t: "w_tick (aw_world s') = 6" and r: "aw_store s' (request_key sampleKeyed) = Some r" "mr_expiresAt r = unix_epoch + 65 * second"
    using sample_keyed_run by auto
  have st: "ch_store sampleTicketHandler = Some (NewMemoryStore (ae_env sampleAccessEnv))" by (simp add: sampleTicketHandler_def)
  have "e_now (ae_env sampleAccessEnv) (w_tick (aw_world s')) < mr_expiresAt r"
    using t r by (simp add: sampleAccessEnv_def second_def)
  with repeated_request_same_ticket [OF run sampleKeyed_simps(2) st] r sampleKeyed_simps(1)
  have "fst (CreateAccessTicket (ae_env sampleAccessEnv) sampleTicketHandler sampleKeyed s') = Inr res" by auto
  with run show ?thesis by blast
qed

theorem concurrent_request_first_ticket_witness:
  "fst (recordTicket (NewMemoryStore sampleEnv) ''k'' ''fp'' minute
      \<lparr>cr_Ticket = ''at_2'', cr_RedirectURL = ''/2'', cr_ExpiresAt = 70\<rparr>
      \<lparr>aw_world = sampleFileWorld, aw_store = [''k'' \<mapsto> \<lparr>mr_record = ticket_record ''fp''
         \<lparr>cr_Ticket = ''at_1'', cr_RedirectURL = ''/1'', cr_ExpiresAt = 60\<rparr>, mr_expiresAt = 100\<rparr>]\<rparr>) =
   Inr \<lparr>cr_Ticket = ''at_1'', cr_RedirectURL = ''/1'', cr_ExpiresAt = 60\<rparr>"
  by (rule concurrent_request_first_ticket [where e = 100]) (simp_all add: sampleEnv_def sampleFileWorld_def)

text \<open>The same on Redis, at a clock that stands still.\<close>

definition stillEnv :: env where
  "stillEnv = sampleEnv\<lparr>e_now := (\<lambda>_. unix_epoch)\<rparr>"

definition sampleRedisHandler :: "(string \<rightharpoonup> string \<times> time) CreateAccessTicketHandler" where
  "sampleRedisHandler = \<lparr>ch_key = ''k'', ch_store = Some (NewRedisStore (kv_client (\<lambda>n. int n))), ch_defaultTTL = minute,
     ch_redirectBasePath = []\<rparr>"

abbreviation sampleRedisWorld :: "(string \<rightharpoonup> string \<times> time) access_world" where
  "sampleRedisWorld \<equiv> \<lparr>aw_world = sampleFileWorld, aw_store = Map.empty\<rparr>"

lemma still_years: "fst (Date (e_now stillEnv n + request_ttl sampleRedisHandler sampleKeyed)) \<in> {0..9999}"
proof -
  have "fst (Date (unix_epoch + minute)) = 1970" by code_simp
  then show ?thesis by (simp add: stillEnv_def request_ttl_def sampleKeyed_simps sampleRedisHandler_def)
qed

lemma sample_redis_run:
  "\<exists>res s' e. CreateAccessTicket stillEnv sampleRedisHandler sampleKeyed sampleRedisWorld = (Inr res, s') \<and>
     w_tick (aw_world s') = 5 \<and> (\<exists>x. aw_store s' (redisKey (request_key sampleKeyed)) = Some (x, 4 + minute))"
proof -
  let ?store = "NewRedisStore (kv_client (\<lambda>n. int n))"
  define s1 :: "(string \<rightharpoonup> string \<times> time) access_world" where "s1 = \<lparr>aw_world = sampleFileWorld\<lparr>w_tick := 1\<rparr>, aw_store = Map.empty\<rparr>"
  have "is_Get ?store (request_key sampleKeyed) sampleRedisWorld = (Inr None, s1)"
    by (simp add: RedisStore_Get_Inr kv_client_def s1_def sampleFileWorld_def tick_def)
  moreover obtain issued s2 where issue: "issueTicket stillEnv sampleRedisHandler sampleKeyed ''attachment'' minute s1 = (Inr issued, s2)"
      "aw_store s2 = Map.empty" "w_tick (aw_world s2) = 4"
    using sample_issue_later [of s1 1 sampleRedisHandler stillEnv]
    by (auto simp: s1_def sampleRedisHandler_def numeral_eq_Suc stillEnv_def sampleEnv_def unix_epoch_def duration_defs)
  moreover obtain s3 where "is_PutIfAbsent ?store (request_key sampleKeyed)
      (ticket_record (request_fingerprint sampleRedisHandler sampleKeyed) issued) minute s2 = (Inr True, s3)"
      "w_tick (aw_world s3) = 5" "\<exists>x. aw_store s3 (redisKey (request_key sampleKeyed)) = Some (x, 4 + minute)"
  proof -
    have "redis_storable (ticket_record (request_fingerprint sampleRedisHandler sampleKeyed) issued)"
      unfolding request_fingerprint_def
      by (rule issued_storable [OF issue(1)]) (use still_years in \<open>simp_all add: sampleRedisHandler_def request_ttl_def sampleKeyed_simps\<close>)
    then obtain p where "issue_record_json (ticket_record (request_fingerprint sampleRedisHandler sampleKeyed) issued) = Some p"
      using decode_issue_record_json by blast
    then show ?thesis
      using issue(2,3) that by (auto simp: RedisStore_Put_Inr kv_client_def tick_def normalizeTTL_def duration_defs)
  qed
  ultimately show ?thesis
    using create_fresh [of sampleKeyed sampleRedisHandler ?store sampleRedisWorld s1 stillEnv issued s2 s3]
    by (simp add: sampleKeyed_simps request_ttl_def) (simp add: sampleRedisHandler_def)
qed


end
