(* ===== verification/GoCrypto.thy ===== *)
theory GoCrypto
  imports GoCodec
begin

text \<open>
  The parts of Go's standard library that verify signatures: SHA-384 and SHA-512, RSA signatures
  with PKCS \#1 v1.5 and PSS padding (\<^verbatim>\<open>crypto/rsa\<close>), and ECDSA on the curves P-256, P-384 and
  P-521 (\<^verbatim>\<open>crypto/ecdsa\<close>, \<^verbatim>\<open>crypto/elliptic\<close>). The library computes with limbs and projective
  coordinates; here are the integers and points it computes.
\<close>

unbundle bit_operations_syntax

subsection \<open>SHA-512 and SHA-384\<close>

type_synonym u64 = "64 word"

definition sha512_K :: "u64 list" where
  "sha512_K =
     [4794697086780616226, 8158064640168781261, 13096744586834688815, 16840607885511220156, 4131703408338449720,
      6480981068601479193, 10538285296894168987, 12329834152419229976, 15566598209576043074, 1334009975649890238,
      2608012711638119052, 6128411473006802146, 8268148722764581231, 9286055187155687089, 11230858885718282805,
      13951009754708518548, 16472876342353939154, 17275323862435702243, 1135362057144423861, 2597628984639134821,
      3308224258029322869, 5365058923640841347, 6679025012923562964, 8573033837759648693, 10970295158949994411,
      12119686244451234320, 12683024718118986047, 13788192230050041572, 14330467153632333762, 15395433587784984357,
      489312712824947311, 1452737877330783856, 2861767655752347644, 3322285676063803686, 5560940570517711597,
      5996557281743188959, 7280758554555802590, 8532644243296465576, 9350256976987008742, 10552545826968843579,
      11727347734174303076, 12113106623233404929, 14000437183269869457, 14369950271660146224, 15101387698204529176,
      15463397548674623760, 17586052441742319658, 1182934255886127544, 1847814050463011016, 2177327727835720531,
      2830643537854262169, 3796741975233480872, 4115178125766777443, 5681478168544905931, 6601373596472566643,
      7507060721942968483, 8399075790359081724, 8693463985226723168, 9568029438360202098, 10144078919501101548,
      10430055236837252648, 11840083180663258601, 13761210420658862357, 14299343276471374635, 14566680578165727644,
      15097957966210449927, 16922976911328602910, 17689382322260857208, 500013540394364858, 748580250866718886,
      1242879168328830382, 1977374033974150939, 2944078676154940804, 3659926193048069267, 4368137639120453308,
      4836135668995329356, 5532061633213252278, 6448918945643986474, 6902733635092675308, 7801388544844847127]"

definition sha512_H0 :: "u64 list" where
  "sha512_H0 =
     [7640891576956012808, 13503953896175478587, 4354685564936845355, 11912009170470909681,
      5840696475078001361, 11170449401992604703, 2270897969802886507, 6620516959819538809]"

definition sha384_H0 :: "u64 list" where
  "sha384_H0 =
     [14680500436340154072, 7105036623409894663, 10473403895298186519, 1526699215303891257,
      7436329637833083697, 10282925794625328401, 15784041429090275239, 5167115440072839076]"

definition rotr64 :: "nat \<Rightarrow> u64 \<Rightarrow> u64" where
  "rotr64 n x = drop_bit n x OR push_bit (64 - n) x"

definition sha512_S0 :: "u64 \<Rightarrow> u64" where "sha512_S0 x = rotr64 28 x XOR rotr64 34 x XOR rotr64 39 x"
definition sha512_S1 :: "u64 \<Rightarrow> u64" where "sha512_S1 x = rotr64 14 x XOR rotr64 18 x XOR rotr64 41 x"
definition sha512_s0 :: "u64 \<Rightarrow> u64" where "sha512_s0 x = rotr64 1 x XOR rotr64 8 x XOR drop_bit 7 x"
definition sha512_s1 :: "u64 \<Rightarrow> u64" where "sha512_s1 x = rotr64 19 x XOR rotr64 61 x XOR drop_bit 6 x"

text \<open>A number from bytes, most significant first: \<^verbatim>\<open>big.Int.SetBytes\<close>.\<close>

definition be_val :: "string \<Rightarrow> nat" where
  "be_val s = foldl (\<lambda>n c. n * 256 + byte_val c) 0 s"

fun chunks8 :: "nat \<Rightarrow> string \<Rightarrow> string list" where
  "chunks8 0 s = []"
| "chunks8 (Suc n) s = take 8 s # chunks8 n (drop 8 s)"

definition be_words64 :: "string \<Rightarrow> u64 list" where
  "be_words64 s = map (\<lambda>c. of_nat (be_val c)) (chunks8 (length s div 8) s)"

definition sha512_pad :: "string \<Rightarrow> string" where
  "sha512_pad s =
     (let n = length s; zeros = (111 + 128 - n mod 128) mod 128
      in s @ [byte_of 128] @ replicate zeros (byte_of 0) @ be_bytes 16 (n * 8))"

fun sha512_extend :: "nat \<Rightarrow> u64 list \<Rightarrow> u64 list" where
  "sha512_extend 0 w = w"
| "sha512_extend (Suc k) w =
     (let t = length w in
      sha512_extend k (w @ [sha512_s1 (w ! (t - 2)) + w ! (t - 7) + sha512_s0 (w ! (t - 15)) + w ! (t - 16)]))"

fun sha512_round :: "u64 \<times> u64 \<Rightarrow> u64 list \<Rightarrow> u64 list" where
  "sha512_round (k, w) [a, b, c, d, e, f, g, h] =
     (let t1 = h + sha512_S1 e + ((e AND f) XOR (NOT e AND g)) + k + w;
          t2 = sha512_S0 a + ((a AND b) XOR (a AND c) XOR (b AND c))
      in [t1 + t2, a, b, c, d + t1, e, f, g])"
| "sha512_round _ hs = hs"

definition sha512_block :: "u64 list \<Rightarrow> u64 list \<Rightarrow> u64 list" where
  "sha512_block block hs = map2 (+) hs (fold sha512_round (zip sha512_K (sha512_extend 64 block)) hs)"

fun sha512_blocks :: "nat \<Rightarrow> u64 list \<Rightarrow> u64 list \<Rightarrow> u64 list" where
  "sha512_blocks 0 ws hs = hs"
| "sha512_blocks (Suc n) ws hs = sha512_blocks n (drop 16 ws) (sha512_block (take 16 ws) hs)"

definition sha512_bytes :: "u64 list \<Rightarrow> string \<Rightarrow> string" where
  "sha512_bytes init s =
     (let ws = be_words64 (sha512_pad s)
      in concat (map (\<lambda>w. be_bytes 8 (unat w)) (sha512_blocks (length ws div 16) ws init)))"

definition Sum512 :: "string \<Rightarrow> string" where
  "Sum512 s = sha512_bytes sha512_H0 s"

definition Sum384 :: "string \<Rightarrow> string" where
  "Sum384 s = take 48 (sha512_bytes sha384_H0 s)"

datatype Hash = SHA256 | SHA384 | SHA512

fun Hash_Size :: "Hash \<Rightarrow> nat" where
  "Hash_Size SHA256 = 32"
| "Hash_Size SHA384 = 48"
| "Hash_Size SHA512 = 64"

fun hash_sum :: "Hash \<Rightarrow> string \<Rightarrow> string" where
  "hash_sum SHA256 s = Sum256 s"
| "hash_sum SHA384 s = Sum384 s"
| "hash_sum SHA512 s = Sum512 s"

subsection \<open>RSA\<close>

record rsa_PublicKey =
  pk_N :: nat
  pk_E :: int

fun bit_len :: "nat \<Rightarrow> nat" where
  "bit_len n = (if n = 0 then 0 else Suc (bit_len (n div 2)))"

declare bit_len.simps [simp del]

definition PublicKey_Size :: "rsa_PublicKey \<Rightarrow> nat" where
  "PublicKey_Size pub = (bit_len (pk_N pub) + 7) div 8"

text \<open>
  \<^verbatim>\<open>checkPublicKeySize\<close> and the checks of the public key: a modulus of at least 1024 bits, odd, and an
  odd exponent from 3 up to 31 bits.
\<close>

definition public_key_ok :: "rsa_PublicKey \<Rightarrow> bool" where
  "public_key_ok pub \<longleftrightarrow> 1024 \<le> bit_len (pk_N pub) \<and> odd (pk_N pub) \<and>
     2 \<le> pk_E pub \<and> odd (pk_E pub) \<and> pk_E pub < 2 ^ 31"

fun power_mod :: "nat \<Rightarrow> nat \<Rightarrow> nat \<Rightarrow> nat" where
  "power_mod m b e =
     (if e = 0 then 1 mod m
      else let h = power_mod m (b * b mod m) (e div 2) in if odd e then b * h mod m else h)"

declare power_mod.simps [simp del]

text \<open>The public operation on a signature of the size of the modulus; None when the number is not below it.\<close>

definition rsa_encrypt :: "rsa_PublicKey \<Rightarrow> string \<Rightarrow> string option" where
  "rsa_encrypt pub sig =
     (if be_val sig < pk_N pub
      then Some (be_bytes (PublicKey_Size pub) (power_mod (pk_N pub) (be_val sig) (nat (pk_E pub))))
      else None)"

text \<open>The DER prefix of a digest: SEQUENCE of the algorithm (an object identifier of nine bytes, NULL) and an OCTET STRING.\<close>

definition hash_prefix :: "Hash \<Rightarrow> string" where
  "hash_prefix h = map byte_of
     ([48, Hash_Size h + 17, 48, 13, 6, 9, 96, 134, 72, 1, 101, 3, 4, 2] @
      [case h of SHA256 \<Rightarrow> 1 | SHA384 \<Rightarrow> 2 | SHA512 \<Rightarrow> 3] @ [5, 0, 4, Hash_Size h])"

definition pkcs1v15_EM :: "nat \<Rightarrow> Hash \<Rightarrow> string \<Rightarrow> string option" where
  "pkcs1v15_EM k h hashed =
     (let t = hash_prefix h @ hashed in
      if k < length t + 11 then None
      else Some ([byte_of 0, byte_of 1] @ replicate (k - length t - 3) (byte_of 255) @ [byte_of 0] @ t))"

definition VerifyPKCS1v15 :: "rsa_PublicKey \<Rightarrow> Hash \<Rightarrow> string \<Rightarrow> string \<Rightarrow> bool" where
  "VerifyPKCS1v15 pub h hashed sig \<longleftrightarrow>
     length hashed = Hash_Size h \<and> public_key_ok pub \<and> length sig = PublicKey_Size pub \<and>
     rsa_encrypt pub sig \<noteq> None \<and> rsa_encrypt pub sig = pkcs1v15_EM (PublicKey_Size pub) h hashed"

text \<open>The mask generation function, and the check of a PSS encoding whose salt length is found by its delimiter.\<close>

definition mgf1 :: "Hash \<Rightarrow> string \<Rightarrow> nat \<Rightarrow> string" where
  "mgf1 h seed n =
     take n (concat (map (\<lambda>i. hash_sum h (seed @ be_bytes 4 i)) [0..<Suc (n div Hash_Size h)]))"

definition xor_bytes :: "string \<Rightarrow> string \<Rightarrow> string" where
  "xor_bytes a b = map2 (\<lambda>x y. byte_of (byte_val x XOR byte_val y)) a b"

definition clear_top :: "nat \<Rightarrow> string \<Rightarrow> string" where
  "clear_top bits db = (case db of [] \<Rightarrow> [] | c # cs \<Rightarrow> byte_of (byte_val c mod 2 ^ (8 - bits)) # cs)"

definition emsaPSSVerify :: "string \<Rightarrow> string \<Rightarrow> nat \<Rightarrow> Hash \<Rightarrow> bool" where
  "emsaPSSVerify mHash em emBits h =
     (let hLen = Hash_Size h;
          emLen = (emBits + 7) div 8;
          unused = 8 * emLen - emBits;
          maskedDB = take (emLen - hLen - 1) em;
          H = take hLen (drop (emLen - hLen - 1) em);
          db = clear_top unused (xor_bytes maskedDB (mgf1 h H (emLen - hLen - 1)));
          rest = dropWhile (\<lambda>c. c = byte_of 0) db
      in length em = emLen \<and> length mHash = hLen \<and> hLen + 1 \<le> emLen \<and>
         last em = byte_of 188 \<and> byte_val (hd em) < 2 ^ (8 - unused) \<and>
         rest \<noteq> [] \<and> hd rest = byte_of 1 \<and>
         hash_sum h (replicate 8 (byte_of 0) @ mHash @ tl rest) = H)"

definition VerifyPSS :: "rsa_PublicKey \<Rightarrow> Hash \<Rightarrow> string \<Rightarrow> string \<Rightarrow> bool" where
  "VerifyPSS pub h digest sig \<longleftrightarrow>
     public_key_ok pub \<and> length sig = PublicKey_Size pub \<and>
     (case rsa_encrypt pub sig of
        None \<Rightarrow> False
      | Some em \<Rightarrow>
          (let emBits = bit_len (pk_N pub) - 1; extra = length em - (emBits + 7) div 8
           in list_all (\<lambda>c. c = byte_of 0) (take extra em) \<and> emsaPSSVerify digest (drop extra em) emBits h))"

subsection \<open>Elliptic curves\<close>

text \<open>The curves have the equation \<open>y\<^sup>2 = x\<^sup>3 - 3 x + b\<close>; None is the point at infinity.\<close>

record curve_params =
  cv_P :: int
  cv_N :: int
  cv_B :: int
  cv_G :: "int \<times> int"
  cv_BitSize :: nat

type_synonym curve_point = "(int \<times> int) option"

definition P256 :: curve_params where
  "P256 = \<lparr>cv_P = 2 ^ 256 - 2 ^ 224 + 2 ^ 192 + 2 ^ 96 - 1,
     cv_N = 115792089210356248762697446949407573529996955224135760342422259061068512044369,
     cv_B = 41058363725152142129326129780047268409114441015993725554835256314039467401291,
     cv_G = (48439561293906451759052585252797914202762949526041747995844080717082404635286,
       36134250956749795798585127919587881956611106672985015071877198253568414405109),
     cv_BitSize = 256\<rparr>"

definition P384 :: curve_params where
  "P384 = \<lparr>cv_P = 2 ^ 384 - 2 ^ 128 - 2 ^ 96 + 2 ^ 32 - 1,
     cv_N = 39402006196394479212279040100143613805079739270465446667946905279627659399113263569398956308152294913554433653942643,
     cv_B = 27580193559959705877849011840389048093056905856361568521428707301988689241309860865136260764883745107765439761230575,
     cv_G = (26247035095799689268623156744566981891852923491109213387815615900925518854738050089022388053975719786650872476732087,
       8325710961489029985546751289520108179287853048861315594709205902480503199884419224438643760392947333078086511627871),
     cv_BitSize = 384\<rparr>"

definition P521 :: curve_params where
  "P521 = \<lparr>cv_P = 2 ^ 521 - 1,
     cv_N = 6864797660130609714981900799081393217269435300143305409394463459185543183397655394245057746333217197532963996371363321113864768612440380340372808892707005449,
     cv_B = 1093849038073734274511112390766805569936207598951683748994586394495953116150735016013708737573759623248592132296706313309438452531591012912142327488478985984,
     cv_G = (2661740802050217063228768716723360960729859168756973147706671368418802944996427808491545080627771902352094241225065558662157113545570916814161637315895999846,
       3757180025770020463545507224491183603594455134769762486694567779615544477440556316691234405012945539562144444537289428522585666729196580810124344277578376784),
     cv_BitSize = 521\<rparr>"

definition IsOnCurve :: "curve_params \<Rightarrow> int \<Rightarrow> int \<Rightarrow> bool" where
  "IsOnCurve c x y \<longleftrightarrow> 0 \<le> x \<and> x < cv_P c \<and> 0 \<le> y \<and> y < cv_P c \<and> (y * y - (x * x * x - 3 * x + cv_B c)) mod cv_P c = 0"

text \<open>The inverse modulo a prime, by Fermat's little theorem.\<close>

definition mod_inverse :: "int \<Rightarrow> int \<Rightarrow> int" where
  "mod_inverse m a = int (power_mod (nat m) (nat (a mod m)) (nat (m - 2)))"

definition point_at :: "int \<Rightarrow> int \<Rightarrow> int \<Rightarrow> int \<Rightarrow> int \<Rightarrow> curve_point" where
  "point_at p slope x1 y1 x2 = (let x = (slope * slope - x1 - x2) mod p in Some (x, (slope * (x1 - x) - y1) mod p))"

definition point_add :: "int \<Rightarrow> curve_point \<Rightarrow> curve_point \<Rightarrow> curve_point" where
  "point_add p P Q = (case P of None \<Rightarrow> Q | Some (x1, y1) \<Rightarrow> (case Q of None \<Rightarrow> P | Some (x2, y2) \<Rightarrow>
     if x1 \<noteq> x2 then point_at p ((y2 - y1) * mod_inverse p (x2 - x1)) x1 y1 x2
     else if (y1 + y2) mod p = 0 then None
     else point_at p ((3 * x1 * x1 - 3) * mod_inverse p (2 * y1)) x1 y1 x2))"

fun scalar_mult :: "int \<Rightarrow> nat \<Rightarrow> curve_point \<Rightarrow> curve_point" where
  "scalar_mult p k P =
     (if k = 0 then None
      else let h = scalar_mult p (k div 2) (point_add p P P) in if odd k then point_add p P h else h)"

declare scalar_mult.simps [simp del]

text \<open>The leftmost bits of a digest, as many as the order of the curve has.\<close>

definition hash_to_int :: "curve_params \<Rightarrow> string \<Rightarrow> int" where
  "hash_to_int c hash =
     (let size = bit_len (nat (cv_N c)); bytes = (size + 7) div 8; h = take bytes hash
      in int (be_val h div 2 ^ (8 * length h - size)))"

record ecdsa_PublicKey =
  ec_Curve :: curve_params
  ec_X :: int
  ec_Y :: int

definition ecdsa_Verify :: "ecdsa_PublicKey \<Rightarrow> string \<Rightarrow> int \<Rightarrow> int \<Rightarrow> bool" where
  "ecdsa_Verify pub hash r s =
     (let c = ec_Curve pub; n = cv_N c; w = mod_inverse n s; e = hash_to_int c hash;
          R = point_add (cv_P c) (scalar_mult (cv_P c) (nat (e * w mod n)) (Some (cv_G c)))
                (scalar_mult (cv_P c) (nat (r * w mod n)) (Some (ec_X pub, ec_Y pub)))
      in 0 < r \<and> r < n \<and> 0 < s \<and> s < n \<and>
         (case R of None \<Rightarrow> False | Some (x, y) \<Rightarrow> x mod n = r))"

end
