(* ===== verification/DataplaneAuth.thy ===== *)
theory DataplaneAuth
  imports GoCrypto GoTime "HOL-Library.Monad_Syntax"
begin

text \<open>
  The verification of bearer tokens of the data plane (\<^verbatim>\<open>platform/auth/dataplane/jwks_resolver.go\<close>):
  the key set with its refresh, the parts of a JWT, its signature and its claims. The admin
  service has its own copy of these functions, which differs only in the claims it reads.

  Every error of a token is answered with the same error, so the helpers return None for an
  error; only \<open>parseJWKSKey\<close> tells the keys to skip from those that are invalid.
\<close>

subsection \<open>Keys\<close>

definition RequiredAudience :: string where "RequiredAudience = ''zhi-file-data-plane''"

definition maxIATFutureSkew :: duration where "maxIATFutureSkew = 60 * second"

definition jwksResponseLimit :: nat where "jwksResponseLimit = 2 ^ 20"

datatype PublicKey = RSAKey rsa_PublicKey | ECKey ecdsa_PublicKey

record jwkKey =
  jk_id :: string
  jk_algorithm :: string
  jk_publicKey :: PublicKey

record jwkDocument =
  jd_KeyType :: string
  jd_KeyID :: string
  jd_Use :: string
  jd_Algorithm :: string
  jd_Modulus :: string
  jd_Exponent :: string
  jd_Curve :: string
  jd_X :: string
  jd_Y :: string

datatype jwks_error = UnsupportedJWKSKey | InvalidJWKSKey

definition decodeBase64URLInt :: "string \<Rightarrow> nat option" where
  "decodeBase64URLInt value = do {
     decoded \<leftarrow> b64_DecodeString (TrimSpace value);
     if decoded = [] then None else Some (be_val decoded)
   }"

definition parseRSAJWKSKey :: "jwkDocument \<Rightarrow> rsa_PublicKey option" where
  "parseRSAJWKSKey d = do {
     modulus \<leftarrow> decodeBase64URLInt (jd_Modulus d);
     exponent \<leftarrow> decodeBase64URLInt (jd_Exponent d);
     if exponent = 0 \<or> 2 ^ 63 \<le> exponent then None else Some \<lparr>pk_N = modulus, pk_E = int exponent\<rparr>
   }"

definition curveByName :: "string \<Rightarrow> curve_params option" where
  "curveByName name =
     (if TrimSpace name = ''P-256'' then Some P256
      else if TrimSpace name = ''P-384'' then Some P384
      else if TrimSpace name = ''P-521'' then Some P521
      else None)"

definition parseECJWKSKey :: "jwkDocument \<Rightarrow> jwks_error + ecdsa_PublicKey" where
  "parseECJWKSKey d = (case curveByName (jd_Curve d) of
     None \<Rightarrow> Inl UnsupportedJWKSKey
   | Some curve \<Rightarrow>
       (case (decodeBase64URLInt (jd_X d), decodeBase64URLInt (jd_Y d)) of
          (Some x, Some y) \<Rightarrow>
            if IsOnCurve curve (int x) (int y) then Inr \<lparr>ec_Curve = curve, ec_X = int x, ec_Y = int y\<rparr> else Inl InvalidJWKSKey
        | _ \<Rightarrow> Inl InvalidJWKSKey))"

definition parseJWKSKey :: "jwkDocument \<Rightarrow> jwks_error + PublicKey" where
  "parseJWKSKey d =
     (if TrimSpace (jd_KeyType d) = ''RSA''
      then (case parseRSAJWKSKey d of None \<Rightarrow> Inl InvalidJWKSKey | Some key \<Rightarrow> Inr (RSAKey key))
      else if TrimSpace (jd_KeyType d) = ''EC'' then map_sum id ECKey (parseECJWKSKey d)
      else Inl UnsupportedJWKSKey)"

text \<open>The JSON document; a null key is a struct of empty strings, and the last member \<^verbatim>\<open>keys\<close> is the list.\<close>

definition decode_jwk :: "json \<Rightarrow> jwkDocument option" where
  "decode_jwk v = (case v of
     JObj ms \<Rightarrow> do {
       kty \<leftarrow> str_field ''kty'' ms; kid \<leftarrow> str_field ''kid'' ms; use \<leftarrow> str_field ''use'' ms; alg \<leftarrow> str_field ''alg'' ms;
       n \<leftarrow> str_field ''n'' ms; e \<leftarrow> str_field ''e'' ms; crv \<leftarrow> str_field ''crv'' ms; x \<leftarrow> str_field ''x'' ms; y \<leftarrow> str_field ''y'' ms;
       Some \<lparr>jd_KeyType = kty, jd_KeyID = kid, jd_Use = use, jd_Algorithm = alg, jd_Modulus = n, jd_Exponent = e,
         jd_Curve = crv, jd_X = x, jd_Y = y\<rparr>
     }
   | JNull \<Rightarrow> Some \<lparr>jd_KeyType = [], jd_KeyID = [], jd_Use = [], jd_Algorithm = [], jd_Modulus = [], jd_Exponent = [],
       jd_Curve = [], jd_X = [], jd_Y = []\<rparr>
   | _ \<Rightarrow> None)"

definition decode_jwks :: "string \<Rightarrow> jwkDocument list option" where
  "decode_jwks body = do {
     ms \<leftarrow> json_document body;
     (case members_of ''keys'' ms of
        [] \<Rightarrow> Some []
      | vs \<Rightarrow> (case last vs of JArr ks \<Rightarrow> those (map decode_jwk ks) | _ \<Rightarrow> None))
   }"

fun jwks_loop :: "jwkKey list \<Rightarrow> jwkDocument list \<Rightarrow> jwkKey list option" where
  "jwks_loop keys [] = Some keys"
| "jwks_loop keys (d # ds) =
     (if TrimSpace (jd_Use d) \<noteq> [] \<and> TrimSpace (jd_Use d) \<noteq> ''sig'' then jwks_loop keys ds
      else (case parseJWKSKey d of
          Inl UnsupportedJWKSKey \<Rightarrow> jwks_loop keys ds
        | Inl InvalidJWKSKey \<Rightarrow> None
        | Inr publicKey \<Rightarrow>
            jwks_loop (keys @ [\<lparr>jk_id = TrimSpace (jd_KeyID d), jk_algorithm = TrimSpace (jd_Algorithm d),
              jk_publicKey = publicKey\<rparr>]) ds))"

definition parseJWKS :: "string \<Rightarrow> jwkKey list option" where
  "parseJWKS body = do {
     document \<leftarrow> decode_jwks body;
     if document = [] then None
     else do { keys \<leftarrow> jwks_loop [] document; if keys = [] then None else Some keys }
   }"

subsection \<open>The key set\<close>

text \<open>
  The cached keys are the state; \<open>ae_fetch\<close> is what the n-th request to the key server returns, a
  status and a body, or None when the request or the reading of the body fails.
\<close>

record auth_env =
  ae_url :: string
  ae_allowedIssuers :: "string list"
  ae_fetch :: "nat \<Rightarrow> (int \<times> string) option"
  ae_now :: "nat \<Rightarrow> time"

record auth_world =
  aw_keys :: "jwkKey list"
  aw_tick :: nat

type_synonym 'a auth_action = "(auth_world, unit, 'a) action"

definition cachedKey :: "string \<Rightarrow> jwkKey list \<Rightarrow> jwkKey option" where
  "cachedKey keyID keys =
     (if keyID = [] \<and> length keys = 1 then Some (hd keys) else find (\<lambda>key. jk_id key = keyID) keys)"

definition isRemote :: "auth_env \<Rightarrow> bool" where
  "isRemote env \<longleftrightarrow> ae_url env \<noteq> []"

definition fetched_keys :: "(int \<times> string) option \<Rightarrow> jwkKey list option" where
  "fetched_keys response = do {
     (status, body) \<leftarrow> response;
     if status \<noteq> 200 then None else parseJWKS (take jwksResponseLimit body)
   }"

definition refresh :: "auth_env \<Rightarrow> unit auth_action" where
  "refresh env = (\<lambda>w.
     (case fetched_keys (ae_fetch env (aw_tick w)) of
        None \<Rightarrow> (Inl (), w\<lparr>aw_tick := Suc (aw_tick w)\<rparr>)
      | Some keys \<Rightarrow> (Inr (), w\<lparr>aw_tick := Suc (aw_tick w), aw_keys := keys\<rparr>)))"

definition cached :: "string \<Rightarrow> jwkKey auth_action" where
  "cached keyID = bindA (readA aw_keys) (\<lambda>keys. case cachedKey keyID keys of None \<Rightarrow> throwA () | Some key \<Rightarrow> returnA key)"

definition refreshKey :: "auth_env \<Rightarrow> string \<Rightarrow> jwkKey auth_action" where
  "refreshKey env keyID = (if \<not> isRemote env then throwA () else bindA (refresh env) (\<lambda>_. cached keyID))"

definition keySet_key :: "auth_env \<Rightarrow> string \<Rightarrow> jwkKey auth_action" where
  "keySet_key env keyID =
     bindA (readA aw_keys) (\<lambda>keys. case cachedKey keyID keys of
       Some key \<Rightarrow> returnA key
     | None \<Rightarrow> if ae_url env = [] then throwA () else bindA (refresh env) (\<lambda>_. cached keyID))"

subsection \<open>The token\<close>

record jwtHeader =
  jh_Algorithm :: string
  jh_KeyID :: string

type_synonym jwtClaims = "(string \<times> json) list"

text \<open>\<^verbatim>\<open>strings.Split(token, ".")\<close>.\<close>

fun split_dots :: "string \<Rightarrow> string list" where
  "split_dots [] = [[]]"
| "split_dots (c # cs) =
     (if c = CHR ''.'' then [] # split_dots cs
      else (case split_dots cs of [] \<Rightarrow> [[c]] | w # ws \<Rightarrow> (c # w) # ws))"

definition decode_header :: "string \<Rightarrow> jwtHeader option" where
  "decode_header s = do {
     ms \<leftarrow> json_document s; alg \<leftarrow> str_field ''alg'' ms; kid \<leftarrow> str_field ''kid'' ms;
     Some \<lparr>jh_Algorithm = alg, jh_KeyID = kid\<rparr>
   }"

definition parseJWT :: "string \<Rightarrow> (jwtHeader \<times> jwtClaims \<times> string \<times> string) option" where
  "parseJWT token = (case split_dots token of
     [p0, p1, p2] \<Rightarrow> do {
       headerBytes \<leftarrow> b64_DecodeString p0;
       header0 \<leftarrow> decode_header headerBytes;
       let header = header0\<lparr>jh_Algorithm := TrimSpace (jh_Algorithm header0)\<rparr>;
       if jh_Algorithm header = [] \<or> EqualFold (jh_Algorithm header) ''none'' then None
       else do {
         claimsBytes \<leftarrow> b64_DecodeString p1;
         claims \<leftarrow> json_document claimsBytes;
         signature \<leftarrow> b64_DecodeString p2;
         Some (header, claims, p0 @ ''.'' @ p1, signature)
       }
     }
   | _ \<Rightarrow> None)"

definition hashJWTInput :: "Hash \<Rightarrow> string \<Rightarrow> string" where
  "hashJWTInput h input = hash_sum h input"

definition verifyRSASignature :: "Hash \<Rightarrow> PublicKey \<Rightarrow> string \<Rightarrow> string \<Rightarrow> bool" where
  "verifyRSASignature h publicKey signingInput signature = (case publicKey of
     RSAKey key \<Rightarrow> VerifyPKCS1v15 key h (hashJWTInput h signingInput) signature | _ \<Rightarrow> False)"

definition verifyRSAPSSSignature :: "Hash \<Rightarrow> PublicKey \<Rightarrow> string \<Rightarrow> string \<Rightarrow> bool" where
  "verifyRSAPSSSignature h publicKey signingInput signature = (case publicKey of
     RSAKey key \<Rightarrow> VerifyPSS key h (hashJWTInput h signingInput) signature | _ \<Rightarrow> False)"

definition verifyECDSASignature :: "Hash \<Rightarrow> PublicKey \<Rightarrow> string \<Rightarrow> string \<Rightarrow> bool" where
  "verifyECDSASignature h publicKey signingInput signature = (case publicKey of
     ECKey key \<Rightarrow>
       (let size = (cv_BitSize (ec_Curve key) + 7) div 8 in
        length signature = size * 2 \<and>
        ecdsa_Verify key (hashJWTInput h signingInput) (int (be_val (take size signature))) (int (be_val (drop size signature))))
   | _ \<Rightarrow> False)"

definition verifyJWTSignature :: "string \<Rightarrow> PublicKey \<Rightarrow> string \<Rightarrow> string \<Rightarrow> bool" where
  "verifyJWTSignature algorithm publicKey signingInput signature =
     (let a = TrimSpace algorithm in
      if a = ''RS256'' then verifyRSASignature SHA256 publicKey signingInput signature
      else if a = ''RS384'' then verifyRSASignature SHA384 publicKey signingInput signature
      else if a = ''RS512'' then verifyRSASignature SHA512 publicKey signingInput signature
      else if a = ''PS256'' then verifyRSAPSSSignature SHA256 publicKey signingInput signature
      else if a = ''PS384'' then verifyRSAPSSSignature SHA384 publicKey signingInput signature
      else if a = ''PS512'' then verifyRSAPSSSignature SHA512 publicKey signingInput signature
      else if a = ''ES256'' then verifyECDSASignature SHA256 publicKey signingInput signature
      else if a = ''ES384'' then verifyECDSASignature SHA384 publicKey signingInput signature
      else if a = ''ES512'' then verifyECDSASignature SHA512 publicKey signingInput signature
      else False)"

definition verifyJWTWithKey :: "jwtHeader \<Rightarrow> jwkKey \<Rightarrow> string \<Rightarrow> string \<Rightarrow> bool" where
  "verifyJWTWithKey header key signingInput signature \<longleftrightarrow>
     (jk_algorithm key = [] \<or> EqualFold (jk_algorithm key) (jh_Algorithm header)) \<and>
     verifyJWTSignature (jh_Algorithm header) (jk_publicKey key) signingInput signature"

subsection \<open>The claims\<close>

text \<open>A claim keeps its JSON value until it is read; of several members of a name the last one counts.\<close>

definition claim_value :: "jwtClaims \<Rightarrow> string \<Rightarrow> json option" where
  "claim_value claims key = map_of (rev claims) key"

text \<open>A value decoded into a string, into a list of strings, and into a number; null leaves the variable as it is.\<close>

definition unmarshal_string :: "json \<Rightarrow> string option" where
  "unmarshal_string v = (case v of JStr s \<Rightarrow> Some s | JNull \<Rightarrow> Some [] | _ \<Rightarrow> None)"

definition unmarshal_strings :: "json \<Rightarrow> string list option" where
  "unmarshal_strings v = (case v of JArr vs \<Rightarrow> those (map unmarshal_string vs) | JNull \<Rightarrow> Some [] | _ \<Rightarrow> None)"

definition unmarshal_number :: "json \<Rightarrow> string option" where
  "unmarshal_number v = (case v of
     JNum t \<Rightarrow> Some t
   | JStr t \<Rightarrow> if json_number t = Some (t, []) then Some t else None
   | JNull \<Rightarrow> Some []
   | _ \<Rightarrow> None)"

definition requiredStringClaim :: "jwtClaims \<Rightarrow> string \<Rightarrow> string option" where
  "requiredStringClaim claims key = do {
     v \<leftarrow> claim_value claims key;
     s \<leftarrow> unmarshal_string v;
     if TrimSpace s = [] then None else Some (TrimSpace s)
   }"

definition optionalStringClaim :: "jwtClaims \<Rightarrow> string \<Rightarrow> string option" where
  "optionalStringClaim claims key = (case claim_value claims key of
     None \<Rightarrow> Some []
   | Some v \<Rightarrow> map_option TrimSpace (unmarshal_string v))"

definition requiredSubjectTypeClaim :: "jwtClaims \<Rightarrow> string \<Rightarrow> string option" where
  "requiredSubjectTypeClaim claims key = do {
     value \<leftarrow> requiredStringClaim claims key;
     if ToUpper value \<in> {''USER'', ''APP''} then Some (ToUpper value) else None
   }"

definition audienceClaim :: "jwtClaims \<Rightarrow> string \<Rightarrow> string list option" where
  "audienceClaim claims key = do {
     v \<leftarrow> claim_value claims key;
     (case unmarshal_string v of
        Some single \<Rightarrow> if TrimSpace single = [] then None else Some [TrimSpace single]
      | None \<Rightarrow> do {
          multiple \<leftarrow> unmarshal_strings v;
          if multiple = [] \<or> [] \<in> set (map TrimSpace multiple) then None else Some (map TrimSpace multiple)
        })
   }"

fun nonempty_loop :: "string list \<Rightarrow> string list \<Rightarrow> string list option" where
  "nonempty_loop result [] = Some result"
| "nonempty_loop result (value # values) =
     (let trimmed = TrimSpace value in
      if trimmed = [] then None
      else if trimmed \<in> set result then nonempty_loop result values
      else nonempty_loop (result @ [trimmed]) values)"

definition normalizeNonEmptyStringSlice :: "string list \<Rightarrow> string list option" where
  "normalizeNonEmptyStringSlice values = do {
     result \<leftarrow> nonempty_loop [] values;
     if result = [] then None else Some result
   }"

text \<open>\<^verbatim>\<open>strings.Fields\<close>: the words between white space.\<close>

function fields_loop :: "string \<Rightarrow> string \<Rightarrow> string list" where
  "fields_loop word s =
     (let flush = (if word = [] then [] else [word]); n = match_len space_seqs s in
      if s = [] then flush
      else if n = 0 then fields_loop (word @ [hd s]) (tl s)
      else flush @ fields_loop [] (drop n s))"
  by pat_completeness auto
termination
  by (relation "measure (\<lambda>(word, s). length s)") auto

declare fields_loop.simps [simp del]

definition Fields :: "string \<Rightarrow> string list" where
  "Fields s = fields_loop [] s"

definition parseScopeString :: "string \<Rightarrow> string list option" where
  "parseScopeString scopeValue =
     (let s = TrimSpace scopeValue in
      if s = [] \<or> Fields s = [] then None else normalizeNonEmptyStringSlice (Fields s))"

definition scopeClaim :: "jwtClaims \<Rightarrow> string \<Rightarrow> string list option" where
  "scopeClaim claims key = do {
     v \<leftarrow> claim_value claims key;
     (case unmarshal_string v of
        Some single \<Rightarrow> parseScopeString single
      | None \<Rightarrow> do { multiple \<leftarrow> unmarshal_strings v; normalizeNonEmptyStringSlice multiple })
   }"

text \<open>\<^verbatim>\<open>time.Unix(sec, 0)\<close> for any 64-bit number of seconds; the count from the year 1 wraps around.\<close>

definition time_Unix64 :: "int \<Rightarrow> time" where
  "time_Unix64 sec = (((sec + 62135596800 + 2 ^ 63) mod 2 ^ 64) - 2 ^ 63) * second"

definition requiredUnixTimeClaim :: "jwtClaims \<Rightarrow> string \<Rightarrow> time option" where
  "requiredUnixTimeClaim claims key = do {
     v \<leftarrow> claim_value claims key;
     number \<leftarrow> unmarshal_number v;
     timestamp \<leftarrow> ParseInt64 number;
     Some (time_Unix64 timestamp)
   }"

definition optionalUnixTimeClaim :: "jwtClaims \<Rightarrow> string \<Rightarrow> time option option" where
  "optionalUnixTimeClaim claims key = (case claim_value claims key of
     None \<Rightarrow> Some None
   | Some v \<Rightarrow> map_option Some (requiredUnixTimeClaim claims key))"

definition containsString :: "string list \<Rightarrow> string \<Rightarrow> bool" where
  "containsString values target = list_ex (\<lambda>value. TrimSpace value = TrimSpace target) values"

record StandardClaims =
  sc_SubjectID :: string
  sc_SubjectType :: string
  sc_TenantID :: string
  sc_ClientID :: string
  sc_TokenID :: string
  sc_Scopes :: "string list"
  sc_Issuer :: string
  sc_Audience :: "string list"
  sc_IssuedAt :: time
  sc_ExpiresAt :: time

definition standardClaimsFromJWT :: "jwtClaims \<Rightarrow> time \<Rightarrow> StandardClaims option" where
  "standardClaimsFromJWT claims now = do {
     subjectID \<leftarrow> requiredStringClaim claims ''sub'';
     subjectType \<leftarrow> requiredSubjectTypeClaim claims ''subject_type'';
     tenantID \<leftarrow> requiredStringClaim claims ''tenant_id'';
     issuer \<leftarrow> requiredStringClaim claims ''iss'';
     audiences \<leftarrow> audienceClaim claims ''aud'';
     if \<not> containsString audiences RequiredAudience then None else do {
     issuedAt \<leftarrow> requiredUnixTimeClaim claims ''iat'';
     if now + maxIATFutureSkew < issuedAt then None else do {
     expiresAt \<leftarrow> requiredUnixTimeClaim claims ''exp'';
     if \<not> issuedAt < expiresAt then None
     else if \<not> now < expiresAt then None else do {
     notBefore \<leftarrow> optionalUnixTimeClaim claims ''nbf'';
     if (case notBefore of None \<Rightarrow> False | Some t \<Rightarrow> now < t) then None else do {
     scopes \<leftarrow> scopeClaim claims ''scope'';
     clientID \<leftarrow> optionalStringClaim claims ''client_id'';
     tokenID \<leftarrow> optionalStringClaim claims ''jti'';
     Some \<lparr>sc_SubjectID = subjectID, sc_SubjectType = subjectType, sc_TenantID = tenantID, sc_ClientID = clientID,
       sc_TokenID = tokenID, sc_Scopes = scopes, sc_Issuer = issuer, sc_Audience = audiences,
       sc_IssuedAt = issuedAt, sc_ExpiresAt = expiresAt\<rparr>
     }}}}}"

subsection \<open>Resolving a request\<close>

definition bearerTokenFromRequest :: "string \<Rightarrow> string option" where
  "bearerTokenFromRequest authorizationHeader =
     (let authorization = TrimSpace authorizationHeader; token = TrimSpace (drop 7 authorization) in
      if \<not> is_prefix ''bearer '' (ToLower authorization) then None
      else if token = [] then None else Some token)"

definition newUnauthorizedAuthError :: go_error where
  "newUnauthorizedAuthError = New CodeUnauthorized ''bearer token is missing or invalid'' []"

definition issuer_set :: "string list \<Rightarrow> string list" where
  "issuer_set values = filter (\<lambda>v. v \<noteq> []) (map TrimSpace values)"

definition verifiedKey :: "auth_env \<Rightarrow> jwtHeader \<Rightarrow> string \<Rightarrow> string \<Rightarrow> unit auth_action" where
  "verifiedKey env header signingInput signature =
     bindA (keySet_key env (jh_KeyID header)) (\<lambda>key.
     if verifyJWTWithKey header key signingInput signature then returnA ()
     else if \<not> isRemote env then throwA ()
     else bindA (refreshKey env (jh_KeyID header)) (\<lambda>key2.
       if verifyJWTWithKey header key2 signingInput signature then returnA () else throwA ()))"

definition liftO :: "'a option \<Rightarrow> 'a auth_action" where
  "liftO v = liftA (case v of None \<Rightarrow> Inl () | Some x \<Rightarrow> Inr x)"

definition auth_now :: "auth_env \<Rightarrow> time auth_action" where
  "auth_now env = (\<lambda>w. (Inr (ae_now env (aw_tick w)), w\<lparr>aw_tick := Suc (aw_tick w)\<rparr>))"

text \<open>
  \<open>authenticate\<close> is the body the two services share, up to the claims they read; every error
  becomes the same one.
\<close>

definition authenticate :: "auth_env \<Rightarrow> (jwtClaims \<Rightarrow> time \<Rightarrow> 'a option) \<Rightarrow> string \<Rightarrow> 'a auth_action" where
  "authenticate env read authorizationHeader =
     bindA (liftO (bearerTokenFromRequest authorizationHeader)) (\<lambda>token.
     bindA (liftO (parseJWT token)) (\<lambda>(header, claims, signingInput, signature).
     bindA (verifiedKey env header signingInput signature) (\<lambda>_.
     bindA (liftO (requiredStringClaim claims ''iss'')) (\<lambda>issuer.
     if issuer_set (ae_allowedIssuers env) \<noteq> [] \<and> issuer \<notin> set (issuer_set (ae_allowedIssuers env)) then throwA ()
     else bindA (auth_now env) (\<lambda>now. liftO (read claims now))))))"

definition unauthorized :: "'a auth_action \<Rightarrow> (auth_world, go_error, 'a) action" where
  "unauthorized m = (\<lambda>w. map_prod (map_sum (\<lambda>_. newUnauthorizedAuthError) id) id (m w))"

definition resolve :: "auth_env \<Rightarrow> string \<Rightarrow> (auth_world, go_error, StandardClaims) action" where
  "resolve env authorizationHeader = unauthorized (authenticate env standardClaimsFromJWT authorizationHeader)"

text \<open>
  The key set of a source: a document written inline, or an address that is fetched once at the
  start. \<open>parse_url\<close> is \<^verbatim>\<open>url.ParseRequestURI\<close> with the scheme and the text of the address.
\<close>

definition newJWKSKeySet ::
    "(string \<Rightarrow> (string \<times> string) option) \<Rightarrow> (nat \<Rightarrow> (int \<times> string) option) \<Rightarrow> string \<Rightarrow> (string \<times> jwkKey list) option" where
  "newJWKSKeySet parse_url fetch source =
     (let trimmed = TrimSpace source in
      if trimmed = [] then None
      else if is_prefix ''{'' trimmed then map_option (Pair []) (parseJWKS trimmed)
      else do {
        (scheme, address) \<leftarrow> parse_url trimmed;
        if scheme \<noteq> ''http'' \<and> scheme \<noteq> ''https'' then None
        else do { keys \<leftarrow> fetched_keys (fetch 0); Some (address, keys) }
      })"

end
