(* ===== verification/HttpTransport.thy ===== *)
theory HttpTransport
  imports DataplaneAuth Database "HOL-Library.Char_ord" "HOL-Library.List_Lexorder"
begin

text \<open>
  What the HTTP transports of the services share: requests and responses, the decoding of JSON
  bodies with \<^verbatim>\<open>DisallowUnknownFields\<close>, authentication, and the writing of results and errors.
  Each service has its own copy of these functions with the same text
  (\<^verbatim>\<open>transport/http/handler.go\<close>).

  A request is given by its method, the decoded segments of its path, the header values the code
  reads, the decoded query parameters and the body; \<open>hq_PathValue\<close> is the value of the wildcard
  of its route. A response body is a JSON value; it is None when there is none, or when the
  encoder refuses it (a time outside the years 0 to 9999). In a body with two members of the same
  name that hold arrays, the last array is taken. The text of a decoding error is a parameter.
\<close>

record http_request =
  hq_Method :: string
  hq_Segments :: "string list"
  hq_Authorization :: string
  hq_XRequestId :: string
  hq_IdempotencyKey :: string
  hq_ContentType :: string
  hq_PathValue :: string
  hq_Query :: "(string \<times> string) list"
  hq_ContentLength :: int
  hq_Body :: string

record http_response =
  hs_Status :: nat
  hs_XRequestId :: string
  hs_Location :: string
  hs_Body :: "json option"

text \<open>\<^verbatim>\<open>r.URL.Query().Get(key)\<close>: the first value, or the empty string.\<close>

definition query_Get :: "http_request \<Rightarrow> string \<Rightarrow> string" where
  "query_Get r key = (case map_of (hq_Query r) key of None \<Rightarrow> [] | Some v \<Rightarrow> v)"

definition fallbackRequestID :: string where "fallbackRequestID = ''generated-request-id''"

definition requestIDFromRequest :: "http_request \<Rightarrow> string \<Rightarrow> string" where
  "requestIDFromRequest r fallback =
     (if TrimSpace (hq_XRequestId r) \<noteq> [] then TrimSpace (hq_XRequestId r)
      else if TrimSpace fallback \<noteq> [] then TrimSpace fallback
      else fallbackRequestID)"

subsection \<open>Routes\<close>

text \<open>
  The patterns of \<^verbatim>\<open>http.ServeMux\<close>: a method (GET also serves HEAD) and segments, of which one may
  be a wildcard for a segment that is not empty. What the multiplexer answers itself (404, 405)
  is None.
\<close>

datatype segment = Lit string | Wildcard

fun match_segments :: "segment list \<Rightarrow> string list \<Rightarrow> string option" where
  "match_segments [] [] = Some []"
| "match_segments (Lit s # ps) (t # ts) = (if s = t then match_segments ps ts else None)"
| "match_segments (Wildcard # ps) (t # ts) = (if t = [] \<or> match_segments ps ts = None then None else Some t)"
| "match_segments _ _ = None"

definition method_matches :: "string \<Rightarrow> string \<Rightarrow> bool" where
  "method_matches pattern_method m \<longleftrightarrow> m = pattern_method \<or> pattern_method = ''GET'' \<and> m = ''HEAD''"

type_synonym 'h route = "string \<times> segment list \<times> 'h"

fun mux :: "'h route list \<Rightarrow> http_request \<Rightarrow> ('h \<times> string) option" where
  "mux [] r = None"
| "mux ((m, ps, handler) # routes) r =
     (case (if method_matches m (hq_Method r) then match_segments ps (hq_Segments r) else None) of
        Some v \<Rightarrow> Some (handler, v)
      | None \<Rightarrow> mux routes r)"

subsection \<open>Bodies\<close>

text \<open>
  The decoder reads one value and leaves what follows it. After an object it stops at once; after
  null it looks at the next byte.
\<close>

definition decode_object :: "string \<Rightarrow> (string \<times> json) list option" where
  "decode_object body = (case json_value (Suc (2 * length body)) 10000 body of
     Some (JObj ms, rest) \<Rightarrow> Some ms
   | Some (JNull, rest) \<Rightarrow> if rest = [] \<or> is_ws (hd rest) then Some [] else None
   | _ \<Rightarrow> None)"

definition known_fields :: "string list \<Rightarrow> (string \<times> json) list \<Rightarrow> bool" where
  "known_fields names ms = list_all (\<lambda>(k, v). list_ex (\<lambda>n. json_fold k = json_fold n) names) ms"

definition all_members :: "string \<Rightarrow> (string \<times> json) list \<Rightarrow> json list" where
  "all_members name ms = map snd (filter (\<lambda>(k, v). json_fold k = json_fold name) ms)"

text \<open>A pointer field: null sets it to nil, and the last member decides.\<close>

definition ptr_field :: "(json \<Rightarrow> 'a option) \<Rightarrow> string \<Rightarrow> (string \<times> json) list \<Rightarrow> 'a option option" where
  "ptr_field decode name ms =
     (let vs = all_members name ms in
      if list_all (\<lambda>v. v = JNull \<or> decode v \<noteq> None) vs
      then Some (if vs = [] \<or> last vs = JNull then None else decode (last vs))
      else None)"

definition decode_str :: "json \<Rightarrow> string option" where
  "decode_str v = (case v of JStr s \<Rightarrow> Some s | _ \<Rightarrow> None)"

definition decode_int :: "json \<Rightarrow> int option" where
  "decode_int v = (case v of JNum t \<Rightarrow> ParseInt64 t | _ \<Rightarrow> None)"

definition decode_bool :: "json \<Rightarrow> bool option" where
  "decode_bool v = (case v of JBool b \<Rightarrow> Some b | _ \<Rightarrow> None)"

definition decode_strs :: "json \<Rightarrow> string list option" where
  "decode_strs v = (case v of JArr vs \<Rightarrow> those (map unmarshal_string vs) | _ \<Rightarrow> None)"

definition decode_list :: "((string \<times> json) list \<Rightarrow> 'a option) \<Rightarrow> json \<Rightarrow> 'a list option" where
  "decode_list decode v = (case v of
     JArr vs \<Rightarrow> those (map (\<lambda>e. case e of JObj ms \<Rightarrow> decode ms | JNull \<Rightarrow> decode [] | _ \<Rightarrow> None) vs)
   | _ \<Rightarrow> None)"

text \<open>Unknown fields are refused in the objects inside the body, too.\<close>

definition struct_of :: "string list \<Rightarrow> ((string \<times> json) list \<Rightarrow> 'a option) \<Rightarrow> (string \<times> json) list \<Rightarrow> 'a option" where
  "struct_of names decode ms = (if known_fields names ms then decode ms else None)"

text \<open>A pointer to a struct: objects are decoded into the same struct until null sets the pointer to nil.\<close>

fun merged_objects :: "(string \<times> json) list option \<Rightarrow> json list \<Rightarrow> (string \<times> json) list option option" where
  "merged_objects acc [] = Some acc"
| "merged_objects acc (JNull # vs) = merged_objects None vs"
| "merged_objects acc (JObj ms # vs) = merged_objects (Some ((case acc of None \<Rightarrow> [] | Some ms0 \<Rightarrow> ms0) @ ms)) vs"
| "merged_objects acc (_ # vs) = None"

definition ptr_struct_field ::
    "((string \<times> json) list \<Rightarrow> 'a option) \<Rightarrow> string \<Rightarrow> (string \<times> json) list \<Rightarrow> 'a option option" where
  "ptr_struct_field decode name ms = do {
     object \<leftarrow> merged_objects None (all_members name ms);
     (case object of None \<Rightarrow> Some None | Some fs \<Rightarrow> map_option Some (decode fs))
   }"

text \<open>
  \<^verbatim>\<open>decodeJSON\<close> for a struct whose fields \<open>decode\<close> reads; \<open>reason\<close> is the text of the decoder's error.
\<close>

definition decodeJSON :: "(string \<Rightarrow> string) \<Rightarrow> string list \<Rightarrow> ((string \<times> json) list \<Rightarrow> 'a option) \<Rightarrow> string \<Rightarrow> 'a result" where
  "decodeJSON reason names decode body =
     (case do { ms \<leftarrow> decode_object body; struct_of names decode ms } of
        Some request \<Rightarrow> Inr request
      | None \<Rightarrow> Inl (New CodeInvalidArgument ''request validation failed''
          [(''field'', DStr ''body''), (''reason'', DStr (reason body))]))"

definition hasBody :: "http_request \<Rightarrow> bool" where
  "hasBody r \<longleftrightarrow> 0 < hq_ContentLength r \<or> hq_ContentLength r = -1"

text \<open>\<^verbatim>\<open>time.Duration(n) * time.Second\<close> in 64 bits.\<close>

definition seconds64 :: "int \<Rightarrow> duration" where
  "seconds64 n = ((n * second + 2 ^ 63) mod 2 ^ 64) - 2 ^ 63"

subsection \<open>Responses\<close>

text \<open>The members of a response struct; a member that cannot be encoded makes the whole body fail.\<close>

type_synonym json_members = "(string \<times> json) list option"

definition members :: "json_members list \<Rightarrow> json option" where
  "members ms = map_option (\<lambda>xs. JObj (concat xs)) (those ms)"

definition m_str :: "string \<Rightarrow> string \<Rightarrow> json_members" where "m_str k v = Some [(k, JStr v)]"
definition m_str_omitempty :: "string \<Rightarrow> string \<Rightarrow> json_members" where "m_str_omitempty k v = Some (if v = [] then [] else [(k, JStr v)])"
definition m_int :: "string \<Rightarrow> int \<Rightarrow> json_members" where "m_int k v = Some [(k, JNum (Itoa v))]"
definition m_int_omitempty :: "string \<Rightarrow> int \<Rightarrow> json_members" where "m_int_omitempty k v = Some (if v = 0 then [] else [(k, JNum (Itoa v))])"
definition m_bool :: "string \<Rightarrow> bool \<Rightarrow> json_members" where "m_bool k v = Some [(k, JBool v)]"
definition m_time :: "string \<Rightarrow> time \<Rightarrow> json_members" where "m_time k t = map_option (\<lambda>v. [(k, v)]) (time_json t)"
definition m_ptr :: "('a \<Rightarrow> json_members) \<Rightarrow> 'a option \<Rightarrow> json_members" where
  "m_ptr f v = (case v of None \<Rightarrow> Some [] | Some x \<Rightarrow> f x)"
definition m_strs_omitempty :: "string \<Rightarrow> string list \<Rightarrow> json_members" where
  "m_strs_omitempty k vs = Some (if vs = [] then [] else [(k, JArr (map JStr vs))])"
definition m_list :: "string \<Rightarrow> json option list \<Rightarrow> json_members" where "m_list k vs = map_option (\<lambda>js. [(k, JArr js)]) (those vs)"
definition m_json :: "string \<Rightarrow> json option \<Rightarrow> json_members" where "m_json k v = map_option (\<lambda>j. [(k, j)]) v"

text \<open>Maps are written in the order of their keys.\<close>

definition json_map :: "(string \<times> json) list \<Rightarrow> json" where
  "json_map kvs = JObj (map (\<lambda>k. (k, the (map_of kvs k))) (sort (remdups (map fst kvs))))"

definition m_map_omitempty :: "string \<Rightarrow> (string \<times> string) list \<Rightarrow> json_members" where
  "m_map_omitempty k kvs = Some (if kvs = [] then [] else [(k, json_map (map (\<lambda>(a, b). (a, JStr b)) kvs))])"

fun dval_json :: "dval \<Rightarrow> json" where
  "dval_json (DStr s) = JStr s"
| "dval_json (DInt i) = JNum (Itoa i)"
| "dval_json (DStrs ss) = JArr (map JStr ss)"

definition writeJSON :: "nat \<Rightarrow> string \<Rightarrow> json option \<Rightarrow> http_response" where
  "writeJSON status requestID payload = \<lparr>hs_Status = status, hs_XRequestId = requestID, hs_Location = [], hs_Body = payload\<rparr>"

definition envelope :: "string \<Rightarrow> json option \<Rightarrow> json option" where
  "envelope requestID data = members [m_str ''requestId'' requestID, m_json ''data'' data]"

text \<open>\<^verbatim>\<open>errors.As\<close> to \<^verbatim>\<open>*xerrors.Error\<close>: the first one, also inside joined errors.\<close>

fun errors_As :: "go_error \<Rightarrow> go_error option" where
  "errors_As (XError code message details err) = Some (XError code message details err)"
| "errors_As (ErrorfW s err) = errors_As err"
| "errors_As (Sentinel s) = None"
| "errors_As (Errorf s) = None"
| "errors_As (Joined []) = None"
| "errors_As (Joined (e # es)) = (case errors_As e of None \<Rightarrow> errors_As (Joined es) | Some x \<Rightarrow> Some x)"

definition writeError :: "string \<Rightarrow> go_error \<Rightarrow> http_response" where
  "writeError requestID err =
     (let coded = (case errors_As err of None \<Rightarrow> Wrap CodeInternalError ''internal server error'' err [] | Some e \<Rightarrow> e);
          id = (if requestID = [] then fallbackRequestID else requestID)
      in writeJSON (HTTPStatus coded) id
           (members [m_str ''requestId'' id,
              m_json ''error'' (members [m_str ''code'' (xe_Code coded), m_str ''message'' (xe_Message coded),
                Some (if xe_Details coded = [] then []
                  else [(''details'', json_map (map (\<lambda>(k, v). (k, dval_json v)) (xe_Details coded)))])])]))"

definition writeRedirect :: "string \<Rightarrow> string \<Rightarrow> http_response" where
  "writeRedirect requestID location =
     \<lparr>hs_Status = 302, hs_XRequestId = (if requestID = [] then fallbackRequestID else requestID), hs_Location = location, hs_Body = None\<rparr>"

subsection \<open>Handling a request\<close>

text \<open>
  The state of a server: the cached keys of its token verifier, the state its use cases work on,
  and the counters of the \<^verbatim>\<open>MetricsRecorder\<close>, as the list of the calls.
\<close>

datatype metric = RecordSessionCreate | RecordSessionComplete | RecordSessionCompleteFailure Code | RecordSessionAbort
  | RecordFileGet | RecordAccessTicketIssue | RecordDownloadRedirect | RecordDownloadRedirectFailure Code
  | RecordAccessTicketVerifyFailure Code

record 'w server_world =
  sv_auth :: auth_world
  sv_world :: 'w
  sv_metrics :: "metric list"

type_synonym ('w, 'a) server_action = "('w server_world, go_error, 'a) action"

type_synonym 'w handler_func = "http_request \<Rightarrow> 'w server_world \<Rightarrow> http_response \<times> 'w server_world"

definition onAuth :: "(auth_world, go_error, 'a) action \<Rightarrow> ('w, 'a) server_action" where
  "onAuth m = (\<lambda>s. case m (sv_auth s) of (r, a) \<Rightarrow> (r, s\<lparr>sv_auth := a\<rparr>))"

definition onApp :: "('w, go_error, 'a) action \<Rightarrow> ('w, 'a) server_action" where
  "onApp m = (\<lambda>s. case m (sv_world s) of (r, w) \<Rightarrow> (r, s\<lparr>sv_world := w\<rparr>))"

definition count_metric :: "metric \<Rightarrow> ('w, unit) server_action" where
  "count_metric m = (\<lambda>s. (Inr (), s\<lparr>sv_metrics := sv_metrics s @ [m]\<rparr>))"

text \<open>An error that is counted before it is answered.\<close>

definition countErr :: "(Code \<Rightarrow> metric list) \<Rightarrow> ('w, 'a) server_action \<Rightarrow> ('w, 'a) server_action" where
  "countErr f m = (\<lambda>s. case m s of
     (Inl err, s') \<Rightarrow> (Inl err, s'\<lparr>sv_metrics := sv_metrics s' @ f (CodeOf err)\<rparr>)
   | (Inr x, s') \<Rightarrow> (Inr x, s'))"

text \<open>
  \<^verbatim>\<open>Handler.authenticate\<close>: the bearer check, then the resolver of the options; \<open>set_id\<close> stores the
  request id in the identity.
\<close>

definition handler_authenticate ::
    "(http_request \<Rightarrow> (auth_world, go_error, 'auth) action) option \<Rightarrow> ('auth \<Rightarrow> string) \<Rightarrow> (string \<Rightarrow> 'auth \<Rightarrow> 'auth) \<Rightarrow>
     http_request \<Rightarrow> ('w, 'auth \<times> string) server_action" where
  "handler_authenticate resolver get_id set_id r =
     bindA (liftA (failIf (bearerTokenFromRequest (hq_Authorization r) = None) newUnauthorizedAuthError)) (\<lambda>_.
     case resolver of
       None \<Rightarrow> throwA newUnauthorizedAuthError
     | Some resolve_request \<Rightarrow>
         bindA (onAuth (resolve_request r)) (\<lambda>auth.
         let id = requestIDFromRequest r (get_id auth) in returnA (set_id id auth, id)))"

text \<open>A handler: authenticate, run, and write the answer or the error.\<close>

definition serve ::
    "(http_request \<Rightarrow> ('w, 'auth \<times> string) server_action) \<Rightarrow>
     (http_request \<Rightarrow> 'auth \<Rightarrow> string \<Rightarrow> ('w, http_response) server_action) \<Rightarrow> 'w handler_func" where
  "serve authenticate_request handle r s = (case authenticate_request r s of
     (Inl err, s1) \<Rightarrow> (writeError (requestIDFromRequest r []) err, s1)
   | (Inr (auth, requestID), s1) \<Rightarrow>
       (case handle r auth requestID s1 of
          (Inl err, s2) \<Rightarrow> (writeError requestID err, s2)
        | (Inr response, s2) \<Rightarrow> (response, s2)))"

text \<open>The check for a use case that is not configured (a nil interface).\<close>

definition configured :: "'u option \<Rightarrow> string \<Rightarrow> ('w, 'u) server_action" where
  "configured useCase name = (case useCase of
     None \<Rightarrow> throwA (New CodeInternalError (name @ '' handler is not configured'') [])
   | Some u \<Rightarrow> returnA u)"

text \<open>A request to a server: the route of the multiplexer, and its handler.\<close>

definition ServeHTTP :: "'w handler_func route list \<Rightarrow> http_request \<Rightarrow> 'w server_world \<Rightarrow> (http_response \<times> 'w server_world) option" where
  "ServeHTTP routes r s = (case mux routes r of
     None \<Rightarrow> None
   | Some (handler, v) \<Rightarrow> Some (handler (r\<lparr>hq_PathValue := v\<rparr>) s))"

end
