(* ===== verification/HttpLaws.thy ===== *)
theory HttpLaws
  imports HttpTransport
begin

text \<open>
  Laws of the HTTP layer that the three services share: a request is answered by a handler of the
  route table; without an accepted token the answer is 401 and the application is not entered;
  and a frame condition of the application carries over to a whole handler.
\<close>

subsection \<open>Routes\<close>

lemma mux_Some: "mux routes r = Some (handler, v) \<Longrightarrow> \<exists>m ps. (m, ps, handler) \<in> set routes \<and> method_matches m (hq_Method r)"
  by (induction routes r rule: mux.induct) (auto split: option.splits if_splits)

lemma ServeHTTP_Some:
  "ServeHTTP routes r s = Some out \<Longrightarrow>
     \<exists>m ps handler v. (m, ps, handler) \<in> set routes \<and> method_matches m (hq_Method r) \<and> out = handler (r\<lparr>hq_PathValue := v\<rparr>) s"
  by (fastforce simp: ServeHTTP_def dest: mux_Some split: option.splits)

subsection \<open>Frames of the application\<close>

locale app_frame = frame R for R :: "'w \<Rightarrow> 'w \<Rightarrow> bool"

sublocale app_frame \<subseteq> server: frame "\<lambda>(s :: 'w server_world) s'. sv_auth s' = sv_auth s \<and> R (sv_world s) (sv_world s')"
  by unfold_locales (auto intro: R_refl R_trans)

context app_frame
begin

lemma server_onApp:
  assumes "keeps m"
  shows "server.keeps (onApp m)"
proof (rule server.keepsI)
  fix s r s' assume "onApp m s = (r, s')"
  moreover obtain q w where m: "m (sv_world s) = (q, w)" by (cases "m (sv_world s)")
  moreover have "R (sv_world s) w" using assms m by (rule keepsD)
  ultimately show "sv_auth s' = sv_auth s \<and> R (sv_world s) (sv_world s')" by (auto simp: onApp_def)
qed

lemma server_count: "server.keeps (count_metric m)"
  by (rule server.keepsI) (auto simp: count_metric_def R_refl)

lemma server_countErr:
  assumes "server.keeps m"
  shows "server.keeps (countErr f m)"
proof (rule server.keepsI)
  fix s r s' assume run: "countErr f m s = (r, s')"
  obtain q s1 where m: "m s = (q, s1)" by (cases "m s")
  have "sv_auth s1 = sv_auth s \<and> R (sv_world s) (sv_world s1)" using assms m by (rule server.keepsD)
  with run m show "sv_auth s' = sv_auth s \<and> R (sv_world s) (sv_world s')" by (auto simp: countErr_def split: sum.splits)
qed

lemma server_configured: "server.keeps (configured u name)"
  unfolding configured_def by (intro server.keeps_rules)

lemma server_use_case:
  assumes "\<And>x. u = Some x \<Longrightarrow> server.keeps (k x)"
  shows "server.keeps (bindA (configured u name) k)"
  using assms by (cases u) (simp_all add: configured_def server.keeps_pure)

lemmas server_rules = server_use_case server.keeps_rules server_onApp server_count server_countErr

end

interpretation same_app: app_frame "\<lambda>w w'. w' = w"
  by unfold_locales simp_all

lemma throwA_same: "same_app.keeps (throwA e)"
  by (rule same_app.keeps_pure)

subsection \<open>Authentication\<close>

lemma requestID_path [simp]: "requestIDFromRequest (r\<lparr>hq_PathValue := v\<rparr>) f = requestIDFromRequest r f"
  by (simp add: requestIDFromRequest_def)

lemma requestID_idem: "requestIDFromRequest r (requestIDFromRequest r []) = requestIDFromRequest r []"
proof -
  have "TrimSpace fallbackRequestID = fallbackRequestID" by code_simp
  then show ?thesis by (simp add: requestIDFromRequest_def)
qed

lemma unauthorized_response: "hs_Status (writeError i newUnauthorizedAuthError) = 401"
proof -
  have "HTTPStatus newUnauthorizedAuthError = 401" by code_simp
  moreover have "errors_As newUnauthorizedAuthError = Some newUnauthorizedAuthError"
    by (simp add: newUnauthorizedAuthError_def New_def)
  ultimately show ?thesis by (simp add: writeError_def writeJSON_def Let_def)
qed

lemma authenticate_no_bearer:
  "bearerTokenFromRequest hdr = None \<Longrightarrow> unauthorized (authenticate aenv rd hdr) a = (Inl newUnauthorizedAuthError, a)"
  by (simp add: unauthorized_def authenticate_def liftO_def liftA_def throwA_def bindA_def)

text \<open>
  The authentication of a handler with a resolver that answers 401 without a bearer token: the
  resolver decides, and only the cached keys change.
\<close>

lemma handler_authenticate_run:
  assumes "\<And>a. bearerTokenFromRequest (hq_Authorization r) = None \<Longrightarrow> resolver r a = (Inl newUnauthorizedAuthError, a)"
    and "\<And>a auth a'. resolver r a = (Inr auth, a') \<Longrightarrow> get_id auth = requestIDFromRequest r []"
  shows "handler_authenticate (Some resolver) get_id set_id r s = (case resolver r (sv_auth s) of
      (Inl e, a) \<Rightarrow> (Inl e, s\<lparr>sv_auth := a\<rparr>)
    | (Inr auth, a) \<Rightarrow> (Inr (set_id (requestIDFromRequest r []) auth, requestIDFromRequest r []), s\<lparr>sv_auth := a\<rparr>))"
proof (cases "bearerTokenFromRequest (hq_Authorization r) = None")
  case True
  with assms(1) show ?thesis by (simp add: handler_authenticate_def throwA_def)
next
  case False
  with assms(2) requestID_idem show ?thesis
    by (auto simp: handler_authenticate_def bindA_def onAuth_def returnA_def Let_def split: prod.splits sum.splits)
qed

lemma serve_rejected:
  "A r s = (Inl newUnauthorizedAuthError, s1) \<Longrightarrow> serve A H r s = (resp, s') \<Longrightarrow> s' = s1 \<and> hs_Status resp = 401"
  by (auto simp: serve_def unauthorized_response)

lemma serve_accepted:
  "A r s = (Inr (auth, i), s1) \<Longrightarrow> serve A H r s = (resp, s') \<Longrightarrow> \<exists>q. H r auth i s1 = (q, s')"
  by (auto simp: serve_def split: prod.splits sum.splits)

subsection \<open>Bodies\<close>

lemma decode_object_render:
  assumes "wf_json (JObj ms)" and "json_depth (JObj ms) \<le> 10000"
  shows "decode_object (json_render (JObj ms)) = Some ms"
  using json_round_trip [OF assms] by (auto simp: decode_object_def json_parse_def split: option.splits if_splits)

lemma decodeJSON_render:
  assumes "wf_json (JObj ms)" and "json_depth (JObj ms) \<le> 10000" and "known_fields names ms" and "decode ms = Some x"
  shows "decodeJSON reason names decode (json_render (JObj ms)) = Inr x"
  unfolding decodeJSON_def decode_object_render [OF assms(1,2)] by (simp add: struct_of_def assms(3,4))

end
