(* ===== verification/UploadHTTP.thy ===== *)
theory UploadHTTP
  imports HttpTransport UploadComplete
begin

text \<open>
  The HTTP interface of the upload service (\<^verbatim>\<open>upload/transport/http\<close>) and its composition with the
  use cases (\<^verbatim>\<open>upload/runtime\<close>). The options are a record of use cases, each of which may be
  missing; \<open>uo_reason\<close> is the text of the JSON decoder's errors. Streams are read by the storage,
  so a body is only known to be there.
\<close>

subsection \<open>Options\<close>

record 'w upload_options =
  uo_Auth :: "(http_request \<Rightarrow> (auth_world, go_error, AuthContext) action) option"
  uo_MaxInlineBodyBytes :: int
  uo_CreateUploadSession :: "(CreateUploadSessionCommand \<Rightarrow> ('w, go_error, UploadSessionView) action) option"
  uo_GetUploadSession :: "(UploadSessionQuery \<Rightarrow> ('w, go_error, UploadSessionView) action) option"
  uo_UploadInlineContent :: "(UploadInlineContentCommand \<Rightarrow> ('w, go_error, UploadSessionView) action) option"
  uo_PresignMultipartParts :: "(PresignMultipartPartsCommand \<Rightarrow> ('w, go_error, PresignedPart list) action) option"
  uo_ListUploadedParts :: "(UploadSessionQuery \<Rightarrow> ('w, go_error, UploadedPartView list) action) option"
  uo_CompleteUploadSession :: "(CompleteUploadSessionCommand \<Rightarrow> ('w, go_error, CompletedUploadSession) action) option"
  uo_AbortUploadSession :: "(AbortUploadSessionCommand \<Rightarrow> ('w, go_error, UploadSessionView) action) option"
  uo_reason :: "string \<Rightarrow> string"

definition upload_authenticate :: "'w upload_options \<Rightarrow> http_request \<Rightarrow> ('w, AuthContext \<times> string) server_action" where
  "upload_authenticate h = handler_authenticate (uo_Auth h) ac_RequestID (\<lambda>id auth. auth\<lparr>ac_RequestID := id\<rparr>)"

subsection \<open>Request bodies\<close>

record contentHashRequest =
  hr_Algorithm :: string
  hr_Value :: string

definition decode_contentHashRequest :: "(string \<times> json) list \<Rightarrow> contentHashRequest option" where
  "decode_contentHashRequest = struct_of [''algorithm'', ''value''] (\<lambda>ms. do {
     algorithm \<leftarrow> str_field ''algorithm'' ms; v \<leftarrow> str_field ''value'' ms;
     Some \<lparr>hr_Algorithm = algorithm, hr_Value = v\<rparr> })"

definition toContentHash :: "contentHashRequest option \<Rightarrow> ContentHash option" where
  "toContentHash hash = (case hash of
     None \<Rightarrow> None
   | Some h \<Rightarrow> Some \<lparr>ch_Algorithm = TrimSpace (hr_Algorithm h), ch_Value = TrimSpace (hr_Value h)\<rparr>)"

text \<open>A map of strings; null entries are empty strings, and null is the empty map.\<close>

definition str_map_field :: "string \<Rightarrow> (string \<times> json) list \<Rightarrow> (string \<times> string) list option" where
  "str_map_field name ms = do {
     object \<leftarrow> merged_objects None (all_members name ms);
     those (map (\<lambda>(k, v). map_option (Pair k) (unmarshal_string v)) (case object of None \<Rightarrow> [] | Some kvs \<Rightarrow> kvs)) }"

record createUploadSessionRequest =
  cq_FileName :: string
  cq_ContentType :: string
  cq_SizeBytes :: int
  cq_ContentHash :: "contentHashRequest option"
  cq_AccessLevel :: string
  cq_UploadMode :: string
  cq_TotalParts :: int
  cq_Metadata :: "(string \<times> string) list"

definition decode_createUploadSession :: "(string \<times> json) list \<Rightarrow> createUploadSessionRequest option" where
  "decode_createUploadSession ms = do {
     fileName \<leftarrow> str_field ''fileName'' ms; contentType \<leftarrow> str_field ''contentType'' ms;
     sizeBytes \<leftarrow> int_field ''sizeBytes'' ms;
     contentHash \<leftarrow> ptr_struct_field decode_contentHashRequest ''contentHash'' ms;
     accessLevel \<leftarrow> str_field ''accessLevel'' ms; uploadMode \<leftarrow> str_field ''uploadMode'' ms;
     totalParts \<leftarrow> int_field ''totalParts'' ms; metadata \<leftarrow> str_map_field ''metadata'' ms;
     Some \<lparr>cq_FileName = fileName, cq_ContentType = contentType, cq_SizeBytes = sizeBytes, cq_ContentHash = contentHash,
       cq_AccessLevel = accessLevel, cq_UploadMode = uploadMode, cq_TotalParts = totalParts, cq_Metadata = metadata\<rparr> }"

definition createUploadSession_fields :: "string list" where
  "createUploadSession_fields =
     [''fileName'', ''contentType'', ''sizeBytes'', ''contentHash'', ''accessLevel'', ''uploadMode'', ''totalParts'', ''metadata'']"

definition list_field :: "((string \<times> json) list \<Rightarrow> 'a option) \<Rightarrow> string \<Rightarrow> (string \<times> json) list \<Rightarrow> 'a list option" where
  "list_field decode name ms = map_option (\<lambda>v. case v of None \<Rightarrow> [] | Some xs \<Rightarrow> xs) (ptr_field (decode_list decode) name ms)"

definition decode_presignPart :: "(string \<times> json) list \<Rightarrow> int option" where
  "decode_presignPart = struct_of [''partNumber''] (int_field ''partNumber'')"

definition decode_presignMultipartParts :: "(string \<times> json) list \<Rightarrow> (int \<times> int list) option" where
  "decode_presignMultipartParts ms = do {
     expiresInSeconds \<leftarrow> int_field ''expiresInSeconds'' ms; parts \<leftarrow> list_field decode_presignPart ''parts'' ms;
     Some (expiresInSeconds, parts) }"

text \<open>The checksum of a part is not in the request.\<close>

definition decode_uploadedPart :: "(string \<times> json) list \<Rightarrow> UploadedPart option" where
  "decode_uploadedPart = struct_of [''partNumber'', ''etag'', ''sizeBytes''] (\<lambda>ms. do {
     partNumber \<leftarrow> int_field ''partNumber'' ms; etag \<leftarrow> str_field ''etag'' ms; sizeBytes \<leftarrow> int_field ''sizeBytes'' ms;
     Some \<lparr>pt_PartNumber = partNumber, pt_ETag = etag, pt_SizeBytes = sizeBytes, pt_Checksum = []\<rparr> })"

definition decode_completeUploadSession :: "(string \<times> json) list \<Rightarrow> (UploadedPart list \<times> contentHashRequest option) option" where
  "decode_completeUploadSession ms = do {
     uploadedParts \<leftarrow> list_field decode_uploadedPart ''uploadedParts'' ms;
     contentHash \<leftarrow> ptr_struct_field decode_contentHashRequest ''contentHash'' ms;
     Some (uploadedParts, contentHash) }"

subsection \<open>Answers\<close>

definition cloneStringMap :: "(string \<times> string) list \<Rightarrow> (string \<times> string) list" where
  "cloneStringMap value = (if length value = 0 then [] else map (\<lambda>(key, entry). (key, entry)) value)"

definition mapUploadSession :: "UploadSessionView \<Rightarrow> json option" where
  "mapUploadSession v = members [
     m_str ''uploadSessionId'' (v_UploadSessionID v), m_str ''tenantId'' (v_TenantID v),
     m_str ''uploadMode'' (mode_string (v_UploadMode v)), m_str ''status'' (status_string (v_Status v)),
     m_str ''fileName'' (v_FileName v), m_str ''contentType'' (v_ContentType v),
     m_int_omitempty ''sizeBytes'' (v_SizeBytes v), m_str ''accessLevel'' (access_level_string (v_AccessLevel v)),
     m_int_omitempty ''totalParts'' (v_TotalParts v), m_int_omitempty ''uploadedParts'' (v_UploadedParts v),
     m_str_omitempty ''putUrl'' (v_PutURL v), m_map_omitempty ''putHeaders'' (cloneStringMap (v_PutHeaders v)),
     m_str_omitempty ''fileId'' (v_FileID v), m_time ''createdAt'' (v_CreatedAt v), m_time ''updatedAt'' (v_UpdatedAt v),
     m_ptr (m_time ''completedAt'') (v_CompletedAt v)]"

definition presignedPart_json :: "PresignedPart \<Rightarrow> json option" where
  "presignedPart_json p = members [m_int ''partNumber'' (pp_PartNumber p), m_str ''url'' (pp_URL p),
     m_map_omitempty ''headers'' (cloneStringMap (pp_Headers p)), m_time ''expiresAt'' (pp_ExpiresAt p)]"

definition uploadedPart_json :: "UploadedPartView \<Rightarrow> json option" where
  "uploadedPart_json p = members [m_int ''partNumber'' (uv_PartNumber p), m_str ''etag'' (uv_ETag p),
     m_int_omitempty ''sizeBytes'' (uv_SizeBytes p)]"

definition answerSession :: "nat \<Rightarrow> string \<Rightarrow> UploadSessionView \<Rightarrow> http_response" where
  "answerSession status requestID result = writeJSON status requestID (envelope requestID (mapUploadSession result))"

subsection \<open>Handlers\<close>

text \<open>The conversions of a string to the named string types.\<close>

definition to_AccessLevel :: "string \<Rightarrow> AccessLevel" where
  "to_AccessLevel s = (if s = ''PUBLIC'' then AccessLevelPublic else if s = ''PRIVATE'' then AccessLevelPrivate else AccessLevelOther s)"

definition to_SessionMode :: "string \<Rightarrow> SessionMode" where
  "to_SessionMode s =
     (if s = ''INLINE'' then SessionModeInline else if s = ''PRESIGNED_SINGLE'' then SessionModePresignedSingle
      else if s = ''DIRECT'' then SessionModeDirect else SessionModeOther s)"

text \<open>The command has a field for the metadata, which its handler does not read.\<close>

definition createCommand :: "http_request \<Rightarrow> AuthContext \<Rightarrow> createUploadSessionRequest \<Rightarrow> CreateUploadSessionCommand" where
  "createCommand r auth request = \<lparr>
     cu_FileName = TrimSpace (cq_FileName request), cu_ContentType = TrimSpace (cq_ContentType request),
     cu_SizeBytes = cq_SizeBytes request, cu_ContentHash = toContentHash (cq_ContentHash request),
     cu_AccessLevel = to_AccessLevel (TrimSpace (cq_AccessLevel request)),
     cu_UploadMode = to_SessionMode (TrimSpace (cq_UploadMode request)), cu_TotalParts = cq_TotalParts request,
     cu_IdempotencyKey = TrimSpace (hq_IdempotencyKey r), cu_Auth = auth\<rparr>"

definition handleCreateUploadSession :: "'w upload_options \<Rightarrow> 'w handler_func" where
  "handleCreateUploadSession h = serve (upload_authenticate h) (\<lambda>r auth requestID.
     bindA (configured (uo_CreateUploadSession h) ''create upload session'') (\<lambda>useCase.
     bindA (liftA (decodeJSON (uo_reason h) createUploadSession_fields decode_createUploadSession (hq_Body r))) (\<lambda>request.
     bindA (onApp (useCase (createCommand r auth request))) (\<lambda>result.
     bindA (count_metric RecordSessionCreate) (\<lambda>_.
     returnA (answerSession 201 requestID result))))))"

definition sessionQuery :: "http_request \<Rightarrow> AuthContext \<Rightarrow> UploadSessionQuery" where
  "sessionQuery r auth = \<lparr>q_UploadSessionID = TrimSpace (hq_PathValue r), q_Auth = auth\<rparr>"

definition handleGetUploadSession :: "'w upload_options \<Rightarrow> 'w handler_func" where
  "handleGetUploadSession h = serve (upload_authenticate h) (\<lambda>r auth requestID.
     bindA (configured (uo_GetUploadSession h) ''get upload session'') (\<lambda>useCase.
     bindA (onApp (useCase (sessionQuery r auth))) (\<lambda>result.
     returnA (answerSession 200 requestID result))))"

definition handleUploadInlineContent :: "'w upload_options \<Rightarrow> 'w handler_func" where
  "handleUploadInlineContent h = serve (upload_authenticate h) (\<lambda>r auth requestID.
     bindA (configured (uo_UploadInlineContent h) ''upload inline content'') (\<lambda>useCase.
     bindA (liftA (failIf (0 < uo_MaxInlineBodyBytes h \<and> uo_MaxInlineBodyBytes h < hq_ContentLength r)
       (New CodePayloadTooLarge ''inline upload payload exceeds configured limit''
          [(''limit'', DInt (uo_MaxInlineBodyBytes h)), (''field'', DStr ''sizeBytes'')]))) (\<lambda>_.
     bindA (onApp (useCase \<lparr>ic_UploadSessionID = TrimSpace (hq_PathValue r), ic_ContentType = TrimSpace (hq_ContentType r),
       ic_HasBody = True, ic_Auth = auth\<rparr>)) (\<lambda>result.
     returnA (answerSession 200 requestID result)))))"

definition handlePresignMultipartParts :: "'w upload_options \<Rightarrow> 'w handler_func" where
  "handlePresignMultipartParts h = serve (upload_authenticate h) (\<lambda>r auth requestID.
     bindA (configured (uo_PresignMultipartParts h) ''presign multipart parts'') (\<lambda>useCase.
     bindA (liftA (decodeJSON (uo_reason h) [''expiresInSeconds'', ''parts''] decode_presignMultipartParts (hq_Body r)))
       (\<lambda>(expiresInSeconds, parts).
     bindA (onApp (useCase \<lparr>pc_UploadSessionID = TrimSpace (hq_PathValue r), pc_ExpiresIn = seconds64 expiresInSeconds,
       pc_Parts = parts, pc_Auth = auth\<rparr>)) (\<lambda>result.
     returnA (writeJSON 200 requestID
       (envelope requestID (members [m_list ''parts'' (map presignedPart_json result)])))))))"

definition handleListUploadedParts :: "'w upload_options \<Rightarrow> 'w handler_func" where
  "handleListUploadedParts h = serve (upload_authenticate h) (\<lambda>r auth requestID.
     bindA (configured (uo_ListUploadedParts h) ''list uploaded parts'') (\<lambda>useCase.
     bindA (onApp (useCase (sessionQuery r auth))) (\<lambda>result.
     returnA (writeJSON 200 requestID
       (envelope requestID (members [m_list ''parts'' (map uploadedPart_json result)]))))))"

definition handleCompleteUploadSession :: "'w upload_options \<Rightarrow> 'w handler_func" where
  "handleCompleteUploadSession h = serve (upload_authenticate h) (\<lambda>r auth requestID.
     bindA (configured (uo_CompleteUploadSession h) ''complete upload session'') (\<lambda>useCase.
     bindA (liftA (decodeJSON (uo_reason h) [''uploadedParts'', ''contentHash''] decode_completeUploadSession (hq_Body r)))
       (\<lambda>(uploadedParts, contentHash).
     bindA (countErr (\<lambda>code. [RecordSessionCompleteFailure code])
       (onApp (useCase \<lparr>cm_UploadSessionID = TrimSpace (hq_PathValue r), cm_UploadedParts = uploadedParts,
          cm_ContentHash = toContentHash contentHash, cm_IdempotencyKey = TrimSpace (hq_IdempotencyKey r),
          cm_RequestID = requestID, cm_Auth = auth\<rparr>))) (\<lambda>result.
     bindA (count_metric RecordSessionComplete) (\<lambda>_.
     returnA (writeJSON 200 requestID (envelope requestID (members [
       m_json ''uploadSession'' (mapUploadSession (cv_UploadSession result)), m_str ''fileId'' (cv_FileID result)]))))))))"

definition handleAbortUploadSession :: "'w upload_options \<Rightarrow> 'w handler_func" where
  "handleAbortUploadSession h = serve (upload_authenticate h) (\<lambda>r auth requestID.
     bindA (configured (uo_AbortUploadSession h) ''abort upload session'') (\<lambda>useCase.
     bindA (liftA (if hasBody r then decodeJSON (uo_reason h) [''reason''] (str_field ''reason'') (hq_Body r) else Inr [])) (\<lambda>reason.
     bindA (onApp (useCase \<lparr>ab_UploadSessionID = TrimSpace (hq_PathValue r), ab_Reason = TrimSpace reason,
       ab_IdempotencyKey = TrimSpace (hq_IdempotencyKey r), ab_Auth = auth\<rparr>)) (\<lambda>result.
     bindA (count_metric RecordSessionAbort) (\<lambda>_.
     returnA (answerSession 200 requestID result))))))"

definition upload_routes :: "'w upload_options \<Rightarrow> 'w handler_func route list" where
  "upload_routes h =
     (let base = [Lit ''api'', Lit ''v1'', Lit ''upload-sessions''] in
      [(''POST'', base, handleCreateUploadSession h),
       (''GET'', base @ [Wildcard], handleGetUploadSession h),
       (''PUT'', base @ [Wildcard, Lit ''content''], handleUploadInlineContent h),
       (''POST'', base @ [Wildcard, Lit ''parts'', Lit ''presign''], handlePresignMultipartParts h),
       (''GET'', base @ [Wildcard, Lit ''parts''], handleListUploadedParts h),
       (''POST'', base @ [Wildcard, Lit ''complete''], handleCompleteUploadSession h),
       (''POST'', base @ [Wildcard, Lit ''abort''], handleAbortUploadSession h)])"

subsection \<open>The service\<close>

text \<open>The identity of a request: the claims of its token (\<^verbatim>\<open>auth_jwks.go\<close>).\<close>

definition auth_of_claims :: "string \<Rightarrow> StandardClaims \<Rightarrow> AuthContext" where
  "auth_of_claims requestID c = \<lparr>ac_RequestID = requestID, ac_SubjectID = sc_SubjectID c, ac_SubjectType = sc_SubjectType c,
     ac_TenantID = sc_TenantID c, ac_ClientID = sc_ClientID c, ac_TokenID = sc_TokenID c, ac_Scopes = sc_Scopes c\<rparr>"

definition jwks_resolver :: "auth_env \<Rightarrow> http_request \<Rightarrow> (auth_world, go_error, AuthContext) action" where
  "jwks_resolver aenv r = bindA (resolve aenv (hq_Authorization r)) (\<lambda>claims.
     returnA (auth_of_claims (requestIDFromRequest r []) claims))"

record upload_config =
  ug_SessionTTL :: duration
  ug_PresignTTL :: duration
  ug_AllowedModes :: "string list"
  ug_MaxInlineSize :: int

definition allowedModes :: "string list \<Rightarrow> SessionMode list" where
  "allowedModes values = map to_SessionMode (filter (\<lambda>v. v \<noteq> []) (map (\<lambda>v. ToUpper (TrimSpace v)) values))"

definition upload_Build :: "auth_env \<Rightarrow> env \<Rightarrow> upload_config \<Rightarrow> (string \<Rightarrow> string) \<Rightarrow> world upload_options" where
  "upload_Build aenv env cfg reason = \<lparr>
     uo_Auth = Some (jwks_resolver aenv), uo_MaxInlineBodyBytes = ug_MaxInlineSize cfg,
     uo_CreateUploadSession = Some (CreateUploadSession env (NewCreateUploadSessionHandler
       \<lparr>cc_SessionTTL = ug_SessionTTL cfg, cc_PresignTTL = ug_PresignTTL cfg, cc_AllowedModes = allowedModes (ug_AllowedModes cfg)\<rparr>)),
     uo_GetUploadSession = Some (GetUploadSession env),
     uo_UploadInlineContent = Some (UploadInlineContent env),
     uo_PresignMultipartParts = Some (PresignMultipartParts env (NewPresignMultipartPartsHandler
       \<lparr>pf_DefaultTTL = ug_PresignTTL cfg, pf_MaxTTL = max (ug_SessionTTL cfg) (24 * hour)\<rparr>)),
     uo_ListUploadedParts = Some (ListUploadedParts env),
     uo_CompleteUploadSession = Some (CompleteUploadSession env
       \<lparr>cp_parts = True, cp_blobs = True, cp_files = True, cp_dedup = True, cp_usage = True, cp_outbox = True\<rparr>),
     uo_AbortUploadSession = Some (AbortUploadSession env True),
     uo_reason = reason\<rparr>"

definition upload_server :: "auth_env \<Rightarrow> env \<Rightarrow> upload_config \<Rightarrow> (string \<Rightarrow> string) \<Rightarrow>
    http_request \<Rightarrow> world server_world \<Rightarrow> (http_response \<times> world server_world) option" where
  "upload_server aenv env cfg reason = ServeHTTP (upload_routes (upload_Build aenv env cfg reason))"

end
