(* ===== verification/IsolationLaws.thy ===== *)
theory IsolationLaws
  imports SystemLaws
begin

text \<open>
  Tenant isolation of the upload service: a use case that runs for a caller of one tenant leaves
  the sessions, files and usage of every other tenant as they are, and the tenants, policies and
  audit records altogether. The frame is confinement to one tenant's rows.
\<close>

context frame
begin

lemma keeps_bind_that:
  assumes "keeps m" and "\<And>s x s'. m s = (Inr x, s') \<Longrightarrow> P x" and "\<And>x. P x \<Longrightarrow> keeps (k x)"
  shows "keeps (bindA m k)"
proof (rule keepsI)
  fix s r s' assume run: "bindA m k s = (r, s')"
  obtain q s1 where m: "m s = (q, s1)" by (cases "m s")
  from m assms(1) have 1: "R s s1" by (rule keepsD [rotated])
  show "R s s'"
  proof (cases q)
    case (Inl e)
    with run m 1 show ?thesis by (simp add: bindA_def)
  next
    case (Inr x)
    with m assms(2) have "P x" by blast
    moreover from run m Inr have "k x s1 = (r, s')" by (simp add: bindA_def)
    ultimately have "R s1 s'" by (meson assms(3) keepsD)
    with 1 show ?thesis by (rule R_trans)
  qed
qed

end

definition others :: "string \<Rightarrow> database \<Rightarrow>
    session_row list \<times> file_row list \<times> usage_row list \<times> tenant_row list \<times> policy_row list \<times> audit_row list" where
  "others t db = (filter (\<lambda>r. us_tenant_id r \<noteq> t) (upload_sessions db), filter (\<lambda>r. fa_tenant_id r \<noteq> t) (file_assets db),
     filter (\<lambda>r. tu_tenant_id r \<noteq> t) (tenant_usage db), tenants db, tenant_policies db, admin_audit_logs db)"

interpretation isolation: frame "\<lambda>w w'. others t (w_db w') = others t (w_db w)" for t
  by unfold_locales simp_all

lemma isolation_db: "db_frame.keeps m \<Longrightarrow> isolation.keeps t m"
  by (rule isolation.keepsI) (auto dest: db_frame.keepsD)

lemma isolation_runSQL:
  assumes "\<And>db x db'. stmt db = Inr (x, db') \<Longrightarrow> others t db' = others t db"
  shows "isolation.keeps t (runSQL env stmt)"
proof (rule isolation.keepsI)
  fix w r w' assume "runSQL env stmt w = (r, w')"
  then show "others t (w_db w') = others t (w_db w)"
    by (cases r) (auto simp: runSQL_Inl runSQL_Inr dest: assms)
qed

lemmas isolation_rules = isolation.keeps_rules
  isolation_db [OF askA_db] isolation_db [OF callA_db] isolation_db [OF Now_db] isolation_db [OF NewID_db]
  isolation_db [OF GetByID_db] isolation_db [OF querySession_db] isolation_db [OF LookupByHash_db] isolation_db [OF ConfirmCompletionOwner_db]

lemma filter_update_where:
  assumes "\<And>r. p r \<Longrightarrow> \<not> q r \<and> \<not> q (f r)"
  shows "filter q (update_where p f rows) = filter q rows"
  using assms by (induction rows) (auto simp: update_where_def)

subsection \<open>Sessions keep their tenant\<close>

lemma validate_tenant: "Session_Validate s = Inr s' \<Longrightarrow> s_TenantID s' = s_TenantID s"
  by (auto simp: Session_Validate_def validate_parts_def bindE_Inr_iff Let_def split: if_splits)

lemma session_tenant:
  "NewSession p = Inr s1 \<Longrightarrow> s_TenantID s1 = TrimSpace (s_TenantID p)"
  "MarkUploading n s = Inr s1 \<Longrightarrow> s_TenantID s1 = s_TenantID s"
  "MarkCompleted i now s = Inr s1 \<Longrightarrow> s_TenantID s1 = s_TenantID s"
  "MarkFailed c m now s = Inr s1 \<Longrightarrow> s_TenantID s1 = s_TenantID s"
  "Abort now s = Inr s1 \<Longrightarrow> s_TenantID s1 = s_TenantID s"
  by (auto simp: NewSession_def MarkUploading_def MarkCompleted_def MarkFailed_def Abort_def Let_def session_of_params_def
      dest!: validate_tenant split: if_splits SessionStatus.splits)

lemma acquire_tenant: "Session_AcquireCompletion token now s = Inr (ow, s1) \<Longrightarrow> s_TenantID s1 = s_TenantID s"
  by (auto simp: Session_AcquireCompletion_def bindE_Inr_iff split: SessionStatus.splits if_splits)

lemma query_tenant:
  assumes "querySession env sel w = (Inr s, w')" and "\<And>rows r. sel rows = Some r \<Longrightarrow> us_tenant_id r = t" and "TrimSpace t = t"
  shows "s_TenantID s = t"
  using assms session_tenant(1) [of "params_of_row r" s for r] by (fastforce simp: querySession_Inr params_of_row_def)

lemma find_at: "find (session_at t i) rows = Some r \<Longrightarrow> us_tenant_id r = t"
  by (auto simp: session_at_def dest: find_Some_filter)

lemma GetByID_tenant: "GetByID env t i w = (Inr s, w') \<Longrightarrow> TrimSpace t = t \<Longrightarrow> s_TenantID s = t"
  by (auto simp: GetByID_def dest: query_tenant [OF _ find_at])

lemma Confirm_tenant:
  assumes "ConfirmCompletionOwner env t i token w = (Inr s, w')" and "TrimSpace t = t"
  shows "s_TenantID s = t"
proof (rule query_tenant [OF _ _ assms(2)])
  show "querySession env (find (\<lambda>r. session_at t i r \<and> us_completion_token r = Some token)) w = (Inr s, w')"
    using assms(1) by (simp add: ConfirmCompletionOwner_def)
qed (auto simp: session_at_def dest: find_Some_filter)

subsection \<open>The statements that write\<close>

lemma Save_isolation: "s_TenantID s = t \<Longrightarrow> isolation.keeps t (SessionRepository_Save env s)"
  unfolding SessionRepository_Save_def
  by (intro isolation_rules isolation_runSQL)
     (auto simp: update_session_def Let_def others_def session_at_def save_row_def intro!: filter_update_where split: if_splits)

lemma Create_isolation: "s_TenantID s = t \<Longrightarrow> isolation.keeps t (SessionRepository_Create env s)"
  unfolding SessionRepository_Create_def
  by (intro isolation_rules isolation_runSQL) (auto simp: insert_session_def Let_def others_def session_row_of_def split: if_splits)

lemma Enqueue_isolation: "isolation.keeps t (Enqueue env message)"
  unfolding Enqueue_def
  by (intro isolation_rules isolation_runSQL) (auto simp: insert_event_def others_def split: if_splits)

lemma Replace_isolation: "isolation.keeps t (SessionPartRepository_Replace env t1 i parts)"
  unfolding SessionPartRepository_Replace_def SessionPartRepository_Upsert_def
  by (intro isolation_rules isolation_runSQL) (auto simp: upsert_part_def Let_def others_def split: if_splits)

lemma Blob_isolation: "isolation.keeps t (BlobRepository_Upsert env b)" "isolation.keeps t (AdjustReferenceCount env i d)"
  unfolding BlobRepository_Upsert_def AdjustReferenceCount_def
  by (intro isolation_rules isolation_runSQL; auto simp: upsert_blob_def adjust_refs_def Let_def others_def split: if_splits)+

lemma File_isolation: "fr_TenantID f = t \<Longrightarrow> isolation.keeps t (CreateFileAsset env f)"
  unfolding CreateFileAsset_def
  by (intro isolation_rules isolation_runSQL) (auto simp: insert_file_def file_row_of_def Let_def others_def split: if_splits)

lemma Usage_isolation: "isolation.keeps t (ApplyDelta env t n)"
  unfolding ApplyDelta_def
  by (intro isolation_rules isolation_runSQL)
     (auto simp: apply_delta_def usage_delta_row_def Let_def others_def intro!: filter_update_where split: if_splits option.splits)

lemma isolation_transaction:
  assumes "isolation.keeps t (body InTx)"
  shows "isolation.keeps t (WithinTransaction env NoTx body)"
proof (rule isolation.keepsI)
  fix w r w' assume run: "WithinTransaction env NoTx body w = (r, w')"
  show "others t (w_db w') = others t (w_db w)"
  proof (cases r)
    case (Inl e)
    with run show ?thesis using WithinTransaction_Inl_db by fastforce
  next
    case (Inr x)
    with run WithinTransaction_Inr [of env body w x w'] obtain w2 where
      "body InTx (w\<lparr>w_tick := Suc (w_tick w)\<rparr>) = (Inr x, w2)" "w' = w2\<lparr>w_tick := Suc (w_tick w2)\<rparr>" by auto
    with isolation.keepsD [OF assms] show ?thesis by fastforce
  qed
qed

subsection \<open>The use cases\<close>

text \<open>A session that is read for a tenant is handed to the rest of the use case.\<close>

lemma isolation_GetByID:
  assumes "TrimSpace t = t" and "\<And>s. s_TenantID s = t \<Longrightarrow> isolation.keeps t (k s)"
  shows "isolation.keeps t (bindA (GetByID env t i) k)"
  by (rule isolation.keeps_bind_that [where P = "\<lambda>s. s_TenantID s = t"])
     (use assms GetByID_tenant in \<open>blast intro: isolation_db GetByID_db\<close>)+

lemma isolation_Confirm:
  assumes "TrimSpace t = t" and "\<And>s. s_TenantID s = t \<Longrightarrow> isolation.keeps t (k s)"
  shows "isolation.keeps t (bindA (ConfirmCompletionOwner env t i token) k)"
  by (rule isolation.keeps_bind_that [where P = "\<lambda>s. s_TenantID s = t"])
     (use assms Confirm_tenant in \<open>blast intro: isolation_db ConfirmCompletionOwner_db\<close>)+

lemma isolation_method:
  assumes "\<And>s1. q = Inr s1 \<Longrightarrow> isolation.keeps t (k s1)"
  shows "isolation.keeps t (bindA (liftA q) k)"
  by (cases q) (simp_all add: assms isolation.keeps_pure)

lemma requireSessionID_isolation: "isolation.keeps t (requireSessionID i)"
  unfolding requireSessionID_def by (intro isolation_rules)

lemma UploadInlineContent_isolation:
  assumes "TrimSpace (ac_TenantID (ic_Auth c)) = ac_TenantID (ic_Auth c)"
  shows "isolation.keeps (ac_TenantID (ic_Auth c)) (UploadInlineContent env c)"
  unfolding UploadInlineContent_def Let_def
  by (intro isolation_method isolation.keeps_bindA [OF requireSessionID_isolation] isolation_GetByID [OF assms] isolation_rules Save_isolation)
     (auto dest: session_tenant)

lemma AbortUploadSession_isolation:
  assumes "TrimSpace (ac_TenantID (ab_Auth c)) = ac_TenantID (ab_Auth c)"
  shows "isolation.keeps (ac_TenantID (ab_Auth c)) (AbortUploadSession env m c)"
proof -
  let ?t = "ac_TenantID (ab_Auth c)"
  have read: "isolation.keeps ?t (abort_read env c)"
    unfolding abort_read_def by (intro isolation_rules requireSessionID_isolation)
  have tenant: "s_TenantID s = ?t" if run: "abort_read env c w = (Inr s, w')" for w s w'
  proof -
    from run obtain s0 w0 w1 now where "GetByID env ?t (ab_UploadSessionID c) w0 = (Inr s0, w1)" "Abort now s0 = Inr s"
      by (auto simp: abort_read_def run_action_Inr simp del: liftA_iff)
    with GetByID_tenant assms session_tenant(5) show ?thesis by metis
  qed
  have save: "isolation.keeps ?t (abort_write env m s)" if "s_TenantID s = ?t" for s
    unfolding abort_write_def by (intro isolation_rules Save_isolation that)
  show ?thesis
    unfolding AbortUploadSession_def
    by (rule isolation.keeps_bind_that [where P = "\<lambda>s. s_TenantID s = ?t", OF read tenant save])
qed

lemma ListUploadedParts_isolation:
  assumes "TrimSpace (ac_TenantID (q_Auth q)) = ac_TenantID (q_Auth q)"
  shows "isolation.keeps (ac_TenantID (q_Auth q)) (ListUploadedParts env q)"
proof -
  have "isolation.keeps t (ListBySessionID env t1 i)" for t t1 i
    unfolding ListBySessionID_def by (intro isolation_rules isolation_runSQL) (auto simp: Let_def)
  then show ?thesis
    unfolding ListUploadedParts_def
    by (intro isolation_method isolation_GetByID [OF assms] isolation_rules Save_isolation Replace_isolation)
       (auto intro!: isolation_rules Save_isolation dest: session_tenant split: sum.splits)
qed

lemma GetUploadSession_isolation: "isolation.keeps t (GetUploadSession env q)"
  unfolding GetUploadSession_def by (intro isolation_rules)

lemma presignEach_isolation: "isolation.keeps t (presignEach env session ttl expires ns)"
  by (induction ns) (auto intro!: isolation_rules split: prod.splits)

lemma PresignMultipartParts_isolation: "isolation.keeps t (PresignMultipartParts env h c)"
  unfolding PresignMultipartParts_def Let_def
  by (intro isolation_rules requireSessionID_isolation presignEach_isolation)

lemma CreateUploadSession_isolation:
  assumes "TrimSpace (ac_TenantID (cu_Auth c)) = ac_TenantID (cu_Auth c)"
  shows "isolation.keeps (ac_TenantID (cu_Auth c)) (CreateUploadSession env h c)"
proof -
  have "s_TenantID (newSessionParams h c i ref up now) = ac_TenantID (cu_Auth c)" for i ref up now
    by (simp add: newSessionParams_def)
  with assms show ?thesis
    unfolding CreateUploadSession_def Let_def
    by (intro isolation_method isolation_rules isolation_db [OF FindReusable_db] isolation_db [OF ReadUploadPolicy_db])
       (auto intro!: isolation_method isolation_rules isolation_db [OF issuePutURL_db] isolation_db [OF prepareProvider_db] Create_isolation
          dest: session_tenant(1) split: prod.splits)
qed

text \<open>The completion of an upload.\<close>

lemma commitOwned_isolation:
  assumes "s_TenantID owned = t"
  shows "isolation.keeps t (commitOwned env h owned m requestID)"
proof -
  have parts: "s_TenantID (committedParts m owned) = t" using assms by (simp add: committedParts_def Let_def)
  have rec: "fr_TenantID (commitFileRecord owned m b f) = t" for b f using assms by (simp add: commitFileRecord_def)
  have usage: "isolation.keeps t (ApplyDelta env (s_TenantID owned) n)" for n using assms Usage_isolation by blast
  have blob: "isolation.keeps t (commitBlobID env m)" "isolation.keeps t (commitBlob env h owned m b)" "isolation.keeps t (commitFile env h owned m b f)" for b f
    unfolding commitBlobID_def commitBlob_def commitFile_def by (intro isolation_rules Blob_isolation File_isolation rec)+
  show ?thesis
    unfolding commitOwned_def Let_def
    by (intro isolation_method isolation_rules blob usage Save_isolation Enqueue_isolation) (use session_tenant(3) parts in metis)
qed

lemma commit_isolation:
  assumes "s_TenantID s = t" and "TrimSpace t = t"
  shows "isolation.keeps t (commit env h s token m requestID)"
  unfolding commit_def commitBody_def assms(1)
  by (intro isolation_transaction isolation_Confirm [OF assms(2)] isolation_rules commitOwned_isolation)

lemma finalizeFailure_isolation:
  assumes "s_TenantID s = t" and "TrimSpace t = t"
  shows "isolation.keeps t (finalizeFailure env h s token requestID cause)"
  unfolding finalizeFailure_def failOwned_def Let_def assms(1)
  by (intro isolation_transaction isolation_Confirm [OF assms(2)] isolation_method isolation_rules Save_isolation Enqueue_isolation)
     (simp add: session_tenant(4))

lemma materialize_isolation: "isolation.keeps t (materialize env h s c)"
  unfolding materialize_def materialize_parts_def materialize_metadata_def materialize_dedup_def
  by (intro isolation_rules Replace_isolation)

lemma acquire_isolation:
  assumes "TrimSpace (ca_TenantID req) = ca_TenantID req"
  shows "isolation.keeps (ca_TenantID req) (acquireCompletion env req)"
    and "acquireCompletion env req w = (Inr (s, ow), w') \<Longrightarrow> s_TenantID s = ca_TenantID req"
proof -
  let ?q = "mapErrA (notFoundOr (ErrUploadSessionNotFound (ca_UploadSessionID req)) ''acquire completion'')
    (querySession env (find (session_at (ca_TenantID req) (ca_UploadSessionID req))))"
  have tenant: "s_TenantID s = ca_TenantID req" if "?q w = (Inr s, w')" for w s w'
    using that assms by (auto dest: query_tenant [OF _ find_at])
  show "isolation.keeps (ca_TenantID req) (acquireCompletion env req)"
    unfolding acquireCompletion_def
    by (rule isolation.keeps_bind_that [where P = "\<lambda>s. s_TenantID s = ca_TenantID req", OF _ tenant])
       (auto intro!: isolation_method isolation_rules Save_isolation dest: acquire_tenant)
  show "acquireCompletion env req w = (Inr (s, ow), w') \<Longrightarrow> s_TenantID s = ca_TenantID req"
    unfolding acquireCompletion_def
    by (auto simp: run_action_Inr simp del: liftA_iff dest!: acquire_tenant query_tenant [OF _ find_at assms] split: prod.splits)
qed

lemma AcquireCompletion_isolation:
  assumes "TrimSpace (ca_TenantID req) = ca_TenantID req"
  shows "isolation.keeps (ca_TenantID req) (SessionRepository_AcquireCompletion env NoTx req)"
    and "SessionRepository_AcquireCompletion env NoTx req w = (Inr x, w') \<Longrightarrow> s_TenantID (fst x) = ca_TenantID req"
proof -
  show "isolation.keeps (ca_TenantID req) (SessionRepository_AcquireCompletion env NoTx req)"
  proof (rule isolation.keepsI)
    fix w r w' assume "SessionRepository_AcquireCompletion env NoTx req w = (r, w')"
    from AcquireCompletion_transaction [OF this] show "others (ca_TenantID req) (w_db w') = others (ca_TenantID req) (w_db w)"
      using isolation.keepsD [OF acquire_isolation(1) [OF assms]] by fastforce
  qed
  assume "SessionRepository_AcquireCompletion env NoTx req w = (Inr x, w')"
  from AcquireCompletion_transaction [OF this] show "s_TenantID (fst x) = ca_TenantID req"
    by (cases x) (auto dest: acquire_isolation(2) [OF assms])
qed

lemma ensureCompleting_isolation:
  "isolation.keeps t (ensureCompleting env token s)"
  "ensureCompleting env token s w = (Inr s1, w') \<Longrightarrow> s_TenantID s1 = s_TenantID s"
  unfolding ensureCompleting_def Let_def
  by (auto intro!: isolation_rules simp: bindA_Inr_iff split: if_splits sum.splits prod.splits dest: acquire_tenant)

lemma CompleteUploadSession_isolation:
  assumes "TrimSpace (ac_TenantID (cm_Auth c)) = ac_TenantID (cm_Auth c)"
  shows "isolation.keeps (ac_TenantID (cm_Auth c)) (CompleteUploadSession env h c)"
proof -
  let ?t = "ac_TenantID (cm_Auth c)"
  have run: "isolation.keeps ?t (materializeAndCommit env h s token c)" if "s_TenantID s = ?t" for s token
    unfolding materializeAndCommit_def
    by (intro isolation_rules materialize_isolation finalizeFailure_isolation commit_isolation that assms)
  have ensure: "isolation.keeps ?t (bindA (ensureCompleting env token s) (\<lambda>s1. materializeAndCommit env h s1 token c))"
    if "s_TenantID s = ?t" for s token
    by (rule isolation.keeps_bind_that [where P = "\<lambda>s1. s_TenantID s1 = ?t"])
       (use that run ensureCompleting_isolation in \<open>auto\<close>)
  have acquire: "isolation.keeps ?t (bindA (SessionRepository_AcquireCompletion env NoTx req) k)"
    if "ca_TenantID req = ?t" "\<And>x. s_TenantID (fst x) = ?t \<Longrightarrow> isolation.keeps ?t (k x)" for req k
    by (rule isolation.keeps_bind_that [where P = "\<lambda>x. s_TenantID (fst x) = ?t"])
       (use that assms AcquireCompletion_isolation [of req] in \<open>auto\<close>)
  have "isolation.keeps ?t (completionToken env key)" for key unfolding completionToken_def by (intro isolation_rules)
  then show ?thesis
    unfolding CompleteUploadSession_def
    by (intro isolation_rules requireSessionID_isolation acquire)
       (auto intro!: isolation_rules ensure split: prod.splits CompletionOwnership.splits)
qed

end
