(* ===== verification/SampleToken.thy ===== *)
theory SampleToken
  imports DataplaneAuth
begin

text \<open>
  Tokens as an issuer writes them are read back part by part; and a concrete key with a token it
  verifies. The key has the exponent 3 and a modulus made for the token: the cube of the
  signature less the number that the padded digest stands for.
\<close>

subsection \<open>Numbers and bytes\<close>

lemma be_val_snoc: "be_val (s @ [c]) = be_val s * 256 + byte_val c"
  by (simp add: be_val_def)

lemma be_val_less: "be_val s < 256 ^ length s"
proof (induction s rule: rev_induct)
  case Nil
  then show ?case by (simp add: be_val_def)
next
  case (snoc c s)
  have "be_val s * 256 + byte_val c < (be_val s + 1) * 256" by simp
  also have "\<dots> \<le> 256 ^ length s * 256" using snoc by (intro mult_le_mono1) simp
  finally show ?case by (simp add: be_val_snoc)
qed

lemma be_bytes_be_val: "be_bytes (length s) (be_val s) = s"
proof (induction s rule: rev_induct)
  case (snoc c s)
  have "(be_val s * 256 + byte_val c) div 256 = be_val s" by (simp add: div_add1_eq)
  with snoc show ?case by (simp add: be_val_snoc)
qed simp

lemma be_val_be_bytes: "n < 256 ^ k \<Longrightarrow> be_val (be_bytes k n) = n"
proof (induction k arbitrary: n)
  case 0
  then show ?case by (simp add: be_val_def)
next
  case (Suc k)
  then have "n div 256 < 256 ^ k" by (simp add: less_mult_imp_div_less)
  with Suc.IH show ?case by (simp add: be_val_snoc)
qed

lemma power_mod_power: "power_mod m b e = b ^ e mod m"
proof (induction m b e rule: power_mod.induct)
  case (1 m b e)
  show ?case
  proof (cases "e = 0")
    case False
    have "e = e div 2 * 2 + e mod 2" by simp
    then have "b ^ e = (b * b) ^ (e div 2) * b ^ (e mod 2)"
      by (metis power_add power_mult mult.commute power2_eq_square)
    moreover have "power_mod m (b * b mod m) (e div 2) = (b * b) ^ (e div 2) mod m"
      using 1 [OF False] by (simp add: power_mod)
    ultimately show ?thesis
      using False by (subst power_mod.simps) (cases "odd e"; simp add: Let_def mod_mult_right_eq mult.commute odd_iff_mod_2_eq_one)
  qed (simp add: power_mod.simps)
qed

lemma bit_len_eq: "2 ^ k \<le> n \<Longrightarrow> n < 2 ^ Suc k \<Longrightarrow> bit_len n = Suc k"
proof (induction k arbitrary: n)
  case 0
  then have "n = 1" by simp
  then show ?case by (simp add: bit_len.simps)
next
  case (Suc k)
  then have "2 ^ k \<le> n div 2" "n div 2 < 2 ^ Suc k" by (simp_all add: less_mult_imp_div_less mult.commute)
  moreover have "0 < n" using Suc.prems(1) by (cases n) auto
  ultimately show ?case using Suc.IH by (simp add: bit_len.simps [of n])
qed

subsection \<open>The parts of a token\<close>

definition make_token :: "json \<Rightarrow> json \<Rightarrow> string \<Rightarrow> string" where
  "make_token header claims sig =
     b64_EncodeToString (json_render header) @ ''.'' @ b64_EncodeToString (json_render claims) @ ''.'' @ b64_EncodeToString sig"

lemma split_dots_plain: "CHR ''.'' \<notin> set s \<Longrightarrow> split_dots s = [s]"
  by (induction s) auto

lemma split_dots_first: "CHR ''.'' \<notin> set s \<Longrightarrow> split_dots (s @ CHR ''.'' # t) = s # split_dots t"
  by (induction s) auto

lemma json_document_render: "wf_json (JObj ms) \<Longrightarrow> json_depth (JObj ms) \<le> 10000 \<Longrightarrow> json_document (json_render (JObj ms)) = Some ms"
  using json_round_trip [of "JObj ms"] by (simp add: json_document_def)

lemma parseJWT_make_token:
  assumes "wf_json (JObj hs)" "json_depth (JObj hs) \<le> 10000" "wf_json (JObj cs)" "json_depth (JObj cs) \<le> 10000"
    and "str_field ''alg'' hs = Some alg" "str_field ''kid'' hs = Some kid"
    and "TrimSpace alg = alg" "alg \<noteq> []" "\<not> EqualFold alg ''none''"
  shows "parseJWT (make_token (JObj hs) (JObj cs) sig) =
    Some (\<lparr>jh_Algorithm = alg, jh_KeyID = kid\<rparr>, cs,
      b64_EncodeToString (json_render (JObj hs)) @ ''.'' @ b64_EncodeToString (json_render (JObj cs)), sig)"
proof -
  have dots: "CHR ''.'' \<notin> set (b64_EncodeToString s)" for s using b64_text_graphic [of _ s] by blast
  have "split_dots (make_token (JObj hs) (JObj cs) sig) =
      [b64_EncodeToString (json_render (JObj hs)), b64_EncodeToString (json_render (JObj cs)), b64_EncodeToString sig]"
    using dots by (simp add: make_token_def split_dots_first split_dots_plain)
  then show ?thesis
    using assms json_document_render [of hs] json_document_render [of cs]
    by (simp add: parseJWT_def b64_round_trip decode_header_def Let_def)
qed

lemma bearer_token:
  assumes "t \<noteq> []" "\<And>c. c \<in> set t \<Longrightarrow> graphic c"
  shows "bearerTokenFromRequest (''Bearer '' @ t) = Some t"
proof -
  have t: "TrimSpace t = t" using assms by (intro TrimSpace_graphic) auto
  have "TrimSpace (''Bearer '' @ t) = ''Bearer '' @ t"
    using assms by (intro TrimSpace_graphic) (auto simp: graphic_def)
  moreover have "ToLower (''Bearer '' @ t) = ''bearer '' @ ToLower t"
  proof -
    have "ToLower ''Bearer '' = ''bearer ''" by code_simp
    then show ?thesis by (metis ToLower_def map_append)
  qed
  ultimately show ?thesis
    using t assms(1) by (simp add: bearerTokenFromRequest_def Let_def is_prefix_iff)
qed

lemma make_token_bearer: "bearerTokenFromRequest (''Bearer '' @ make_token h c sig) = Some (make_token h c sig)"
  by (rule bearer_token) (auto simp: make_token_def graphic_def dest!: b64_text_graphic)

subsection \<open>A key for a message\<close>

definition sampleEM :: "string \<Rightarrow> nat" where
  "sampleEM input = be_val (the (pkcs1v15_EM 128 SHA256 (Sum256 input)))"

definition sampleSig :: "string \<Rightarrow> nat" where
  "sampleSig input = 2 ^ 341 + 2 ^ 337 + (if even (sampleEM input) then 1 else 0)"

definition sampleRSA :: "string \<Rightarrow> rsa_PublicKey" where
  "sampleRSA input = \<lparr>pk_N = sampleSig input ^ 3 - sampleEM input, pk_E = 3\<rparr>"

lemma sampleEM_bytes:
  "pkcs1v15_EM 128 SHA256 (Sum256 input) = Some (be_bytes 128 (sampleEM input))" "sampleEM input < 2 ^ 1016"
proof -
  obtain em where em: "pkcs1v15_EM 128 SHA256 (Sum256 input) = Some (byte_of 0 # em)" "length em = 127"
    by (simp add: pkcs1v15_EM_def hash_prefix_def Let_def)
  have "be_val (byte_of 0 # em) = be_val em" by (simp add: be_val_def)
  with em be_val_less [of em] show "sampleEM input < 2 ^ 1016"
    by (simp add: sampleEM_def power_mult [symmetric, of 2 8, simplified])
  show "pkcs1v15_EM 128 SHA256 (Sum256 input) = Some (be_bytes 128 (sampleEM input))"
    using em be_bytes_be_val [of "byte_of 0 # em"] by (simp add: sampleEM_def)
qed

lemma sampleSig_cube: "(2::nat) ^ 1023 + 2 ^ 1016 \<le> sampleSig input ^ 3" "sampleSig input ^ 3 < 2 ^ 1024"
  by (simp_all add: sampleSig_def)

lemma sampleRSA_verifies: "VerifyPKCS1v15 (sampleRSA input) SHA256 (Sum256 input) (be_bytes 128 (sampleSig input))"
proof -
  let ?s = "sampleSig input" and ?v = "sampleEM input" and ?n = "sampleSig input ^ 3 - sampleEM input"
  note v = sampleEM_bytes(2) [of input] and s = sampleSig_cube [of input]
  have n: "2 ^ 1023 \<le> ?n" "?n < 2 ^ 1024" using v s by linarith+
  then have bits: "bit_len ?n = 1024" using bit_len_eq [of 1023 ?n] by simp
  have "even ?s \<longleftrightarrow> odd ?v" by (simp add: sampleSig_def)
  moreover have le: "?v \<le> ?s ^ 3" using v s by linarith
  ultimately have odd: "odd ?n" by auto
  have lt: "?s < ?n" "?v < ?n" "?s < 256 ^ 128"
  proof -
    have "?s < 2 ^ 342" by (simp add: sampleSig_def)
    then show "?s < ?n" "?s < 256 ^ 128" using n(1) by (simp_all add: order_less_le_trans [of _ "2 ^ 342"])
    have "(2::nat) ^ 1016 < 2 ^ 1023" by simp
    with v n(1) show "?v < ?n" by (meson less_trans order_less_le_trans)
  qed
  have "?s ^ 3 mod ?n = ?v"
    using lt(2) le by (metis add_diff_cancel_right' diff_add_inverse2 le_add_diff_inverse2 mod_add_self1 mod_less add.commute)
  then have "rsa_encrypt (sampleRSA input) (be_bytes 128 ?s) = Some (be_bytes 128 ?v)"
    using lt(1,3) by (simp add: rsa_encrypt_def sampleRSA_def be_val_be_bytes power_mod_power PublicKey_Size_def bits)
  then show ?thesis
    using odd sampleEM_bytes(1) [of input]
    by (simp add: VerifyPKCS1v15_def public_key_ok_def PublicKey_Size_def sampleRSA_def bits)
qed

subsection \<open>A token of a user\<close>

definition sampleHeader :: "(string \<times> json) list" where
  "sampleHeader = [(''alg'', JStr ''RS256''), (''kid'', JStr ''k1'')]"

definition sampleClaims :: "(string \<times> json) list" where
  "sampleClaims = [(''sub'', JStr ''u1''), (''subject_type'', JStr ''user''), (''tenant_id'', JStr ''t1''), (''iss'', JStr ''idp''),
     (''aud'', JArr [JStr ''zhi-file-data-plane'', JStr ''zhi-file-admin'']), (''iat'', JNum (Itoa 0)), (''exp'', JNum (Itoa 3600)),
     (''scope'', JStr ''file:read file:write''), (''roles'', JArr [JStr ''admin.governance'']), (''tenant_scopes'', JArr [JStr ''t1''])]"

definition sampleInput :: string where
  "sampleInput = b64_EncodeToString (json_render (JObj sampleHeader)) @ ''.'' @ b64_EncodeToString (json_render (JObj sampleClaims))"

definition sampleToken :: string where
  "sampleToken = make_token (JObj sampleHeader) (JObj sampleClaims) (be_bytes 128 (sampleSig sampleInput))"

definition sampleKey :: jwkKey where
  "sampleKey = \<lparr>jk_id = ''k1'', jk_algorithm = [], jk_publicKey = RSAKey (sampleRSA sampleInput)\<rparr>"

lemma sample_names: "ValidString s" if "\<And>c. c \<in> set s \<Longrightarrow> graphic c \<or> c = CHR '' ''"
  using that by (intro ValidString_ascii) (fastforce simp: graphic_def)

lemma sample_token_parts:
  "bearerTokenFromRequest (''Bearer '' @ sampleToken) = Some sampleToken"
  "parseJWT sampleToken = Some (\<lparr>jh_Algorithm = ''RS256'', jh_KeyID = ''k1''\<rparr>, sampleClaims, sampleInput, be_bytes 128 (sampleSig sampleInput))"
proof -
  show "bearerTokenFromRequest (''Bearer '' @ sampleToken) = Some sampleToken"
    unfolding sampleToken_def by (rule make_token_bearer)
  have "str_field ''alg'' sampleHeader = Some ''RS256''" "str_field ''kid'' sampleHeader = Some ''k1''"
    by code_simp+
  moreover have "TrimSpace ''RS256'' = ''RS256''" "\<not> EqualFold ''RS256'' ''none''" by code_simp+
  moreover have "wf_json (JObj sampleHeader)" "json_depth (JObj sampleHeader) \<le> 10000"
    "wf_json (JObj sampleClaims)" "json_depth (JObj sampleClaims) \<le> 10000"
    by (auto simp: sampleHeader_def sampleClaims_def graphic_def intro!: sample_names)
  ultimately show "parseJWT sampleToken = Some (\<lparr>jh_Algorithm = ''RS256'', jh_KeyID = ''k1''\<rparr>, sampleClaims, sampleInput, be_bytes 128 (sampleSig sampleInput))"
    using parseJWT_make_token [of sampleHeader sampleClaims "''RS256''" "''k1''" "be_bytes 128 (sampleSig sampleInput)"]
    by (simp add: sampleToken_def sampleInput_def)
qed

lemma sample_token_verified:
  "verifyJWTWithKey \<lparr>jh_Algorithm = ''RS256'', jh_KeyID = ''k1''\<rparr> sampleKey sampleInput (be_bytes 128 (sampleSig sampleInput))"
proof -
  have "TrimSpace ''RS256'' = ''RS256''" by code_simp
  then show ?thesis
    using sampleRSA_verifies [of sampleInput]
    by (simp add: verifyJWTWithKey_def verifyJWTSignature_def verifyRSASignature_def sampleKey_def hashJWTInput_def Let_def)
qed

end
