(* ===== verification/DataplaneAuthLaws.thy ===== *)
theory DataplaneAuthLaws
  imports SampleToken
begin

text \<open>
  What a bearer token proves: it is accepted only with a signature of a trusted key over exactly
  the claims that are returned, of the kind its header names, within its validity; a key the
  server publishes later is picked up.
\<close>

subsection \<open>The key set\<close>

text \<open>The keys after a run are those before it, or the ones of a complete answer of the key server.\<close>

definition keys_trusted :: "auth_env \<Rightarrow> auth_world \<Rightarrow> auth_world \<Rightarrow> bool" where
  "keys_trusted env w w' \<longleftrightarrow>
     aw_keys w' = aw_keys w \<or> isRemote env \<and> (\<exists>n. fetched_keys (ae_fetch env n) = Some (aw_keys w'))"

interpretation trusted: frame "keys_trusted env" for env
  by unfold_locales (auto simp: keys_trusted_def)

lemma liftO_Inr: "liftO v w = (Inr x, w') \<longleftrightarrow> v = Some x \<and> w' = w"
  by (auto simp: liftO_def split: option.splits)

lemma liftO_run: "liftO (Some x) = returnA x" "liftO None = throwA ()"
  by (simp_all add: liftO_def liftA_def returnA_def throwA_def)

lemma auth_now_Inr: "auth_now env w = (Inr t, w') \<longleftrightarrow> t = ae_now env (aw_tick w) \<and> w' = w\<lparr>aw_tick := Suc (aw_tick w)\<rparr>"
  by (auto simp: auth_now_def)

lemma cachedKey_set: "cachedKey i keys = Some key \<Longrightarrow> key \<in> set keys"
  by (auto simp: cachedKey_def length_Suc_conv find_Some_iff split: if_splits)

lemma cached_Inr: "cached i w = (Inr key, w') \<longleftrightarrow> cachedKey i (aw_keys w) = Some key \<and> w' = w"
  by (auto simp: cached_def bindA_Inr_iff split: option.splits)

lemma refresh_Inr:
  "refresh env w = (Inr u, w') \<longleftrightarrow>
     (\<exists>keys. fetched_keys (ae_fetch env (aw_tick w)) = Some keys \<and> w' = w\<lparr>aw_tick := Suc (aw_tick w), aw_keys := keys\<rparr>)"
  by (auto simp: refresh_def split: option.splits)

lemma refreshed_key:
  assumes "bindA (refresh env) (\<lambda>_. cached i) w = (Inr key, w')" and "isRemote env"
  shows "key \<in> set (aw_keys w') \<and> keys_trusted env w w'"
  using assms by (auto simp: bindA_Inr_iff refresh_Inr cached_Inr keys_trusted_def dest: cachedKey_set)

lemma keySet_key_Inr:
  assumes "keySet_key env i w = (Inr key, w')"
  shows "key \<in> set (aw_keys w') \<and> keys_trusted env w w'"
proof (cases "cachedKey i (aw_keys w)")
  case (Some k)
  with assms show ?thesis by (auto simp: keySet_key_def bindA_Inr_iff trusted.R_refl dest: cachedKey_set)
next
  case None
  with assms have "isRemote env" "bindA (refresh env) (\<lambda>_. cached i) w = (Inr key, w')"
    by (auto simp: keySet_key_def bindA_Inr_iff isRemote_def split: if_splits)
  then show ?thesis by (intro refreshed_key)
qed

lemma verifiedKey_Inr:
  assumes "verifiedKey env header input sig w = (Inr u, w')"
  shows "(\<exists>key \<in> set (aw_keys w'). verifyJWTWithKey header key input sig) \<and> keys_trusted env w w'"
proof -
  from assms obtain key w1 where 1: "keySet_key env (jh_KeyID header) w = (Inr key, w1)"
      and 2: "(if verifyJWTWithKey header key input sig then returnA ()
        else if \<not> isRemote env then throwA ()
        else bindA (refreshKey env (jh_KeyID header)) (\<lambda>key2.
          if verifyJWTWithKey header key2 input sig then returnA () else throwA ())) w1 = (Inr u, w')"
    by (auto simp: verifiedKey_def bindA_Inr_iff)
  note k = keySet_key_Inr [OF 1]
  show ?thesis
  proof (cases "verifyJWTWithKey header key input sig")
    case True
    with 2 k show ?thesis by auto
  next
    case False
    with 2 obtain key2 where r: "isRemote env" "bindA (refresh env) (\<lambda>_. cached (jh_KeyID header)) w1 = (Inr key2, w')"
        "verifyJWTWithKey header key2 input sig"
      by (auto simp: refreshKey_def bindA_Inr_iff split: if_splits)
    with refreshed_key [OF r(2,1)] k trusted.R_trans [of env w w1 w'] show ?thesis by blast
  qed
qed

lemma authenticate_Inr:
  assumes "authenticate env read hdr w = (Inr x, w')"
  shows "\<exists>token header claims input sig issuer now. bearerTokenFromRequest hdr = Some token \<and>
    parseJWT token = Some (header, claims, input, sig) \<and>
    (\<exists>key \<in> set (aw_keys w'). verifyJWTWithKey header key input sig) \<and> keys_trusted env w w' \<and>
    requiredStringClaim claims ''iss'' = Some issuer \<and>
    (issuer_set (ae_allowedIssuers env) = [] \<or> issuer \<in> set (issuer_set (ae_allowedIssuers env))) \<and>
    (\<exists>n. now = ae_now env n) \<and> read claims now = Some x"
proof -
  from assms obtain token header claims input sig issuer w1 where
      *: "bearerTokenFromRequest hdr = Some token" "parseJWT token = Some (header, claims, input, sig)"
      "verifiedKey env header input sig w = (Inr (), w1)" "requiredStringClaim claims ''iss'' = Some issuer"
      "issuer_set (ae_allowedIssuers env) = [] \<or> issuer \<in> set (issuer_set (ae_allowedIssuers env))"
      "read claims (ae_now env (aw_tick w1)) = Some x" "aw_keys w' = aw_keys w1"
    by (auto simp: authenticate_def bindA_Inr_iff liftO_Inr auth_now_Inr split: if_splits prod.splits)
  with verifiedKey_Inr [OF *(3)] show ?thesis by (auto simp: keys_trusted_def)
qed

lemma unauthorized_iff:
  "unauthorized m w = (Inr x, w') \<longleftrightarrow> m w = (Inr x, w')"
  "unauthorized m w = (Inl e, w') \<longleftrightarrow> m w = (Inl (), w') \<and> e = newUnauthorizedAuthError"
  by (cases "m w"; cases "fst (m w)"; auto simp: unauthorized_def)+

subsection \<open>Signatures and claims\<close>

lemma verified_algorithm:
  assumes "verifyJWTWithKey header key input sig"
  shows "(case jk_publicKey key of
      RSAKey k \<Rightarrow> TrimSpace (jh_Algorithm header) \<in> {''RS256'', ''RS384'', ''RS512'', ''PS256'', ''PS384'', ''PS512''}
    | ECKey k \<Rightarrow> TrimSpace (jh_Algorithm header) \<in> {''ES256'', ''ES384'', ''ES512''}) \<and>
    (jk_algorithm key \<noteq> [] \<longrightarrow> EqualFold (jk_algorithm key) (jh_Algorithm header))"
  using assms
  by (cases "jk_publicKey key")
     (auto simp: verifyJWTWithKey_def verifyJWTSignature_def Let_def verifyRSASignature_def verifyRSAPSSSignature_def
       verifyECDSASignature_def split: if_splits)

lemma nonempty_loop_Some:
  "nonempty_loop acc vs = Some r \<Longrightarrow> distinct acc \<Longrightarrow> [] \<notin> set acc \<Longrightarrow>
     distinct r \<and> [] \<notin> set r \<and> set r = set acc \<union> TrimSpace ` set vs"
  by (induction acc vs rule: nonempty_loop.induct) (auto simp: Let_def split: if_splits)

lemma standard_claims:
  assumes "standardClaimsFromJWT claims now = Some c"
  shows "requiredStringClaim claims ''sub'' = Some (sc_SubjectID c)" "requiredStringClaim claims ''tenant_id'' = Some (sc_TenantID c)"
    "requiredStringClaim claims ''iss'' = Some (sc_Issuer c)" "sc_SubjectType c \<in> {''USER'', ''APP''}"
    "audienceClaim claims ''aud'' = Some (sc_Audience c)" "containsString (sc_Audience c) RequiredAudience"
    "requiredUnixTimeClaim claims ''exp'' = Some (sc_ExpiresAt c)" "now < sc_ExpiresAt c" "sc_IssuedAt c < sc_ExpiresAt c"
    "sc_IssuedAt c \<le> now + maxIATFutureSkew" "scopeClaim claims ''scope'' = Some (sc_Scopes c)"
    "\<And>t. requiredUnixTimeClaim claims ''nbf'' = Some t \<Longrightarrow> t \<le> now"
  using assms
  by (auto simp: standardClaimsFromJWT_def requiredSubjectTypeClaim_def optionalUnixTimeClaim_def Option.bind_eq_Some_conv
      requiredUnixTimeClaim_def split: if_splits option.splits)

lemma scopes_wellformed:
  assumes "scopeClaim claims key = Some scopes"
  shows "scopes \<noteq> [] \<and> distinct scopes \<and> [] \<notin> set scopes"
  using assms nonempty_loop_Some [of "[]"]
  by (fastforce simp: scopeClaim_def parseScopeString_def Let_def normalizeNonEmptyStringSlice_def Option.bind_eq_Some_conv
      split: if_splits option.splits)

lemma required_nonempty: "requiredStringClaim claims key = Some v \<Longrightarrow> v \<noteq> [] \<and> TrimSpace v = v"
  by (auto simp: requiredStringClaim_def Option.bind_eq_Some_conv split: if_splits)

lemma audience_trimmed:
  assumes "audienceClaim claims key = Some aud" and "a \<in> set aud"
  shows "TrimSpace a = a"
  using assms by (auto simp: audienceClaim_def Option.bind_eq_Some_conv split: option.splits if_splits)


text \<open>
  Claim C20. A key that is published later is picked up. When the key server's next answer holds
  the key that the token names and that verifies it, the token is accepted although the cached
  keys do not have that key, or have an older one of the same name that fails; the answer of the
  server replaces the cached keys.
\<close>

theorem rotated_key_is_picked_up:
  assumes token: "bearerTokenFromRequest hdr = Some token" "parseJWT token = Some (header, claims, input, sig)"
    and remote: "isRemote env" and answer: "fetched_keys (ae_fetch env (aw_tick w)) = Some keys"
    and key: "cachedKey (jh_KeyID header) keys = Some key" "verifyJWTWithKey header key input sig"
    and old: "\<forall>k. cachedKey (jh_KeyID header) (aw_keys w) = Some k \<longrightarrow> \<not> verifyJWTWithKey header k input sig"
    and claims: "standardClaimsFromJWT claims (ae_now env (Suc (aw_tick w))) = Some c"
      "issuer_set (ae_allowedIssuers env) = [] \<or> sc_Issuer c \<in> set (issuer_set (ae_allowedIssuers env))"
  shows "resolve env hdr w = (Inr c, w\<lparr>aw_keys := keys, aw_tick := Suc (Suc (aw_tick w))\<rparr>)"
proof -
  let ?w1 = "w\<lparr>aw_tick := Suc (aw_tick w), aw_keys := keys\<rparr>"
  have fresh: "bindA (refresh env) (\<lambda>_. cached (jh_KeyID header)) w = (Inr key, ?w1)"
    using answer key(1) by (simp add: bindA_Inr_iff refresh_Inr cached_Inr)
  have "verifiedKey env header input sig w = (Inr (), ?w1)"
  proof (cases "cachedKey (jh_KeyID header) (aw_keys w)")
    case None
    then have "keySet_key env (jh_KeyID header) w = (Inr key, ?w1)"
      using fresh remote by (simp add: keySet_key_def bindA_Inr_iff isRemote_def)
    then show ?thesis using key(2) by (simp add: verifiedKey_def bindA_run)
  next
    case (Some k)
    then have "keySet_key env (jh_KeyID header) w = (Inr k, w)" by (simp add: keySet_key_def bindA_Inr_iff)
    moreover have "refreshKey env (jh_KeyID header) w = (Inr key, ?w1)" using remote fresh by (simp add: refreshKey_def)
    ultimately show ?thesis using old Some remote key(2) by (simp add: verifiedKey_def bindA_run)
  qed
  then have "authenticate env standardClaimsFromJWT hdr w = (Inr c, w\<lparr>aw_keys := keys, aw_tick := Suc (Suc (aw_tick w))\<rparr>)"
    using token claims standard_claims(3) [OF claims(1)]
    by (auto simp: authenticate_def liftO_run bindA_run auth_now_def)
  then show ?thesis by (simp add: resolve_def unauthorized_iff)
qed

subsection \<open>Concrete requests\<close>

definition sampleStatic :: auth_env where
  "sampleStatic = \<lparr>ae_url = [], ae_allowedIssuers = ['' idp''], ae_fetch = (\<lambda>n. None), ae_now = (\<lambda>n. unix_epoch + 10 * second)\<rparr>"

definition sampleIdentity :: StandardClaims where
  "sampleIdentity = \<lparr>sc_SubjectID = ''u1'', sc_SubjectType = ''USER'', sc_TenantID = ''t1'', sc_ClientID = [], sc_TokenID = [],
     sc_Scopes = [''file:read'', ''file:write''], sc_Issuer = ''idp'', sc_Audience = [''zhi-file-data-plane'', ''zhi-file-admin''],
     sc_IssuedAt = unix_epoch, sc_ExpiresAt = unix_epoch + 3600 * second\<rparr>"

lemma sample_claims: "standardClaimsFromJWT sampleClaims (unix_epoch + 10 * second) = Some sampleIdentity"
  by code_simp

lemma sample_authenticates:
  assumes "rd sampleClaims (unix_epoch + 10 * second) = Some x"
  shows "authenticate sampleStatic rd (''Bearer '' @ sampleToken) \<lparr>aw_keys = [sampleKey], aw_tick = 0\<rparr> =
     (Inr x, \<lparr>aw_keys = [sampleKey], aw_tick = 1\<rparr>)"
proof -
  let ?w = "\<lparr>aw_keys = [sampleKey], aw_tick = 0\<rparr>"
  have "keySet_key sampleStatic ''k1'' ?w = (Inr sampleKey, ?w)"
    by (simp add: keySet_key_def bindA_Inr_iff cachedKey_def sampleKey_def)
  then have key: "verifiedKey sampleStatic \<lparr>jh_Algorithm = ''RS256'', jh_KeyID = ''k1''\<rparr> sampleInput
      (be_bytes 128 (sampleSig sampleInput)) ?w = (Inr (), ?w)"
    using sample_token_verified by (simp add: verifiedKey_def bindA_run)
  have iss: "requiredStringClaim sampleClaims ''iss'' = Some ''idp''" "issuer_set ['' idp''] = [''idp'']"
    by code_simp+
  show ?thesis
    using sample_token_parts key iss assms
    by (simp add: authenticate_def liftO_run bindA_run auth_now_def sampleStatic_def)
qed

lemma sample_resolves:
  "resolve sampleStatic (''Bearer '' @ sampleToken) \<lparr>aw_keys = [sampleKey], aw_tick = 0\<rparr> =
     (Inr sampleIdentity, \<lparr>aw_keys = [sampleKey], aw_tick = 1\<rparr>)"
  using sample_authenticates [of standardClaimsFromJWT, OF sample_claims] by (simp add: resolve_def unauthorized_iff)


text \<open>A key server that publishes the key of the sample.\<close>

definition sampleJWK :: "(string \<times> json) list" where
  "sampleJWK = [(''kty'', JStr ''RSA''), (''kid'', JStr ''k1''), (''e'', JStr ''Aw''),
     (''n'', JStr (b64_EncodeToString (be_bytes 128 (pk_N (sampleRSA sampleInput)))))]"

definition sampleJWKS :: string where
  "sampleJWKS = json_render (JObj [(''keys'', JArr [JObj sampleJWK])])"

definition sampleRemote :: auth_env where
  "sampleRemote = sampleStatic\<lparr>ae_url := ''https://idp/jwks'', ae_fetch := \<lambda>n. Some (200, sampleJWKS)\<rparr>"

lemma json_escape_plain: "(\<And>c. c \<in> set s \<Longrightarrow> byte_val c < 128 \<and> escape_byte c = [c]) \<Longrightarrow> json_escape s = s"
proof (induction s)
  case (Cons c s)
  then show ?case by (subst json_escape.simps) (simp add: escape_step_def)
qed (simp add: json_escape.simps)

lemma b64_length: "length (b64_EncodeToString s) \<le> 2 * length s + 4"
  by (induction s rule: b64_EncodeToString.induct) (auto simp: Let_def)

lemma b64_escape: "json_escape (b64_EncodeToString s) = b64_EncodeToString s"
proof (rule json_escape_plain)
  fix c assume "c \<in> set (b64_EncodeToString s)"
  then have "c \<in> set b64_alphabet" using b64_EncodeToString_set by blast
  moreover have "list_all (\<lambda>c. byte_val c < 128 \<and> escape_byte c = [c]) b64_alphabet" by code_simp
  ultimately show "byte_val c < 128 \<and> escape_byte c = [c]" by (simp add: list_all_iff)
qed

lemma sample_jwks: "fetched_keys (Some (200, sampleJWKS)) = Some [sampleKey]"
proof -
  let ?N = "be_bytes 128 (pk_N (sampleRSA sampleInput))"
  have wf: "wf_json (JObj [(''keys'', JArr [JObj sampleJWK])])" "json_depth (JObj [(''keys'', JArr [JObj sampleJWK])]) \<le> 10000"
    using b64_text_graphic [of _ ?N] by (auto simp: sampleJWK_def graphic_def intro!: sample_names)
  have names: "json_escape ''keys'' = ''keys''" "json_escape ''kty'' = ''kty''" "json_escape ''kid'' = ''kid''" "json_escape ''RSA'' = ''RSA''"
      "json_escape ''k1'' = ''k1''" "json_escape ''e'' = ''e''" "json_escape ''Aw'' = ''Aw''" "json_escape ''n'' = ''n''"
    by code_simp+
  have len: "length sampleJWKS \<le> jwksResponseLimit"
    using b64_length [of ?N] names
    by (simp add: sampleJWKS_def sampleJWK_def json_quote_def b64_escape jwksResponseLimit_def)
  have doc: "json_document sampleJWKS = Some [(''keys'', JArr [JObj sampleJWK])]"
    unfolding sampleJWKS_def by (rule json_document_render [OF wf])
  have N: "pk_N (sampleRSA sampleInput) < 256 ^ 128"
    using sampleSig_cube(2) [of sampleInput] by (simp add: sampleRSA_def)
  have key: "decode_jwk (JObj sampleJWK) = Some \<lparr>jd_KeyType = ''RSA'', jd_KeyID = ''k1'', jd_Use = [], jd_Algorithm = [],
      jd_Modulus = b64_EncodeToString ?N, jd_Exponent = ''Aw'', jd_Curve = [], jd_X = [], jd_Y = []\<rparr>"
    by (simp add: decode_jwk_def sampleJWK_def str_field_def field_simps_json)
  have e: "decodeBase64URLInt ''Aw'' = Some 3" by code_simp
  have trim: "TrimSpace ''RSA'' = ''RSA''" "TrimSpace ''k1'' = ''k1''" by code_simp+
  have n: "decodeBase64URLInt (b64_EncodeToString ?N) = Some (pk_N (sampleRSA sampleInput))"
  proof -
    have ne: "?N \<noteq> []" by (metis length_be_bytes list.size(3) zero_neq_numeral)
    then have "TrimSpace (b64_EncodeToString ?N) = b64_EncodeToString ?N" by (intro TrimSpace_b64_text) simp
    with ne N show ?thesis by (simp add: decodeBase64URLInt_def b64_round_trip be_val_be_bytes)
  qed
  show ?thesis
    using len doc key e n trim
    by (simp add: fetched_keys_def parseJWKS_def decode_jwks_def members_of_def parseJWKSKey_def parseRSAJWKSKey_def sampleKey_def sampleRSA_def)
qed

theorem rotated_key_is_picked_up_witness:
  "resolve sampleRemote (''Bearer '' @ sampleToken) \<lparr>aw_keys = [], aw_tick = 0\<rparr> = (Inr sampleIdentity, \<lparr>aw_keys = [sampleKey], aw_tick = 2\<rparr>)"
proof -
  have env: "isRemote sampleRemote" "ae_fetch sampleRemote 0 = Some (200, sampleJWKS)" "ae_now sampleRemote n = unix_epoch + 10 * second"
      "ae_allowedIssuers sampleRemote = ['' idp'']" for n
    by (simp_all add: sampleRemote_def sampleStatic_def isRemote_def)
  have iss: "issuer_set ['' idp''] = [''idp'']" by code_simp
  show ?thesis
    using rotated_key_is_picked_up [OF sample_token_parts env(1), of "\<lparr>aw_keys = [], aw_tick = 0\<rparr>" "[sampleKey]" sampleKey sampleIdentity]
      sample_jwks sample_token_verified sample_claims env iss
    by (simp add: cachedKey_def sampleKey_def sampleIdentity_def numeral_2_eq_2)
qed

end
