(* ===== verification/UploadHttpLaws.thy ===== *)
theory UploadHttpLaws
  imports HttpLaws UploadHTTP IsolationLaws DataplaneAuthLaws
begin

text \<open>
  The upload service from the request to the database: without an accepted token nothing happens,
  without the write scope the application is left as it is, and a caller of one tenant never
  changes another tenant's rows.
\<close>

interpretation iso_app: app_frame "\<lambda>w w'. others t (w_db w') = others t (w_db w)" for t
  by unfold_locales

subsection \<open>The bodies of the handlers\<close>

definition body_confined :: "(http_request \<Rightarrow> AuthContext \<Rightarrow> string \<Rightarrow> (world, http_response) server_action) \<Rightarrow> bool" where
  "body_confined H \<longleftrightarrow> (\<forall>r auth i.
     (TrimSpace (ac_TenantID auth) = ac_TenantID auth \<longrightarrow> iso_app.server.keeps (ac_TenantID auth) (H r auth i)) \<and>
     (RequireFileWrite auth \<noteq> None \<longrightarrow> same_app.server.keeps (H r auth i)))"

lemma scope_refused:
  "RequireFileWrite (cu_Auth c1) = Some e \<Longrightarrow> CreateUploadSession env h1 c1 = throwA e"
  "RequireFileWrite (q_Auth c2) = Some e \<Longrightarrow> GetUploadSession env c2 = throwA e"
  "RequireFileWrite (ic_Auth c3) = Some e \<Longrightarrow> UploadInlineContent env c3 = throwA e"
  "RequireFileWrite (pc_Auth c4) = Some e \<Longrightarrow> PresignMultipartParts env h4 c4 = throwA e"
  "RequireFileWrite (q_Auth c2) = Some e \<Longrightarrow> ListUploadedParts env c2 = throwA e"
  "RequireFileWrite (cm_Auth c6) = Some e \<Longrightarrow> CompleteUploadSession env h6 c6 = throwA e"
  "RequireFileWrite (ab_Auth c7) = Some e \<Longrightarrow> AbortUploadSession env m c7 = throwA e"
  by (simp_all add: CreateUploadSession_def checkCreateRequest_def GetUploadSession_def UploadInlineContent_def PresignMultipartParts_def
      ListUploadedParts_def CompleteUploadSession_def AbortUploadSession_def abort_read_def)

lemma scope_refused_same:
  assumes "RequireFileWrite auth \<noteq> None"
  shows "cu_Auth c1 = auth \<Longrightarrow> same_app.keeps (CreateUploadSession env h1 c1)"
    "q_Auth c2 = auth \<Longrightarrow> same_app.keeps (GetUploadSession env c2)"
    "ic_Auth c3 = auth \<Longrightarrow> same_app.keeps (UploadInlineContent env c3)"
    "pc_Auth c4 = auth \<Longrightarrow> same_app.keeps (PresignMultipartParts env h4 c4)"
    "q_Auth c2 = auth \<Longrightarrow> same_app.keeps (ListUploadedParts env c2)"
    "cm_Auth c6 = auth \<Longrightarrow> same_app.keeps (CompleteUploadSession env h6 c6)"
    "ab_Auth c7 = auth \<Longrightarrow> same_app.keeps (AbortUploadSession env m c7)"
  using assms scope_refused throwA_same by (metis not_Some_eq)+

lemma use_case_isolation:
  assumes "TrimSpace t = t"
  shows "ac_TenantID (cu_Auth c1) = t \<Longrightarrow> isolation.keeps t (CreateUploadSession env h1 c1)"
    "isolation.keeps t (GetUploadSession env c2)"
    "ac_TenantID (ic_Auth c3) = t \<Longrightarrow> isolation.keeps t (UploadInlineContent env c3)"
    "isolation.keeps t (PresignMultipartParts env h4 c4)"
    "ac_TenantID (q_Auth c2) = t \<Longrightarrow> isolation.keeps t (ListUploadedParts env c2)"
    "ac_TenantID (cm_Auth c6) = t \<Longrightarrow> isolation.keeps t (CompleteUploadSession env h6 c6)"
    "ac_TenantID (ab_Auth c7) = t \<Longrightarrow> isolation.keeps t (AbortUploadSession env m c7)"
  using assms CreateUploadSession_isolation GetUploadSession_isolation UploadInlineContent_isolation PresignMultipartParts_isolation
    ListUploadedParts_isolation CompleteUploadSession_isolation AbortUploadSession_isolation by metis+

lemma upload_Build_sel:
  "uo_Auth (upload_Build aenv env cfg reason) = Some (jwks_resolver aenv)"
  "uo_CreateUploadSession (upload_Build aenv env cfg reason) = Some (CreateUploadSession env (NewCreateUploadSessionHandler
     \<lparr>cc_SessionTTL = ug_SessionTTL cfg, cc_PresignTTL = ug_PresignTTL cfg, cc_AllowedModes = allowedModes (ug_AllowedModes cfg)\<rparr>))"
  "uo_GetUploadSession (upload_Build aenv env cfg reason) = Some (GetUploadSession env)"
  "uo_UploadInlineContent (upload_Build aenv env cfg reason) = Some (UploadInlineContent env)"
  "uo_PresignMultipartParts (upload_Build aenv env cfg reason) = Some (PresignMultipartParts env (NewPresignMultipartPartsHandler
     \<lparr>pf_DefaultTTL = ug_PresignTTL cfg, pf_MaxTTL = max (ug_SessionTTL cfg) (24 * hour)\<rparr>))"
  "uo_ListUploadedParts (upload_Build aenv env cfg reason) = Some (ListUploadedParts env)"
  "uo_CompleteUploadSession (upload_Build aenv env cfg reason) = Some (CompleteUploadSession env
     \<lparr>cp_parts = True, cp_blobs = True, cp_files = True, cp_dedup = True, cp_usage = True, cp_outbox = True\<rparr>)"
  "uo_AbortUploadSession (upload_Build aenv env cfg reason) = Some (AbortUploadSession env True)"
  by (simp_all add: upload_Build_def)

lemma upload_handlers:
  assumes "(m, ps, handler) \<in> set (upload_routes (upload_Build aenv env cfg reason))"
  shows "\<exists>H. handler = serve (upload_authenticate (upload_Build aenv env cfg reason)) H \<and> body_confined H"
proof -
  let ?h = "upload_Build aenv env cfg reason" and ?A = "upload_authenticate (upload_Build aenv env cfg reason)"
  have confined: "\<exists>H'. serve ?A H = serve ?A H' \<and> body_confined H'" if "body_confined H" for H using that by blast
  from assms consider "handler = handleCreateUploadSession ?h" | "handler = handleGetUploadSession ?h" | "handler = handleUploadInlineContent ?h"
    | "handler = handlePresignMultipartParts ?h" | "handler = handleListUploadedParts ?h" | "handler = handleCompleteUploadSession ?h"
    | "handler = handleAbortUploadSession ?h"
    by (auto simp: upload_routes_def Let_def)
  then show ?thesis
    by cases (simp only: handleCreateUploadSession_def handleGetUploadSession_def handleUploadInlineContent_def handlePresignMultipartParts_def
        handleListUploadedParts_def handleCompleteUploadSession_def handleAbortUploadSession_def upload_Build_sel,
      rule confined, subst body_confined_def, intro allI conjI impI,
      (auto intro!: iso_app.server_rules same_app.server_rules use_case_isolation scope_refused_same
         simp: createCommand_def sessionQuery_def split: prod.splits)[2])+
qed

subsection \<open>Requests\<close>

lemma jwks_resolver_run:
  "jwks_resolver aenv r a = (case resolve aenv (hq_Authorization r) a of
     (Inl e, a') \<Rightarrow> (Inl newUnauthorizedAuthError, a') | (Inr c, a') \<Rightarrow> (Inr (auth_of_claims (requestIDFromRequest r []) c), a'))"
proof -
  have "e = newUnauthorizedAuthError" if "resolve aenv h a = (Inl e, a')" for h e a'
    using that by (simp add: resolve_def unauthorized_iff)
  then show ?thesis by (auto simp: jwks_resolver_def bindA_def returnA_def split: prod.splits sum.splits)
qed

text \<open>The identity a handler runs with is the one of the claims.\<close>

lemma upload_authenticate_run:
  "upload_authenticate (upload_Build aenv env cfg reason) r s = (case resolve aenv (hq_Authorization r) (sv_auth s) of
     (Inl e, a) \<Rightarrow> (Inl newUnauthorizedAuthError, s\<lparr>sv_auth := a\<rparr>)
   | (Inr c, a) \<Rightarrow> (Inr (auth_of_claims (requestIDFromRequest r []) c, requestIDFromRequest r []), s\<lparr>sv_auth := a\<rparr>))"
proof -
  let ?A = "handler_authenticate (Some (jwks_resolver aenv)) ac_RequestID (\<lambda>id auth. auth\<lparr>ac_RequestID := id\<rparr>) r s"
  have "?A = (case jwks_resolver aenv r (sv_auth s) of
      (Inl e, a) \<Rightarrow> (Inl e, s\<lparr>sv_auth := a\<rparr>)
    | (Inr auth, a) \<Rightarrow> (Inr (auth\<lparr>ac_RequestID := requestIDFromRequest r []\<rparr>, requestIDFromRequest r []), s\<lparr>sv_auth := a\<rparr>))"
  proof (rule handler_authenticate_run)
    fix a assume "bearerTokenFromRequest (hq_Authorization r) = None"
    then show "jwks_resolver aenv r a = (Inl newUnauthorizedAuthError, a)"
      by (simp add: jwks_resolver_run resolve_def authenticate_no_bearer)
  qed (auto simp: jwks_resolver_run auth_of_claims_def split: prod.splits sum.splits)
  then show ?thesis
    by (simp add: upload_authenticate_def upload_Build_sel jwks_resolver_run auth_of_claims_def split: prod.splits sum.splits)
qed

lemma scopes_trimmed:
  assumes "scopeClaim claims key = Some scopes" and "x \<in> set scopes"
  shows "TrimSpace x = x"
proof -
  obtain vs where "nonempty_loop [] vs = Some scopes"
    using assms(1) by (auto simp: scopeClaim_def parseScopeString_def normalizeNonEmptyStringSlice_def Let_def Option.bind_eq_Some_conv
        split: if_splits option.splits)
  from nonempty_loop_Some [OF this] assms(2) show ?thesis by auto
qed

lemma resolved_claims:
  assumes "resolve aenv hdr a = (Inr c, a')"
  shows "TrimSpace (sc_TenantID c) = sc_TenantID c" and "\<And>x. x \<in> set (sc_Scopes c) \<Longrightarrow> TrimSpace x = x"
proof -
  have "authenticate aenv standardClaimsFromJWT hdr a = (Inr c, a')" using assms by (simp add: resolve_def unauthorized_iff)
  from authenticate_Inr [OF this] obtain claims now where c: "standardClaimsFromJWT claims now = Some c" by blast
  show "TrimSpace (sc_TenantID c) = sc_TenantID c" using required_nonempty [OF standard_claims(2) [OF c]] by blast
  show "TrimSpace x = x" if "x \<in> set (sc_Scopes c)" for x using scopes_trimmed [OF standard_claims(11) [OF c] that] .
qed

lemma write_scope_missing:
  assumes "resolve aenv hdr a = (Inr c, a')" and "ScopeFileWrite \<notin> set (sc_Scopes c)"
  shows "RequireFileWrite (auth_of_claims i c) \<noteq> None"
  using assms resolved_claims(2) [OF assms(1)]
  by (auto simp: RequireFileWrite_def HasScope_def auth_of_claims_def list_ex_iff)


text \<open>A session is aborted with the sample token.\<close>

definition sampleUploadConfig :: upload_config where
  "sampleUploadConfig = \<lparr>ug_SessionTTL = 0, ug_PresignTTL = 0, ug_AllowedModes = [], ug_MaxInlineSize = 100\<rparr>"

definition sampleRequest :: "string \<Rightarrow> string list \<Rightarrow> string \<Rightarrow> http_request" where
  "sampleRequest m path body = \<lparr>hq_Method = m, hq_Segments = path, hq_Authorization = ''Bearer '' @ sampleToken, hq_XRequestId = ''q1'',
     hq_IdempotencyKey = [], hq_ContentType = [], hq_PathValue = [], hq_Query = [], hq_ContentLength = int (length body), hq_Body = body\<rparr>"

definition sampleServer :: "'w \<Rightarrow> 'w server_world" where
  "sampleServer w = \<lparr>sv_auth = \<lparr>aw_keys = [sampleKey], aw_tick = 0\<rparr>, sv_world = w, sv_metrics = []\<rparr>"

lemma sample_request_id: "requestIDFromRequest (sampleRequest m path body) f = ''q1''"
proof -
  have "TrimSpace ''q1'' = ''q1''" by code_simp
  then show ?thesis by (simp add: requestIDFromRequest_def sampleRequest_def)
qed

lemma serve_run: "A r s = (Inr (auth, i), s1) \<Longrightarrow> H r auth i s1 = (Inr resp, s2) \<Longrightarrow> serve A H r s = (resp, s2)"
  by (simp add: serve_def)

definition sampleAbort :: AbortUploadSessionCommand where
  "sampleAbort = \<lparr>ab_UploadSessionID = ''s1'', ab_Reason = [], ab_IdempotencyKey = [], ab_Auth = auth_of_claims ''q1'' sampleIdentity\<rparr>"

lemma sample_abort_run:
  "\<exists>v w. AbortUploadSession sampleEnv True sampleAbort (sampleWorld [sampleSession]) = (Inr v, w) \<and>
     map us_status (upload_sessions (w_db w)) = [SessionStatusAborted]"
proof -
  let ?w = "sampleWorld [sampleSession]"
  define aborted where "aborted = sampleSession\<lparr>s_Status := SessionStatusAborted, s_AbortedAt := Some 41, s_UpdatedAt := 41\<rparr>"
  define run where "run = abort_write sampleEnv True aborted (?w\<lparr>w_tick := 2\<rparr>)"
  have checks: "RequireFileWrite (ab_Auth sampleAbort) = None" "EnsureSessionAccess (ab_Auth sampleAbort) sampleSession = None"
    "TrimSpace ''s1'' \<noteq> []" "Abort 41 sampleSession = Inr aborted" "\<not> isl (fst run) \<and> map us_status (upload_sessions (w_db (snd run))) = [SessionStatusAborted]"
    unfolding aborted_def run_def by code_simp+
  have load: "GetByID sampleEnv ''t1'' ''s1'' ?w = (Inr sampleSession, tick ?w)"
    using sample_load [OF sample_storable(1)] by (simp add: GetByID_Inr) (simp add: sampleSession_def)
  have ids: "ac_TenantID (ab_Auth sampleAbort) = ''t1''" "ab_UploadSessionID sampleAbort = ''s1''"
    by (simp_all add: sampleAbort_def auth_of_claims_def sampleIdentity_def)
  have "Now sampleEnv (tick ?w) = (Inr 41, ?w\<lparr>w_tick := 2\<rparr>)"
    by (simp add: Now_run tick_def sampleWorld_def sampleEnv_def)
  with checks load have "abort_read sampleEnv sampleAbort ?w = (Inr aborted, ?w\<lparr>w_tick := 2\<rparr>)"
    by (simp add: abort_read_def ids requireSessionID_def bindA_run liftA_def)
  then have "AbortUploadSession sampleEnv True sampleAbort ?w = run" by (simp add: AbortUploadSession_def bindA_run run_def)
  moreover obtain v where "fst run = Inr v" using checks(5) not_isl_Inr by blast
  ultimately show ?thesis using checks(5) by (intro exI [of _ v] exI [of _ "snd run"]) (simp add: prod_eq_iff)
qed

lemma sample_abort_served:
  "\<exists>resp s'. upload_server sampleStatic sampleEnv sampleUploadConfig id (sampleRequest ''POST'' [''api'', ''v1'', ''upload-sessions'', ''s1'', ''abort''] [])
     (sampleServer (sampleWorld [sampleSession])) = Some (resp, s') \<and> hs_Status resp = 200 \<and>
     map us_status (upload_sessions (w_db (sv_world s'))) = [SessionStatusAborted]"
proof -
  let ?h = "upload_Build sampleStatic sampleEnv sampleUploadConfig id" and ?s = "sampleServer (sampleWorld [sampleSession])"
  let ?q = "sampleRequest ''POST'' [''api'', ''v1'', ''upload-sessions'', ''s1'', ''abort''] []" and ?a = "\<lparr>aw_keys = [sampleKey], aw_tick = 1\<rparr>"
  let ?r = "?q\<lparr>hq_PathValue := ''s1''\<rparr>"
  obtain v w where run: "AbortUploadSession sampleEnv True sampleAbort (sampleWorld [sampleSession]) = (Inr v, w)"
    "map us_status (upload_sessions (w_db w)) = [SessionStatusAborted]" by (rule exE [OF sample_abort_run]) auto
  have route: "mux (upload_routes ?h) ?q = Some (handleAbortUploadSession ?h, ''s1'')"
    by (simp add: upload_routes_def Let_def sampleRequest_def method_matches_def)
  have id: "requestIDFromRequest ?r [] = ''q1''"
    by (simp add: sample_request_id)
  have auth: "upload_authenticate ?h ?r ?s = (Inr (auth_of_claims ''q1'' sampleIdentity, ''q1''), ?s\<lparr>sv_auth := ?a\<rparr>)"
    unfolding upload_authenticate_run id using sample_resolves by (simp add: sampleRequest_def sampleServer_def)
  have trim: "TrimSpace ''s1'' = ''s1''" "TrimSpace [] = []" by code_simp+
  have "handleAbortUploadSession ?h ?r ?s = (answerSession 200 ''q1'' v,
      ?s\<lparr>sv_auth := ?a, sv_world := w, sv_metrics := [RecordSessionAbort]\<rparr>)"
    unfolding handleAbortUploadSession_def
    by (rule serve_run, rule auth)
       (use run(1) trim in \<open>simp add: upload_Build_sel configured_def hasBody_def sampleRequest_def sampleServer_def onApp_def bindA_def
          count_metric_def returnA_def sampleAbort_def liftA_def\<close>)
  with route run(2) show ?thesis
    by (simp add: upload_server_def ServeHTTP_def answerSession_def writeJSON_def)
qed


end
