(* ===== verification/AdminHTTP.thy ===== *)
theory AdminHTTP
  imports HttpTransport AdminQueries
begin

text \<open>
  The HTTP interface of the admin service (\<^verbatim>\<open>admin/transport/http\<close>), its own verifier of
  administrator tokens and its composition with the use cases (\<^verbatim>\<open>admin/runtime\<close>). The verifier has
  the same text as the one of the data plane up to the claims it reads: the audience, the roles,
  the tenant scopes and the permissions.
\<close>

subsection \<open>Administrator tokens (\<^verbatim>\<open>auth_jwks.go\<close>)\<close>

definition adminJWKSRequiredAudience :: string where "adminJWKSRequiredAudience = ''zhi-file-admin''"

definition decodeStringSliceClaim :: "json \<Rightarrow> string list option" where
  "decodeStringSliceClaim v = unmarshal_strings v"

definition requiredStringSliceClaim :: "jwtClaims \<Rightarrow> string \<Rightarrow> string list option" where
  "requiredStringSliceClaim claims key = do { v \<leftarrow> claim_value claims key; decodeStringSliceClaim v }"

definition optionalStringSliceClaim :: "jwtClaims \<Rightarrow> string \<Rightarrow> string list option" where
  "optionalStringSliceClaim claims key = (case claim_value claims key of
     None \<Rightarrow> Some [] | Some v \<Rightarrow> decodeStringSliceClaim v)"

definition admin_audienceClaim :: "jwtClaims \<Rightarrow> string \<Rightarrow> string list option" where
  "admin_audienceClaim claims key = do {
     v \<leftarrow> claim_value claims key;
     (case unmarshal_string v of
        Some single \<Rightarrow> if TrimSpace single = [] then None else Some [TrimSpace single]
      | None \<Rightarrow> do { multiple \<leftarrow> unmarshal_strings v; if multiple = [] then None else Some multiple }) }"

definition adminContextInputFromClaims :: "string \<Rightarrow> jwtClaims \<Rightarrow> time \<Rightarrow> AdminContextInput option" where
  "adminContextInputFromClaims requestID claims now = do {
     adminID \<leftarrow> requiredStringClaim claims ''sub'';
     issuer \<leftarrow> requiredStringClaim claims ''iss'';
     audiences \<leftarrow> admin_audienceClaim claims ''aud'';
     if \<not> containsString audiences adminJWKSRequiredAudience then None else do {
     issuedAt \<leftarrow> requiredUnixTimeClaim claims ''iat'';
     expiry \<leftarrow> requiredUnixTimeClaim claims ''exp'';
     if \<not> now < expiry then None else do {
     roles \<leftarrow> requiredStringSliceClaim claims ''roles'';
     tenantScopes \<leftarrow> optionalStringSliceClaim claims ''tenant_scopes'';
     permissions \<leftarrow> optionalStringSliceClaim claims ''permissions'';
     tokenID \<leftarrow> optionalStringClaim claims ''jti'';
     Some \<lparr>ai_RequestID = requestID, ai_AdminID = adminID, ai_Roles = roles, ai_TenantScopes = tenantScopes,
       ai_Permissions = permissions, ai_TokenID = tokenID\<rparr> }}}"

definition admin_resolve :: "auth_env \<Rightarrow> http_request \<Rightarrow> (auth_world, go_error, AdminContext) action" where
  "admin_resolve aenv r = unauthorized (authenticate aenv (\<lambda>claims now. do {
     input \<leftarrow> adminContextInputFromClaims (requestIDFromRequest r []) claims now;
     (case NewAdminContext input of Inl err \<Rightarrow> None | Inr auth \<Rightarrow> Some auth) }) (hq_Authorization r))"

subsection \<open>Options\<close>

record 'w admin_options =
  ao_Auth :: "(http_request \<Rightarrow> (auth_world, go_error, AdminContext) action) option"
  ao_CreateTenant :: "(CreateTenantCommand \<Rightarrow> ('w, go_error, Tenant) action) option"
  ao_ListTenants :: "(ListTenantsQuery \<Rightarrow> ('w, go_error, Tenant list \<times> string) action) option"
  ao_GetTenant :: "(string \<Rightarrow> AdminContext \<Rightarrow> ('w, go_error, Tenant) action) option"
  ao_PatchTenant :: "(PatchTenantCommand \<Rightarrow> ('w, go_error, Tenant) action) option"
  ao_GetTenantPolicy :: "(string \<Rightarrow> AdminContext \<Rightarrow> ('w, go_error, TenantPolicyView) action) option"
  ao_PatchTenantPolicy :: "(PatchTenantPolicyCommand \<Rightarrow> ('w, go_error, TenantPolicyView) action) option"
  ao_GetTenantUsage :: "(string \<Rightarrow> AdminContext \<Rightarrow> ('w, go_error, TenantUsageView) action) option"
  ao_ListFiles :: "(ListFilesQuery \<Rightarrow> ('w, go_error, AdminFile list \<times> string) action) option"
  ao_GetFile :: "(string \<Rightarrow> AdminContext \<Rightarrow> ('w, go_error, AdminFile) action) option"
  ao_DeleteFile :: "(DeleteFileCommand \<Rightarrow> ('w, go_error, DeleteFileResult) action) option"
  ao_ListAuditLogs :: "(ListAuditLogsQuery \<Rightarrow> ('w, go_error, AuditLog list \<times> string) action) option"
  ao_reason :: "string \<Rightarrow> string"

definition admin_authenticate :: "'w admin_options \<Rightarrow> http_request \<Rightarrow> ('w, AdminContext \<times> string) server_action" where
  "admin_authenticate h = handler_authenticate (ao_Auth h) ai_RequestID (\<lambda>id auth. auth\<lparr>ai_RequestID := id\<rparr>)"

subsection \<open>Queries and bodies\<close>

definition intQueryValue :: "http_request \<Rightarrow> string \<Rightarrow> int result" where
  "intQueryValue r key =
     (let value = TrimSpace (query_Get r key) in
      if value = [] then Inr 0
      else (case ParseInt64 value of
          Some parsed \<Rightarrow> Inr parsed
        | None \<Rightarrow> Inl (New CodeInvalidArgument ''query parameter is invalid''
            [(''field'', DStr key), (''reason'', DStr ''must_be_integer'')])))"

definition parseListTenantsQuery :: "http_request \<Rightarrow> AdminContext \<Rightarrow> ListTenantsQuery result" where
  "parseListTenantsQuery r auth = bindE (intQueryValue r ''limit'') (\<lambda>limit.
     Inr \<lparr>qt_Cursor = TrimSpace (query_Get r ''cursor''), qt_Limit = limit,
       qt_Status = (let value = TrimSpace (query_Get r ''status'') in if value \<noteq> [] then Some value else None), qt_Auth = auth\<rparr>)"

definition parseListFilesQuery :: "http_request \<Rightarrow> AdminContext \<Rightarrow> ListFilesQuery result" where
  "parseListFilesQuery r auth = bindE (intQueryValue r ''limit'') (\<lambda>limit.
     Inr \<lparr>qf_TenantID = TrimSpace (query_Get r ''tenantId''), qf_Status = TrimSpace (query_Get r ''status''),
       qf_Cursor = TrimSpace (query_Get r ''cursor''), qf_Limit = limit, qf_Auth = auth\<rparr>)"

definition parseListAuditLogsQuery :: "http_request \<Rightarrow> AdminContext \<Rightarrow> ListAuditLogsQuery result" where
  "parseListAuditLogsQuery r auth = bindE (intQueryValue r ''limit'') (\<lambda>limit.
     Inr \<lparr>qa_TenantID = TrimSpace (query_Get r ''tenantId''), qa_ActorID = TrimSpace (query_Get r ''actorId''),
       qa_Action = TrimSpace (query_Get r ''action''), qa_Cursor = TrimSpace (query_Get r ''cursor''), qa_Limit = limit, qa_Auth = auth\<rparr>)"

definition trimStringPtr :: "string option \<Rightarrow> string option" where
  "trimStringPtr value = (case value of None \<Rightarrow> None | Some v \<Rightarrow> Some (TrimSpace v))"

definition trimSlice :: "string list option \<Rightarrow> string list option" where
  "trimSlice values = (case values of None \<Rightarrow> None | Some vs \<Rightarrow> Some (map TrimSpace vs))"

definition toTenantStatusPtr :: "string option \<Rightarrow> string option" where
  "toTenantStatusPtr value = (case value of None \<Rightarrow> None | Some v \<Rightarrow> Some (TrimSpace v))"

record createTenantRequest =
  nq_TenantID :: string
  nq_TenantName :: string
  nq_ContactEmail :: string
  nq_Description :: string

definition decode_createTenant :: "(string \<times> json) list \<Rightarrow> createTenantRequest option" where
  "decode_createTenant ms = do {
     tenantID \<leftarrow> str_field ''tenantId'' ms; tenantName \<leftarrow> str_field ''tenantName'' ms;
     contactEmail \<leftarrow> str_field ''contactEmail'' ms; description \<leftarrow> str_field ''description'' ms;
     Some \<lparr>nq_TenantID = tenantID, nq_TenantName = tenantName, nq_ContactEmail = contactEmail, nq_Description = description\<rparr> }"

text \<open>The two patches; the fields are trimmed by the handlers.\<close>

definition decode_patchTenant :: "(string \<times> json) list \<Rightarrow> TenantPatch option" where
  "decode_patchTenant ms = do {
     tenantName \<leftarrow> ptr_field decode_str ''tenantName'' ms; status \<leftarrow> ptr_field decode_str ''status'' ms;
     contactEmail \<leftarrow> ptr_field decode_str ''contactEmail'' ms; description \<leftarrow> ptr_field decode_str ''description'' ms;
     reason \<leftarrow> str_field ''reason'' ms;
     Some \<lparr>px_TenantName = tenantName, px_Status = status, px_ContactEmail = contactEmail, px_Description = description, px_Reason = reason\<rparr> }"

definition decode_patchTenantPolicy :: "(string \<times> json) list \<Rightarrow> TenantPolicyPatch option" where
  "decode_patchTenantPolicy ms = do {
     maxStorageBytes \<leftarrow> ptr_field decode_int ''maxStorageBytes'' ms; maxFileCount \<leftarrow> ptr_field decode_int ''maxFileCount'' ms;
     maxSingleFileSize \<leftarrow> ptr_field decode_int ''maxSingleFileSize'' ms;
     allowedMimeTypes \<leftarrow> ptr_field decode_strs ''allowedMimeTypes'' ms; allowedExtensions \<leftarrow> ptr_field decode_strs ''allowedExtensions'' ms;
     defaultAccessLevel \<leftarrow> ptr_field decode_str ''defaultAccessLevel'' ms; autoCreateEnabled \<leftarrow> ptr_field decode_bool ''autoCreateEnabled'' ms;
     reason \<leftarrow> str_field ''reason'' ms;
     Some \<lparr>pp_Policy = \<lparr>ap_MaxStorageBytes = maxStorageBytes, ap_MaxFileCount = maxFileCount, ap_MaxSingleFileSize = maxSingleFileSize,
         ap_AllowedMimeTypes = allowedMimeTypes, ap_AllowedExtensions = allowedExtensions,
         ap_DefaultAccessLevel = defaultAccessLevel, ap_AutoCreateEnabled = autoCreateEnabled\<rparr>, pp_Reason = reason\<rparr> }"

subsection \<open>Answers\<close>

text \<open>Times are instants, so their conversion to UTC changes nothing.\<close>

definition mapTenant :: "Tenant \<Rightarrow> json option" where
  "mapTenant v = members [m_str ''tenantId'' (tn_TenantID v), m_str ''tenantName'' (tn_TenantName v), m_str ''status'' (tn_Status v),
     m_str_omitempty ''contactEmail'' (tn_ContactEmail v), m_str_omitempty ''description'' (tn_Description v),
     m_time ''createdAt'' (tn_CreatedAt v), m_time ''updatedAt'' (tn_UpdatedAt v)]"

definition mapTenantPolicy :: "TenantPolicyView \<Rightarrow> json option" where
  "mapTenantPolicy v = members [m_str ''tenantId'' (pv_TenantID v),
     m_ptr (m_int ''maxStorageBytes'') (ap_MaxStorageBytes (pv_Policy v)), m_ptr (m_int ''maxFileCount'') (ap_MaxFileCount (pv_Policy v)),
     m_ptr (m_int ''maxSingleFileSize'') (ap_MaxSingleFileSize (pv_Policy v)),
     m_strs_omitempty ''allowedMimeTypes'' (slice (ap_AllowedMimeTypes (pv_Policy v))),
     m_strs_omitempty ''allowedExtensions'' (slice (ap_AllowedExtensions (pv_Policy v))),
     m_ptr (m_str ''defaultAccessLevel'') (ap_DefaultAccessLevel (pv_Policy v)),
     m_ptr (m_bool ''autoCreateEnabled'') (ap_AutoCreateEnabled (pv_Policy v)),
     m_time ''createdAt'' (pv_CreatedAt v), m_time ''updatedAt'' (pv_UpdatedAt v)]"

definition mapTenantUsage :: "TenantUsageView \<Rightarrow> json option" where
  "mapTenantUsage v = members [m_str ''tenantId'' (uv_TenantID v), m_int ''usedStorageBytes'' (uv_StorageBytes v),
     m_int ''usedFileCount'' (uv_FileCount v), m_ptr (m_time ''lastUploadAt'') (uv_LastUploadAt v), m_time ''updatedAt'' (uv_UpdatedAt v)]"

definition mapAdminFile :: "AdminFile \<Rightarrow> json option" where
  "mapAdminFile v = members [m_str ''fileId'' (af_FileID v), m_str ''tenantId'' (af_TenantID v), m_str ''fileName'' (af_FileName v),
     m_str_omitempty ''contentType'' (af_ContentType v), m_int ''sizeBytes'' (af_SizeBytes v),
     m_str ''accessLevel'' (access_level_string (af_AccessLevel v)), m_str ''status'' (file_status_string (af_Status v)),
     m_ptr (m_time ''deletedAt'') (af_DeletedAt v), m_time ''createdAt'' (af_CreatedAt v), m_time ''updatedAt'' (af_UpdatedAt v)]"

definition mapDeleteFileResult :: "DeleteFileResult \<Rightarrow> json option" where
  "mapDeleteFileResult v = members [m_str ''fileId'' (df_FileID v), m_str ''status'' (file_status_string (df_Status v)),
     m_ptr (m_time ''deletedAt'') (df_DeletedAt v), m_bool ''physicalDeleteScheduled'' (df_PhysicalDeleteScheduled v)]"

text \<open>The details of an audit record are JSON values; a time is its text.\<close>

fun pval_json :: "pval \<Rightarrow> json option" where
  "pval_json (PStr s) = Some (JStr s)"
| "pval_json (PInt i) = Some (JNum (Itoa i))"
| "pval_json (PTime t) = time_json t"
| "pval_json (PBool b) = Some (JBool b)"
| "pval_json (PStrs ss) = Some (JArr (map JStr ss))"

definition m_details_omitempty :: "string \<Rightarrow> (string \<times> pval) list \<Rightarrow> json_members" where
  "m_details_omitempty k kvs = (if kvs = [] then Some []
     else map_option (\<lambda>vs. [(k, json_map vs)]) (those (map (\<lambda>(n, v). map_option (Pair n) (pval_json v)) kvs)))"

definition mapAuditLog :: "AuditLog \<Rightarrow> json option" where
  "mapAuditLog v = members [m_str ''auditLogId'' (lg_AuditLogID v), m_str_omitempty ''tenantId'' (lg_TenantID v),
     m_str ''actorId'' (lg_ActorID v), m_str ''action'' (lg_Action v), m_str ''targetType'' (lg_TargetType v),
     m_str_omitempty ''targetId'' (lg_TargetID v), m_details_omitempty ''details'' (lg_Details v), m_time ''createdAt'' (lg_CreatedAt v)]"

definition answer :: "nat \<Rightarrow> string \<Rightarrow> json option \<Rightarrow> http_response" where
  "answer status requestID data = writeJSON status requestID (envelope requestID data)"

definition answerPage :: "string \<Rightarrow> json option list \<Rightarrow> string \<Rightarrow> http_response" where
  "answerPage requestID items nextCursor = writeJSON 200 requestID (members [m_str ''requestId'' requestID, m_list ''data'' items,
     m_json ''page'' (members [m_str_omitempty ''nextCursor'' nextCursor])])"

subsection \<open>Handlers\<close>

definition handleListTenants :: "'w admin_options \<Rightarrow> 'w handler_func" where
  "handleListTenants h = serve (admin_authenticate h) (\<lambda>r auth requestID.
     bindA (configured (ao_ListTenants h) ''list tenants'') (\<lambda>useCase.
     bindA (liftA (parseListTenantsQuery r auth)) (\<lambda>query.
     bindA (onApp (useCase query)) (\<lambda>(items, nextCursor).
     returnA (answerPage requestID (map mapTenant items) nextCursor)))))"

definition handleCreateTenant :: "'w admin_options \<Rightarrow> 'w handler_func" where
  "handleCreateTenant h = serve (admin_authenticate h) (\<lambda>r auth requestID.
     bindA (configured (ao_CreateTenant h) ''create tenant'') (\<lambda>useCase.
     bindA (liftA (decodeJSON (ao_reason h) [''tenantId'', ''tenantName'', ''contactEmail'', ''description''] decode_createTenant (hq_Body r))) (\<lambda>request.
     bindA (onApp (useCase \<lparr>xc_TenantID = TrimSpace (nq_TenantID request), xc_TenantName = TrimSpace (nq_TenantName request),
       xc_ContactEmail = TrimSpace (nq_ContactEmail request), xc_Description = TrimSpace (nq_Description request),
       xc_IdempotencyKey = TrimSpace (hq_IdempotencyKey r), xc_Auth = auth\<rparr>)) (\<lambda>result.
     returnA (answer 201 requestID (mapTenant result))))))"

definition handleGetTenant :: "'w admin_options \<Rightarrow> 'w handler_func" where
  "handleGetTenant h = serve (admin_authenticate h) (\<lambda>r auth requestID.
     bindA (configured (ao_GetTenant h) ''get tenant'') (\<lambda>useCase.
     bindA (onApp (useCase (TrimSpace (hq_PathValue r)) auth)) (\<lambda>result.
     returnA (answer 200 requestID (mapTenant result)))))"

definition handlePatchTenant :: "'w admin_options \<Rightarrow> 'w handler_func" where
  "handlePatchTenant h = serve (admin_authenticate h) (\<lambda>r auth requestID.
     bindA (configured (ao_PatchTenant h) ''patch tenant'') (\<lambda>useCase.
     bindA (liftA (decodeJSON (ao_reason h) [''tenantName'', ''status'', ''contactEmail'', ''description'', ''reason''] decode_patchTenant (hq_Body r))) (\<lambda>request.
     bindA (onApp (useCase \<lparr>xp_TenantID = TrimSpace (hq_PathValue r),
       xp_Patch = \<lparr>px_TenantName = trimStringPtr (px_TenantName request), px_Status = toTenantStatusPtr (px_Status request),
         px_ContactEmail = trimStringPtr (px_ContactEmail request), px_Description = trimStringPtr (px_Description request),
         px_Reason = TrimSpace (px_Reason request)\<rparr>,
       xp_IdempotencyKey = TrimSpace (hq_IdempotencyKey r), xp_Auth = auth\<rparr>)) (\<lambda>result.
     returnA (answer 200 requestID (mapTenant result))))))"

definition handleGetTenantPolicy :: "'w admin_options \<Rightarrow> 'w handler_func" where
  "handleGetTenantPolicy h = serve (admin_authenticate h) (\<lambda>r auth requestID.
     bindA (configured (ao_GetTenantPolicy h) ''get tenant policy'') (\<lambda>useCase.
     bindA (onApp (useCase (TrimSpace (hq_PathValue r)) auth)) (\<lambda>result.
     returnA (answer 200 requestID (mapTenantPolicy result)))))"

definition patchTenantPolicy_fields :: "string list" where
  "patchTenantPolicy_fields = [''maxStorageBytes'', ''maxFileCount'', ''maxSingleFileSize'', ''allowedMimeTypes'',
     ''allowedExtensions'', ''defaultAccessLevel'', ''autoCreateEnabled'', ''reason'']"

definition handlePatchTenantPolicy :: "'w admin_options \<Rightarrow> 'w handler_func" where
  "handlePatchTenantPolicy h = serve (admin_authenticate h) (\<lambda>r auth requestID.
     bindA (configured (ao_PatchTenantPolicy h) ''patch tenant policy'') (\<lambda>useCase.
     bindA (liftA (decodeJSON (ao_reason h) patchTenantPolicy_fields decode_patchTenantPolicy (hq_Body r))) (\<lambda>request.
     bindA (onApp (useCase \<lparr>xq_TenantID = TrimSpace (hq_PathValue r),
       xq_Patch = \<lparr>pp_Policy = (pp_Policy request)\<lparr>
           ap_AllowedMimeTypes := trimSlice (ap_AllowedMimeTypes (pp_Policy request)),
           ap_AllowedExtensions := trimSlice (ap_AllowedExtensions (pp_Policy request)),
           ap_DefaultAccessLevel := trimStringPtr (ap_DefaultAccessLevel (pp_Policy request))\<rparr>,
         pp_Reason = TrimSpace (pp_Reason request)\<rparr>,
       xq_IdempotencyKey = TrimSpace (hq_IdempotencyKey r), xq_Auth = auth\<rparr>)) (\<lambda>result.
     returnA (answer 200 requestID (mapTenantPolicy result))))))"

definition handleGetTenantUsage :: "'w admin_options \<Rightarrow> 'w handler_func" where
  "handleGetTenantUsage h = serve (admin_authenticate h) (\<lambda>r auth requestID.
     bindA (configured (ao_GetTenantUsage h) ''get tenant usage'') (\<lambda>useCase.
     bindA (onApp (useCase (TrimSpace (hq_PathValue r)) auth)) (\<lambda>result.
     returnA (answer 200 requestID (mapTenantUsage result)))))"

definition handleListFiles :: "'w admin_options \<Rightarrow> 'w handler_func" where
  "handleListFiles h = serve (admin_authenticate h) (\<lambda>r auth requestID.
     bindA (configured (ao_ListFiles h) ''list files'') (\<lambda>useCase.
     bindA (liftA (parseListFilesQuery r auth)) (\<lambda>query.
     bindA (onApp (useCase query)) (\<lambda>(items, nextCursor).
     returnA (answerPage requestID (map mapAdminFile items) nextCursor)))))"

definition admin_handleGetFile :: "'w admin_options \<Rightarrow> 'w handler_func" where
  "admin_handleGetFile h = serve (admin_authenticate h) (\<lambda>r auth requestID.
     bindA (configured (ao_GetFile h) ''get file'') (\<lambda>useCase.
     bindA (onApp (useCase (TrimSpace (hq_PathValue r)) auth)) (\<lambda>result.
     returnA (answer 200 requestID (mapAdminFile result)))))"

definition handleDeleteFile :: "'w admin_options \<Rightarrow> 'w handler_func" where
  "handleDeleteFile h = serve (admin_authenticate h) (\<lambda>r auth requestID.
     bindA (configured (ao_DeleteFile h) ''delete file'') (\<lambda>useCase.
     bindA (liftA (decodeJSON (ao_reason h) [''reason''] (str_field ''reason'') (hq_Body r))) (\<lambda>reason.
     bindA (onApp (useCase \<lparr>dc_FileID = TrimSpace (hq_PathValue r), dc_Reason = TrimSpace reason,
       dc_IdempotencyKey = TrimSpace (hq_IdempotencyKey r), dc_Auth = auth\<rparr>)) (\<lambda>result.
     returnA (answer 200 requestID (mapDeleteFileResult result))))))"

definition handleListAuditLogs :: "'w admin_options \<Rightarrow> 'w handler_func" where
  "handleListAuditLogs h = serve (admin_authenticate h) (\<lambda>r auth requestID.
     bindA (configured (ao_ListAuditLogs h) ''list audit logs'') (\<lambda>useCase.
     bindA (liftA (parseListAuditLogsQuery r auth)) (\<lambda>query.
     bindA (onApp (useCase query)) (\<lambda>(items, nextCursor).
     returnA (answerPage requestID (map mapAuditLog items) nextCursor)))))"

definition admin_routes :: "'w admin_options \<Rightarrow> 'w handler_func route list" where
  "admin_routes h =
     (let base = [Lit ''api'', Lit ''admin'', Lit ''v1'']; tenant = base @ [Lit ''tenants'', Wildcard]; file_path = base @ [Lit ''files'', Wildcard] in
      [(''GET'', base @ [Lit ''tenants''], handleListTenants h), (''POST'', base @ [Lit ''tenants''], handleCreateTenant h),
       (''GET'', tenant, handleGetTenant h), (''PATCH'', tenant, handlePatchTenant h),
       (''GET'', tenant @ [Lit ''policy''], handleGetTenantPolicy h), (''PATCH'', tenant @ [Lit ''policy''], handlePatchTenantPolicy h),
       (''GET'', tenant @ [Lit ''usage''], handleGetTenantUsage h),
       (''GET'', base @ [Lit ''files''], handleListFiles h), (''GET'', file_path, admin_handleGetFile h),
       (''DELETE'', file_path, handleDeleteFile h), (''GET'', base @ [Lit ''audit-logs''], handleListAuditLogs h)])"

subsection \<open>The service\<close>

definition admin_Build :: "auth_env \<Rightarrow> env \<Rightarrow> admin_config \<Rightarrow> (string \<Rightarrow> string) \<Rightarrow> world admin_options" where
  "admin_Build aenv env cfg reason = \<lparr>
     ao_Auth = Some (admin_resolve aenv), ao_CreateTenant = Some (CreateTenant env), ao_ListTenants = Some (ListTenants env cfg),
     ao_GetTenant = Some (GetTenant env), ao_PatchTenant = Some (PatchTenant env), ao_GetTenantPolicy = Some (GetTenantPolicy env),
     ao_PatchTenantPolicy = Some (PatchTenantPolicy env), ao_GetTenantUsage = Some (GetTenantUsage env),
     ao_ListFiles = Some (ListFiles env cfg), ao_GetFile = Some (admin_GetFile env), ao_DeleteFile = Some (DeleteFile env),
     ao_ListAuditLogs = Some (ListAuditLogs env cfg), ao_reason = reason\<rparr>"

definition admin_server :: "auth_env \<Rightarrow> env \<Rightarrow> admin_config \<Rightarrow> (string \<Rightarrow> string) \<Rightarrow>
    http_request \<Rightarrow> world server_world \<Rightarrow> (http_response \<times> world server_world) option" where
  "admin_server aenv env cfg reason = ServeHTTP (admin_routes (admin_Build aenv env cfg reason))"

end
