(* ===== verification/AdminHttpLaws.thy ===== *)
theory AdminHttpLaws
  imports UploadHttpLaws AdminHTTP TenantLaws
begin

text \<open>
  The admin service from the request to the database: without an accepted token nothing happens,
  reads change nothing, changes need the governance role, and the rows of a tenant outside the
  administrator's scope stay as they are.
\<close>

subsection \<open>The rows of one tenant\<close>

definition tenant_rows :: "string \<Rightarrow> database \<Rightarrow>
    tenant_row list \<times> policy_row list \<times> usage_row list \<times> file_row list \<times> session_row list" where
  "tenant_rows t db = (filter (\<lambda>r. te_tenant_id r = t) (tenants db), filter (\<lambda>r. tp_tenant_id r = t) (tenant_policies db),
     filter (\<lambda>r. tu_tenant_id r = t) (tenant_usage db), filter (\<lambda>r. fa_tenant_id r = t) (file_assets db),
     filter (\<lambda>r. us_tenant_id r = t) (upload_sessions db))"

definition governed :: "AdminContext \<Rightarrow> world \<Rightarrow> world \<Rightarrow> bool" where
  "governed c w w' \<longleftrightarrow> (\<not> HasMinimumRole c RoleGovernance \<longrightarrow> w_db w' = w_db w) \<and>
     (distinct (map fa_file_id (file_assets (w_db w))) \<longrightarrow> distinct (map fa_file_id (file_assets (w_db w'))) \<and>
        (\<forall>t. \<not> CanAccessTenant c t \<longrightarrow> tenant_rows t (w_db w') = tenant_rows t (w_db w)))"

interpretation governed: frame "governed c" for c
  by unfold_locales (auto simp: governed_def)

interpretation governed_app: app_frame "governed c" for c
  by unfold_locales

interpretation read_app: app_frame "\<lambda>w w'. w_db w' = w_db w"
  by unfold_locales

lemma governed_same: "w_db w' = w_db w \<Longrightarrow> governed c w w'"
  by (simp add: governed_def)

lemma governed_db: "db_frame.keeps m \<Longrightarrow> governed.keeps c m"
  by (rule governed.keepsI) (auto intro: governed_same dest: db_frame.keepsD)

text \<open>A command that leaves the database alone on an error is judged by its successful runs.\<close>

lemma governed_command:
  assumes "db_frame.keeps_on_error m" and "\<And>w x w'. m w = (Inr x, w') \<Longrightarrow> governed c w w'"
  shows "governed.keeps c m"
proof (rule governed.keepsI)
  fix w r w' assume run: "m w = (r, w')"
  show "governed c w w'"
    using run assms(2) db_frame.keeps_on_errorD [OF assms(1)] by (cases r) (auto intro: governed_same)
qed

lemma super_is_governance: "HasMinimumRole c RoleSuper \<Longrightarrow> HasMinimumRole c RoleGovernance"
  by (fastforce simp: HasMinimumRole_def roleRank_def role_defs list_ex_iff split: option.splits if_splits)

lemma CanAccessTenant_trim [simp]: "CanAccessTenant c (TrimSpace t) = CanAccessTenant c t"
  by (simp add: CanAccessTenant_def)

lemma filter_update_other:
  assumes "\<And>r. r \<in> set rows \<Longrightarrow> P r \<Longrightarrow> \<not> Q (f r) \<and> \<not> Q r"
  shows "filter Q (update_where P f rows) = filter Q rows"
  using assms by (induction rows) (auto simp: update_where_def)

subsection \<open>Commands\<close>

lemma CreateTenant_governed: "governed.keeps (xc_Auth command) (CreateTenant env command)"
proof (rule governed_command)
  show "db_frame.keeps_on_error (CreateTenant env command)"
    unfolding CreateTenant_def Let_def by (intro command_frame)
  fix w t w' assume "CreateTenant env command w = (Inr t, w')"
  then obtain i u where
      *: "EnsureCreateTenant (xc_Auth command) i = Inr ()" "tn_TenantID t = i"
      "admin_WithinTransaction env (createTenantBody env command t) (tick w) = (Inr u, w')"
    by (auto simp: CreateTenant_def run_action_Inr Now_Inr FromTenant_def Let_def simp del: liftA_iff)
  from admin_tx_Inr [OF *(3)] obtain w2 where body: "createTenantBody env command t (tick (tick w)) = (Inr u, w2)" "w' = tick w2" by blast
  have "HasMinimumRole (xc_Auth command) RoleSuper" "CanAccessTenant (xc_Auth command) i"
    using *(1) by (auto simp: EnsureCreateTenant_def bindE_Inr_iff RuleFor_def dest!: admin_role EnsureTenantScope_Inr)
  with super_is_governance createTenantBody_Inr [OF body(1)] body(2) *(2) show "governed (xc_Auth command) w w'"
    by (auto simp: governed_def tenant_rows_def default_policy_row_def tick_def)
qed

lemma PatchTenant_governed: "governed.keeps (xp_Auth command) (PatchTenant env command)"
proof (rule governed_command)
  show "db_frame.keeps_on_error (PatchTenant env command)"
    unfolding PatchTenant_def Let_def by (intro command_frame)
  define patch where "patch = TenantPatch_Normalize (xp_Patch command)"
  fix w t w' assume "PatchTenant env command w = (Inr t, w')"
  then obtain i where *: "EnsureTenantPatch (xp_Auth command) i patch = Inr ()"
      "admin_WithinTransaction env (patchTenantBody env command i patch) w = (Inr t, w')"
    by (auto simp: PatchTenant_def run_action_Inr FromTenant_def Let_def patch_def simp del: liftA_iff)
  from admin_tx_Inr [OF *(2)] obtain w2 where body: "patchTenantBody env command i patch (tick w) = (Inr t, w2)" "w' = tick w2" by blast
  have "HasMinimumRole (xp_Auth command) RoleGovernance" "CanAccessTenant (xp_Auth command) i"
    using *(1) by (auto simp: EnsureTenantPatch_def bindE_Inr_iff RuleFor_def Let_def dest!: admin_role EnsureTenantScope_Inr split: if_splits)
  with patchTenantBody_Inr [OF body(1)] body(2) show "governed (xp_Auth command) w w'"
    by (auto simp: governed_def tenant_rows_def tick_def patch_tenant.key_f intro!: filter_update_other)
qed

lemma PatchTenantPolicy_governed: "governed.keeps (xq_Auth command) (PatchTenantPolicy env command)"
proof (rule governed_command)
  show "db_frame.keeps_on_error (PatchTenantPolicy env command)"
    unfolding PatchTenantPolicy_def Let_def by (intro command_frame)
  define patch where "patch = TenantPolicyPatch_Normalize (xq_Patch command)"
  fix w v w' assume "PatchTenantPolicy env command w = (Inr v, w')"
  then obtain i u where *: "admin_WithinTransaction env (patchPolicyBody env command i patch) w = (Inr u, w')"
    by (auto simp: PatchTenantPolicy_def run_action_Inr Let_def patch_def simp del: liftA_iff)
  from admin_tx_Inr [OF *] obtain w2 where body: "patchPolicyBody env command i patch (tick w) = (Inr u, w2)" "w' = tick w2" by blast
  from patchPolicyBody_Inr [OF body(1)] obtain row where
    "EnsureTenantPolicyPatch (xq_Auth command) i (TenantPolicy_Normalize (pv_Policy (scanTenantPolicy row))) patch = Inr ()" by blast
  then have "HasMinimumRole (xq_Auth command) RoleGovernance" "CanAccessTenant (xq_Auth command) i"
    by (auto simp: EnsureTenantPolicyPatch_def bindE_Inr_iff RuleFor_def dest!: admin_role EnsureTenantScope_Inr split: if_splits)
  with patchPolicyBody_Inr [OF body(1)] body(2) show "governed (xq_Auth command) w w'"
    by (auto simp: governed_def tenant_rows_def tick_def patch_policy.key_f intro!: filter_update_other)
qed

lemma release_usage_other:
  "release_usage t n now db = Inr (u, db') \<Longrightarrow> t' \<noteq> t \<Longrightarrow>
     filter (\<lambda>r. tu_tenant_id r = t') (tenant_usage db') = filter (\<lambda>r. tu_tenant_id r = t') (tenant_usage db)"
  by (auto simp: release_usage_def Let_def release_usage.key_f intro!: filter_update_other split: if_splits)

text \<open>The deletion of a file touches rows of the file's tenant only, because its identifier is unique.\<close>

lemma delete_chain_tenant_rows:
  assumes chain: "delete_chain i now f entry ev db db'" and f: "lookup_row fa_file_id i (file_assets db) = Some f"
    and uniq: "distinct (map fa_file_id (file_assets db))" and t: "t \<noteq> fa_tenant_id f"
  shows "tenant_rows t db' = tenant_rows t db"
proof -
  from chain obtain db1 db2 db3 db4 where
    1: "mark_file_deleted i now db = Inr (scanAdminFile (delete_file_row now f), db1)"
    and 2: "release_ref (fa_blob_object_id f) now db1 = Inr ((), db2)"
    and 3: "release_usage (fa_tenant_id f) (fa_file_size f) now db2 = Inr ((), db3)"
    and 4: "insert_audit entry db3 = Inr ((), db4)" and 5: "insert_event ev db4 = Inr ((), db')"
    unfolding delete_chain_def by blast
  have only: "r = f" if "r \<in> set (file_assets db)" "fa_file_id r = i" for r
    using f uniq that by (auto dest!: lookup_row_Some intro: inj_onD [OF distinct_map [THEN iffD1, THEN conjunct2]])
  have files: "filter (\<lambda>r. fa_tenant_id r = t) (update_where (\<lambda>r. fa_file_id r = i) (delete_file_row now) (file_assets db)) =
      filter (\<lambda>r. fa_tenant_id r = t) (file_assets db)"
    by (rule filter_update_other) (use only t in auto)
  have "tenant_rows t db1 = tenant_rows t db"
    by (subst mark_file_deleted_rows(2) [OF 1]) (simp add: tenant_rows_def mark_file_deleted_rows(1) [OF 1] files)
  moreover have "tenant_rows t db2 = tenant_rows t db1"
    by (subst release_ref_rows(3) [OF 2]) (simp add: tenant_rows_def)
  moreover have "tenant_rows t db3 = tenant_rows t db2"
    by (subst release_usage_rows(2) [OF 3]) (simp add: tenant_rows_def release_usage_other [OF 3 t])
  moreover have "tenant_rows t db4 = tenant_rows t db3"
    by (subst insert_audit_rows(2) [OF 4]) (simp add: tenant_rows_def)
  moreover have "tenant_rows t db' = tenant_rows t db4" by (simp add: insert_event_db [OF 5] tenant_rows_def)
  ultimately show ?thesis by simp
qed

lemma DeleteFile_governed: "governed.keeps (dc_Auth command) (DeleteFile env command)"
proof (rule governed_command)
  show "db_frame.keeps_on_error (DeleteFile env command)" by (rule DeleteFile_on_error)
  let ?i = "TrimSpace (dc_FileID command)"
  fix w res w' assume run: "DeleteFile env command w = (Inr res, w')"
  from DeleteFile_Inr [OF run] obtain f where f: "lookup_row fa_file_id ?i (file_assets (w_db w)) = Some f"
    "EnsureDeleteFile (dc_Auth command) (fa_tenant_id f) (dc_Reason command) = Inr ()" by metis
  then have guard: "HasMinimumRole (dc_Auth command) RoleGovernance" "CanAccessTenant (dc_Auth command) (fa_tenant_id f)"
    by (simp_all add: EnsureDeleteFile_Inr)
  from run show "governed (dc_Auth command) w w'"
  proof (cases rule: DeleteFile_cases)
    case again
    then show ?thesis by (simp add: governed_same)
  next
    case (first f' now entry ev)
    with f have chain: "delete_chain ?i now f entry ev (w_db w) (w_db w')" by simp
    have "map fa_file_id (file_assets (w_db w')) = map fa_file_id (file_assets (w_db w))"
      by (simp add: delete_chain_effects(1) [OF chain] delete_file.keys_update)
    moreover have "tenant_rows t (w_db w') = tenant_rows t (w_db w)"
      if "distinct (map fa_file_id (file_assets (w_db w)))" "\<not> CanAccessTenant (dc_Auth command) t" for t
      using delete_chain_tenant_rows [OF chain f(1) that(1), of t] that(2) guard(2) by metis
    ultimately show ?thesis using guard by (simp add: governed_def)
  qed
qed

subsection \<open>Queries\<close>

lemma tenantQuery_db: "(\<And>i. db_frame.keeps (get i)) \<Longrightarrow> db_frame.keeps (tenantQuery op get from i auth)"
  unfolding tenantQuery_def Let_def by (intro db_frame.keeps_rules) (auto intro!: db_frame.keeps_rules split: option.splits)

lemma query_db:
  "db_frame.keeps (ListTenants env cfg q1)" "db_frame.keeps (GetTenant env i auth)" "db_frame.keeps (GetTenantPolicy env i auth)"
  "db_frame.keeps (GetTenantUsage env i auth)" "db_frame.keeps (ListFiles env cfg q2)" "db_frame.keeps (admin_GetFile env i auth)"
  "db_frame.keeps (ListAuditLogs env cfg q3)"
  unfolding ListTenants_def TenantRepository_List_def GetTenant_def TenantRepository_GetByID_def GetTenantPolicy_def
    PolicyRepository_GetByTenantID_def query_policy_def GetTenantUsage_def Usage_GetByTenantID_def ListFiles_def AdminFile_List_def
    admin_GetFile_def AdminFile_GetByID_def ListAuditLogs_def AuditLog_List_def Let_def
  by (auto intro!: tenantQuery_db db_frame.keeps_rules query_file_db runSQL_read_db split: option.splits prod.splits)

subsection \<open>The bodies of the handlers\<close>

definition body_governed :: "(http_request \<Rightarrow> AdminContext \<Rightarrow> string \<Rightarrow> (world, http_response) server_action) \<Rightarrow> bool" where
  "body_governed H \<longleftrightarrow> (\<forall>r auth i. governed_app.server.keeps auth (H r auth i))"

definition body_reads :: "(http_request \<Rightarrow> AdminContext \<Rightarrow> string \<Rightarrow> (world, http_response) server_action) \<Rightarrow> bool" where
  "body_reads H \<longleftrightarrow> (\<forall>r auth i. read_app.server.keeps (H r auth i))"

lemma command_governed:
  "xc_Auth c1 = auth \<Longrightarrow> governed.keeps auth (CreateTenant env c1)"
  "xp_Auth c2 = auth \<Longrightarrow> governed.keeps auth (PatchTenant env c2)"
  "xq_Auth c3 = auth \<Longrightarrow> governed.keeps auth (PatchTenantPolicy env c3)"
  "dc_Auth c4 = auth \<Longrightarrow> governed.keeps auth (DeleteFile env c4)"
  using CreateTenant_governed PatchTenant_governed PatchTenantPolicy_governed DeleteFile_governed by metis+

lemma admin_Build_sel:
  "ao_Auth (admin_Build aenv env cfg reason) = Some (admin_resolve aenv)"
  "ao_CreateTenant (admin_Build aenv env cfg reason) = Some (CreateTenant env)"
  "ao_ListTenants (admin_Build aenv env cfg reason) = Some (ListTenants env cfg)"
  "ao_GetTenant (admin_Build aenv env cfg reason) = Some (GetTenant env)"
  "ao_PatchTenant (admin_Build aenv env cfg reason) = Some (PatchTenant env)"
  "ao_GetTenantPolicy (admin_Build aenv env cfg reason) = Some (GetTenantPolicy env)"
  "ao_PatchTenantPolicy (admin_Build aenv env cfg reason) = Some (PatchTenantPolicy env)"
  "ao_GetTenantUsage (admin_Build aenv env cfg reason) = Some (GetTenantUsage env)"
  "ao_ListFiles (admin_Build aenv env cfg reason) = Some (ListFiles env cfg)"
  "ao_GetFile (admin_Build aenv env cfg reason) = Some (admin_GetFile env)"
  "ao_DeleteFile (admin_Build aenv env cfg reason) = Some (DeleteFile env)"
  "ao_ListAuditLogs (admin_Build aenv env cfg reason) = Some (ListAuditLogs env cfg)"
  by (simp_all add: admin_Build_def)

lemmas admin_handler_defs = handleListTenants_def handleCreateTenant_def handleGetTenant_def handlePatchTenant_def handleGetTenantPolicy_def
  handlePatchTenantPolicy_def handleGetTenantUsage_def handleListFiles_def admin_handleGetFile_def handleDeleteFile_def handleListAuditLogs_def

text \<open>A handler that only reads is governed, too.\<close>

lemma reads_governed:
  assumes "body_reads H"
  shows "body_governed H"
  unfolding body_governed_def
proof (intro allI governed_app.server.keepsI)
  fix r auth i s out s' assume "H r auth i s = (out, s')"
  from read_app.server.keepsD [OF assms [unfolded body_reads_def, rule_format] this]
  show "sv_auth s' = sv_auth s \<and> governed auth (sv_world s) (sv_world s')" by (simp add: governed_same)
qed

lemma admin_handlers:
  assumes "(m, ps, handler) \<in> set (admin_routes (admin_Build aenv env cfg reason))"
  shows "\<exists>H. handler = serve (admin_authenticate (admin_Build aenv env cfg reason)) H \<and> body_governed H \<and> (m = ''GET'' \<longrightarrow> body_reads H)"
proof -
  let ?h = "admin_Build aenv env cfg reason" and ?A = "admin_authenticate (admin_Build aenv env cfg reason)"
  have changes: "\<exists>H'. serve ?A H = serve ?A H' \<and> body_governed H' \<and> (False \<longrightarrow> body_reads H')"
    if "body_governed H" for H using that by blast
  have reads: "\<exists>H'. serve ?A H = serve ?A H' \<and> body_governed H' \<and> (m = ''GET'' \<longrightarrow> body_reads H')"
    if "body_reads H" for H using that reads_governed by blast
  from assms consider (list) "handler = handleListTenants ?h" | (get) "handler = handleGetTenant ?h" | (policy) "handler = handleGetTenantPolicy ?h"
    | (usage) "handler = handleGetTenantUsage ?h" | (files) "handler = handleListFiles ?h" | (one) "handler = admin_handleGetFile ?h"
    | (logs) "handler = handleListAuditLogs ?h" | (create) "handler = handleCreateTenant ?h" "m \<noteq> ''GET''"
    | (patch) "handler = handlePatchTenant ?h" "m \<noteq> ''GET''" | (limit) "handler = handlePatchTenantPolicy ?h" "m \<noteq> ''GET''"
    | (delete) "handler = handleDeleteFile ?h" "m \<noteq> ''GET''"
    by (auto simp: admin_routes_def Let_def)
  then show ?thesis
    by cases
      ((simp only: admin_handler_defs admin_Build_sel, rule reads, subst body_reads_def, intro allI,
          (auto intro!: read_app.server_rules query_db split: prod.splits)[1])+,
       (simp only: admin_handler_defs admin_Build_sel, rule changes, subst body_governed_def, intro allI,
          (auto intro!: governed_app.server_rules command_governed split: prod.splits)[1])+)
qed

subsection \<open>Requests\<close>

lemma admin_resolve_path [simp]: "admin_resolve aenv (r\<lparr>hq_PathValue := v\<rparr>) = admin_resolve aenv r"
  by (simp add: admin_resolve_def)

lemma case_sum_Some: "(case x of Inl e \<Rightarrow> None | Inr a \<Rightarrow> Some a) = Some c \<longleftrightarrow> x = Inr c"
  by (cases x) simp_all

lemma admin_resolve_run:
  shows "bearerTokenFromRequest (hq_Authorization r) = None \<Longrightarrow> admin_resolve aenv r a = (Inl newUnauthorizedAuthError, a)"
    and "admin_resolve aenv r a = (Inl e, a') \<Longrightarrow> e = newUnauthorizedAuthError"
    and "admin_resolve aenv r a = (Inr c, a') \<Longrightarrow> ai_RequestID c = requestIDFromRequest r []"
proof -
  show "bearerTokenFromRequest (hq_Authorization r) = None \<Longrightarrow> admin_resolve aenv r a = (Inl newUnauthorizedAuthError, a)"
    unfolding admin_resolve_def by (rule authenticate_no_bearer)
  show "admin_resolve aenv r a = (Inl e, a') \<Longrightarrow> e = newUnauthorizedAuthError"
    by (simp add: admin_resolve_def unauthorized_iff)
  assume "admin_resolve aenv r a = (Inr c, a')"
  from authenticate_Inr [OF this [unfolded admin_resolve_def unauthorized_iff]] obtain claims now where
    "Option.bind (adminContextInputFromClaims (requestIDFromRequest r []) claims now)
       (\<lambda>input. case NewAdminContext input of Inl err \<Rightarrow> None | Inr auth \<Rightarrow> Some auth) = Some c" by blast
  then obtain input where
      input: "adminContextInputFromClaims (requestIDFromRequest r []) claims now = Some input" and "NewAdminContext input = Inr c"
    by (auto simp: Option.bind_eq_Some_conv case_sum_Some)
  then have "ai_RequestID c = TrimSpace (ai_RequestID input)" by (auto simp: NewAdminContext_def bindE_Inr_iff)
  moreover have "ai_RequestID input = requestIDFromRequest r []"
    using input by (auto simp: adminContextInputFromClaims_def Option.bind_eq_Some_conv split: if_splits)
  moreover have "TrimSpace fallbackRequestID = fallbackRequestID" by code_simp
  ultimately show "ai_RequestID c = requestIDFromRequest r []" by (simp add: requestIDFromRequest_def)
qed

lemma admin_authenticate_run:
  "admin_authenticate (admin_Build aenv env cfg reason) r s = (case admin_resolve aenv r (sv_auth s) of
     (Inl e, a) \<Rightarrow> (Inl newUnauthorizedAuthError, s\<lparr>sv_auth := a\<rparr>)
   | (Inr c, a) \<Rightarrow> (Inr (c, requestIDFromRequest r []), s\<lparr>sv_auth := a\<rparr>))"
proof -
  have same: "c\<lparr>ai_RequestID := ai_RequestID c\<rparr> = c" for c :: AdminContext by simp
  have "handler_authenticate (Some (admin_resolve aenv)) ai_RequestID (\<lambda>id auth. auth\<lparr>ai_RequestID := id\<rparr>) r s =
    (case admin_resolve aenv r (sv_auth s) of
      (Inl e, a) \<Rightarrow> (Inl e, s\<lparr>sv_auth := a\<rparr>)
    | (Inr c, a) \<Rightarrow> (Inr (c\<lparr>ai_RequestID := requestIDFromRequest r []\<rparr>, requestIDFromRequest r []), s\<lparr>sv_auth := a\<rparr>))"
    by (rule handler_authenticate_run) (auto dest: admin_resolve_run)
  then show ?thesis
    using admin_resolve_run(2,3) [of aenv r "sv_auth s"] same
    by (auto simp: admin_authenticate_def admin_Build_sel split: prod.splits sum.splits)
qed


text \<open>An administrator of one tenant deletes a file; a file of another tenant stays.\<close>

definition sampleTwoTenants :: world where
  "sampleTwoTenants = sampleFileWorld\<lparr>w_db := (w_db sampleFileWorld)\<lparr>file_assets :=
     [sampleFile, sampleFile\<lparr>fa_file_id := ''f2'', fa_tenant_id := ''t2''\<rparr>]\<rparr>\<rparr>"

definition sampleGovernor :: AdminContext where
  "sampleGovernor = \<lparr>ai_RequestID = ''q1'', ai_AdminID = ''u1'', ai_Roles = [''admin.governance''], ai_TenantScopes = [''t1''],
     ai_Permissions = [], ai_TokenID = []\<rparr>"

definition sampleDeleteRequest :: http_request where
  "sampleDeleteRequest = sampleRequest ''DELETE'' [''api'', ''admin'', ''v1'', ''files'', ''f1''] (json_render (JObj [(''reason'', JStr ''gdpr'')]))"

definition sampleAdminConfig :: admin_config where
  "sampleAdminConfig = \<lparr>cf_coll = id, cf_ListDefaultLimit = 50, cf_ListMaxLimit = 200\<rparr>"

lemma sample_admin_resolves:
  "admin_resolve sampleStatic sampleDeleteRequest (sv_auth (sampleServer w)) = (Inr sampleGovernor, \<lparr>aw_keys = [sampleKey], aw_tick = 1\<rparr>)"
proof -
  have "Option.bind (adminContextInputFromClaims ''q1'' sampleClaims (unix_epoch + 10 * second))
      (\<lambda>input. case NewAdminContext input of Inl err \<Rightarrow> None | Inr auth \<Rightarrow> Some auth) = Some sampleGovernor" by code_simp
  from sample_authenticates [of "\<lambda>claims now. Option.bind (adminContextInputFromClaims ''q1'' claims now)
      (\<lambda>input. case NewAdminContext input of Inl err \<Rightarrow> None | Inr auth \<Rightarrow> Some auth)", OF this]
  show ?thesis
    by (simp add: admin_resolve_def unauthorized_iff sampleDeleteRequest_def sample_request_id) (simp add: sampleRequest_def sampleServer_def)
qed

lemma sample_delete_served:
  "\<exists>resp s'. admin_server sampleStatic sampleEnv sampleAdminConfig id sampleDeleteRequest (sampleServer sampleTwoTenants) = Some (resp, s') \<and>
     hs_Status resp = 200 \<and> map fa_status (file_assets (w_db (sv_world s'))) = [FileStatusDeleted, FileStatusActive]"
proof -
  let ?h = "admin_Build sampleStatic sampleEnv sampleAdminConfig id" and ?s = "sampleServer sampleTwoTenants"
  let ?a = "\<lparr>aw_keys = [sampleKey], aw_tick = 1\<rparr>" and ?r = "sampleDeleteRequest\<lparr>hq_PathValue := ''f1''\<rparr>"
  let ?cmd = "\<lparr>dc_FileID = ''f1'', dc_Reason = ''gdpr'', dc_IdempotencyKey = [], dc_Auth = sampleGovernor\<rparr>"
  have "\<not> isl (fst (DeleteFile sampleEnv ?cmd sampleTwoTenants))"
    "map fa_status (file_assets (w_db (snd (DeleteFile sampleEnv ?cmd sampleTwoTenants)))) = [FileStatusDeleted, FileStatusActive]"
    by code_simp+
  then obtain v w where run: "DeleteFile sampleEnv ?cmd sampleTwoTenants = (Inr v, w)"
    and after: "map fa_status (file_assets (w_db w)) = [FileStatusDeleted, FileStatusActive]"
    by (metis not_isl_Inr prod.collapse)
  have route: "mux (admin_routes ?h) sampleDeleteRequest = Some (handleDeleteFile ?h, ''f1'')"
    by (simp add: admin_routes_def Let_def sampleDeleteRequest_def sampleRequest_def method_matches_def)
  have id: "requestIDFromRequest sampleDeleteRequest [] = ''q1''" by (simp add: sampleDeleteRequest_def sample_request_id)
  have auth: "admin_authenticate ?h ?r ?s = (Inr (sampleGovernor, ''q1''), ?s\<lparr>sv_auth := ?a\<rparr>)"
    by (simp add: admin_authenticate_run sample_admin_resolves id)
  have trim: "TrimSpace ''f1'' = ''f1''" "TrimSpace ''gdpr'' = ''gdpr''" "TrimSpace [] = []" by code_simp+
  have body: "decodeJSON reason [''reason''] (str_field ''reason'') (json_render (JObj [(''reason'', JStr ''gdpr'')])) = Inr ''gdpr''" for reason
    by (rule decodeJSON_render) (auto simp: known_fields_def str_field_def members_of_def graphic_def intro!: sample_names)
  have "handleDeleteFile ?h ?r ?s = (answer 200 ''q1'' (mapDeleteFileResult v),
      ?s\<lparr>sv_auth := ?a, sv_world := w\<rparr>)"
    unfolding handleDeleteFile_def
    by (rule serve_run, rule auth)
       (use run trim body in \<open>simp del: json_render.simps add: admin_Build_sel configured_def sampleDeleteRequest_def sampleRequest_def sampleServer_def onApp_def
          bindA_def returnA_def liftA_def\<close>)
  with route after show ?thesis
    by (simp add: admin_server_def ServeHTTP_def answer_def writeJSON_def)
qed


end
