(* ===== verification/GoDuration.thy ===== *)
theory GoDuration
  imports StorageTypes GoJSON GoCrypto
begin

text \<open>
  \<^verbatim>\<open>time.ParseDuration\<close>, \<^verbatim>\<open>strconv.Atoi\<close>, \<^verbatim>\<open>strconv.ParseInt\<close> and \<^verbatim>\<open>strconv.ParseBool\<close> as far as
  the configuration uses them. A duration is a sequence of decimal numbers with units; the
  fraction of a number is computed in 64-bit floating point, as the library does. \<open>quote\<close> is the
  text of the verb \<^verbatim>\<open>%q\<close>.
\<close>

subsection \<open>Floating point\<close>

text \<open>The quotient of two positive numbers, rounded to the nearest whole number, ties to even.\<close>

definition round_even :: "nat \<Rightarrow> nat \<Rightarrow> nat" where
  "round_even p q =
     (let m = p div q; r = p mod q
      in if 2 * r < q \<or> 2 * r = q \<and> even m then m else Suc m)"

text \<open>A positive float is a mantissa and a binary exponent; here the float nearest to p / q.\<close>

definition float_ratio :: "nat \<Rightarrow> nat \<Rightarrow> nat \<times> int" where
  "float_ratio p q =
     (let k0 = 52 + int (bit_len q) - int (bit_len p);
          shifted = (\<lambda>k. if 0 \<le> k then (p * 2 ^ nat k, q) else (p, q * 2 ^ nat (- k)));
          k = (if fst (shifted k0) < 2 ^ 52 * snd (shifted k0) then k0 + 1 else k0)
      in (round_even (fst (shifted k)) (snd (shifted k)), - k))"

definition float_mult :: "nat \<times> int \<Rightarrow> nat \<times> int \<Rightarrow> nat \<times> int" where
  "float_mult x y = (case float_ratio (fst x * fst y) 1 of (m, e) \<Rightarrow> (m, e + snd x + snd y))"

definition float_trunc :: "nat \<times> int \<Rightarrow> nat" where
  "float_trunc x = (if 0 \<le> snd x then fst x * 2 ^ nat (snd x) else fst x div 2 ^ nat (- snd x))"

text \<open>\<^verbatim>\<open>uint64(float64(f) * (float64(unit) / scale))\<close>\<close>

definition fraction_part :: "nat \<Rightarrow> nat \<Rightarrow> nat \<Rightarrow> nat" where
  "fraction_part f unit_ns scale = float_trunc (float_mult (float_ratio f 1) (float_ratio unit_ns scale))"

subsection \<open>Durations\<close>

text \<open>Digits up to the first other byte; None when the number passes 2 to the 63.\<close>

definition digit_val :: "char \<Rightarrow> nat" where
  "digit_val c = byte_val c - 48"

fun leadingInt :: "nat \<Rightarrow> string \<Rightarrow> (nat \<times> string) option" where
  "leadingInt x [] = Some (x, [])"
| "leadingInt x (c # cs) =
     (if \<not> is_digit c then Some (x, c # cs)
      else if 2 ^ 63 div 10 < x then None
      else let x' = x * 10 + digit_val c in if 2 ^ 63 < x' then None else leadingInt x' cs)"

text \<open>A fraction keeps the digits that fit; the others are skipped.\<close>

fun leadingFraction :: "nat \<Rightarrow> nat \<Rightarrow> bool \<Rightarrow> string \<Rightarrow> nat \<times> nat \<times> string" where
  "leadingFraction x scale overflow [] = (x, scale, [])"
| "leadingFraction x scale overflow (c # cs) =
     (if \<not> is_digit c then (x, scale, c # cs)
      else if overflow then leadingFraction x scale True cs
      else if (2 ^ 63 - 1) div 10 < x then leadingFraction x scale True cs
      else let y = x * 10 + digit_val c
           in if 2 ^ 63 < y then leadingFraction x scale True cs else leadingFraction y (scale * 10) False cs)"

definition unitMap :: "(string \<times> nat) list" where
  "unitMap = [(''ns'', 1), (''us'', 1000), ([CHR 0xC2, CHR 0xB5] @ ''s'', 1000), ([CHR 0xCE, CHR 0xBC] @ ''s'', 1000),
     (''ms'', 1000000), (''s'', 1000000000), (''m'', 60000000000), (''h'', 3600000000000)]"

definition unit_end :: "char \<Rightarrow> bool" where
  "unit_end c \<longleftrightarrow> c = CHR ''.'' \<or> is_digit c"

text \<open>One number with its unit, added to the sum so far; the rest of the text follows.\<close>

definition duration_item :: "nat \<Rightarrow> string \<Rightarrow> (nat \<times> string) option" where
  "duration_item d s =
     (if s = [] \<or> \<not> unit_end (hd s) then None
      else case leadingInt 0 s of
        None \<Rightarrow> None
      | Some (v, s1) \<Rightarrow>
          let pre = s1 \<noteq> s;
              (f, scale, s2) = (if s1 \<noteq> [] \<and> hd s1 = CHR ''.'' then leadingFraction 0 1 False (tl s1) else (0, 1, s1));
              post = (s1 \<noteq> [] \<and> hd s1 = CHR ''.'' \<and> s2 \<noteq> tl s1);
              u = takeWhile (\<lambda>c. \<not> unit_end c) s2; rest = dropWhile (\<lambda>c. \<not> unit_end c) s2
          in if \<not> pre \<and> \<not> post \<or> u = [] then None
             else case map_of unitMap u of
               None \<Rightarrow> None
             | Some unit_ns \<Rightarrow>
                 if 2 ^ 63 div unit_ns < v then None
                 else let v' = v * unit_ns + (if 0 < f then fraction_part f unit_ns scale else 0)
                      in if 2 ^ 63 < v' \<or> 2 ^ 63 < d + v' then None else Some (d + v', rest))"

lemma leadingInt_length: "leadingInt x s = Some (v, r) \<Longrightarrow> length r \<le> length s"
  by (induction x s rule: leadingInt.induct) (auto simp: Let_def split: if_splits intro: le_SucI)

lemma leadingFraction_length: "leadingFraction x sc ov s = (f, sc', r) \<Longrightarrow> length r \<le> length s"
  by (induction x sc ov s rule: leadingFraction.induct) (auto simp: Let_def split: if_splits intro: le_SucI)

lemma duration_item_length: "duration_item d s = Some (d', r) \<Longrightarrow> length r < length s"
proof -
  assume "duration_item d s = Some (d', r)"
  then obtain v s1 f sc s2 where 1: "leadingInt 0 s = Some (v, s1)"
    "(if s1 \<noteq> [] \<and> hd s1 = CHR ''.'' then leadingFraction 0 1 False (tl s1) else (0, 1, s1)) = (f, sc, s2)"
    "takeWhile (\<lambda>c. \<not> unit_end c) s2 \<noteq> []" "r = dropWhile (\<lambda>c. \<not> unit_end c) s2"
    by (auto simp: duration_item_def Let_def split: if_splits option.splits prod.splits)
  have "length s2 \<le> length s1"
    using 1(2) leadingFraction_length [of 0 1 False "tl s1" f sc s2] by (auto split: if_splits)
  moreover have "length r < length s2"
    using 1(3,4) by (metis add_less_cancel_right gr_zeroI length_0_conv length_append less_add_same_cancel2 takeWhile_dropWhile_id add.commute)
  ultimately show "length r < length s" using leadingInt_length [OF 1(1)] by linarith
qed

function duration_items :: "nat \<Rightarrow> string \<Rightarrow> nat option" where
  "duration_items d s = (if s = [] then Some d else case duration_item d s of None \<Rightarrow> None | Some (d', r) \<Rightarrow> duration_items d' r)"
  by pat_completeness auto
termination
  by (relation "measure (length o snd)") (auto dest: duration_item_length)

declare duration_items.simps [simp del]

definition ParseDuration :: "string \<Rightarrow> duration option" where
  "ParseDuration s =
     (let neg = (s \<noteq> [] \<and> hd s = CHR ''-''); s' = (if s \<noteq> [] \<and> (hd s = CHR ''-'' \<or> hd s = CHR ''+'') then tl s else s)
      in if s' = ''0'' then Some 0
         else if s' = [] then None
         else case duration_items 0 s' of
           None \<Rightarrow> None
         | Some d \<Rightarrow> if neg then Some (- int d) else if 2 ^ 63 - 1 < d then None else Some (int d))"

definition ParseBool :: "string \<Rightarrow> bool option" where
  "ParseBool s =
     (if s \<in> {''1'', ''t'', ''T'', ''TRUE'', ''true'', ''True''} then Some True
      else if s \<in> {''0'', ''f'', ''F'', ''FALSE'', ''false'', ''False''} then Some False else None)"

subsection \<open>Lists separated by commas\<close>

fun Split_on :: "char \<Rightarrow> string \<Rightarrow> string list" where
  "Split_on sep [] = [[]]"
| "Split_on sep (c # cs) =
     (if c = sep then [] # Split_on sep cs
      else (case Split_on sep cs of [] \<Rightarrow> [[c]] | w # ws \<Rightarrow> (c # w) # ws))"

end
