(* ===== verification/Config.thy ===== *)
theory Config
  imports GoDuration
begin

text \<open>
  The configuration (\<^verbatim>\<open>src/internal/platform/config/config.go\<close>): its sections with their defaults, the
  environment variables that override them, and the checks. \<open>getenv\<close> is \<^verbatim>\<open>os.Getenv\<close>: the empty
  string for a variable that is not set.
\<close>

definition ServiceUpload :: string where "ServiceUpload = ''upload-service''"
definition ServiceAccess :: string where "ServiceAccess = ''access-service''"
definition ServiceAdmin :: string where "ServiceAdmin = ''admin-service''"
definition ServiceJob :: string where "ServiceJob = ''job-service''"

subsection \<open>Sections\<close>

record config_AppConfig =
  gA_Env :: string
  gA_ServiceName :: string
  gA_LogLevel :: string
  gA_ShutdownTimeout :: duration

record config_HTTPConfig =
  gH_Port :: int
  gH_ReadTimeout :: duration
  gH_WriteTimeout :: duration
  gH_IdleTimeout :: duration

record config_DBConfig =
  gD_DSN :: string
  gD_MaxOpenConns :: int
  gD_MaxIdleConns :: int
  gD_ConnMaxLifetime :: duration

record config_RedisConfig =
  gR_Addr :: string
  gR_Password :: string
  gR_DB :: int

record config_StorageConfig =
  gS_Endpoint :: string
  gS_Region :: string
  gS_AccessKey :: string
  gS_SecretKey :: string
  gS_PublicBucket :: string
  gS_PrivateBucket :: string
  gS_PublicBaseURL :: string
  gS_ForcePathStyle :: bool

record config_MetricsConfig =
  gM_Enabled :: bool

record config_OTELConfig =
  gO_Endpoint :: string
  gO_ServiceVersion :: string

record config_UploadConfig =
  gU_MaxInlineSize :: int
  gU_SessionTTL :: duration
  gU_CompleteTimeout :: duration
  gU_PresignTTL :: duration
  gU_AllowedModes :: "string list"
  gU_AuthJWKS :: string
  gU_AuthAllowedIssuers :: "string list"

record config_AccessConfig =
  gX_TicketSigningKey :: string
  gX_TicketTTL :: duration
  gX_DownloadRedirectTTL :: duration
  gX_PublicURLEnabled :: bool
  gX_PrivatePresignTTL :: duration
  gX_AuthJWKS :: string
  gX_AuthAllowedIssuers :: "string list"

record config_AdminConfig =
  gN_AuthJWKS :: string
  gN_AuthAllowedIssuers :: "string list"
  gN_DeleteRequiresReason :: bool
  gN_ListDefaultLimit :: int
  gN_ListMaxLimit :: int

record config_JobConfig =
  gJ_SchedulerEnabled :: bool
  gJ_DefaultBatchSize :: int
  gJ_DefaultMaxConcurrency :: int
  gJ_LockBackend :: string
  gJ_LockTTL :: duration
  gJ_LockRenewInterval :: duration
  gJ_ExpireUploadSessionsInterval :: duration
  gJ_RepairStuckCompletingInterval :: duration
  gJ_ProcessOutboxEventsInterval :: duration
  gJ_FinalizeFileDeleteInterval :: duration
  gJ_CleanupMultipartInterval :: duration
  gJ_FileDeleteRetention :: duration
  gJ_CleanupOrphanBlobsInterval :: duration
  gJ_ReconcileTenantUsageInterval :: duration

record Config =
  g_App :: config_AppConfig
  g_HTTP :: config_HTTPConfig
  g_DB :: config_DBConfig
  g_Redis :: config_RedisConfig
  g_Storage :: config_StorageConfig
  g_Metrics :: config_MetricsConfig
  g_OTEL :: config_OTELConfig
  g_Upload :: config_UploadConfig
  g_Access :: config_AccessConfig
  g_Admin :: config_AdminConfig
  g_Job :: config_JobConfig

definition default_config :: Config where
  "default_config = \<lparr>
     g_App = \<lparr>gA_Env = ''dev'', gA_ServiceName = [], gA_LogLevel = ''info'', gA_ShutdownTimeout = 15 * second\<rparr>,
     g_HTTP = \<lparr>gH_Port = 8080, gH_ReadTimeout = 15 * second, gH_WriteTimeout = 30 * second, gH_IdleTimeout = 60 * second\<rparr>,
     g_DB = \<lparr>gD_DSN = [], gD_MaxOpenConns = 50, gD_MaxIdleConns = 10, gD_ConnMaxLifetime = 30 * minute\<rparr>,
     g_Redis = \<lparr>gR_Addr = [], gR_Password = [], gR_DB = 0\<rparr>,
     g_Storage = \<lparr>gS_Endpoint = [], gS_Region = [], gS_AccessKey = [], gS_SecretKey = [], gS_PublicBucket = [], gS_PrivateBucket = [],
       gS_PublicBaseURL = [], gS_ForcePathStyle = True\<rparr>,
     g_Metrics = \<lparr>gM_Enabled = True\<rparr>,
     g_OTEL = \<lparr>gO_Endpoint = [], gO_ServiceVersion = ''dev''\<rparr>,
     g_Upload = \<lparr>gU_MaxInlineSize = 10 * 1024 * 1024, gU_SessionTTL = 24 * hour, gU_CompleteTimeout = 30 * second,
       gU_PresignTTL = 15 * minute, gU_AllowedModes = [''INLINE'', ''PRESIGNED_SINGLE'', ''DIRECT''], gU_AuthJWKS = [],
       gU_AuthAllowedIssuers = []\<rparr>,
     g_Access = \<lparr>gX_TicketSigningKey = [], gX_TicketTTL = 5 * minute, gX_DownloadRedirectTTL = 2 * minute, gX_PublicURLEnabled = True,
       gX_PrivatePresignTTL = 2 * minute, gX_AuthJWKS = [], gX_AuthAllowedIssuers = []\<rparr>,
     g_Admin = \<lparr>gN_AuthJWKS = [], gN_AuthAllowedIssuers = [], gN_DeleteRequiresReason = True, gN_ListDefaultLimit = 50,
       gN_ListMaxLimit = 200\<rparr>,
     g_Job = \<lparr>gJ_SchedulerEnabled = True, gJ_DefaultBatchSize = 100, gJ_DefaultMaxConcurrency = 4, gJ_LockBackend = ''redis'',
       gJ_LockTTL = 30 * second, gJ_LockRenewInterval = 10 * second, gJ_ExpireUploadSessionsInterval = 5 * minute,
       gJ_RepairStuckCompletingInterval = 2 * minute, gJ_ProcessOutboxEventsInterval = 15 * second,
       gJ_FinalizeFileDeleteInterval = 1 * minute, gJ_CleanupMultipartInterval = 10 * minute, gJ_FileDeleteRetention = 168 * hour,
       gJ_CleanupOrphanBlobsInterval = 10 * minute, gJ_ReconcileTenantUsageInterval = 30 * minute\<rparr>\<rparr>"

subsection \<open>Reading the environment\<close>

type_synonym getenv = "string \<Rightarrow> string"

text \<open>The text of the verb \<^verbatim>\<open>%q\<close>, and the error of a library function for a text it does not parse.\<close>

record error_texts =
  tx_quote :: "string \<Rightarrow> string"
  tx_parse :: "string \<Rightarrow> string \<Rightarrow> go_error"

definition invalid_value :: "error_texts \<Rightarrow> string \<Rightarrow> string \<Rightarrow> string \<Rightarrow> string \<Rightarrow> go_error" where
  "invalid_value texts key what function v = ErrorfW
     (key @ '': invalid '' @ what @ '' '' @ tx_quote texts v @ '': '' @ Error (tx_parse texts function v)) (tx_parse texts function v)"

definition fromEnv :: "getenv \<Rightarrow> (string \<Rightarrow> go_error + 'a) \<Rightarrow> string \<Rightarrow> 'a \<Rightarrow> go_error + 'a" where
  "fromEnv getenv parse key fallback =
     (let v = TrimSpace (getenv key) in if v = [] then Inr fallback else parse v)"

definition durationFromEnv :: "error_texts \<Rightarrow> getenv \<Rightarrow> string \<Rightarrow> duration \<Rightarrow> go_error + duration" where
  "durationFromEnv texts getenv key fallback = fromEnv getenv (\<lambda>v. case ParseDuration v of
     None \<Rightarrow> Inl (invalid_value texts key ''duration'' ''time.ParseDuration'' v) | Some d \<Rightarrow> Inr d) key fallback"

definition intFromEnv :: "error_texts \<Rightarrow> getenv \<Rightarrow> string \<Rightarrow> int \<Rightarrow> go_error + int" where
  "intFromEnv texts getenv key fallback = fromEnv getenv (\<lambda>v. case ParseInt64 v of
     None \<Rightarrow> Inl (invalid_value texts key ''int'' ''strconv.Atoi'' v) | Some i \<Rightarrow> Inr i) key fallback"

definition int64FromEnv :: "error_texts \<Rightarrow> getenv \<Rightarrow> string \<Rightarrow> int \<Rightarrow> go_error + int" where
  "int64FromEnv texts getenv key fallback = fromEnv getenv (\<lambda>v. case ParseInt64 v of
     None \<Rightarrow> Inl (invalid_value texts key ''int64'' ''strconv.ParseInt'' v) | Some i \<Rightarrow> Inr i) key fallback"

definition boolFromEnv :: "error_texts \<Rightarrow> getenv \<Rightarrow> string \<Rightarrow> bool \<Rightarrow> go_error + bool" where
  "boolFromEnv texts getenv key fallback = fromEnv getenv (\<lambda>v. case ParseBool v of
     None \<Rightarrow> Inl (invalid_value texts key ''bool'' ''strconv.ParseBool'' v) | Some b \<Rightarrow> Inr b) key fallback"

definition env_string :: "getenv \<Rightarrow> string \<Rightarrow> string \<Rightarrow> string" where
  "env_string getenv key fallback = (let v = TrimSpace (getenv key) in if v = [] then fallback else v)"

definition splitCSV :: "string \<Rightarrow> string list" where
  "splitCSV raw = filter (\<lambda>v. v \<noteq> []) (map TrimSpace (Split_on (CHR '','') raw))"

text \<open>
  \<open>override\<close> is the idiom \<^verbatim>\<open>if value, err := f(key, cfg.x); err != nil { errs = append(errs, err) } else
  { cfg.x = value }\<close>, with the field as its selector and its update.
\<close>

definition override :: "(string \<Rightarrow> 'a \<Rightarrow> go_error + 'a) \<Rightarrow> string \<Rightarrow> (Config \<Rightarrow> 'a) \<Rightarrow> (('a \<Rightarrow> 'a) \<Rightarrow> Config \<Rightarrow> Config) \<Rightarrow>
    Config \<times> go_error list \<Rightarrow> Config \<times> go_error list" where
  "override read key sel upd = (\<lambda>(cfg, errs). case read key (sel cfg) of
     Inl err \<Rightarrow> (cfg, errs @ [err]) | Inr v \<Rightarrow> (upd (\<lambda>_. v) cfg, errs))"

definition assign :: "(('a \<Rightarrow> 'a) \<Rightarrow> Config \<Rightarrow> Config) \<Rightarrow> (Config \<Rightarrow> 'a) \<Rightarrow> Config \<times> go_error list \<Rightarrow> Config \<times> go_error list" where
  "assign upd v = (\<lambda>(cfg, errs). (upd (\<lambda>_. v cfg) cfg, errs))"

subsection \<open>Loading\<close>

text \<open>The strings and lists, which cannot be wrong.\<close>

definition load_strings :: "getenv \<Rightarrow> string \<Rightarrow> (Config \<times> go_error list \<Rightarrow> Config \<times> go_error list) list" where
  "load_strings getenv serviceName = [
     assign (g_App_update o gA_Env_update) (\<lambda>cfg. env_string getenv ''APP_ENV'' (gA_Env (g_App cfg))),
     assign (g_App_update o gA_ServiceName_update) (\<lambda>cfg. serviceName),
     assign (g_App_update o gA_LogLevel_update) (\<lambda>cfg. ToLower (env_string getenv ''APP_LOG_LEVEL'' (gA_LogLevel (g_App cfg)))),
     assign (g_DB_update o gD_DSN_update) (\<lambda>cfg. TrimSpace (getenv ''DB_DSN'')),
     assign (g_Redis_update o gR_Addr_update) (\<lambda>cfg. TrimSpace (getenv ''REDIS_ADDR'')),
     assign (g_Redis_update o gR_Password_update) (\<lambda>cfg. getenv ''REDIS_PASSWORD''),
     assign (g_Storage_update o gS_Endpoint_update) (\<lambda>cfg. TrimSpace (getenv ''STORAGE_ENDPOINT'')),
     assign (g_Storage_update o gS_Region_update) (\<lambda>cfg. TrimSpace (getenv ''STORAGE_REGION'')),
     assign (g_Storage_update o gS_AccessKey_update) (\<lambda>cfg. TrimSpace (getenv ''STORAGE_ACCESS_KEY'')),
     assign (g_Storage_update o gS_SecretKey_update) (\<lambda>cfg. TrimSpace (getenv ''STORAGE_SECRET_KEY'')),
     assign (g_Storage_update o gS_PublicBucket_update) (\<lambda>cfg. TrimSpace (getenv ''STORAGE_PUBLIC_BUCKET'')),
     assign (g_Storage_update o gS_PrivateBucket_update) (\<lambda>cfg. TrimSpace (getenv ''STORAGE_PRIVATE_BUCKET'')),
     assign (g_Storage_update o gS_PublicBaseURL_update) (\<lambda>cfg. TrimSpace (getenv ''STORAGE_PUBLIC_BASE_URL'')),
     assign (g_OTEL_update o gO_Endpoint_update) (\<lambda>cfg. TrimSpace (getenv ''OTEL_ENDPOINT'')),
     assign (g_OTEL_update o gO_ServiceVersion_update) (\<lambda>cfg. env_string getenv ''OTEL_SERVICE_VERSION'' (gO_ServiceVersion (g_OTEL cfg))),
     assign (g_Access_update o gX_TicketSigningKey_update) (\<lambda>cfg. TrimSpace (getenv ''ACCESS_TICKET_SIGNING_KEY'')),
     assign (g_Access_update o gX_AuthJWKS_update) (\<lambda>cfg. TrimSpace (getenv ''ACCESS_AUTH_JWKS'')),
     assign (g_Access_update o gX_AuthAllowedIssuers_update) (\<lambda>cfg. splitCSV (getenv ''ACCESS_AUTH_ALLOWED_ISSUERS'')),
     assign (g_Upload_update o gU_AuthJWKS_update) (\<lambda>cfg. TrimSpace (getenv ''UPLOAD_AUTH_JWKS'')),
     assign (g_Upload_update o gU_AuthAllowedIssuers_update) (\<lambda>cfg. splitCSV (getenv ''UPLOAD_AUTH_ALLOWED_ISSUERS'')),
     assign (g_Admin_update o gN_AuthJWKS_update) (\<lambda>cfg. TrimSpace (getenv ''ADMIN_AUTH_JWKS'')),
     assign (g_Admin_update o gN_AuthAllowedIssuers_update) (\<lambda>cfg. splitCSV (getenv ''ADMIN_AUTH_ALLOWED_ISSUERS''))]"

text \<open>The values that are parsed, in the order of their errors.\<close>

definition load_platform :: "error_texts \<Rightarrow> getenv \<Rightarrow> (Config \<times> go_error list \<Rightarrow> Config \<times> go_error list) list" where
  "load_platform texts getenv = [
     override (durationFromEnv texts getenv) ''APP_SHUTDOWN_TIMEOUT'' (gA_ShutdownTimeout o g_App) (g_App_update o gA_ShutdownTimeout_update),
     override (intFromEnv texts getenv) ''HTTP_PORT'' (gH_Port o g_HTTP) (g_HTTP_update o gH_Port_update),
     override (durationFromEnv texts getenv) ''HTTP_READ_TIMEOUT'' (gH_ReadTimeout o g_HTTP) (g_HTTP_update o gH_ReadTimeout_update),
     override (durationFromEnv texts getenv) ''HTTP_WRITE_TIMEOUT'' (gH_WriteTimeout o g_HTTP) (g_HTTP_update o gH_WriteTimeout_update),
     override (durationFromEnv texts getenv) ''HTTP_IDLE_TIMEOUT'' (gH_IdleTimeout o g_HTTP) (g_HTTP_update o gH_IdleTimeout_update),
     override (intFromEnv texts getenv) ''DB_MAX_OPEN_CONNS'' (gD_MaxOpenConns o g_DB) (g_DB_update o gD_MaxOpenConns_update),
     override (intFromEnv texts getenv) ''DB_MAX_IDLE_CONNS'' (gD_MaxIdleConns o g_DB) (g_DB_update o gD_MaxIdleConns_update),
     override (durationFromEnv texts getenv) ''DB_CONN_MAX_LIFETIME'' (gD_ConnMaxLifetime o g_DB) (g_DB_update o gD_ConnMaxLifetime_update),
     override (intFromEnv texts getenv) ''REDIS_DB'' (gR_DB o g_Redis) (g_Redis_update o gR_DB_update),
     override (boolFromEnv texts getenv) ''STORAGE_FORCE_PATH_STYLE'' (gS_ForcePathStyle o g_Storage) (g_Storage_update o gS_ForcePathStyle_update),
     override (boolFromEnv texts getenv) ''METRICS_ENABLED'' (gM_Enabled o g_Metrics) (g_Metrics_update o gM_Enabled_update)]"

definition load_upload :: "error_texts \<Rightarrow> getenv \<Rightarrow> (Config \<times> go_error list \<Rightarrow> Config \<times> go_error list) list" where
  "load_upload texts getenv = [
     override (int64FromEnv texts getenv) ''UPLOAD_MAX_INLINE_SIZE'' (gU_MaxInlineSize o g_Upload) (g_Upload_update o gU_MaxInlineSize_update),
     override (durationFromEnv texts getenv) ''UPLOAD_SESSION_TTL'' (gU_SessionTTL o g_Upload) (g_Upload_update o gU_SessionTTL_update),
     override (durationFromEnv texts getenv) ''UPLOAD_COMPLETE_TIMEOUT'' (gU_CompleteTimeout o g_Upload) (g_Upload_update o gU_CompleteTimeout_update),
     override (durationFromEnv texts getenv) ''UPLOAD_PRESIGN_TTL'' (gU_PresignTTL o g_Upload) (g_Upload_update o gU_PresignTTL_update),
     assign (g_Upload_update o gU_AllowedModes_update) (\<lambda>cfg. if TrimSpace (getenv ''UPLOAD_ALLOWED_MODES'') \<noteq> []
       then splitCSV (TrimSpace (getenv ''UPLOAD_ALLOWED_MODES'')) else gU_AllowedModes (g_Upload cfg))]"

definition load_access_admin :: "error_texts \<Rightarrow> getenv \<Rightarrow> (Config \<times> go_error list \<Rightarrow> Config \<times> go_error list) list" where
  "load_access_admin texts getenv = [
     override (durationFromEnv texts getenv) ''ACCESS_TICKET_TTL'' (gX_TicketTTL o g_Access) (g_Access_update o gX_TicketTTL_update),
     override (durationFromEnv texts getenv) ''ACCESS_DOWNLOAD_REDIRECT_TTL'' (gX_DownloadRedirectTTL o g_Access) (g_Access_update o gX_DownloadRedirectTTL_update),
     override (boolFromEnv texts getenv) ''ACCESS_PUBLIC_URL_ENABLED'' (gX_PublicURLEnabled o g_Access) (g_Access_update o gX_PublicURLEnabled_update),
     override (durationFromEnv texts getenv) ''ACCESS_PRIVATE_PRESIGN_TTL'' (gX_PrivatePresignTTL o g_Access) (g_Access_update o gX_PrivatePresignTTL_update),
     override (boolFromEnv texts getenv) ''ADMIN_DELETE_REQUIRES_REASON'' (gN_DeleteRequiresReason o g_Admin) (g_Admin_update o gN_DeleteRequiresReason_update),
     override (intFromEnv texts getenv) ''ADMIN_LIST_DEFAULT_LIMIT'' (gN_ListDefaultLimit o g_Admin) (g_Admin_update o gN_ListDefaultLimit_update),
     override (intFromEnv texts getenv) ''ADMIN_LIST_MAX_LIMIT'' (gN_ListMaxLimit o g_Admin) (g_Admin_update o gN_ListMaxLimit_update)]"

definition load_job :: "error_texts \<Rightarrow> getenv \<Rightarrow> (Config \<times> go_error list \<Rightarrow> Config \<times> go_error list) list" where
  "load_job texts getenv = [
     override (boolFromEnv texts getenv) ''JOB_SCHEDULER_ENABLED'' (gJ_SchedulerEnabled o g_Job) (g_Job_update o gJ_SchedulerEnabled_update),
     override (intFromEnv texts getenv) ''JOB_DEFAULT_BATCH_SIZE'' (gJ_DefaultBatchSize o g_Job) (g_Job_update o gJ_DefaultBatchSize_update),
     override (intFromEnv texts getenv) ''JOB_DEFAULT_MAX_CONCURRENCY'' (gJ_DefaultMaxConcurrency o g_Job) (g_Job_update o gJ_DefaultMaxConcurrency_update),
     assign (g_Job_update o gJ_LockBackend_update) (\<lambda>cfg. env_string getenv ''JOB_LOCK_BACKEND'' (gJ_LockBackend (g_Job cfg))),
     override (durationFromEnv texts getenv) ''JOB_LOCK_TTL'' (gJ_LockTTL o g_Job) (g_Job_update o gJ_LockTTL_update),
     override (durationFromEnv texts getenv) ''JOB_LOCK_RENEW_INTERVAL'' (gJ_LockRenewInterval o g_Job) (g_Job_update o gJ_LockRenewInterval_update),
     override (durationFromEnv texts getenv) ''JOB_EXPIRE_UPLOAD_SESSIONS_INTERVAL'' (gJ_ExpireUploadSessionsInterval o g_Job) (g_Job_update o gJ_ExpireUploadSessionsInterval_update),
     override (durationFromEnv texts getenv) ''JOB_REPAIR_STUCK_COMPLETING_INTERVAL'' (gJ_RepairStuckCompletingInterval o g_Job) (g_Job_update o gJ_RepairStuckCompletingInterval_update),
     override (durationFromEnv texts getenv) ''JOB_PROCESS_OUTBOX_EVENTS_INTERVAL'' (gJ_ProcessOutboxEventsInterval o g_Job) (g_Job_update o gJ_ProcessOutboxEventsInterval_update),
     override (durationFromEnv texts getenv) ''JOB_FINALIZE_FILE_DELETE_INTERVAL'' (gJ_FinalizeFileDeleteInterval o g_Job) (g_Job_update o gJ_FinalizeFileDeleteInterval_update),
     override (durationFromEnv texts getenv) ''JOB_CLEANUP_MULTIPART_INTERVAL'' (gJ_CleanupMultipartInterval o g_Job) (g_Job_update o gJ_CleanupMultipartInterval_update),
     override (durationFromEnv texts getenv) ''JOB_FILE_DELETE_RETENTION'' (gJ_FileDeleteRetention o g_Job) (g_Job_update o gJ_FileDeleteRetention_update),
     override (durationFromEnv texts getenv) ''JOB_CLEANUP_ORPHAN_BLOBS_INTERVAL'' (gJ_CleanupOrphanBlobsInterval o g_Job) (g_Job_update o gJ_CleanupOrphanBlobsInterval_update),
     override (durationFromEnv texts getenv) ''JOB_RECONCILE_TENANT_USAGE_INTERVAL'' (gJ_ReconcileTenantUsageInterval o g_Job) (g_Job_update o gJ_ReconcileTenantUsageInterval_update)]"

definition load_values :: "error_texts \<Rightarrow> getenv \<Rightarrow> string \<Rightarrow> Config \<times> go_error list" where
  "load_values texts getenv serviceName0 =
     (let serviceName = (if serviceName0 = [] then TrimSpace (getenv ''APP_SERVICE_NAME'') else serviceName0)
      in foldl (\<lambda>st step. step st) (default_config, [])
           (load_strings getenv serviceName @ load_platform texts getenv @ load_upload texts getenv @
            load_access_admin texts getenv @ load_job texts getenv))"

subsection \<open>Checks\<close>

text \<open>\<^verbatim>\<open>if wrong { errs = append(errs, errors.New(message)) }\<close>\<close>

definition report :: "bool \<Rightarrow> string \<Rightarrow> go_error list" where
  "report wrong message = (if wrong then [Errorf message] else [])"

definition check_platform :: "error_texts \<Rightarrow> Config \<Rightarrow> go_error list" where
  "check_platform texts c = concat [
     report (TrimSpace (gA_Env (g_App c)) = []) ''APP_ENV is required'',
     report (TrimSpace (gA_ServiceName (g_App c)) = []) ''APP_SERVICE_NAME is required'',
     report (gA_LogLevel (g_App c) \<notin> {''debug'', ''info'', ''warn'', ''error''})
       (''APP_LOG_LEVEL must be one of debug/info/warn/error: '' @ tx_quote texts (gA_LogLevel (g_App c))),
     report (gA_ShutdownTimeout (g_App c) \<le> 0) ''APP_SHUTDOWN_TIMEOUT must be > 0'',
     report (gH_Port (g_HTTP c) \<le> 0 \<or> gH_Port (g_HTTP c) > 65535) ''HTTP_PORT must be in range 1-65535'',
     report (gH_ReadTimeout (g_HTTP c) \<le> 0) ''HTTP_READ_TIMEOUT must be > 0'',
     report (gH_WriteTimeout (g_HTTP c) \<le> 0) ''HTTP_WRITE_TIMEOUT must be > 0'',
     report (gH_IdleTimeout (g_HTTP c) \<le> 0) ''HTTP_IDLE_TIMEOUT must be > 0'',
     report (TrimSpace (gD_DSN (g_DB c)) = []) ''DB_DSN is required'',
     report (gD_MaxOpenConns (g_DB c) \<le> 0) ''DB_MAX_OPEN_CONNS must be > 0'',
     report (gD_MaxIdleConns (g_DB c) < 0) ''DB_MAX_IDLE_CONNS must be >= 0'',
     report (gD_MaxIdleConns (g_DB c) > gD_MaxOpenConns (g_DB c)) ''DB_MAX_IDLE_CONNS must be <= DB_MAX_OPEN_CONNS'',
     report (gD_ConnMaxLifetime (g_DB c) \<le> 0) ''DB_CONN_MAX_LIFETIME must be > 0'',
     report (TrimSpace (gS_Endpoint (g_Storage c)) = []) ''STORAGE_ENDPOINT is required'',
     report (TrimSpace (gS_AccessKey (g_Storage c)) = []) ''STORAGE_ACCESS_KEY is required'',
     report (TrimSpace (gS_SecretKey (g_Storage c)) = []) ''STORAGE_SECRET_KEY is required'',
     report (TrimSpace (gS_PublicBucket (g_Storage c)) = []) ''STORAGE_PUBLIC_BUCKET is required'',
     report (TrimSpace (gS_PrivateBucket (g_Storage c)) = []) ''STORAGE_PRIVATE_BUCKET is required'']"

definition check_service :: "Config \<Rightarrow> go_error list" where
  "check_service c =
     (if gA_ServiceName (g_App c) = ServiceUpload \<or> gA_ServiceName (g_App c) = ServiceJob
      then report (TrimSpace (gR_Addr (g_Redis c)) = []) ''REDIS_ADDR is required for upload-service and job-service'' @
           report (gA_ServiceName (g_App c) = ServiceUpload \<and> TrimSpace (gU_AuthJWKS (g_Upload c)) = [])
             ''UPLOAD_AUTH_JWKS is required for upload-service''
      else if gA_ServiceName (g_App c) = ServiceAccess
      then report (TrimSpace (gX_TicketSigningKey (g_Access c)) = []) ''ACCESS_TICKET_SIGNING_KEY is required for access-service'' @
           report (TrimSpace (gX_AuthJWKS (g_Access c)) = []) ''ACCESS_AUTH_JWKS is required for access-service''
      else if gA_ServiceName (g_App c) = ServiceAdmin
      then report (TrimSpace (gN_AuthJWKS (g_Admin c)) = []) ''ADMIN_AUTH_JWKS is required for admin-service''
      else [])"

definition check_modes :: "error_texts \<Rightarrow> string list \<Rightarrow> go_error list" where
  "check_modes texts modes =
     (if modes = [] then [Errorf ''UPLOAD_ALLOWED_MODES must contain at least one value'']
      else concat (map (\<lambda>mode. report (mode \<notin> {''INLINE'', ''PRESIGNED_SINGLE'', ''DIRECT''})
             (''UPLOAD_ALLOWED_MODES contains unsupported value: '' @ tx_quote texts mode)) modes))"

definition check_upload_admin :: "error_texts \<Rightarrow> Config \<Rightarrow> go_error list" where
  "check_upload_admin texts c = concat [
     report (gU_MaxInlineSize (g_Upload c) \<le> 0) ''UPLOAD_MAX_INLINE_SIZE must be > 0'',
     report (gU_SessionTTL (g_Upload c) \<le> 0) ''UPLOAD_SESSION_TTL must be > 0'',
     check_modes texts (gU_AllowedModes (g_Upload c)),
     report (gN_ListDefaultLimit (g_Admin c) \<le> 0) ''ADMIN_LIST_DEFAULT_LIMIT must be > 0'',
     report (gN_ListMaxLimit (g_Admin c) < gN_ListDefaultLimit (g_Admin c)) ''ADMIN_LIST_MAX_LIMIT must be >= ADMIN_LIST_DEFAULT_LIMIT'']"

definition check_job :: "error_texts \<Rightarrow> Config \<Rightarrow> go_error list" where
  "check_job texts c = concat [
     report (gJ_DefaultBatchSize (g_Job c) \<le> 0) ''JOB_DEFAULT_BATCH_SIZE must be > 0'',
     report (gJ_DefaultMaxConcurrency (g_Job c) \<le> 0) ''JOB_DEFAULT_MAX_CONCURRENCY must be > 0'',
     report (gJ_LockBackend (g_Job c) \<noteq> ''redis'') (''JOB_LOCK_BACKEND must be redis: '' @ tx_quote texts (gJ_LockBackend (g_Job c))),
     report (gJ_LockTTL (g_Job c) \<le> 0) ''JOB_LOCK_TTL must be > 0'',
     report (gJ_LockRenewInterval (g_Job c) \<le> 0) ''JOB_LOCK_RENEW_INTERVAL must be > 0'',
     report (gJ_LockRenewInterval (g_Job c) \<ge> gJ_LockTTL (g_Job c)) ''JOB_LOCK_RENEW_INTERVAL must be < JOB_LOCK_TTL'',
     report (gJ_ExpireUploadSessionsInterval (g_Job c) \<le> 0) ''JOB_EXPIRE_UPLOAD_SESSIONS_INTERVAL must be > 0'',
     report (gJ_RepairStuckCompletingInterval (g_Job c) \<le> 0) ''JOB_REPAIR_STUCK_COMPLETING_INTERVAL must be > 0'',
     report (gJ_ProcessOutboxEventsInterval (g_Job c) \<le> 0) ''JOB_PROCESS_OUTBOX_EVENTS_INTERVAL must be > 0'',
     report (gJ_FinalizeFileDeleteInterval (g_Job c) \<le> 0) ''JOB_FINALIZE_FILE_DELETE_INTERVAL must be > 0'',
     report (gJ_CleanupMultipartInterval (g_Job c) \<le> 0) ''JOB_CLEANUP_MULTIPART_INTERVAL must be > 0'',
     report (gJ_FileDeleteRetention (g_Job c) \<le> 0) ''JOB_FILE_DELETE_RETENTION must be > 0'',
     report (gJ_CleanupOrphanBlobsInterval (g_Job c) \<le> 0) ''JOB_CLEANUP_ORPHAN_BLOBS_INTERVAL must be > 0'',
     report (gJ_ReconcileTenantUsageInterval (g_Job c) \<le> 0) ''JOB_RECONCILE_TENANT_USAGE_INTERVAL must be > 0'']"

definition Config_Validate :: "error_texts \<Rightarrow> Config \<Rightarrow> go_error option" where
  "Config_Validate texts c =
     (let errs = check_platform texts c @ check_service c @ check_upload_admin texts c @ check_job texts c
      in if errs = [] then None else Some (Joined errs))"

definition Load :: "error_texts \<Rightarrow> getenv \<Rightarrow> string \<Rightarrow> Config result" where
  "Load texts getenv serviceName =
     (let (cfg, errs) = load_values texts getenv serviceName
      in if errs \<noteq> [] then Inl (Joined errs)
         else case Config_Validate texts cfg of Some err \<Rightarrow> Inl err | None \<Rightarrow> Inr cfg)"

definition LoadFromEnv :: "error_texts \<Rightarrow> getenv \<Rightarrow> string \<Rightarrow> Config result" where
  "LoadFromEnv texts getenv serviceName = Load texts getenv serviceName"

definition RedisRequired :: "Config \<Rightarrow> bool" where
  "RedisRequired c \<longleftrightarrow> gA_ServiceName (g_App c) = ServiceUpload \<or> gA_ServiceName (g_App c) = ServiceJob"

text \<open>Concrete texts of errors.\<close>

definition sampleTexts :: error_texts where
  "sampleTexts = \<lparr>tx_quote = quoted, tx_parse = (\<lambda>function v. Errorf ''invalid syntax'')\<rparr>"

end
