(* ===== verification/JobScheduler.thy ===== *)
theory JobScheduler
  imports JobOutbox Config
begin

text \<open>
  The scheduling of the jobs: the Redis lock (\<^verbatim>\<open>infra/runner/redis_locker.go\<close>), one locked run of a
  job with its renewals (\<^verbatim>\<open>app/scheduler/scheduler.go\<close>), the observer's health records
  (\<^verbatim>\<open>app/observability\<close>), the loops of the runtime (\<^verbatim>\<open>infra/runner/runner.go\<close>) and the catalogue
  of jobs (\<^verbatim>\<open>runtime/catalog.go\<close>).

  Redis is a parameter: its commands on a state of any type, and the faults of the connection,
  which may strike before or after a command took effect. \<open>kw_now\<close> is the clock of the server,
  \<open>kw_tick\<close> counts the calls.
\<close>

subsection \<open>Redis\<close>

record 's redis_commands =
  rk_get :: "time \<Rightarrow> 's \<Rightarrow> string \<Rightarrow> string option"
  rk_setnx :: "time \<Rightarrow> string \<Rightarrow> string \<Rightarrow> duration \<Rightarrow> 's \<Rightarrow> bool \<times> 's"
  rk_pexpire :: "time \<Rightarrow> string \<Rightarrow> int \<Rightarrow> 's \<Rightarrow> int \<times> 's"
  rk_del :: "time \<Rightarrow> string \<Rightarrow> 's \<Rightarrow> int \<times> 's"
  rk_fault :: "nat \<Rightarrow> (go_error \<times> bool) option"

record 's lock_world =
  kw_redis :: 's
  kw_now :: time
  kw_tick :: nat

type_synonym ('s, 'a) lock_action = "('s lock_world, go_error, 'a) action"

definition redis_run :: "'s redis_commands \<Rightarrow> (time \<Rightarrow> 's \<Rightarrow> 'a \<times> 's) \<Rightarrow> ('s, 'a) lock_action" where
  "redis_run c f = (\<lambda>w.
     let (x, s) = f (kw_now w) (kw_redis w); w' = w\<lparr>kw_tick := Suc (kw_tick w)\<rparr>
     in case rk_fault c (kw_tick w) of
          None \<Rightarrow> (Inr x, w'\<lparr>kw_redis := s\<rparr>)
        | Some (err, applied) \<Rightarrow> (Inl err, if applied then w'\<lparr>kw_redis := s\<rparr> else w'))"

subsection \<open>The lock\<close>

definition ErrRedisRequired :: go_error where "ErrRedisRequired = Sentinel ''redis client is required''"
definition ErrLockTTLRequired :: go_error where "ErrLockTTLRequired = Sentinel ''lock ttl must be > 0''"
definition errLockOwnershipLost :: go_error where "errLockOwnershipLost = Sentinel ''distributed lock ownership lost''"

text \<open>The two scripts; a script runs as one command.\<close>

definition renewScript :: "'s redis_commands \<Rightarrow> string \<Rightarrow> string \<Rightarrow> int \<Rightarrow> time \<Rightarrow> 's \<Rightarrow> int \<times> 's" where
  "renewScript c key arg1 arg2 t s = (if rk_get c t s key \<noteq> Some arg1 then (0, s) else rk_pexpire c t key arg2 s)"

definition releaseScript :: "'s redis_commands \<Rightarrow> string \<Rightarrow> string \<Rightarrow> time \<Rightarrow> 's \<Rightarrow> int \<times> 's" where
  "releaseScript c key arg1 t s = (if rk_get c t s key \<noteq> Some arg1 then (0, s) else rk_del c t key s)"

record 's RedisLocker =
  rl_client :: "'s redis_commands option"
  rl_owner :: string

record 's redisLockHandle =
  lh_client :: "'s redis_commands option"
  lh_key :: string
  lh_owner :: string

text \<open>\<open>hostname\<close> and \<open>pid\<close> are what the operating system answers.\<close>

definition NewRedisLocker :: "string \<Rightarrow> int \<Rightarrow> 's redis_commands option \<Rightarrow> 's RedisLocker" where
  "NewRedisLocker hostname pid client = (case client of
     None \<Rightarrow> \<lparr>rl_client = None, rl_owner = []\<rparr>
   | Some c \<Rightarrow> \<lparr>rl_client = Some c,
       rl_owner = (if TrimSpace hostname = [] then ''unknown'' else TrimSpace hostname) @ '':'' @ Itoa pid\<rparr>)"

definition Locker_Acquire :: "'s RedisLocker \<Rightarrow> string \<Rightarrow> duration \<Rightarrow> ('s, 's redisLockHandle option) lock_action" where
  "Locker_Acquire l key0 ttl = (case rl_client l of
     None \<Rightarrow> throwA ErrRedisRequired
   | Some c \<Rightarrow>
       if ttl \<le> 0 then throwA ErrLockTTLRequired
       else let key = TrimSpace key0 in
         bindA (redis_run c (\<lambda>t. rk_setnx c t key (rl_owner l) ttl)) (\<lambda>acquired.
         returnA (if acquired then Some \<lparr>lh_client = Some c, lh_key = key, lh_owner = rl_owner l\<rparr> else None)))"

text \<open>\<^verbatim>\<open>ttl.Milliseconds()\<close>: whole milliseconds; durations of locks are positive.\<close>

definition Milliseconds :: "duration \<Rightarrow> int" where
  "Milliseconds d = d div 1000000"

definition Handle_Renew :: "'s redisLockHandle \<Rightarrow> duration \<Rightarrow> ('s, unit) lock_action" where
  "Handle_Renew h ttl = (case lh_client h of
     None \<Rightarrow> throwA ErrRedisRequired
   | Some c \<Rightarrow>
       if ttl \<le> 0 then throwA ErrLockTTLRequired
       else bindA (redis_run c (renewScript c (lh_key h) (lh_owner h) (Milliseconds ttl))) (\<lambda>result.
         if result = 0 then throwA errLockOwnershipLost else returnA ()))"

definition Handle_Release :: "'s redisLockHandle \<Rightarrow> ('s, unit) lock_action" where
  "Handle_Release h = (case lh_client h of
     None \<Rightarrow> throwA ErrRedisRequired
   | Some c \<Rightarrow> bindA (redis_run c (releaseScript c (lh_key h) (lh_owner h))) (\<lambda>result.
       if result = 0 then throwA errLockOwnershipLost else returnA ()))"

subsection \<open>Health records\<close>

text \<open>
  The service's observer has no metrics, logger and tracer, so what it keeps are the health
  records, the last one of each job; \<open>ob_now\<close> is \<^verbatim>\<open>time.Now\<close>.
\<close>

datatype JobStatus = StatusSuccess | StatusFailed | StatusSkipped

record JobHealth =
  hl_Status :: JobStatus
  hl_LastStartedAt :: time
  hl_LastFinishedAt :: time
  hl_LastDuration :: duration
  hl_LastError :: string
  hl_ItemsProcessed :: int
  hl_RetryCount :: int
  hl_LockAcquired :: bool

type_synonym health_store = "string \<rightharpoonup> JobHealth"

definition RecordJob :: "string \<Rightarrow> JobHealth \<Rightarrow> health_store \<Rightarrow> health_store" where
  "RecordJob jobName health st = st(jobName \<mapsto> health)"

definition errorString :: "go_error option \<Rightarrow> string" where
  "errorString err = (case err of None \<Rightarrow> [] | Some e \<Rightarrow> Error e)"

definition statusFromError :: "go_error option \<Rightarrow> JobStatus" where
  "statusFromError err = (case err of None \<Rightarrow> StatusSuccess | Some e \<Rightarrow> StatusFailed)"

definition RecordJobLockAcquireFailure :: "time \<Rightarrow> string \<Rightarrow> go_error option \<Rightarrow> health_store \<Rightarrow> health_store" where
  "RecordJobLockAcquireFailure now jobName err = RecordJob jobName
     \<lparr>hl_Status = (case err of None \<Rightarrow> StatusSkipped | Some e \<Rightarrow> StatusFailed), hl_LastStartedAt = now, hl_LastFinishedAt = now,
       hl_LastDuration = 0, hl_LastError = errorString err, hl_ItemsProcessed = 0, hl_RetryCount = 0, hl_LockAcquired = False\<rparr>"

text \<open>The function that \<^verbatim>\<open>StartJobRun\<close> returns, for a run that started at \<open>startedAt\<close> and took \<open>elapsed\<close>.\<close>

definition finishJobRun :: "time \<Rightarrow> duration \<Rightarrow> string \<Rightarrow> Result \<Rightarrow> go_error option \<Rightarrow> health_store \<Rightarrow> health_store" where
  "finishJobRun startedAt elapsed jobName result err = RecordJob jobName
     \<lparr>hl_Status = statusFromError err, hl_LastStartedAt = startedAt, hl_LastFinishedAt = startedAt + elapsed,
       hl_LastDuration = elapsed, hl_LastError = errorString err, hl_ItemsProcessed = rs_ItemsProcessed result,
       hl_RetryCount = rs_RetryCount result, hl_LockAcquired = True\<rparr>"

subsection \<open>One run\<close>

text \<open>
  A job answers with a result and an error, and may see its context cancelled; a nil job is None.
\<close>

record 'w Job =
  jb_Name :: string
  jb_Execute :: "bool \<Rightarrow> 'w \<Rightarrow> (Result \<times> go_error option) \<times> 'w"

record SchedulerConfig =
  sf_LockTTL :: duration
  sf_RenewInterval :: duration

record ('s, 'w) run_world =
  rw_lock :: "'s lock_world"
  rw_app :: 'w
  rw_health :: health_store

definition lockKey :: "string \<Rightarrow> string" where
  "lockKey jobName = ''job:'' @ TrimSpace jobName"

definition contextCanceled :: string where "contextCanceled = ''context canceled''"

text \<open>\<^verbatim>\<open>time.Duration\<close> division truncates; the time to live is positive where it is divided.\<close>

definition renewInterval :: "SchedulerConfig \<Rightarrow> duration" where
  "renewInterval cfg =
     (if 0 < sf_RenewInterval cfg then sf_RenewInterval cfg
      else if 0 < sf_LockTTL cfg div 2 then sf_LockTTL cfg div 2 else second)"

text \<open>
  The renewing goroutine: at every tick it renews the lock; its first error ends it, is put into
  the channel and cancels the run. The \<open>delays\<close> are the times from one renewal to the next as the
  server sees them.
\<close>

definition wait :: "duration \<Rightarrow> 's lock_world \<Rightarrow> 's lock_world" where
  "wait d w = w\<lparr>kw_now := kw_now w + d\<rparr>"

fun renewals :: "'s redisLockHandle \<Rightarrow> duration \<Rightarrow> duration list \<Rightarrow> 's lock_world \<Rightarrow> go_error option \<times> 's lock_world" where
  "renewals h ttl [] w = (None, w)"
| "renewals h ttl (d # ds) w = (case Handle_Renew h ttl (wait d w) of
     (Inl err, w') \<Rightarrow> (Some err, w')
   | (Inr _, w') \<Rightarrow> renewals h ttl ds w')"

text \<open>The error of a run: a failed renewal replaces success and cancellation, a failed release is added.\<close>

definition runError :: "go_error option \<Rightarrow> go_error option \<Rightarrow> go_error option \<Rightarrow> go_error option" where
  "runError execErr0 renewErr releaseErr =
     (let execErr = (case renewErr of
            Some e \<Rightarrow> if execErr0 = None \<or> errors_Is (the execErr0) contextCanceled then Some e else execErr0
          | None \<Rightarrow> execErr0)
      in case releaseErr of
           None \<Rightarrow> execErr
         | Some rel \<Rightarrow> (case execErr of
             None \<Rightarrow> Some rel
           | Some e \<Rightarrow> Some (ErrorfW (Error e @ ''; release lock: '' @ Error rel) e)))"

record RunResult =
  rr_Acquired :: bool
  rr_Executed :: bool

definition checkRun :: "'s RedisLocker option \<Rightarrow> 'w Job option \<Rightarrow> SchedulerConfig \<Rightarrow> go_error + 's RedisLocker \<times> 'w Job" where
  "checkRun locker job cfg = (case locker of
     None \<Rightarrow> Inl (Errorf ''distributed locker is required'')
   | Some l \<Rightarrow> (case job of
       None \<Rightarrow> Inl (Errorf ''job name is required'')
     | Some j \<Rightarrow>
         if TrimSpace (jb_Name j) = [] then Inl (Errorf ''job name is required'')
         else if sf_LockTTL cfg \<le> 0 then Inl (Errorf ''lock ttl must be > 0'')
         else Inr (l, j)))"

text \<open>
  The run of a job under its lock. The renewals that happen while the job executes touch only the
  lock, the job only the application, so they are written one after the other; the job is
  cancelled when a renewal failed. \<open>elapsed\<close> is the time on the observer's clock, \<open>startedAt\<close> its
  start.
\<close>

definition executeLocked ::
    "'s redisLockHandle \<Rightarrow> 'w Job \<Rightarrow> SchedulerConfig \<Rightarrow> duration list \<Rightarrow> time \<Rightarrow> duration \<Rightarrow> ('s, 'w) run_world \<Rightarrow>
     go_error option \<times> ('s, 'w) run_world" where
  "executeLocked h job cfg delays startedAt elapsed w =
     (let (renewErr, k1) = renewals h (sf_LockTTL cfg) delays (rw_lock w);
          ((result, execErr), app) = jb_Execute job (renewErr \<noteq> None) (rw_app w);
          (released, k2) = Handle_Release h k1;
          err = runError execErr renewErr (case released of Inl e \<Rightarrow> Some e | Inr _ \<Rightarrow> None)
      in (err, \<lparr>rw_lock = k2, rw_app = app, rw_health = finishJobRun startedAt elapsed (jb_Name job) result err (rw_health w)\<rparr>))"

definition Scheduler_RunOnce ::
    "'s RedisLocker option \<Rightarrow> 'w Job option \<Rightarrow> SchedulerConfig \<Rightarrow> duration list \<Rightarrow> time \<Rightarrow> duration \<Rightarrow> ('s, 'w) run_world \<Rightarrow>
     (RunResult \<times> go_error option) \<times> ('s, 'w) run_world" where
  "Scheduler_RunOnce locker0 job0 cfg delays startedAt elapsed w =
     (let none = \<lparr>rr_Acquired = False, rr_Executed = False\<rparr> in
      case checkRun locker0 job0 cfg of
        Inl err \<Rightarrow> ((none, Some err), w)
      | Inr (locker, job) \<Rightarrow>
          (case Locker_Acquire locker (lockKey (jb_Name job)) (sf_LockTTL cfg) (rw_lock w) of
             (Inl err, k) \<Rightarrow> ((none, Some err), w\<lparr>rw_lock := k,
                rw_health := RecordJobLockAcquireFailure startedAt (jb_Name job) (Some err) (rw_health w)\<rparr>)
           | (Inr None, k) \<Rightarrow> ((none, None), w\<lparr>rw_lock := k,
                rw_health := RecordJobLockAcquireFailure startedAt (jb_Name job) None (rw_health w)\<rparr>)
           | (Inr (Some h), k) \<Rightarrow>
               (case executeLocked h job cfg delays startedAt elapsed (w\<lparr>rw_lock := k\<rparr>) of
                  (err, w') \<Rightarrow> ((\<lparr>rr_Acquired = True, rr_Executed = True\<rparr>, err), w'))))"

subsection \<open>The runtime\<close>

record 'w ScheduledJob =
  sj_Job :: "'w Job option"
  sj_Interval :: duration

record ('s, 'w) RuntimeConfig =
  rg_Scheduler :: "'s RedisLocker option option"
  rg_Jobs :: "'w ScheduledJob list"
  rg_LockTTL :: duration
  rg_RenewInterval :: duration

text \<open>The state of the runtime: whether it was started, and the jobs whose loops run.\<close>

record 'w Runtime =
  ru_started :: bool
  ru_loops :: "'w ScheduledJob list"

definition ErrSchedulerRequired :: go_error where "ErrSchedulerRequired = Sentinel ''scheduler is required''"

definition Runtime_Start :: "('s, 'w) RuntimeConfig \<Rightarrow> ('w Runtime, go_error, unit) action" where
  "Runtime_Start cfg = (\<lambda>r.
     if ru_started r then (Inl (Errorf ''runtime already started''), r)
     else if rg_Jobs cfg \<noteq> [] \<and> rg_Scheduler cfg = None then (Inl ErrSchedulerRequired, r)
     else (Inr (), \<lparr>ru_started = True,
       ru_loops = ru_loops r @ filter (\<lambda>scheduled. \<not> (sj_Job scheduled = None \<or> sj_Interval scheduled \<le> 0)) (rg_Jobs cfg)\<rparr>))"

definition Runtime_Ready :: "'w Runtime \<Rightarrow> go_error option" where
  "Runtime_Ready r = (if \<not> ru_started r then Some (Errorf ''job runtime not started'') else None)"

text \<open>
  Stopping cancels the loops and waits for them until the caller's context ends with \<open>ctxErr\<close>;
  the loops then end on their own.
\<close>

definition Runtime_Stop :: "go_error option \<Rightarrow> ('w Runtime, go_error, unit) action" where
  "Runtime_Stop ctxErr = (\<lambda>r.
     if \<not> ru_started r then (Inr (), r)
     else case ctxErr of
       None \<Rightarrow> (Inr (), r\<lparr>ru_started := False, ru_loops := []\<rparr>)
     | Some err \<Rightarrow> (Inl err, r\<lparr>ru_started := False\<rparr>))"

text \<open>
  The loop of a job: one run at the start and one for every tick of its interval, one after the
  other. Every run has its renewals, start and duration.
\<close>

record run_timing =
  rm_delays :: "duration list"
  rm_startedAt :: time
  rm_elapsed :: duration

definition scheduledRun :: "('s, 'w) RuntimeConfig \<Rightarrow> 's RedisLocker option \<Rightarrow> 'w ScheduledJob \<Rightarrow> run_timing \<Rightarrow>
    ('s, 'w) run_world \<Rightarrow> ('s, 'w) run_world" where
  "scheduledRun cfg locker scheduled m w = snd (Scheduler_RunOnce locker (sj_Job scheduled)
     \<lparr>sf_LockTTL = rg_LockTTL cfg, sf_RenewInterval = rg_RenewInterval cfg\<rparr> (rm_delays m) (rm_startedAt m) (rm_elapsed m) w)"

definition Runtime_loop :: "('s, 'w) RuntimeConfig \<Rightarrow> 's RedisLocker option \<Rightarrow> 'w ScheduledJob \<Rightarrow> run_timing list \<Rightarrow>
    ('s, 'w) run_world \<Rightarrow> ('s, 'w) run_world" where
  "Runtime_loop cfg locker scheduled timings w = foldl (\<lambda>w m. scheduledRun cfg locker scheduled m w) w timings"

subsection \<open>The catalogue\<close>

text \<open>A job of the service as a job of the scheduler; \<open>envs\<close> is the environment with and without a cancelled context.\<close>

definition maintenanceJob :: "string \<Rightarrow> (env \<Rightarrow> Result M) \<Rightarrow> (bool \<Rightarrow> env) \<Rightarrow> world Job" where
  "maintenanceJob name run envs = \<lparr>jb_Name = name, jb_Execute = (\<lambda>cancelled w. case run (envs cancelled) w of
     (Inl err, w') \<Rightarrow> ((\<lparr>rs_ItemsProcessed = 0, rs_RetryCount = 0\<rparr>, Some err), w')
   | (Inr result, w') \<Rightarrow> ((result, None), w'))\<rparr>"

definition outboxJob :: "string \<Rightarrow> (env \<Rightarrow> (Result \<times> go_error option) M) \<Rightarrow> (bool \<Rightarrow> env) \<Rightarrow> world Job" where
  "outboxJob name run envs = \<lparr>jb_Name = name, jb_Execute = (\<lambda>cancelled w. case run (envs cancelled) w of
     (Inl err, w') \<Rightarrow> ((\<lparr>rs_ItemsProcessed = 0, rs_RetryCount = 0\<rparr>, Some err), w')
   | (Inr (result, err), w') \<Rightarrow> ((result, err), w'))\<rparr>"

definition buildScheduledJobs :: "config_JobConfig \<Rightarrow> (string \<Rightarrow> bool) \<Rightarrow> (bool \<Rightarrow> env) \<Rightarrow> world ScheduledJob list" where
  "buildScheduledJobs cfg locked envs =
     (let batch = \<lparr>jc_BatchSize = gJ_DefaultBatchSize cfg, jc_After = 0\<rparr>;
          job = (\<lambda>name run interval. \<lparr>sj_Job = Some (maintenanceJob name run envs), sj_Interval = interval\<rparr>)
      in [job ''expire_upload_sessions'' (\<lambda>env. ExpireUploadSessionsJob env locked (NewExpireUploadSessionsJob batch))
            (gJ_ExpireUploadSessionsInterval cfg),
          job ''repair_stuck_completing'' (\<lambda>env. RepairStuckCompletingJob env locked (NewRepairStuckCompletingJob batch))
            (gJ_RepairStuckCompletingInterval cfg),
          \<lparr>sj_Job = Some (outboxJob ''process_outbox_events''
              (\<lambda>env. ProcessOutboxEventsJob env locked (newOutboxConsumer (gJ_DefaultBatchSize cfg))) envs),
            sj_Interval = gJ_ProcessOutboxEventsInterval cfg\<rparr>,
          job ''finalize_file_delete'' (\<lambda>env. FinalizeFileDeleteJob env locked True
              (NewFinalizeFileDeleteJob (batch\<lparr>jc_After := gJ_FileDeleteRetention cfg\<rparr>)))
            (gJ_FinalizeFileDeleteInterval cfg),
          job ''cleanup_multipart'' (\<lambda>env. CleanupMultipartJob env locked True (NewCleanupMultipartJob batch))
            (gJ_CleanupMultipartInterval cfg),
          job ''cleanup_orphan_blobs'' (\<lambda>env. CleanupOrphanBlobsJob env locked True (NewCleanupOrphanBlobsJob batch))
            (gJ_CleanupOrphanBlobsInterval cfg),
          job ''reconcile_tenant_usage'' (\<lambda>env. ReconcileTenantUsageJob env (gJ_DefaultBatchSize cfg))
            (gJ_ReconcileTenantUsageInterval cfg)])"

text \<open>The configuration the job service runs with.\<close>

definition jobRuntimeConfig :: "Config \<Rightarrow> 's RedisLocker \<Rightarrow> (string \<Rightarrow> bool) \<Rightarrow> (bool \<Rightarrow> env) \<Rightarrow> ('s, world) RuntimeConfig result" where
  "jobRuntimeConfig c locker locked envs =
     (if TrimSpace (gJ_LockBackend (g_Job c)) \<noteq> ''redis''
      then Inl (Errorf (''unsupported job lock backend: '' @ gJ_LockBackend (g_Job c)))
      else Inr \<lparr>rg_Scheduler = Some (Some locker), rg_Jobs = buildScheduledJobs (g_Job c) locked envs,
        rg_LockTTL = gJ_LockTTL (g_Job c), rg_RenewInterval = gJ_LockRenewInterval (g_Job c)\<rparr>)"

end
