(* ===== verification/JobSchedulerLaws.thy ===== *)
theory JobSchedulerLaws
  imports JobScheduler
begin

text \<open>
  What the lock of the job service guarantees over a Redis that keeps its documented contract,
  under any interleaving of instances, lost replies, crashes and late renewals; and what a run
  of a job reports.
\<close>

subsection \<open>The contract of Redis\<close>

text \<open>
  \<^verbatim>\<open>SET key value NX PX\<close> sets a key that is not there, and only then; \<^verbatim>\<open>PEXPIRE\<close> gives a key that is
  there a new time to live; \<^verbatim>\<open>DEL\<close> removes it; each of them leaves the other keys alone. Times to
  live are kept to the millisecond.
\<close>

definition setnx_law :: "'s redis_commands \<Rightarrow> time \<Rightarrow> string \<Rightarrow> string \<Rightarrow> duration \<Rightarrow> 's \<Rightarrow> bool" where
  "setnx_law c t key v ttl s \<longleftrightarrow>
     (if rk_get c t s key = None
      then fst (rk_setnx c t key v ttl s) \<and> (\<forall>t' k. t \<le> t' \<longrightarrow> rk_get c t' (snd (rk_setnx c t key v ttl s)) k =
             (if k = key then if t' < t + ttl then Some v else None else rk_get c t' s k))
      else rk_setnx c t key v ttl s = (False, s))"

definition pexpire_law :: "'s redis_commands \<Rightarrow> time \<Rightarrow> string \<Rightarrow> int \<Rightarrow> 's \<Rightarrow> bool" where
  "pexpire_law c t key ms s \<longleftrightarrow> (case rk_get c t s key of
       None \<Rightarrow> rk_pexpire c t key ms s = (0, s)
     | Some v \<Rightarrow> fst (rk_pexpire c t key ms s) = 1 \<and> (\<forall>t' k. t \<le> t' \<longrightarrow> rk_get c t' (snd (rk_pexpire c t key ms s)) k =
            (if k = key then if t' < t + ms * 1000000 then Some v else None else rk_get c t' s k)))"

definition del_law :: "'s redis_commands \<Rightarrow> time \<Rightarrow> string \<Rightarrow> 's \<Rightarrow> bool" where
  "del_law c t key s \<longleftrightarrow> fst (rk_del c t key s) = (if rk_get c t s key = None then 0 else 1) \<and>
     (\<forall>t' k. t \<le> t' \<longrightarrow> rk_get c t' (snd (rk_del c t key s)) k = (if k = key then None else rk_get c t' s k))"

definition redis_contract :: "'s redis_commands \<Rightarrow> bool" where
  "redis_contract c \<longleftrightarrow>
     (\<forall>t key v ttl s. 0 < ttl \<longrightarrow> ttl mod 1000000 = 0 \<longrightarrow> setnx_law c t key v ttl s) \<and>
     (\<forall>t key ms s. pexpire_law c t key ms s) \<and> (\<forall>t key s. del_law c t key s)"

lemma contract_setnx:
  assumes "redis_contract c" "0 < ttl" "ttl mod 1000000 = 0" "rk_setnx c t key v ttl s = (b, s')"
  shows "b \<longleftrightarrow> rk_get c t s key = None" and "\<not> b \<Longrightarrow> s' = s"
    and "b \<Longrightarrow> t \<le> t' \<Longrightarrow> rk_get c t' s' k = (if k = key then if t' < t + ttl then Some v else None else rk_get c t' s k)"
proof -
  have "setnx_law c t key v ttl s" using assms(1-3) by (simp add: redis_contract_def)
  with assms(4) show "b \<longleftrightarrow> rk_get c t s key = None" "\<not> b \<Longrightarrow> s' = s"
    "b \<Longrightarrow> t \<le> t' \<Longrightarrow> rk_get c t' s' k = (if k = key then if t' < t + ttl then Some v else None else rk_get c t' s k)"
    by (auto simp: setnx_law_def split: if_splits)
qed

lemma contract_renew:
  assumes "redis_contract c" "ttl mod 1000000 = 0" "renewScript c key arg (Milliseconds ttl) t s = (n, s')"
  shows "n = 0 \<longleftrightarrow> rk_get c t s key \<noteq> Some arg" and "n = 0 \<Longrightarrow> s' = s"
    and "n \<noteq> 0 \<Longrightarrow> t \<le> t' \<Longrightarrow> rk_get c t' s' k = (if k = key then if t' < t + ttl then Some arg else None else rk_get c t' s k)"
proof -
  have ms: "Milliseconds ttl * 1000000 = ttl" using div_mult_mod_eq [of ttl 1000000] assms(2) by (simp add: Milliseconds_def)
  have "pexpire_law c t key (Milliseconds ttl) s" using assms(1) by (simp add: redis_contract_def)
  with assms(3) show "n = 0 \<longleftrightarrow> rk_get c t s key \<noteq> Some arg" "n = 0 \<Longrightarrow> s' = s"
    "n \<noteq> 0 \<Longrightarrow> t \<le> t' \<Longrightarrow> rk_get c t' s' k = (if k = key then if t' < t + ttl then Some arg else None else rk_get c t' s k)"
    by (auto simp: pexpire_law_def renewScript_def ms split: if_splits)
qed

lemma contract_release:
  assumes "redis_contract c" "releaseScript c key arg t s = (n, s')"
  shows "n = 0 \<longleftrightarrow> rk_get c t s key \<noteq> Some arg" and "n = 0 \<Longrightarrow> s' = s"
    and "n \<noteq> 0 \<Longrightarrow> t \<le> t' \<Longrightarrow> rk_get c t' s' k = (if k = key then None else rk_get c t' s k)"
proof -
  have "del_law c t key s" using assms(1) by (simp add: redis_contract_def)
  with assms(2) show "n = 0 \<longleftrightarrow> rk_get c t s key \<noteq> Some arg" "n = 0 \<Longrightarrow> s' = s"
    "n \<noteq> 0 \<Longrightarrow> t \<le> t' \<Longrightarrow> rk_get c t' s' k = (if k = key then None else rk_get c t' s k)"
    by (auto simp: del_law_def releaseScript_def split: if_splits)
qed

subsection \<open>Leases\<close>

text \<open>
  The instances of the service take, renew and give up locks in any order. \<open>held\<close> says which owner
  believes to hold which key, and until when its last successful call carries it.
\<close>

type_synonym leases = "string \<times> string \<rightharpoonup> time"

definition locker :: "'s redis_commands \<Rightarrow> string \<Rightarrow> 's RedisLocker" where
  "locker c owner = \<lparr>rl_client = Some c, rl_owner = owner\<rparr>"

definition handle :: "'s redis_commands \<Rightarrow> string \<Rightarrow> string \<Rightarrow> 's redisLockHandle" where
  "handle c owner key = \<lparr>lh_client = Some c, lh_key = key, lh_owner = owner\<rparr>"

inductive lock_step :: "'s redis_commands \<Rightarrow> duration \<Rightarrow> 's lock_world \<times> leases \<Rightarrow> 's lock_world \<times> leases \<Rightarrow> bool"
  for c :: "'s redis_commands" and ttl :: duration where
  pass: "0 \<le> d \<Longrightarrow> lock_step c ttl (w, held) (wait d w, held)"
| acquired: "Locker_Acquire (locker c owner) key ttl w = (Inr (Some h), w') \<Longrightarrow>
    lock_step c ttl (w, held) (w', held((owner, lh_key h) \<mapsto> kw_now w + ttl))"
| refused: "Locker_Acquire (locker c owner) key ttl w = (r, w') \<Longrightarrow> lock_step c ttl (w, held) (w', held)"
| renewed: "Handle_Renew (handle c owner key) ttl w = (Inr (), w') \<Longrightarrow> (owner, key) \<in> dom held \<Longrightarrow>
    lock_step c ttl (w, held) (w', held((owner, key) \<mapsto> kw_now w + ttl))"
| late: "Handle_Renew (handle c owner key) ttl w = (r, w') \<Longrightarrow> lock_step c ttl (w, held) (w', held)"
| released: "Handle_Release (handle c owner key) w = (r, w') \<Longrightarrow> lock_step c ttl (w, held) (w', held((owner, key) := None))"
| crashed: "lock_step c ttl (w, held) (w, held((owner, key) := None))"

abbreviation lock_steps :: "'s redis_commands \<Rightarrow> duration \<Rightarrow> 's lock_world \<times> leases \<Rightarrow> 's lock_world \<times> leases \<Rightarrow> bool" where
  "lock_steps c ttl \<equiv> (lock_step c ttl)\<^sup>*\<^sup>*"

text \<open>A lease that has not run out is what Redis holds; and no key outlives the time to live.\<close>

definition leases_held :: "'s redis_commands \<Rightarrow> duration \<Rightarrow> 's lock_world \<times> leases \<Rightarrow> bool" where
  "leases_held c ttl = (\<lambda>(w, held).
     (\<forall>owner key e. held (owner, key) = Some e \<longrightarrow> e \<le> kw_now w + ttl \<and>
        (\<forall>t. kw_now w \<le> t \<and> t < e \<longrightarrow> rk_get c t (kw_redis w) key = Some owner)) \<and>
     (\<forall>key t. kw_now w + ttl \<le> t \<longrightarrow> rk_get c t (kw_redis w) key = None))"

text \<open>A call either leaves the state of Redis alone or is the command, at the time of the server.\<close>

lemma redis_run_cases:
  assumes "redis_run c f w = (r, w')"
  shows "kw_now w' = kw_now w"
    and "kw_redis w' = kw_redis w \<or> kw_redis w' = snd (f (kw_now w) (kw_redis w))"
    and "r = Inr x \<Longrightarrow> f (kw_now w) (kw_redis w) = (x, kw_redis w')"
  using assms by (auto simp: redis_run_def Let_def split: prod.splits option.splits if_splits)

lemma Acquire_cases:
  assumes "Locker_Acquire (locker c owner) key ttl w = (r, w')" "0 < ttl"
  shows "kw_now w' = kw_now w"
    and "kw_redis w' = kw_redis w \<or> kw_redis w' = snd (rk_setnx c (kw_now w) (TrimSpace key) owner ttl (kw_redis w))"
    and "r = Inr (Some h) \<Longrightarrow> h = handle c owner (TrimSpace key) \<and>
      rk_setnx c (kw_now w) (TrimSpace key) owner ttl (kw_redis w) = (True, kw_redis w')"
proof -
  from assms obtain q where run: "redis_run c (\<lambda>t. rk_setnx c t (TrimSpace key) owner ttl) w = (q, w')"
    and r: "r = map_sum id (\<lambda>b. if b then Some (handle c owner (TrimSpace key)) else None) q"
    by (auto simp: Locker_Acquire_def locker_def handle_def Let_def bindA_def returnA_def split: prod.splits sum.splits)
  from redis_run_cases [OF run] r show "kw_now w' = kw_now w"
    "kw_redis w' = kw_redis w \<or> kw_redis w' = snd (rk_setnx c (kw_now w) (TrimSpace key) owner ttl (kw_redis w))"
    "r = Inr (Some h) \<Longrightarrow> h = handle c owner (TrimSpace key) \<and>
      rk_setnx c (kw_now w) (TrimSpace key) owner ttl (kw_redis w) = (True, kw_redis w')"
    by (cases q; auto split: if_splits)+
qed

lemma script_cases:
  assumes "bindA (redis_run c f) (\<lambda>result. if result = (0 :: int) then throwA e else returnA ()) w = (r, w')"
  shows "kw_now w' = kw_now w" and "kw_redis w' = kw_redis w \<or> kw_redis w' = snd (f (kw_now w) (kw_redis w))"
    and "r = Inr () \<Longrightarrow> \<exists>n. n \<noteq> 0 \<and> f (kw_now w) (kw_redis w) = (n, kw_redis w')"
proof -
  from assms obtain q where run: "redis_run c f w = (q, w')" and r: "r = Inr () \<Longrightarrow> \<exists>n. q = Inr n \<and> n \<noteq> 0"
    by (auto simp: bindA_def returnA_def throwA_def split: prod.splits sum.splits if_splits)
  from redis_run_cases [OF run] r show "kw_now w' = kw_now w"
    "kw_redis w' = kw_redis w \<or> kw_redis w' = snd (f (kw_now w) (kw_redis w))"
    "r = Inr () \<Longrightarrow> \<exists>n. n \<noteq> 0 \<and> f (kw_now w) (kw_redis w) = (n, kw_redis w')"
    by auto
qed

lemma Renew_cases:
  assumes "Handle_Renew (handle c owner key) ttl w = (r, w')" "0 < ttl"
  shows "kw_now w' = kw_now w"
    and "kw_redis w' = kw_redis w \<or> kw_redis w' = snd (renewScript c key owner (Milliseconds ttl) (kw_now w) (kw_redis w))"
    and "r = Inr () \<Longrightarrow> \<exists>n. n \<noteq> 0 \<and> renewScript c key owner (Milliseconds ttl) (kw_now w) (kw_redis w) = (n, kw_redis w')"
  using script_cases [of c _ errLockOwnershipLost w r w'] assms by (auto simp: Handle_Renew_def handle_def)

lemma Release_cases:
  assumes "Handle_Release (handle c owner key) w = (r, w')"
  shows "kw_now w' = kw_now w"
    and "kw_redis w' = kw_redis w \<or> kw_redis w' = snd (releaseScript c key owner (kw_now w) (kw_redis w))"
    and "r = Inr () \<Longrightarrow> \<exists>n. n \<noteq> 0 \<and> releaseScript c key owner (kw_now w) (kw_redis w) = (n, kw_redis w')"
  using script_cases [of c _ errLockOwnershipLost w r w'] assms by (auto simp: Handle_Release_def handle_def)

text \<open>
  What a call of one owner on one key may do to Redis: nothing, or the key is then the owner's for
  the time to live, or (a release) it is gone; the last two only when nobody else had it.
\<close>

definition sets_key :: "'s redis_commands \<Rightarrow> string \<Rightarrow> string \<Rightarrow> duration \<Rightarrow> time \<Rightarrow> 's \<Rightarrow> 's \<Rightarrow> bool" where
  "sets_key c owner key ttl now s s' \<longleftrightarrow> rk_get c now s key \<in> {None, Some owner} \<and>
     (\<forall>t k. now \<le> t \<longrightarrow> rk_get c t s' k = (if k = key then if t < now + ttl then Some owner else None else rk_get c t s k))"

definition drops_key :: "'s redis_commands \<Rightarrow> string \<Rightarrow> string \<Rightarrow> time \<Rightarrow> 's \<Rightarrow> 's \<Rightarrow> bool" where
  "drops_key c owner key now s s' \<longleftrightarrow> rk_get c now s key = Some owner \<and>
     (\<forall>t k. now \<le> t \<longrightarrow> rk_get c t s' k = (if k = key then None else rk_get c t s k))"

lemma Acquire_effect:
  assumes "redis_contract c" "0 < ttl" "ttl mod 1000000 = 0" "Locker_Acquire (locker c owner) key ttl w = (r, w')"
  shows "kw_now w' = kw_now w" and "kw_redis w' = kw_redis w \<or> sets_key c owner (TrimSpace key) ttl (kw_now w) (kw_redis w) (kw_redis w')"
    and "r = Inr (Some h) \<Longrightarrow> h = handle c owner (TrimSpace key) \<and> sets_key c owner (TrimSpace key) ttl (kw_now w) (kw_redis w) (kw_redis w')"
proof -
  note cases = Acquire_cases [OF assms(4,2)]
  obtain b s' where set: "rk_setnx c (kw_now w) (TrimSpace key) owner ttl (kw_redis w) = (b, s')" by (cases "rk_setnx c (kw_now w) (TrimSpace key) owner ttl (kw_redis w)")
  note law = contract_setnx [OF assms(1-3) set]
  have eff: "s' = kw_redis w \<or> sets_key c owner (TrimSpace key) ttl (kw_now w) (kw_redis w) s'"
    using law by (cases b) (simp_all add: sets_key_def)
  show "kw_now w' = kw_now w" by (rule cases)
  show "kw_redis w' = kw_redis w \<or> sets_key c owner (TrimSpace key) ttl (kw_now w) (kw_redis w) (kw_redis w')"
    using cases(2) eff set by auto
  show "h = handle c owner (TrimSpace key) \<and> sets_key c owner (TrimSpace key) ttl (kw_now w) (kw_redis w) (kw_redis w')"
    if "r = Inr (Some h)"
    using cases(3) [OF that] law set by (simp add: sets_key_def)
qed

lemma Renew_effect:
  assumes "redis_contract c" "0 < ttl" "ttl mod 1000000 = 0" "Handle_Renew (handle c owner key) ttl w = (r, w')"
  shows "kw_now w' = kw_now w" and "kw_redis w' = kw_redis w \<or> sets_key c owner key ttl (kw_now w) (kw_redis w) (kw_redis w')"
    and "r = Inr () \<Longrightarrow> sets_key c owner key ttl (kw_now w) (kw_redis w) (kw_redis w')"
proof -
  note cases = Renew_cases [OF assms(4,2)]
  obtain n s' where script: "renewScript c key owner (Milliseconds ttl) (kw_now w) (kw_redis w) = (n, s')"
    by (cases "renewScript c key owner (Milliseconds ttl) (kw_now w) (kw_redis w)")
  note law = contract_renew [OF assms(1,3) script]
  show "kw_now w' = kw_now w" by (rule cases)
  show "kw_redis w' = kw_redis w \<or> sets_key c owner key ttl (kw_now w) (kw_redis w) (kw_redis w')"
    using cases(2) law script by (cases "n = 0") (auto simp: sets_key_def)
  show "sets_key c owner key ttl (kw_now w) (kw_redis w) (kw_redis w')" if "r = Inr ()"
    using cases(3) [OF that] law script by (auto simp: sets_key_def)
qed

lemma Release_effect:
  assumes "redis_contract c" "Handle_Release (handle c owner key) w = (r, w')"
  shows "kw_now w' = kw_now w" and "kw_redis w' = kw_redis w \<or> drops_key c owner key (kw_now w) (kw_redis w) (kw_redis w')"
    and "r = Inr () \<Longrightarrow> drops_key c owner key (kw_now w) (kw_redis w) (kw_redis w')"
proof -
  note cases = Release_cases [OF assms(2)]
  obtain n s' where script: "releaseScript c key owner (kw_now w) (kw_redis w) = (n, s')"
    by (cases "releaseScript c key owner (kw_now w) (kw_redis w)")
  note law = contract_release [OF assms(1) script]
  show "kw_now w' = kw_now w" by (rule cases)
  show "kw_redis w' = kw_redis w \<or> drops_key c owner key (kw_now w) (kw_redis w) (kw_redis w')"
    using cases(2) law script by (cases "n = 0") (auto simp: drops_key_def)
  show "drops_key c owner key (kw_now w) (kw_redis w) (kw_redis w')" if "r = Inr ()"
    using cases(3) [OF that] law script by (auto simp: drops_key_def)
qed

text \<open>A key that is set keeps every lease, and carries a new one of its owner.\<close>

lemma leases_set:
  assumes inv: "leases_held c ttl (w, held)" and now: "kw_now w' = kw_now w" and ttl: "0 < ttl"
    and eff: "kw_redis w' = kw_redis w \<or> sets_key c owner key ttl (kw_now w) (kw_redis w) (kw_redis w')"
  shows "leases_held c ttl (w', held)"
    and "sets_key c owner key ttl (kw_now w) (kw_redis w) (kw_redis w') \<Longrightarrow> leases_held c ttl (w', held((owner, key) \<mapsto> kw_now w + ttl))"
proof -
  have old: "leases_held c ttl (w', held)" if eff: "sets_key c owner key ttl (kw_now w) (kw_redis w) (kw_redis w')"
    unfolding leases_held_def prod.case
  proof (intro conjI allI impI)
    fix o' k' e assume h: "held (o', k') = Some e"
    with inv have e: "e \<le> kw_now w + ttl" and own: "\<And>t. kw_now w \<le> t \<Longrightarrow> t < e \<Longrightarrow> rk_get c t (kw_redis w) k' = Some o'"
      by (auto simp: leases_held_def)
    show "e \<le> kw_now w' + ttl" using e now by simp
    fix t assume t: "kw_now w' \<le> t \<and> t < e"
    have "rk_get c (kw_now w) (kw_redis w) k' = Some o'" using own [of "kw_now w"] t now by simp
    then show "rk_get c t (kw_redis w') k' = Some o'"
      using eff own [of t] t e now by (auto simp: sets_key_def)
  next
    fix k t assume "kw_now w' + ttl \<le> t"
    then show "rk_get c t (kw_redis w') k = None" using inv eff now ttl by (auto simp: sets_key_def leases_held_def)
  qed
  show "leases_held c ttl (w', held)"
    using eff old inv now by (auto simp: leases_held_def)
  show "leases_held c ttl (w', held((owner, key) \<mapsto> kw_now w + ttl))" if "sets_key c owner key ttl (kw_now w) (kw_redis w) (kw_redis w')"
    using old [OF that] that now by (auto simp: leases_held_def sets_key_def)
qed

text \<open>A key that is dropped was nobody else's.\<close>

lemma leases_drop:
  assumes inv: "leases_held c ttl (w, held)" and now: "kw_now w' = kw_now w" and ttl: "0 < ttl"
    and eff: "kw_redis w' = kw_redis w \<or> drops_key c owner key (kw_now w) (kw_redis w) (kw_redis w')"
  shows "leases_held c ttl (w', held((owner, key) := None))"
  unfolding leases_held_def prod.case
proof (intro conjI allI impI)
  fix o' k' e assume h: "(held((owner, key) := None)) (o', k') = Some e"
  then have old: "held (o', k') = Some e" and ne: "(o', k') \<noteq> (owner, key)" by (auto split: if_splits)
  from inv old have e: "e \<le> kw_now w + ttl" and own: "\<And>t. kw_now w \<le> t \<Longrightarrow> t < e \<Longrightarrow> rk_get c t (kw_redis w) k' = Some o'"
    by (auto simp: leases_held_def)
  show "e \<le> kw_now w' + ttl" using e now by simp
  fix t assume t: "kw_now w' \<le> t \<and> t < e"
  have "rk_get c (kw_now w) (kw_redis w) k' = Some o'" using own [of "kw_now w"] t now by simp
  then show "rk_get c t (kw_redis w') k' = Some o'"
    using eff own [of t] t now ne by (auto simp: drops_key_def)
next
  fix k t assume "kw_now w' + ttl \<le> t"
  then show "rk_get c t (kw_redis w') k = None" using inv eff now ttl by (auto simp: drops_key_def leases_held_def)
qed

lemma leases_step:
  assumes step: "lock_step c ttl a b" and inv: "leases_held c ttl a" and c: "redis_contract c" "0 < ttl" "ttl mod 1000000 = 0"
  shows "leases_held c ttl b"
  using step inv
proof cases
  case (pass d w held)
  with inv show ?thesis by (fastforce simp: leases_held_def wait_def)
next
  case (acquired owner key w h w' held)
  note eff = Acquire_effect [OF c acquired(3)]
  show ?thesis
    using leases_set(2) [OF inv [unfolded acquired] eff(1) c(2) eff(2)] eff(3) [OF refl] by (simp add: acquired handle_def)
next
  case (refused owner key w r w' held)
  note eff = Acquire_effect [OF c refused(3)]
  show ?thesis using leases_set(1) [OF inv [unfolded refused] eff(1) c(2) eff(2)] by (simp add: refused)
next
  case (renewed owner key w w' held)
  note eff = Renew_effect [OF c renewed(3)]
  show ?thesis using leases_set(2) [OF inv [unfolded renewed] eff(1) c(2) eff(2) eff(3) [OF refl]] by (simp add: renewed)
next
  case (late owner key w r w' held)
  note eff = Renew_effect [OF c late(3)]
  show ?thesis using leases_set(1) [OF inv [unfolded late] eff(1) c(2) eff(2)] by (simp add: late)
next
  case (released owner key w r w' held)
  note eff = Release_effect [OF c(1) released(3)]
  show ?thesis using leases_drop [OF inv [unfolded released] eff(1) c(2) eff(2)] by (simp add: released)
next
  case (crashed w held owner key)
  with inv show ?thesis by (auto simp: leases_held_def)
qed

lemma leases_steps:
  assumes "lock_steps c ttl a b" "leases_held c ttl a" "redis_contract c" "0 < ttl" "ttl mod 1000000 = 0"
  shows "leases_held c ttl b"
  using assms(1)
proof (induction rule: rtranclp_induct)
  case base
  show ?case by (rule assms(2))
next
  case (step y z)
  from step(2,3) assms(3-5) show ?case by (rule leases_step)
qed

subsection \<open>A run is a path\<close>

text \<open>
  The renewals of a run keep the lease of its owner, whatever else is held; so a whole run only
  takes steps of the protocol, and gives its lease up at the end.
\<close>

lemma renewals_path:
  assumes "renewals (handle c owner key) ttl ds w = (r, w')" "(owner, key) \<in> dom held" "\<forall>d \<in> set ds. 0 \<le> d"
  shows "\<exists>held'. lock_steps c ttl (w, held) (w', held') \<and> (\<forall>x. x \<noteq> (owner, key) \<longrightarrow> held' x = held x)"
  using assms
proof (induction ds arbitrary: w held)
  case Nil
  then show ?case by auto
next
  case (Cons d ds)
  obtain q w1 where renew: "Handle_Renew (handle c owner key) ttl (wait d w) = (q, w1)"
    by (cases "Handle_Renew (handle c owner key) ttl (wait d w)")
  have pass: "lock_step c ttl (w, held) (wait d w, held)" using Cons.prems(3) by (intro lock_step.pass) simp
  show ?case
  proof (cases q)
    case (Inl e)
    then have "w' = w1" using Cons.prems(1) renew by simp
    then have "lock_steps c ttl (w, held) (w', held)" using pass lock_step.late [OF renew] by (meson converse_rtranclp_into_rtranclp r_into_rtranclp)
    then show ?thesis by blast
  next
    case (Inr u)
    then have rest: "renewals (handle c owner key) ttl ds w1 = (r, w')" using Cons.prems(1) renew by simp
    let ?h = "held((owner, key) \<mapsto> kw_now (wait d w) + ttl)"
    have "(owner, key) \<in> dom ?h" "\<forall>d \<in> set ds. 0 \<le> d" using Cons.prems(3) by simp_all
    from Cons.IH [OF rest this] obtain held' where
      IH: "lock_steps c ttl (w1, ?h) (w', held')" "\<forall>x. x \<noteq> (owner, key) \<longrightarrow> held' x = ?h x" by blast
    have "lock_step c ttl (wait d w, held) (w1, ?h)"
      using renew Inr Cons.prems(2) by (intro lock_step.renewed) simp_all
    from converse_rtranclp_into_rtranclp [OF pass converse_rtranclp_into_rtranclp [OF this IH(1)]]
    have "lock_steps c ttl (w, held) (w', held')" .
    with IH(2) show ?thesis by auto
  qed
qed

lemma RunOnce_path:
  assumes run: "Scheduler_RunOnce (Some (locker c owner)) job cfg delays startedAt elapsed w = (out, w')"
    and "\<forall>d \<in> set delays. 0 \<le> d" and free: "\<forall>key. held (owner, key) = None"
  shows "lock_steps c (sf_LockTTL cfg) (rw_lock w, held) (rw_lock w', held)"
proof (cases "checkRun (Some (locker c owner)) job cfg")
  case (Inl e)
  then show ?thesis using run by (simp add: Scheduler_RunOnce_def Let_def)
next
  case (Inr p)
  then obtain j where j: "checkRun (Some (locker c owner)) job cfg = Inr (locker c owner, j)" "0 < sf_LockTTL cfg"
    by (auto simp: checkRun_def split: option.splits if_splits)
  obtain q k where acq: "Locker_Acquire (locker c owner) (lockKey (jb_Name j)) (sf_LockTTL cfg) (rw_lock w) = (q, k)"
    by (cases "Locker_Acquire (locker c owner) (lockKey (jb_Name j)) (sf_LockTTL cfg) (rw_lock w)")
  show ?thesis
  proof (cases "\<exists>h. q = Inr (Some h)")
    case False
    then have "rw_lock w' = k" using run j acq by (auto simp: Scheduler_RunOnce_def Let_def split: sum.splits option.splits)
    then show ?thesis using lock_step.refused [OF acq] by auto
  next
    case True
    then obtain h where q: "q = Inr (Some h)" by blast
    define key where "key = TrimSpace (lockKey (jb_Name j))"
    from Acquire_cases(3) [OF acq j(2) q] have h: "h = handle c owner key" by (simp add: key_def)
    obtain re k1 where ren: "renewals (handle c owner key) (sf_LockTTL cfg) delays k = (re, k1)"
      by (cases "renewals (handle c owner key) (sf_LockTTL cfg) delays k")
    obtain result err app where exec: "jb_Execute j (re \<noteq> None) (rw_app w) = ((result, err), app)"
      by (cases "jb_Execute j (re \<noteq> None) (rw_app w)") auto
    obtain r k2 where "Handle_Release (handle c owner key) k1 = (r, k2)" by (cases "Handle_Release (handle c owner key) k1")
    moreover from this have "rw_lock w' = k2"
      using run j(1) acq q h ren exec by (auto simp: Scheduler_RunOnce_def executeLocked_def Let_def)
    ultimately have rel: "Handle_Release (handle c owner key) k1 = (r, rw_lock w')" by simp
    let ?h0 = "held((owner, key) \<mapsto> kw_now (rw_lock w) + sf_LockTTL cfg)"
    have first: "lock_step c (sf_LockTTL cfg) (rw_lock w, held) (k, ?h0)"
      using lock_step.acquired [OF acq [unfolded q]] by (simp add: h handle_def)
    have "(owner, key) \<in> dom ?h0" by simp
    from renewals_path [OF ren this assms(2)] obtain held' where
      mid: "lock_steps c (sf_LockTTL cfg) (k, ?h0) (k1, held')" and others: "\<forall>x. x \<noteq> (owner, key) \<longrightarrow> held' x = ?h0 x" by blast
    have "held'((owner, key) := None) = held"
    proof
      fix x show "(held'((owner, key) := None)) x = held x" using others free by (cases x) auto
    qed
    with lock_step.released [OF rel, of "sf_LockTTL cfg" held']
    have last: "lock_step c (sf_LockTTL cfg) (k1, held') (rw_lock w', held)" by simp
    show ?thesis
      by (rule converse_rtranclp_into_rtranclp [OF first rtranclp.rtrancl_into_rtrancl [OF mid last]])
  qed
qed

subsection \<open>One holder\<close>

text \<open>
  Claim C9. At most one instance at a time works on a job with a lease that has not run out. In
  every state that any interleaving of the instances reaches from an empty lock server, with lost
  replies, late renewals and crashes, two owners whose leases of the same key are both running
  are the same owner, and the lock server names it. The runs of the scheduler take no other steps
  (\<open>RunOnce_path\<close>).
\<close>

theorem one_leaseholder:
  assumes "redis_contract c" and "0 < ttl" and "ttl mod 1000000 = 0"
    and "lock_steps c ttl (w0, Map.empty) (w, held)" and "\<forall>key t. kw_now w0 \<le> t \<longrightarrow> rk_get c t (kw_redis w0) key = None"
    and "held (owner, key) = Some e" and "kw_now w < e" and "held (owner', key) = Some e'" and "kw_now w < e'"
  shows "owner' = owner \<and> rk_get c (kw_now w) (kw_redis w) key = Some owner"
proof -
  have "leases_held c ttl (w0, Map.empty)" using assms(2,5) by (simp add: leases_held_def)
  from leases_steps [OF assms(4) this assms(1-3)]
  have own: "held (o', k) = Some f \<Longrightarrow> kw_now w < f \<Longrightarrow> rk_get c (kw_now w) (kw_redis w) k = Some o'" for o' k f
    by (auto simp: leases_held_def)
  from own [OF assms(6,7)] own [OF assms(8,9)] show ?thesis by simp
qed

text \<open>
  Claim C22. A crashed instance blocks a job for one time to live at most. Whatever was done
  before, an instance that asks for the lock of a job when no command has reached the server for
  that long gets it, if its own call is answered.
\<close>

theorem lock_is_taken_over:
  assumes "redis_contract c" and "0 < ttl" and "ttl mod 1000000 = 0"
    and "lock_steps c ttl (w0, Map.empty) (w, held)" and "\<forall>key t. kw_now w0 \<le> t \<longrightarrow> rk_get c t (kw_redis w0) key = None"
    and "ttl \<le> d" and "rk_fault c (kw_tick w) = None"
  shows "\<exists>w'. Locker_Acquire (locker c owner) (lockKey name) ttl (wait d w) = (Inr (Some (handle c owner (TrimSpace (lockKey name)))), w') \<and>
    rk_get c (kw_now w') (kw_redis w') (TrimSpace (lockKey name)) = Some owner"
proof -
  have "leases_held c ttl (w0, Map.empty)" using assms(2,5) by (simp add: leases_held_def)
  from leases_steps [OF assms(4) this assms(1-3)] have gone: "rk_get c (kw_now w + d) (kw_redis w) k = None" for k
    using assms(6) by (auto simp: leases_held_def)
  let ?k = "TrimSpace (lockKey name)"
  obtain b s' where set: "rk_setnx c (kw_now w + d) ?k owner ttl (kw_redis w) = (b, s')" by (cases "rk_setnx c (kw_now w + d) ?k owner ttl (kw_redis w)")
  note law = contract_setnx [OF assms(1-3) set]
  show ?thesis
    using law(1) law(3) [of "kw_now w + d" ?k] gone assms(2,7) set
    by (auto simp: Locker_Acquire_def locker_def handle_def Let_def bindA_def returnA_def redis_run_def wait_def)
qed

subsection \<open>The outcome of a run\<close>

lemma runError_None: "runError e r rel = None \<longleftrightarrow> e = None \<and> r = None \<and> rel = None"
  by (auto simp: runError_def Let_def split: option.splits if_splits)


subsection \<open>A lock server\<close>

text \<open>A server that keeps, for every key, a value and the time at which it runs out; the reply to its third call is lost.\<close>

type_synonym expiring = "string \<rightharpoonup> string \<times> time"

definition live :: "time \<Rightarrow> expiring \<Rightarrow> string \<Rightarrow> string option" where
  "live t s key = (case s key of None \<Rightarrow> None | Some (v, e) \<Rightarrow> if t < e then Some v else None)"

definition sampleRedis :: "expiring redis_commands" where
  "sampleRedis = \<lparr>rk_get = live,
     rk_setnx = (\<lambda>t key v ttl s. if live t s key = None then (True, s(key \<mapsto> (v, t + ttl))) else (False, s)),
     rk_pexpire = (\<lambda>t key ms s. case live t s key of None \<Rightarrow> (0, s) | Some v \<Rightarrow> (1, s(key \<mapsto> (v, t + ms * 1000000)))),
     rk_del = (\<lambda>t key s. if live t s key = None then (0, s) else (1, s(key := None))),
     rk_fault = (\<lambda>n. if n = 2 then Some (Sentinel ''i/o timeout'', True) else None)\<rparr>"

lemma live_later: "live t s k = None \<Longrightarrow> t \<le> t' \<Longrightarrow> live t' s k = None"
  by (auto simp: live_def split: option.splits if_splits)

lemma sampleRedis_contract: "redis_contract sampleRedis"
  unfolding redis_contract_def
proof (intro conjI allI impI)
  show "setnx_law sampleRedis t key v ttl s" for t key v ttl s
    by (auto simp: setnx_law_def sampleRedis_def live_def)
  show "pexpire_law sampleRedis t key ms s" for t key ms s
    by (auto simp: pexpire_law_def sampleRedis_def live_def split: option.splits)
  show "del_law sampleRedis t key s" for t key s
    using live_later [of t s key] by (auto simp: del_law_def sampleRedis_def) (auto simp: live_def)
qed

text \<open>
  Two instances ask for the lock of one job: the first gets it, ten seconds later the second does
  not, and the first renews it, although the reply is lost and it must take the renewal for failed.
\<close>

definition lockTTL :: duration where "lockTTL = 30000000000"
definition rival0 :: "expiring lock_world" where "rival0 = \<lparr>kw_redis = Map.empty, kw_now = 0, kw_tick = 0\<rparr>"
definition rival1 :: "expiring lock_world" where "rival1 = snd (Locker_Acquire (locker sampleRedis ''a:1'') (lockKey ''cleanup'') lockTTL rival0)"
definition rival2 :: "expiring lock_world" where
  "rival2 = snd (Locker_Acquire (locker sampleRedis ''b:2'') (lockKey ''cleanup'') lockTTL (wait 10000000000 rival1))"
definition rival3 :: "expiring lock_world" where "rival3 = snd (Handle_Renew (handle sampleRedis ''a:1'' ''job:cleanup'') lockTTL rival2)"

lemma trimmed_lockKey: "TrimSpace (lockKey ''cleanup'') = ''job:cleanup''"
  by code_simp

lemma rivals_run: "lock_steps sampleRedis lockTTL (rival0, Map.empty) (rival3, [(''a:1'', ''job:cleanup'') \<mapsto> lockTTL])"
proof -
  have "Locker_Acquire (locker sampleRedis ''a:1'') (lockKey ''cleanup'') lockTTL rival0 =
      (Inr (Some (handle sampleRedis ''a:1'' ''job:cleanup'')), rival1)"
    by (simp add: rival1_def trimmed_lockKey Locker_Acquire_def locker_def handle_def bindA_def returnA_def redis_run_def Let_def
      sampleRedis_def live_def lockTTL_def rival0_def)
  from lock_step.acquired [OF this, of Map.empty]
  have a: "lock_step sampleRedis lockTTL (rival0, Map.empty) (rival1, [(''a:1'', ''job:cleanup'') \<mapsto> lockTTL])"
    by (simp add: handle_def rival0_def)
  have b: "lock_step sampleRedis lockTTL (rival1, h) (wait 10000000000 rival1, h)" for h by (rule lock_step.pass) simp
  have c: "lock_step sampleRedis lockTTL (wait 10000000000 rival1, h) (rival2, h)" for h
    by (rule lock_step.refused [where r = "fst (Locker_Acquire (locker sampleRedis ''b:2'') (lockKey ''cleanup'') lockTTL (wait 10000000000 rival1))"])
       (simp add: rival2_def)
  have d: "lock_step sampleRedis lockTTL (rival2, h) (rival3, h)" for h
    by (rule lock_step.late [where r = "fst (Handle_Renew (handle sampleRedis ''a:1'' ''job:cleanup'') lockTTL rival2)"])
       (simp add: rival3_def)
  show ?thesis
    by (rule converse_rtranclp_into_rtranclp, rule a, rule converse_rtranclp_into_rtranclp, rule b,
        rule converse_rtranclp_into_rtranclp, rule c, rule r_into_rtranclp, rule d)
qed

lemma rivals_start: "\<forall>key t. kw_now rival0 \<le> t \<longrightarrow> rk_get sampleRedis t (kw_redis rival0) key = None"
  by (simp add: rival0_def sampleRedis_def live_def)

theorem one_leaseholder_witness:
  "kw_now rival3 < lockTTL \<and> rk_get sampleRedis (kw_now rival3) (kw_redis rival3) ''job:cleanup'' = Some ''a:1''"
proof -
  have "kw_now rival3 < lockTTL" by code_simp
  with one_leaseholder [OF sampleRedis_contract _ _ rivals_run rivals_start, of "''a:1''" "''job:cleanup''" lockTTL "''a:1''" lockTTL]
  show ?thesis by (simp add: lockTTL_def)
qed

theorem lock_is_taken_over_witness:
  "\<exists>w. Locker_Acquire (locker sampleRedis ''b:2'') (lockKey ''cleanup'') lockTTL (wait lockTTL rival3) =
       (Inr (Some (handle sampleRedis ''b:2'' ''job:cleanup'')), w)"
proof -
  have "rk_fault sampleRedis (kw_tick rival3) = None" by code_simp
  with lock_is_taken_over [OF sampleRedis_contract _ _ rivals_run rivals_start, of lockTTL "''b:2''" "''cleanup''"]
  show ?thesis by (auto simp: lockTTL_def trimmed_lockKey)
qed

text \<open>A job that counts its runs, once with a renewal whose reply is lost, and once without a fault.\<close>

definition countingJob :: "nat Job" where
  "countingJob = \<lparr>jb_Name = ''cleanup'', jb_Execute = (\<lambda>cancelled n. ((\<lparr>rs_ItemsProcessed = 1, rs_RetryCount = 0\<rparr>,
     if cancelled then Some (Sentinel contextCanceled) else None), Suc n))\<rparr>"

definition countingRun :: "nat \<Rightarrow> (RunResult \<times> go_error option) \<times> (expiring, nat) run_world" where
  "countingRun tick = Scheduler_RunOnce (Some (locker sampleRedis ''a:1'')) (Some countingJob)
     \<lparr>sf_LockTTL = lockTTL, sf_RenewInterval = 0\<rparr> [10000000000] 7 12000000000
     \<lparr>rw_lock = rival0\<lparr>kw_tick := tick\<rparr>, rw_app = 0, rw_health = Map.empty\<rparr>"

lemma countingRun_values:
  "rr_Acquired (fst (fst (countingRun 1))) \<and> snd (fst (countingRun 1)) = Some (Sentinel ''i/o timeout'') \<and>
   rr_Acquired (fst (fst (countingRun 3))) \<and> snd (fst (countingRun 3)) = None \<and> rw_app (snd (countingRun 3)) = 1"
  by code_simp


end
