(* ===== verification/AccessHTTP.thy ===== *)
theory AccessHTTP
  imports UploadHTTP AccessHandlers
begin

text \<open>
  The HTTP interface of the access service (\<^verbatim>\<open>access/transport/http\<close>) and its composition with the
  use cases (\<^verbatim>\<open>access/runtime\<close>). The redirect of a ticket is the one route without a bearer token.
  The duration of presigning, which the queries report to the recorder, is not kept.
\<close>

record 'w access_options =
  xo_Auth :: "(http_request \<Rightarrow> (auth_world, go_error, AuthContext) action) option"
  xo_GetFile :: "(GetFileQuery \<Rightarrow> ('w, go_error, GetFileResult) action) option"
  xo_CreateAccessTicket :: "(CreateAccessTicketCommand \<Rightarrow> ('w, go_error, CreateAccessTicketResult) action) option"
  xo_ResolveDownload :: "(ResolveDownloadQuery \<Rightarrow> ('w, go_error, ResolveDownloadResult) action) option"
  xo_RedirectByAccessTicket :: "(string \<Rightarrow> ('w, go_error, RedirectByAccessTicketResult) action) option"
  xo_reason :: "string \<Rightarrow> string"

definition access_authenticate :: "'w access_options \<Rightarrow> http_request \<Rightarrow> ('w, AuthContext \<times> string) server_action" where
  "access_authenticate h = handler_authenticate (xo_Auth h) ac_RequestID (\<lambda>id auth. auth\<lparr>ac_RequestID := id\<rparr>)"

definition mapFileResponse :: "FileView \<Rightarrow> string \<Rightarrow> json option" where
  "mapFileResponse file url = members [
     m_str ''fileId'' (fv_FileID file), m_str ''tenantId'' (fv_TenantID file), m_str ''fileName'' (fv_FileName file),
     m_str_omitempty ''contentType'' (fv_ContentType file), m_int ''sizeBytes'' (fv_SizeBytes file),
     m_str ''accessLevel'' (access_level_string (fv_AccessLevel file)),
     m_str ''status'' (case fv_Status file of FileStatusActive \<Rightarrow> ''ACTIVE'' | FileStatusDeleted \<Rightarrow> ''DELETED'' | FileStatusOther s \<Rightarrow> s),
     m_str_omitempty ''downloadUrl'' url, m_time ''createdAt'' (fv_CreatedAt file), m_time ''updatedAt'' (fv_UpdatedAt file)]"

record createAccessTicketRequest =
  kq_ExpiresInSeconds :: int
  kq_ResponseDisposition :: string
  kq_ResponseFileName :: string

definition decode_createAccessTicket :: "(string \<times> json) list \<Rightarrow> createAccessTicketRequest option" where
  "decode_createAccessTicket ms = do {
     expiresInSeconds \<leftarrow> int_field ''expiresInSeconds'' ms; responseDisposition \<leftarrow> str_field ''responseDisposition'' ms;
     responseFileName \<leftarrow> str_field ''responseFileName'' ms;
     Some \<lparr>kq_ExpiresInSeconds = expiresInSeconds, kq_ResponseDisposition = responseDisposition, kq_ResponseFileName = responseFileName\<rparr> }"

definition handleGetFile :: "'w access_options \<Rightarrow> 'w handler_func" where
  "handleGetFile h = serve (access_authenticate h) (\<lambda>r auth requestID.
     bindA (configured (xo_GetFile h) ''get file'') (\<lambda>useCase.
     bindA (onApp (useCase \<lparr>gq_FileID = TrimSpace (hq_PathValue r), gq_Auth = auth\<rparr>)) (\<lambda>result.
     bindA (count_metric RecordFileGet) (\<lambda>_.
     returnA (writeJSON 200 requestID (envelope requestID (mapFileResponse (gr_File result) (gr_DownloadURL result))))))))"

definition handleCreateAccessTicket :: "'w access_options \<Rightarrow> 'w handler_func" where
  "handleCreateAccessTicket h = serve (access_authenticate h) (\<lambda>r auth requestID.
     bindA (configured (xo_CreateAccessTicket h) ''create access ticket'') (\<lambda>useCase.
     bindA (liftA (if hasBody r
       then decodeJSON (xo_reason h) [''expiresInSeconds'', ''responseDisposition'', ''responseFileName''] decode_createAccessTicket (hq_Body r)
       else Inr \<lparr>kq_ExpiresInSeconds = 0, kq_ResponseDisposition = [], kq_ResponseFileName = []\<rparr>)) (\<lambda>request.
     bindA (onApp (useCase \<lparr>ct_FileID = TrimSpace (hq_PathValue r), ct_IdempotencyKey = TrimSpace (hq_IdempotencyKey r),
       ct_ExpiresIn = seconds64 (kq_ExpiresInSeconds request), ct_Disposition = TrimSpace (kq_ResponseDisposition request),
       ct_ResponseName = TrimSpace (kq_ResponseFileName request), ct_Auth = auth\<rparr>)) (\<lambda>result.
     bindA (count_metric RecordAccessTicketIssue) (\<lambda>_.
     returnA (writeJSON 201 requestID (envelope requestID (members [m_str ''ticket'' (cr_Ticket result),
       m_str_omitempty ''redirectUrl'' (cr_RedirectURL result), m_time ''expiresAt'' (cr_ExpiresAt result)]))))))))"

text \<open>Every failure of a download is counted, also a failed authentication.\<close>

definition handleResolveDownload :: "'w access_options \<Rightarrow> 'w handler_func" where
  "handleResolveDownload h = serve (\<lambda>r. countErr (\<lambda>code. [RecordDownloadRedirectFailure code]) (access_authenticate h r)) (\<lambda>r auth requestID.
     countErr (\<lambda>code. [RecordDownloadRedirectFailure code]) (
     bindA (configured (xo_ResolveDownload h) ''resolve download'') (\<lambda>useCase.
     bindA (onApp (useCase \<lparr>rd_FileID = TrimSpace (hq_PathValue r), rd_Disposition = TrimSpace (query_Get r ''disposition''),
       rd_Auth = auth\<rparr>)) (\<lambda>result.
     bindA (count_metric RecordDownloadRedirect) (\<lambda>_.
     returnA (writeRedirect requestID (rr_URL result)))))))"

definition ticket_failure_metrics :: "Code \<Rightarrow> metric list" where
  "ticket_failure_metrics code = RecordDownloadRedirectFailure code #
     (if code = CodeAccessTicketInvalid \<or> code = CodeAccessTicketExpired then [RecordAccessTicketVerifyFailure code] else [])"

definition handleRedirectByAccessTicket :: "'w access_options \<Rightarrow> 'w handler_func" where
  "handleRedirectByAccessTicket h = serve (\<lambda>r. returnA ((), requestIDFromRequest r [])) (\<lambda>r _ requestID.
     bindA (countErr (\<lambda>code. [RecordDownloadRedirectFailure code])
       (configured (xo_RedirectByAccessTicket h) ''redirect by access ticket'')) (\<lambda>useCase.
     bindA (countErr ticket_failure_metrics (onApp (useCase (TrimSpace (hq_PathValue r))))) (\<lambda>result.
     bindA (count_metric RecordDownloadRedirect) (\<lambda>_.
     returnA (writeRedirect requestID (ra_URL result))))))"

definition access_routes :: "'w access_options \<Rightarrow> 'w handler_func route list" where
  "access_routes h =
     (let files = [Lit ''api'', Lit ''v1'', Lit ''files'', Wildcard] in
      [(''GET'', files, handleGetFile h),
       (''POST'', files @ [Lit ''access-tickets''], handleCreateAccessTicket h),
       (''GET'', files @ [Lit ''download''], handleResolveDownload h),
       (''GET'', [Lit ''api'', Lit ''v1'', Lit ''access-tickets'', Wildcard, Lit ''redirect''], handleRedirectByAccessTicket h)])"

subsection \<open>The service\<close>

record app_config =
  ag_TicketSigningKey :: string
  ag_TicketTTL :: duration
  ag_PrivatePresignTTL :: duration
  ag_PublicURLEnabled :: bool

text \<open>The service starts only with a signing key that is not blank; \<open>key\<close> is the trimmed one.\<close>

definition access_use_cases ::
    "auth_env \<Rightarrow> access_env \<Rightarrow> 'r idem_store \<Rightarrow> app_config \<Rightarrow> (string \<Rightarrow> string) \<Rightarrow> string \<Rightarrow> 'r access_world access_options" where
  "access_use_cases authenv aenv store cfg reason key =
     (let qcfg = \<lparr>af_key = key, af_privateTTL = ag_PrivatePresignTTL cfg, af_publicURLEnabled = ag_PublicURLEnabled cfg\<rparr> in \<lparr>
     xo_Auth = Some (jwks_resolver authenv),
     xo_GetFile = Some (\<lambda>q. onWorld (access_GetFile aenv qcfg q)),
     xo_CreateAccessTicket = Some (CreateAccessTicket (ae_env aenv) \<lparr>ch_key = key, ch_store = Some store,
       ch_defaultTTL = ag_TicketTTL cfg, ch_redirectBasePath = ''/api/v1/access-tickets''\<rparr>),
     xo_ResolveDownload = Some (\<lambda>q. onWorld (ResolveDownload aenv qcfg q)),
     xo_RedirectByAccessTicket = Some (\<lambda>t. onWorld (RedirectByAccessTicket aenv qcfg t)),
     xo_reason = reason\<rparr>)"

definition access_Build ::
    "auth_env \<Rightarrow> access_env \<Rightarrow> 'r idem_store \<Rightarrow> app_config \<Rightarrow> (string \<Rightarrow> string) \<Rightarrow>
     (http_request \<Rightarrow> 'r access_world server_world \<Rightarrow> (http_response \<times> 'r access_world server_world) option) result" where
  "access_Build authenv aenv store cfg reason =
     bindE (NewHMACTicketIssuer (ag_TicketSigningKey cfg)) (\<lambda>key.
     Inr (ServeHTTP (access_routes (access_use_cases authenv aenv store cfg reason key))))"

end
