(* ===== verification/StorageAdapter.thy ===== *)
theory StorageAdapter
  imports Config UploadHTTP
begin

text \<open>
  The adapters between the services and the object storage:
  \<^verbatim>\<open>src/internal/services/upload/infra/storage/adapter.go\<close>, and those of the access and the job
  service, which share its text where they have the same function. The S3 client is a parameter:
  what it answers to its \<open>n\<close>-th request. A pointer of the client's structs is an option.
\<close>

subsection \<open>Errors and references\<close>

definition ErrProviderUnavailable :: string where "ErrProviderUnavailable = ''storage: provider unavailable''"
definition ErrInvalidPresignRequest :: string where "ErrInvalidPresignRequest = ''storage: invalid presign request''"

definition storage_error :: "string \<Rightarrow> string \<Rightarrow> go_error" where
  "storage_error sentinel message = ErrorfW (sentinel @ '': '' @ message) (Sentinel sentinel)"

definition BucketRef_Validate :: "BucketRef \<Rightarrow> go_error option" where
  "BucketRef_Validate r =
     (if provider_string (br_Provider r) = [] then Some (storage_error ErrInvalidBucketConfig ''provider is required'')
      else if br_BucketName r = [] then Some (storage_error ErrInvalidBucketConfig ''bucket name is required'')
      else None)"

text \<open>An error of the client: its text, and its code where it is an error of the API.\<close>

record s3_error =
  er_code :: "string option"
  er_text :: string

definition mapStorageError :: "s3_error \<Rightarrow> go_error" where
  "mapStorageError err = (case er_code err of
     Some code \<Rightarrow>
       if code \<in> {''NotFound'', ''NoSuchKey''} then storage_error ErrObjectNotFound (er_text err)
       else if code = ''NoSuchUpload'' then storage_error ErrMultipartNotFound (er_text err)
       else if code \<in> {''InvalidPart'', ''InvalidPartOrder'', ''BadDigest'', ''EntityTooSmall''}
       then storage_error ErrMultipartConflict (er_text err)
       else storage_error ErrProviderUnavailable (er_text err)
   | None \<Rightarrow> storage_error ErrProviderUnavailable (er_text err))"

definition mapped :: "s3_error + 'a \<Rightarrow> 'a result" where
  "mapped = map_sum mapStorageError id"

subsection \<open>Pointers and encodings\<close>

definition aws_ToString :: "string option \<Rightarrow> string" where "aws_ToString p = (case p of None \<Rightarrow> [] | Some s \<Rightarrow> s)"
definition aws_ToInt :: "int option \<Rightarrow> int" where "aws_ToInt p = (case p of None \<Rightarrow> 0 | Some n \<Rightarrow> n)"
definition aws_ToBool :: "bool option \<Rightarrow> bool" where "aws_ToBool p = (case p of None \<Rightarrow> False | Some b \<Rightarrow> b)"

text \<open>The conversion \<^verbatim>\<open>int32(n)\<close>.\<close>

definition to_int32 :: "int \<Rightarrow> int" where
  "to_int32 n = sint (word_of_int n :: 32 word)"

text \<open>
  \<^verbatim>\<open>base64.StdEncoding\<close>: the alphabet of the URL encoding with two other characters, and padding to a
  multiple of four. Its decoder skips line breaks and rejects a wrong padding.
\<close>

definition std_char :: "char \<Rightarrow> char" where
  "std_char c = (if c = CHR ''-'' then CHR ''+'' else if c = CHR ''_'' then CHR ''/'' else c)"

definition url_char :: "char \<Rightarrow> char" where
  "url_char c = (if c = CHR ''+'' then CHR ''-'' else if c = CHR ''/'' then CHR ''_'' else c)"

definition b64std_EncodeToString :: "string \<Rightarrow> string" where
  "b64std_EncodeToString s =
     (let body = map std_char (b64_EncodeToString s) in body @ replicate ((4 - length body mod 4) mod 4) (CHR ''=''))"

definition b64std_DecodeString :: "string \<Rightarrow> string option" where
  "b64std_DecodeString s =
     (let t = filter (\<lambda>c. c \<noteq> CHR 0x0A \<and> c \<noteq> CHR 0x0D) s;
          body = takeWhile (\<lambda>c. c \<noteq> CHR ''='') t
      in if length t mod 4 = 0 \<and> dropWhile (\<lambda>c. c \<noteq> CHR ''='') t \<in> {[], ''='', ''==''} \<and>
            CHR ''-'' \<notin> set body \<and> CHR ''_'' \<notin> set body
         then b64_DecodeString (map url_char body) else None)"

text \<open>\<^verbatim>\<open>hex.DecodeString\<close>\<close>

fun hex_DecodeString :: "string \<Rightarrow> string option" where
  "hex_DecodeString [] = Some []"
| "hex_DecodeString [_] = None"
| "hex_DecodeString (a # b # cs) = (case (hex_val a, hex_val b) of
     (Some x, Some y) \<Rightarrow> map_option (Cons (byte_of (16 * x + y))) (hex_DecodeString cs)
   | _ \<Rightarrow> None)"

definition decodeSHA256Checksum :: "error_texts \<Rightarrow> string option \<Rightarrow> string result" where
  "decodeSHA256Checksum texts encoded =
     (let v = TrimSpace (aws_ToString encoded) in
      if v = [] then Inr []
      else case b64std_DecodeString v of
        None \<Rightarrow> Inl (storage_error ErrProviderUnavailable
                  (''decode sha256 checksum: '' @ Error (tx_parse texts ''base64.StdEncoding.DecodeString'' v)))
      | Some decoded \<Rightarrow> Inr (hex_EncodeToString decoded))"

definition encodeSHA256Checksum :: "error_texts \<Rightarrow> string \<Rightarrow> string result" where
  "encodeSHA256Checksum texts checksum0 =
     (let checksum = TrimSpace checksum0 in
      if checksum = [] then Inr []
      else case hex_DecodeString checksum of
        None \<Rightarrow> Inl (storage_error ErrInvalidPresignRequest
                  (''encode sha256 checksum: '' @ Error (tx_parse texts ''hex.DecodeString'' checksum)))
      | Some decoded \<Rightarrow> Inr (b64std_EncodeToString decoded))"

subsection \<open>The client\<close>

type_synonym header = "(string \<times> string list) list"

record HeadObjectOutput =
  ho_ContentLength :: "int option"
  ho_ContentType :: "string option"
  ho_ETag :: "string option"
  ho_ChecksumSHA256 :: "string option"
  ho_VersionId :: "string option"

record PutObjectInput =
  pi_Bucket :: string
  pi_Key :: string
  pi_Body :: string
  pi_ContentType :: string
  pi_ContentLength :: "int option"

record s3_Part =
  sp_PartNumber :: "int option"
  sp_ETag :: "string option"
  sp_Size :: "int option"
  sp_ChecksumSHA256 :: "string option"

record ListPartsOutput =
  lo_Parts :: "s3_Part list"
  lo_IsTruncated :: "bool option"
  lo_NextPartNumberMarker :: "string option"

record CompletedPart =
  cd_PartNumber :: int
  cd_ETag :: "string option"
  cd_ChecksumSHA256 :: "string option"

text \<open>A body that is read to its end, or to an error.\<close>

type_synonym io_reader = "string + string"

record s3_client =
  s3_HeadObject :: "nat \<Rightarrow> string \<Rightarrow> string \<Rightarrow> s3_error + HeadObjectOutput"
  s3_GetObject :: "nat \<Rightarrow> string \<Rightarrow> string \<Rightarrow> s3_error + io_reader"
  s3_PutObject :: "nat \<Rightarrow> PutObjectInput \<Rightarrow> s3_error option"
  s3_DeleteObject :: "nat \<Rightarrow> string \<Rightarrow> string \<Rightarrow> s3_error option"
  s3_CreateMultipartUpload :: "nat \<Rightarrow> string \<Rightarrow> string \<Rightarrow> string \<Rightarrow> s3_error + string option"
  s3_UploadPart :: "nat \<Rightarrow> string \<Rightarrow> string \<Rightarrow> string \<Rightarrow> int \<Rightarrow> string \<Rightarrow> int option \<Rightarrow> s3_error + string option"
  s3_ListParts :: "nat \<Rightarrow> string \<Rightarrow> string \<Rightarrow> string \<Rightarrow> string \<Rightarrow> s3_error + ListPartsOutput"
  s3_CompleteMultipartUpload :: "nat \<Rightarrow> string \<Rightarrow> string \<Rightarrow> string \<Rightarrow> CompletedPart list \<Rightarrow> s3_error option"
  s3_AbortMultipartUpload :: "nat \<Rightarrow> string \<Rightarrow> string \<Rightarrow> string \<Rightarrow> s3_error option"
  s3_PresignPutObject :: "nat \<Rightarrow> string \<Rightarrow> string \<Rightarrow> string \<Rightarrow> duration \<Rightarrow> s3_error + string \<times> header"
  s3_PresignUploadPart :: "nat \<Rightarrow> string \<Rightarrow> string \<Rightarrow> string \<Rightarrow> int \<Rightarrow> duration \<Rightarrow> s3_error + string \<times> header"
  s3_PresignGetObject :: "nat \<Rightarrow> string \<Rightarrow> string \<Rightarrow> duration \<Rightarrow> s3_error + string"

subsection \<open>The adapter of the upload service\<close>

record Adapter =
  sa_cfg :: config_StorageConfig
  sa_client :: s3_client
  sa_provider :: Provider

definition detectProvider :: "config_StorageConfig \<Rightarrow> Provider" where
  "detectProvider cfg = (if Contains (ToLower (TrimSpace (gS_Endpoint cfg))) ''minio'' then ProviderMinIO else ProviderS3)"

definition NewAdapter :: "s3_client option \<Rightarrow> config_StorageConfig \<Rightarrow> Adapter result" where
  "NewAdapter client cfg = (case client of
     None \<Rightarrow> Inl (storage_error ErrInvalidBucketConfig ''storage client is nil'')
   | Some c \<Rightarrow> Inr \<lparr>sa_cfg = cfg, sa_client = c, sa_provider = detectProvider cfg\<rparr>)"

definition storage_normalizeAccessLevel :: "AccessLevel \<Rightarrow> AccessLevel" where
  "storage_normalizeAccessLevel accessLevel =
     (if TrimSpace (access_level_string accessLevel) = [] then AccessLevelPrivate
      else to_AccessLevel (ToUpper (TrimSpace (access_level_string accessLevel))))"

definition Adapter_Resolve :: "error_texts \<Rightarrow> Adapter \<Rightarrow> AccessLevel \<Rightarrow> BucketRef result" where
  "Adapter_Resolve texts a accessLevel0 =
     (let accessLevel = storage_normalizeAccessLevel accessLevel0;
          checked = (\<lambda>ref. case BucketRef_Validate ref of Some err \<Rightarrow> Inl err | None \<Rightarrow> Inr ref)
      in case accessLevel of
           AccessLevelPublic \<Rightarrow> checked \<lparr>br_Provider = sa_provider a, br_BucketName = TrimSpace (gS_PublicBucket (sa_cfg a)),
             br_PublicBase = TrimSpace (gS_PublicBaseURL (sa_cfg a))\<rparr>
         | AccessLevelPrivate \<Rightarrow> checked \<lparr>br_Provider = sa_provider a, br_BucketName = TrimSpace (gS_PrivateBucket (sa_cfg a)),
             br_PublicBase = []\<rparr>
         | AccessLevelOther level \<Rightarrow> Inl (storage_error ErrInvalidBucketConfig (''unsupported access level '' @ tx_quote texts level)))"

definition Adapter_Normalize :: "Adapter \<Rightarrow> string \<Rightarrow> string" where
  "Adapter_Normalize a bucketName =
     (let normalized = TrimSpace bucketName in if normalized \<noteq> [] then normalized else TrimSpace (gS_PrivateBucket (sa_cfg a)))"

text \<open>Every operation on an object checks the reference before it calls the client.\<close>

definition on_object :: "ObjectRef \<Rightarrow> (string \<Rightarrow> string \<Rightarrow> 'a result) \<Rightarrow> 'a result" where
  "on_object ref call = (case ObjectRef_Validate ref of Some err \<Rightarrow> Inl err | None \<Rightarrow> call (or_BucketName ref) (or_ObjectKey ref))"

definition object_error :: "ObjectRef \<Rightarrow> (string \<Rightarrow> string \<Rightarrow> s3_error option) \<Rightarrow> go_error option" where
  "object_error ref call = (case ObjectRef_Validate ref of Some err \<Rightarrow> Some err
     | None \<Rightarrow> map_option mapStorageError (call (or_BucketName ref) (or_ObjectKey ref)))"

definition Adapter_HeadObject :: "error_texts \<Rightarrow> Adapter \<Rightarrow> nat \<Rightarrow> ObjectRef \<Rightarrow> ObjectMetadata result" where
  "Adapter_HeadObject texts a n ref = on_object ref (\<lambda>bucket key.
     bindE (mapped (s3_HeadObject (sa_client a) n bucket key)) (\<lambda>output.
     bindE (decodeSHA256Checksum texts (ho_ChecksumSHA256 output)) (\<lambda>checksum.
     Inr \<lparr>om_SizeBytes = aws_ToInt (ho_ContentLength output), om_ContentType = TrimSpace (aws_ToString (ho_ContentType output)),
       om_ETag = TrimSpace (aws_ToString (ho_ETag output)), om_Checksum = checksum,
       om_VersionID = TrimSpace (aws_ToString (ho_VersionId output))\<rparr>)))"

text \<open>A body that cannot seek is read into memory; a nil body is None.\<close>

definition ensureSeekableBody :: "io_reader \<Rightarrow> string result" where
  "ensureSeekableBody body = (case body of
     Inr payload \<Rightarrow> Inr payload
   | Inl err \<Rightarrow> Inl (ErrorfW (''read object body: '' @ err) (Errorf err)))"

definition Adapter_PutObject :: "Adapter \<Rightarrow> nat \<Rightarrow> ObjectRef \<Rightarrow> string \<Rightarrow> io_reader option \<Rightarrow> int \<Rightarrow> go_error option" where
  "Adapter_PutObject a n ref contentType body sizeBytes = (case ObjectRef_Validate ref of
     Some err \<Rightarrow> Some err
   | None \<Rightarrow> (case body of
       None \<Rightarrow> Some (Errorf ''put object body is nil'')
     | Some b \<Rightarrow> (case ensureSeekableBody b of
         Inl err \<Rightarrow> Some err
       | Inr payload \<Rightarrow> map_option mapStorageError (s3_PutObject (sa_client a) n
           \<lparr>pi_Bucket = or_BucketName ref, pi_Key = or_ObjectKey ref, pi_Body = payload, pi_ContentType = TrimSpace contentType,
             pi_ContentLength = (if 0 \<le> sizeBytes then Some sizeBytes else None)\<rparr>))))"

definition Adapter_CreateMultipartUpload :: "Adapter \<Rightarrow> nat \<Rightarrow> ObjectRef \<Rightarrow> string \<Rightarrow> string result" where
  "Adapter_CreateMultipartUpload a n ref contentType = on_object ref (\<lambda>bucket key.
     bindE (mapped (s3_CreateMultipartUpload (sa_client a) n bucket key (TrimSpace contentType))) (\<lambda>uploadId.
     Inr (TrimSpace (aws_ToString uploadId))))"

definition Adapter_UploadPart :: "Adapter \<Rightarrow> nat \<Rightarrow> ObjectRef \<Rightarrow> string \<Rightarrow> int \<Rightarrow> string \<Rightarrow> int \<Rightarrow> string result" where
  "Adapter_UploadPart a n ref uploadID partNumber body sizeBytes = on_object ref (\<lambda>bucket key.
     bindE (mapped (s3_UploadPart (sa_client a) n bucket key (TrimSpace uploadID) (to_int32 partNumber) body
       (if 0 \<le> sizeBytes then Some sizeBytes else None))) (\<lambda>etag.
     Inr (TrimSpace (aws_ToString etag))))"

subsection \<open>Listing the parts\<close>

definition uploadedPart :: "error_texts \<Rightarrow> s3_Part \<Rightarrow> UploadedPart result" where
  "uploadedPart texts part =
     bindE (decodeSHA256Checksum texts (sp_ChecksumSHA256 part)) (\<lambda>checksum.
     Inr \<lparr>pt_PartNumber = aws_ToInt (sp_PartNumber part), pt_ETag = TrimSpace (aws_ToString (sp_ETag part)),
       pt_SizeBytes = aws_ToInt (sp_Size part), pt_Checksum = checksum\<rparr>)"

fun uploadedParts :: "error_texts \<Rightarrow> s3_Part list \<Rightarrow> UploadedPart list \<Rightarrow> UploadedPart list result" where
  "uploadedParts texts [] result = Inr result"
| "uploadedParts texts (part # parts) result = (case uploadedPart texts part of
     Inl err \<Rightarrow> Inl err
   | Inr p \<Rightarrow> uploadedParts texts parts (result @ [p]))"

text \<open>The loop over the pages: nothing bounds it, so it may not return; \<open>n\<close> is the number of the request.\<close>

partial_function (option) list_pages ::
    "error_texts \<Rightarrow> s3_client \<Rightarrow> string \<Rightarrow> string \<Rightarrow> string \<Rightarrow> nat \<Rightarrow> string \<Rightarrow> UploadedPart list \<Rightarrow> UploadedPart list result option" where
  "list_pages texts c bucket key uploadID n partMarker result =
     (case s3_ListParts c n bucket key uploadID partMarker of
        Inl err \<Rightarrow> Some (Inl (mapStorageError err))
      | Inr output \<Rightarrow> (case uploadedParts texts (lo_Parts output) result of
          Inl err \<Rightarrow> Some (Inl err)
        | Inr result' \<Rightarrow>
            if \<not> aws_ToBool (lo_IsTruncated output) then Some (Inr result')
            else list_pages texts c bucket key uploadID (Suc n) (TrimSpace (aws_ToString (lo_NextPartNumberMarker output))) result'))"

definition Adapter_ListUploadedParts :: "error_texts \<Rightarrow> Adapter \<Rightarrow> nat \<Rightarrow> ObjectRef \<Rightarrow> string \<Rightarrow> UploadedPart list result option" where
  "Adapter_ListUploadedParts texts a n ref uploadID = (case ObjectRef_Validate ref of
     Some err \<Rightarrow> Some (Inl err)
   | None \<Rightarrow> list_pages texts (sa_client a) (or_BucketName ref) (or_ObjectKey ref) (TrimSpace uploadID) n [] [])"

subsection \<open>Completing, aborting and deleting\<close>

definition completedPart :: "error_texts \<Rightarrow> UploadedPart \<Rightarrow> CompletedPart result" where
  "completedPart texts part =
     bindE (encodeSHA256Checksum texts (pt_Checksum part)) (\<lambda>checksum.
     Inr \<lparr>cd_PartNumber = to_int32 (pt_PartNumber part),
       cd_ETag = (if TrimSpace (pt_ETag part) \<noteq> [] then Some (TrimSpace (pt_ETag part)) else None),
       cd_ChecksumSHA256 = (if checksum \<noteq> [] then Some checksum else None)\<rparr>)"

fun completedParts :: "error_texts \<Rightarrow> UploadedPart list \<Rightarrow> CompletedPart list \<Rightarrow> CompletedPart list result" where
  "completedParts texts [] completed = Inr completed"
| "completedParts texts (part # parts) completed = (case completedPart texts part of
     Inl err \<Rightarrow> Inl err
   | Inr p \<Rightarrow> completedParts texts parts (completed @ [p]))"

definition Adapter_CompleteMultipartUpload ::
    "error_texts \<Rightarrow> Adapter \<Rightarrow> nat \<Rightarrow> ObjectRef \<Rightarrow> string \<Rightarrow> UploadedPart list \<Rightarrow> go_error option" where
  "Adapter_CompleteMultipartUpload texts a n ref uploadID parts = (case ObjectRef_Validate ref of
     Some err \<Rightarrow> Some err
   | None \<Rightarrow>
       if length parts = 0 then Some (storage_error ErrMultipartConflict ''multipart upload has no parts'')
       else (case completedParts texts parts [] of
         Inl err \<Rightarrow> Some err
       | Inr completed \<Rightarrow> map_option mapStorageError (s3_CompleteMultipartUpload (sa_client a) n
           (or_BucketName ref) (or_ObjectKey ref) (TrimSpace uploadID) completed)))"

definition Adapter_AbortMultipartUpload :: "Adapter \<Rightarrow> nat \<Rightarrow> ObjectRef \<Rightarrow> string \<Rightarrow> go_error option" where
  "Adapter_AbortMultipartUpload a n ref uploadID =
     object_error ref (\<lambda>bucket key. s3_AbortMultipartUpload (sa_client a) n bucket key (TrimSpace uploadID))"

subsection \<open>Presigning and hashing\<close>

definition upload_defaultPresignTTL :: duration where "upload_defaultPresignTTL = 15 * minute"

definition storage_normalizePresignTTL :: "duration \<Rightarrow> duration \<Rightarrow> duration" where
  "storage_normalizePresignTTL defaultPresignTTL ttl = (if ttl \<le> 0 then defaultPresignTTL else ttl)"

definition cloneHeader :: "header \<Rightarrow> (string \<times> string) list" where
  "cloneHeader h = map (\<lambda>(key, values'). (key, hd values')) (filter (\<lambda>(key, values'). values' \<noteq> []) h)"

definition Adapter_PresignPutObject ::
    "Adapter \<Rightarrow> nat \<Rightarrow> ObjectRef \<Rightarrow> string \<Rightarrow> duration \<Rightarrow> (string \<times> (string \<times> string) list) result" where
  "Adapter_PresignPutObject a n ref contentType ttl = on_object ref (\<lambda>bucket key.
     map_sum mapStorageError (map_prod id cloneHeader)
       (s3_PresignPutObject (sa_client a) n bucket key (TrimSpace contentType) (storage_normalizePresignTTL upload_defaultPresignTTL ttl)))"

definition Adapter_PresignUploadPart ::
    "Adapter \<Rightarrow> nat \<Rightarrow> ObjectRef \<Rightarrow> string \<Rightarrow> int \<Rightarrow> duration \<Rightarrow> (string \<times> (string \<times> string) list) result" where
  "Adapter_PresignUploadPart a n ref uploadID partNumber ttl = on_object ref (\<lambda>bucket key.
     map_sum mapStorageError (map_prod id cloneHeader)
       (s3_PresignUploadPart (sa_client a) n bucket key (TrimSpace uploadID) (to_int32 partNumber)
          (storage_normalizePresignTTL upload_defaultPresignTTL ttl)))"

definition Adapter_ComputeSHA256 :: "Adapter \<Rightarrow> nat \<Rightarrow> ObjectRef \<Rightarrow> string result" where
  "Adapter_ComputeSHA256 a n ref = on_object ref (\<lambda>bucket key.
     bindE (mapped (s3_GetObject (sa_client a) n bucket key)) (\<lambda>body. case body of
       Inl err \<Rightarrow> Inl (storage_error ErrProviderUnavailable (''stream object for hashing: '' @ err))
     | Inr payload \<Rightarrow> Inr (hex_EncodeToString (Sum256 payload))))"

subsection \<open>The adapters of the job and the access service\<close>

text \<open>The job service has its own translation of errors: an upload that is gone is an object that is gone.\<close>

definition job_mapStorageError :: "s3_error \<Rightarrow> go_error" where
  "job_mapStorageError err = (case er_code err of
     Some code \<Rightarrow>
       if code \<in> {''NoSuchKey'', ''NotFound'', ''NoSuchUpload''} then storage_error ErrObjectNotFound (er_text err)
       else storage_error ErrProviderUnavailable (er_text err)
   | None \<Rightarrow> storage_error ErrProviderUnavailable (er_text err))"

definition job_DeleteObject :: "Adapter \<Rightarrow> nat \<Rightarrow> ObjectRef \<Rightarrow> go_error option" where
  "job_DeleteObject a n ref = (case ObjectRef_Validate ref of
     Some err \<Rightarrow> Some err
   | None \<Rightarrow> map_option job_mapStorageError (s3_DeleteObject (sa_client a) n (or_BucketName ref) (or_ObjectKey ref)))"

definition job_AbortMultipartUpload :: "Adapter \<Rightarrow> nat \<Rightarrow> ObjectRef \<Rightarrow> string \<Rightarrow> go_error option" where
  "job_AbortMultipartUpload a n ref uploadID = (case ObjectRef_Validate ref of
     Some err \<Rightarrow> Some err
   | None \<Rightarrow> map_option job_mapStorageError
       (s3_AbortMultipartUpload (sa_client a) n (or_BucketName ref) (or_ObjectKey ref) (TrimSpace uploadID)))"

definition access_defaultPresignTTL :: duration where "access_defaultPresignTTL = 2 * minute"

definition access_mapStorageError :: "s3_error \<Rightarrow> go_error" where
  "access_mapStorageError err = (case er_code err of
     Some code \<Rightarrow>
       if code \<in> {''NotFound'', ''NoSuchKey''} then storage_error ErrObjectNotFound (er_text err)
       else storage_error ErrProviderUnavailable (er_text err)
   | None \<Rightarrow> storage_error ErrProviderUnavailable (er_text err))"

definition access_PresignGetObject :: "Adapter \<Rightarrow> nat \<Rightarrow> ObjectRef \<Rightarrow> duration \<Rightarrow> string result" where
  "access_PresignGetObject a n ref ttl = on_object ref (\<lambda>bucket key.
     map_sum access_mapStorageError id
       (s3_PresignGetObject (sa_client a) n bucket key (storage_normalizePresignTTL access_defaultPresignTTL ttl)))"

definition access_PresignPutObject :: "go_error" where
  "access_PresignPutObject = storage_error ErrInvalidPresignRequest ''access-service does not support put presign''"

definition access_PresignUploadPart :: "go_error" where
  "access_PresignUploadPart = storage_error ErrInvalidPresignRequest ''access-service does not support multipart part presign''"

end
