(* ===== verification/StorageLaws.thy ===== *)
theory StorageLaws
  imports StorageAdapter JSONLaws
begin

text \<open>
  The storage adapter: checksums survive the trip through its encodings, the loop over the pages
  of a multipart upload returns and finds every part, and what it found is what a completion
  sends back.
\<close>

subsection \<open>Encodings\<close>

lemma b64_alphabet_std: "c \<in> set b64_alphabet \<Longrightarrow>
    url_char (std_char c) = c \<and> std_char c \<notin> {CHR ''='', CHR ''-'', CHR ''_'', CHR 0x0A, CHR 0x0D} \<and> graphic (std_char c)"
proof -
  have "list_all (\<lambda>c. url_char (std_char c) = c \<and> std_char c \<notin> {CHR ''='', CHR ''-'', CHR ''_'', CHR 0x0A, CHR 0x0D} \<and>
      graphic (std_char c)) b64_alphabet" by code_simp
  then show "c \<in> set b64_alphabet \<Longrightarrow> url_char (std_char c) = c \<and>
      std_char c \<notin> {CHR ''='', CHR ''-'', CHR ''_'', CHR 0x0A, CHR 0x0D} \<and> graphic (std_char c)"
    unfolding list_all_iff by blast
qed

lemma b64Encode_length: "length (b64_EncodeToString s) mod 4 \<noteq> 1"
proof (induction s rule: b64_EncodeToString.induct)
  case (1 a b c rest)
  then show ?case by (simp add: Let_def)
qed (simp_all add: Let_def)

lemma pad_cases:
  assumes "n mod 4 \<noteq> (1::nat)"
  shows "(n + (4 - n mod 4) mod 4) mod 4 = 0" and "replicate ((4 - n mod 4) mod 4) (CHR ''='') \<in> {[], ''='', ''==''}"
proof -
  have "n mod 4 < 4" by simp
  with assms have "n mod 4 = 0 \<or> n mod 4 = 2 \<or> n mod 4 = 3" by linarith
  then show "(n + (4 - n mod 4) mod 4) mod 4 = 0" "replicate ((4 - n mod 4) mod 4) (CHR ''='') \<in> {[], ''='', ''==''}"
    by (auto simp: numeral_2_eq_2) presburger+
qed

lemma split_padding:
  assumes "\<forall>c \<in> set xs. c \<noteq> p"
  shows "takeWhile (\<lambda>c. c \<noteq> p) (xs @ replicate n p) = xs" and "dropWhile (\<lambda>c. c \<noteq> p) (xs @ replicate n p) = replicate n p"
  using assms by (induction xs) (cases n; simp)+

lemma b64std_round_trip: "b64std_DecodeString (b64std_EncodeToString s) = Some s"
proof -
  let ?body = "map std_char (b64_EncodeToString s)"
  let ?pad = "replicate ((4 - length ?body mod 4) mod 4) (CHR ''='')"
  have chars: "url_char (std_char c) = c \<and> std_char c \<notin> {CHR ''='', CHR ''-'', CHR ''_'', CHR 0x0A, CHR 0x0D}"
    if "c \<in> set (b64_EncodeToString s)" for c
    using b64_alphabet_std b64_EncodeToString_set that by blast
  have lines: "filter (\<lambda>c. c \<noteq> CHR 0x0A \<and> c \<noteq> CHR 0x0D) (?body @ ?pad) = ?body @ ?pad"
    using chars by (intro filter_True) auto
  have body: "\<forall>c \<in> set ?body. c \<noteq> CHR ''=''" using chars by auto
  note split = split_padding [OF body, of "(4 - length ?body mod 4) mod 4"]
  have plain: "CHR ''-'' \<notin> set ?body" "CHR ''_'' \<notin> set ?body" using chars by (fastforce simp: image_iff)+
  have undo: "map url_char ?body = b64_EncodeToString s" using chars by (simp add: map_idI)
  have mod4: "length ?body mod 4 \<noteq> 1" using b64Encode_length by simp
  have "length (?body @ ?pad) mod 4 = 0" using pad_cases(1) [OF mod4] by simp
  then show ?thesis
    unfolding b64std_DecodeString_def b64std_EncodeToString_def Let_def lines split undo b64_round_trip
    using plain pad_cases(2) [OF mod4] by simp
qed

lemma b64std_text: "s \<noteq> [] \<Longrightarrow> TrimSpace (b64std_EncodeToString s) = b64std_EncodeToString s \<and> b64std_EncodeToString s \<noteq> []"
proof -
  assume "s \<noteq> []"
  then have ne: "b64std_EncodeToString s \<noteq> []" by (simp add: b64std_EncodeToString_def Let_def)
  have "graphic c" if "c \<in> set (b64std_EncodeToString s)" for c
    using that b64_alphabet_std b64_EncodeToString_set by (fastforce simp: b64std_EncodeToString_def Let_def graphic_def)
  with ne show ?thesis by (auto intro!: TrimSpace_graphic)
qed

lemma hex_digit_val: "n < 16 \<Longrightarrow> hex_val (hex_digit n) = Some n \<and> graphic (hex_digit n)"
proof -
  have "list_all (\<lambda>n. hex_val (hex_digit n) = Some n \<and> graphic (hex_digit n)) [0..<16]" by code_simp
  then show "n < 16 \<Longrightarrow> hex_val (hex_digit n) = Some n \<and> graphic (hex_digit n)" by (simp add: list_all_iff)
qed

lemma byte_val_div_16: "byte_val c div 16 < 16"
  using byte_val_less [of c] by (simp only: less_mult_imp_div_less)

lemma hex_round_trip: "hex_DecodeString (hex_EncodeToString s) = Some s"
proof (induction s)
  case (Cons c s)
  have "16 * (byte_val c div 16) + byte_val c mod 16 = byte_val c" by simp
  with Cons hex_digit_val [OF byte_val_div_16 [of c]] hex_digit_val [of "byte_val c mod 16"] show ?case
    by (simp add: hex_EncodeToString_def)
qed (simp add: hex_EncodeToString_def)

lemma hex_text: "s \<noteq> [] \<Longrightarrow> TrimSpace (hex_EncodeToString s) = hex_EncodeToString s \<and> hex_EncodeToString s \<noteq> []"
proof -
  assume "s \<noteq> []"
  then have ne: "hex_EncodeToString s \<noteq> []" by (cases s) (simp_all add: hex_EncodeToString_def)
  have "graphic c" if "c \<in> set (hex_EncodeToString s)" for c
    using that hex_digit_val byte_val_div_16 by (auto simp: hex_EncodeToString_def)
  with ne show ?thesis by (auto intro!: TrimSpace_graphic)
qed

lemma checksum_round_trip:
  assumes "digest \<noteq> []"
  shows "decodeSHA256Checksum texts (Some (b64std_EncodeToString digest)) = Inr (hex_EncodeToString digest)"
    and "encodeSHA256Checksum texts (hex_EncodeToString digest) = Inr (b64std_EncodeToString digest)"
  using b64std_text [OF assms] hex_text [OF assms]
  by (simp_all add: decodeSHA256Checksum_def encodeSHA256Checksum_def aws_ToString_def b64std_round_trip hex_round_trip)

subsection \<open>The pages of a listing\<close>

text \<open>
  A marker stands for a part number; the first request has none. S3 documents that the parts of an
  upload are numbered from 1 to 10000, that a truncated page names the number its successor
  starts after, and that this number is the one of the last part of the page.
\<close>

definition marker_number :: "string \<Rightarrow> int" where
  "marker_number m = (case ParseInt64 m of None \<Rightarrow> 0 | Some k \<Rightarrow> k)"

definition marker_advances :: "s3_client \<Rightarrow> string \<Rightarrow> string \<Rightarrow> string \<Rightarrow> bool" where
  "marker_advances c bucket key uploadID \<longleftrightarrow>
     (\<forall>n m output. s3_ListParts c n bucket key uploadID m = Inr output \<and> aws_ToBool (lo_IsTruncated output) \<longrightarrow>
        (\<exists>k. lo_NextPartNumberMarker output = Some (Itoa k) \<and> marker_number m < k \<and> 1 \<le> k \<and> k \<le> 10000))"

definition part_number :: "s3_Part \<Rightarrow> int" where
  "part_number p = aws_ToInt (sp_PartNumber p)"

definition after_marker :: "s3_Part list \<Rightarrow> string \<Rightarrow> s3_Part list" where
  "after_marker ps m = filter (\<lambda>p. marker_number m < part_number p) ps"

definition page_of :: "s3_Part list \<Rightarrow> ListPartsOutput \<Rightarrow> bool" where
  "page_of rest output \<longleftrightarrow> (\<exists>k. 0 < k \<and> lo_Parts output = take k rest \<and>
     (aws_ToBool (lo_IsTruncated output) \<longleftrightarrow> k < length rest) \<and>
     (k < length rest \<longrightarrow> lo_NextPartNumberMarker output = Some (Itoa (part_number (last (lo_Parts output))))))"

definition lists_parts :: "s3_client \<Rightarrow> string \<Rightarrow> string \<Rightarrow> string \<Rightarrow> s3_Part list \<Rightarrow> bool" where
  "lists_parts c bucket key uploadID ps \<longleftrightarrow>
     (\<forall>n m output. s3_ListParts c n bucket key uploadID m = Inr output \<longrightarrow> page_of (after_marker ps m) output)"

lemma marker_number_Nil [simp]: "marker_number [] = 0"
  by (simp add: marker_number_def ParseInt64_def)

lemma marker_number_Itoa: "0 \<le> k \<Longrightarrow> k \<le> 10000 \<Longrightarrow> marker_number (Itoa k) = k"
  by (simp add: marker_number_def ParseInt64_Itoa)

lemma TrimSpace_digits: "0 \<le> k \<Longrightarrow> TrimSpace (Itoa k) = Itoa k"
proof -
  assume "0 \<le> k"
  then have d: "list_all is_digit (Itoa k)" "Itoa k \<noteq> []" using nat_digits_digits [of "nat k"] by (auto simp: Itoa_def)
  have "graphic c" if "is_digit c" for c using that by (auto simp: is_digit_def byte_in_def graphic_def)
  with d show ?thesis by (intro TrimSpace_graphic) (auto simp: list_all_iff)
qed

text \<open>
  Claim C10. The loop over the pages returns. Whatever the storage answers to the requests, errors
  and parts that come and go between the pages included, as long as the marker of a truncated page
  moves forward within the documented numbers, a listing comes back with the parts or an error.
\<close>

theorem listing_returns:
  assumes "marker_advances (sa_client a) (or_BucketName ref) (or_ObjectKey ref) (TrimSpace uploadID)"
  shows "\<exists>r. Adapter_ListUploadedParts texts a n ref uploadID = Some r"
proof -
  let ?pages = "list_pages texts (sa_client a) (or_BucketName ref) (or_ObjectKey ref) (TrimSpace uploadID)"
  have "\<exists>r. ?pages n m acc = Some r" for n m acc
  proof (induction "nat (10000 - marker_number m)" arbitrary: n m acc rule: less_induct)
    case less
    show ?case
    proof (cases "s3_ListParts (sa_client a) n (or_BucketName ref) (or_ObjectKey ref) (TrimSpace uploadID) m")
      case (Inl err)
      then show ?thesis by (simp add: list_pages.simps)
    next
      case (Inr page)
      show ?thesis
      proof (cases "aws_ToBool (lo_IsTruncated page)")
        case False
        with Inr show ?thesis by (simp add: list_pages.simps split: sum.split)
      next
        case True
        with assms Inr obtain k where k: "lo_NextPartNumberMarker page = Some (Itoa k)" "marker_number m < k" "1 \<le> k" "k \<le> 10000"
          unfolding marker_advances_def by blast
        then have next_marker: "TrimSpace (Itoa k) = Itoa k" "marker_number (Itoa k) = k"
          by (simp_all add: TrimSpace_digits marker_number_Itoa)
        have "\<exists>r. ?pages (Suc n) (Itoa k) acc' = Some r" for acc'
          using k next_marker(2) by (intro less) simp
        with Inr True k(1) next_marker(1) show ?thesis
          by (simp add: list_pages.simps [of _ _ _ _ _ n] aws_ToString_def split: sum.split)
      qed
    qed
  qed
  then show ?thesis by (simp add: Adapter_ListUploadedParts_def split: option.split)
qed

subsection \<open>Every part, and back again\<close>

lemma last_greatest:
  fixes f :: "'a \<Rightarrow> int"
  shows "sorted_wrt (<) (map f xs) \<Longrightarrow> x \<in> set xs \<Longrightarrow> f x \<le> f (last xs)"
  by (induction xs rule: rev_induct) (auto simp: sorted_wrt_append)

lemma filter_after_last:
  fixes f :: "'a \<Rightarrow> int"
  assumes "sorted_wrt (<) (map f q)" and "0 < k" and "k < length q"
  shows "filter (\<lambda>x. f (last (take k q)) < f x) q = drop k q"
proof -
  have q: "take k q @ drop k q = q" by simp
  from assms(1) have "sorted_wrt (<) (map f (take k q) @ map f (drop k q))" unfolding map_append [symmetric] q .
  then have front: "sorted_wrt (<) (map f (take k q))" and across: "\<forall>x \<in> set (take k q). \<forall>y \<in> set (drop k q). f x < f y"
    by (auto simp: sorted_wrt_append)
  have ne: "take k q \<noteq> []" using assms(2,3) by auto
  then have l: "last (take k q) \<in> set (take k q)" by simp
  have "f x \<le> f (last (take k q))" if "x \<in> set (take k q)" for x using last_greatest [OF front that] .
  then have "filter (\<lambda>x. f (last (take k q)) < f x) (take k q) = []" by (auto simp: filter_empty_conv not_less)
  moreover have "filter (\<lambda>x. f (last (take k q)) < f x) (drop k q) = drop k q" using across l by (intro filter_True) blast
  ultimately show ?thesis using filter_append [of "\<lambda>x. f (last (take k q)) < f x" "take k q" "drop k q"] by simp
qed

definition numbered_parts :: "s3_Part list \<Rightarrow> bool" where
  "numbered_parts ps \<longleftrightarrow> sorted_wrt (<) (map part_number ps) \<and> (\<forall>p \<in> set ps. 1 \<le> part_number p \<and> part_number p \<le> 10000)"

lemma after_next_marker:
  assumes "numbered_parts ps" and "0 < k" and "k < length (after_marker ps m)"
  defines "marker \<equiv> Itoa (part_number (last (take k (after_marker ps m))))"
  shows "after_marker ps marker = drop k (after_marker ps m)" and "TrimSpace marker = marker"
proof -
  let ?q = "after_marker ps m"
  let ?p = "last (take k ?q)"
  have "take k ?q \<noteq> []" using assms(2,3) by auto
  then have "?p \<in> set (take k ?q)" by simp
  then have "?p \<in> set ?q" by (rule in_set_takeD)
  then have p: "1 \<le> part_number ?p" "part_number ?p \<le> 10000" "marker_number m < part_number ?p"
    using assms(1) by (auto simp: after_marker_def numbered_parts_def)
  then show "TrimSpace marker = marker" by (simp add: marker_def TrimSpace_digits)
  have "sorted_wrt (<) (map part_number ?q)"
    using assms(1) by (simp add: numbered_parts_def after_marker_def sorted_wrt_map sorted_wrt_filter)
  from filter_after_last [OF this assms(2,3)] have "filter (\<lambda>x. part_number ?p < part_number x) ?q = drop k ?q" .
  moreover have "filter (\<lambda>x. part_number ?p < part_number x) ?q = filter (\<lambda>x. part_number ?p < part_number x) ps"
    using p(3) by (auto simp: after_marker_def intro!: filter_cong)
  ultimately show "after_marker ps marker = drop k ?q"
    using p by (simp add: marker_def after_marker_def marker_number_Itoa)
qed

abbreviation reads_as :: "error_texts \<Rightarrow> s3_Part list \<Rightarrow> UploadedPart list \<Rightarrow> bool" where
  "reads_as texts \<equiv> list_all2 (\<lambda>p y. uploadedPart texts p = Inr y)"

lemma uploadedParts_Inr:
  "uploadedParts texts ps acc = Inr r \<Longrightarrow> \<exists>ys. r = acc @ ys \<and> reads_as texts ps ys"
proof (induction ps arbitrary: acc)
  case (Cons p ps)
  from Cons.prems obtain y where y: "uploadedPart texts p = Inr y" "uploadedParts texts ps (acc @ [y]) = Inr r"
    by (auto split: sum.splits)
  from Cons.IH [OF y(2)] obtain ys where "r = (acc @ [y]) @ ys" "reads_as texts ps ys" by blast
  with y(1) show ?case by (intro exI [of _ "y # ys"]) simp
qed simp

lemma listing_reads_all:
  assumes "numbered_parts ps" and "lists_parts c bucket key uploadID ps"
    and "list_pages texts c bucket key uploadID n m acc = Some (Inr parts)"
  shows "\<exists>ys. parts = acc @ ys \<and> reads_as texts (after_marker ps m) ys"
  using assms(3)
proof (induction "length (after_marker ps m)" arbitrary: n m acc rule: less_induct)
  case less
  let ?q = "after_marker ps m"
  from less(2) obtain page acc' where page: "s3_ListParts c n bucket key uploadID m = Inr page"
    and acc': "uploadedParts texts (lo_Parts page) acc = Inr acc'"
    by (auto simp: list_pages.simps [of _ _ _ _ _ n] split: sum.splits)
  from assms(2) page obtain k where k: "0 < k" "lo_Parts page = take k ?q" "aws_ToBool (lo_IsTruncated page) \<longleftrightarrow> k < length ?q"
    "k < length ?q \<Longrightarrow> lo_NextPartNumberMarker page = Some (Itoa (part_number (last (lo_Parts page))))"
    unfolding lists_parts_def page_of_def by blast
  from uploadedParts_Inr [OF acc'] k(2) obtain ys where ys: "acc' = acc @ ys" "reads_as texts (take k ?q) ys" by auto
  show ?case
  proof (cases "k < length ?q")
    case False
    then have "parts = acc'" using less(2) page acc' k(3) by (simp add: list_pages.simps [of _ _ _ _ _ n])
    with ys False show ?thesis by simp
  next
    case True
    let ?marker = "Itoa (part_number (last (take k ?q)))"
    note next_page = after_next_marker [OF assms(1) k(1) True]
    have "list_pages texts c bucket key uploadID (Suc n) ?marker acc' = Some (Inr parts)"
      using less(2) page acc' k(3) k(4) [OF True] True next_page(2)
      by (simp add: list_pages.simps [of _ _ _ _ _ n] k(2) aws_ToString_def)
    moreover have "length (after_marker ps ?marker) < length ?q" unfolding next_page(1) using k(1) True by simp
    ultimately obtain zs where zs: "parts = acc' @ zs" "reads_as texts (drop k ?q) zs"
      using less(1) [of ?marker "Suc n" acc'] unfolding next_page(1) by blast
    from list_all2_appendI [OF ys(2) zs(2)] ys(1) zs(1) show ?thesis by auto
  qed
qed

text \<open>What S3 reports of a part: its number, its tag, and the checksum if one was asked for.\<close>

definition reported :: "s3_Part \<Rightarrow> bool" where
  "reported p \<longleftrightarrow> (\<exists>e. sp_ETag p = Some e \<and> e \<noteq> [] \<and> TrimSpace e = e) \<and>
     (sp_ChecksumSHA256 p = None \<or> (\<exists>digest. digest \<noteq> [] \<and> sp_ChecksumSHA256 p = Some (b64std_EncodeToString digest)))"

lemma decode_none: "decodeSHA256Checksum texts None = Inr []" "encodeSHA256Checksum texts [] = Inr []"
  by (simp_all add: decodeSHA256Checksum_def encodeSHA256Checksum_def aws_ToString_def)

lemma reported_reads: "reported p \<Longrightarrow> \<exists>y. uploadedPart texts p = Inr y"
  using checksum_round_trip(1) [of _ texts] by (auto simp: reported_def uploadedPart_def bindE_def decode_none)

lemma uploadedParts_reported:
  "\<forall>p \<in> set ps. reported p \<Longrightarrow> \<exists>r. uploadedParts texts ps acc = Inr r"
proof (induction ps arbitrary: acc)
  case (Cons p ps)
  from Cons.prems reported_reads [of p texts] obtain y where "uploadedPart texts p = Inr y" by auto
  with Cons show ?case by simp
qed simp

lemma listing_succeeds:
  assumes "numbered_parts ps" and "lists_parts c bucket key uploadID ps" and "\<forall>p \<in> set ps. reported p"
    and "\<And>n m. \<exists>page. s3_ListParts c n bucket key uploadID m = Inr page"
  shows "\<exists>parts. list_pages texts c bucket key uploadID n m acc = Some (Inr parts)"
proof (induction "length (after_marker ps m)" arbitrary: n m acc rule: less_induct)
  case less
  let ?q = "after_marker ps m"
  from assms(4) obtain page where page: "s3_ListParts c n bucket key uploadID m = Inr page" by blast
  with assms(2) obtain k where k: "0 < k" "lo_Parts page = take k ?q" "aws_ToBool (lo_IsTruncated page) \<longleftrightarrow> k < length ?q"
    "k < length ?q \<Longrightarrow> lo_NextPartNumberMarker page = Some (Itoa (part_number (last (lo_Parts page))))"
    unfolding lists_parts_def page_of_def by blast
  have "\<forall>p \<in> set (take k ?q). reported p" using assms(3) by (auto simp: after_marker_def dest: in_set_takeD)
  from uploadedParts_reported [OF this] k(2) obtain acc' where acc': "uploadedParts texts (lo_Parts page) acc = Inr acc'" by auto
  show ?case
  proof (cases "k < length ?q")
    case False
    with page acc' k(3) show ?thesis by (simp add: list_pages.simps [of _ _ _ _ _ n])
  next
    case True
    note next_page = after_next_marker [OF assms(1) k(1) True]
    have "length (after_marker ps (Itoa (part_number (last (take k ?q))))) < length ?q" unfolding next_page(1) using k(1) True by simp
    from less [OF this, of "Suc n" acc'] page acc' k(3) k(4) [OF True] True next_page(2) show ?thesis
      by (simp add: list_pages.simps [of _ _ _ _ _ n] k(2) aws_ToString_def)
  qed
qed

definition echo :: "s3_Part \<Rightarrow> CompletedPart" where
  "echo p = \<lparr>cd_PartNumber = part_number p, cd_ETag = sp_ETag p, cd_ChecksumSHA256 = sp_ChecksumSHA256 p\<rparr>"

lemma to_int32_small: "1 \<le> k \<Longrightarrow> k \<le> 10000 \<Longrightarrow> to_int32 k = k"
  by (simp add: to_int32_def signed_take_bit_int_eq_self sint_sbintrunc')

lemma part_round_trip:
  assumes "reported p" and "1 \<le> part_number p" and "part_number p \<le> 10000" and "uploadedPart texts p = Inr y"
  shows "pt_PartNumber y = part_number p" and "completedPart texts y = Inr (echo p)"
proof -
  from assms(1) obtain e where e: "sp_ETag p = Some e" "e \<noteq> []" "TrimSpace e = e" by (auto simp: reported_def)
  show "pt_PartNumber y = part_number p" using assms(4) by (auto simp: uploadedPart_def bindE_def part_number_def split: sum.splits)
  consider (none) "sp_ChecksumSHA256 p = None" | (digest) digest where "digest \<noteq> []" "sp_ChecksumSHA256 p = Some (b64std_EncodeToString digest)"
    using assms(1) by (auto simp: reported_def)
  then show "completedPart texts y = Inr (echo p)"
  proof cases
    case none
    with assms(2-4) e show ?thesis
      by (auto simp: uploadedPart_def completedPart_def bindE_def echo_def decode_none to_int32_small part_number_def [symmetric] aws_ToString_def)
  next
    case digest
    with assms(2-4) e b64std_text [OF digest(1)] checksum_round_trip [OF digest(1)] show ?thesis
      by (auto simp: uploadedPart_def completedPart_def bindE_def echo_def to_int32_small part_number_def [symmetric] aws_ToString_def)
  qed
qed

lemma completedParts_echo:
  assumes "reads_as texts ps ys" and "\<forall>p \<in> set ps. reported p \<and> 1 \<le> part_number p \<and> part_number p \<le> 10000"
  shows "completedParts texts ys acc = Inr (acc @ map echo ps) \<and> map pt_PartNumber ys = map part_number ps"
  using assms
proof (induction ps ys arbitrary: acc rule: list_all2_induct)
  case (Cons p ps y ys)
  with part_round_trip [of p texts y] show ?case by simp
qed simp

text \<open>
  Claim C11. What a completion sends to S3 is what S3 knows. When the parts of an upload do not
  change between the pages of a listing, the listing that succeeds has every part once, in order;
  and handing it to \<open>CompleteMultipartUpload\<close> sends back the numbers, tags and checksums that S3
  reported, byte for byte, through both encodings of the checksum and the conversion to 32 bits.
\<close>

theorem parts_round_trip:
  assumes "numbered_parts ps" and "\<forall>p \<in> set ps. reported p" and "ps \<noteq> []" and "ObjectRef_Validate ref = None"
    and "lists_parts (sa_client a) (or_BucketName ref) (or_ObjectKey ref) (TrimSpace uploadID) ps"
    and "Adapter_ListUploadedParts texts a n ref uploadID = Some (Inr parts)"
  shows "map pt_PartNumber parts = map part_number ps \<and>
    Adapter_CompleteMultipartUpload texts a n' ref uploadID parts = map_option mapStorageError
      (s3_CompleteMultipartUpload (sa_client a) n' (or_BucketName ref) (or_ObjectKey ref) (TrimSpace uploadID) (map echo ps))"
proof -
  from assms(4,6) have "list_pages texts (sa_client a) (or_BucketName ref) (or_ObjectKey ref) (TrimSpace uploadID) n [] [] = Some (Inr parts)"
    by (simp add: Adapter_ListUploadedParts_def)
  from listing_reads_all [OF assms(1,5) this] have "reads_as texts (after_marker ps []) parts" by simp
  moreover have "after_marker ps [] = ps" using assms(1) by (auto simp: after_marker_def numbered_parts_def intro!: filter_True)
  ultimately have all: "reads_as texts ps parts" by simp
  have ok: "\<forall>p \<in> set ps. reported p \<and> 1 \<le> part_number p \<and> part_number p \<le> 10000"
    using assms(1,2) by (simp add: numbered_parts_def)
  have "parts \<noteq> []" using all assms(3) by (cases parts) auto
  with completedParts_echo [OF all ok, of "[]"] assms(4) show ?thesis by (simp add: Adapter_CompleteMultipartUpload_def)
qed

text \<open>
  Both ways to the hash of an object agree. When S3 reports the SHA-256 of what it stores,
  the metadata of the object carry the text that hashing the streamed object gives, and it is a
  hash the upload domain accepts; so a completion compares the client's hash with the same value
  whether or not the provider keeps checksums.
\<close>

theorem checksum_agrees_with_hash:
  assumes "ObjectRef_Validate ref = None"
    and "s3_GetObject (sa_client a) n (or_BucketName ref) (or_ObjectKey ref) = Inr (Inr payload)"
    and "s3_HeadObject (sa_client a) n' (or_BucketName ref) (or_ObjectKey ref) = Inr metadata"
    and "ho_ChecksumSHA256 metadata = Some (b64std_EncodeToString (Sum256 payload))"
  shows "\<exists>m hash. Adapter_HeadObject texts a n' ref = Inr m \<and> Adapter_ComputeSHA256 a n ref = Inr hash \<and> om_Checksum m = hash \<and>
    sha256Pattern hash"
proof -
  have "Sum256 payload \<noteq> []" by (metis length_Sum256 list.size(3) zero_neq_numeral)
  note trip = checksum_round_trip(1) [OF this, of texts]
  have "length (hex_EncodeToString s) = 2 * length s \<and> list_all is_lower_hex (hex_EncodeToString s)" for s
  proof (induction s)
    case (Cons c s)
    have "list_all (\<lambda>n. is_lower_hex (hex_digit n)) [0..<16]" by code_simp
    then have "n < 16 \<Longrightarrow> is_lower_hex (hex_digit n)" for n by (simp add: list_all_iff)
    with Cons byte_val_div_16 [of c] show ?case by (simp add: hex_EncodeToString_def)
  qed (simp add: hex_EncodeToString_def)
  then have "sha256Pattern (hex_EncodeToString (Sum256 payload))" by (simp add: sha256Pattern_def)
  with assms trip show ?thesis
    by (simp add: Adapter_HeadObject_def Adapter_ComputeSHA256_def on_object_def mapped_def bindE_def)
qed

subsection \<open>A storage\<close>

text \<open>A bucket with one object and an upload of three parts, listed two at a time.\<close>

definition sampleParts :: "s3_Part list" where
  "sampleParts = map (\<lambda>k. \<lparr>sp_PartNumber = Some k, sp_ETag = Some ''etag'', sp_Size = Some 5,
     sp_ChecksumSHA256 = (if k = 7 then None else Some (b64std_EncodeToString ''digest''))\<rparr>) [1, 2, 7]"

definition sampleS3 :: s3_client where
  "sampleS3 = \<lparr>
     s3_HeadObject = (\<lambda>n bucket key. Inr \<lparr>ho_ContentLength = Some 3, ho_ContentType = None, ho_ETag = None,
       ho_ChecksumSHA256 = Some (b64std_EncodeToString (Sum256 ''abc'')), ho_VersionId = None\<rparr>),
     s3_GetObject = (\<lambda>n bucket key. Inr (Inr ''abc'')), s3_PutObject = (\<lambda>n input. None), s3_DeleteObject = (\<lambda>n bucket key. None),
     s3_CreateMultipartUpload = (\<lambda>n bucket key contentType. Inr (Some ''upload'')),
     s3_UploadPart = (\<lambda>n bucket key uploadID partNumber body len. Inr None),
     s3_ListParts = (\<lambda>n bucket key uploadID m. let q = after_marker sampleParts m in
       Inr \<lparr>lo_Parts = take 2 q, lo_IsTruncated = Some (2 < length q), lo_NextPartNumberMarker = Some (Itoa (part_number (last (take 2 q))))\<rparr>),
     s3_CompleteMultipartUpload = (\<lambda>n bucket key uploadID parts.
       if parts = map echo sampleParts then None else Some \<lparr>er_code = Some ''InvalidPart'', er_text = []\<rparr>),
     s3_AbortMultipartUpload = (\<lambda>n bucket key uploadID. None),
     s3_PresignPutObject = (\<lambda>n bucket key contentType ttl. Inr ([], [])),
     s3_PresignUploadPart = (\<lambda>n bucket key uploadID partNumber ttl. Inr ([], [])),
     s3_PresignGetObject = (\<lambda>n bucket key ttl. Inr [])\<rparr>"

definition sampleAdapter :: Adapter where
  "sampleAdapter = \<lparr>sa_cfg = g_Storage default_config, sa_client = sampleS3, sa_provider = ProviderMinIO\<rparr>"

definition sampleRef :: ObjectRef where
  "sampleRef = \<lparr>or_Provider = ProviderMinIO, or_BucketName = ''private'', or_ObjectKey = ''tenant/object''\<rparr>"

lemma lists_parts_advance:
  assumes "numbered_parts ps" and "lists_parts c bucket key uploadID ps"
  shows "marker_advances c bucket key uploadID"
  unfolding marker_advances_def
proof (intro allI impI, elim conjE)
  fix n m page assume page: "s3_ListParts c n bucket key uploadID m = Inr page" "aws_ToBool (lo_IsTruncated page)"
  with assms(2) obtain k where k: "0 < k" "k < length (after_marker ps m)" "lo_Parts page = take k (after_marker ps m)"
    "lo_NextPartNumberMarker page = Some (Itoa (part_number (last (lo_Parts page))))"
    unfolding lists_parts_def page_of_def by blast
  then have "take k (after_marker ps m) \<noteq> []" by auto
  then have "last (take k (after_marker ps m)) \<in> set (after_marker ps m)" by (meson in_set_takeD last_in_set)
  with assms(1) k(3,4) show "\<exists>k. lo_NextPartNumberMarker page = Some (Itoa k) \<and> marker_number m < k \<and> 1 \<le> k \<and> k \<le> 10000"
    by (auto simp: after_marker_def numbered_parts_def)
qed

lemma sampleParts_ok: "numbered_parts sampleParts" "\<forall>p \<in> set sampleParts. reported p" "sampleParts \<noteq> []"
proof -
  show "numbered_parts sampleParts" "sampleParts \<noteq> []" by (simp_all add: sampleParts_def numbered_parts_def part_number_def aws_ToInt_def)
  have "TrimSpace ''etag'' = ''etag''" by code_simp
  then show "\<forall>p \<in> set sampleParts. reported p" by (auto simp: sampleParts_def reported_def intro: exI [of _ "''digest''"])
qed

lemma sampleS3_lists: "lists_parts (sa_client sampleAdapter) bucket key uploadID sampleParts"
  by (auto simp: lists_parts_def page_of_def sampleAdapter_def sampleS3_def Let_def aws_ToBool_def intro!: exI [of _ "2 :: nat"])

theorem listing_returns_witness:
  "\<exists>r. Adapter_ListUploadedParts sampleTexts sampleAdapter 0 sampleRef ''upload'' = Some r"
  by (rule listing_returns) (rule lists_parts_advance [OF sampleParts_ok(1) sampleS3_lists])

lemma sample_listing: "\<exists>parts. Adapter_ListUploadedParts sampleTexts sampleAdapter 0 sampleRef ''upload'' = Some (Inr parts)"
proof -
  have "ObjectRef_Validate sampleRef = None" by code_simp
  moreover have "\<exists>page. s3_ListParts (sa_client sampleAdapter) n bucket key uploadID m = Inr page" for n bucket key uploadID m
    by (simp add: sampleAdapter_def sampleS3_def Let_def)
  ultimately show ?thesis
    using listing_succeeds [OF sampleParts_ok(1) sampleS3_lists sampleParts_ok(2)] by (simp add: Adapter_ListUploadedParts_def)
qed

theorem parts_round_trip_witness:
  "\<exists>parts. Adapter_ListUploadedParts sampleTexts sampleAdapter 0 sampleRef ''upload'' = Some (Inr parts) \<and>
     Adapter_CompleteMultipartUpload sampleTexts sampleAdapter 1 sampleRef ''upload'' parts = None"
proof -
  from sample_listing obtain parts where parts: "Adapter_ListUploadedParts sampleTexts sampleAdapter 0 sampleRef ''upload'' = Some (Inr parts)"
    by blast
  have "ObjectRef_Validate sampleRef = None" by code_simp
  from parts_round_trip [OF sampleParts_ok this sampleS3_lists parts, of 1] parts show ?thesis
    by (simp add: sampleAdapter_def sampleS3_def)
qed

theorem checksum_agrees_with_hash_witness:
  "\<exists>m. Adapter_HeadObject sampleTexts sampleAdapter 0 sampleRef = Inr m \<and> Adapter_ComputeSHA256 sampleAdapter 0 sampleRef = Inr (om_Checksum m)"
proof -
  have "ObjectRef_Validate sampleRef = None" by code_simp
  with checksum_agrees_with_hash [of sampleRef sampleAdapter 0 "''abc''" 0 _ sampleTexts] show ?thesis
    by (simp add: sampleAdapter_def sampleS3_def) metis
qed

end
