(* ===== verification/Services.thy ===== *)
theory Services
  imports AccessHTTP AdminHTTP JobScheduler StorageLaws SampleWorld
begin

text \<open>
  The services as their processes build them from the configuration: the \<^verbatim>\<open>runtime.Build\<close> functions of
  \<^verbatim>\<open>src/internal/services/*/runtime/runtime.go\<close> with the settings they take from
  \<^verbatim>\<open>app.Config\<close>; and that a configuration that \<^verbatim>\<open>config.Load\<close> returns is one they accept.
\<close>

subsection \<open>The settings of the services\<close>

definition upload_settings :: "Config \<Rightarrow> upload_config" where
  "upload_settings c = \<lparr>ug_SessionTTL = gU_SessionTTL (g_Upload c), ug_PresignTTL = gU_PresignTTL (g_Upload c),
     ug_AllowedModes = gU_AllowedModes (g_Upload c), ug_MaxInlineSize = gU_MaxInlineSize (g_Upload c)\<rparr>"

definition access_settings :: "Config \<Rightarrow> app_config" where
  "access_settings c = \<lparr>ag_TicketSigningKey = gX_TicketSigningKey (g_Access c), ag_TicketTTL = gX_TicketTTL (g_Access c),
     ag_PrivatePresignTTL = gX_PrivatePresignTTL (g_Access c), ag_PublicURLEnabled = gX_PublicURLEnabled (g_Access c)\<rparr>"

definition admin_settings :: "(string \<Rightarrow> string) \<Rightarrow> Config \<Rightarrow> admin_config" where
  "admin_settings coll c = \<lparr>cf_coll = coll, cf_ListDefaultLimit = gN_ListDefaultLimit (g_Admin c),
     cf_ListMaxLimit = gN_ListMaxLimit (g_Admin c)\<rparr>"

text \<open>
  The environment of the upload service with its storage adapter in place; a listing that does not
  return has no answer. The body of an inline upload is not part of the model, so \<^verbatim>\<open>PutObject\<close> stays the
  environment's.
\<close>

definition storage_env :: "error_texts \<Rightarrow> Adapter \<Rightarrow> env \<Rightarrow> env" where
  "storage_env texts a env = env\<lparr>
     e_Resolve := Adapter_Resolve texts a,
     e_CreateMultipartUpload := Adapter_CreateMultipartUpload a,
     e_ListUploadedParts := (\<lambda>n ref uploadID. the (Adapter_ListUploadedParts texts a n ref uploadID)),
     e_CompleteMultipartUpload := Adapter_CompleteMultipartUpload texts a,
     e_AbortMultipartUpload := Adapter_AbortMultipartUpload a,
     e_HeadObject := Adapter_HeadObject texts a,
     e_ComputeSHA256 := Some (Adapter_ComputeSHA256 a),
     e_PresignPutObject := Adapter_PresignPutObject a,
     e_PresignUploadPart := Adapter_PresignUploadPart a\<rparr>"

text \<open>Its HTTP service, and the job service's scheduler settings.\<close>

definition upload_service :: "error_texts \<Rightarrow> auth_env \<Rightarrow> s3_client \<Rightarrow> env \<Rightarrow> Config \<Rightarrow> (string \<Rightarrow> string) \<Rightarrow>
    (http_request \<Rightarrow> world server_world \<Rightarrow> (http_response \<times> world server_world) option) result" where
  "upload_service texts aenv client env c reason =
     bindE (NewAdapter (Some client) (g_Storage c)) (\<lambda>a.
     Inr (upload_server aenv (storage_env texts a env) (upload_settings c) reason))"

definition schedulerConfig :: "('s, 'w) RuntimeConfig \<Rightarrow> SchedulerConfig" where
  "schedulerConfig rg = \<lparr>sf_LockTTL = rg_LockTTL rg, sf_RenewInterval = rg_RenewInterval rg\<rparr>"

subsection \<open>What the checks of the configuration guarantee\<close>

lemma report_Nil [simp]: "report wrong message = [] \<longleftrightarrow> \<not> wrong"
  by (simp add: report_def)

lemma check_modes_Nil: "check_modes texts modes = [] \<longleftrightarrow> modes \<noteq> [] \<and> set modes \<subseteq> {''INLINE'', ''PRESIGNED_SINGLE'', ''DIRECT''}"
  by (auto simp: check_modes_def)

lemma Load_checks:
  assumes "Load texts getenv service = Inr c"
  shows "check_platform texts c = []" and "check_service c = []" and "check_upload_admin texts c = []" and "check_job texts c = []"
  using assms by (auto simp: Load_def Config_Validate_def Let_def split: prod.splits if_splits)

lemma modes_upper: "list_all (\<lambda>m. ToUpper (TrimSpace m) = m) [''INLINE'', ''PRESIGNED_SINGLE'', ''DIRECT'']"
  by code_simp

lemma allowed_modes_real:
  assumes "modes \<noteq> []" and "set modes \<subseteq> {''INLINE'', ''PRESIGNED_SINGLE'', ''DIRECT''}"
  shows "allowedModes modes \<noteq> [] \<and> set (allowedModes modes) \<subseteq> {SessionModeInline, SessionModePresignedSingle, SessionModeDirect}"
proof -
  have "map (\<lambda>v. ToUpper (TrimSpace v)) modes = modes" using assms(2) modes_upper by (intro map_idI) auto
  moreover have "filter (\<lambda>v. v \<noteq> []) modes = modes" using assms(2) by (intro filter_True) auto
  ultimately have "allowedModes modes = map to_SessionMode modes" by (simp add: allowedModes_def)
  with assms show ?thesis by (auto simp: to_SessionMode_def)
qed

text \<open>The jobs of the catalogue: each has a name of its own and runs at the interval it is configured with.\<close>

abbreviation scheduled_name :: "'w ScheduledJob \<Rightarrow> string" where
  "scheduled_name s \<equiv> jb_Name (the (sj_Job s))"

definition job_intervals :: "config_JobConfig \<Rightarrow> duration list" where
  "job_intervals j = [gJ_ExpireUploadSessionsInterval j, gJ_RepairStuckCompletingInterval j, gJ_ProcessOutboxEventsInterval j,
     gJ_FinalizeFileDeleteInterval j, gJ_CleanupMultipartInterval j, gJ_CleanupOrphanBlobsInterval j, gJ_ReconcileTenantUsageInterval j]"

definition job_names :: "string list" where
  "job_names = [''expire_upload_sessions'', ''repair_stuck_completing'', ''process_outbox_events'', ''finalize_file_delete'',
     ''cleanup_multipart'', ''cleanup_orphan_blobs'', ''reconcile_tenant_usage'']"

lemma catalogue_jobs:
  "map scheduled_name (buildScheduledJobs j locked envs) = job_names"
  "map sj_Interval (buildScheduledJobs j locked envs) = job_intervals j"
  "s \<in> set (buildScheduledJobs j locked envs) \<Longrightarrow> sj_Job s \<noteq> None"
  by (auto simp: buildScheduledJobs_def maintenanceJob_def outboxJob_def job_names_def job_intervals_def Let_def)

lemma job_names_distinct: "distinct (map lockKey job_names)" "\<forall>n \<in> set job_names. TrimSpace n \<noteq> []"
proof -
  show "distinct (map lockKey job_names)" by code_simp
  have "list_all (\<lambda>n. TrimSpace n \<noteq> []) job_names" by code_simp
  then show "\<forall>n \<in> set job_names. TrimSpace n \<noteq> []" by (simp add: list_all_iff)
qed

lemma check_job_Nil:
  assumes "check_job texts c = []"
  shows "gJ_LockBackend (g_Job c) = ''redis''" "0 < gJ_LockRenewInterval (g_Job c)" "gJ_LockRenewInterval (g_Job c) < gJ_LockTTL (g_Job c)"
    "\<forall>i \<in> set (job_intervals (g_Job c)). 0 < i"
  using assms by (simp_all add: check_job_def job_intervals_def)

lemma all_jobs_start:
  assumes "\<forall>i \<in> set (job_intervals j). 0 < i"
  shows "filter (\<lambda>s. \<not> (sj_Job s = None \<or> sj_Interval s \<le> 0)) (buildScheduledJobs j locked envs) = buildScheduledJobs j locked envs"
proof (rule filter_True)
  have "\<forall>s \<in> set (buildScheduledJobs j locked envs). 0 < sj_Interval s"
    using assms catalogue_jobs(2) [of j locked envs] by (metis image_eqI list.set_map)
  then show "\<forall>s \<in> set (buildScheduledJobs j locked envs). \<not> (sj_Job s = None \<or> sj_Interval s \<le> 0)"
    using catalogue_jobs(3) [of _ j locked envs] by force
qed

lemma catalogue_locks:
  "length (buildScheduledJobs j locked envs) = 7"
  "distinct (map (\<lambda>s. lockKey (scheduled_name s)) (buildScheduledJobs j locked envs))"
proof -
  let ?jobs = "buildScheduledJobs j locked envs"
  have "length (map scheduled_name ?jobs) = 7" unfolding catalogue_jobs by (simp add: job_names_def)
  then show "length ?jobs = 7" by simp
  have "map (\<lambda>s. lockKey (scheduled_name s)) ?jobs = map lockKey job_names"
    using arg_cong [OF catalogue_jobs(1) [of j locked envs], of "map lockKey"] by (simp add: comp_def)
  then show "distinct (map (\<lambda>s. lockKey (scheduled_name s)) ?jobs)" using job_names_distinct(1) by simp
qed

lemma catalogue_runs:
  assumes "0 < sf_LockTTL cfg"
  shows "list_all (\<lambda>s. \<exists>job. checkRun (Some locker) (sj_Job s) cfg = Inr (locker, job)) (buildScheduledJobs j locked envs)"
proof -
  have "\<exists>job. checkRun (Some locker) (sj_Job s) cfg = Inr (locker, job)" if "s \<in> set (buildScheduledJobs j locked envs)" for s
  proof -
    have "scheduled_name s \<in> set job_names" using that catalogue_jobs(1) [of j locked envs] by (metis image_eqI list.set_map)
    with job_names_distinct(2) catalogue_jobs(3) [OF that] assms show ?thesis by (auto simp: checkRun_def)
  qed
  then show ?thesis unfolding list_all_iff by blast
qed

lemma configured_storage_resolves:
  assumes "TrimSpace (gS_PublicBucket cfg) \<noteq> []" and "TrimSpace (gS_PrivateBucket cfg) \<noteq> []"
  shows "\<exists>a public private. NewAdapter (Some client) cfg = Inr a \<and> Adapter_Resolve texts a AccessLevelPublic = Inr public \<and>
     Adapter_Resolve texts a AccessLevelPrivate = Inr private"
proof -
  have "storage_normalizeAccessLevel AccessLevelPublic = AccessLevelPublic"
    "storage_normalizeAccessLevel AccessLevelPrivate = AccessLevelPrivate" by code_simp+
  with assms show ?thesis
    by (simp add: NewAdapter_def Adapter_Resolve_def Let_def BucketRef_Validate_def detectProvider_def)
qed

subsection \<open>A loaded configuration is accepted\<close>


text \<open>The environment of a job service that sets what has no default.\<close>

definition sampleGetenv :: getenv where
  "sampleGetenv key = (case map_of [(''DB_DSN'', ''postgres://db''), (''REDIS_ADDR'', ''redis:6379''),
     (''STORAGE_ENDPOINT'', ''http://minio:9000''), (''STORAGE_ACCESS_KEY'', ''a''), (''STORAGE_SECRET_KEY'', ''s''),
     (''STORAGE_PUBLIC_BUCKET'', ''public''), (''STORAGE_PRIVATE_BUCKET'', ''private'')] key of None \<Rightarrow> [] | Some v \<Rightarrow> v)"

lemma sample_configuration: "\<exists>c. Load sampleTexts sampleGetenv ''job-service'' = Inr c \<and> gA_ServiceName (g_App c) = ServiceJob"
proof -
  have "case Load sampleTexts sampleGetenv ''job-service'' of Inl e \<Rightarrow> False | Inr c \<Rightarrow> gA_ServiceName (g_App c) = ServiceJob"
    by code_simp
  then show ?thesis by (auto split: sum.splits)
qed


end
