(* ===== verification/Platform.thy ===== *)
theory Platform
  imports Services
begin

text \<open>
  The process around a service: \<^verbatim>\<open>src/internal/platform/bootstrap/app.go\<close> with the connections it opens
  (\<^verbatim>\<open>persistence/postgres.go\<close>, \<^verbatim>\<open>redis/client.go\<close>, \<^verbatim>\<open>storage/client.go\<close>, the level of
  \<^verbatim>\<open>observability/logger.go\<close>), and the \<^verbatim>\<open>main\<close> functions of the four services
  in \<^verbatim>\<open>src/cmd\<close>, which have one text.

  The libraries are parameters: what the \<open>n\<close>-th call answers. Every call is kept in the trace of
  the process, with whether it succeeded.
\<close>

subsection \<open>Calls\<close>

datatype call = SqlOpen | DbPing | DbClose | RedisNew | RedisPing | RedisClose | TracingNew | TracingShutdown
  | HeadBucket string | RuntimeReady | RuntimeStart | RuntimeStop | ServerShutdown

datatype effect = Did call | Failed call

record platform_env =
  pe_answer :: "nat \<Rightarrow> call \<Rightarrow> go_error option"
  pe_parse_endpoint :: "string \<Rightarrow> go_error option"
  pe_aws_config :: "nat \<Rightarrow> go_error option"

record RuntimeOptions =
  ro_Handler :: bool
  ro_Ready :: bool
  ro_Start :: bool
  ro_Stop :: bool

record App =
  ap_Config :: Config
  ap_Tracing :: bool
  ap_DB :: bool
  ap_Redis :: bool
  ap_Storage :: bool
  ap_Server :: bool
  ap_ready :: bool
  ap_registered :: bool
  ap_runtime :: RuntimeOptions

record process =
  pc_app :: App
  pc_trace :: "effect list"

type_synonym 'a proc = "(process, go_error, 'a) action"

definition callP :: "platform_env \<Rightarrow> call \<Rightarrow> unit proc" where
  "callP env c = (\<lambda>p. case pe_answer env (length (pc_trace p)) c of
     None \<Rightarrow> (Inr (), p\<lparr>pc_trace := pc_trace p @ [Did c]\<rparr>)
   | Some err \<Rightarrow> (Inl err, p\<lparr>pc_trace := pc_trace p @ [Failed c]\<rparr>))"

definition noteP :: "effect \<Rightarrow> unit proc" where
  "noteP e = (\<lambda>p. (Inr (), p\<lparr>pc_trace := pc_trace p @ [e]\<rparr>))"

definition setApp :: "(App \<Rightarrow> App) \<Rightarrow> unit proc" where
  "setApp f = (\<lambda>p. (Inr (), p\<lparr>pc_app := f (pc_app p)\<rparr>))"

text \<open>\<^verbatim>\<open>fmt.Errorf("...: %w", err)\<close>\<close>

definition wrapP :: "string \<Rightarrow> 'a proc \<Rightarrow> 'a proc" where
  "wrapP message = mapErrA (\<lambda>err. ErrorfW (message @ '': '' @ Error err) err)"

subsection \<open>Connections\<close>

definition persistence_Open :: "platform_env \<Rightarrow> unit proc" where
  "persistence_Open env =
     bindA (wrapP ''open postgres'' (callP env SqlOpen)) (\<lambda>_.
     bindA (tryA (callP env DbPing)) (\<lambda>ping. case ping of
       Inl err \<Rightarrow> bindA (tryA (callP env DbClose)) (\<lambda>_. throwA (ErrorfW (''ping postgres: '' @ Error err) err))
     | Inr _ \<Rightarrow> returnA ()))"

text \<open>The answer says whether there is a client.\<close>

definition redis_Open :: "platform_env \<Rightarrow> config_RedisConfig \<Rightarrow> bool \<Rightarrow> bool proc" where
  "redis_Open env cfg required =
     (if TrimSpace (gR_Addr cfg) = [] then
        if required then throwA (Errorf ''redis addr is required'') else returnA False
      else bindA (noteP (Did RedisNew)) (\<lambda>_.
        bindA (tryA (callP env RedisPing)) (\<lambda>ping. case ping of
          Inl err \<Rightarrow> bindA (tryA (callP env RedisClose)) (\<lambda>_.
            if required then throwA (ErrorfW (''ping redis: '' @ Error err) err) else returnA False)
        | Inr _ \<Rightarrow> returnA True)))"

definition storage_Open :: "platform_env \<Rightarrow> config_StorageConfig \<Rightarrow> unit proc" where
  "storage_Open env cfg = (case pe_parse_endpoint env (gS_Endpoint cfg) of
     Some err \<Rightarrow> throwA (ErrorfW (''invalid storage endpoint: '' @ Error err) err)
   | None \<Rightarrow> (\<lambda>p. case pe_aws_config env (length (pc_trace p)) of
       Some err \<Rightarrow> (Inl (ErrorfW (''load aws config: '' @ Error err) err), p)
     | None \<Rightarrow> (Inr (), p)))"

definition storage_Validate :: "platform_env \<Rightarrow> config_StorageConfig \<Rightarrow> unit proc" where
  "storage_Validate env cfg =
     (if TrimSpace (gS_PublicBucket cfg) = [] \<or> TrimSpace (gS_PrivateBucket cfg) = []
      then throwA (Errorf ''storage bucket config is invalid'')
      else forA (\<lambda>bucket. wrapP (''head bucket '' @ bucket) (callP env (HeadBucket bucket)))
        (gS_PublicBucket cfg # (if gS_PrivateBucket cfg \<notin> {gS_PublicBucket cfg} then [gS_PrivateBucket cfg] else [])))"

text \<open>\<^verbatim>\<open>parseLevel\<close> of the logger; \<open>tx_quote\<close> is \<^verbatim>\<open>%q\<close>.\<close>

definition parseLevel :: "error_texts \<Rightarrow> string \<Rightarrow> string result" where
  "parseLevel texts raw = (let level = ToLower (TrimSpace raw) in
     if level = ''debug'' then Inr ''debug''
     else if level \<in> {''info'', []} then Inr ''info''
     else if level \<in> {''warn'', ''warning''} then Inr ''warn''
     else if level = ''error'' then Inr ''error''
     else Inl (Errorf (''unsupported log level: '' @ tx_quote texts raw)))"

subsection \<open>The application\<close>

definition initDependencies :: "platform_env \<Rightarrow> unit proc" where
  "initDependencies env = (\<lambda>p. let cfg = ap_Config (pc_app p) in
     bindA (wrapP ''init database'' (persistence_Open env)) (\<lambda>_.
     bindA (setApp (ap_DB_update (\<lambda>_. True))) (\<lambda>_.
     bindA (wrapP ''init redis'' (redis_Open env (g_Redis cfg) (RedisRequired cfg))) (\<lambda>redisClient.
     bindA (setApp (ap_Redis_update (\<lambda>_. redisClient))) (\<lambda>_.
     bindA (wrapP ''init storage'' (storage_Open env (g_Storage cfg))) (\<lambda>_.
     bindA (wrapP ''validate storage'' (storage_Validate env (g_Storage cfg))) (\<lambda>_.
     setApp (ap_Storage_update (\<lambda>_. True)))))))) p)"

text \<open>An error that is collected: \<^verbatim>\<open>errs = append(errs, fmt.Errorf(...))\<close>.\<close>

definition collect :: "bool \<Rightarrow> string \<Rightarrow> unit proc \<Rightarrow> go_error list \<Rightarrow> go_error list proc" where
  "collect enabled message m errs =
     (if enabled then bindA (tryA (wrapP message m)) (\<lambda>r. returnA (case r of Inl err \<Rightarrow> errs @ [err] | Inr _ \<Rightarrow> errs))
      else returnA errs)"

definition errorsJoin :: "go_error list \<Rightarrow> unit proc" where
  "errorsJoin errs = (if errs = [] then returnA () else throwA (Joined errs))"

definition App_Close :: "platform_env \<Rightarrow> unit proc" where
  "App_Close env =
     bindA (setApp (ap_ready_update (\<lambda>_. False))) (\<lambda>_.
     bindA (readA pc_app) (\<lambda>a.
     bindA (collect (ap_Redis a) ''close redis'' (callP env RedisClose) []) (\<lambda>errs.
     bindA (collect (ap_DB a) ''close database'' (callP env DbClose) errs) (\<lambda>errs.
     bindA (collect (ap_Tracing a) ''shutdown tracing'' (callP env TracingShutdown) errs) errorsJoin))))"

definition registerRuntime :: "RuntimeOptions \<Rightarrow> unit proc" where
  "registerRuntime options = setApp (\<lambda>a. a\<lparr>ap_runtime := options, ap_Server := True,
     ap_registered := (ro_Handler options \<or> ro_Ready options \<or> ro_Start options \<or> ro_Stop options)\<rparr>)"

definition no_runtime :: RuntimeOptions where
  "no_runtime = \<lparr>ro_Handler = False, ro_Ready = False, ro_Start = False, ro_Stop = False\<rparr>"

definition new_app :: "Config \<Rightarrow> App" where
  "new_app cfg = \<lparr>ap_Config = cfg, ap_Tracing = False, ap_DB = False, ap_Redis = False, ap_Storage = False, ap_Server = False,
     ap_ready = False, ap_registered = False, ap_runtime = no_runtime\<rparr>"

definition NewWithOptions :: "platform_env \<Rightarrow> error_texts \<Rightarrow> getenv \<Rightarrow> string \<Rightarrow> RuntimeOptions \<Rightarrow> unit proc" where
  "NewWithOptions env texts getenv serviceName runtime =
     bindA (wrapP ''load config'' (liftA (Load texts getenv serviceName))) (\<lambda>cfg.
     bindA (wrapP ''init logger'' (liftA (parseLevel texts (gA_LogLevel (g_App cfg))))) (\<lambda>_.
     bindA (setApp (\<lambda>_. new_app cfg)) (\<lambda>_.
     bindA (wrapP ''init tracing'' (callP env TracingNew)) (\<lambda>_.
     bindA (setApp (ap_Tracing_update (\<lambda>_. True))) (\<lambda>_.
     bindA (tryA (initDependencies env)) (\<lambda>r. case r of
       Inl err \<Rightarrow> bindA (tryA (App_Close env)) (\<lambda>_. throwA err)
     | Inr _ \<Rightarrow>
         bindA (registerRuntime runtime) (\<lambda>_.
         setApp (ap_ready_update (\<lambda>_. True)))))))))"

definition App_shutdown :: "platform_env \<Rightarrow> go_error option \<Rightarrow> unit proc" where
  "App_shutdown env serveErr =
     bindA (setApp (\<lambda>a. a\<lparr>ap_ready := False, ap_registered := False\<rparr>)) (\<lambda>_.
     bindA (readA pc_app) (\<lambda>a.
     let errs = (case serveErr of None \<Rightarrow> [] | Some err \<Rightarrow> [ErrorfW (''run http server: '' @ Error err) err]) in
     bindA (collect (ap_Server a) ''shutdown http server'' (callP env ServerShutdown) errs) (\<lambda>errs.
     bindA (collect (ro_Stop (ap_runtime a)) ''stop service runtime'' (callP env RuntimeStop) errs) (\<lambda>errs.
     bindA (tryA (App_Close env)) (\<lambda>r.
     errorsJoin (case r of Inl err \<Rightarrow> errs @ [err] | Inr _ \<Rightarrow> errs))))))"

definition App_Ready :: "platform_env \<Rightarrow> unit proc" where
  "App_Ready env =
     bindA (readA pc_app) (\<lambda>a. let cfg = ap_Config a in
     bindA (liftA (failIf (\<not> ap_ready a) (Errorf ''app not ready''))) (\<lambda>_.
     bindA (liftA (failIf (\<not> ap_registered a) (Errorf ''service runtime not registered''))) (\<lambda>_.
     bindA (liftA (failIf (\<not> ap_DB a) (Errorf ''database not initialized''))) (\<lambda>_.
     bindA (wrapP ''database not ready'' (callP env DbPing)) (\<lambda>_.
     bindA (liftA (failIf (RedisRequired cfg \<and> \<not> ap_Redis a) (Errorf ''redis not initialized''))) (\<lambda>_.
     bindA (if ap_Redis a then wrapP ''redis not ready'' (callP env RedisPing) else returnA ()) (\<lambda>_.
     bindA (liftA (failIf (\<not> ap_Storage a) (Errorf ''storage not initialized''))) (\<lambda>_.
     bindA (wrapP ''storage not ready'' (storage_Validate env (g_Storage cfg))) (\<lambda>_.
     if ro_Ready (ap_runtime a) then wrapP ''service runtime not ready'' (callP env RuntimeReady) else returnA ())))))))))"

text \<open>
  The server ends by itself, with or without an error, or a signal ends the process; before that
  it answers readiness probes.
\<close>

datatype exit_reason = ServerReturned "go_error option" | Signalled

definition App_Run :: "platform_env \<Rightarrow> nat \<Rightarrow> exit_reason \<Rightarrow> unit proc" where
  "App_Run env probes reason =
     bindA (readA pc_app) (\<lambda>a.
     if \<not> ap_Server a then throwA (Errorf ''http server is not initialized'')
     else bindA (if ro_Start (ap_runtime a) then tryA (callP env RuntimeStart) else returnA (Inr ())) (\<lambda>started. case started of
       Inl err \<Rightarrow>
         bindA (setApp (ap_ready_update (\<lambda>_. False))) (\<lambda>_.
         bindA (tryA (App_Close env)) (\<lambda>_.
         throwA (ErrorfW (''start service runtime: '' @ Error err) err)))
     | Inr _ \<Rightarrow>
         bindA (forA (\<lambda>_. bindA (tryA (App_Ready env)) (\<lambda>_. returnA ())) [0..<probes]) (\<lambda>_.
         App_shutdown env (case reason of ServerReturned err \<Rightarrow> err | Signalled \<Rightarrow> None))))"

text \<open>
  The \<^verbatim>\<open>main\<close> of a service; \<open>build\<close> is its \<^verbatim>\<open>runtime.Build\<close>.
\<close>

definition main_run :: "platform_env \<Rightarrow> error_texts \<Rightarrow> getenv \<Rightarrow> string \<Rightarrow> (App \<Rightarrow> RuntimeOptions result) \<Rightarrow> nat \<Rightarrow> exit_reason \<Rightarrow>
    unit proc" where
  "main_run env texts getenv serviceName build probes reason =
     bindA (NewWithOptions env texts getenv serviceName no_runtime) (\<lambda>_.
     bindA (readA pc_app) (\<lambda>app. case build app of
       Inl err \<Rightarrow> bindA (tryA (App_Close env)) (\<lambda>_. throwA err)
     | Inr runtimeOptions \<Rightarrow>
         bindA (registerRuntime runtimeOptions) (\<lambda>_.
         App_Run env probes reason)))"

end
