(* ===== verification/PlatformLaws.thy ===== *)
theory PlatformLaws
  imports Platform
begin

text \<open>
  What a process does to its connections, on every way through its life: it opens each at most
  once, uses it only while it is open, and leaves none open.
\<close>

subsection \<open>The protocol of the connections\<close>

datatype conn = Never | Opened | Shut

record conns =
  cn_db :: conn
  cn_redis :: conn
  cn_tracing :: conn
  cn_running :: bool

definition fresh :: conns where
  "fresh = \<lparr>cn_db = Never, cn_redis = Never, cn_tracing = Never, cn_running = False\<rparr>"

definition need :: "bool \<Rightarrow> conns \<Rightarrow> conns option" where
  "need b st = (if b then Some st else None)"

fun conn_call :: "conns \<Rightarrow> bool \<Rightarrow> call \<Rightarrow> conns option" where
  "conn_call st ok SqlOpen = need (cn_db st = Never) (if ok then st\<lparr>cn_db := Opened\<rparr> else st)"
| "conn_call st ok DbPing = need (cn_db st = Opened) st"
| "conn_call st ok DbClose = need (cn_db st = Opened) (st\<lparr>cn_db := Shut\<rparr>)"
| "conn_call st ok RedisNew = need (cn_redis st = Never) (st\<lparr>cn_redis := Opened\<rparr>)"
| "conn_call st ok RedisPing = need (cn_redis st = Opened) st"
| "conn_call st ok RedisClose = need (cn_redis st = Opened) (st\<lparr>cn_redis := Shut\<rparr>)"
| "conn_call st ok TracingNew = need (cn_tracing st = Never) (if ok then st\<lparr>cn_tracing := Opened\<rparr> else st)"
| "conn_call st ok TracingShutdown = need (cn_tracing st = Opened) (st\<lparr>cn_tracing := Shut\<rparr>)"
| "conn_call st ok (HeadBucket b) = Some st"
| "conn_call st ok RuntimeReady = need (cn_db st = Opened) st"
| "conn_call st ok RuntimeStart = need (cn_db st = Opened \<and> \<not> cn_running st) (st\<lparr>cn_running := ok\<rparr>)"
| "conn_call st ok RuntimeStop = need (cn_db st = Opened) (st\<lparr>cn_running := False\<rparr>)"
| "conn_call st ok ServerShutdown = need (cn_db st = Opened) st"

fun conn_step :: "conns \<Rightarrow> effect \<Rightarrow> conns option" where
  "conn_step st (Did c) = conn_call st True c"
| "conn_step st (Failed c) = conn_call st False c"

fun protocol :: "conns \<Rightarrow> effect list \<Rightarrow> conns option" where
  "protocol st [] = Some st"
| "protocol st (e # es) = (case conn_step st e of None \<Rightarrow> None | Some st' \<Rightarrow> protocol st' es)"

lemma protocol_append: "protocol st (es @ fs) = (case protocol st es of None \<Rightarrow> None | Some st' \<Rightarrow> protocol st' fs)"
  by (induction es arbitrary: st) (auto split: option.splits)

text \<open>The state of the connections after the trace of a process, with what its application holds.\<close>

definition conn_at :: "conns \<Rightarrow> App \<Rightarrow> process \<Rightarrow> bool" where
  "conn_at st a p \<longleftrightarrow> protocol fresh (pc_trace p) = Some st \<and> pc_app p = a"

definition holds :: "conns \<Rightarrow> App \<Rightarrow> bool" where
  "holds st a \<longleftrightarrow> (ap_DB a \<longleftrightarrow> cn_db st = Opened) \<and> (ap_Redis a \<longleftrightarrow> cn_redis st = Opened) \<and> (ap_Tracing a \<longleftrightarrow> cn_tracing st = Opened)"

definition released :: "conns \<Rightarrow> bool" where
  "released st \<longleftrightarrow> cn_db st \<noteq> Opened \<and> cn_redis st \<noteq> Opened \<and> cn_tracing st \<noteq> Opened"

lemmas run_simps = bindA_def tryA_def wrapP_def mapErrA_def returnA_def throwA_def liftA_def readA_def callP_def noteP_def setApp_def

lemmas conn_simps = conn_at_def protocol_append need_def

subsection \<open>Opening\<close>

lemma persistence_run:
  assumes "conn_at st a p" and "cn_db st = Never" and "persistence_Open env p = (r, p')"
  shows "\<exists>st'. conn_at st' a p' \<and> st' = st\<lparr>cn_db := cn_db st'\<rparr> \<and> (cn_db st' = Opened \<longleftrightarrow> r = Inr ())"
  using assms
  by (auto simp: persistence_Open_def run_simps conn_simps split: option.splits prod.splits sum.splits)

lemma redis_run_open:
  assumes "conn_at st a p" and "cn_redis st = Never" and "redis_Open env cfg required p = (r, p')"
  shows "\<exists>st'. conn_at st' a p' \<and> st' = st\<lparr>cn_redis := cn_redis st'\<rparr> \<and> (cn_redis st' = Opened \<longleftrightarrow> r = Inr True)"
  using assms
  by (auto simp: redis_Open_def run_simps conn_simps split: option.splits prod.splits sum.splits if_splits)

lemma storage_Open_run:
  assumes "conn_at st a p" and "storage_Open env cfg p = (r, p')"
  shows "conn_at st a p'"
  using assms by (auto simp: storage_Open_def run_simps split: option.splits)

lemma heads_run:
  assumes "conn_at st a p" and "forA (\<lambda>bucket. wrapP (message bucket) (callP env (HeadBucket bucket))) buckets p = (r, p')"
  shows "conn_at st a p'"
  using assms
proof (induction buckets arbitrary: p)
  case (Cons b bs)
  show ?case
  proof (cases "pe_answer env (length (pc_trace p)) (HeadBucket b)")
    case None
    have "conn_at st a (p\<lparr>pc_trace := pc_trace p @ [Did (HeadBucket b)]\<rparr>)" using Cons.prems(1) by (simp add: conn_simps)
    moreover have "forA (\<lambda>bucket. wrapP (message bucket) (callP env (HeadBucket bucket))) bs
        (p\<lparr>pc_trace := pc_trace p @ [Did (HeadBucket b)]\<rparr>) = (r, p')"
      using Cons.prems(2) None by (simp add: run_simps)
    ultimately show ?thesis by (rule Cons.IH)
  next
    case (Some err)
    with Cons.prems show ?thesis by (auto simp: run_simps conn_simps)
  qed
qed simp

lemma storage_Validate_run:
  assumes "conn_at st a p" and "storage_Validate env cfg p = (r, p')"
  shows "conn_at st a p'"
proof (cases "TrimSpace (gS_PublicBucket cfg) = [] \<or> TrimSpace (gS_PrivateBucket cfg) = []")
  case True
  with assms show ?thesis by (simp add: storage_Validate_def)
next
  case False
  with assms(2) show ?thesis unfolding storage_Validate_def by (simp only: if_False) (rule heads_run [OF assms(1)])
qed

lemma conn_at_setApp: "conn_at st a p \<Longrightarrow> conn_at st (f a) (p\<lparr>pc_app := f (pc_app p)\<rparr>)"
  by (simp add: conn_at_def)

text \<open>Whether opening the dependencies succeeds or not, the application holds exactly what is open.\<close>

lemma initDependencies_run:
  assumes at: "conn_at st a p" and none: "cn_db st = Never" "cn_redis st = Never" and "holds st a"
    and run: "initDependencies env p = (r, p')"
  shows "\<exists>st' a'. conn_at st' a' p' \<and> holds st' a' \<and> cn_running st' = cn_running st \<and> ap_ready a' = ap_ready a \<and>
    (r = Inr () \<longrightarrow> cn_db st' = Opened)"
proof -
  let ?cfg = "ap_Config (pc_app p)"
  have flags: "\<not> ap_DB a" "\<not> ap_Redis a" "ap_Tracing a \<longleftrightarrow> cn_tracing st = Opened" using assms(2-4) by (simp_all add: holds_def)
  obtain r1 p1 where open_db: "persistence_Open env p = (r1, p1)" by (cases "persistence_Open env p")
  from persistence_run [OF at none(1) open_db] obtain st1 where
    1: "conn_at st1 a p1" "st1 = st\<lparr>cn_db := cn_db st1\<rparr>" "cn_db st1 = Opened \<longleftrightarrow> r1 = Inr ()" by blast
  from 1(2) have st1: "cn_redis st1 = cn_redis st" "cn_tracing st1 = cn_tracing st" "cn_running st1 = cn_running st" by (cases st; cases st1; simp)+
  show ?thesis
  proof (cases r1)
    case (Inl e)
    then have "p' = p1" "r \<noteq> Inr ()" using run open_db by (auto simp: initDependencies_def Let_def run_simps)
    with 1 Inl st1 flags none show ?thesis by (intro exI [of _ st1] exI [of _ a]) (simp add: holds_def)
  next
    case (Inr u)
    define a2 where "a2 = ap_DB_update (\<lambda>_. True) a"
    define p2 where "p2 = p1\<lparr>pc_app := ap_DB_update (\<lambda>_. True) (pc_app p1)\<rparr>"
    have 2: "conn_at st1 a2 p2" unfolding a2_def p2_def using 1(1) by (rule conn_at_setApp)
    have db: "cn_db st1 = Opened" using 1(3) Inr by simp
    obtain r3 p3 where open_redis: "redis_Open env (g_Redis ?cfg) (RedisRequired ?cfg) p2 = (r3, p3)"
      by (cases "redis_Open env (g_Redis ?cfg) (RedisRequired ?cfg) p2")
    from redis_run_open [OF 2 _ open_redis] st1 none obtain st3 where
      3: "conn_at st3 a2 p3" "st3 = st1\<lparr>cn_redis := cn_redis st3\<rparr>" "cn_redis st3 = Opened \<longleftrightarrow> r3 = Inr True" by auto
    from 3(2) st1 db have st3: "cn_db st3 = Opened" "cn_tracing st3 = cn_tracing st" "cn_running st3 = cn_running st" by (cases st1; cases st3; simp)+
    show ?thesis
    proof (cases r3)
      case (Inl e)
      then have "p' = p3" "r \<noteq> Inr ()" using run open_db open_redis \<open>r1 = Inr u\<close>
        by (auto simp: initDependencies_def Let_def run_simps p2_def)
      with 3 Inl st3 flags show ?thesis by (intro exI [of _ st3] exI [of _ a2]) (simp add: holds_def a2_def)
    next
      case (Inr client)
      define a4 where "a4 = ap_Redis_update (\<lambda>_. client) a2"
      define p4 where "p4 = p3\<lparr>pc_app := ap_Redis_update (\<lambda>_. client) (pc_app p3)\<rparr>"
      have 4: "conn_at st3 a4 p4" unfolding a4_def p4_def using 3(1) by (rule conn_at_setApp)
      have held: "holds st3 a4" "ap_ready a4 = ap_ready a" using 3(3) Inr st3 flags by (auto simp: holds_def a4_def a2_def)
      obtain r5 p5 where open_storage: "storage_Open env (g_Storage ?cfg) p4 = (r5, p5)" by (cases "storage_Open env (g_Storage ?cfg) p4")
      note 5 = storage_Open_run [OF 4 open_storage]
      obtain r6 p6 where valid: "storage_Validate env (g_Storage ?cfg) p5 = (r6, p6)" by (cases "storage_Validate env (g_Storage ?cfg) p5")
      note 6 = storage_Validate_run [OF 5 valid]
      note runs = run open_db open_redis open_storage valid \<open>r1 = Inr u\<close> Inr
      consider "p' = p5" | "p' = p6" | "p' = p6\<lparr>pc_app := ap_Storage_update (\<lambda>_. True) (pc_app p6)\<rparr>"
        using runs by (cases r5; cases r6) (auto simp: initDependencies_def Let_def run_simps p2_def [symmetric] p4_def [symmetric])
      then have "conn_at st3 a4 p' \<or> conn_at st3 (ap_Storage_update (\<lambda>_. True) a4) p'"
        using 5 6 conn_at_setApp [OF 6, of "ap_Storage_update (\<lambda>_. True)"] by cases simp_all
      then obtain a5 where 7: "conn_at st3 a5 p'" "a5 = a4 \<or> a5 = ap_Storage_update (\<lambda>_. True) a4" by blast
      from 7(2) held have "holds st3 a5" "ap_ready a5 = ap_ready a" by (auto simp: holds_def)
      with 7(1) st3 show ?thesis by (intro exI [of _ st3] exI [of _ a5]) simp
    qed
  qed
qed

subsection \<open>Serving and closing\<close>

lemma App_Close_run:
  assumes "conn_at st a p" and "holds st a" and "App_Close env p = (r, p')"
  shows "\<exists>st'. conn_at st' (ap_ready_update (\<lambda>_. False) a) p' \<and> released st' \<and> cn_running st' = cn_running st"
  using assms
  by (cases "ap_Redis a"; cases "ap_DB a"; cases "ap_Tracing a")
     (auto simp: App_Close_def collect_def errorsJoin_def run_simps conn_simps holds_def released_def split: option.splits prod.splits sum.splits if_splits)

text \<open>The steps that only read or set the application.\<close>

lemma bindA_steps:
  "bindA (readA f) k s = k (f s) s"
  "bindA (setApp g) k' p = k' () (p\<lparr>pc_app := g (pc_app p)\<rparr>)"
  "bindA (tryA m) k'' s = (case m s of (q, s') \<Rightarrow> k'' q s')"
  "bindA (wrapP message (liftA (Inr x))) l s = l x s"
  by (auto simp: run_simps split: prod.split)

text \<open>An action that stays where the connections and the application are.\<close>

interpretation staying: frame "\<lambda>p p'. conn_at st a p \<longrightarrow> conn_at st a p'" for st a
  by unfold_locales auto

lemma callP_stays: "conn_call st True c = Some st \<Longrightarrow> conn_call st False c = Some st \<Longrightarrow> staying.keeps st a (callP env c)"
  by (rule staying.keepsI) (auto simp: run_simps conn_simps split: option.splits)

lemma wrapP_stays: "staying.keeps st a m \<Longrightarrow> staying.keeps st a (wrapP message m)"
  unfolding wrapP_def by (rule staying.keeps_mapErrA)

lemma App_Ready_run:
  assumes "conn_at st a p" and "holds st a" and "App_Ready env p = (r, p')"
  shows "conn_at st a p'"
proof -
  let ?cfg = "ap_Config a"
  let ?probe = "bindA (liftA (failIf (\<not> ap_ready a) (Errorf ''app not ready''))) (\<lambda>_.
     bindA (liftA (failIf (\<not> ap_registered a) (Errorf ''service runtime not registered''))) (\<lambda>_.
     bindA (liftA (failIf (\<not> ap_DB a) (Errorf ''database not initialized''))) (\<lambda>_.
     bindA (wrapP ''database not ready'' (callP env DbPing)) (\<lambda>_.
     bindA (liftA (failIf (RedisRequired ?cfg \<and> \<not> ap_Redis a) (Errorf ''redis not initialized''))) (\<lambda>_.
     bindA (if ap_Redis a then wrapP ''redis not ready'' (callP env RedisPing) else returnA ()) (\<lambda>_.
     bindA (liftA (failIf (\<not> ap_Storage a) (Errorf ''storage not initialized''))) (\<lambda>_.
     bindA (wrapP ''storage not ready'' (storage_Validate env (g_Storage ?cfg))) (\<lambda>_.
     if ro_Ready (ap_runtime a) then wrapP ''service runtime not ready'' (callP env RuntimeReady) else returnA ()))))))))"
  have a: "pc_app p = a" using assms(1) by (simp add: conn_at_def)
  have "App_Ready env p = ?probe p"
    by (simp only: App_Ready_def bindA_steps(1) Let_def a)
  with assms(3) have probe: "?probe p = (r, p')" by simp
  show ?thesis
  proof (cases "ap_DB a")
    case False
    then have "?probe p = (r, p') \<Longrightarrow> p' = p"
      by (cases "ap_ready a"; cases "ap_registered a") (auto simp: failIf_def bindA_def liftA_def)
    with probe assms(1) show ?thesis by simp
  next
    case True
    with assms(2) have db: "cn_db st = Opened" and redis: "ap_Redis a \<Longrightarrow> cn_redis st = Opened" by (simp_all add: holds_def)
    have "staying.keeps st a (storage_Validate env (g_Storage ?cfg))"
      by (rule staying.keepsI) (auto intro: storage_Validate_run)
    then have "staying.keeps st a ?probe"
      using db redis by (intro staying.keeps_rules wrapP_stays callP_stays) (simp_all add: need_def)
    with probe assms(1) show ?thesis by (auto dest: staying.keepsD)
  qed
qed

lemma probes_run:
  assumes "conn_at st a p" and "holds st a" and "forA (\<lambda>_. bindA (tryA (App_Ready env)) (\<lambda>_. returnA ())) ks p = (r, p')"
  shows "conn_at st a p' \<and> r = Inr ()"
  using assms(1,3)
proof (induction ks arbitrary: p)
  case (Cons k ks)
  obtain q p1 where probe: "App_Ready env p = (q, p1)" by (cases "App_Ready env p")
  with Cons.prems(2) have rest: "forA (\<lambda>_. bindA (tryA (App_Ready env)) (\<lambda>_. returnA ())) ks p1 = (r, p')"
    by (simp add: bindA_def tryA_def returnA_def)
  show ?case by (rule Cons.IH [OF App_Ready_run [OF Cons.prems(1) assms(2) probe] rest])
qed simp

lemma App_shutdown_run:
  assumes "conn_at st a p" and "holds st a" and "ap_DB a" and "App_shutdown env e p = (r, p')"
  shows "\<exists>st' a'. conn_at st' a' p' \<and> released st' \<and> \<not> ap_ready a' \<and> ap_runtime a' = ap_runtime a \<and>
    (ro_Stop (ap_runtime a) \<longrightarrow> \<not> cn_running st')"
proof -
  define a1 where "a1 = a\<lparr>ap_ready := False, ap_registered := False\<rparr>"
  define p1 where "p1 = p\<lparr>pc_app := (pc_app p)\<lparr>ap_ready := False, ap_registered := False\<rparr>\<rparr>"
  have 1: "conn_at st a1 p1" using assms(1) by (simp add: a1_def p1_def conn_at_def)
  have held: "holds st a1" "cn_db st = Opened" using assms(2,3) by (auto simp: holds_def a1_def)
  let ?errs = "case e of None \<Rightarrow> [] | Some err \<Rightarrow> [ErrorfW (''run http server: '' @ Error err) err]"
  obtain es2 p2 where server: "collect (ap_Server a1) ''shutdown http server'' (callP env ServerShutdown) ?errs p1 = (es2, p2)"
    by (cases "collect (ap_Server a1) ''shutdown http server'' (callP env ServerShutdown) ?errs p1")
  from server 1 held(2) have 2: "conn_at st a1 p2" and es2: "\<exists>l. es2 = Inr l"
    by (auto simp: collect_def run_simps conn_simps split: option.splits if_splits prod.splits)
  then obtain l2 where l2: "es2 = Inr l2" by blast
  obtain es3 p3 where stop: "collect (ro_Stop (ap_runtime a1)) ''stop service runtime'' (callP env RuntimeStop) l2 p2 = (es3, p3)"
    by (cases "collect (ro_Stop (ap_runtime a1)) ''stop service runtime'' (callP env RuntimeStop) l2 p2")
  define st3 where "st3 = (if ro_Stop (ap_runtime a1) then st\<lparr>cn_running := False\<rparr> else st)"
  from stop 2 held(2) have 3: "conn_at st3 a1 p3" and es3: "\<exists>l. es3 = Inr l"
    by (auto simp: collect_def run_simps conn_simps st3_def split: option.splits if_splits prod.splits)
  then obtain l3 where l3: "es3 = Inr l3" by blast
  have held3: "holds st3 a1" using held(1) by (simp add: holds_def st3_def)
  obtain q p4 where close: "App_Close env p3 = (q, p4)" by (cases "App_Close env p3")
  from App_Close_run [OF 3 held3 close] obtain st4 where
    4: "conn_at st4 (ap_ready_update (\<lambda>_. False) a1) p4" "released st4" "cn_running st4 = cn_running st3" by blast
  have app: "pc_app p1 = a1" using 1 by (simp add: conn_at_def)
  have steps: "bindA (collect (ap_Server a1) ''shutdown http server'' (callP env ServerShutdown) ?errs) k p1 = k l2 p2"
    "bindA (collect (ro_Stop (ap_runtime a1)) ''stop service runtime'' (callP env RuntimeStop) l2) k p2 = k l3 p3" for k :: "go_error list \<Rightarrow> unit proc"
    using server stop by (simp_all add: bindA_def l2 l3)
  have "p' = p4"
    using assms(4) unfolding App_shutdown_def bindA_steps(2) p1_def [symmetric] bindA_steps(1) app Let_def
      steps bindA_steps(3) close prod.case
    by (auto simp: errorsJoin_def split: if_splits)
  with 4 show ?thesis
    by (intro exI [of _ st4] exI [of _ "ap_ready_update (\<lambda>_. False) a1"]) (simp add: a1_def st3_def)
qed

text \<open>The end of a process: nothing is open, it is not ready, and a runtime that can be stopped was.\<close>

definition ended :: "process \<Rightarrow> bool" where
  "ended p \<longleftrightarrow> (\<exists>st. protocol fresh (pc_trace p) = Some st \<and> released st \<and> \<not> ap_ready (pc_app p) \<and>
     (ro_Stop (ap_runtime (pc_app p)) \<longrightarrow> \<not> cn_running st))"

lemma endedI: "conn_at st a p \<Longrightarrow> released st \<Longrightarrow> \<not> ap_ready a \<Longrightarrow> (ro_Stop (ap_runtime a) \<longrightarrow> \<not> cn_running st) \<Longrightarrow> ended p"
  by (auto simp: ended_def conn_at_def)

lemma App_Close_ends:
  assumes "conn_at st a p" and "holds st a" and "\<not> cn_running st" and "App_Close env p = (r, p')"
  shows "ended p'"
proof -
  from App_Close_run [OF assms(1,2,4)] obtain st' where
    st': "conn_at st' (ap_ready_update (\<lambda>_. False) a) p'" "released st'" "cn_running st' = cn_running st" by blast
  show ?thesis using assms(3) st'(3) by (intro endedI [OF st'(1,2)]) simp_all
qed

lemma App_Run_ends:
  assumes at: "conn_at st a p" and held: "holds st a" "ap_DB a" "ap_Server a" "\<not> cn_running st"
    and run: "App_Run env probes reason p = (r, p')"
  shows "ended p'"
proof -
  have app: "pc_app p = a" using at by (simp add: conn_at_def)
  have db: "cn_db st = Opened" using held(1,2) by (simp add: holds_def)
  obtain q p1 where start: "(if ro_Start (ap_runtime a) then tryA (callP env RuntimeStart) else returnA (Inr ())) p = (q, p1)"
    by (cases "(if ro_Start (ap_runtime a) then tryA (callP env RuntimeStart) else returnA (Inr ())) p")
  from start at db held(4) obtain st1 s1 where
    1: "conn_at st1 a p1" "q = Inr s1" "st1 = st\<lparr>cn_running := cn_running st1\<rparr>" "(\<exists>e. s1 = Inl e) \<longrightarrow> \<not> cn_running st1"
    by (auto simp: run_simps conn_simps split: if_splits option.splits)
  from 1(3) have "cn_db st1 = cn_db st" "cn_redis st1 = cn_redis st" "cn_tracing st1 = cn_tracing st" by (cases st; cases st1; simp)+
  with held(1) have held1: "holds st1 a" by (simp add: holds_def)
  show ?thesis
  proof (cases s1)
    case (Inl e)
    define p2 where "p2 = p1\<lparr>pc_app := ap_ready_update (\<lambda>_. False) (pc_app p1)\<rparr>"
    have 2: "conn_at st1 (ap_ready_update (\<lambda>_. False) a) p2" unfolding p2_def using 1(1) by (rule conn_at_setApp)
    obtain c p3 where close: "App_Close env p2 = (c, p3)" by (cases "App_Close env p2")
    have "p' = p3"
      using run start close held(3) 1(2) Inl
      by (auto simp: App_Run_def bindA_steps(1) app bindA_run bindA_steps(2) p2_def [symmetric] bindA_steps(3))
    moreover have "ended p3" using 1(4) Inl held1 by (intro App_Close_ends [OF 2 _ _ close]) (simp_all add: holds_def)
    ultimately show ?thesis by simp
  next
    case (Inr u)
    let ?probes = "forA (\<lambda>_. bindA (tryA (App_Ready env)) (\<lambda>_. returnA ())) [0..<probes]"
    obtain c p2 where probes: "?probes p1 = (c, p2)" by (cases "?probes p1")
    from probes_run [OF 1(1) held1 probes] have 2: "conn_at st1 a p2" and c: "c = Inr ()" by simp_all
    have "App_shutdown env (case reason of ServerReturned err \<Rightarrow> err | Signalled \<Rightarrow> None) p2 = (r, p')"
      using run start probes held(3) 1(2) Inr c by (simp add: App_Run_def bindA_steps(1) app bindA_run(1))
    from App_shutdown_run [OF 2 held1 held(2) this] show ?thesis by (auto intro: endedI)
  qed
qed

lemma registerRuntime_run:
  "conn_at st a p \<Longrightarrow> registerRuntime options p = (r, p') \<Longrightarrow> \<exists>a'. r = Inr () \<and> conn_at st a' p' \<and> ap_Server a' \<and>
     ap_ready a' = ap_ready a \<and> ap_runtime a' = options \<and> ap_DB a' = ap_DB a \<and> (holds st a \<longrightarrow> holds st a')"
  by (auto simp: registerRuntime_def setApp_def conn_at_def holds_def)

lemma NewWithOptions_run:
  assumes "pc_trace p = []" and "\<not> ap_ready (pc_app p)" and "ap_runtime (pc_app p) = no_runtime"
    and run: "NewWithOptions env texts getenv serviceName no_runtime p = (r, p')"
  shows "case r of Inl _ \<Rightarrow> ended p'
    | Inr _ \<Rightarrow> \<exists>st a. conn_at st a p' \<and> holds st a \<and> ap_DB a \<and> ap_Server a \<and> \<not> cn_running st"
proof (cases "Load texts getenv serviceName")
  case (Inl e)
  with run have "r = Inl (ErrorfW (''load config: '' @ Error e) e)" "p' = p"
    by (simp_all add: NewWithOptions_def run_simps)
  with assms show ?thesis by (simp add: ended_def released_def fresh_def no_runtime_def)
next
  case (Inr cfg)
  note load = Inr
  show ?thesis
  proof (cases "parseLevel texts (gA_LogLevel (g_App cfg))")
    case (Inl e)
    with run load have "\<exists>e. r = Inl e" "p' = p" by (auto simp: NewWithOptions_def run_simps)
    with assms show ?thesis by (auto simp: ended_def released_def fresh_def no_runtime_def)
  next
    case (Inr level)
    define p1 where "p1 = p\<lparr>pc_app := new_app cfg\<rparr>"
    have 1: "conn_at fresh (new_app cfg) p1" using assms(1) by (simp add: p1_def conn_at_def)
    obtain q p2 where tracing: "callP env TracingNew p1 = (q, p2)" by (cases "callP env TracingNew p1")
    show ?thesis
    proof (cases q)
      case (Inl e)
      with tracing 1 have "conn_at fresh (new_app cfg) p2"
        by (auto simp: callP_def conn_simps fresh_def split: option.splits)
      moreover have "\<exists>e. r = Inl e" "p' = p2"
        using run load \<open>parseLevel _ _ = Inr level\<close> tracing Inl
        by (auto simp: NewWithOptions_def wrapP_def mapErrA_def bindA_def liftA_def setApp_def p1_def [symmetric])
      ultimately show ?thesis by (auto intro!: endedI simp: released_def fresh_def new_app_def)
    next
      case (Inr u)
      define a3 where "a3 = ap_Tracing_update (\<lambda>_. True) (new_app cfg)"
      define p3 where "p3 = p2\<lparr>pc_app := ap_Tracing_update (\<lambda>_. True) (pc_app p2)\<rparr>"
      define st3 where "st3 = fresh\<lparr>cn_tracing := Opened\<rparr>"
      have "conn_at st3 (new_app cfg) p2"
        using tracing Inr 1 by (auto simp: callP_def conn_simps fresh_def st3_def split: option.splits)
      then have 3: "conn_at st3 a3 p3" unfolding a3_def p3_def by (rule conn_at_setApp)
      have held3: "cn_db st3 = Never" "cn_redis st3 = Never" "holds st3 a3" "\<not> cn_running st3" "ap_ready a3 = False"
        by (simp_all add: st3_def fresh_def a3_def new_app_def holds_def)
      obtain d p4 where deps: "initDependencies env p3 = (d, p4)" by (cases "initDependencies env p3")
      from initDependencies_run [OF 3 held3(1-3) deps] held3(4,5) obtain st4 a4 where
        4: "conn_at st4 a4 p4" "holds st4 a4" "\<not> cn_running st4" "\<not> ap_ready a4" "d = Inr () \<longrightarrow> cn_db st4 = Opened" by auto
      have traced: "bindA (wrapP ''init tracing'' (callP env TracingNew)) k p1 = k () p2" for k :: "unit \<Rightarrow> unit proc"
        using tracing Inr by (simp add: bindA_def wrapP_def mapErrA_def)
      have step: "NewWithOptions env texts getenv serviceName no_runtime p =
          bindA (tryA (initDependencies env)) (\<lambda>r. case r of
            Inl err \<Rightarrow> bindA (tryA (App_Close env)) (\<lambda>_. throwA err)
          | Inr _ \<Rightarrow> bindA (registerRuntime no_runtime) (\<lambda>_. setApp (ap_ready_update (\<lambda>_. True)))) p3"
        unfolding NewWithOptions_def load \<open>parseLevel _ _ = Inr level\<close> bindA_steps(4) bindA_steps(2) p1_def [symmetric] traced
        by (simp only: bindA_steps(2) p3_def)
      show ?thesis
      proof (cases d)
        case (Inl e)
        obtain c p5 where close: "App_Close env p4 = (c, p5)" by (cases "App_Close env p4")
        have "r = Inl e" "p' = p5" using run Inl deps close unfolding step by (simp_all add: bindA_steps(3))
        with App_Close_ends [OF 4(1-3) close] show ?thesis by simp
      next
        case (Inr v)
        obtain c p5 where reg: "registerRuntime no_runtime p4 = (c, p5)" by (cases "registerRuntime no_runtime p4")
        from registerRuntime_run [OF 4(1) reg] obtain a5 where
          5: "c = Inr ()" "conn_at st4 a5 p5" "ap_Server a5" "ap_DB a5 = ap_DB a4" "holds st4 a5" using 4(2) by blast
        have "r = Inr ()" "p' = p5\<lparr>pc_app := ap_ready_update (\<lambda>_. True) (pc_app p5)\<rparr>"
          using run Inr deps reg 5(1) unfolding step by (simp_all add: bindA_steps(3) bindA_run(1) setApp_def)
        moreover have "conn_at st4 (ap_ready_update (\<lambda>_. True) a5) (p5\<lparr>pc_app := ap_ready_update (\<lambda>_. True) (pc_app p5)\<rparr>)"
          using 5(2) by (rule conn_at_setApp)
        moreover have "holds st4 (ap_ready_update (\<lambda>_. True) a5)" "ap_DB (ap_ready_update (\<lambda>_. True) a5)" "ap_Server (ap_ready_update (\<lambda>_. True) a5)"
          using 5 4(2,5) Inr by (simp_all add: holds_def)
        ultimately show ?thesis using 4(3)
          by simp (intro exI [of _ st4] exI [of _ "ap_ready_update (\<lambda>_. True) a5"] conjI, simp_all)
      qed
    qed
  qed
qed

lemma main_run_ends:
  assumes "pc_trace p = []" and "\<not> ap_ready (pc_app p)" and "ap_runtime (pc_app p) = no_runtime"
    and run: "main_run env texts getenv serviceName build probes reason p = (r, p')"
  shows "ended p'"
proof -
  obtain q p1 where new: "NewWithOptions env texts getenv serviceName no_runtime p = (q, p1)"
    by (cases "NewWithOptions env texts getenv serviceName no_runtime p")
  note started = NewWithOptions_run [OF assms(1-3) new]
  show ?thesis
  proof (cases q)
    case (Inl e)
    with run new have "p' = p1" by (simp add: main_run_def bindA_def)
    with started Inl show ?thesis by simp
  next
    case (Inr u)
    with started obtain st a where 1: "conn_at st a p1" "holds st a" "ap_DB a" "ap_Server a" "\<not> cn_running st" by auto
    have app: "pc_app p1 = a" using 1(1) by (simp add: conn_at_def)
    have body: "(case build a of Inl err \<Rightarrow> bindA (tryA (App_Close env)) (\<lambda>_. throwA err)
       | Inr runtimeOptions \<Rightarrow> bindA (registerRuntime runtimeOptions) (\<lambda>_. App_Run env probes reason)) p1 = (r, p')"
      using run new Inr by (simp add: main_run_def bindA_run(1) bindA_steps(1) app)
    show ?thesis
    proof (cases "build a")
      case (Inl e)
      obtain c p2 where close: "App_Close env p1 = (c, p2)" by (cases "App_Close env p1")
      with body Inl have "p' = p2" by (simp add: bindA_steps(3))
      with App_Close_ends [OF 1(1,2,5) close] show ?thesis by simp
    next
      case (Inr options)
      obtain c p2 where reg: "registerRuntime options p1 = (c, p2)" by (cases "registerRuntime options p1")
      from registerRuntime_run [OF 1(1) reg] 1(2,3) obtain a2 where
        2: "c = Inr ()" "conn_at st a2 p2" "ap_Server a2" "ap_DB a2" "holds st a2" by auto
      have "App_Run env probes reason p2 = (r, p')" using body Inr reg 2(1) by (simp add: bindA_run(1))
      with App_Run_ends [OF 2(2,5,4,3) 1(5)] show ?thesis by simp
    qed
  qed
qed


text \<open>A job service whose start-up goes well, with one probe and a signal.\<close>

definition healthyEnv :: platform_env where
  "healthyEnv = \<lparr>pe_answer = (\<lambda>n c. None), pe_parse_endpoint = (\<lambda>s. None), pe_aws_config = (\<lambda>n. None)\<rparr>"

lemma healthy_run:
  "pc_trace (snd (main_run healthyEnv sampleTexts sampleGetenv ''job-service''
       (\<lambda>a. Inr \<lparr>ro_Handler = False, ro_Ready = True, ro_Start = True, ro_Stop = True\<rparr>) 1 Signalled
       \<lparr>pc_app = new_app default_config, pc_trace = []\<rparr>)) =
     map Did [TracingNew, SqlOpen, DbPing, RedisNew, RedisPing, HeadBucket ''public'', HeadBucket ''private'', RuntimeStart,
       DbPing, RedisPing, HeadBucket ''public'', HeadBucket ''private'', RuntimeReady,
       ServerShutdown, RuntimeStop, RedisClose, DbClose, TracingShutdown]"
  by code_simp

end
