(* ===== verification/Spec2Isabelle.thy ===== *)
theory Spec2Isabelle
  imports SystemLaws PageLaws IdempotencyLaws AdminHttpLaws JobSchedulerLaws PlatformLaws
begin

text \<open>
  Verification of the file service (upload, admin, access and job services).
\<close>

section \<open>The services on one database\<close>

text \<open>
  One step is one transaction or one handler of a service, on whatever the storage, the clock
  and the connection answer (the environment is a variable of each rule, so is the outcome). The
  completion of an upload occurs as a whole and as its separate transactions, because other
  steps may come between them; a session is also saved on its own, as the abort and the inline
  upload do after their read.
\<close>

inductive service_step :: "world \<Rightarrow> world \<Rightarrow> bool" where
  create: "CreateUploadSession env cfg cmd w = (r1, w') \<Longrightarrow> service_step w w'"
| inline: "UploadInlineContent env icmd w = (r2, w') \<Longrightarrow> service_step w w'"
| abort: "AbortUploadSession env hasMultipart acmd w = (r3, w') \<Longrightarrow> service_step w w'"
| save: "SessionRepository_Save env session w = (r4, w') \<Longrightarrow> service_step w w'"
| acquire: "SessionRepository_AcquireCompletion env NoTx request w = (r5, w') \<Longrightarrow> service_step w w'"
| materialize: "materialize env h session ccmd w = (r6, w') \<Longrightarrow> service_step w w'"
| commit: "all_ports h \<Longrightarrow> commit env h session token m requestID w = (r7, w') \<Longrightarrow> service_step w w'"
| failure: "finalizeFailure env h session token requestID cause w = (r8, w') \<Longrightarrow> service_step w w'"
| complete: "all_ports h \<Longrightarrow> CompleteUploadSession env h ccmd w = (r9, w') \<Longrightarrow> service_step w w'"
| delete: "DeleteFile env dcmd w = (r10, w') \<Longrightarrow> service_step w w'"
| create_tenant: "CreateTenant env tcmd w = (r11, w') \<Longrightarrow> service_step w w'"
| patch_tenant: "PatchTenant env pcmd w = (r12, w') \<Longrightarrow> service_step w w'"
| patch_policy: "PatchTenantPolicy env qcmd w = (r13, w') \<Longrightarrow> service_step w w'"
| expire: "ExpirePendingSessions env locked before limit w = (r14, w') \<Longrightarrow> service_step w w'"
| repair: "RepairStuckCompleting env locked before limit w = (r15, w') \<Longrightarrow> service_step w w'"
| finalize: "FinalizeDeletedFiles env locked hasStorage before limit w = (r16, w') \<Longrightarrow> service_step w w'"
| orphans: "CleanupOrphanBlobs env locked hasStorage before limit w = (r17, w') \<Longrightarrow> service_step w w'"
| multipart: "CleanupMultipartUploads env locked hasStorage before limit w = (r18, w') \<Longrightarrow> service_step w w'"
| reconcile: "ReconcileTenantUsage env limit w = (r19, w') \<Longrightarrow> service_step w w'"
| outbox: "ProcessOutboxEventsJob env locked (newOutboxConsumer batch) w = (r20, w') \<Longrightarrow> service_step w w'"

text \<open>A database without files and blobs, and what the services make of it.\<close>

inductive reachable :: "world \<Rightarrow> bool" where
  start: "file_assets (w_db w) = [] \<Longrightarrow> blob_objects (w_db w) = [] \<Longrightarrow> reachable w"
| step: "reachable w \<Longrightarrow> service_step w w' \<Longrightarrow> reachable w'"

lemma sound_run: "sound.keeps m \<Longrightarrow> m w = (r, w') \<Longrightarrow> files_sound (w_db w) \<Longrightarrow> files_sound (w_db w')"
  using sound.keepsD [of m w r w'] by simp

lemmas sound_runs = sound_rules [THEN sound_run]

lemma service_step_sound: "service_step w w' \<Longrightarrow> files_sound (w_db w) \<Longrightarrow> files_sound (w_db w')"
  by (induction rule: service_step.induct; erule sound_runs; assumption)

lemma reachable_sound: "reachable w \<Longrightarrow> files_sound (w_db w)"
proof (induction rule: reachable.induct)
  case (start w)
  then show ?case by (simp add: files_sound_def references_exact_def refs_def active_refs_def lookup_row_def)
next
  case (step w w')
  then show ?case using service_step_sound by blast
qed

text \<open>
  Claim C1. However the transactions of the services interleave, and whatever fails, files and
  blobs fit together: file and blob identifiers are unique, every blob counts exactly its ACTIVE
  files, every ACTIVE file has its blob with a positive count, and a cleanup job that runs next
  asks the storage to delete only objects of blobs that no ACTIVE file uses.
\<close>

theorem reachable_files_and_blobs_fit:
  assumes "reachable w"
  shows "references_exact (w_db w) \<and> distinct (map fa_file_id (file_assets (w_db w))) \<and>
    (\<forall>f \<in> set (file_assets (w_db w)). fa_status f = FileStatusActive \<longrightarrow>
       (\<exists>b \<in> set (blob_objects (w_db w)). bo_blob_object_id b = fa_blob_object_id f \<and> 1 \<le> bo_reference_count b)) \<and>
    (\<forall>env locked hasStorage before limit r w'.
       FinalizeDeletedFiles env locked hasStorage before limit w = (r, w') \<or>
       CleanupOrphanBlobs env locked hasStorage before limit w = (r, w') \<longrightarrow>
       (\<exists>cs. w_calls w' = w_calls w @ cs \<and>
          (\<forall>c \<in> set cs. \<exists>b \<in> set (blob_objects (w_db w)). c = CallDeleteObject (blob_ref b) \<and>
             (\<forall>f \<in> set (file_assets (w_db w)). fa_blob_object_id f = bo_blob_object_id b \<longrightarrow> fa_status f \<noteq> FileStatusActive))))"
proof -
  have ok: "files_sound (w_db w)" using assms by (rule reachable_sound)
  then have exact: "references_exact (w_db w)" by (simp add: files_sound_def)
  let ?unused = "\<lambda>c. \<exists>b \<in> set (blob_objects (w_db w)). c = CallDeleteObject (blob_ref b) \<and>
      (\<forall>f \<in> set (file_assets (w_db w)). fa_blob_object_id f = bo_blob_object_id b \<longrightarrow> fa_status f \<noteq> FileStatusActive)"
  have unused: "?unused c" if "unreferenced_call (w_db w) c" for c
    using that unreferenced_has_no_active_file [OF exact] by (fastforce simp: unreferenced_call_def)
  have "\<exists>cs. w_calls w' = w_calls w @ cs \<and> (\<forall>c \<in> set cs. ?unused c)"
    if run: "FinalizeDeletedFiles env locked hasStorage before limit w = (r, w') \<or>
      CleanupOrphanBlobs env locked hasStorage before limit w = (r, w')" for env locked hasStorage before limit r w'
  proof -
    obtain cs where "w_calls w' = w_calls w @ cs" "list_all (unreferenced_call (w_db w)) cs"
      using cleanup_runs [OF run] by (auto simp: adds_calls_def)
    with unused show ?thesis by (auto simp: list_all_iff)
  qed
  then show ?thesis using ok active_file_has_blob [OF ok] by (simp add: files_sound_def)
qed

theorem reachable_files_and_blobs_fit_witness:
  "\<exists>res w'. commit sampleEnv samplePorts sampleCompleting ''tok'' sampleUpload ''r1'' (sampleWorld [sampleCompleting]) = (Inr res, w') \<and>
     reachable w' \<and> length (file_assets (w_db w')) = 1 \<and> references_exact (w_db w')"
proof -
  obtain res w' where run: "commit sampleEnv samplePorts sampleCompleting ''tok'' sampleUpload ''r1'' (sampleWorld [sampleCompleting]) = (Inr res, w')"
    and len: "length (file_assets (w_db w')) = 1" using sample_commit by blast
  have "reachable (sampleWorld [sampleCompleting])" by (rule reachable.start) (simp_all add: sampleWorld_def sampleDB_def)
  moreover have "all_ports samplePorts" by (simp add: all_ports_def samplePorts_def)
  ultimately have w': "reachable w'" using run by (metis reachable.step service_step.commit)
  with run len reachable_files_and_blobs_fit [OF w'] show ?thesis by blast
qed

end
